(* ===== verification/Platform_Prelude.thy ===== *)
theory Platform_Prelude
  imports Complex_Main "HOL-Library.Char_ord" "HOL-Library.List_Lexorder" "HOL-Library.Sublist"
begin

text \<open>
  Shared vocabulary of the development: the exceptions of the program as values, the
  result type of fallible functions, and the parts of the C++ string library the sources
  use (prefix and suffix tests, \<^verbatim>\<open>find\<close>, \<^verbatim>\<open>std::getline\<close> with a delimiter, decimal and
  hexadecimal output with \<^verbatim>\<open>setw\<close>/\<^verbatim>\<open>setfill\<close>, character classes of the C locale).
  A \<^verbatim>\<open>std::string\<close> is a list of bytes; its order is the byte-lexicographic order, which
  is the order of HOL-Library's \<^verbatim>\<open>List_Lexorder\<close> over \<^verbatim>\<open>Char_ord\<close>.
\<close>

named_theorems result_simps and str_simps

section \<open>Exceptions as values\<close>

text \<open>
  One constructor per exception class the sources throw (\<^verbatim>\<open>PlatformCore/Core/Errors.hpp\<close>,
  \<^verbatim>\<open>MemoryStateStoreError\<close>, the standard \<^verbatim>\<open>runtime_error\<close> and \<^verbatim>\<open>logic_error\<close>), each carrying
  the message. \<open>JsonError\<close> and \<open>OutOfRange\<close> stand for the exceptions of the JSON
  accessors and of \<^verbatim>\<open>at()\<close>.
\<close>

datatype platform_error =
    ValidationError string
  | WorkspaceError string
  | ResolutionError string
  | FetchError string
  | CacheError string
  | PackError string
  | PublishError string
  | ToolError string
  | VendorError string
  | PlanError string
  | CompatibilityError string
  | CompilerProbeError string
  | MemoryStateStoreError string
  | RuntimeError string
  | LogicError string
  | JsonError
  | OutOfRange

type_synonym 'a result = "platform_error + 'a"

definition rbind :: "'a result \<Rightarrow> ('a \<Rightarrow> 'b result) \<Rightarrow> 'b result" where
  "rbind m f = (case m of Inl e \<Rightarrow> Inl e | Inr x \<Rightarrow> f x)"

definition guard_err :: "bool \<Rightarrow> platform_error \<Rightarrow> unit result" where
  "guard_err bad e = (if bad then Inl e else Inr ())"

fun rmap :: "('a \<Rightarrow> 'b result) \<Rightarrow> 'a list \<Rightarrow> 'b list result" where
  "rmap f [] = Inr []"
| "rmap f (x # xs) = rbind (f x) (\<lambda>y. rbind (rmap f xs) (\<lambda>ys. Inr (y # ys)))"

lemma rbind_simps [simp, result_simps]:
  "rbind (Inl e) f = Inl e"
  "rbind (Inr x) f = f x"
  by (simp_all add: rbind_def)

lemma rbind_eq_Inr [result_simps]:
  "rbind m f = Inr y \<longleftrightarrow> (\<exists>x. m = Inr x \<and> f x = Inr y)"
  by (cases m) auto

lemma rbind_eq_Inl [result_simps]:
  "rbind m f = Inl e \<longleftrightarrow> m = Inl e \<or> (\<exists>x. m = Inr x \<and> f x = Inl e)"
  by (cases m) auto

lemma guard_err_eq [simp, result_simps]:
  "guard_err b e = Inr u \<longleftrightarrow> \<not> b"
  "guard_err b e = Inl e' \<longleftrightarrow> b \<and> e' = e"
  by (auto simp: guard_err_def)

lemma guard_err_vals [simp]:
  "guard_err True e = Inl e"
  "guard_err False e = Inr ()"
  by (simp_all add: guard_err_def)

lemma rmap_eq_Inr: "rmap f xs = Inr ys \<longleftrightarrow> list_all2 (\<lambda>x y. f x = Inr y) xs ys"
  by (induction xs arbitrary: ys) (auto simp: rbind_eq_Inr list_all2_Cons1)

section \<open>Strings\<close>

definition starts_with :: "string \<Rightarrow> string \<Rightarrow> bool" where
  "starts_with s p = (take (length p) s = p)"

definition ends_with :: "string \<Rightarrow> string \<Rightarrow> bool" where
  "ends_with s p = starts_with (rev s) (rev p)"

fun contains_sub :: "string \<Rightarrow> string \<Rightarrow> bool" where
  "contains_sub [] p = (p = [])"
| "contains_sub (c # cs) p = (starts_with (c # cs) p \<or> contains_sub cs p)"

fun find_char :: "char \<Rightarrow> string \<Rightarrow> nat option" where
  "find_char c [] = None"
| "find_char c (x # xs) = (if x = c then Some 0 else map_option Suc (find_char c xs))"

definition rfind_char :: "char \<Rightarrow> string \<Rightarrow> nat option" where
  "rfind_char c s = map_option (\<lambda>i. length s - 1 - i) (find_char c (rev s))"

text \<open>
  The loops \<^verbatim>\<open>while (!value.empty() && value.back() == c) value.pop_back();\<close> and its
  counterpart at the front.
\<close>

definition strip_back :: "char \<Rightarrow> string \<Rightarrow> string" where
  "strip_back c s = rev (dropWhile (\<lambda>x. x = c) (rev s))"

definition strip_front :: "char \<Rightarrow> string \<Rightarrow> string" where
  "strip_front c s = dropWhile (\<lambda>x. x = c) s"

text \<open>
  The items a loop \<^verbatim>\<open>while (std::getline(stream, item, d))\<close> reads: the text between
  delimiters, empty items included, except that nothing follows a final delimiter.
\<close>

fun getlines :: "char \<Rightarrow> string \<Rightarrow> string list" where
  "getlines d [] = []"
| "getlines d (c # cs) =
     (if c = d then [] # getlines d cs
      else (case getlines d cs of
              [] \<Rightarrow> [[c]]
            | item # items \<Rightarrow> (c # item) # items))"

fun join_with :: "string \<Rightarrow> string list \<Rightarrow> string" where
  "join_with sep [] = []"
| "join_with sep [x] = x"
| "join_with sep (x # y # ys) = x @ sep @ join_with sep (y # ys)"

lemma starts_with_append [simp]: "starts_with (p @ s) p"
  by (simp add: starts_with_def)

lemma starts_with_iff: "starts_with s p \<longleftrightarrow> (\<exists>r. s = p @ r)"
  by (metis append_eq_conv_conj append_take_drop_id starts_with_def)

lemma starts_with_Nil [simp]: "starts_with s []"
  by (simp add: starts_with_def)

lemma starts_with_Cons [simp]:
  "starts_with [] (x # p) \<longleftrightarrow> False"
  "starts_with (c # s) (x # p) \<longleftrightarrow> c = x \<and> starts_with s p"
  by (auto simp: starts_with_def)

lemma ends_with_iff: "ends_with s p \<longleftrightarrow> (\<exists>r. s = r @ p)"
  unfolding ends_with_def starts_with_iff
  by (metis rev_append rev_rev_ident)

lemma find_char_None [simp]: "find_char c s = None \<longleftrightarrow> c \<notin> set s"
  by (induction s) auto

lemma find_char_append:
  "c \<notin> set s \<Longrightarrow> find_char c (s @ c # r) = Some (length s)"
  by (induction s) auto

lemma find_char_SomeD:
  "find_char c s = Some i \<Longrightarrow> i < length s \<and> s ! i = c \<and> c \<notin> set (take i s)"
  by (induction s arbitrary: i) (auto split: if_splits)

lemma find_char_Some_split:
  assumes "find_char c s = Some i"
  shows "s = take i s @ c # drop (Suc i) s" "c \<notin> set (take i s)"
  using find_char_SomeD [OF assms] id_take_nth_drop [of i s] by auto

lemma rfind_char_append:
  "c \<notin> set r \<Longrightarrow> rfind_char c (s @ c # r) = Some (length s)"
  by (simp add: rfind_char_def find_char_append)

lemma append_sep_inj: "c \<notin> set p \<Longrightarrow> c \<notin> set q \<Longrightarrow> p @ c # s = q @ c # t \<longleftrightarrow> p = q \<and> s = t"
proof (induction p arbitrary: q)
  case Nil then show ?case by (cases q) auto
next
  case (Cons a p) then show ?case by (cases q) auto
qed

lemma strip_back_last: "strip_back c s \<noteq> [] \<Longrightarrow> last (strip_back c s) \<noteq> c"
  unfolding strip_back_def
  by (metis (mono_tags) hd_dropWhile last_rev rev.simps(1))

lemma strip_front_hd: "strip_front c s \<noteq> [] \<Longrightarrow> hd (strip_front c s) \<noteq> c"
  unfolding strip_front_def using hd_dropWhile by blast

lemma strip_back_prefix: "\<exists>n. s = strip_back c s @ replicate n c"
proof -
  have "s = rev (dropWhile (\<lambda>x. x = c) (rev s)) @ rev (takeWhile (\<lambda>x. x = c) (rev s))"
    by (metis rev_append rev_rev_ident takeWhile_dropWhile_id)
  moreover have "takeWhile (\<lambda>x. x = c) (rev s) = replicate (length (takeWhile (\<lambda>x. x = c) (rev s))) c"
    by (metis (mono_tags, lifting) replicate_length_same set_takeWhileD)
  ultimately show ?thesis
    unfolding strip_back_def by (metis rev_replicate)
qed

lemma strip_back_idem [simp]: "strip_back c (strip_back c s) = strip_back c s"
  by (simp add: strip_back_def)

lemma strip_front_idem [simp]: "strip_front c (strip_front c s) = strip_front c s"
  by (simp add: strip_front_def)

lemma strip_back_id: "s = [] \<or> last s \<noteq> c \<Longrightarrow> strip_back c s = s"
  by (cases s rule: rev_cases) (auto simp: strip_back_def)

lemma strip_front_id: "s = [] \<or> hd s \<noteq> c \<Longrightarrow> strip_front c s = s"
  by (cases s) (auto simp: strip_front_def)

lemma getlines_delim: "d \<notin> set s \<Longrightarrow> getlines d (s @ d # r) = s # getlines d r"
  by (induction s) auto

lemma getlines_single: "d \<notin> set s \<Longrightarrow> s \<noteq> [] \<Longrightarrow> getlines d s = [s]"
proof (induction s)
  case (Cons c cs)
  then show ?case by (cases cs) (auto split: list.splits)
qed simp

lemma getlines_no_delim: "x \<in> set (getlines d s) \<Longrightarrow> d \<notin> set x"
  by (induction s arbitrary: x) (auto split: if_splits list.splits)

lemma getlines_chars: "x \<in> set (getlines d s) \<Longrightarrow> set x \<subseteq> set s"
  by (induction s arbitrary: x) (fastforce split: if_splits list.splits)+

lemma getlines_Nil_iff [simp]: "getlines d s = [] \<longleftrightarrow> s = []"
  by (cases s) (auto split: list.splits)

lemma getlines_join:
  assumes "\<forall>x \<in> set xs. d \<notin> set x" and "xs = [] \<or> last xs \<noteq> []"
  shows "getlines d (join_with [d] xs) = xs"
  using assms
proof (induction xs rule: induct_list012)
  case (2 x)
  then show ?case by (simp add: getlines_single)
next
  case (3 x y ys)
  then show ?case by (simp add: getlines_delim)
qed simp

lemma join_with_Cons: "ys \<noteq> [] \<Longrightarrow> join_with sep (x # ys) = x @ sep @ join_with sep ys"
  by (cases ys) auto

lemma join_with_push: "join_with sep ((c # x) # ys) = c # join_with sep (x # ys)"
  by (cases ys) auto

lemma join_getlines: "s = [] \<or> last s \<noteq> d \<Longrightarrow> join_with [d] (getlines d s) = s"
proof (induction s)
  case (Cons c cs)
  show ?case
  proof (cases "c = d")
    case True
    with Cons.prems have "cs \<noteq> []" "last cs \<noteq> d" by (auto split: if_splits)
    with Cons.IH True show ?thesis by (simp add: join_with_Cons)
  next
    case False
    with Cons show ?thesis by (auto simp: join_with_push split: list.splits if_splits)
  qed
qed simp

text \<open>Splitting at a delimiter and dropping the empty items undoes joining with it.\<close>

lemma split_join:
  assumes "\<forall>x \<in> set xs. x \<noteq> [] \<and> d \<notin> set x"
  shows "filter (\<lambda>item. item \<noteq> []) (getlines d (join_with [d] xs)) = xs"
proof -
  have "getlines d (join_with [d] xs) = xs"
    using assms last_in_set by (intro getlines_join) blast+
  with assms show ?thesis by (simp add: filter_id_conv)
qed

lemma getlines_cons_rest:
  "getlines d s = x # xs \<Longrightarrow> s = x \<and> xs = [] \<and> d \<notin> set s \<or> (\<exists>r. s = x @ d # r \<and> getlines d r = xs)"
proof (induction s arbitrary: x xs)
  case (Cons c cs)
  show ?case
  proof (cases "c = d")
    case False
    show ?thesis
    proof (cases "getlines d cs")
      case Nil
      with False Cons.prems show ?thesis by auto
    next
      case (Cons item items)
      with False Cons.prems have x: "x = c # item" "xs = items" by auto
      from Cons.IH [OF Cons] False x show ?thesis by auto
    qed
  qed (use Cons.prems in auto)
qed simp

subsection \<open>Character classes of the C locale\<close>

definition is_digit :: "char \<Rightarrow> bool" where
  "is_digit c = (CHR ''0'' \<le> c \<and> c \<le> CHR ''9'')"

definition is_lower :: "char \<Rightarrow> bool" where
  "is_lower c = (CHR ''a'' \<le> c \<and> c \<le> CHR ''z'')"

definition is_upper :: "char \<Rightarrow> bool" where
  "is_upper c = (CHR ''A'' \<le> c \<and> c \<le> CHR ''Z'')"

definition is_alnum :: "char \<Rightarrow> bool" where
  "is_alnum c = (is_digit c \<or> is_lower c \<or> is_upper c)"

lemmas char_class_defs = is_digit_def is_lower_def is_upper_def is_alnum_def

subsection \<open>Numbers as text\<close>

definition digit_char :: "nat \<Rightarrow> char" where
  "digit_char d = ''0123456789abcdef'' ! d"

definition digit_val :: "char \<Rightarrow> nat" where
  "digit_val c = (if is_digit c then of_char c - 48 else of_char c - 87)"

text \<open>The digits of a number in base \<open>b\<close>, most significant first, as stream output prints them.\<close>

fun digits_in :: "nat \<Rightarrow> nat \<Rightarrow> string" where
  "digits_in b n =
     (if b < 2 \<or> n < b then [digit_char n] else digits_in b (n div b) @ [digit_char (n mod b)])"

declare digits_in.simps [simp del]

definition string_of_nat :: "nat \<Rightarrow> string" where
  "string_of_nat n = digits_in 10 n"

definition string_of_int :: "int \<Rightarrow> string" where
  "string_of_int i = (if i < 0 then CHR ''-'' # string_of_nat (nat (- i)) else string_of_nat (nat i))"

text \<open>\<^verbatim>\<open>setw(width) << setfill(c)\<close>: pad on the left up to the width, never truncate.\<close>

definition pad_left :: "nat \<Rightarrow> char \<Rightarrow> string \<Rightarrow> string" where
  "pad_left w c s = replicate (w - length s) c @ s"

definition text_val :: "nat \<Rightarrow> string \<Rightarrow> nat" where
  "text_val b s = foldl (\<lambda>a c. a * b + digit_val c) 0 s"

lemma digit_char_all:
  "\<forall>d \<in> set [0..<16]. digit_val (digit_char d) = d"
  "\<forall>e \<in> set [0..<10]. \<forall>d \<in> set [0..<e]. digit_char d < digit_char e"
  by code_simp+

lemma digit_val_char [simp]: "d < 16 \<Longrightarrow> digit_val (digit_char d) = d"
  using digit_char_all(1) by simp

lemma digit_char_less: "d < e \<Longrightarrow> e < 10 \<Longrightarrow> digit_char d < digit_char e"
  using digit_char_all(2) by simp

lemma digit_char_zero [simp]: "digit_char 0 = CHR ''0''"
  by (simp add: digit_char_def)

lemma text_val_append: "text_val b (s @ [c]) = text_val b s * b + digit_val c"
  by (simp add: text_val_def)

lemma text_val_replicate: "text_val b (replicate n (CHR ''0'') @ s) = text_val b s"
proof -
  have "digit_val (CHR ''0'') = 0" by (simp add: digit_val_def is_digit_def)
  then have "foldl (\<lambda>a c. a * b + digit_val c) 0 (replicate n (CHR ''0'')) = 0"
    by (induction n) auto
  then show ?thesis by (simp add: text_val_def)
qed

lemma digits_in_val: "2 \<le> b \<Longrightarrow> b \<le> 16 \<Longrightarrow> text_val b (digits_in b n) = n"
proof (induction b n rule: digits_in.induct)
  case (1 b n)
  show ?case
  proof (cases "n < b")
    case True
    with 1 show ?thesis
      by (subst digits_in.simps) (simp add: text_val_def)
  next
    case False
    with 1 have "text_val b (digits_in b (n div b)) = n div b" by simp
    moreover have "n mod b < 16" using 1(2,3) by (meson less_le_trans mod_less_divisor pos2)
    ultimately show ?thesis
      using False 1(2) by (subst digits_in.simps) (simp add: text_val_append)
  qed
qed

lemma digits_in_not_Nil [simp]: "digits_in b n \<noteq> []"
  by (subst digits_in.simps) simp

lemma digits_in_chars:
  "2 \<le> b \<Longrightarrow> b \<le> 16 \<Longrightarrow> set (digits_in b n) \<subseteq> digit_char ` {..<b}"
proof (induction b n rule: digits_in.induct)
  case (1 b n)
  then have "n mod b < b" by simp
  with 1 show ?case by (subst digits_in.simps) auto
qed

lemma digits_in_length:
  "2 \<le> b \<Longrightarrow> n < b ^ w \<Longrightarrow> 0 < w \<Longrightarrow> length (digits_in b n) \<le> w"
proof (induction b n arbitrary: w rule: digits_in.induct)
  case (1 b n)
  show ?case
  proof (cases "n < b")
    case True
    with 1 show ?thesis by (subst digits_in.simps) simp
  next
    case False
    with 1(3) have "w \<noteq> 1" by auto
    with 1(4) obtain v where v: "w = Suc v" "0 < v" by (cases w) auto
    with 1(2,3) have "n div b < b ^ v" by (simp add: less_mult_imp_div_less mult.commute)
    with 1 False v have "length (digits_in b (n div b)) \<le> v" by simp
    with False v 1(2) show ?thesis by (subst digits_in.simps) simp
  qed
qed

lemma pad_left_val: "text_val b (pad_left w (CHR ''0'') s) = text_val b s"
  by (simp add: pad_left_def text_val_replicate)

lemma string_of_nat_val: "text_val 10 (string_of_nat n) = n"
  by (simp add: string_of_nat_def digits_in_val)

lemma string_of_nat_inj [simp]: "string_of_nat m = string_of_nat n \<longleftrightarrow> m = n"
  by (metis string_of_nat_val)

lemma padded_inj:
  "pad_left w (CHR ''0'') (string_of_nat m) = pad_left w (CHR ''0'') (string_of_nat n) \<longleftrightarrow> m = n"
  by (metis pad_left_val string_of_nat_val)

subsection \<open>Reading numbers and trimming\<close>

text \<open>The white space of the C locale's \<^verbatim>\<open>isspace\<close>, and the four characters the sources trim.\<close>

definition is_space :: "char \<Rightarrow> bool" where
  "is_space c = (c \<in> {CHR '' '', CHR 0x09, CHR 0x0A, CHR 0x0B, CHR 0x0C, CHR 0x0D})"

definition is_blank :: "char \<Rightarrow> bool" where
  "is_blank c = (c \<in> {CHR '' '', CHR 0x09, CHR 0x0A, CHR 0x0D})"

text \<open>\<^verbatim>\<open>find_first_not_of\<close> and \<^verbatim>\<open>find_last_not_of\<close> with \<^verbatim>\<open>substr\<close>: the text between the first and the
  last character that is not blank.\<close>

definition trim_blank :: "string \<Rightarrow> string" where
  "trim_blank s = rev (dropWhile is_blank (rev (dropWhile is_blank s)))"

text \<open>\<^verbatim>\<open>std::stoi\<close>: leading white space, an optional sign and the longest run of digits; whatever
  follows is ignored. No digits, or a value outside 32 bits, is an exception (\<open>None\<close>).\<close>

definition in_int32 :: "int \<Rightarrow> bool" where
  "in_int32 i = (- (2 ^ 31) \<le> i \<and> i < 2 ^ 31)"

definition stoi :: "string \<Rightarrow> int option" where
  "stoi s =
     (let t = dropWhile is_space s;
          neg = (t \<noteq> [] \<and> hd t = CHR ''-'');
          u = (if t \<noteq> [] \<and> (hd t = CHR ''-'' \<or> hd t = CHR ''+'') then tl t else t);
          digits = takeWhile is_digit u;
          v = (if neg then - int (text_val 10 digits) else int (text_val 10 digits))
      in if digits = [] \<or> \<not> in_int32 v then None else Some v)"

lemma dropWhile_hd: "dropWhile P s \<noteq> [] \<Longrightarrow> \<not> P (hd (dropWhile P s))"
  by (induction s) auto

lemma trim_blank_ends:
  assumes "trim_blank s \<noteq> []"
  shows "\<not> is_blank (hd (trim_blank s))" and "\<not> is_blank (last (trim_blank s))"
proof -
  let ?a = "dropWhile is_blank s" and ?b = "dropWhile is_blank (rev (dropWhile is_blank s))"
  from assms have ne: "?b \<noteq> []" by (simp add: trim_blank_def)
  have "\<not> is_blank (hd ?b)" using ne by (rule dropWhile_hd)
  then show "\<not> is_blank (last (trim_blank s))" using ne by (simp add: trim_blank_def last_rev)
  have "rev ?a = takeWhile is_blank (rev ?a) @ ?b" by simp
  then have a: "?a = rev ?b @ rev (takeWhile is_blank (rev ?a))" by (metis rev_append rev_rev_ident)
  with ne have "?a \<noteq> []" by (metis append_is_Nil_conv rev_is_Nil_conv)
  then have "\<not> is_blank (hd ?a)" by (rule dropWhile_hd)
  moreover have "hd ?a = hd (rev ?b)" using a ne by (metis hd_append2 rev_is_Nil_conv)
  ultimately show "\<not> is_blank (hd (trim_blank s))" by (simp add: trim_blank_def)
qed

lemma trim_blank_subset: "set (trim_blank s) \<subseteq> set s"
  unfolding trim_blank_def by (auto dest!: set_dropWhileD)

lemma trim_blank_id: "s = [] \<or> \<not> is_blank (hd s) \<and> \<not> is_blank (last s) \<Longrightarrow> trim_blank s = s"
  by (auto simp: trim_blank_def dropWhile_eq_self_iff [THEN iffD2] hd_rev)

end
