(* ===== verification/Sha256_Constants.thy ===== *)
theory Sha256_Constants
  imports Sha256_Core
begin

text \<open>
  The two constant tables of \<^verbatim>\<open>Sha256.cpp\<close> checked against their definition in FIPS 180-4,
  by exact integer arithmetic on scaled roots.
\<close>

definition root_bits :: "nat \<Rightarrow> int \<Rightarrow> u32 \<Rightarrow> bool" where
  "root_bits e p c =
     (let n = int (length (filter (\<lambda>k. k ^ e \<le> p) [1, 2, 3, 4, 5, 6, 7]));
          x = n * 2 ^ 32 + uint c
      in x ^ e \<le> p * (2 ^ 32) ^ e \<and> p * (2 ^ 32) ^ e < (x + 1) ^ e)"

text \<open>The sieve of Eratosthenes.\<close>

fun sieve :: "int list \<Rightarrow> int list" where
  "sieve [] = []"
| "sieve (p # ns) = p # sieve (filter (\<lambda>n. n mod p \<noteq> 0) ns)"

definition fips_primes :: "int list" where
  "fips_primes =
    [2, 3, 5, 7, 11, 13, 17, 19, 23, 29, 31, 37, 41, 43, 47, 53, 59, 61, 67, 71, 73, 79, 83, 89, 97,
     101, 103, 107, 109, 113, 127, 131, 137, 139, 149, 151, 157, 163, 167, 173, 179, 181, 191, 193,
     197, 199, 211, 223, 227, 229, 233, 239, 241, 251, 257, 263, 269, 271, 277, 281, 283, 293, 307, 311]"

lemma sieve_primes:
  "sieve [2..311] = fips_primes" "sieve [2..19] = take 8 fips_primes"
  by code_simp+

lemma root_tables:
  "list_all2 (root_bits 3) fips_primes kConstants"
  "list_all2 (root_bits 2) (take 8 fips_primes) sha256_iv"
  by code_simp+

text \<open>
  The constant tables are the ones the standard prescribes: the round constants are the
  first 32 bits of the fractional parts of the cube roots of the first 64 primes, the
  initial state those of the square roots of the first eight.
\<close>

theorem sha256_constants:
  "list_all2 (root_bits 3) (sieve [2..311]) kConstants
   \<and> list_all2 (root_bits 2) (sieve [2..19]) sha256_iv"
  unfolding sieve_primes using root_tables by (rule conjI)

end
