(* ===== verification/Sha256_Correct.thy ===== *)
theory Sha256_Correct
  imports Sha256_Core
begin

text \<open>
  The reference (FIPS 180-4, sections 4 to 6) and the proof that the buffered class computes
  it. \<open>sha_abs s m\<close> relates a state of the class to the message consumed so far: the state
  words are the compression of the whole blocks, the buffer holds the tail.
\<close>

unbundle bit_operations_syntax

section \<open>Reference\<close>

definition fips_S0 :: "u32 \<Rightarrow> u32" where
  "fips_S0 x = word_rotr 2 x XOR word_rotr 13 x XOR word_rotr 22 x"

definition fips_S1 :: "u32 \<Rightarrow> u32" where
  "fips_S1 x = word_rotr 6 x XOR word_rotr 11 x XOR word_rotr 25 x"

definition fips_s0 :: "u32 \<Rightarrow> u32" where
  "fips_s0 x = word_rotr 7 x XOR word_rotr 18 x XOR drop_bit 3 x"

definition fips_s1 :: "u32 \<Rightarrow> u32" where
  "fips_s1 x = word_rotr 17 x XOR word_rotr 19 x XOR drop_bit 10 x"

definition be_value :: "byte list \<Rightarrow> nat" where
  "be_value bs = foldl (\<lambda>acc b. acc * 256 + unat b) 0 bs"

fun fips_W :: "byte list \<Rightarrow> nat \<Rightarrow> u32" where
  "fips_W blk t =
     (if t < 16 then of_nat (be_value (take 4 (drop (4 * t) blk)))
      else fips_s1 (fips_W blk (t - 2)) + fips_W blk (t - 7) + fips_s0 (fips_W blk (t - 15)) + fips_W blk (t - 16))"

declare fips_W.simps [simp del]

fun fips_step :: "byte list \<Rightarrow> nat \<Rightarrow> working \<Rightarrow> working" where
  "fips_step blk 0 v = v"
| "fips_step blk (Suc t) v =
     (let (a, b, c, d, e, f, g, h) = fips_step blk t v;
          T1 = h + fips_S1 e + Ch e f g + kConstants ! t + fips_W blk t;
          T2 = fips_S0 a + Maj a b c
      in (T1 + T2, a, b, c, d + T1, e, f, g))"

definition fips_compress :: "u32 list \<Rightarrow> byte list \<Rightarrow> u32 list" where
  "fips_compress H blk =
     (let (a, b, c, d, e, f, g, h) =
            fips_step blk 64 (H ! 0, H ! 1, H ! 2, H ! 3, H ! 4, H ! 5, H ! 6, H ! 7)
      in [a + H ! 0, b + H ! 1, c + H ! 2, d + H ! 3, e + H ! 4, f + H ! 5, g + H ! 6, h + H ! 7])"

function blocks :: "byte list \<Rightarrow> byte list list" where
  "blocks m = (if length m < 64 then [] else take 64 m # blocks (drop 64 m))"
  by pat_completeness auto
termination
  by (relation "measure length") auto

declare blocks.simps [simp del]

text \<open>Section 5.1.1: append the bit 1, the least number of zeros, and the length in bits.\<close>

definition be64 :: "nat \<Rightarrow> byte list" where
  "be64 n = map (\<lambda>i. of_nat (n div 256 ^ (7 - i))) [0..<8]"

definition fips_pad :: "byte list \<Rightarrow> byte list" where
  "fips_pad m =
     m @ [0x80] @ replicate ((55 + 64 - length m mod 64) mod 64) 0 @ be64 (8 * length m)"

definition fips_sha256 :: "byte list \<Rightarrow> u32 list" where
  "fips_sha256 m = foldl fips_compress sha256_iv (blocks (fips_pad m))"

section \<open>The compression function\<close>

lemma RotateRight_eq: "0 < n \<Longrightarrow> n < 32 \<Longrightarrow> RotateRight x n = word_rotr n x"
proof (rule bit_word_eqI)
  fix k assume n: "0 < n" "n < 32" and k: "k < LENGTH(32)"
  show "bit (RotateRight x n) k = bit (word_rotr n x) k"
  proof (cases "n + k < 32")
    case True
    with n k show ?thesis
      by (auto simp: RotateRight_def bit_simps bit_word_rotr_iff add.commute)
  next
    case False
    with n k have "\<not> bit x (n + k)" "(n + k) mod 32 = k - (32 - n)"
      using bit_imp_le_length [of x "n + k"] by (auto simp: mod_if)
    with False n k show ?thesis
      by (auto simp: RotateRight_def bit_simps bit_word_rotr_iff add.commute)
  qed
qed

lemma sigma_eqs:
  "BigSigma0 = fips_S0" "BigSigma1 = fips_S1" "SmallSigma0 = fips_s0" "SmallSigma1 = fips_s1"
  by (simp_all add: fun_eq_iff BigSigma0_def BigSigma1_def SmallSigma0_def SmallSigma1_def
      fips_S0_def fips_S1_def fips_s0_def fips_s1_def RotateRight_eq)

lemma or_push_add:
  fixes x y :: u32
  assumes "\<And>k. bit x k \<Longrightarrow> n \<le> k" and "\<And>k. bit y k \<Longrightarrow> k < n"
  shows "x OR y = x + y"
  by (rule disjunctive_add [symmetric]) (use assms in \<open>meson not_le\<close>)

lemma bytes_or:
  fixes a b c d :: byte
  shows "push_bit 24 (ucast a :: u32) OR push_bit 16 (ucast b) OR push_bit 8 (ucast c) OR ucast d
       = of_nat (((unat a * 256 + unat b) * 256 + unat c) * 256 + unat d)"
proof -
  have small: "bit (ucast z :: u32) k \<Longrightarrow> k < 8" for z :: byte and k
    using bit_imp_le_length [of z k] by (simp add: bit_simps)
  have "push_bit 24 (ucast a :: u32) OR push_bit 16 (ucast b) OR push_bit 8 (ucast c) OR ucast d
      = push_bit 24 (ucast a :: u32) + (push_bit 16 (ucast b) + (push_bit 8 (ucast c) + ucast d))"
  proof -
    have 1: "push_bit 8 (ucast c :: u32) OR ucast d = push_bit 8 (ucast c) + ucast d"
      by (rule or_push_add [where n = 8]) (auto simp: bit_push_bit_iff dest: small)
    have 2: "push_bit 16 (ucast b :: u32) OR (push_bit 8 (ucast c) OR ucast d)
        = push_bit 16 (ucast b) + (push_bit 8 (ucast c) OR ucast d)"
      by (rule or_push_add [where n = 16]) (auto simp: bit_push_bit_iff bit_or_iff dest: small)
    have 3: "push_bit 24 (ucast a :: u32) OR (push_bit 16 (ucast b) OR (push_bit 8 (ucast c) OR ucast d))
        = push_bit 24 (ucast a) + (push_bit 16 (ucast b) OR (push_bit 8 (ucast c) OR ucast d))"
      by (rule or_push_add [where n = 24]) (auto simp: bit_push_bit_iff bit_or_iff dest: small)
    from 1 2 3 show ?thesis by (simp add: or.assoc)
  qed
  also have "\<dots> = of_nat (((unat a * 256 + unat b) * 256 + unat c) * 256 + unat d)"
    by (simp add: push_bit_eq_mult algebra_simps)
  finally show ?thesis .
qed

lemma load_word_eq:
  assumes "i + 3 < length blk"
  shows "load_word blk i = of_nat (be_value (take 4 (drop i blk)))"
proof -
  have "take 4 (drop i blk) = [blk ! i, blk ! (i + 1), blk ! (i + 2), blk ! (i + 3)]"
    using assms by (intro nth_equalityI) (auto simp: less_Suc_eq numeral_eq_Suc)
  then show ?thesis
    by (simp only: load_word_def bytes_or be_value_def) simp
qed

text \<open>Every slot of the schedule array holds the word the standard's recurrence gives.\<close>

lemma schedule_fold:
  assumes "length blk = 64" and "n \<le> 48"
  shows "length (foldl schedule_step (map (\<lambda>i. load_word blk (i * 4)) [0..<16] @ replicate 48 0) [16..<16 + n]) = 64
    \<and> (\<forall>t < 16 + n. foldl schedule_step (map (\<lambda>i. load_word blk (i * 4)) [0..<16] @ replicate 48 0) [16..<16 + n] ! t
         = fips_W blk t)"
  using assms(2)
proof (induction n)
  case 0
  then show ?case
    using assms(1)
    by (auto simp: nth_append fips_W.simps load_word_eq mult.commute)
next
  case (Suc n)
  let ?w = "foldl schedule_step (map (\<lambda>i. load_word blk (i * 4)) [0..<16] @ replicate 48 0) [16..<16 + n]"
  from Suc have len: "length ?w = 64" and IH: "\<And>t. t < 16 + n \<Longrightarrow> ?w ! t = fips_W blk t" by simp_all
  have step: "foldl schedule_step (map (\<lambda>i. load_word blk (i * 4)) [0..<16] @ replicate 48 0) [16..<16 + Suc n]
      = schedule_step ?w (16 + n)"
    using upt_Suc_append [of 16 "16 + n"] by simp
  have "schedule_step ?w (16 + n) = ?w[16 + n := fips_W blk (16 + n)]"
    using Suc.prems by (subst fips_W.simps) (simp add: schedule_step_def IH sigma_eqs)
  with step len IH Suc.prems show ?case
    by (auto simp: nth_list_update less_Suc_eq)
qed

lemma schedule_nth: "length blk = 64 \<Longrightarrow> t < 64 \<Longrightarrow> message_schedule blk ! t = fips_W blk t"
  using schedule_fold [of blk 48] by (simp add: message_schedule_def)

lemma rounds_eq:
  assumes "length blk = 64" and "n \<le> 64"
  shows "foldl (sha_round (message_schedule blk)) v [0..<n] = fips_step blk n v"
  using assms(2)
proof (induction n)
  case (Suc n)
  obtain a b c d e f g h where v: "fips_step blk n v = (a, b, c, d, e, f, g, h)"
    by (metis surj_pair)
  with Suc assms(1) show ?case by (simp add: sigma_eqs schedule_nth Let_def)
qed simp

lemma Transform_eq: "length blk = 64 \<Longrightarrow> Transform st blk = fips_compress st blk"
  by (simp add: Transform_def fips_compress_def rounds_eq Let_def add.commute split: prod.splits)

section \<open>Buffering\<close>

lemma blocks_append: "length b = 64 \<Longrightarrow> blocks (b @ m) = b # blocks m"
  by (subst blocks.simps) simp

lemma blocks_append_dvd: "64 dvd length m \<Longrightarrow> blocks (m @ r) = blocks m @ blocks r"
proof (induction m rule: blocks.induct)
  case (1 m)
  show ?case
  proof (cases "length m < 64")
    case True
    with 1(2) have "m = []" by (metis dvd_imp_le length_greater_0_conv not_le)
    then show ?thesis by (simp add: blocks.simps [of "[]"])
  next
    case False
    with 1(2) have "64 dvd length (drop 64 m)" by (simp add: dvd_diff_nat)
    with 1(1) False have "blocks (drop 64 m @ r) = blocks (drop 64 m) @ blocks r" by simp
    moreover have "m = take 64 m @ drop 64 m" "length (take 64 m) = 64" using False by simp_all
    ultimately show ?thesis
      by (metis append_Cons append_assoc blocks_append)
  qed
qed

lemma blocks_one: "length a = 64 \<Longrightarrow> blocks a = [a]"
  using blocks_append [of a "[]"] by (simp add: blocks.simps [of "[]"])

definition sha_abs :: "sha256 \<Rightarrow> byte list \<Rightarrow> bool" where
  "sha_abs s m \<longleftrightarrow>
     (\<exists>done. m = done @ take (sh_buffer_size s) (sh_buffer s) \<and> 64 dvd length done
        \<and> sh_state s = foldl fips_compress sha256_iv (blocks done))
     \<and> length (sh_buffer s) = 64 \<and> sh_buffer_size s < 64"

lemma sha_abs_init: "sha_abs sha256_init []"
  by (simp add: sha_abs_def sha256_init_def blocks.simps)

lemma copy_chunk_abs:
  assumes "sha_abs s m" and "data \<noteq> []"
  shows "sha_abs (copy_chunk s data) (m @ take (chunk_len s data) data)" and "0 < chunk_len s data"
proof -
  let ?k = "sh_buffer_size s" and ?n = "chunk_len s data"
  let ?buf = "take ?k (sh_buffer s) @ take ?n data @ drop (?k + ?n) (sh_buffer s)"
  from assms(1) obtain d where d: "m = d @ take ?k (sh_buffer s)" "64 dvd length d"
      "sh_state s = foldl fips_compress sha256_iv (blocks d)"
      and len: "length (sh_buffer s) = 64" and k: "?k < 64"
    unfolding sha_abs_def by auto
  from k assms(2) show "0 < ?n" by (simp add: chunk_len_def)
  from k have n: "?k + ?n \<le> 64" "?n \<le> length data" by (simp_all add: chunk_len_def)
  from n len k have buf: "length ?buf = 64" by simp
  show "sha_abs (copy_chunk s data) (m @ take ?n data)"
  proof (cases "?k + ?n = 64")
    case True
    with len n k have full: "?buf = take ?k (sh_buffer s) @ take ?n data" by simp
    have "m @ take ?n data = d @ ?buf" by (simp add: d(1) full)
    moreover have "Transform (sh_state s) ?buf = foldl fips_compress sha256_iv (blocks (d @ ?buf))"
      using d(2,3) by (simp only: Transform_eq [OF buf] blocks_append_dvd blocks_one [OF buf]) simp
    moreover have "64 dvd length (d @ ?buf)" using d(2) buf by (simp only: length_append) simp
    ultimately show ?thesis
      using True buf
      by (simp only: sha_abs_def copy_chunk_def Let_def if_P [OF True] sha256.simps)
        (auto intro!: exI [of _ "d @ ?buf"])
  next
    case False
    with n have lt: "?k + ?n < 64" by simp
    have "take (?k + ?n) ?buf = take ?k (sh_buffer s) @ take ?n data"
      using len k n by simp
    with lt d buf False show ?thesis
      by (auto simp: sha_abs_def copy_chunk_def Let_def simp del: take_append)
  qed
qed

lemma update_loop_abs:
  assumes "sha_abs s m"
  shows "\<exists>s'. update_loop s data = Some s' \<and> sha_abs s' (m @ data) \<and> sh_total_size s' = sh_total_size s"
  using assms
proof (induction data arbitrary: s m rule: length_induct)
  case (1 data)
  show ?case
  proof (cases "data = []")
    case True
    with 1(2) show ?thesis by (auto simp: update_loop.simps)
  next
    case False
    let ?n = "chunk_len s data"
    from copy_chunk_abs [OF 1(2) False]
    have abs: "sha_abs (copy_chunk s data) (m @ take ?n data)" and pos: "0 < ?n" by auto
    from False pos have "length (drop ?n data) < length data" by simp
    from 1(1) [rule_format, OF this abs] obtain s' where
      "update_loop (copy_chunk s data) (drop ?n data) = Some s'" "sha_abs s' (m @ data)"
      "sh_total_size s' = sh_total_size (copy_chunk s data)" by auto
    then show ?thesis
      using False by (subst update_loop.simps) (auto simp: copy_chunk_def Let_def)
  qed
qed

lemma sha_abs_total [simp]: "sha_abs (s\<lparr>sh_total_size := n\<rparr>) m \<longleftrightarrow> sha_abs s m"
  by (simp add: sha_abs_def)

lemma Update_abs:
  assumes "sha_abs s m" and "sh_total_size s = of_nat (length m)"
  shows "\<exists>s'. Update s data = Some s' \<and> sha_abs s' (m @ data) \<and> sh_total_size s' = of_nat (length (m @ data))"
  using update_loop_abs [of "s\<lparr>sh_total_size := sh_total_size s + of_nat (length data)\<rparr>" m data] assms
  by (auto simp: Update_def)

lemma update_all_abs:
  assumes "sha_abs s m" and "sh_total_size s = of_nat (length m)"
  shows "\<exists>s'. update_all s bs = Some s' \<and> sha_abs s' (m @ concat bs)
    \<and> sh_total_size s' = of_nat (length (m @ concat bs))"
  using assms
proof (induction bs arbitrary: s m)
  case (Cons b bs)
  obtain s1 where s1: "Update s b = Some s1" "sha_abs s1 (m @ b)" "sh_total_size s1 = of_nat (length (m @ b))"
    using Update_abs [OF Cons.prems] by blast
  show ?case
    using Cons.IH [OF s1(2,3)] Cons.IH [OF Cons.prems] s1(1) by auto
qed simp

section \<open>Padding\<close>

lemma ucast_byte_of: "(ucast (drop_bit n (w :: u64) AND 0xff) :: byte) = of_nat (unat w div 2 ^ n)"
proof -
  have "(ucast (drop_bit n w AND 0xff) :: byte) = of_nat (unat (drop_bit n w))"
  proof (rule bit_word_eqI)
    fix k assume k: "k < LENGTH(8)"
    have mask: "(0xff :: u64) = mask 8" by (simp add: mask_eq_exp_minus_1)
    from k show "bit (ucast (drop_bit n w AND 0xff) :: byte) k = bit (of_nat (unat (drop_bit n w)) :: byte) k"
      unfolding mask by (simp add: bit_simps)
  qed
  then show ?thesis by (simp only: unat_drop_bit_eq) (simp only: drop_bit_eq_div)
qed

lemma put_length_nth:
  assumes "length b = 64" and "n \<le> 8"
  shows "length (foldl (\<lambda>blk i. blk[63 - i := f i]) b [0..<n]) = 64
    \<and> (\<forall>j < 64. foldl (\<lambda>blk i. blk[63 - i := f i]) b [0..<n] ! j = (if 63 - j < n then f (63 - j) else b ! j))"
  using assms(2)
proof (induction n)
  case (Suc n)
  then show ?case
    using assms(1) by (auto simp: nth_list_update less_Suc_eq)
qed (use assms(1) in simp)

lemma put_length_eq:
  assumes "length b = 64" and "8 * n < 2 ^ 64"
  shows "put_length b (of_nat n * 8) = take 56 b @ be64 (8 * n)"
proof (rule nth_equalityI)
  let ?f = "\<lambda>i. ucast (drop_bit (i * 8) (of_nat n * 8 :: u64) AND 0xff) :: byte"
  have len: "length (put_length b (of_nat n * 8)) = 64"
    using put_length_nth [OF assms(1), of 8 ?f] by (simp add: put_length_def)
  then show "length (put_length b (of_nat n * 8)) = length (take 56 b @ be64 (8 * n))"
    using assms(1) by (simp add: be64_def)
  fix j assume "j < length (put_length b (of_nat n * 8))"
  with len have j: "j < 64" by simp
  have nth: "put_length b (of_nat n * 8) ! j = (if 63 - j < 8 then ?f (63 - j) else b ! j)"
    using put_length_nth [OF assms(1), of 8 ?f] j by (simp add: put_length_def)
  have bits: "unat (of_nat n * 8 :: u64) = 8 * n"
    using assms(2) by (simp add: unat_word_ariths unat_of_nat take_bit_eq_mod mod_mult_right_eq mult.commute)
  have "?f (63 - j) = of_nat (8 * n div 256 ^ (63 - j))"
    unfolding ucast_byte_of bits by (simp add: power_mult mult.commute)
  with nth j assms(1) show "put_length b (of_nat n * 8) ! j = (take 56 b @ be64 (8 * n)) ! j"
    by (auto simp: be64_def nth_append)
qed

lemma be64_length [simp]: "length (be64 n) = 8"
  by (simp add: be64_def)

lemma blocks_two:
  "length a = 64 \<Longrightarrow> length b = 64 \<Longrightarrow> blocks (a @ b) = [a, b]"
  using blocks_append [of a b] blocks_append [of b "[]"] by (simp add: blocks.simps [of "[]"])

lemma final_state_eq:
  assumes "sha_abs s m" and "sh_total_size s = of_nat (length m)" and "8 * length m < 2 ^ 64"
  shows "final_state s = fips_sha256 m"
proof -
  let ?k = "sh_buffer_size s"
  from assms(1) obtain d where d: "m = d @ take ?k (sh_buffer s)" "64 dvd length d"
      "sh_state s = foldl fips_compress sha256_iv (blocks d)"
      and len: "length (sh_buffer s) = 64" and k: "?k < 64"
    unfolding sha_abs_def by auto
  from d(1,2) len k have mod: "length m mod 64 = ?k" by (auto elim!: dvdE)
  let ?blk = "(sh_buffer s)[?k := 0x80]"
  have tk: "take (?k + 1) ?blk = take ?k (sh_buffer s) @ [0x80]"
    using len k by (simp add: take_Suc_conv_app_nth)
  have head: "fips_pad m = d @ (take (?k + 1) ?blk @ replicate ((119 - ?k) mod 64) 0 @ be64 (8 * length m))"
    unfolding fips_pad_def mod tk by (simp add: d(1))
  have sha: "fips_sha256 m = foldl fips_compress (sh_state s)
      (blocks (take (?k + 1) ?blk @ replicate ((119 - ?k) mod 64) 0 @ be64 (8 * length m)))"
    unfolding fips_sha256_def head using d(2,3) by (simp add: blocks_append_dvd)
  show ?thesis
  proof (cases "?k + 1 > 56")
    case True
    let ?b1 = "fill_range ?blk (?k + 1) 64"
    have b1: "?b1 = take (?k + 1) ?blk @ replicate (63 - ?k) 0"
      using len k by (simp add: fill_range_def)
    have b2: "put_length (fill_range (replicate 64 0) 0 56) (sh_total_size s * 8)
        = replicate 56 0 @ be64 (8 * length m)"
      using assms(2,3) by (simp add: fill_range_def put_length_eq)
    have "(119 - ?k) mod 64 = (63 - ?k) + 56" using True k by auto
    then have z: "replicate ((119 - ?k) mod 64) (0 :: byte) = replicate (63 - ?k) 0 @ replicate 56 0"
      by (simp only: replicate_add)
    have l: "length ?b1 = 64" unfolding b1 using len k by simp
    have "fips_sha256 m = foldl fips_compress (sh_state s) (blocks (?b1 @ (replicate 56 0 @ be64 (8 * length m))))"
      unfolding sha z b1 by simp
    also have "\<dots> = fips_compress (fips_compress (sh_state s) ?b1) (replicate 56 0 @ be64 (8 * length m))"
      using l by (subst blocks_two) simp_all
    finally show ?thesis
      using True l by (simp add: final_state_def Let_def b2 Transform_eq)
  next
    case False
    then have k55: "?k \<le> 55" by simp
    let ?b = "fill_range ?blk (?k + 1) 56"
    have l: "length ?b = 64" using len k55 by (simp add: fill_range_def)
    have b: "put_length ?b (sh_total_size s * 8) = take 56 ?b @ be64 (8 * length m)"
      using assms(2,3) l by (simp add: put_length_eq)
    have "take 56 ?b = take (?k + 1) ?blk @ replicate (55 - ?k) 0"
      using len k55 by (simp add: fill_range_def)
    moreover have "(119 - ?k) mod 64 = 55 - ?k" using k55 by (simp add: mod_if)
    ultimately have "fips_sha256 m = foldl fips_compress (sh_state s) (blocks (take 56 ?b @ be64 (8 * length m)))"
      unfolding sha by simp
    then have "fips_sha256 m = fips_compress (sh_state s) (take 56 ?b @ be64 (8 * length m))"
      using l by (simp add: blocks_one)
    then show ?thesis
      using False l b by (simp add: final_state_def Let_def Transform_eq)
  qed
qed

section \<open>Digest text\<close>

lemma final_state_length: "length (final_state s) = 8"
  by (simp add: final_state_def Transform_def Let_def split: prod.splits)

lemma hex_word_length: "length (hex_word w) = 8"
proof -
  have "unat w < 16 ^ 8" using unsigned_less [of w] by simp
  then have "length (digits_in 16 (unat w)) \<le> 8" by (intro digits_in_length) simp_all
  then show ?thesis by (simp add: hex_word_def pad_left_def)
qed

definition is_lower_hex :: "char \<Rightarrow> bool" where
  "is_lower_hex c = (is_digit c \<or> CHR ''a'' \<le> c \<and> c \<le> CHR ''f'')"

lemma digit_char_lower_hex: "\<forall>d \<in> set [0..<16]. is_lower_hex (digit_char d)"
  by code_simp

lemma hex_word_chars: "c \<in> set (hex_word w) \<Longrightarrow> is_lower_hex c"
proof -
  assume "c \<in> set (hex_word w)"
  then have "c = CHR ''0'' \<or> c \<in> digit_char ` {..<16}"
    using digits_in_chars [of 16 "unat w"] by (auto simp: hex_word_def pad_left_def split: if_splits)
  then show ?thesis
    using digit_char_lower_hex by (auto simp: is_lower_hex_def is_digit_def)
qed

section \<open>Properties\<close>

text \<open>
  \<^bold>\<open>C3.\<close> Hashing a file returns, and whatever blocks the reads deliver, the result is the
  SHA-256 digest (FIPS 180-4) of the concatenated contents, printed as eight words of eight
  hexadecimal digits; for every content whose bit length fits the 64-bit counter.
\<close>

theorem sha256_file_digest:
  assumes "8 * length (concat reads) < 2 ^ 64"
  shows "Sha256File path (Some (reads, True))
    = Some (Inr (concat (map hex_word (fips_sha256 (concat reads)))))"
proof -
  obtain s where "update_all sha256_init reads = Some s" "sha_abs s (concat reads)"
      "sh_total_size s = of_nat (length (concat reads))"
    using update_all_abs [OF sha_abs_init, of reads] by (auto simp: sha256_init_def)
  then show ?thesis
    using assms by (simp add: Sha256File_def FinalHex_def final_state_eq)
qed

theorem sha256_file_digest_witness:
  "8 * length (concat [[97, 98], [99 :: byte]]) < 2 ^ 64
   \<and> Sha256File ''f'' (Some ([[97, 98], [99]], True))
     = Some (Inr (concat (map hex_word (fips_sha256 [97, 98, 99]))))"
  using sha256_file_digest [of "[[97, 98], [99]]" "''f''"] by simp

text \<open>
  The digest text is always 64 characters from 0-9 and a-f, in every state of the
  class, so it passes the lowercase digest checks of the registry and the lockfile.
\<close>

theorem FinalHex_shape: "length (FinalHex s) = 64 \<and> list_all is_lower_hex (FinalHex s)"
proof
  have "length (concat (map hex_word ws)) = 8 * length ws" for ws
    by (induction ws) (simp_all add: hex_word_length)
  then show "length (FinalHex s) = 64" by (simp add: FinalHex_def final_state_length)
  show "list_all is_lower_hex (FinalHex s)"
    by (auto simp: FinalHex_def list_all_iff hex_word_chars)
qed

end
