(* ===== verification/Std_Map.thy ===== *)
theory Std_Map
  imports Platform_Prelude
begin

text \<open>
  \<^verbatim>\<open>std::map\<close> as the sources use it: \<^verbatim>\<open>find\<close>, \<^verbatim>\<open>contains\<close>, \<^verbatim>\<open>operator[]\<close> with assignment,
  \<^verbatim>\<open>erase\<close> and iteration in ascending key order. The model is an association list with
  strictly ascending keys. The locale \<open>ordered_map\<close> is the contract the components rely
  on; \<open>smap\<close> is its interpretation on the association list.
\<close>

type_synonym ('k, 'v) smap = "('k \<times> 'v) list"

section \<open>The contract of an ordered map\<close>

locale ordered_map =
  fixes emp :: "'m"
    and lookup :: "'m \<Rightarrow> 'k::linorder \<Rightarrow> 'v option"
    and put :: "'k \<Rightarrow> 'v \<Rightarrow> 'm \<Rightarrow> 'm"
    and del :: "'k \<Rightarrow> 'm \<Rightarrow> 'm"
    and entries :: "'m \<Rightarrow> ('k \<times> 'v) list"
    and wf :: "'m \<Rightarrow> bool"
  assumes wf_emp: "wf emp"
    and wf_put: "wf m \<Longrightarrow> wf (put k v m)"
    and wf_del: "wf m \<Longrightarrow> wf (del k m)"
    and lookup_emp: "lookup emp k = None"
    and lookup_put: "wf m \<Longrightarrow> lookup (put k v m) k' = (if k' = k then Some v else lookup m k')"
    and lookup_del: "wf m \<Longrightarrow> lookup (del k m) k' = (if k' = k then None else lookup m k')"
    and entries_lookup: "wf m \<Longrightarrow> (k, v) \<in> set (entries m) \<longleftrightarrow> lookup m k = Some v"
    and entries_ascending: "wf m \<Longrightarrow> sorted_wrt (<) (map fst (entries m))"
begin

text \<open>A scan over the entries that stops at the first match finds the least matching key.\<close>

lemma scan_found:
  assumes "wf m" and "List.find P (entries m) = Some (k, v)"
  shows "lookup m k = Some v" and "P (k, v)"
    and "\<And>k' v'. lookup m k' = Some v' \<Longrightarrow> P (k', v') \<Longrightarrow> k \<le> k'"
proof -
  from assms(2) obtain i where i: "i < length (entries m)" "P (entries m ! i)"
      "(k, v) = entries m ! i" "\<And>j. j < i \<Longrightarrow> \<not> P (entries m ! j)"
    by (auto simp: find_Some_iff)
  from i(1,3) have "(k, v) \<in> set (entries m)" by (metis nth_mem)
  with assms(1) show "lookup m k = Some v" by (simp add: entries_lookup)
  from i(2,3) show "P (k, v)" by simp
  fix k' v' assume "lookup m k' = Some v'" and "P (k', v')"
  with assms(1) have "(k', v') \<in> set (entries m)" by (simp add: entries_lookup)
  then obtain j where j: "j < length (entries m)" "entries m ! j = (k', v')"
    by (metis in_set_conv_nth)
  with i(4) \<open>P (k', v')\<close> have "i \<le> j" by (metis not_le)
  moreover have "i < j \<Longrightarrow> k < k'"
    using sorted_wrt_nth_less [OF entries_ascending [OF assms(1)], of i j] i(1,3) j
    by (metis fst_conv length_map nth_map)
  ultimately show "k \<le> k'"
    using i(3) j(2) by (metis fst_conv le_neq_implies_less less_imp_le order_refl)
qed

lemma scan_none:
  "wf m \<Longrightarrow> List.find P (entries m) = None \<longleftrightarrow> (\<forall>k v. lookup m k = Some v \<longrightarrow> \<not> P (k, v))"
  by (auto simp: find_None_iff entries_lookup)

lemma scan_finds:
  assumes "wf m" and "lookup m k = Some v" and "P (k, v)"
  shows "\<exists>k' v'. List.find P (entries m) = Some (k', v')"
proof (cases "List.find P (entries m)")
  case None
  with assms show ?thesis by (auto simp: scan_none)
next
  case (Some kv)
  then show ?thesis by (cases kv) auto
qed

lemma entries_distinct: "wf m \<Longrightarrow> distinct (map fst (entries m))"
  using entries_ascending strict_sorted_iff by blast

end

section \<open>The association list\<close>

fun smap_find :: "('k, 'v) smap \<Rightarrow> 'k \<Rightarrow> 'v option" where
  "smap_find [] k = None"
| "smap_find ((a, x) # m) k = (if a = k then Some x else smap_find m k)"

fun smap_put :: "'k::linorder \<Rightarrow> 'v \<Rightarrow> ('k, 'v) smap \<Rightarrow> ('k, 'v) smap" where
  "smap_put k v [] = [(k, v)]"
| "smap_put k v ((a, x) # m) =
     (if a < k then (a, x) # smap_put k v m
      else if a = k then (k, v) # m
      else (k, v) # (a, x) # m)"

definition smap_erase :: "'k \<Rightarrow> ('k, 'v) smap \<Rightarrow> ('k, 'v) smap" where
  "smap_erase k m = filter (\<lambda>e. fst e \<noteq> k) m"

definition smap_contains :: "('k, 'v) smap \<Rightarrow> 'k \<Rightarrow> bool" where
  "smap_contains m k = (smap_find m k \<noteq> None)"

definition smap_wf :: "('k::linorder, 'v) smap \<Rightarrow> bool" where
  "smap_wf m = sorted_wrt (<) (map fst m)"

definition smap_values :: "('k, 'v) smap \<Rightarrow> 'v list" where
  "smap_values m = map snd m"

text \<open>\<^verbatim>\<open>m[k]\<close> on a map whose values have a default: the entry, or the default it creates.\<close>

definition smap_get :: "'v \<Rightarrow> ('k, 'v) smap \<Rightarrow> 'k \<Rightarrow> 'v" where
  "smap_get d m k = (case smap_find m k of None \<Rightarrow> d | Some v \<Rightarrow> v)"

lemma smap_find_put [simp]:
  "smap_find (smap_put k v m) k' = (if k' = k then Some v else smap_find m k')"
  by (induction m) auto

lemma smap_find_put_fun: "smap_find (smap_put k v m) = (smap_find m)(k \<mapsto> v)"
  by (rule ext) simp

lemma smap_find_erase [simp]:
  "smap_find (smap_erase k m) k' = (if k' = k then None else smap_find m k')"
  by (induction m) (auto simp: smap_erase_def)

lemma smap_erase_absent: "smap_find m k = None \<Longrightarrow> smap_erase k m = m"
  by (induction m) (auto simp: smap_erase_def split: if_splits)

lemma smap_keys_put: "fst ` set (smap_put k v m) = insert k (fst ` set m)"
proof (induction m)
  case (Cons e m)
  then show ?case by (cases e) auto
qed simp

lemma smap_wf_simps:
  "smap_wf []"
  "smap_wf ((a, x) # m) \<longleftrightarrow> (\<forall>k \<in> fst ` set m. a < k) \<and> smap_wf m"
  by (auto simp: smap_wf_def)

lemma smap_wf_put [simp, intro]: "smap_wf m \<Longrightarrow> smap_wf (smap_put k v m)"
proof (induction m)
  case (Cons e m)
  obtain a x where e: "e = (a, x)" by (cases e)
  consider "a < k" | "a = k" | "k < a" by (rule linorder_cases)
  then show ?case
    using Cons by cases (auto simp: e smap_wf_simps smap_keys_put)
qed (simp add: smap_wf_simps)

lemma smap_wf_erase [simp, intro]: "smap_wf m \<Longrightarrow> smap_wf (smap_erase k m)"
  by (induction m) (auto simp: smap_wf_simps smap_erase_def)

lemma smap_find_in: "smap_wf m \<Longrightarrow> (k, v) \<in> set m \<longleftrightarrow> smap_find m k = Some v"
proof (induction m)
  case (Cons e m)
  obtain a x where e: "e = (a, x)" by (cases e)
  from Cons.prems have "a = k \<Longrightarrow> (k, v) \<notin> set m"
    by (force simp: e smap_wf_simps)
  with Cons show ?case by (auto simp: e smap_wf_simps)
qed simp

interpretation smap: ordered_map "[]" smap_find smap_put smap_erase "\<lambda>m. m" smap_wf
  by unfold_locales (auto simp: smap_find_in smap_wf_def [symmetric] smap_wf_simps)

lemma smap_contains_simps [simp]:
  "smap_contains (smap_put k v m) k' \<longleftrightarrow> k' = k \<or> smap_contains m k'"
  "smap_contains (smap_erase k m) k' \<longleftrightarrow> k' \<noteq> k \<and> smap_contains m k'"
  "smap_contains [] k' \<longleftrightarrow> False"
  by (auto simp: smap_contains_def)

lemma smap_find_value: "smap_find m k = Some v \<Longrightarrow> v \<in> set (smap_values m)"
  by (induction m) (auto simp: smap_values_def split: if_splits)

lemma smap_values_iff: "smap_wf m \<Longrightarrow> v \<in> set (smap_values m) \<longleftrightarrow> (\<exists>k. smap_find m k = Some v)"
  unfolding smap_values_def by (metis (no_types, lifting) imageE image_eqI set_map smap_find_in
      prod.collapse snd_conv)

lemma smap_ext:
  assumes "smap_wf m" "smap_wf n" "\<And>k. smap_find m k = smap_find n k"
  shows "m = n"
proof -
  have "set m = set n"
    using assms by (auto simp: smap_find_in [OF assms(1)] smap_find_in [OF assms(2)])
  moreover have "distinct m" "distinct n"
    using smap.entries_distinct assms(1,2) distinct_map by blast+
  moreover have "sorted (map fst m)" "sorted (map fst n)"
    using assms(1,2) by (simp_all add: smap_wf_def strict_sorted_imp_sorted)
  ultimately show ?thesis
    using smap.entries_distinct assms(1,2)
    by (intro map_sorted_distinct_set_unique [where f = fst]) (auto simp: distinct_map)
qed

end
