(* ===== verification/Json_Value.thy ===== *)
theory Json_Value
  imports Std_Map
begin

text \<open>
  JSON documents as data: the tagged union a \<^verbatim>\<open>nlohmann::json\<close> value is, with objects kept in
  ascending key order as the library's default map does. Only the accessors the sources call
  are here, with their documented results: type tests, \<^verbatim>\<open>contains\<close> (false on anything but an
  object), \<^verbatim>\<open>at\<close>/\<^verbatim>\<open>get\<close> (a type error or out-of-range error is \<open>Inl\<close>), and \<^verbatim>\<open>value(key,
  default)\<close>. Parsing and printing of JSON text belong to the library and are parameters of
  the definitions that use them.
\<close>

datatype json =
    JNull
  | JBool bool
  | JInt int
  | JFloat rat
  | JString string
  | JArray "json list"
  | JObject "(string \<times> json) list"

fun is_object :: "json \<Rightarrow> bool" where
  "is_object (JObject m) = True"
| "is_object _ = False"

fun is_string :: "json \<Rightarrow> bool" where
  "is_string (JString s) = True"
| "is_string _ = False"

fun is_array :: "json \<Rightarrow> bool" where
  "is_array (JArray xs) = True"
| "is_array _ = False"

fun is_number_integer :: "json \<Rightarrow> bool" where
  "is_number_integer (JInt i) = True"
| "is_number_integer _ = False"

text \<open>\<^verbatim>\<open>empty()\<close>: null, the empty array and the empty object; a scalar is not empty.\<close>

fun json_empty :: "json \<Rightarrow> bool" where
  "json_empty JNull = True"
| "json_empty (JArray xs) = (xs = [])"
| "json_empty (JObject m) = (m = [])"
| "json_empty _ = False"

fun json_contains :: "json \<Rightarrow> string \<Rightarrow> bool" where
  "json_contains (JObject m) k = smap_contains m k"
| "json_contains _ k = False"

fun json_lookup :: "json \<Rightarrow> string \<Rightarrow> json option" where
  "json_lookup (JObject m) k = smap_find m k"
| "json_lookup _ k = None"

text \<open>\<^verbatim>\<open>j[k]\<close> on a value known to contain \<open>k\<close>, and \<^verbatim>\<open>j.at(k)\<close>: an error without the key.\<close>

definition json_at :: "json \<Rightarrow> string \<Rightarrow> json result" where
  "json_at j k = (case json_lookup j k of None \<Rightarrow> Inl JsonError | Some v \<Rightarrow> Inr v)"

fun get_string :: "json \<Rightarrow> string result" where
  "get_string (JString s) = Inr s"
| "get_string _ = Inl JsonError"

text \<open>
  \<^verbatim>\<open>get<int>()\<close>: integers are converted to 32 bits modulo \<open>2 ^ 32\<close>, numbers with a fraction
  are truncated first, booleans are 0 and 1; anything else is a type error.
\<close>

definition to_int32 :: "int \<Rightarrow> int" where
  "to_int32 i = (i + 2 ^ 31) mod 2 ^ 32 - 2 ^ 31"

definition truncate_rat :: "rat \<Rightarrow> int" where
  "truncate_rat q = (if q < 0 then - \<lfloor>- q\<rfloor> else \<lfloor>q\<rfloor>)"

fun get_int :: "json \<Rightarrow> int result" where
  "get_int (JInt i) = Inr (to_int32 i)"
| "get_int (JFloat q) = Inr (to_int32 (truncate_rat q))"
| "get_int (JBool b) = Inr (if b then 1 else 0)"
| "get_int _ = Inl JsonError"

text \<open>\<^verbatim>\<open>get<int64_t>()\<close>, the same at 64 bits.\<close>

definition to_int64 :: "int \<Rightarrow> int" where
  "to_int64 i = (i + 2 ^ 63) mod 2 ^ 64 - 2 ^ 63"

fun get_int64 :: "json \<Rightarrow> int result" where
  "get_int64 (JInt i) = Inr (to_int64 i)"
| "get_int64 (JFloat q) = Inr (to_int64 (truncate_rat q))"
| "get_int64 (JBool b) = Inr (if b then 1 else 0)"
| "get_int64 _ = Inl JsonError"

fun get_bool :: "json \<Rightarrow> bool result" where
  "get_bool (JBool b) = Inr b"
| "get_bool _ = Inl JsonError"

text \<open>\<^verbatim>\<open>j.value(k, d)\<close>: a type error on anything but an object, the default for a missing key.\<close>

fun json_value :: "(json \<Rightarrow> 'a result) \<Rightarrow> json \<Rightarrow> string \<Rightarrow> 'a \<Rightarrow> 'a result" where
  "json_value get (JObject m) k d = (case smap_find m k of None \<Rightarrow> Inr d | Some v \<Rightarrow> get v)"
| "json_value get _ k d = Inl JsonError"

definition json_string_at :: "json \<Rightarrow> string \<Rightarrow> string result" where
  "json_string_at j k = rbind (json_at j k) get_string"

text \<open>An initializer list of key/value pairs, and \<^verbatim>\<open>j[k] = v\<close> on an object.\<close>

definition json_obj :: "(string \<times> json) list \<Rightarrow> json" where
  "json_obj kvs = JObject (foldl (\<lambda>m (k, v). if smap_contains m k then m else smap_put k v m) [] kvs)"

fun json_set :: "string \<Rightarrow> json \<Rightarrow> json \<Rightarrow> json" where
  "json_set k v (JObject m) = JObject (smap_put k v m)"
| "json_set k v JNull = JObject [(k, v)]"
| "json_set k v j = j"

definition json_set_if :: "bool \<Rightarrow> string \<Rightarrow> json \<Rightarrow> json \<Rightarrow> json" where
  "json_set_if b k v j = (if b then json_set k v j else j)"

lemma json_at_eq [simp]: "json_at j k = Inr v \<longleftrightarrow> json_lookup j k = Some v"
  by (auto simp: json_at_def split: option.splits)

lemma json_contains_lookup: "json_contains j k \<longleftrightarrow> (\<exists>v. json_lookup j k = Some v)"
  by (cases j) (auto simp: smap_contains_def)

lemma get_string_eq [simp]: "get_string j = Inr s \<longleftrightarrow> j = JString s"
  by (cases j) auto

lemma json_string_at_eq [simp]: "json_string_at j k = Inr s \<longleftrightarrow> json_lookup j k = Some (JString s)"
  by (auto simp: json_string_at_def rbind_eq_Inr)

lemma to_int32_id: "- (2 ^ 31) \<le> i \<Longrightarrow> i < 2 ^ 31 \<Longrightarrow> to_int32 i = i"
  by (simp add: to_int32_def)

lemma json_lookup_set:
  "is_object j \<Longrightarrow> json_lookup (json_set k v j) k' = (if k' = k then Some v else json_lookup j k')"
  by (cases j) auto

lemma is_object_set [simp]: "is_object j \<Longrightarrow> is_object (json_set k v j)"
  by (cases j) auto

lemma json_set_if_simps [simp]:
  "is_object j \<Longrightarrow> is_object (json_set_if b k v j)"
  "is_object j \<Longrightarrow> json_lookup (json_set_if b k v j) k' = (if b \<and> k' = k then Some v else json_lookup j k')"
  by (auto simp: json_set_if_def json_lookup_set)

lemma is_object_obj [simp]: "is_object (json_obj kvs)"
  by (simp add: json_obj_def)

lemma obj_fold_find:
  "smap_find (foldl (\<lambda>m (k, v). if smap_contains m k then m else smap_put k v m) m kvs) k
     = (case smap_find m k of Some v \<Rightarrow> Some v | None \<Rightarrow> map_of kvs k)"
proof (induction kvs arbitrary: m)
  case (Cons kv kvs)
  then show ?case
    by (cases kv) (auto simp: smap_contains_def split: option.splits)
qed (auto split: option.splits)

lemma json_lookup_obj [simp]: "json_lookup (json_obj kvs) k = map_of kvs k"
  by (simp add: json_obj_def obj_fold_find)

end
