(* ===== verification/Client_Auth.thy ===== *)
theory Client_Auth
  imports Json_Value
begin

text \<open>
  Who is calling and what they may do: the identity a client certificate carries in its URI
  (\<^verbatim>\<open>PlatformSecurity/PlatformClientAuth/Identity.cpp\<close>), the role tables
  (\<^verbatim>\<open>Authorization.cpp\<close>), and the actor record built from an external provider's claims
  (\<^verbatim>\<open>PlatformSecurity/ExternalIdentity/ExternalIdentity.cpp\<close>).
\<close>

section \<open>Certificate identities\<close>

record MtlsIdentity =
  id_role :: string
  id_tenant_id :: string
  id_node_id :: string

definition SplitPath :: "string \<Rightarrow> string list" where
  "SplitPath input = filter (\<lambda>item. item \<noteq> []) (getlines (CHR ''/'') input)"

fun ValueAfter :: "string list \<Rightarrow> string \<Rightarrow> string" where
  "ValueAfter (x # y # parts) key = (if x = key then y else ValueAfter (y # parts) key)"
| "ValueAfter _ key = []"

definition kRoles :: "string list" where
  "kRoles = [''control-plane'', ''worker'', ''registry-writer'', ''mirror'', ''operator'',
             ''cluster-registrar'', ''package-owner'']"

definition IsPlatformServiceRole :: "string \<Rightarrow> bool" where
  "IsPlatformServiceRole role = list_ex (\<lambda>candidate. role = candidate) kRoles"

definition uri_san_prefix :: string where
  "uri_san_prefix = ''spiffe://styio-platform/''"

definition ParseMtlsUriSan :: "string \<Rightarrow> MtlsIdentity option" where
  "ParseMtlsUriSan v =
     (if \<not> starts_with v uri_san_prefix then None
      else let parts = SplitPath (drop (length uri_san_prefix) v);
               identity = \<lparr>id_role = ValueAfter parts ''role'', id_tenant_id = ValueAfter parts ''tenant'',
                           id_node_id = ValueAfter parts ''node''\<rparr>
           in if \<not> IsPlatformServiceRole (id_role identity) \<or> id_node_id identity = [] then None
              else Some identity)"

definition SerializeMtlsIdentity :: "MtlsIdentity \<Rightarrow> json" where
  "SerializeMtlsIdentity i = json_obj
     [(''role'', JString (id_role i)), (''tenant_id'', JString (id_tenant_id i)),
      (''node_id'', JString (id_node_id i))]"

section \<open>Roles and operations\<close>

definition RoleIn :: "MtlsIdentity \<Rightarrow> string list \<Rightarrow> bool" where
  "RoleIn identity allowed = list_ex (\<lambda>role. id_role identity = role) allowed"

definition IsInternalRole :: "MtlsIdentity \<Rightarrow> bool" where
  "IsInternalRole i =
     (id_role i = ''control-plane'' \<or> id_role i = ''worker'' \<or> id_role i = ''mirror''
      \<or> id_role i = ''registry-writer'' \<or> id_role i = ''operator'' \<or> id_role i = ''cluster-registrar''
      \<or> id_role i = ''package-owner'')"

definition IsAuthorizedForOperation :: "string \<Rightarrow> MtlsIdentity \<Rightarrow> bool" where
  "IsAuthorizedForOperation op i =
     (if op = ''registryStatus''
      then RoleIn i [''control-plane'', ''registry-writer'', ''mirror'', ''operator'']
      else if op = ''registryDescriptor''
      then RoleIn i [''control-plane'', ''registry-writer'', ''mirror'', ''operator'']
      else if op = ''publishRelease''
      then RoleIn i [''registry-writer'', ''operator'', ''package-owner'']
      else if op = ''verifyRegistry''
      then RoleIn i [''registry-writer'', ''mirror'', ''operator'']
      else if op = ''getPackage'' \<or> op = ''listPackageReleases'' \<or> op = ''getPackageRelease''
              \<or> op = ''listPackageOwners'' \<or> op = ''listRepositories'' \<or> op = ''listRepositoryVersions''
              \<or> op = ''getPublication'' \<or> op = ''listDistributions''
      then RoleIn i [''control-plane'', ''registry-writer'', ''mirror'', ''operator'', ''package-owner'']
      else if op = ''yankPackageRelease'' \<or> op = ''unyankPackageRelease'' \<or> op = ''addPackageOwner''
              \<or> op = ''removePackageOwner''
      then RoleIn i [''operator'', ''package-owner'', ''registry-writer'']
      else if op = ''createPublishToken'' \<or> op = ''listPublishTokens'' \<or> op = ''revokePublishToken''
      then RoleIn i [''operator'', ''package-owner'', ''registry-writer'']
      else if op = ''promoteDistribution'' \<or> op = ''rollbackDistribution''
      then RoleIn i [''operator'']
      else if op = ''listReleaseChannels''
      then RoleIn i [''operator'', ''registry-writer'', ''mirror'']
      else if op = ''rolloutReleaseChannel''
      then RoleIn i [''operator'']
      else if op = ''createRecoverySnapshot'' \<or> op = ''restoreRecoverySnapshot'' \<or> op = ''listAuditEvents''
              \<or> op = ''platformMetrics'' \<or> op = ''storageStatus''
      then RoleIn i [''operator'', ''control-plane'']
      else if op = ''listRecoverySnapshots''
      then RoleIn i [''operator'', ''control-plane'', ''mirror'']
      else if op = ''verifyPublication''
      then RoleIn i [''operator'', ''mirror'', ''registry-writer'']
      else if op = ''mirrorStatus''
      then RoleIn i [''control-plane'', ''registry-writer'', ''mirror'', ''operator'']
      else if op = ''listDocumentationGovernance'' \<or> op = ''planDocumentationChange''
      then RoleIn i [''control-plane'', ''operator'']
      else if op = ''listEcosystemRepositories'' \<or> op = ''planEcosystemRelease''
      then RoleIn i [''control-plane'', ''operator'']
      else if op = ''registerWorkgroupCluster''
      then RoleIn i [''control-plane'', ''operator'', ''cluster-registrar'']
      else if op = ''listWorkgroupClusters'' then IsInternalRole i
      else True)"

section \<open>External identities\<close>

record ExternalIdentityRecord =
  ex_provider :: string
  ex_subject :: string
  ex_email :: string
  ex_tenant_id :: string
  ex_actor_id :: string
  ex_roles :: json
  ex_claims :: json

definition SupportedProvider :: "string \<Rightarrow> bool" where
  "SupportedProvider provider =
     list_ex (\<lambda>candidate. provider = candidate) [''microsoft'', ''google'', ''apple'', ''telegram'']"

definition RequireString :: "json \<Rightarrow> string \<Rightarrow> string result" where
  "RequireString payload field =
     (case json_lookup payload field of
        Some (JString s) \<Rightarrow> (if s = [] then Inl (RuntimeError (field @ '' is required'')) else Inr s)
      | _ \<Rightarrow> Inl (RuntimeError (field @ '' is required'')))"

text \<open>The subject and the address a provider's claims give, an empty subject when they give none.\<close>

definition external_subject :: "string \<Rightarrow> json \<Rightarrow> (string \<times> string) result" where
  "external_subject provider claims =
     (if provider = ''telegram''
      then rbind (if json_contains claims ''telegram_id'' then json_string_at claims ''telegram_id''
                  else if json_contains claims ''id''
                  then rbind (json_at claims ''id'') (\<lambda>v. rbind (get_int64 v) (\<lambda>i. Inr (string_of_int i)))
                  else Inr []) (\<lambda>subject.
           rbind (json_value get_string claims ''username'' []) (\<lambda>email. Inr (subject, email)))
      else rbind (json_value get_string claims ''sub'' []) (\<lambda>subject.
           rbind (json_value get_string claims ''email'' []) (\<lambda>email. Inr (subject, email))))"

definition NormalizeExternalIdentity :: "json \<Rightarrow> ExternalIdentityRecord result" where
  "NormalizeExternalIdentity request =
     rbind (guard_err (\<not> is_object request) (RuntimeError ''request body must be an object'')) (\<lambda>_.
     rbind (RequireString request ''provider'') (\<lambda>provider.
     rbind (guard_err (\<not> SupportedProvider provider)
              (RuntimeError ''unsupported external identity provider'')) (\<lambda>_.
     rbind (json_value Inr request ''claims'' (JObject [])) (\<lambda>claims.
     rbind (guard_err (\<not> is_object claims) (RuntimeError ''claims must be an object'')) (\<lambda>_.
     rbind (external_subject provider claims) (\<lambda>(subject, email).
     rbind (guard_err (subject = []) (RuntimeError ''external subject is required'')) (\<lambda>_.
     rbind (json_value get_string request ''tenant_id'' provider) (\<lambda>tenant_id.
     rbind (json_value Inr request ''roles'' (JArray [])) (\<lambda>roles.
     rbind (guard_err (\<not> is_array roles) (RuntimeError ''roles must be an array'')) (\<lambda>_.
       Inr \<lparr>ex_provider = provider, ex_subject = subject, ex_email = email, ex_tenant_id = tenant_id,
            ex_actor_id = ''external:'' @ provider @ '':'' @ subject, ex_roles = roles,
            ex_claims = claims\<rparr>))))))))))"

definition SerializeExternalIdentityRecord :: "ExternalIdentityRecord \<Rightarrow> json" where
  "SerializeExternalIdentityRecord r = json_obj
     [(''provider'', JString (ex_provider r)), (''subject'', JString (ex_subject r)),
      (''email'', JString (ex_email r)), (''tenant_id'', JString (ex_tenant_id r)),
      (''actor_id'', JString (ex_actor_id r)), (''roles'', ex_roles r), (''claims'', ex_claims r),
      (''verification_mode'', JString ''claims-normalized'')]"

section \<open>Properties\<close>

lemma IsPlatformServiceRole_iff: "IsPlatformServiceRole role \<longleftrightarrow> role \<in> set kRoles"
  by (auto simp: IsPlatformServiceRole_def list_ex_iff)

lemma service_role_no_slash: "IsPlatformServiceRole r \<Longrightarrow> r \<noteq> [] \<and> CHR ''/'' \<notin> set r
    \<and> r \<noteq> ''role'' \<and> r \<noteq> ''tenant'' \<and> r \<noteq> ''node''"
  by (auto simp: IsPlatformServiceRole_iff kRoles_def)

lemma SplitPath_join:
  "\<forall>x \<in> set xs. x \<noteq> [] \<and> CHR ''/'' \<notin> set x \<Longrightarrow> SplitPath (join_with ''/'' xs) = xs"
  unfolding SplitPath_def by (rule split_join)

text \<open>The identity a certificate is issued for is the identity the platform reads back
  from it: for a service role, a tenant and a node, none of them empty or holding a slash,
  the URI \<^verbatim>\<open>spiffe://styio-platform/role/R/tenant/T/node/N\<close> parses to exactly \<open>(R, T, N)\<close>. The
  tenant must not be the word \<^verbatim>\<open>node\<close>, which the key search would take for the key.\<close>

theorem ParseMtlsUriSan_roundtrip:
  assumes "IsPlatformServiceRole r" and "t \<noteq> []" and "CHR ''/'' \<notin> set t" and "t \<noteq> ''node''"
    and "n \<noteq> []" and "CHR ''/'' \<notin> set n"
  shows "ParseMtlsUriSan (uri_san_prefix @ ''role/'' @ r @ ''/tenant/'' @ t @ ''/node/'' @ n)
           = Some \<lparr>id_role = r, id_tenant_id = t, id_node_id = n\<rparr>"
proof -
  let ?xs = "[''role'', r, ''tenant'', t, ''node'', n]"
  have "SplitPath (''role/'' @ r @ ''/tenant/'' @ t @ ''/node/'' @ n) = ?xs"
    using SplitPath_join [of ?xs] assms service_role_no_slash [OF assms(1)] by simp
  then show ?thesis
    using assms service_role_no_slash [OF assms(1)]
    by (simp add: ParseMtlsUriSan_def Let_def uri_san_prefix_def)
qed

theorem ParseMtlsUriSan_roundtrip_witness:
  "ParseMtlsUriSan (uri_san_prefix @ ''role/'' @ ''worker'' @ ''/tenant/'' @ ''acme'' @ ''/node/'' @ ''n1'')
     = Some \<lparr>id_role = ''worker'', id_tenant_id = ''acme'', id_node_id = ''n1''\<rparr>"
  by (rule ParseMtlsUriSan_roundtrip) (simp_all add: IsPlatformServiceRole_def kRoles_def)

lemma ParseMtlsUriSan_Some:
  assumes "ParseMtlsUriSan v = Some i"
  shows "id_role i \<in> set kRoles" and "id_node_id i \<noteq> []" and "starts_with v uri_san_prefix"
  using assms by (auto simp: ParseMtlsUriSan_def Let_def IsPlatformServiceRole_iff split: if_splits)

lemma IsInternalRole_iff: "IsInternalRole i \<longleftrightarrow> IsPlatformServiceRole (id_role i)"
  by (auto simp: IsInternalRole_def IsPlatformServiceRole_iff kRoles_def)

text \<open>Every identity the certificate parser accepts names a node and carries one of the
  seven service roles, and so passes the internal-route test; nothing else passes it.\<close>

theorem ParseMtlsUriSan_internal:
  "(ParseMtlsUriSan v = Some i \<longrightarrow> IsInternalRole i \<and> id_node_id i \<noteq> [])
   \<and> (IsInternalRole i \<longleftrightarrow> id_role i \<in> set kRoles)"
  using ParseMtlsUriSan_Some [of v i] by (auto simp: IsInternalRole_iff IsPlatformServiceRole_iff)

theorem ParseMtlsUriSan_internal_witness:
  "ParseMtlsUriSan ''spiffe://styio-platform/role/worker/node/n1''
     = Some \<lparr>id_role = ''worker'', id_tenant_id = [], id_node_id = ''n1''\<rparr>
   \<and> IsInternalRole \<lparr>id_role = ''worker'', id_tenant_id = [], id_node_id = ''n1''\<rparr>"
proof -
  have p: "ParseMtlsUriSan ''spiffe://styio-platform/role/worker/node/n1''
     = Some \<lparr>id_role = ''worker'', id_tenant_id = [], id_node_id = ''n1''\<rparr>" by code_simp
  with ParseMtlsUriSan_internal [of "''spiffe://styio-platform/role/worker/node/n1''"
      "\<lparr>id_role = ''worker'', id_tenant_id = [], id_node_id = ''n1''\<rparr>"]
  show ?thesis by simp
qed

lemma SupportedProvider_no_colon: "SupportedProvider p \<Longrightarrow> CHR '':'' \<notin> set p"
  by (auto simp: SupportedProvider_def)

lemma NormalizeExternalIdentity_Inr:
  assumes "NormalizeExternalIdentity q = Inr r"
  shows "SupportedProvider (ex_provider r)" and "ex_subject r \<noteq> []"
    and "ex_actor_id r = ''external:'' @ ex_provider r @ '':'' @ ex_subject r"
    and "json_lookup q ''provider'' = Some (JString (ex_provider r))"
  using assms
  by (auto simp: NormalizeExternalIdentity_def rbind_eq_Inr RequireString_def
      split: option.splits json.splits if_splits)

text \<open>Two external logins get the same actor id only when they name the same provider and
  the same subject, so one provider's subject cannot impersonate another's.\<close>

theorem NormalizeExternalIdentity_actor_inj:
  assumes "NormalizeExternalIdentity q = Inr r" and "NormalizeExternalIdentity q' = Inr r'"
  shows "ex_actor_id r = ex_actor_id r' \<longleftrightarrow> ex_provider r = ex_provider r' \<and> ex_subject r = ex_subject r'"
  using NormalizeExternalIdentity_Inr [OF assms(1)] NormalizeExternalIdentity_Inr [OF assms(2)]
  by (simp add: append_sep_inj SupportedProvider_no_colon)

definition google_login :: "string \<Rightarrow> json" where
  "google_login sub = json_obj [(''provider'', JString ''google''),
     (''claims'', json_obj [(''sub'', JString sub)])]"

theorem NormalizeExternalIdentity_actor_inj_witness:
  "\<exists>r r'. NormalizeExternalIdentity (google_login ''u1'') = Inr r
     \<and> NormalizeExternalIdentity (google_login ''u2'') = Inr r' \<and> ex_actor_id r \<noteq> ex_actor_id r'"
proof -
  have "\<exists>r. NormalizeExternalIdentity (google_login ''u1'') = Inr r \<and> ex_subject r = ''u1''"
    and "\<exists>r. NormalizeExternalIdentity (google_login ''u2'') = Inr r \<and> ex_subject r = ''u2''"
    by (simp_all add: google_login_def NormalizeExternalIdentity_def RequireString_def json_obj_def
        SupportedProvider_def external_subject_def smap_contains_def json_value.simps)
  then obtain r r' where "NormalizeExternalIdentity (google_login ''u1'') = Inr r" "ex_subject r = ''u1''"
    "NormalizeExternalIdentity (google_login ''u2'') = Inr r'" "ex_subject r' = ''u2''" by blast
  with NormalizeExternalIdentity_actor_inj [of "google_login ''u1''" r "google_login ''u2''" r'] show ?thesis
    by auto
qed

end
