(* ===== verification/Http_Routes.thy ===== *)
theory Http_Routes
  imports Client_Auth
begin

text \<open>
  Requests, responses and routing: \<^verbatim>\<open>PlatformService/Http.cpp\<close> (methods, route matching, the
  response envelopes), the platform's route catalog (\<^verbatim>\<open>PlatformService/RouteCatalog.cpp\<close>) and the
  registry's (\<^verbatim>\<open>PackageRegistry/ControlPlane/RegistryRoutes.cpp\<close>).
\<close>

datatype HttpMethod = Get | Post | Delete

record HttpRequest =
  rq_method :: HttpMethod
  rq_path :: string
  rq_headers :: "(string, string) smap"
  rq_body :: json
  rq_identity :: "MtlsIdentity option"

record HttpResponse =
  resp_status_code :: int
  resp_body :: json

record RouteSpec =
  rs_operation_id :: string
  rs_method :: HttpMethod
  rs_path :: string
  rs_internal :: bool

record RouteMatch =
  rm_route :: RouteSpec
  rm_parameters :: "(string, string) smap"

definition SplitRoute :: "string \<Rightarrow> string list" where
  "SplitRoute route = filter (\<lambda>item. item \<noteq> []) (getlines (CHR ''/'') route)"

definition IsParameter :: "string \<Rightarrow> bool" where
  "IsParameter segment = (length segment > 2 \<and> hd segment = CHR ''{'' \<and> last segment = CHR ''}'')"

definition ParameterName :: "string \<Rightarrow> string" where
  "ParameterName segment = take (length segment - 2) (drop 1 segment)"

fun ToString :: "HttpMethod \<Rightarrow> string" where
  "ToString Get = ''GET''"
| "ToString Post = ''POST''"
| "ToString Delete = ''DELETE''"

definition ParseHttpMethod :: "string \<Rightarrow> HttpMethod option" where
  "ParseHttpMethod s =
     (if s = ''GET'' then Some Get else if s = ''POST'' then Some Post
      else if s = ''DELETE'' then Some Delete else None)"

text \<open>The inner loop of \<^verbatim>\<open>MatchRoute\<close>: compare the segments, binding parameters as it goes.\<close>

fun bind_parts :: "string list \<Rightarrow> string list \<Rightarrow> (string, string) smap \<Rightarrow> (string, string) smap option" where
  "bind_parts (r # rs) (a # as) parameters =
     (if IsParameter r then bind_parts rs as (smap_put (ParameterName r) a parameters)
      else if r \<noteq> a then None
      else bind_parts rs as parameters)"
| "bind_parts _ _ parameters = Some parameters"

fun MatchRoute :: "RouteSpec list \<Rightarrow> HttpMethod \<Rightarrow> string \<Rightarrow> RouteMatch option" where
  "MatchRoute [] m path = None"
| "MatchRoute (route # routes) m path =
     (if rs_method route \<noteq> m then MatchRoute routes m path
      else if length (SplitRoute (rs_path route)) \<noteq> length (SplitRoute path)
      then MatchRoute routes m path
      else (case bind_parts (SplitRoute (rs_path route)) (SplitRoute path) [] of
              None \<Rightarrow> MatchRoute routes m path
            | Some parameters \<Rightarrow> Some \<lparr>rm_route = route, rm_parameters = parameters\<rparr>))"

definition SuccessEnvelope :: "string \<Rightarrow> json \<Rightarrow> json" where
  "SuccessEnvelope message payload = json_obj
     [(''returncode'', JInt 0), (''message'', JString message), (''stdout'', JString []),
      (''stderr'', JString []), (''payload'', payload)]"

definition FailureEnvelope :: "string \<Rightarrow> string \<Rightarrow> string \<Rightarrow> string \<Rightarrow> int \<Rightarrow> json" where
  "FailureEnvelope message detail category operation_id returncode = json_obj
     [(''returncode'', JInt returncode), (''message'', JString message), (''stdout'', JString []),
      (''stderr'', JString detail),
      (''error_payload'', json_obj
         [(''category'', JString category), (''detail'', JString detail),
          (''operation_id'', JString operation_id)])]"

section \<open>The route catalogs\<close>

definition kRegistryOperations :: "string list" where
  "kRegistryOperations = [
      ''registryStatus'',
      ''registryDescriptor'',
      ''publishRelease'',
      ''verifyRegistry'',
      ''getPackage'',
      ''listPackageReleases'',
      ''getPackageRelease'',
      ''yankPackageRelease'',
      ''unyankPackageRelease'',
      ''listPackageOwners'',
      ''addPackageOwner'',
      ''removePackageOwner'',
      ''createPublishToken'',
      ''listPublishTokens'',
      ''revokePublishToken'',
      ''listRepositories'',
      ''listRepositoryVersions'',
      ''getPublication'',
      ''verifyPublication'',
      ''listDistributions'',
      ''promoteDistribution'',
      ''rollbackDistribution'',
      ''listReleaseChannels'',
      ''rolloutReleaseChannel'',
      ''mirrorStatus'']"

definition IsRegistryOperation :: "string \<Rightarrow> bool" where
  "IsRegistryOperation operation_id = list_ex (\<lambda>o'. o' = operation_id) kRegistryOperations"

definition IsRegistryTokenCapableOperation :: "string \<Rightarrow> bool" where
  "IsRegistryTokenCapableOperation op =
     (op = ''publishRelease'' \<or> op = ''yankPackageRelease'' \<or> op = ''unyankPackageRelease''
      \<or> op = ''addPackageOwner'' \<or> op = ''removePackageOwner'' \<or> op = ''promoteDistribution''
      \<or> op = ''rollbackDistribution'')"

definition BuildPlatformControlPlaneRoutes :: "RouteSpec list" where
  "BuildPlatformControlPlaneRoutes = [
      \<lparr>rs_operation_id = ''health'', rs_method = Get,
       rs_path = ''/health'', rs_internal = False\<rparr>,
      \<lparr>rs_operation_id = ''nodeSelf'', rs_method = Get,
       rs_path = ''/nodes/self'', rs_internal = False\<rparr>,
      \<lparr>rs_operation_id = ''submitJob'', rs_method = Post,
       rs_path = ''/jobs'', rs_internal = False\<rparr>,
      \<lparr>rs_operation_id = ''getJob'', rs_method = Get,
       rs_path = ''/jobs/{job_id}'', rs_internal = False\<rparr>,
      \<lparr>rs_operation_id = ''getJobEvents'', rs_method = Get,
       rs_path = ''/jobs/{job_id}/events'', rs_internal = False\<rparr>,
      \<lparr>rs_operation_id = ''cancelJob'', rs_method = Post,
       rs_path = ''/jobs/{job_id}/cancel'', rs_internal = False\<rparr>,
      \<lparr>rs_operation_id = ''registerWorker'', rs_method = Post,
       rs_path = ''/workers/register'', rs_internal = True\<rparr>,
      \<lparr>rs_operation_id = ''registerCompileContainer'', rs_method = Post,
       rs_path = ''/compile-containers/register'', rs_internal = True\<rparr>,
      \<lparr>rs_operation_id = ''getCompileContainer'', rs_method = Get,
       rs_path = ''/compile-containers/{container_id}'', rs_internal = True\<rparr>,
      \<lparr>rs_operation_id = ''switchCompileContainerWorkspace'', rs_method = Post,
       rs_path = ''/compile-containers/{container_id}/switch-workspace'', rs_internal = True\<rparr>,
      \<lparr>rs_operation_id = ''claimJob'', rs_method = Post,
       rs_path = ''/jobs/claim'', rs_internal = True\<rparr>,
      \<lparr>rs_operation_id = ''heartbeatJob'', rs_method = Post,
       rs_path = ''/jobs/{job_id}/heartbeat'', rs_internal = True\<rparr>,
      \<lparr>rs_operation_id = ''completeJob'', rs_method = Post,
       rs_path = ''/jobs/{job_id}/complete'', rs_internal = True\<rparr>,
      \<lparr>rs_operation_id = ''registerWorkgroupCluster'', rs_method = Post,
       rs_path = ''/workgroups/{workgroup_id}/clusters/register'', rs_internal = True\<rparr>,
      \<lparr>rs_operation_id = ''listWorkgroupClusters'', rs_method = Get,
       rs_path = ''/workgroups/{workgroup_id}/clusters'', rs_internal = True\<rparr>,
      \<lparr>rs_operation_id = ''mirrorStatus'', rs_method = Get,
       rs_path = ''/mirrors/{mirror_id}/status'', rs_internal = False\<rparr>,
      \<lparr>rs_operation_id = ''listDocumentationGovernance'', rs_method = Get,
       rs_path = ''/docs/governance'', rs_internal = True\<rparr>,
      \<lparr>rs_operation_id = ''planDocumentationChange'', rs_method = Post,
       rs_path = ''/docs/change-plan'', rs_internal = True\<rparr>,
      \<lparr>rs_operation_id = ''listEcosystemRepositories'', rs_method = Get,
       rs_path = ''/ecosystem/repositories'', rs_internal = True\<rparr>,
      \<lparr>rs_operation_id = ''planEcosystemRelease'', rs_method = Post,
       rs_path = ''/ecosystem/releases/plan'', rs_internal = True\<rparr>,
      \<lparr>rs_operation_id = ''createRecoverySnapshot'', rs_method = Post,
       rs_path = ''/ops/recovery/snapshots'', rs_internal = True\<rparr>,
      \<lparr>rs_operation_id = ''listRecoverySnapshots'', rs_method = Get,
       rs_path = ''/ops/recovery/snapshots'', rs_internal = True\<rparr>,
      \<lparr>rs_operation_id = ''restoreRecoverySnapshot'', rs_method = Post,
       rs_path = ''/ops/recovery/snapshots/{snapshot_id}/restore'', rs_internal = True\<rparr>,
      \<lparr>rs_operation_id = ''listAuditEvents'', rs_method = Get,
       rs_path = ''/ops/audit-events'', rs_internal = True\<rparr>,
      \<lparr>rs_operation_id = ''platformMetrics'', rs_method = Get,
       rs_path = ''/ops/metrics'', rs_internal = True\<rparr>,
      \<lparr>rs_operation_id = ''storageStatus'', rs_method = Get,
       rs_path = ''/storage/status'', rs_internal = True\<rparr>,
      \<lparr>rs_operation_id = ''exchangeExternalIdentity'', rs_method = Post,
       rs_path = ''/identity/external/exchange'', rs_internal = False\<rparr>]"

definition BuildRegistryControlPlaneRoutes :: "RouteSpec list" where
  "BuildRegistryControlPlaneRoutes = [
      \<lparr>rs_operation_id = ''registryStatus'', rs_method = Get,
       rs_path = ''/api/spio-registry-control/v1/status'', rs_internal = True\<rparr>,
      \<lparr>rs_operation_id = ''registryDescriptor'', rs_method = Get,
       rs_path = ''/api/spio-registry-control/v1/descriptor'', rs_internal = True\<rparr>,
      \<lparr>rs_operation_id = ''publishRelease'', rs_method = Post,
       rs_path = ''/api/spio-registry-control/v1/publish'', rs_internal = True\<rparr>,
      \<lparr>rs_operation_id = ''verifyRegistry'', rs_method = Post,
       rs_path = ''/api/spio-registry-control/v1/verify'', rs_internal = True\<rparr>,
      \<lparr>rs_operation_id = ''getPackage'', rs_method = Get,
       rs_path = ''/api/spio-registry-control/v1/packages/{namespace}/{name}'', rs_internal = True\<rparr>,
      \<lparr>rs_operation_id = ''listPackageReleases'', rs_method = Get,
       rs_path = ''/api/spio-registry-control/v1/packages/{namespace}/{name}/releases'', rs_internal = True\<rparr>,
      \<lparr>rs_operation_id = ''getPackageRelease'', rs_method = Get,
       rs_path = ''/api/spio-registry-control/v1/packages/{namespace}/{name}/releases/{version}'', rs_internal = True\<rparr>,
      \<lparr>rs_operation_id = ''yankPackageRelease'', rs_method = Post,
       rs_path = ''/api/spio-registry-control/v1/packages/{namespace}/{name}/releases/{version}/yank'', rs_internal = True\<rparr>,
      \<lparr>rs_operation_id = ''unyankPackageRelease'', rs_method = Post,
       rs_path = ''/api/spio-registry-control/v1/packages/{namespace}/{name}/releases/{version}/unyank'', rs_internal = True\<rparr>,
      \<lparr>rs_operation_id = ''listPackageOwners'', rs_method = Get,
       rs_path = ''/api/spio-registry-control/v1/packages/{namespace}/{name}/owners'', rs_internal = True\<rparr>,
      \<lparr>rs_operation_id = ''addPackageOwner'', rs_method = Post,
       rs_path = ''/api/spio-registry-control/v1/packages/{namespace}/{name}/owners'', rs_internal = True\<rparr>,
      \<lparr>rs_operation_id = ''removePackageOwner'', rs_method = Delete,
       rs_path = ''/api/spio-registry-control/v1/packages/{namespace}/{name}/owners/{owner_id}'', rs_internal = True\<rparr>,
      \<lparr>rs_operation_id = ''createPublishToken'', rs_method = Post,
       rs_path = ''/api/spio-registry-control/v1/tokens'', rs_internal = True\<rparr>,
      \<lparr>rs_operation_id = ''listPublishTokens'', rs_method = Get,
       rs_path = ''/api/spio-registry-control/v1/tokens'', rs_internal = True\<rparr>,
      \<lparr>rs_operation_id = ''revokePublishToken'', rs_method = Delete,
       rs_path = ''/api/spio-registry-control/v1/tokens/{token_id}'', rs_internal = True\<rparr>,
      \<lparr>rs_operation_id = ''listRepositories'', rs_method = Get,
       rs_path = ''/api/spio-registry-control/v1/repositories'', rs_internal = True\<rparr>,
      \<lparr>rs_operation_id = ''listRepositoryVersions'', rs_method = Get,
       rs_path = ''/api/spio-registry-control/v1/repositories/{repository_id}/versions'', rs_internal = True\<rparr>,
      \<lparr>rs_operation_id = ''getPublication'', rs_method = Get,
       rs_path = ''/api/spio-registry-control/v1/publications/{publication_id}'', rs_internal = True\<rparr>,
      \<lparr>rs_operation_id = ''verifyPublication'', rs_method = Post,
       rs_path = ''/api/spio-registry-control/v1/publications/{publication_id}/verify'', rs_internal = True\<rparr>,
      \<lparr>rs_operation_id = ''listDistributions'', rs_method = Get,
       rs_path = ''/api/spio-registry-control/v1/distributions'', rs_internal = True\<rparr>,
      \<lparr>rs_operation_id = ''promoteDistribution'', rs_method = Post,
       rs_path = ''/api/spio-registry-control/v1/distributions/{distribution_id}/promote'', rs_internal = True\<rparr>,
      \<lparr>rs_operation_id = ''rollbackDistribution'', rs_method = Post,
       rs_path = ''/api/spio-registry-control/v1/distributions/{distribution_id}/rollback'', rs_internal = True\<rparr>,
      \<lparr>rs_operation_id = ''listReleaseChannels'', rs_method = Get,
       rs_path = ''/api/spio-registry-control/v1/release-channels'', rs_internal = True\<rparr>,
      \<lparr>rs_operation_id = ''rolloutReleaseChannel'', rs_method = Post,
       rs_path = ''/api/spio-registry-control/v1/release-channels/{channel}/rollout'', rs_internal = True\<rparr>]"

text \<open>The route table the router's constructor builds.\<close>

definition router_routes :: "RouteSpec list" where
  "router_routes = BuildPlatformControlPlaneRoutes @ BuildRegistryControlPlaneRoutes"

section \<open>Matching\<close>

definition param_pairs :: "string list \<Rightarrow> string list \<Rightarrow> (string \<times> string) list" where
  "param_pairs rs as = map (\<lambda>(r, a). (ParameterName r, a)) (filter (\<lambda>(r, a). IsParameter r) (zip rs as))"

definition param_names :: "string list \<Rightarrow> string list" where
  "param_names rs = map ParameterName (filter IsParameter rs)"

definition seg_matches :: "string \<Rightarrow> string \<Rightarrow> bool" where
  "seg_matches r a = (IsParameter r \<or> r = a)"

lemma param_pairs_simps [simp]:
  "param_pairs [] as = []"
  "param_pairs (r # rs) (a # as) =
     (if IsParameter r then (ParameterName r, a) # param_pairs rs as else param_pairs rs as)"
  by (simp_all add: param_pairs_def)

lemma bind_parts_Some_iff:
  "length rs = length as \<Longrightarrow> (\<exists>ps. bind_parts rs as qs = Some ps) \<longleftrightarrow> list_all2 seg_matches rs as"
  by (induction rs as arbitrary: qs rule: list_induct2) (auto simp: seg_matches_def)

lemma fst_param_pairs: "length rs = length as \<Longrightarrow> map fst (param_pairs rs as) = param_names rs"
  by (induction rs as rule: list_induct2) (auto simp: param_names_def)

lemma bind_parts_find:
  assumes "length rs = length as" and "bind_parts rs as qs = Some ps" and "distinct (param_names rs)"
  shows "smap_find ps k = (case map_of (param_pairs rs as) k of Some v \<Rightarrow> Some v | None \<Rightarrow> smap_find qs k)"
  using assms
proof (induction rs as arbitrary: qs rule: list_induct2)
  case (Cons r rs a as)
  show ?case
  proof (cases "IsParameter r")
    case True
    with Cons.prems have "ParameterName r \<notin> set (map fst (param_pairs rs as))"
      by (simp add: fst_param_pairs [OF Cons.hyps] param_names_def)
    then have "map_of (param_pairs rs as) (ParameterName r) = None" by (simp add: map_of_eq_None_iff)
    with True Cons show ?thesis
      by (auto simp: param_names_def split: option.splits)
  next
    case False
    with Cons show ?thesis by (auto simp: param_names_def split: if_splits)
  qed
qed simp

definition route_matches :: "RouteSpec \<Rightarrow> HttpMethod \<Rightarrow> string \<Rightarrow> bool" where
  "route_matches r m path =
     (rs_method r = m \<and> list_all2 seg_matches (SplitRoute (rs_path r)) (SplitRoute path))"

lemma MatchRoute_find:
  "map_option rm_route (MatchRoute routes m path) = List.find (\<lambda>r. route_matches r m path) routes"
proof (induction routes)
  case (Cons r rs)
  have "length (SplitRoute (rs_path r)) = length (SplitRoute path) \<Longrightarrow>
          bind_parts (SplitRoute (rs_path r)) (SplitRoute path) [] = None
          \<longleftrightarrow> \<not> list_all2 seg_matches (SplitRoute (rs_path r)) (SplitRoute path)"
    using bind_parts_Some_iff [of "SplitRoute (rs_path r)" "SplitRoute path" "[]"] by auto
  with Cons show ?case
    by (auto simp: route_matches_def dest: list_all2_lengthD split: option.splits)
qed simp

lemma MatchRoute_params:
  assumes "MatchRoute routes m path = Some rm"
  shows "bind_parts (SplitRoute (rs_path (rm_route rm))) (SplitRoute path) [] = Some (rm_parameters rm)
         \<and> length (SplitRoute (rs_path (rm_route rm))) = length (SplitRoute path)"
  using assms by (induction routes) (auto split: if_splits option.splits)

definition fill_segment :: "(string \<Rightarrow> string) \<Rightarrow> string \<Rightarrow> string" where
  "fill_segment vals r = (if IsParameter r then vals (ParameterName r) else r)"

text \<open>
  Two routes overlap when some path could match both: the same method, the same number of
  segments, and at each position equal segments or a parameter.
\<close>

definition routes_overlap :: "RouteSpec \<Rightarrow> RouteSpec \<Rightarrow> bool" where
  "routes_overlap r s =
     (rs_method r = rs_method s
      \<and> list_all2 (\<lambda>x y. IsParameter x \<or> IsParameter y \<or> x = y) (SplitRoute (rs_path r)) (SplitRoute (rs_path s)))"

lemma both_match_overlap:
  "route_matches r m path \<Longrightarrow> route_matches s m path \<Longrightarrow> routes_overlap r s"
  unfolding route_matches_def routes_overlap_def seg_matches_def list_all2_conv_all_nth by metis

fun pairwise_disjoint :: "RouteSpec list \<Rightarrow> bool" where
  "pairwise_disjoint [] = True"
| "pairwise_disjoint (r # rs) = (list_all (\<lambda>s. \<not> routes_overlap r s) rs \<and> pairwise_disjoint rs)"

lemma find_unique:
  assumes "pairwise_disjoint routes" and "r \<in> set routes" and "route_matches r m path"
  shows "List.find (\<lambda>r. route_matches r m path) routes = Some r"
  using assms by (induction routes) (auto simp: list_all_iff dest: both_match_overlap)

lemma MatchRoute_unique:
  assumes "pairwise_disjoint routes" and "r \<in> set routes" and "route_matches r m path"
  shows "\<exists>ps. MatchRoute routes m path = Some \<lparr>rm_route = r, rm_parameters = ps\<rparr>"
proof -
  have "map_option rm_route (MatchRoute routes m path) = Some r"
    unfolding MatchRoute_find using assms by (rule find_unique)
  then obtain rm where rm: "MatchRoute routes m path = Some rm" "rm_route rm = r" by auto
  from rm(2) have "rm = \<lparr>rm_route = r, rm_parameters = rm_parameters rm\<rparr>" by simp
  with rm(1) show ?thesis by metis
qed

text \<open>For evaluation each path is split once: parameters become \<^const>\<open>None\<close>.\<close>

definition route_key :: "RouteSpec \<Rightarrow> HttpMethod \<times> string option list" where
  "route_key r = (rs_method r, map (\<lambda>x. if IsParameter x then None else Some x) (SplitRoute (rs_path r)))"

fun compatible :: "string option list \<Rightarrow> string option list \<Rightarrow> bool" where
  "compatible [] [] = True"
| "compatible (x # xs) (y # ys) = ((x = None \<or> y = None \<or> x = y) \<and> compatible xs ys)"
| "compatible _ _ = False"

fun keys_apart :: "(HttpMethod \<times> string option list) list \<Rightarrow> bool" where
  "keys_apart [] = True"
| "keys_apart ((m, x) # ks) = (list_all (\<lambda>(n, y). m = n \<longrightarrow> \<not> compatible x y) ks \<and> keys_apart ks)"

lemma compatible_iff:
  "compatible (map (\<lambda>x. if IsParameter x then None else Some x) xs) (map (\<lambda>x. if IsParameter x then None else Some x) ys)
     \<longleftrightarrow> list_all2 (\<lambda>x y. IsParameter x \<or> IsParameter y \<or> x = y) xs ys"
proof (induction xs arbitrary: ys)
  case Nil
  show ?case by (cases ys) auto
next
  case (Cons x xs)
  then show ?case by (cases ys) auto
qed

lemma pairwise_disjoint_keys: "pairwise_disjoint routes \<longleftrightarrow> keys_apart (map route_key routes)"
  by (induction routes) (auto simp: route_key_def routes_overlap_def compatible_iff list_all_iff)

lemma router_routes_disjoint: "pairwise_disjoint router_routes"
  unfolding pairwise_disjoint_keys by code_simp

lemma router_routes_params_distinct:
  "list_all (\<lambda>r. distinct (param_names (SplitRoute (rs_path r)))) router_routes"
  by code_simp

lemma SplitRoute_segments: "x \<in> set (SplitRoute s) \<Longrightarrow> x \<noteq> [] \<and> CHR ''/'' \<notin> set x"
  by (auto simp: SplitRoute_def getlines_no_delim)

text \<open>The request path that fills the parameters of a route's pattern.\<close>

definition route_path :: "RouteSpec \<Rightarrow> (string \<Rightarrow> string) \<Rightarrow> string" where
  "route_path r vals = CHR ''/'' # join_with ''/'' (map (fill_segment vals) (SplitRoute (rs_path r)))"

lemma SplitRoute_route_path:
  assumes "\<forall>p \<in> set (param_names (SplitRoute (rs_path r))). vals p \<noteq> [] \<and> CHR ''/'' \<notin> set (vals p)"
  shows "SplitRoute (route_path r vals) = map (fill_segment vals) (SplitRoute (rs_path r))"
proof -
  have "\<forall>x \<in> set (map (fill_segment vals) (SplitRoute (rs_path r))). x \<noteq> [] \<and> CHR ''/'' \<notin> set x"
    using assms SplitRoute_segments by (auto simp: fill_segment_def param_names_def)
  from split_join [OF this] show ?thesis by (simp add: SplitRoute_def route_path_def)
qed

lemma map_of_filled:
  "map_of (param_pairs rs (map (fill_segment vals) rs)) k
     = (if k \<in> set (param_names rs) then Some (vals k) else None)"
  by (induction rs) (auto simp: param_names_def fill_segment_def)

text \<open>\<^bold>\<open>C12.\<close> Every route of the platform is reachable and none shadows another: the path made by
  filling a route's parameters with any non-empty, slash-free values is dispatched to
  exactly that route, and the handler sees exactly those values.\<close>

theorem router_routes_dispatch:
  assumes "r \<in> set router_routes"
    and "\<forall>p \<in> set (param_names (SplitRoute (rs_path r))). vals p \<noteq> [] \<and> CHR ''/'' \<notin> set (vals p)"
  shows "\<exists>ps. MatchRoute router_routes (rs_method r) (route_path r vals)
                = Some \<lparr>rm_route = r, rm_parameters = ps\<rparr>
           \<and> (\<forall>k. smap_find ps k
                  = (if k \<in> set (param_names (SplitRoute (rs_path r))) then Some (vals k) else None))"
proof -
  let ?rs = "SplitRoute (rs_path r)"
  note split = SplitRoute_route_path [OF assms(2)]
  have "route_matches r (rs_method r) (route_path r vals)"
    by (auto simp: route_matches_def split list_all2_conv_all_nth seg_matches_def fill_segment_def)
  with router_routes_disjoint assms(1)
  obtain ps where ps: "MatchRoute router_routes (rs_method r) (route_path r vals)
                         = Some \<lparr>rm_route = r, rm_parameters = ps\<rparr>"
    using MatchRoute_unique by blast
  then have b: "bind_parts ?rs (map (fill_segment vals) ?rs) [] = Some ps"
    using MatchRoute_params [OF ps] by (simp add: split)
  have "distinct (param_names ?rs)"
    using router_routes_params_distinct assms(1) by (simp add: list_all_iff)
  from bind_parts_find [OF _ b this]
  have "smap_find ps k = (if k \<in> set (param_names ?rs) then Some (vals k) else None)" for k
    by (simp add: map_of_filled split: option.splits)
  with ps show ?thesis by blast
qed

theorem router_routes_dispatch_witness:
  "\<exists>ps. MatchRoute router_routes Post ''/jobs/job-7/cancel''
     = Some \<lparr>rm_route = \<lparr>rs_operation_id = ''cancelJob'', rs_method = Post,
               rs_path = ''/jobs/{job_id}/cancel'', rs_internal = False\<rparr>, rm_parameters = ps\<rparr>
     \<and> smap_find ps ''job_id'' = Some ''job-7''"
proof -
  let ?r = "\<lparr>rs_operation_id = ''cancelJob'', rs_method = Post,
             rs_path = ''/jobs/{job_id}/cancel'', rs_internal = False\<rparr>"
  have r: "?r \<in> set router_routes"
    by (simp add: router_routes_def BuildPlatformControlPlaneRoutes_def)
  have n: "param_names (SplitRoute ''/jobs/{job_id}/cancel'') = [''job_id'']" by code_simp
  have p: "route_path ?r (\<lambda>_. ''job-7'') = ''/jobs/job-7/cancel''" by code_simp
  from router_routes_dispatch [OF r, of "\<lambda>_. ''job-7''"] show ?thesis by (auto simp: n p)
qed

text \<open>A path the router accepts is the pattern of the matched route with the captured
  parameters put back: matching loses nothing and never invents a parameter.\<close>

theorem MatchRoute_sound:
  assumes "MatchRoute router_routes m path = Some rm"
  shows "rm_route rm \<in> set router_routes \<and> rs_method (rm_route rm) = m
    \<and> map (fill_segment (\<lambda>p. case smap_find (rm_parameters rm) p of Some v \<Rightarrow> v | None \<Rightarrow> []))
        (SplitRoute (rs_path (rm_route rm))) = SplitRoute path"
proof -
  let ?r = "rm_route rm" and ?rs = "SplitRoute (rs_path (rm_route rm))" and ?as = "SplitRoute path"
  have "map_option rm_route (MatchRoute router_routes m path) = Some ?r" by (simp add: assms)
  then have r: "?r \<in> set router_routes" "route_matches ?r m path"
    unfolding MatchRoute_find by (auto simp: find_Some_iff)
  have b: "bind_parts ?rs ?as [] = Some (rm_parameters rm)" and l: "length ?rs = length ?as"
    using MatchRoute_params [OF assms] by auto
  have d: "distinct (param_names ?rs)"
    using router_routes_params_distinct r(1) by (simp add: list_all_iff)
  have find: "smap_find (rm_parameters rm) k = map_of (param_pairs ?rs ?as) k" for k
    by (simp add: bind_parts_find [OF l b d] split: option.splits)
  have "?rs ! i \<in> set ?rs \<Longrightarrow> fill_segment (\<lambda>p. case smap_find (rm_parameters rm) p of Some v \<Rightarrow> v | None \<Rightarrow> []) (?rs ! i) = ?as ! i"
    if i: "i < length ?rs" for i
  proof (cases "IsParameter (?rs ! i)")
    case True
    have "(?rs ! i, ?as ! i) \<in> set (zip ?rs ?as)" using i l by (auto simp: in_set_zip)
    with True have "(ParameterName (?rs ! i), ?as ! i) \<in> set (param_pairs ?rs ?as)"
      unfolding param_pairs_def by force
    then have "map_of (param_pairs ?rs ?as) (ParameterName (?rs ! i)) = Some (?as ! i)"
      using d by (simp add: fst_param_pairs [OF l])
    with True show ?thesis by (simp add: fill_segment_def find)
  next
    case False
    with r(2) i show ?thesis
      by (auto simp: fill_segment_def route_matches_def list_all2_conv_all_nth seg_matches_def)
  qed
  with r l show ?thesis by (auto simp: route_matches_def intro: nth_equalityI)
qed

theorem MatchRoute_sound_witness:
  "\<exists>rm. MatchRoute router_routes Get ''/jobs/j1'' = Some rm \<and> rm_route rm \<in> set router_routes
     \<and> rs_method (rm_route rm) = Get"
proof -
  have "MatchRoute router_routes Get ''/jobs/j1'' \<noteq> None" by code_simp
  then obtain rm where "MatchRoute router_routes Get ''/jobs/j1'' = Some rm" by auto
  with MatchRoute_sound [OF this] show ?thesis by blast
qed

text \<open>The operations open to every service role are exactly the job and compile-container
  protocol, the node queries, the cluster listing and the external identity exchange; every
  other operation of the route table is refused to some service role. In particular each
  registry operation has a rule of its own.\<close>

theorem operations_open_to_all_roles:
  "map rs_operation_id
     (filter (\<lambda>r. list_all (\<lambda>role. IsAuthorizedForOperation (rs_operation_id r)
                       \<lparr>id_role = role, id_tenant_id = [], id_node_id = []\<rparr>) kRoles) router_routes)
   = [''health'', ''nodeSelf'', ''submitJob'', ''getJob'', ''getJobEvents'', ''cancelJob'',
      ''registerWorker'', ''registerCompileContainer'', ''getCompileContainer'',
      ''switchCompileContainerWorkspace'', ''claimJob'', ''heartbeatJob'', ''completeJob'',
      ''listWorkgroupClusters'', ''exchangeExternalIdentity'']"
  by code_simp

lemma ParseHttpMethod_ToString: "ParseHttpMethod s = Some m \<longleftrightarrow> s = ToString m"
  by (cases m) (auto simp: ParseHttpMethod_def)

end
