(* ===== verification/Platform_Config.thy ===== *)
theory Platform_Config
  imports Json_Value
begin

text \<open>
  The node configuration (\<^verbatim>\<open>PlatformCore/Config.hpp\<close> and \<^verbatim>\<open>Config.cpp\<close>): the nested structs with
  their default values, loading from the process environment (a function from names to
  optional values) and the public view of it that the platform reports.
\<close>

record MtlsConfig =
  mt_tls_enabled :: bool
  mt_required :: bool
  mt_trust_proxy_identity_headers :: bool
  mt_auto_provision :: bool
  mt_ca_root :: string
  mt_ca_path :: string
  mt_cert_path :: string
  mt_key_path :: string

record ObjectStoreConfig =
  os_provider :: string
  os_bucket :: string
  os_endpoint :: string
  os_region :: string
  os_access_key_id :: string
  os_secret_access_key :: string
  os_session_token :: string
  os_prefix :: string
  os_path_style :: bool

record RegistryControlConfig =
  rg_root :: string
  rg_key_dir :: string
  rg_registry_name :: string
  rg_read_root_url :: string
  rg_control_plane_base_url :: string
  rg_mirror_id :: string
  rg_mirror_origin :: string
  rg_mirror_source_root :: string

record WorkgroupConfig =
  wg_enabled :: bool
  wg_id :: string
  wg_trust_domain :: string
  wg_registration_policy :: string
  wg_registration_tenant :: string
  wg_registration_token :: string

record PlatformConfig =
  cfg_bind_host :: string
  cfg_bind_port :: int
  cfg_region :: string
  cfg_node_id :: string
  cfg_roles :: "string list"
  cfg_state_backend :: string
  cfg_postgres_dsn :: string
  cfg_object_store :: ObjectStoreConfig
  cfg_registry :: RegistryControlConfig
  cfg_workgroup :: WorkgroupConfig
  cfg_mtls :: MtlsConfig

definition default_mtls :: MtlsConfig where
  "default_mtls = \<lparr>mt_tls_enabled = False, mt_required = True, mt_trust_proxy_identity_headers = True,
     mt_auto_provision = False, mt_ca_root = ''.styio-platform/mtls'', mt_ca_path = [],
     mt_cert_path = [], mt_key_path = []\<rparr>"

definition default_object_store :: ObjectStoreConfig where
  "default_object_store = \<lparr>os_provider = ''s3'', os_bucket = [], os_endpoint = [],
     os_region = ''local-dev'', os_access_key_id = [], os_secret_access_key = [],
     os_session_token = [], os_prefix = [], os_path_style = True\<rparr>"

definition default_registry :: RegistryControlConfig where
  "default_registry = \<lparr>rg_root = ''.styio-platform/registry-v2'',
     rg_key_dir = ''.styio-platform/registry-v2-keys'', rg_registry_name = ''spio-registry-v2'',
     rg_read_root_url = [], rg_control_plane_base_url = [], rg_mirror_id = ''mirror-local'',
     rg_mirror_origin = ''registry-primary'', rg_mirror_source_root = []\<rparr>"

definition default_workgroup :: WorkgroupConfig where
  "default_workgroup = \<lparr>wg_enabled = True, wg_id = ''styio-local-workgroup'',
     wg_trust_domain = ''styio-platform-local'', wg_registration_policy = ''local-dev-default'',
     wg_registration_tenant = ''platform'', wg_registration_token = []\<rparr>"

definition default_config :: PlatformConfig where
  "default_config = \<lparr>cfg_bind_host = ''127.0.0.1'', cfg_bind_port = 8787, cfg_region = ''local-dev'',
     cfg_node_id = ''node-local'',
     cfg_roles = [''control-plane'', ''worker'', ''registry-writer'', ''mirror'', ''package-owner''],
     cfg_state_backend = ''memory'', cfg_postgres_dsn = [], cfg_object_store = default_object_store,
     cfg_registry = default_registry, cfg_workgroup = default_workgroup, cfg_mtls = default_mtls\<rparr>"

section \<open>Loading\<close>

type_synonym environment = "string \<Rightarrow> string option"

definition EnvString :: "environment \<Rightarrow> string \<Rightarrow> string \<Rightarrow> string" where
  "EnvString env name fallback =
     (case env name of None \<Rightarrow> fallback | Some v \<Rightarrow> if v = [] then fallback else v)"

definition EnvInt :: "environment \<Rightarrow> string \<Rightarrow> int \<Rightarrow> int" where
  "EnvInt env name fallback =
     (case env name of
        None \<Rightarrow> fallback
      | Some v \<Rightarrow> if v = [] then fallback
                  else (case stoi v of None \<Rightarrow> fallback | Some i \<Rightarrow> i))"

definition EnvBool :: "environment \<Rightarrow> string \<Rightarrow> bool \<Rightarrow> bool" where
  "EnvBool env name fallback =
     (let v = EnvString env name (if fallback then ''1'' else ''0'')
      in v = ''1'' \<or> v = ''true'' \<or> v = ''yes'' \<or> v = ''on'')"

definition SplitCsv :: "string \<Rightarrow> string list" where
  "SplitCsv v = filter (\<lambda>item. item \<noteq> []) (map trim_blank (getlines (CHR '','') v))"

definition LoadPlatformConfigFromEnvironment :: "environment \<Rightarrow> PlatformConfig" where
  "LoadPlatformConfigFromEnvironment env =
     (let c = default_config; o' = default_object_store; r = default_registry;
          w = default_workgroup; m = default_mtls;
          the_region = EnvString env ''STYIO_PLATFORM_REGION'' (cfg_region c);
          roles = SplitCsv (EnvString env ''STYIO_PLATFORM_NODE_ROLES'' []);
          tls = EnvBool env ''STYIO_PLATFORM_TLS_ENABLED'' (mt_tls_enabled m)
      in \<lparr>cfg_bind_host = EnvString env ''STYIO_PLATFORM_BIND_HOST'' (cfg_bind_host c),
          cfg_bind_port = EnvInt env ''STYIO_PLATFORM_BIND_PORT'' (cfg_bind_port c),
          cfg_region = the_region,
          cfg_node_id = EnvString env ''STYIO_PLATFORM_NODE_ID'' (cfg_node_id c),
          cfg_roles = (if roles \<noteq> [] then roles else cfg_roles c),
          cfg_state_backend = EnvString env ''STYIO_PLATFORM_STATE_BACKEND'' (cfg_state_backend c),
          cfg_postgres_dsn = EnvString env ''STYIO_PLATFORM_POSTGRES_DSN'' [],
          cfg_object_store =
            \<lparr>os_provider = EnvString env ''STYIO_PLATFORM_OBJECT_STORE_PROVIDER'' (os_provider o'),
             os_bucket = EnvString env ''STYIO_PLATFORM_OBJECT_STORE_BUCKET'' [],
             os_endpoint = EnvString env ''STYIO_PLATFORM_OBJECT_STORE_ENDPOINT'' [],
             os_region = EnvString env ''STYIO_PLATFORM_OBJECT_STORE_REGION'' the_region,
             os_access_key_id = EnvString env ''STYIO_PLATFORM_OBJECT_STORE_ACCESS_KEY_ID'' [],
             os_secret_access_key = EnvString env ''STYIO_PLATFORM_OBJECT_STORE_SECRET_ACCESS_KEY'' [],
             os_session_token = EnvString env ''STYIO_PLATFORM_OBJECT_STORE_SESSION_TOKEN'' [],
             os_prefix = EnvString env ''STYIO_PLATFORM_OBJECT_STORE_PREFIX'' [],
             os_path_style = EnvBool env ''STYIO_PLATFORM_OBJECT_STORE_PATH_STYLE'' (os_path_style o')\<rparr>,
          cfg_registry =
            \<lparr>rg_root = EnvString env ''STYIO_PLATFORM_REGISTRY_ROOT'' (rg_root r),
             rg_key_dir = EnvString env ''STYIO_PLATFORM_REGISTRY_KEY_DIR'' (rg_key_dir r),
             rg_registry_name = EnvString env ''STYIO_PLATFORM_REGISTRY_NAME'' (rg_registry_name r),
             rg_read_root_url = EnvString env ''STYIO_PLATFORM_REGISTRY_READ_ROOT_URL'' (rg_read_root_url r),
             rg_control_plane_base_url =
               EnvString env ''STYIO_PLATFORM_REGISTRY_CONTROL_PLANE_BASE_URL'' (rg_control_plane_base_url r),
             rg_mirror_id = EnvString env ''STYIO_PLATFORM_REGISTRY_MIRROR_ID'' (rg_mirror_id r),
             rg_mirror_origin = EnvString env ''STYIO_PLATFORM_REGISTRY_MIRROR_ORIGIN'' (rg_mirror_origin r),
             rg_mirror_source_root =
               EnvString env ''STYIO_PLATFORM_REGISTRY_MIRROR_SOURCE_ROOT'' (rg_mirror_source_root r)\<rparr>,
          cfg_workgroup =
            \<lparr>wg_enabled = EnvBool env ''STYIO_PLATFORM_WORKGROUP_ENABLED'' (wg_enabled w),
             wg_id = EnvString env ''STYIO_PLATFORM_WORKGROUP_ID'' (wg_id w),
             wg_trust_domain = EnvString env ''STYIO_PLATFORM_WORKGROUP_TRUST_DOMAIN'' (wg_trust_domain w),
             wg_registration_policy =
               EnvString env ''STYIO_PLATFORM_WORKGROUP_REGISTRATION_POLICY'' (wg_registration_policy w),
             wg_registration_tenant =
               EnvString env ''STYIO_PLATFORM_WORKGROUP_REGISTRATION_TENANT'' (wg_registration_tenant w),
             wg_registration_token = EnvString env ''STYIO_PLATFORM_WORKGROUP_REGISTRATION_TOKEN'' []\<rparr>,
          cfg_mtls =
            \<lparr>mt_tls_enabled = tls,
             mt_required = EnvBool env ''STYIO_PLATFORM_MTLS_REQUIRED'' (mt_required m),
             mt_trust_proxy_identity_headers =
               EnvBool env ''STYIO_PLATFORM_TRUST_PROXY_IDENTITY_HEADERS'' (\<not> tls),
             mt_auto_provision = EnvBool env ''STYIO_PLATFORM_MTLS_AUTO_PROVISION'' (mt_auto_provision m),
             mt_ca_root = EnvString env ''STYIO_PLATFORM_MTLS_CA_ROOT'' (mt_ca_root m),
             mt_ca_path = EnvString env ''STYIO_PLATFORM_MTLS_CA'' [],
             mt_cert_path = EnvString env ''STYIO_PLATFORM_MTLS_CERT'' [],
             mt_key_path = EnvString env ''STYIO_PLATFORM_MTLS_KEY'' []\<rparr>\<rparr>)"

definition SerializePublicConfig :: "PlatformConfig \<Rightarrow> json" where
  "SerializePublicConfig c =
     (let o' = cfg_object_store c; r = cfg_registry c; w = cfg_workgroup c; m = cfg_mtls c
      in json_obj
       [(''bind_host'', JString (cfg_bind_host c)),
        (''bind_port'', JInt (cfg_bind_port c)),
        (''region'', JString (cfg_region c)),
        (''node_id'', JString (cfg_node_id c)),
        (''roles'', JArray (map JString (cfg_roles c))),
        (''state_backend'', JString (cfg_state_backend c)),
        (''postgres_configured'', JBool (cfg_postgres_dsn c \<noteq> [])),
        (''object_store_provider'', JString (os_provider o')),
        (''object_store_bucket_configured'', JBool (os_bucket o' \<noteq> [])),
        (''object_store_endpoint_configured'', JBool (os_endpoint o' \<noteq> [])),
        (''object_store_access_key_configured'', JBool (os_access_key_id o' \<noteq> [])),
        (''object_store_secret_configured'', JBool (os_secret_access_key o' \<noteq> [])),
        (''object_store_prefix_configured'', JBool (os_prefix o' \<noteq> [])),
        (''object_store_path_style'', JBool (os_path_style o')),
        (''registry_root_configured'', JBool (rg_root r \<noteq> [])),
        (''registry_key_dir_configured'', JBool (rg_key_dir r \<noteq> [])),
        (''registry_name'', JString (rg_registry_name r)),
        (''registry_read_root_url_configured'', JBool (rg_read_root_url r \<noteq> [])),
        (''registry_control_plane_base_url_configured'', JBool (rg_control_plane_base_url r \<noteq> [])),
        (''registry_mirror_id'', JString (rg_mirror_id r)),
        (''registry_mirror_origin'', JString (rg_mirror_origin r)),
        (''registry_mirror_source_root_configured'', JBool (rg_mirror_source_root r \<noteq> [])),
        (''workgroup_enabled'', JBool (wg_enabled w)),
        (''workgroup_id'', JString (wg_id w)),
        (''workgroup_trust_domain'', JString (wg_trust_domain w)),
        (''workgroup_registration_policy'', JString (wg_registration_policy w)),
        (''workgroup_registration_tenant'', JString (wg_registration_tenant w)),
        (''workgroup_registration_token_configured'', JBool (wg_registration_token w \<noteq> [])),
        (''tls_enabled'', JBool (mt_tls_enabled m)),
        (''mtls_required'', JBool (mt_required m)),
        (''trust_proxy_identity_headers'', JBool (mt_trust_proxy_identity_headers m)),
        (''mtls_auto_provision'', JBool (mt_auto_provision m)),
        (''mtls_ca_root_configured'', JBool (mt_ca_root m \<noteq> [])),
        (''mtls_ca_configured'', JBool (mt_ca_path m \<noteq> [])),
        (''mtls_cert_configured'', JBool (mt_cert_path m \<noteq> [])),
        (''mtls_key_configured'', JBool (mt_key_path m \<noteq> []))])"

section \<open>Properties\<close>

text \<open>
  A configuration with its secrets (connection string, object store credentials,
  registration token, key paths) replaced by given ones, each kept empty where it was empty.
\<close>

definition mask :: "string \<Rightarrow> string \<Rightarrow> string" where
  "mask old new = (if old = [] then [] else CHR ''*'' # new)"

definition replace_secrets :: "(string \<Rightarrow> string) \<Rightarrow> PlatformConfig \<Rightarrow> PlatformConfig" where
  "replace_secrets secret c =
     c\<lparr>cfg_postgres_dsn := mask (cfg_postgres_dsn c) (secret ''dsn''),
       cfg_object_store := (cfg_object_store c)
         \<lparr>os_access_key_id := mask (os_access_key_id (cfg_object_store c)) (secret ''access''),
          os_secret_access_key := mask (os_secret_access_key (cfg_object_store c)) (secret ''secret''),
          os_session_token := secret ''session''\<rparr>,
       cfg_registry := (cfg_registry c)\<lparr>rg_key_dir := mask (rg_key_dir (cfg_registry c)) (secret ''keys'')\<rparr>,
       cfg_workgroup := (cfg_workgroup c)
         \<lparr>wg_registration_token := mask (wg_registration_token (cfg_workgroup c)) (secret ''token'')\<rparr>,
       cfg_mtls := (cfg_mtls c)\<lparr>mt_key_path := mask (mt_key_path (cfg_mtls c)) (secret ''key'')\<rparr>\<rparr>"

lemma mask_Nil [simp]: "mask a b = [] \<longleftrightarrow> a = []"
  by (simp add: mask_def)

text \<open>The public configuration reveals no secret: two nodes that differ only in the values of
  their connection string, object-store credentials, registration token, signing-key
  directory and TLS key report the same document.\<close>

theorem SerializePublicConfig_hides_secrets:
  "SerializePublicConfig (replace_secrets secret c) = SerializePublicConfig c"
  by (simp add: SerializePublicConfig_def replace_secrets_def Let_def)

text \<open>A comma-separated list is read into trimmed, non-empty, comma-free entries, and a
  list of such entries joined with commas is read back unchanged.\<close>

theorem SplitCsv_entries:
  "(\<forall>e \<in> set (SplitCsv v). e \<noteq> [] \<and> CHR '','' \<notin> set e \<and> \<not> is_blank (hd e) \<and> \<not> is_blank (last e))
   \<and> ((\<forall>e \<in> set es. e \<noteq> [] \<and> CHR '','' \<notin> set e \<and> \<not> is_blank (hd e) \<and> \<not> is_blank (last e))
       \<longrightarrow> SplitCsv (join_with '','' es) = es)"
proof (intro conjI impI)
  show "\<forall>e \<in> set (SplitCsv v). e \<noteq> [] \<and> CHR '','' \<notin> set e \<and> \<not> is_blank (hd e) \<and> \<not> is_blank (last e)"
    using getlines_no_delim trim_blank_subset
    by (fastforce simp: SplitCsv_def trim_blank_ends)
  assume es: "\<forall>e \<in> set es. e \<noteq> [] \<and> CHR '','' \<notin> set e \<and> \<not> is_blank (hd e) \<and> \<not> is_blank (last e)"
  then have "es = [] \<or> last es \<noteq> []" using last_in_set by blast
  with es have "getlines (CHR '','') (join_with '','' es) = es" by (intro getlines_join) auto
  moreover have "map trim_blank es = es" using es by (simp add: trim_blank_id map_idI)
  ultimately show "SplitCsv (join_with '','' es) = es" using es by (simp add: SplitCsv_def filter_id_conv)
qed

theorem SplitCsv_entries_witness:
  "list_all (\<lambda>e. e \<noteq> [] \<and> CHR '','' \<notin> set e) (SplitCsv '' worker , ,mirror '')
   \<and> SplitCsv (join_with '','' [''worker'', ''mirror'']) = [''worker'', ''mirror'']"
proof -
  have b: "\<not> is_blank (CHR ''w'')" "\<not> is_blank (CHR ''r'')" "\<not> is_blank (CHR ''m'')"
    by (simp_all add: is_blank_def)
  show ?thesis
    using SplitCsv_entries [of "'' worker , ,mirror ''" "[''worker'', ''mirror'']"] b by (simp add: list_all_iff)
qed

text \<open>With an empty environment the node refuses unauthenticated requests (\<^verbatim>\<open>mtls.required\<close>),
  keeps its state in memory and listens on the loopback address; turning TLS on stops
  identity headers from being trusted unless that is asked for explicitly.\<close>

theorem LoadPlatformConfig_defaults:
  "LoadPlatformConfigFromEnvironment (\<lambda>_. None) = default_config
   \<and> (env ''STYIO_PLATFORM_TRUST_PROXY_IDENTITY_HEADERS'' = None \<longrightarrow>
        mt_trust_proxy_identity_headers (cfg_mtls (LoadPlatformConfigFromEnvironment env))
          = (\<not> mt_tls_enabled (cfg_mtls (LoadPlatformConfigFromEnvironment env))))"
proof
  have "SplitCsv [] = []" by (simp add: SplitCsv_def)
  then show "LoadPlatformConfigFromEnvironment (\<lambda>_. None) = default_config"
    by (simp add: LoadPlatformConfigFromEnvironment_def Let_def EnvString_def EnvInt_def EnvBool_def
        default_config_def default_object_store_def default_registry_def default_workgroup_def default_mtls_def)
qed (simp add: LoadPlatformConfigFromEnvironment_def Let_def EnvString_def EnvBool_def)

theorem LoadPlatformConfig_defaults_witness:
  "mt_trust_proxy_identity_headers (cfg_mtls (LoadPlatformConfigFromEnvironment
      ((\<lambda>_. None)(''STYIO_PLATFORM_TLS_ENABLED'' := Some ''1'')))) = False"
  using LoadPlatformConfig_defaults [of "(\<lambda>_. None)(''STYIO_PLATFORM_TLS_ENABLED'' := Some ''1'')"]
  by (simp add: LoadPlatformConfigFromEnvironment_def Let_def EnvString_def EnvBool_def)

end
