(* ===== verification/State_Records.thy ===== *)
theory State_Records
  imports Json_Value
begin

text \<open>
  The persistent records of the platform (\<^verbatim>\<open>PlatformStorage/PlatformPersistence/StateRecords.hpp\<close>)
  and their JSON form (\<^verbatim>\<open>StateRecords.cpp\<close>). A C++ \<^verbatim>\<open>struct\<close> is a record with the members in
  the order of the source; each record's fields carry a short prefix. Members of type \<^verbatim>\<open>int\<close>
  are \<open>int\<close>: an increment past \<^verbatim>\<open>INT_MAX\<close> has no defined result in C++ and none here.
\<close>

definition default_created_at :: string where
  "default_created_at = ''2026-04-24T00:00:00Z''"

record ArtifactRecord =
  ar_artifact_id :: string
  ar_object_key :: string
  ar_kind :: string

record PlatformJobRecord =
  j_job_id :: string
  j_tenant_id :: string
  j_user_id :: string
  j_workspace_id :: string
  j_action :: string
  j_status :: string
  j_region :: string
  j_worker_pool_key :: string
  j_created_at :: string
  j_worker_id :: string
  j_finished_at :: string
  j_job_request :: json
  j_artifacts :: "ArtifactRecord list"

record CompileContainerRecord =
  cc_container_id :: string
  cc_worker_id :: string
  cc_tenant_id :: string
  cc_user_id :: string
  cc_current_workspace_id :: string
  cc_region :: string
  cc_worker_pool_key :: string
  cc_status :: string
  cc_capacity :: int
  cc_workspace_generation :: int
  cc_created_at :: string
  cc_last_switched_at :: string
  cc_last_switch_reason :: string

record JobEventRecord =
  ev_event_id :: string
  ev_job_id :: string
  ev_status :: string
  ev_message :: string
  ev_created_at :: string

record MirrorCursorRecord =
  mi_mirror_id :: string
  mi_region :: string
  mi_origin :: string
  mi_freshness :: string
  mi_replay_cursor :: string
  mi_publication_id :: string
  mi_repository_version_id :: string
  mi_synced_at :: string
  mi_tree_size :: int

record RegistryPackageRecord =
  pk_package_id :: string
  pk_package_namespace :: string
  pk_name :: string
  pk_created_at :: string
  pk_created_by :: string
  pk_visibility :: string

record RegistryPackageReleaseRecord =
  rl_package_id :: string
  rl_version :: string
  rl_edition :: string
  rl_manifest_sha256 :: string
  rl_source_artifact_sha256 :: string
  rl_dependencies :: json
  rl_publisher_id :: string
  rl_published_at :: string
  rl_yanked :: bool
  rl_yanked_reason :: string

record RegistryPackageOwnerRecord =
  ow_package_id :: string
  ow_owner_id :: string
  ow_owner_kind :: string
  ow_role :: string
  ow_added_by :: string
  ow_added_at :: string

record RegistryPublishTokenRecord =
  tk_token_id :: string
  tk_token_hash :: string
  tk_owner_id :: string
  tk_scopes :: "string list"
  tk_package_patterns :: "string list"
  tk_expires_at :: string
  tk_revoked_at :: string
  tk_created_at :: string

record RegistryRepositoryRecord =
  rp_repository_id :: string
  rp_name :: string
  rp_tenant_id :: string
  rp_policy :: json
  rp_created_at :: string

record RegistryRepositoryVersionRecord =
  rv_repository_version_id :: string
  rv_repository_id :: string
  rv_sequence :: int
  rv_change_kind :: string
  rv_change_ref :: string
  rv_created_at :: string

record RegistryPublicationRecord =
  pb_publication_id :: string
  pb_repository_version_id :: string
  pb_layout_version :: int
  pb_root_path :: string
  pb_manifest_sha256 :: string
  pb_tree_size :: int
  pb_created_at :: string
  pb_verified :: bool

record RegistryDistributionRecord =
  ds_distribution_id :: string
  ds_repository_id :: string
  ds_name :: string
  ds_base_url :: string
  ds_current_publication_id :: string
  ds_previous_publication_id :: string
  ds_updated_at :: string

record RegistryAuditEventRecord =
  au_event_id :: string
  au_actor_id :: string
  au_operation :: string
  au_target :: json
  au_request_id :: string
  au_result :: string
  au_created_at :: string

section \<open>Serialization\<close>

definition SerializeArtifact :: "ArtifactRecord \<Rightarrow> json" where
  "SerializeArtifact a = json_obj
     [(''artifact_id'', JString (ar_artifact_id a)),
      (''object_key'', JString (ar_object_key a)),
      (''kind'', JString (ar_kind a))]"

definition SerializeJobRecord :: "PlatformJobRecord \<Rightarrow> json" where
  "SerializeJobRecord job =
     (let payload = json_obj
           [(''job_id'', JString (j_job_id job)),
            (''tenant_id'', JString (j_tenant_id job)),
            (''user_id'', JString (j_user_id job)),
            (''workspace_id'', JString (j_workspace_id job)),
            (''action'', JString (j_action job)),
            (''status'', JString (j_status job)),
            (''region'', JString (j_region job)),
            (''worker_pool_key'', JString (j_worker_pool_key job)),
            (''created_at'', JString (j_created_at job))];
          payload = json_set_if (j_worker_id job \<noteq> []) ''worker_id'' (JString (j_worker_id job)) payload;
          payload = json_set_if (j_finished_at job \<noteq> []) ''finished_at'' (JString (j_finished_at job)) payload;
          payload = json_set_if (\<not> json_empty (j_job_request job)) ''job_request'' (j_job_request job) payload
      in json_set_if (j_artifacts job \<noteq> []) ''artifacts''
           (JArray (map SerializeArtifact (j_artifacts job))) payload)"

definition SerializeJobEvent :: "JobEventRecord \<Rightarrow> json" where
  "SerializeJobEvent event = json_obj
     [(''event_id'', JString (ev_event_id event)),
      (''job_id'', JString (ev_job_id event)),
      (''status'', JString (ev_status event)),
      (''message'', JString (ev_message event)),
      (''created_at'', JString (ev_created_at event))]"

definition SerializeCompileContainerRecord :: "CompileContainerRecord \<Rightarrow> json" where
  "SerializeCompileContainerRecord c =
     (let payload = json_obj
           [(''container_id'', JString (cc_container_id c)),
            (''worker_id'', JString (cc_worker_id c)),
            (''tenant_id'', JString (cc_tenant_id c)),
            (''user_id'', JString (cc_user_id c)),
            (''current_workspace_id'', JString (cc_current_workspace_id c)),
            (''region'', JString (cc_region c)),
            (''worker_pool_key'', JString (cc_worker_pool_key c)),
            (''status'', JString (cc_status c)),
            (''capacity'', JInt (cc_capacity c)),
            (''workspace_generation'', JInt (cc_workspace_generation c)),
            (''created_at'', JString (cc_created_at c))];
          payload = json_set_if (cc_last_switched_at c \<noteq> []) ''last_switched_at''
                      (JString (cc_last_switched_at c)) payload
      in json_set_if (cc_last_switch_reason c \<noteq> []) ''last_switch_reason''
           (JString (cc_last_switch_reason c)) payload)"

definition SerializeMirrorCursorRecord :: "MirrorCursorRecord \<Rightarrow> json" where
  "SerializeMirrorCursorRecord m =
     (let payload = json_obj
           [(''mirror_id'', JString (mi_mirror_id m)),
            (''region'', JString (mi_region m)),
            (''origin'', JString (mi_origin m)),
            (''freshness'', JString (mi_freshness m)),
            (''replay_cursor'', JString (mi_replay_cursor m))];
          payload = json_set_if (mi_publication_id m \<noteq> []) ''publication_id''
                      (JString (mi_publication_id m)) payload;
          payload = json_set_if (mi_repository_version_id m \<noteq> []) ''repository_version_id''
                      (JString (mi_repository_version_id m)) payload;
          payload = json_set_if (mi_synced_at m \<noteq> []) ''synced_at'' (JString (mi_synced_at m)) payload
      in json_set_if (mi_tree_size m > 0) ''tree_size'' (JInt (mi_tree_size m)) payload)"

definition SerializeRegistryPackageRecord :: "RegistryPackageRecord \<Rightarrow> json" where
  "SerializeRegistryPackageRecord r = json_obj
     [(''package_id'', JString (pk_package_id r)),
      (''namespace'', JString (pk_package_namespace r)),
      (''name'', JString (pk_name r)),
      (''created_at'', JString (pk_created_at r)),
      (''created_by'', JString (pk_created_by r)),
      (''visibility'', JString (pk_visibility r))]"

definition SerializeRegistryPackageReleaseRecord :: "RegistryPackageReleaseRecord \<Rightarrow> json" where
  "SerializeRegistryPackageReleaseRecord r = json_obj
     [(''package_id'', JString (rl_package_id r)),
      (''version'', JString (rl_version r)),
      (''edition'', JString (rl_edition r)),
      (''manifest_sha256'', JString (rl_manifest_sha256 r)),
      (''source_artifact_sha256'', JString (rl_source_artifact_sha256 r)),
      (''dependencies'', rl_dependencies r),
      (''publisher_id'', JString (rl_publisher_id r)),
      (''published_at'', JString (rl_published_at r)),
      (''yanked'', JBool (rl_yanked r)),
      (''yanked_reason'', JString (rl_yanked_reason r))]"

definition SerializeRegistryPackageOwnerRecord :: "RegistryPackageOwnerRecord \<Rightarrow> json" where
  "SerializeRegistryPackageOwnerRecord r = json_obj
     [(''package_id'', JString (ow_package_id r)),
      (''owner_id'', JString (ow_owner_id r)),
      (''owner_kind'', JString (ow_owner_kind r)),
      (''role'', JString (ow_role r)),
      (''added_by'', JString (ow_added_by r)),
      (''added_at'', JString (ow_added_at r))]"

definition SerializeRegistryPublishTokenRecord :: "RegistryPublishTokenRecord \<Rightarrow> bool \<Rightarrow> json" where
  "SerializeRegistryPublishTokenRecord r include_hash =
     json_set_if include_hash ''token_hash'' (JString (tk_token_hash r))
       (json_obj
          [(''token_id'', JString (tk_token_id r)),
           (''owner_id'', JString (tk_owner_id r)),
           (''scopes'', JArray (map JString (tk_scopes r))),
           (''package_patterns'', JArray (map JString (tk_package_patterns r))),
           (''expires_at'', JString (tk_expires_at r)),
           (''revoked_at'', JString (tk_revoked_at r)),
           (''created_at'', JString (tk_created_at r))])"

definition SerializeRegistryRepositoryRecord :: "RegistryRepositoryRecord \<Rightarrow> json" where
  "SerializeRegistryRepositoryRecord r = json_obj
     [(''repository_id'', JString (rp_repository_id r)),
      (''name'', JString (rp_name r)),
      (''tenant_id'', JString (rp_tenant_id r)),
      (''policy'', rp_policy r),
      (''created_at'', JString (rp_created_at r))]"

definition SerializeRegistryRepositoryVersionRecord :: "RegistryRepositoryVersionRecord \<Rightarrow> json" where
  "SerializeRegistryRepositoryVersionRecord r = json_obj
     [(''repository_version_id'', JString (rv_repository_version_id r)),
      (''repository_id'', JString (rv_repository_id r)),
      (''sequence'', JInt (rv_sequence r)),
      (''change_kind'', JString (rv_change_kind r)),
      (''change_ref'', JString (rv_change_ref r)),
      (''created_at'', JString (rv_created_at r))]"

definition SerializeRegistryPublicationRecord :: "RegistryPublicationRecord \<Rightarrow> json" where
  "SerializeRegistryPublicationRecord r = json_obj
     [(''publication_id'', JString (pb_publication_id r)),
      (''repository_version_id'', JString (pb_repository_version_id r)),
      (''layout_version'', JInt (pb_layout_version r)),
      (''root_path'', JString (pb_root_path r)),
      (''manifest_sha256'', JString (pb_manifest_sha256 r)),
      (''tree_size'', JInt (pb_tree_size r)),
      (''created_at'', JString (pb_created_at r)),
      (''verified'', JBool (pb_verified r))]"

definition SerializeRegistryDistributionRecord :: "RegistryDistributionRecord \<Rightarrow> json" where
  "SerializeRegistryDistributionRecord r = json_obj
     [(''distribution_id'', JString (ds_distribution_id r)),
      (''repository_id'', JString (ds_repository_id r)),
      (''name'', JString (ds_name r)),
      (''base_url'', JString (ds_base_url r)),
      (''current_publication_id'', JString (ds_current_publication_id r)),
      (''previous_publication_id'', JString (ds_previous_publication_id r)),
      (''updated_at'', JString (ds_updated_at r))]"

definition SerializeRegistryAuditEventRecord :: "RegistryAuditEventRecord \<Rightarrow> json" where
  "SerializeRegistryAuditEventRecord r = json_obj
     [(''event_id'', JString (au_event_id r)),
      (''actor_id'', JString (au_actor_id r)),
      (''operation'', JString (au_operation r)),
      (''target'', au_target r),
      (''request_id'', JString (au_request_id r)),
      (''result'', JString (au_result r)),
      (''created_at'', JString (au_created_at r))]"

text \<open>
  A registration body read into a container record. \<^verbatim>\<open>body[k]\<close> on a constant document has no
  defined result without the key; the callers require the keys first, and the model
  gives an error there. Members left out of the initializer keep their defaults.
\<close>

definition CreateFromRegistration :: "json \<Rightarrow> CompileContainerRecord result" where
  "CreateFromRegistration body =
     rbind (json_string_at body ''container_id'') (\<lambda>container_id.
     rbind (json_string_at body ''worker_id'') (\<lambda>worker_id.
     rbind (json_string_at body ''tenant_id'') (\<lambda>tenant_id.
     rbind (json_string_at body ''user_id'') (\<lambda>user_id.
     rbind (json_string_at body ''workspace_id'') (\<lambda>workspace_id.
     rbind (json_string_at body ''region'') (\<lambda>region.
     rbind (json_string_at body ''worker_pool_key'') (\<lambda>worker_pool_key.
     rbind (json_value get_string body ''status'' ''active'') (\<lambda>status.
     rbind (json_value get_int body ''capacity'' 1) (\<lambda>capacity.
       Inr \<lparr>cc_container_id = container_id, cc_worker_id = worker_id, cc_tenant_id = tenant_id,
            cc_user_id = user_id, cc_current_workspace_id = workspace_id, cc_region = region,
            cc_worker_pool_key = worker_pool_key, cc_status = status, cc_capacity = capacity,
            cc_workspace_generation = 1, cc_created_at = default_created_at,
            cc_last_switched_at = [], cc_last_switch_reason = []\<rparr>)))))))))"

section \<open>Reading a serialized container back\<close>

lemma SerializeCompileContainerRecord_fields:
  shows "json_lookup (SerializeCompileContainerRecord c) ''container_id'' = Some (JString (cc_container_id c))"
    and "json_lookup (SerializeCompileContainerRecord c) ''worker_id'' = Some (JString (cc_worker_id c))"
    and "json_lookup (SerializeCompileContainerRecord c) ''current_workspace_id''
           = Some (JString (cc_current_workspace_id c))"
    and "json_lookup (SerializeCompileContainerRecord c) ''workspace_id'' = None"
  by (simp_all add: SerializeCompileContainerRecord_def Let_def)

lemma SerializeJobRecord_fields:
  shows "json_lookup (SerializeJobRecord j) ''job_id'' = Some (JString (j_job_id j))"
    and "json_lookup (SerializeJobRecord j) ''status'' = Some (JString (j_status j))"
    and "json_lookup (SerializeJobRecord j) ''worker_id''
           = (if j_worker_id j = [] then None else Some (JString (j_worker_id j)))"
  by (simp_all add: SerializeJobRecord_def Let_def)

lemma SerializeRegistryPublishTokenRecord_hash:
  "json_lookup (SerializeRegistryPublishTokenRecord r b) ''token_hash''
     = (if b then Some (JString (tk_token_hash r)) else None)"
  by (simp add: SerializeRegistryPublishTokenRecord_def)

end
