(* ===== verification/Memory_Store.thy ===== *)
theory Memory_Store
  imports State_Records "HOL-Library.Word"
begin

text \<open>
  The in-memory state store (\<^verbatim>\<open>PlatformStorage/PlatformPersistence/MemoryStateStore.hpp\<close> and
  \<^verbatim>\<open>.cpp\<close>): its state as a record with one field per data member, and every method. A
  method that changes the store returns its result paired with the new store; a method
  that can throw returns a \<^verbatim>\<open>result\<close>, and a throw leaves the store as it was because every
  throw of the source comes before the first assignment. The three \<^verbatim>\<open>size_t\<close> counters are
  64-bit words. A range-for over a map that returns at the first match is \<open>List.find\<close> on
  the entries in key order.
\<close>

record store =
  jobs :: "(string, PlatformJobRecord) smap"
  events :: "(string, JobEventRecord list) smap"
  workers :: "(string, json) smap"
  compile_containers :: "(string, CompileContainerRecord) smap"
  workgroups :: "(string, (string, json) smap) smap"
  mirrors :: "(string, MirrorCursorRecord) smap"
  published_releases :: "(string, json) smap"
  registry_packages :: "(string, RegistryPackageRecord) smap"
  registry_releases :: "(string, RegistryPackageReleaseRecord) smap"
  registry_owners :: "(string, RegistryPackageOwnerRecord) smap"
  registry_tokens :: "(string, RegistryPublishTokenRecord) smap"
  registry_repositories :: "(string, RegistryRepositoryRecord) smap"
  registry_repository_versions :: "(string, RegistryRepositoryVersionRecord) smap"
  registry_publications :: "(string, RegistryPublicationRecord) smap"
  registry_distributions :: "(string, RegistryDistributionRecord) smap"
  registry_audit_events :: "RegistryAuditEventRecord list"
  next_job_sequence :: "64 word"
  next_registry_token_sequence :: "64 word"
  next_registry_audit_sequence :: "64 word"

definition empty_store :: store where
  "empty_store = \<lparr>jobs = [], events = [], workers = [], compile_containers = [], workgroups = [],
     mirrors = [], published_releases = [], registry_packages = [], registry_releases = [],
     registry_owners = [], registry_tokens = [], registry_repositories = [],
     registry_repository_versions = [], registry_publications = [], registry_distributions = [],
     registry_audit_events = [], next_job_sequence = 1, next_registry_token_sequence = 1,
     next_registry_audit_sequence = 1\<rparr>"

definition PaddedNumber :: "64 word \<Rightarrow> nat \<Rightarrow> string" where
  "PaddedNumber n width = pad_left width (CHR ''0'') (string_of_nat (unat n))"

text \<open>\<^verbatim>\<open>events_[key].push_back(event)\<close>.\<close>

definition push_event :: "string \<Rightarrow> JobEventRecord \<Rightarrow> store \<Rightarrow> store" where
  "push_event key e s = s\<lparr>events := smap_put key (smap_get [] (events s) key @ [e]) (events s)\<rparr>"

section \<open>Jobs\<close>

definition NextJobId :: "store \<Rightarrow> string \<times> store" where
  "NextJobId s =
     (''job-'' @ PaddedNumber (next_job_sequence s) 12, s\<lparr>next_job_sequence := next_job_sequence s + 1\<rparr>)"

definition SubmitJob :: "PlatformJobRecord \<Rightarrow> store \<Rightarrow> store" where
  "SubmitJob job s =
     push_event (j_job_id job)
       \<lparr>ev_event_id = ''event-queued'', ev_job_id = j_job_id job, ev_status = ''queued'',
        ev_message = ''job queued'', ev_created_at = default_created_at\<rparr>
       (s\<lparr>jobs := smap_put (j_job_id job) job (jobs s)\<rparr>)"

definition GetJob :: "string \<Rightarrow> store \<Rightarrow> PlatformJobRecord option" where
  "GetJob job_id s = smap_find (jobs s) job_id"

definition GetJobEvents :: "string \<Rightarrow> store \<Rightarrow> JobEventRecord list" where
  "GetJobEvents job_id s = smap_get [] (events s) job_id"

definition CancelJob :: "string \<Rightarrow> string \<Rightarrow> store \<Rightarrow> PlatformJobRecord option \<times> store" where
  "CancelJob job_id reason s =
     (case smap_find (jobs s) job_id of
        None \<Rightarrow> (None, s)
      | Some found \<Rightarrow>
          let job = found\<lparr>j_status := ''cancelled'', j_finished_at := ''2026-04-24T00:01:00Z''\<rparr>
          in (Some job,
              push_event (j_job_id job)
                \<lparr>ev_event_id = ''event-cancelled'', ev_job_id = j_job_id job, ev_status = ''cancelled'',
                 ev_message = reason, ev_created_at = j_finished_at job\<rparr>
                (s\<lparr>jobs := smap_put job_id job (jobs s)\<rparr>)))"

section \<open>Workers and compile containers\<close>

definition RegisterWorker :: "json \<Rightarrow> store \<Rightarrow> (json \<times> store) result" where
  "RegisterWorker worker s =
     rbind (json_string_at worker ''worker_id'')
       (\<lambda>worker_id. Inr (worker, s\<lparr>workers := smap_put worker_id worker (workers s)\<rparr>))"

definition RequireWorker :: "string \<Rightarrow> store \<Rightarrow> unit result" where
  "RequireWorker worker_id s =
     guard_err (\<not> smap_contains (workers s) worker_id)
       (MemoryStateStoreError ''worker is not registered'')"

definition RegisterCompileContainer ::
  "CompileContainerRecord \<Rightarrow> store \<Rightarrow> (CompileContainerRecord \<times> store) result" where
  "RegisterCompileContainer container s =
     (case smap_find (workers s) (cc_worker_id container) of
        None \<Rightarrow> Inl (MemoryStateStoreError ''worker is not registered'')
      | Some worker \<Rightarrow>
          rbind (json_value get_string worker ''region'' []) (\<lambda>region.
          rbind (if region \<noteq> cc_region container then Inr True
                 else rbind (json_value get_string worker ''worker_pool_key'' [])
                        (\<lambda>pool. Inr (pool \<noteq> cc_worker_pool_key container))) (\<lambda>mismatch.
          rbind (guard_err mismatch
                   (MemoryStateStoreError ''worker region or pool does not match container'')) (\<lambda>_.
          let existing = smap_find (compile_containers s) (cc_container_id container) in
          rbind (guard_err (case existing of None \<Rightarrow> False
                            | Some e \<Rightarrow> cc_tenant_id e \<noteq> cc_tenant_id container
                                        \<or> cc_user_id e \<noteq> cc_user_id container)
                   (MemoryStateStoreError ''compile container user binding mismatch'')) (\<lambda>_.
          rbind (guard_err (case existing of None \<Rightarrow> False
                            | Some e \<Rightarrow> cc_worker_id e \<noteq> cc_worker_id container)
                   (MemoryStateStoreError ''compile container worker owner mismatch'')) (\<lambda>_.
            Inr (container,
                 s\<lparr>compile_containers :=
                     smap_put (cc_container_id container) container (compile_containers s)\<rparr>)))))))"

definition GetCompileContainer :: "string \<Rightarrow> store \<Rightarrow> CompileContainerRecord option" where
  "GetCompileContainer container_id s = smap_find (compile_containers s) container_id"

text \<open>
  The assignments that move a container to another workspace, shared by the explicit switch
  and the claim.
\<close>

definition switch_workspace :: "string \<Rightarrow> string \<Rightarrow> CompileContainerRecord \<Rightarrow> CompileContainerRecord" where
  "switch_workspace workspace_id reason c =
     c\<lparr>cc_current_workspace_id := workspace_id,
       cc_workspace_generation := cc_workspace_generation c + 1,
       cc_last_switched_at := ''2026-04-24T00:01:00Z'',
       cc_last_switch_reason := reason\<rparr>"

definition SwitchCompileContainerWorkspace ::
  "string \<Rightarrow> string \<Rightarrow> string \<Rightarrow> string \<Rightarrow> store \<Rightarrow> (CompileContainerRecord option \<times> store) result" where
  "SwitchCompileContainerWorkspace container_id worker_id workspace_id reason s =
     (case smap_find (compile_containers s) container_id of
        None \<Rightarrow> Inr (None, s)
      | Some container \<Rightarrow>
          if cc_worker_id container \<noteq> worker_id
          then Inl (MemoryStateStoreError ''worker does not own compile container'')
          else if cc_status container \<noteq> ''active'' then Inr (None, s)
          else if cc_current_workspace_id container \<noteq> workspace_id
          then let container' = switch_workspace workspace_id reason container
               in Inr (Some container',
                       s\<lparr>compile_containers := smap_put container_id container' (compile_containers s)\<rparr>)
          else Inr (Some container, s))"

section \<open>Claiming, heartbeat and completion\<close>

definition claim_pred :: "string \<Rightarrow> string \<Rightarrow> string \<times> PlatformJobRecord \<Rightarrow> bool" where
  "claim_pred region worker_pool_key e =
     (j_status (snd e) = ''queued'' \<and> j_region (snd e) = region
      \<and> j_worker_pool_key (snd e) = worker_pool_key)"

definition running_event :: "string \<Rightarrow> string \<Rightarrow> JobEventRecord" where
  "running_event job_id message =
     \<lparr>ev_event_id = ''event-running'', ev_job_id = job_id, ev_status = ''running'',
      ev_message = message, ev_created_at = default_created_at\<rparr>"

definition ClaimJob ::
  "string \<Rightarrow> string \<Rightarrow> string \<Rightarrow> store \<Rightarrow> (PlatformJobRecord option \<times> store) result" where
  "ClaimJob worker_id region worker_pool_key s =
     rbind (RequireWorker worker_id s) (\<lambda>_.
       case List.find (claim_pred region worker_pool_key) (jobs s) of
         None \<Rightarrow> Inr (None, s)
       | Some (job_id, found) \<Rightarrow>
           let job = found\<lparr>j_status := ''running'', j_worker_id := worker_id\<rparr>
           in Inr (Some job,
                   push_event job_id (running_event job_id ''job claimed by worker'')
                     (s\<lparr>jobs := smap_put job_id job (jobs s)\<rparr>)))"

definition container_claim_pred ::
  "string \<Rightarrow> string \<Rightarrow> CompileContainerRecord \<Rightarrow> string \<times> PlatformJobRecord \<Rightarrow> bool" where
  "container_claim_pred region worker_pool_key container e =
     (claim_pred region worker_pool_key e
      \<and> j_tenant_id (snd e) = cc_tenant_id container \<and> j_user_id (snd e) = cc_user_id container)"

definition switched_event :: "string \<Rightarrow> JobEventRecord" where
  "switched_event job_id =
     \<lparr>ev_event_id = ''event-workspace-switched'', ev_job_id = job_id, ev_status = ''running'',
      ev_message = ''compile container switched workspace'', ev_created_at = default_created_at\<rparr>"

definition ClaimJobForCompileContainer ::
  "string \<Rightarrow> string \<Rightarrow> string \<Rightarrow> string \<Rightarrow> store \<Rightarrow> (PlatformJobRecord option \<times> store) result" where
  "ClaimJobForCompileContainer worker_id region worker_pool_key container_id s =
     rbind (RequireWorker worker_id s) (\<lambda>_.
       case smap_find (compile_containers s) container_id of
         None \<Rightarrow> Inl (MemoryStateStoreError ''compile container is not registered'')
       | Some container \<Rightarrow>
           rbind (guard_err (cc_worker_id container \<noteq> worker_id \<or> cc_region container \<noteq> region
                             \<or> cc_worker_pool_key container \<noteq> worker_pool_key
                             \<or> cc_status container \<noteq> ''active'')
                    (MemoryStateStoreError ''compile container is not available for this worker'')) (\<lambda>_.
           case List.find (container_claim_pred region worker_pool_key container) (jobs s) of
             None \<Rightarrow> Inr (None, s)
           | Some (job_id, found) \<Rightarrow>
               let job = found\<lparr>j_status := ''running'', j_worker_id := worker_id\<rparr>;
                   s1 = s\<lparr>jobs := smap_put job_id job (jobs s)\<rparr>;
                   s2 = (if cc_current_workspace_id container \<noteq> j_workspace_id job
                         then push_event job_id (switched_event job_id)
                                (s1\<lparr>compile_containers :=
                                     smap_put container_id
                                       (switch_workspace (j_workspace_id job) ''claimJob'' container)
                                       (compile_containers s1)\<rparr>)
                         else s1)
               in Inr (Some job,
                       push_event job_id (running_event job_id ''job claimed by compile container'') s2)))"

definition HeartbeatJob ::
  "string \<Rightarrow> string \<Rightarrow> string \<Rightarrow> store \<Rightarrow> PlatformJobRecord option \<times> store" where
  "HeartbeatJob job_id worker_id message s =
     (case smap_find (jobs s) job_id of
        None \<Rightarrow> (None, s)
      | Some job \<Rightarrow>
          if j_worker_id job \<noteq> worker_id then (None, s)
          else (Some job,
                push_event (j_job_id job)
                  \<lparr>ev_event_id = ''event-heartbeat'', ev_job_id = j_job_id job,
                   ev_status = j_status job, ev_message = message,
                   ev_created_at = default_created_at\<rparr> s))"

definition CompleteJob ::
  "string \<Rightarrow> string \<Rightarrow> string \<Rightarrow> string \<Rightarrow> ArtifactRecord list \<Rightarrow> json \<Rightarrow> store
     \<Rightarrow> PlatformJobRecord option \<times> store" where
  "CompleteJob job_id worker_id status message artifacts result s =
     (case smap_find (jobs s) job_id of
        None \<Rightarrow> (None, s)
      | Some found \<Rightarrow>
          if j_worker_id found \<noteq> worker_id then (None, s)
          else let job = found\<lparr>j_status := status, j_finished_at := ''2026-04-24T00:02:00Z'',
                               j_artifacts := j_artifacts found @ artifacts\<rparr>
               in (Some job,
                   push_event (j_job_id job)
                     \<lparr>ev_event_id = ''event-completed'', ev_job_id = j_job_id job,
                      ev_status = j_status job, ev_message = message,
                      ev_created_at = j_finished_at job\<rparr>
                     (s\<lparr>jobs := smap_put job_id job (jobs s)\<rparr>)))"

section \<open>Workgroups, mirrors and published releases\<close>

definition RegisterWorkgroupCluster :: "string \<Rightarrow> json \<Rightarrow> store \<Rightarrow> (json \<times> store) result" where
  "RegisterWorkgroupCluster workgroup_id cluster s =
     rbind (json_string_at cluster ''cluster_id'') (\<lambda>cluster_id.
       Inr (cluster,
            s\<lparr>workgroups := smap_put workgroup_id
                (smap_put cluster_id cluster (smap_get [] (workgroups s) workgroup_id))
                (workgroups s)\<rparr>))"

definition ListWorkgroupClusters :: "string \<Rightarrow> store \<Rightarrow> json" where
  "ListWorkgroupClusters workgroup_id s =
     JArray (case smap_find (workgroups s) workgroup_id of
               None \<Rightarrow> []
             | Some clusters \<Rightarrow> smap_values clusters)"

definition RecordMirrorState ::
  "string \<Rightarrow> string \<Rightarrow> string \<Rightarrow> string \<Rightarrow> string \<Rightarrow> string \<Rightarrow> string \<Rightarrow> string \<Rightarrow> int \<Rightarrow> store \<Rightarrow> store" where
  "RecordMirrorState mirror_id region origin freshness replay_cursor publication_id
       repository_version_id synced_at tree_size s =
     s\<lparr>mirrors := smap_put mirror_id
        \<lparr>mi_mirror_id = mirror_id, mi_region = region, mi_origin = origin, mi_freshness = freshness,
         mi_replay_cursor = replay_cursor, mi_publication_id = publication_id,
         mi_repository_version_id = repository_version_id, mi_synced_at = synced_at,
         mi_tree_size = tree_size\<rparr> (mirrors s)\<rparr>"

definition GetMirrorState :: "string \<Rightarrow> store \<Rightarrow> MirrorCursorRecord option" where
  "GetMirrorState mirror_id s = smap_find (mirrors s) mirror_id"

definition HasPublishedRelease :: "string \<Rightarrow> store \<Rightarrow> bool" where
  "HasPublishedRelease release_key s = smap_contains (published_releases s) release_key"

definition RecordPublishedRelease :: "string \<Rightarrow> json \<Rightarrow> store \<Rightarrow> store" where
  "RecordPublishedRelease release_key release s =
     s\<lparr>published_releases := smap_put release_key release (published_releases s)\<rparr>"

definition ListPublishedReleasePayloads :: "store \<Rightarrow> json" where
  "ListPublishedReleasePayloads s = JArray (smap_values (published_releases s))"

section \<open>Registry packages, releases, owners and tokens\<close>

definition UpsertRegistryPackage :: "RegistryPackageRecord \<Rightarrow> store \<Rightarrow> store" where
  "UpsertRegistryPackage r s =
     s\<lparr>registry_packages := smap_put (pk_package_id r) r (registry_packages s)\<rparr>"

definition GetRegistryPackage :: "string \<Rightarrow> store \<Rightarrow> RegistryPackageRecord option" where
  "GetRegistryPackage package_id s = smap_find (registry_packages s) package_id"

definition ListRegistryPackages :: "store \<Rightarrow> json" where
  "ListRegistryPackages s =
     JArray (map SerializeRegistryPackageRecord (smap_values (registry_packages s)))"

definition UpsertRegistryPackageRelease :: "RegistryPackageReleaseRecord \<Rightarrow> store \<Rightarrow> store" where
  "UpsertRegistryPackageRelease r s =
     s\<lparr>registry_releases := smap_put (rl_package_id r @ ''@'' @ rl_version r) r (registry_releases s)\<rparr>"

definition GetRegistryPackageRelease ::
  "string \<Rightarrow> string \<Rightarrow> store \<Rightarrow> RegistryPackageReleaseRecord option" where
  "GetRegistryPackageRelease package_id version s =
     smap_find (registry_releases s) (package_id @ ''@'' @ version)"

definition ListRegistryPackageReleases :: "string \<Rightarrow> store \<Rightarrow> json" where
  "ListRegistryPackageReleases package_id s =
     JArray (map SerializeRegistryPackageReleaseRecord
       (filter (\<lambda>r. rl_package_id r = package_id) (smap_values (registry_releases s))))"

definition SetRegistryPackageReleaseYanked ::
  "string \<Rightarrow> string \<Rightarrow> bool \<Rightarrow> string \<Rightarrow> store \<Rightarrow> bool \<times> store" where
  "SetRegistryPackageReleaseYanked package_id version yanked reason s =
     (case smap_find (registry_releases s) (package_id @ ''@'' @ version) of
        None \<Rightarrow> (False, s)
      | Some r \<Rightarrow>
          (True, s\<lparr>registry_releases := smap_put (package_id @ ''@'' @ version)
                     (r\<lparr>rl_yanked := yanked, rl_yanked_reason := reason\<rparr>) (registry_releases s)\<rparr>))"

definition AddRegistryPackageOwner :: "RegistryPackageOwnerRecord \<Rightarrow> store \<Rightarrow> store" where
  "AddRegistryPackageOwner r s =
     s\<lparr>registry_owners := smap_put (ow_package_id r @ ''/'' @ ow_owner_id r) r (registry_owners s)\<rparr>"

definition RemoveRegistryPackageOwner :: "string \<Rightarrow> string \<Rightarrow> store \<Rightarrow> bool \<times> store" where
  "RemoveRegistryPackageOwner package_id owner_id s =
     (smap_contains (registry_owners s) (package_id @ ''/'' @ owner_id),
      s\<lparr>registry_owners := smap_erase (package_id @ ''/'' @ owner_id) (registry_owners s)\<rparr>)"

definition HasRegistryPackageOwner :: "string \<Rightarrow> string \<Rightarrow> store \<Rightarrow> bool" where
  "HasRegistryPackageOwner package_id owner_id s =
     smap_contains (registry_owners s) (package_id @ ''/'' @ owner_id)"

definition ListRegistryPackageOwners :: "string \<Rightarrow> store \<Rightarrow> json" where
  "ListRegistryPackageOwners package_id s =
     JArray (map SerializeRegistryPackageOwnerRecord
       (filter (\<lambda>r. ow_package_id r = package_id) (smap_values (registry_owners s))))"

definition NextRegistryTokenId :: "store \<Rightarrow> string \<times> store" where
  "NextRegistryTokenId s =
     (''tok-'' @ PaddedNumber (next_registry_token_sequence s) 12,
      s\<lparr>next_registry_token_sequence := next_registry_token_sequence s + 1\<rparr>)"

definition UpsertRegistryPublishToken :: "RegistryPublishTokenRecord \<Rightarrow> store \<Rightarrow> store" where
  "UpsertRegistryPublishToken r s =
     s\<lparr>registry_tokens := smap_put (tk_token_id r) r (registry_tokens s)\<rparr>"

definition GetRegistryPublishToken :: "string \<Rightarrow> store \<Rightarrow> RegistryPublishTokenRecord option" where
  "GetRegistryPublishToken token_id s = smap_find (registry_tokens s) token_id"

definition FindRegistryPublishTokenByHash :: "string \<Rightarrow> store \<Rightarrow> RegistryPublishTokenRecord option" where
  "FindRegistryPublishTokenByHash token_hash s =
     map_option snd (List.find (\<lambda>e. tk_token_hash (snd e) = token_hash) (registry_tokens s))"

definition ListRegistryPublishTokens :: "string \<Rightarrow> store \<Rightarrow> json" where
  "ListRegistryPublishTokens owner_id s =
     JArray (map (\<lambda>r. SerializeRegistryPublishTokenRecord r False)
       (filter (\<lambda>r. owner_id = [] \<or> tk_owner_id r = owner_id) (smap_values (registry_tokens s))))"

definition RevokeRegistryPublishToken :: "string \<Rightarrow> string \<Rightarrow> store \<Rightarrow> bool \<times> store" where
  "RevokeRegistryPublishToken token_id revoked_at s =
     (case smap_find (registry_tokens s) token_id of
        None \<Rightarrow> (False, s)
      | Some r \<Rightarrow>
          (True, s\<lparr>registry_tokens := smap_put token_id (r\<lparr>tk_revoked_at := revoked_at\<rparr>)
                     (registry_tokens s)\<rparr>))"

section \<open>Repositories, publications, distributions and the audit log\<close>

definition NextRepositoryVersionSequence :: "string \<Rightarrow> store \<Rightarrow> int" where
  "NextRepositoryVersionSequence repository_id s =
     foldl (\<lambda>max_sequence record.
              if rv_repository_id record = repository_id \<and> rv_sequence record > max_sequence
              then rv_sequence record else max_sequence)
       0 (smap_values (registry_repository_versions s)) + 1"

definition UpsertRegistryRepository :: "RegistryRepositoryRecord \<Rightarrow> store \<Rightarrow> store" where
  "UpsertRegistryRepository r s =
     s\<lparr>registry_repositories := smap_put (rp_repository_id r) r (registry_repositories s)\<rparr>"

definition ListRegistryRepositories :: "store \<Rightarrow> json" where
  "ListRegistryRepositories s =
     JArray (map SerializeRegistryRepositoryRecord (smap_values (registry_repositories s)))"

definition RecordRegistryRepositoryVersion :: "RegistryRepositoryVersionRecord \<Rightarrow> store \<Rightarrow> store" where
  "RecordRegistryRepositoryVersion r s =
     s\<lparr>registry_repository_versions :=
         smap_put (rv_repository_version_id r) r (registry_repository_versions s)\<rparr>"

definition ListRegistryRepositoryVersions :: "string \<Rightarrow> store \<Rightarrow> json" where
  "ListRegistryRepositoryVersions repository_id s =
     JArray (map SerializeRegistryRepositoryVersionRecord
       (filter (\<lambda>r. rv_repository_id r = repository_id)
          (smap_values (registry_repository_versions s))))"

definition RecordRegistryPublication :: "RegistryPublicationRecord \<Rightarrow> store \<Rightarrow> store" where
  "RecordRegistryPublication r s =
     s\<lparr>registry_publications := smap_put (pb_publication_id r) r (registry_publications s)\<rparr>"

definition GetRegistryPublication :: "string \<Rightarrow> store \<Rightarrow> RegistryPublicationRecord option" where
  "GetRegistryPublication publication_id s = smap_find (registry_publications s) publication_id"

definition ListRegistryPublications :: "store \<Rightarrow> json" where
  "ListRegistryPublications s =
     JArray (map SerializeRegistryPublicationRecord (smap_values (registry_publications s)))"

definition UpsertRegistryDistribution :: "RegistryDistributionRecord \<Rightarrow> store \<Rightarrow> store" where
  "UpsertRegistryDistribution r s =
     s\<lparr>registry_distributions := smap_put (ds_distribution_id r) r (registry_distributions s)\<rparr>"

definition GetRegistryDistribution :: "string \<Rightarrow> store \<Rightarrow> RegistryDistributionRecord option" where
  "GetRegistryDistribution distribution_id s = smap_find (registry_distributions s) distribution_id"

definition ListRegistryDistributions :: "store \<Rightarrow> json" where
  "ListRegistryDistributions s =
     JArray (map SerializeRegistryDistributionRecord (smap_values (registry_distributions s)))"

definition NextRegistryAuditEventId :: "store \<Rightarrow> string \<times> store" where
  "NextRegistryAuditEventId s =
     (''audit-'' @ PaddedNumber (next_registry_audit_sequence s) 12,
      s\<lparr>next_registry_audit_sequence := next_registry_audit_sequence s + 1\<rparr>)"

definition RecordRegistryAuditEvent :: "RegistryAuditEventRecord \<Rightarrow> store \<Rightarrow> store" where
  "RecordRegistryAuditEvent r s = s\<lparr>registry_audit_events := registry_audit_events s @ [r]\<rparr>"

definition ListRegistryAuditEvents :: "store \<Rightarrow> json" where
  "ListRegistryAuditEvents s =
     JArray (map SerializeRegistryAuditEventRecord (registry_audit_events s))"

end
