(* ===== verification/Router_Support.thy ===== *)
theory Router_Support
  imports Http_Routes Platform_Config Memory_Store
begin

text \<open>
  The helpers the request handlers share (\<^verbatim>\<open>PlatformService/RouterSupport.hpp\<close>): response
  envelopes, field validation, workgroup records and the request subject. OpenSSL's
  \<^verbatim>\<open>SHA256\<close> is a parameter, a function from a text to its digest bytes.
\<close>

section \<open>Validation chains\<close>

text \<open>
  A loop that returns the first message found, and the next check when there is none.
\<close>

fun first_error :: "('a \<Rightarrow> string option) \<Rightarrow> 'a list \<Rightarrow> string option" where
  "first_error f [] = None"
| "first_error f (x # xs) = (case f x of Some e \<Rightarrow> Some e | None \<Rightarrow> first_error f xs)"

definition or_error :: "string option \<Rightarrow> string option \<Rightarrow> string option" where
  "or_error a b = (case a of Some e \<Rightarrow> Some e | None \<Rightarrow> b)"

definition error_if :: "bool \<Rightarrow> string \<Rightarrow> string option" where
  "error_if b e = (if b then Some e else None)"

lemma first_error_None [simp]: "first_error f xs = None \<longleftrightarrow> (\<forall>x \<in> set xs. f x = None)"
  by (induction xs) (auto split: option.splits)

lemma or_error_None [simp]: "or_error a b = None \<longleftrightarrow> a = None \<and> b = None"
  by (auto simp: or_error_def split: option.splits)

lemma error_if_None [simp]: "error_if b e = None \<longleftrightarrow> \<not> b"
  by (simp add: error_if_def)

section \<open>Responses\<close>

definition RegistryTokenFromHeaders :: "(string, string) smap \<Rightarrow> string option" where
  "RegistryTokenFromHeaders headers =
     (case smap_find headers ''x-styio-registry-token'' of
        Some (c # direct) \<Rightarrow> Some (c # direct)
      | _ \<Rightarrow> (case smap_find headers ''authorization'' of
                None \<Rightarrow> None
              | Some authorization \<Rightarrow>
                  if \<not> starts_with authorization ''Bearer '' then None
                  else Some (drop (length ''Bearer '') authorization)))"

definition UsesPostgresState :: "PlatformConfig \<Rightarrow> bool" where
  "UsesPostgresState config = (cfg_state_backend config = ''postgres'')"

definition JsonResponse :: "int \<Rightarrow> json \<Rightarrow> HttpResponse" where
  "JsonResponse status body = \<lparr>resp_status_code = status, resp_body = body\<rparr>"

definition RegistryFailureEnvelope :: "string \<Rightarrow> string \<Rightarrow> string \<Rightarrow> int \<Rightarrow> json" where
  "RegistryFailureEnvelope message detail category returncode = json_obj
     [(''returncode'', JInt returncode), (''message'', JString message), (''stdout'', JString []),
      (''stderr'', JString detail),
      (''error_payload'', json_obj [(''category'', JString category), (''detail'', JString detail)])]"

definition FailureResponse :: "int \<Rightarrow> string \<Rightarrow> string \<Rightarrow> string \<Rightarrow> string \<Rightarrow> int \<Rightarrow> HttpResponse" where
  "FailureResponse status message detail category operation_id returncode =
     (if IsRegistryOperation operation_id
      then JsonResponse status (RegistryFailureEnvelope message detail category returncode)
      else JsonResponse status (FailureEnvelope message detail category operation_id returncode))"

lemma JsonResponse_simps [simp]:
  "resp_status_code (JsonResponse st b) = st" "resp_body (JsonResponse st b) = b"
  by (simp_all add: JsonResponse_def)

lemma FailureResponse_status [simp]: "resp_status_code (FailureResponse st m d c opn rc) = st"
  by (simp add: FailureResponse_def)

section \<open>Fields\<close>

definition has_string :: "json \<Rightarrow> string \<Rightarrow> bool" where
  "has_string body field = (case json_lookup body field of Some v \<Rightarrow> is_string v | None \<Rightarrow> False)"

definition HasNonEmptyString :: "json \<Rightarrow> string \<Rightarrow> bool" where
  "HasNonEmptyString body field =
     (case json_lookup body field of
        Some (JString s) \<Rightarrow> s \<noteq> []
      | _ \<Rightarrow> False)"

definition ValidateOptionalStringFields :: "json \<Rightarrow> string list \<Rightarrow> string option" where
  "ValidateOptionalStringFields body keys =
     first_error (\<lambda>key. error_if (json_contains body key \<and> \<not> HasNonEmptyString body key)
                          (key @ '' must be a non-empty string when present'')) keys"

definition IsSafeLowercaseIdentifier :: "string \<Rightarrow> bool" where
  "IsSafeLowercaseIdentifier v =
     (v \<noteq> [] \<and> (is_lower (hd v) \<or> is_digit (hd v))
      \<and> list_all (\<lambda>ch. is_lower ch \<or> is_digit ch \<or> ch = CHR ''-'' \<or> ch = CHR ''_'') v)"

definition IsSafeWorkgroupId :: "string \<Rightarrow> bool" where
  "IsSafeWorkgroupId v = IsSafeLowercaseIdentifier v"

definition LooksLikeHttpEndpoint :: "string \<Rightarrow> bool" where
  "LooksLikeHttpEndpoint v = (starts_with v ''http://'' \<or> starts_with v ''https://'')"

definition ValidateStringArray :: "json \<Rightarrow> string \<Rightarrow> string option" where
  "ValidateStringArray body field =
     (case json_lookup body field of
        None \<Rightarrow> None
      | Some (JArray entries) \<Rightarrow>
          first_error (\<lambda>entry. error_if (case entry of JString s \<Rightarrow> s = [] | _ \<Rightarrow> True)
                                 (field @ '' entries must be non-empty strings'')) entries
      | Some _ \<Rightarrow> Some (field @ '' must be an array''))"

definition WorkgroupPolicyPayload :: "PlatformConfig \<Rightarrow> json" where
  "WorkgroupPolicyPayload config =
     (let w = cfg_workgroup config
      in json_obj
        [(''enabled'', JBool (wg_enabled w)),
         (''workgroup_id'', JString (wg_id w)),
         (''trust_domain'', JString (wg_trust_domain w)),
         (''registration_policy'', JString (wg_registration_policy w)),
         (''registration_tenant'', JString (wg_registration_tenant w)),
         (''registration_token_required'', JBool (wg_registration_token w \<noteq> [])),
         (''allowed_registration_roles'',
          JArray (map JString [''operator'', ''control-plane'', ''cluster-registrar''])),
         (''allowed_read_roles'',
          JArray (map JString [''operator'', ''control-plane'', ''cluster-registrar'', ''worker'',
                               ''mirror'', ''registry-writer'']))])"

definition safe_id_message :: "string \<Rightarrow> string" where
  "safe_id_message field = field @ '' must start with a lowercase letter or digit and contain only lowercase letters, digits, hyphen, or underscore''"

text \<open>A field known to be a string, read as one; \<^verbatim>\<open>[]\<close> where it is not.\<close>

definition string_field :: "json \<Rightarrow> string \<Rightarrow> string" where
  "string_field body field = (case json_lookup body field of Some (JString s) \<Rightarrow> s | _ \<Rightarrow> [])"

definition ValidateWorkgroupClusterRegistration :: "string \<Rightarrow> json \<Rightarrow> string option" where
  "ValidateWorkgroupClusterRegistration workgroup_id body =
     or_error (error_if (\<not> IsSafeWorkgroupId workgroup_id) (safe_id_message ''workgroup_id''))
     (or_error (first_error (\<lambda>field. error_if (\<not> HasNonEmptyString body field) (field @ '' is required''))
                  [''cluster_id'', ''region'', ''node_id'', ''control_plane_endpoint''])
     (or_error (error_if (\<not> IsSafeWorkgroupId (string_field body ''cluster_id'')) (safe_id_message ''cluster_id''))
     (or_error (error_if (\<not> LooksLikeHttpEndpoint (string_field body ''control_plane_endpoint''))
                  ''control_plane_endpoint must be an http or https endpoint'')
     (or_error (first_error (\<lambda>field. error_if (HasNonEmptyString body field
                                        \<and> \<not> LooksLikeHttpEndpoint (string_field body field))
                                (field @ '' must be an http or https endpoint''))
                  [''registry_endpoint'', ''mirror_endpoint'', ''internal_control_plane_endpoint''])
     (or_error (ValidateStringArray body ''roles'')
       (error_if (case json_lookup body ''labels'' of None \<Rightarrow> False | Some v \<Rightarrow> \<not> is_object v)
          ''labels must be an object when present''))))))"

text \<open>\<^verbatim>\<open>get<std::vector<std::string>>()\<close>.\<close>

fun get_string_list :: "json \<Rightarrow> string list result" where
  "get_string_list (JArray xs) = rmap get_string xs"
| "get_string_list _ = Inl JsonError"

definition BuildWorkgroupClusterRecord ::
  "string \<Rightarrow> json \<Rightarrow> PlatformConfig \<Rightarrow> MtlsIdentity option \<Rightarrow> json result" where
  "BuildWorkgroupClusterRecord workgroup_id body config identity =
     rbind (json_value get_string_list body ''roles'' (cfg_roles config)) (\<lambda>roles.
     rbind (json_string_at body ''cluster_id'') (\<lambda>cluster_id.
     rbind (json_string_at body ''region'') (\<lambda>region.
     rbind (json_string_at body ''node_id'') (\<lambda>node_id.
     rbind (json_string_at body ''control_plane_endpoint'') (\<lambda>control_plane_endpoint.
     rbind (json_value Inr body ''labels'' (JObject [])) (\<lambda>labels.
     rbind (json_value get_string body ''trust_domain'' (wg_trust_domain (cfg_workgroup config))) (\<lambda>trust_domain.
       let record = json_obj
             [(''workgroup_id'', JString workgroup_id), (''cluster_id'', JString cluster_id),
              (''region'', JString region), (''node_id'', JString node_id),
              (''control_plane_endpoint'', JString control_plane_endpoint),
              (''roles'', JArray (map JString roles)), (''labels'', labels),
              (''trust_domain'', JString trust_domain),
              (''registration_policy'', JString (wg_registration_policy (cfg_workgroup config))),
              (''status'', JString ''registered''),
              (''registered_by'',
               case identity of
                 Some i \<Rightarrow> SerializeMtlsIdentity i
               | None \<Rightarrow> json_obj [(''role'', JString ''anonymous''), (''tenant_id'', JString ''anonymous''),
                                   (''node_id'', JString ''anonymous'')])]
       in Inr (foldl (\<lambda>r field. json_set_if (HasNonEmptyString body field) field
                                  (JString (string_field body field)) r)
                 record [''registry_endpoint'', ''mirror_endpoint'', ''internal_control_plane_endpoint''])
     )))))))"

section \<open>Digests and subjects\<close>

definition HexBytes :: "8 word list \<Rightarrow> string" where
  "HexBytes data = concat (map (\<lambda>b. pad_left 2 (CHR ''0'') (digits_in 16 (unat b))) data)"

definition Sha256Bytes :: "(string \<Rightarrow> 8 word list) \<Rightarrow> string \<Rightarrow> string" where
  "Sha256Bytes SHA256 payload = HexBytes (SHA256 payload)"

definition RequestSubject :: "(string \<Rightarrow> 8 word list) \<Rightarrow> HttpRequest \<Rightarrow> string" where
  "RequestSubject SHA256 request =
     (case rq_identity request of
        Some i \<Rightarrow> id_node_id i
      | None \<Rightarrow>
          (case RegistryTokenFromHeaders (rq_headers request) of
             Some token \<Rightarrow> ''token:'' @ take 12 (Sha256Bytes SHA256 token)
           | None \<Rightarrow> ''anonymous''))"

section \<open>Lemmas\<close>

lemma has_string_iff: "has_string j f \<longleftrightarrow> (\<exists>s. json_lookup j f = Some (JString s))"
  by (auto simp: has_string_def split: option.splits elim: is_string.elims)

lemma HasNonEmptyString_iff: "HasNonEmptyString j f \<longleftrightarrow> (\<exists>s. json_lookup j f = Some (JString s) \<and> s \<noteq> [])"
  by (auto simp: HasNonEmptyString_def split: option.splits json.splits)

lemma json_lookup_is_object: "json_lookup j f = Some v \<Longrightarrow> is_object j"
  by (cases j) auto

lemma string_field_eq: "json_lookup j f = Some (JString s) \<Longrightarrow> string_field j f = s"
  by (simp add: string_field_def)

lemma hex_byte_length: "length (pad_left 2 (CHR ''0'') (digits_in 16 (unat (b :: 8 word)))) = 2"
proof -
  have "unat b < 16 ^ 2" using unsigned_less [of b] by simp
  then have "length (digits_in 16 (unat b)) \<le> 2" by (rule digits_in_length [rotated]) simp_all
  then show ?thesis by (simp add: pad_left_def)
qed

lemma HexBytes_length: "length (HexBytes data) = 2 * length data"
  by (induction data) (simp_all add: HexBytes_def hex_byte_length)

end
