(* ===== verification/Object_Keys.thy ===== *)
theory Object_Keys
  imports Platform_Config "HOL-Library.Word"
begin

text \<open>
  The object store client (\<^verbatim>\<open>PlatformStorage/PlatformPersistence/ObjectStore.cpp\<close>): object keys and
  prefixes, URL encoding, the signed S3 request and the listing. Running \<^verbatim>\<open>curl\<close>, OpenSSL's
  \<^verbatim>\<open>SHA256\<close> and \<^verbatim>\<open>HMAC\<close>, the clock and the file hash are parameters: \<open>curl args stdin\<close> is the
  standard output of the process, or the exception of a failed run.
\<close>

datatype ObjectStoreProvider = S3 | Gcs | Azure | Filesystem | Memory

section \<open>Keys\<close>

definition key_char :: "char \<Rightarrow> bool" where
  "key_char c = (is_lower c \<or> is_upper c \<or> is_digit c \<or> c = CHR ''-'' \<or> c = CHR ''_'' \<or> c = CHR ''.'')"

definition SanitizeKeyPart :: "string \<Rightarrow> string" where
  "SanitizeKeyPart v =
     (let result = map (\<lambda>ch. if key_char ch then ch else CHR ''_'') v
      in if result = [] then ''unset'' else result)"

definition TrimSlashes :: "string \<Rightarrow> string" where
  "TrimSlashes v = strip_back (CHR ''/'') (strip_front (CHR ''/'') v)"

definition ApplyPrefix :: "ObjectStoreConfig \<Rightarrow> string \<Rightarrow> string" where
  "ApplyPrefix config key =
     (let prefix = TrimSlashes (os_prefix config)
      in if prefix = [] then key else prefix @ ''/'' @ key)"

definition StripPrefix :: "ObjectStoreConfig \<Rightarrow> string \<Rightarrow> string" where
  "StripPrefix config key =
     (let prefix = TrimSlashes (os_prefix config); marker = prefix @ ''/''
      in if prefix = [] then key
         else if key = prefix then []
         else if starts_with key marker then drop (length marker) key
         else key)"

definition bad_part :: "string \<Rightarrow> bool" where
  "bad_part part = (part = [] \<or> part = ''.'' \<or> part = ''..'')"

definition NormalizeObjectPrefix :: "string \<Rightarrow> string result" where
  "NormalizeObjectPrefix pre =
     (let v = strip_front (CHR ''/'') pre
      in if v = [] then Inr v
         else if CHR 0x5C \<in> set v then Inl (RuntimeError ''object prefix must be a POSIX relative path'')
         else if list_ex bad_part (getlines (CHR ''/'') v)
         then Inl (RuntimeError ''object prefix must be canonical and stay inside the object root'')
         else Inr v)"

definition NormalizeObjectKey :: "string \<Rightarrow> string result" where
  "NormalizeObjectKey key =
     (let v = strip_front (CHR ''/'') key
      in if v = [] \<or> ends_with v ''/'' \<or> CHR 0x5C \<in> set v
         then Inl (RuntimeError ''object key must be a non-empty POSIX relative path'')
         else if list_ex bad_part (getlines (CHR ''/'') v)
         then Inl (RuntimeError ''object key must be canonical and stay inside the object root'')
         else Inr v)"

definition BuildArtifactObjectKey :: "string \<Rightarrow> string \<Rightarrow> string \<Rightarrow> string \<Rightarrow> string" where
  "BuildArtifactObjectKey tenant_id workspace_id job_id artifact_name =
     ''tenants/'' @ SanitizeKeyPart tenant_id @ ''/workspaces/'' @ SanitizeKeyPart workspace_id
       @ ''/jobs/'' @ SanitizeKeyPart job_id @ ''/artifacts/'' @ SanitizeKeyPart artifact_name"

section \<open>URL encoding\<close>

definition upper_hex :: "nat \<Rightarrow> char" where
  "upper_hex d = ''0123456789ABCDEF'' ! d"

text \<open>\<^verbatim>\<open>std::uppercase << std::hex << std::setfill('0') << std::setw(2)\<close> of a byte.\<close>

definition byte_hex :: "char \<Rightarrow> string" where
  "byte_hex c = [upper_hex (of_char c div 16), upper_hex (of_char c mod 16)]"

definition url_safe :: "bool \<Rightarrow> char \<Rightarrow> bool" where
  "url_safe encode_slash c =
     (is_alnum c \<or> c = CHR ''-'' \<or> c = CHR ''_'' \<or> c = CHR ''.'' \<or> c = CHR ''~''
      \<or> (\<not> encode_slash \<and> c = CHR ''/''))"

definition UrlEncode :: "string \<Rightarrow> bool \<Rightarrow> string" where
  "UrlEncode v encode_slash =
     concat (map (\<lambda>ch. if url_safe encode_slash ch then [ch] else CHR ''%'' # byte_hex ch) v)"

section \<open>S3 requests\<close>

record S3Endpoint =
  ep_scheme :: string
  ep_host :: string
  ep_base_path :: string

fun find_sub :: "string \<Rightarrow> string \<Rightarrow> nat option" where
  "find_sub p [] = (if p = [] then Some 0 else None)"
| "find_sub p (c # cs) = (if starts_with (c # cs) p then Some 0 else map_option Suc (find_sub p cs))"

definition ParseEndpoint :: "ObjectStoreConfig \<Rightarrow> S3Endpoint result" where
  "ParseEndpoint config =
     (if os_endpoint config = []
      then Inl (RuntimeError ''S3 object store requires STYIO_PLATFORM_OBJECT_STORE_ENDPOINT'')
      else case find_sub ''://'' (os_endpoint config) of
             None \<Rightarrow> Inl (RuntimeError ''S3 endpoint must include http:// or https://'')
           | Some scheme_end \<Rightarrow>
               let rest = drop (scheme_end + 3) (os_endpoint config);
                   host = (case find_char (CHR ''/'') rest of None \<Rightarrow> rest | Some slash \<Rightarrow> take slash rest);
                   base_path = (case find_char (CHR ''/'') rest of None \<Rightarrow> []
                                | Some slash \<Rightarrow> TrimSlashes (drop (slash + 1) rest))
               in if host = [] then Inl (RuntimeError ''S3 endpoint host is empty'')
                  else Inr \<lparr>ep_scheme = take scheme_end (os_endpoint config), ep_host = host, ep_base_path = base_path\<rparr>)"

definition S3CanonicalPath :: "ObjectStoreConfig \<Rightarrow> string \<Rightarrow> string result" where
  "S3CanonicalPath config key =
     rbind (ParseEndpoint config) (\<lambda>endpoint.
       let parts = (if ep_base_path endpoint \<noteq> [] then [ep_base_path endpoint] else [])
                   @ (if os_path_style config then [os_bucket config] else []) @ [key]
       in Inr (''/'' @ join_with ''/'' (map (\<lambda>p. UrlEncode p False) parts)))"

definition s3_host :: "ObjectStoreConfig \<Rightarrow> S3Endpoint \<Rightarrow> string" where
  "s3_host config endpoint =
     (if os_path_style config then ep_host endpoint else os_bucket config @ ''.'' @ ep_host endpoint)"

definition S3Url :: "ObjectStoreConfig \<Rightarrow> string \<Rightarrow> string \<Rightarrow> string result" where
  "S3Url config key query =
     rbind (ParseEndpoint config) (\<lambda>endpoint.
     rbind (S3CanonicalPath config key) (\<lambda>path.
       let url = ep_scheme endpoint @ ''://'' @ s3_host config endpoint @ path
       in Inr (if query = [] then url else url @ ''?'' @ query)))"

definition S3SigningKey ::
  "(string \<Rightarrow> string \<Rightarrow> string) \<Rightarrow> ObjectStoreConfig \<Rightarrow> string \<Rightarrow> string" where
  "S3SigningKey hmac config date =
     (let k_date = hmac (''AWS4'' @ os_secret_access_key config) date;
          k_region = hmac k_date (os_region config);
          k_service = hmac k_region ''s3''
      in hmac k_service ''aws4_request'')"

definition newline :: string where
  "newline = [CHR 0x0A]"

text \<open>\<open>hash_hex\<close> is \<^verbatim>\<open>Sha256Hex\<close>, \<open>hex\<close> prints digest bytes, \<open>timestamp\<close> is \<^verbatim>\<open>AmzTimestamp()\<close>.\<close>

definition S3SignedHeaders ::
  "(string \<Rightarrow> string) \<Rightarrow> (string \<Rightarrow> string \<Rightarrow> string) \<Rightarrow> (string \<Rightarrow> string) \<Rightarrow> string
     \<Rightarrow> ObjectStoreConfig \<Rightarrow> string \<Rightarrow> string \<Rightarrow> string \<Rightarrow> string \<Rightarrow> string list result" where
  "S3SignedHeaders hash_hex hmac hex timestamp config http_method key payload_hash query =
     (if os_bucket config = [] \<or> os_access_key_id config = [] \<or> os_secret_access_key config = []
      then Inl (RuntimeError ''S3 object store requires bucket, access key id, and secret access key'')
      else rbind (ParseEndpoint config) (\<lambda>endpoint.
           rbind (S3CanonicalPath config key) (\<lambda>path.
             let host = s3_host config endpoint;
                 date = take 8 timestamp;
                 token = os_session_token config;
                 canonical_headers = ''host:'' @ host @ newline
                   @ ''x-amz-content-sha256:'' @ payload_hash @ newline
                   @ ''x-amz-date:'' @ timestamp @ newline
                   @ (if token \<noteq> [] then ''x-amz-security-token:'' @ token @ newline else []);
                 signed_headers = ''host;x-amz-content-sha256;x-amz-date''
                   @ (if token \<noteq> [] then '';x-amz-security-token'' else []);
                 canonical_request = http_method @ newline @ path @ newline @ query @ newline
                   @ canonical_headers @ newline @ signed_headers @ newline @ payload_hash;
                 scope = date @ ''/'' @ os_region config @ ''/s3/aws4_request'';
                 string_to_sign = ''AWS4-HMAC-SHA256'' @ newline @ timestamp @ newline @ scope @ newline
                   @ hash_hex canonical_request;
                 signature = hex (hmac (S3SigningKey hmac config date) string_to_sign)
             in Inr ([''Host: '' @ host, ''x-amz-content-sha256: '' @ payload_hash, ''x-amz-date: '' @ timestamp,
                      ''Authorization: AWS4-HMAC-SHA256 Credential='' @ os_access_key_id config @ ''/'' @ scope
                        @ '', SignedHeaders='' @ signed_headers @ '', Signature='' @ signature]
                     @ (if token \<noteq> [] then [''x-amz-security-token: '' @ token] else [])))))"

definition AppendHeaders :: "string list \<Rightarrow> string list \<Rightarrow> string list" where
  "AppendHeaders args headers = args @ concat (map (\<lambda>h. [''-H'', h]) headers)"

lemma starts_with_length: "starts_with s p \<Longrightarrow> length p \<le> length s"
  by (auto simp: starts_with_iff)

lemma find_sub_Some: "find_sub p s = Some n \<Longrightarrow> n + length p \<le> length s \<and> starts_with (drop n s) p"
proof (induction s arbitrary: n)
  case (Cons c cs)
  then show ?case using starts_with_length [of "c # cs" p] by (auto split: if_splits)
qed (auto split: if_splits)

function ExtractXmlKeys :: "string \<Rightarrow> string list" where
  "ExtractXmlKeys xml =
     (case find_sub ''<Key>'' xml of
        None \<Rightarrow> []
      | Some b \<Rightarrow>
          (case find_sub ''</Key>'' (drop b xml) of
             None \<Rightarrow> []
           | Some e \<Rightarrow> take (e - 5) (drop (b + 5) xml) # ExtractXmlKeys (drop (b + e + 6) xml)))"
  by pat_completeness auto
termination
proof (relation "measure length")
  fix xml :: string and b e :: nat
  assume "find_sub ''</Key>'' (drop b xml) = Some e"
  then have "e + 6 \<le> length (drop b xml)" by (auto dest: find_sub_Some)
  then show "(drop (b + e + 6) xml, xml) \<in> measure length" by auto
qed simp

section \<open>Providers and operations\<close>

definition ParseObjectStoreProvider :: "string \<Rightarrow> ObjectStoreProvider" where
  "ParseObjectStoreProvider v =
     (if v = ''gcs'' then Gcs else if v = ''azure'' then Azure else if v = ''filesystem'' then Filesystem
      else if v = ''memory'' then Memory else S3)"

fun ProviderToString :: "ObjectStoreProvider \<Rightarrow> string" where
  "ProviderToString S3 = ''s3''"
| "ProviderToString Gcs = ''gcs''"
| "ProviderToString Azure = ''azure''"
| "ProviderToString Filesystem = ''filesystem''"
| "ProviderToString Memory = ''memory''"

definition IsObjectStoreProviderImplemented :: "ObjectStoreProvider \<Rightarrow> bool" where
  "IsObjectStoreProviderImplemented p = (p = S3 \<or> p = Filesystem \<or> p = Memory)"

text \<open>What the client needs from outside: the digests, the time stamp, the process.\<close>

record s3_env =
  s3_hash_hex :: "string \<Rightarrow> string"
  s3_hmac :: "string \<Rightarrow> string \<Rightarrow> string"
  s3_hex :: "string \<Rightarrow> string"
  s3_timestamp :: string
  s3_curl :: "string list \<Rightarrow> string \<Rightarrow> string result"

definition signed_headers :: "s3_env \<Rightarrow> ObjectStoreConfig \<Rightarrow> string \<Rightarrow> string \<Rightarrow> string \<Rightarrow> string \<Rightarrow> string list result" where
  "signed_headers env config = S3SignedHeaders (s3_hash_hex env) (s3_hmac env) (s3_hex env) (s3_timestamp env) config"

definition require_s3 :: "ObjectStoreConfig \<Rightarrow> string \<Rightarrow> unit result" where
  "require_s3 config operation =
     guard_err (ParseObjectStoreProvider (os_provider config) \<noteq> S3)
       (RuntimeError (operation @ '' currently requires the S3 object store provider''))"

definition PutObjectBytes :: "s3_env \<Rightarrow> ObjectStoreConfig \<Rightarrow> string \<Rightarrow> string \<Rightarrow> string \<Rightarrow> unit result" where
  "PutObjectBytes env config key payload content_type =
     rbind (NormalizeObjectKey key) (\<lambda>k.
     let object_key = ApplyPrefix config k in
     rbind (require_s3 config ''PutObjectBytes'') (\<lambda>_.
     rbind (S3Url config object_key []) (\<lambda>url.
     rbind (signed_headers env config ''PUT'' object_key (s3_hash_hex env payload) []) (\<lambda>headers.
     rbind (s3_curl env (AppendHeaders [''-sS'', ''-X'', ''PUT'', ''--upload-file'', ''-'', url] headers
                         @ [''-H'', ''Content-Type: '' @ content_type]) payload) (\<lambda>_. Inr ())))))"

definition PutObjectFile ::
  "s3_env \<Rightarrow> (string \<Rightarrow> string result) \<Rightarrow> ObjectStoreConfig \<Rightarrow> string \<Rightarrow> string \<Rightarrow> string \<Rightarrow> unit result" where
  "PutObjectFile env sha256_file config key path content_type =
     rbind (NormalizeObjectKey key) (\<lambda>k.
     let object_key = ApplyPrefix config k in
     rbind (require_s3 config ''PutObjectFile'') (\<lambda>_.
     rbind (sha256_file path) (\<lambda>payload_hash.
     rbind (S3Url config object_key []) (\<lambda>url.
     rbind (signed_headers env config ''PUT'' object_key payload_hash []) (\<lambda>headers.
     rbind (s3_curl env (AppendHeaders [''-sS'', ''-X'', ''PUT'', ''--upload-file'', path, url] headers
                         @ [''-H'', ''Content-Type: '' @ content_type]) []) (\<lambda>_. Inr ()))))))"

definition GetObjectText :: "s3_env \<Rightarrow> ObjectStoreConfig \<Rightarrow> string \<Rightarrow> string option result" where
  "GetObjectText env config key =
     rbind (NormalizeObjectKey key) (\<lambda>k.
     let object_key = ApplyPrefix config k in
     rbind (require_s3 config ''GetObjectText'') (\<lambda>_.
     rbind (S3Url config object_key []) (\<lambda>url.
     rbind (signed_headers env config ''GET'' object_key ''UNSIGNED-PAYLOAD'' []) (\<lambda>headers.
       Inr (case s3_curl env (AppendHeaders [''-sS'', ''-f'', url] headers) [] of
              Inl _ \<Rightarrow> None
            | Inr text \<Rightarrow> Some text)))))"

definition ObjectExists :: "s3_env \<Rightarrow> ObjectStoreConfig \<Rightarrow> string \<Rightarrow> bool result" where
  "ObjectExists env config key =
     rbind (NormalizeObjectKey key) (\<lambda>k.
     let object_key = ApplyPrefix config k in
     rbind (require_s3 config ''ObjectExists'') (\<lambda>_.
     rbind (S3Url config object_key []) (\<lambda>url.
     rbind (signed_headers env config ''HEAD'' object_key ''UNSIGNED-PAYLOAD'' []) (\<lambda>headers.
     rbind (s3_curl env (AppendHeaders [''-sS'', ''-o'', ''/dev/null'', ''-w'', ''%{http_code}'', ''-I'', url] headers) [])
       (\<lambda>text. Inr (starts_with text ''2''))))))"

definition ListObjectKeys :: "s3_env \<Rightarrow> ObjectStoreConfig \<Rightarrow> string \<Rightarrow> string list result" where
  "ListObjectKeys env config pre =
     rbind (NormalizeObjectPrefix pre) (\<lambda>normalized.
     let normalized_prefix = (if normalized = [] then TrimSlashes (os_prefix config) else ApplyPrefix config normalized);
         query = ''list-type=2&prefix='' @ UrlEncode normalized_prefix True in
     rbind (S3Url config [] query) (\<lambda>url.
     rbind (signed_headers env config ''GET'' [] ''UNSIGNED-PAYLOAD'' query) (\<lambda>headers.
     rbind (s3_curl env (AppendHeaders [''-sS'', url] headers) []) (\<lambda>text.
       Inr (filter (\<lambda>k. k \<noteq> []) (map (StripPrefix config) (ExtractXmlKeys text)))))))"

definition DescribeObjectStore :: "ObjectStoreConfig \<Rightarrow> json" where
  "DescribeObjectStore config =
     (let provider = ParseObjectStoreProvider (os_provider config)
      in json_obj
        [(''provider'', JString (ProviderToString provider)),
         (''implemented'', JBool (IsObjectStoreProviderImplemented provider)),
         (''bucket_configured'', JBool (os_bucket config \<noteq> [])),
         (''endpoint_configured'', JBool (os_endpoint config \<noteq> [])),
         (''access_key_configured'', JBool (os_access_key_id config \<noteq> [])),
         (''secret_configured'', JBool (os_secret_access_key config \<noteq> [])),
         (''prefix_configured'', JBool (os_prefix config \<noteq> [])),
         (''path_style'', JBool (os_path_style config)),
         (''region'', JString (os_region config))])"

section \<open>Properties of keys\<close>

lemma NormalizeObjectKey_Inr:
  "NormalizeObjectKey key = Inr v \<longleftrightarrow>
     v = strip_front (CHR ''/'') key \<and> v \<noteq> [] \<and> \<not> ends_with v ''/'' \<and> CHR 0x5C \<notin> set v
       \<and> (\<forall>part \<in> set (getlines (CHR ''/'') v). \<not> bad_part part)"
  by (auto simp: NormalizeObjectKey_def Let_def list_ex_iff)

text \<open>A normalized object key stays inside the object root: it is the given key without
  leading slashes, it is relative, no component is empty, \<^verbatim>\<open>.\<close> or \<^verbatim>\<open>..\<close>, it holds no
  backslash, it is the join of its components, and normalizing it again changes nothing.\<close>

theorem NormalizeObjectKey_safe:
  assumes "NormalizeObjectKey key = Inr v"
  shows "v = strip_front (CHR ''/'') key \<and> v \<noteq> [] \<and> hd v \<noteq> CHR ''/'' \<and> CHR 0x5C \<notin> set v
    \<and> list_all (\<lambda>part. part \<notin> {[], ''.'', ''..''}) (getlines (CHR ''/'') v)
    \<and> join_with ''/'' (getlines (CHR ''/'') v) = v \<and> NormalizeObjectKey v = Inr v"
proof -
  from assms have v: "v = strip_front (CHR ''/'') key" "v \<noteq> []" "\<not> ends_with v ''/''" "CHR 0x5C \<notin> set v"
    "\<forall>part \<in> set (getlines (CHR ''/'') v). \<not> bad_part part" by (auto simp: NormalizeObjectKey_Inr)
  have h: "hd v \<noteq> CHR ''/''" using v(1,2) strip_front_hd by blast
  then have "strip_front (CHR ''/'') v = v" by (simp add: strip_front_id)
  with v have "NormalizeObjectKey v = Inr v" by (simp add: NormalizeObjectKey_Inr)
  moreover have "join_with ''/'' (getlines (CHR ''/'') v) = v"
    using v(3) by (intro join_getlines) (metis append_butlast_last_id ends_with_iff)
  ultimately show ?thesis using v h by (auto simp: list_all_iff bad_part_def)
qed

theorem NormalizeObjectKey_safe_witness:
  "NormalizeObjectKey ''/index/acme/core.jsonl'' = Inr ''index/acme/core.jsonl''
   \<and> hd ''index/acme/core.jsonl'' \<noteq> CHR ''/''"
proof -
  have n: "NormalizeObjectKey ''/index/acme/core.jsonl'' = Inr ''index/acme/core.jsonl''" by code_simp
  with NormalizeObjectKey_safe [OF n] show ?thesis by blast
qed

lemma StripPrefix_ApplyPrefix: "StripPrefix config (ApplyPrefix config key) = key"
proof (cases "TrimSlashes (os_prefix config) = []")
  case False
  have "starts_with ((TrimSlashes (os_prefix config) @ ''/'') @ key) (TrimSlashes (os_prefix config) @ ''/'')"
    by (rule starts_with_append)
  with False show ?thesis by (simp add: ApplyPrefix_def StripPrefix_def Let_def)
qed (simp add: ApplyPrefix_def StripPrefix_def)

section \<open>Artifact keys\<close>

lemma SanitizeKeyPart_chars: "list_all key_char (SanitizeKeyPart v) \<and> SanitizeKeyPart v \<noteq> []"
  by (auto simp: SanitizeKeyPart_def Let_def list_all_iff key_char_def char_class_defs)

lemma SanitizeKeyPart_id: "v \<noteq> [] \<Longrightarrow> list_all key_char v \<Longrightarrow> SanitizeKeyPart v = v"
  by (simp add: SanitizeKeyPart_def Let_def list_all_iff map_idI)

lemma key_part_no_sep: "CHR ''/'' \<notin> set (SanitizeKeyPart v)" "CHR 0x5C \<notin> set (SanitizeKeyPart v)"
  using SanitizeKeyPart_chars [of v] by (auto simp: list_all_iff key_char_def char_class_defs)

definition artifact_parts :: "string \<Rightarrow> string \<Rightarrow> string \<Rightarrow> string \<Rightarrow> string list" where
  "artifact_parts t w j a = [''tenants'', SanitizeKeyPart t, ''workspaces'', SanitizeKeyPart w,
     ''jobs'', SanitizeKeyPart j, ''artifacts'', SanitizeKeyPart a]"

lemma BuildArtifactObjectKey_join: "BuildArtifactObjectKey t w j a = join_with ''/'' (artifact_parts t w j a)"
  by (simp add: BuildArtifactObjectKey_def artifact_parts_def)

lemma artifact_getlines: "getlines (CHR ''/'') (BuildArtifactObjectKey t w j a) = artifact_parts t w j a"
  unfolding BuildArtifactObjectKey_join
  by (rule getlines_join) (use SanitizeKeyPart_chars key_part_no_sep in \<open>auto simp: artifact_parts_def\<close>)

text \<open>An artifact key never leaves its tenant's directory: it is accepted exactly when no
  sanitized component is \<^verbatim>\<open>.\<close> or \<^verbatim>\<open>..\<close>, and then it is already normal with the tenant as its
  second component. Two artifacts share a key exactly when the sanitized components agree,
  so ids made of portable characters never collide.\<close>

theorem BuildArtifactObjectKey_confined:
  "(NormalizeObjectKey (BuildArtifactObjectKey t w j a) = Inr (BuildArtifactObjectKey t w j a)
      \<longleftrightarrow> list_all (\<lambda>p. SanitizeKeyPart p \<noteq> ''.'' \<and> SanitizeKeyPart p \<noteq> ''..'') [t, w, j, a])
   \<and> getlines (CHR ''/'') (BuildArtifactObjectKey t w j a) ! 1 = SanitizeKeyPart t
   \<and> (BuildArtifactObjectKey t w j a = BuildArtifactObjectKey t' w' j' a'
      \<longleftrightarrow> map SanitizeKeyPart [t, w, j, a] = map SanitizeKeyPart [t', w', j', a'])"
proof (intro conjI)
  let ?k = "BuildArtifactObjectKey t w j a"
  have "hd ?k = CHR ''t''" "?k \<noteq> []" by (simp_all add: BuildArtifactObjectKey_def)
  then have sf: "strip_front (CHR ''/'') ?k = ?k" by (simp add: strip_front_id)
  have ends: "\<not> ends_with ?k ''/''"
  proof
    assume "ends_with ?k ''/''"
    then have "last ?k = CHR ''/''" by (auto simp: ends_with_iff)
    moreover have "last ?k = last (SanitizeKeyPart a)" using SanitizeKeyPart_chars [of a]
      by (simp add: BuildArtifactObjectKey_def)
    ultimately show False using key_part_no_sep(1) [of a] SanitizeKeyPart_chars [of a] last_in_set by metis
  qed
  have bs: "CHR 0x5C \<notin> set ?k" using key_part_no_sep(2) by (auto simp: BuildArtifactObjectKey_def)
  show "NormalizeObjectKey ?k = Inr ?k
      \<longleftrightarrow> list_all (\<lambda>p. SanitizeKeyPart p \<noteq> ''.'' \<and> SanitizeKeyPart p \<noteq> ''..'') [t, w, j, a]"
    using sf ends bs \<open>?k \<noteq> []\<close> SanitizeKeyPart_chars
    by (auto simp: NormalizeObjectKey_Inr artifact_getlines artifact_parts_def bad_part_def)
  show "getlines (CHR ''/'') ?k ! 1 = SanitizeKeyPart t" by (simp add: artifact_getlines artifact_parts_def)
  show "?k = BuildArtifactObjectKey t' w' j' a'
      \<longleftrightarrow> map SanitizeKeyPart [t, w, j, a] = map SanitizeKeyPart [t', w', j', a']"
  proof
    assume "?k = BuildArtifactObjectKey t' w' j' a'"
    then have "artifact_parts t w j a = artifact_parts t' w' j' a'" by (metis artifact_getlines)
    then show "map SanitizeKeyPart [t, w, j, a] = map SanitizeKeyPart [t', w', j', a']"
      by (simp add: artifact_parts_def)
  qed (simp add: BuildArtifactObjectKey_def)
qed

section \<open>URL encoding is reversible\<close>

definition hex_digit_val :: "char \<Rightarrow> nat" where
  "hex_digit_val c = (if is_digit c then of_char c - 48 else of_char c - 55)"

text \<open>Percent-decoding as RFC 3986 defines it.\<close>

fun url_decode :: "string \<Rightarrow> string" where
  "url_decode [] = []"
| "url_decode (c # cs) =
     (if c = CHR ''%''
      then (case cs of
              h # l # rest \<Rightarrow> char_of (16 * hex_digit_val h + hex_digit_val l) # url_decode rest
            | _ \<Rightarrow> c # url_decode cs)
      else c # url_decode cs)"

lemma upper_hex_val: "d < 16 \<Longrightarrow> hex_digit_val (upper_hex d) = d"
proof -
  have "\<forall>d \<in> set [0..<16]. hex_digit_val (upper_hex d) = d" by code_simp
  then show "d < 16 \<Longrightarrow> hex_digit_val (upper_hex d) = d" by simp
qed

lemma char_less_256: "(of_char c :: nat) < 256"
proof -
  have "(of_char c :: nat) mod 256 < 256" by (rule mod_less_divisor) simp
  then show ?thesis by (simp only: of_char_mod_256)
qed

lemma url_decode_byte: "url_decode (CHR ''%'' # byte_hex c @ s) = c # url_decode s"
proof -
  have "of_char c div 16 < (16 :: nat)" using char_less_256 [of c] by (simp add: less_mult_imp_div_less)
  then show ?thesis by (simp add: byte_hex_def upper_hex_val)
qed

text \<open>URL encoding loses nothing: percent-decoding gives the text back, so two keys never
  share a URL, and the encoded text holds only unreserved characters and percent signs (and
  slashes where they are kept).\<close>

theorem UrlEncode_roundtrip:
  "url_decode (UrlEncode s b) = s
   \<and> list_all (\<lambda>c. url_safe b c \<or> c = CHR ''%'') (UrlEncode s b)"
proof
  show "url_decode (UrlEncode s b) = s"
  proof (induction s)
    case (Cons c s)
    have "url_safe b c \<Longrightarrow> c \<noteq> CHR ''%''" by (auto simp: url_safe_def char_class_defs)
    with Cons url_decode_byte [of c "UrlEncode s b"] show ?case by (simp add: UrlEncode_def)
  qed (simp add: UrlEncode_def)
  have hex: "url_safe b (upper_hex d)" if "d < 16" for d
  proof -
    have "\<forall>d \<in> set [0..<16]. is_alnum (upper_hex d)" by code_simp
    with that show ?thesis by (simp add: url_safe_def)
  qed
  have "of_char c div 16 < (16 :: nat)" for c using char_less_256 [of c] by (simp add: less_mult_imp_div_less)
  then show "list_all (\<lambda>c. url_safe b c \<or> c = CHR ''%'') (UrlEncode s b)"
    by (induction s) (auto simp: UrlEncode_def byte_hex_def hex)
qed

section \<open>Listings\<close>

text \<open>A pattern whose first character does not come back in it is found where it was put.\<close>

lemma find_sub_append:
  assumes "c \<notin> set p" and "\<not> contains_sub junk (c # p)"
  shows "find_sub (c # p) (junk @ c # p @ rest) = Some (length junk)"
  using assms(2)
proof (induction junk)
  case (Cons x junk)
  have "\<not> starts_with (x # junk @ c # p @ rest) (c # p)"
  proof
    assume s: "starts_with (x # junk @ c # p @ rest) (c # p)"
    show False
    proof (cases "length p \<le> length junk")
      case True
      with s have "starts_with (x # junk) (c # p)" by (simp add: starts_with_def)
      with Cons.prems show False by simp
    next
      case False
      from s have "take (length p) (junk @ c # p @ rest) = p" by (simp add: starts_with_def)
      with False have "p ! length junk = c" by (metis nth_append_length nth_take not_le)
      with False have "c \<in> set p" by (metis not_le nth_mem)
      with assms(1) show False ..
    qed
  qed
  with Cons show ?case by simp
qed simp

lemma find_sub_None: "\<not> contains_sub s p \<Longrightarrow> find_sub p s = None"
  by (induction s) auto

lemma no_lt_contains: "CHR ''<'' \<notin> set k \<Longrightarrow> \<not> contains_sub k (CHR ''<'' # p)"
  by (induction k) auto

declare ExtractXmlKeys.simps [simp del]

lemma ExtractXmlKeys_step:
  assumes "\<not> contains_sub junk ''<Key>''" and "CHR ''<'' \<notin> set k"
  shows "ExtractXmlKeys (junk @ ''<Key>'' @ k @ ''</Key>'' @ rest) = k # ExtractXmlKeys rest"
proof -
  let ?xml = "junk @ ''<Key>'' @ k @ ''</Key>'' @ rest"
  have b: "find_sub ''<Key>'' ?xml = Some (length junk)"
    using find_sub_append [of "CHR ''<''" "''Key>''" junk "k @ ''</Key>'' @ rest"] assms(1) by simp
  have "\<not> contains_sub (''<Key>'' @ k) ''</Key>''" using no_lt_contains [OF assms(2)] by simp
  then have e: "find_sub ''</Key>'' (drop (length junk) ?xml) = Some (5 + length k)"
    using find_sub_append [of "CHR ''<''" "''/Key>''" "''<Key>'' @ k" rest] by simp
  have d: "take (length k) (drop (length junk + 5) ?xml) = k" "drop (length junk + (5 + length k) + 6) ?xml = rest"
  proof -
    show "take (length k) (drop (length junk + 5) ?xml) = k" by simp
    have "drop (length (junk @ ''<Key>'' @ k @ ''</Key>'')) ((junk @ ''<Key>'' @ k @ ''</Key>'') @ rest) = rest"
      by (rule append_eq_conv_conj [THEN iffD1, THEN conjunct2, symmetric]) simp
    then show "drop (length junk + (5 + length k) + 6) ?xml = rest" by (simp add: algebra_simps)
  qed
  show ?thesis by (subst ExtractXmlKeys.simps) (simp only: b e d option.case add_diff_cancel_left')
qed

text \<open>The listing parser returns exactly the keys of the document, in order, whatever other
  markup stands between them, as long as the keys are written without \<^verbatim>\<open><\<close>, which XML
  requires. It does not undo XML escapes.\<close>

theorem ExtractXmlKeys_exact:
  assumes "\<forall>(junk, k) \<in> set entries. \<not> contains_sub junk ''<Key>'' \<and> CHR ''<'' \<notin> set k"
    and "\<not> contains_sub tail ''<Key>''"
  shows "ExtractXmlKeys (concat (map (\<lambda>(junk, k). junk @ ''<Key>'' @ k @ ''</Key>'') entries) @ tail)
           = map snd entries"
  using assms
proof (induction entries)
  case Nil
  then show ?case by (subst ExtractXmlKeys.simps) (simp add: find_sub_None)
next
  case (Cons e es)
  obtain junk k where e: "e = (junk, k)" by (cases e)
  from Cons.prems have "\<not> contains_sub junk ''<Key>''" "CHR ''<'' \<notin> set k" by (auto simp: e)
  from ExtractXmlKeys_step [OF this] Cons show ?case by (simp add: e)
qed

theorem ExtractXmlKeys_exact_witness:
  "ExtractXmlKeys (concat (map (\<lambda>(junk, k). junk @ ''<Key>'' @ k @ ''</Key>'')
      [(''<Name>b</Name>'', ''a&amp;b''), ([], ''c/d'')]) @ ''</List>'') = [''a&amp;b'', ''c/d'']"
  using ExtractXmlKeys_exact [of "[(''<Name>b</Name>'', ''a&amp;b''), ([], ''c/d'')]" "''</List>''"] by simp

end
