(* ===== verification/Registry_Ids.thy ===== *)
theory Registry_Ids
  imports Router_Support Object_Keys
begin

text \<open>
  Names and keys of the package registry (\<^verbatim>\<open>PackageRegistry/ControlPlane/RegistryIdentifiers.hpp\<close>):
  package names, index paths, store keys, token patterns and scopes, and the order of
  versions. \<open>file_url\<close> stands for \<^verbatim>\<open>FileUrlForPath\<close>, which asks the file system for the current
  directory.
\<close>

definition segment_char :: "char \<Rightarrow> bool" where
  "segment_char c = (is_alnum c \<or> c = CHR ''-'' \<or> c = CHR ''_'' \<or> c = CHR ''.'')"

definition SanitizePathSegment :: "string \<Rightarrow> string" where
  "SanitizePathSegment v =
     (let out = map (\<lambda>ch. if segment_char ch then ch else CHR ''_'') v
      in if out = [] \<or> out = ''.'' \<or> out = ''..'' then ''_'' else out)"

definition SplitPackageName :: "string \<Rightarrow> string list" where
  "SplitPackageName package =
     map SanitizePathSegment (filter (\<lambda>item. item \<noteq> []) (getlines (CHR ''/'') package))"

definition JoinPathParts :: "string list \<Rightarrow> nat \<Rightarrow> nat \<Rightarrow> string" where
  "JoinPathParts parts first_index end_index = join_with ''/'' (take (end_index - first_index) (drop first_index parts))"

definition ValidatePackageName :: "string \<Rightarrow> string option" where
  "ValidatePackageName package =
     (case find_char (CHR ''/'') package of
        None \<Rightarrow> Some ''package must use namespace/name form''
      | Some slash \<Rightarrow>
          if Some slash \<noteq> rfind_char (CHR ''/'') package then Some ''package must use namespace/name form''
          else if \<not> IsSafeLowercaseIdentifier (take slash package)
                  \<or> \<not> IsSafeLowercaseIdentifier (drop (slash + 1) package)
          then Some ''package must use lowercase namespace/name segments''
          else None)"

definition RegistryReadRootUrl :: "(string \<Rightarrow> string) \<Rightarrow> PlatformConfig \<Rightarrow> string" where
  "RegistryReadRootUrl file_url config =
     (let r = cfg_registry config; o' = cfg_object_store config
      in if rg_read_root_url r \<noteq> [] then rg_read_root_url r
         else if ParseObjectStoreProvider (os_provider o') = S3 \<and> os_endpoint o' \<noteq> [] \<and> os_bucket o' \<noteq> []
                 \<and> os_path_style o'
         then let root = strip_back (CHR ''/'') (os_endpoint o') @ ''/'' @ os_bucket o';
                  pre = strip_back (CHR ''/'') (strip_front (CHR ''/'') (os_prefix o'))
              in if pre \<noteq> [] then root @ ''/'' @ pre else root
         else file_url (rg_root r))"

definition RegistryControlPlaneBaseUrl :: "PlatformConfig \<Rightarrow> string" where
  "RegistryControlPlaneBaseUrl config =
     (if rg_control_plane_base_url (cfg_registry config) \<noteq> [] then rg_control_plane_base_url (cfg_registry config)
      else ''/api/spio-registry-control/v1'')"

text \<open>Defined for a package with at least one component, as its callers ensure.\<close>

definition RegistryIndexPathForPackage :: "string \<Rightarrow> string" where
  "RegistryIndexPathForPackage package =
     (let parts = SplitPackageName package
      in ''index/'' @ JoinPathParts parts 0 (length parts - 1) @ ''/'' @ last parts @ ''.jsonl'')"

definition RegistryReleaseKey :: "string \<Rightarrow> string \<Rightarrow> string" where
  "RegistryReleaseKey package version = package @ ''@'' @ version"

definition RegistryPackageId :: "string \<Rightarrow> string" where
  "RegistryPackageId package = package"

definition RegistryPackageFromRoute :: "RouteMatch \<Rightarrow> string result" where
  "RegistryPackageFromRoute rm =
     (case (smap_find (rm_parameters rm) ''namespace'', smap_find (rm_parameters rm) ''name'') of
        (Some ns, Some nm) \<Rightarrow> Inr (ns @ ''/'' @ nm)
      | _ \<Rightarrow> Inl OutOfRange)"

definition RegistryActorId :: "(string \<Rightarrow> 8 word list) \<Rightarrow> HttpRequest \<Rightarrow> string" where
  "RegistryActorId SHA256 request =
     (case rq_identity request of
        Some i \<Rightarrow> id_node_id i
      | None \<Rightarrow>
          (case RegistryTokenFromHeaders (rq_headers request) of
             Some token \<Rightarrow> ''token:'' @ take 12 (Sha256Bytes SHA256 token)
           | None \<Rightarrow> ''anonymous''))"

text \<open>The elements a range-for over a JSON value visits.\<close>

fun json_elements :: "json \<Rightarrow> json list" where
  "json_elements (JArray xs) = xs"
| "json_elements (JObject m) = map snd m"
| "json_elements JNull = []"
| "json_elements j = [j]"

definition JsonStringArray :: "json \<Rightarrow> string \<Rightarrow> string list \<Rightarrow> string list result" where
  "JsonStringArray body field fallback =
     (case json_lookup body field of
        None \<Rightarrow> Inr fallback
      | Some v \<Rightarrow> rmap get_string (json_elements v))"

definition PackagePatternMatches :: "string \<Rightarrow> string \<Rightarrow> bool" where
  "PackagePatternMatches pattern package =
     (if pattern = ''*'' then True
      else if ends_with pattern ''/*'' then starts_with package (take (length pattern - 1) pattern)
      else pattern = package)"

definition TokenHasScope :: "RegistryPublishTokenRecord \<Rightarrow> string \<Rightarrow> bool" where
  "TokenHasScope token scope = list_ex (\<lambda>s. s = scope) (tk_scopes token)"

definition TokenMatchesPackage :: "RegistryPublishTokenRecord \<Rightarrow> string \<Rightarrow> bool" where
  "TokenMatchesPackage token package =
     (if package = [] then True
      else list_ex (\<lambda>pattern. PackagePatternMatches pattern package) (tk_package_patterns token))"

section \<open>Versions\<close>

text \<open>
  The lambda \<^verbatim>\<open>parse\<close> of \<^verbatim>\<open>VersionLess\<close>. The loop reads the dot-separated parts with \<^verbatim>\<open>stoi\<close> until
  one has no number or three are read; reading stops before the index test, so a fourth part
  is consumed, and the stream is still good afterwards only when a delimiter ended that
  fourth part, that is, when the text holds at least four dots.
\<close>

fun version_numbers :: "nat \<Rightarrow> string list \<Rightarrow> int list" where
  "version_numbers (Suc n) (part # parts) =
     (case stoi part of None \<Rightarrow> [] | Some i \<Rightarrow> i # version_numbers n parts)"
| "version_numbers _ _ = []"

definition version_key :: "string \<Rightarrow> int list \<times> string" where
  "version_key version =
     (let nums = version_numbers 3 (getlines (CHR ''.'') version);
          numeric = take 3 (nums @ [0, 0, 0]);
          suffix = (if length nums \<noteq> 3 \<or> 4 \<le> length (filter (\<lambda>c. c = CHR ''.'') version) then version else [])
      in (numeric, suffix))"

definition VersionLess :: "string \<Rightarrow> string \<Rightarrow> bool" where
  "VersionLess left right =
     (case (version_key left, version_key right) of
        ((n1, s1), (n2, s2)) \<Rightarrow> n1 < n2 \<or> (n1 = n2 \<and> s1 < s2))"

section \<open>Package names\<close>

lemma safe_identifier_chars:
  "IsSafeLowercaseIdentifier s \<Longrightarrow> s \<noteq> [] \<and> list_all segment_char s \<and> CHR ''/'' \<notin> set s \<and> CHR ''@'' \<notin> set s
     \<and> CHR ''.'' \<notin> set s"
  by (auto simp: IsSafeLowercaseIdentifier_def list_all_iff segment_char_def char_class_defs)

lemma ValidatePackageName_split:
  "ValidatePackageName package = None \<longleftrightarrow>
     (\<exists>ns nm. package = ns @ ''/'' @ nm \<and> IsSafeLowercaseIdentifier ns \<and> IsSafeLowercaseIdentifier nm)"
proof
  assume "ValidatePackageName package = None"
  then obtain i where i: "find_char (CHR ''/'') package = Some i"
      "IsSafeLowercaseIdentifier (take i package)" "IsSafeLowercaseIdentifier (drop (i + 1) package)"
    by (auto simp: ValidatePackageName_def split: option.splits if_splits)
  from find_char_Some_split [OF i(1)] have "package = take i package @ ''/'' @ drop (i + 1) package" by simp
  with i show "\<exists>ns nm. package = ns @ ''/'' @ nm \<and> IsSafeLowercaseIdentifier ns \<and> IsSafeLowercaseIdentifier nm"
    by blast
next
  assume "\<exists>ns nm. package = ns @ ''/'' @ nm \<and> IsSafeLowercaseIdentifier ns \<and> IsSafeLowercaseIdentifier nm"
  then obtain ns nm where p: "package = ns @ ''/'' @ nm" "IsSafeLowercaseIdentifier ns" "IsSafeLowercaseIdentifier nm"
    by blast
  have "find_char (CHR ''/'') package = Some (length ns)" "rfind_char (CHR ''/'') package = Some (length ns)"
    using safe_identifier_chars [OF p(2)] safe_identifier_chars [OF p(3)]
    by (simp_all add: p(1) find_char_append rfind_char_append)
  with p show "ValidatePackageName package = None" by (simp add: ValidatePackageName_def)
qed


lemma SanitizePathSegment_id: "IsSafeLowercaseIdentifier s \<Longrightarrow> SanitizePathSegment s = s"
  using safe_identifier_chars [of s]
  by (auto simp: SanitizePathSegment_def Let_def list_all_iff map_idI)

lemma index_path_eq:
  assumes "IsSafeLowercaseIdentifier ns" and "IsSafeLowercaseIdentifier nm"
  shows "RegistryIndexPathForPackage (ns @ ''/'' @ nm) = ''index/'' @ ns @ ''/'' @ nm @ ''.jsonl''"
proof -
  note c = safe_identifier_chars [OF assms(1)] safe_identifier_chars [OF assms(2)]
  have "getlines (CHR ''/'') (ns @ ''/'' @ nm) = [ns, nm]"
    using c by (simp add: getlines_delim getlines_single)
  with c assms have "SplitPackageName (ns @ ''/'' @ nm) = [ns, nm]"
    by (simp add: SplitPackageName_def SanitizePathSegment_id)
  then show ?thesis by (simp add: RegistryIndexPathForPackage_def JoinPathParts_def Let_def)
qed

lemma valid_package_no_at: "ValidatePackageName p = None \<Longrightarrow> CHR ''@'' \<notin> set p"
  using safe_identifier_chars by (auto simp: ValidatePackageName_split)

text \<open>A package name is accepted exactly when it is two safe lowercase identifiers joined by
  one slash. For accepted names the index path is \<^verbatim>\<open>index/namespace/name.jsonl\<close>, a canonical
  object key, different packages have different index paths, and different releases have
  different release keys.\<close>

theorem package_keys:
  "(ValidatePackageName p = None \<longleftrightarrow>
      (\<exists>ns nm. p = ns @ ''/'' @ nm \<and> IsSafeLowercaseIdentifier ns \<and> IsSafeLowercaseIdentifier nm))
   \<and> (ValidatePackageName p = None \<and> ValidatePackageName q = None \<longrightarrow>
        RegistryIndexPathForPackage p = ''index/'' @ p @ ''.jsonl''
        \<and> NormalizeObjectKey (RegistryIndexPathForPackage p) = Inr (RegistryIndexPathForPackage p)
        \<and> (RegistryIndexPathForPackage p = RegistryIndexPathForPackage q \<longleftrightarrow> p = q)
        \<and> (RegistryReleaseKey p v = RegistryReleaseKey q w \<longleftrightarrow> p = q \<and> v = w))"
proof (intro conjI impI)
  show "ValidatePackageName p = None \<longleftrightarrow>
      (\<exists>ns nm. p = ns @ ''/'' @ nm \<and> IsSafeLowercaseIdentifier ns \<and> IsSafeLowercaseIdentifier nm)"
    by (rule ValidatePackageName_split)
  assume v: "ValidatePackageName p = None \<and> ValidatePackageName q = None"
  have eq: "RegistryIndexPathForPackage x = ''index/'' @ x @ ''.jsonl''" if "ValidatePackageName x = None" for x
    using that index_path_eq by (auto simp: ValidatePackageName_split)
  show "RegistryIndexPathForPackage p = ''index/'' @ p @ ''.jsonl''" using v eq by blast
  show "RegistryIndexPathForPackage p = RegistryIndexPathForPackage q \<longleftrightarrow> p = q" using v eq by auto
  show "RegistryReleaseKey p v = RegistryReleaseKey q w \<longleftrightarrow> p = q \<and> v = w"
    using v valid_package_no_at [of p] valid_package_no_at [of q] append_sep_inj [of "CHR ''@''" p q]
    by (simp add: RegistryReleaseKey_def)
  from v obtain ns nm where p: "p = ns @ ''/'' @ nm" and safe: "IsSafeLowercaseIdentifier ns" "IsSafeLowercaseIdentifier nm"
    by (auto simp: ValidatePackageName_split)
  note c = safe_identifier_chars [OF safe(1)] safe_identifier_chars [OF safe(2)]
  have path: "RegistryIndexPathForPackage p = ''index/'' @ ns @ ''/'' @ nm @ ''.jsonl''" using index_path_eq safe p by simp
  have "getlines (CHR ''/'') (RegistryIndexPathForPackage p) = [''index'', ns, nm @ ''.jsonl'']"
    using c getlines_single [of "CHR ''/''" "nm @ ''.jsonl''"] by (simp add: path getlines_delim)
  moreover have "CHR 0x5C \<notin> set (RegistryIndexPathForPackage p)"
    using c by (auto simp: path list_all_iff segment_char_def char_class_defs)
  moreover have "\<not> ends_with (RegistryIndexPathForPackage p) ''/''" by (auto simp: path ends_with_def)
  moreover have "strip_front (CHR ''/'') (RegistryIndexPathForPackage p) = RegistryIndexPathForPackage p"
    by (simp add: path strip_front_def)
  ultimately show "NormalizeObjectKey (RegistryIndexPathForPackage p) = Inr (RegistryIndexPathForPackage p)"
    using c by (auto simp: NormalizeObjectKey_Inr bad_part_def path)
qed

theorem package_keys_witness:
  "RegistryIndexPathForPackage ''acme/core'' = ''index/acme/core.jsonl''
   \<and> RegistryReleaseKey ''acme/core'' ''1.0.0'' \<noteq> RegistryReleaseKey ''acme/cor'' ''e@1.0.0''"
proof -
  have "ValidatePackageName ''acme/core'' = None" "ValidatePackageName ''acme/cor'' = None" by code_simp+
  with package_keys [of "''acme/core''" "''acme/cor''" "''1.0.0''" "''e@1.0.0''"] show ?thesis by simp
qed

section \<open>Token patterns\<close>

text \<open>A token pattern grants a package exactly when it is \<^verbatim>\<open>*\<close>, the package itself or its
  whole namespace \<^verbatim>\<open>ns/*\<close>: no pattern reaches into a namespace whose name merely starts the
  same way.\<close>

theorem PackagePatternMatches_iff:
  assumes "IsSafeLowercaseIdentifier ns" and "IsSafeLowercaseIdentifier nm"
  shows "PackagePatternMatches pattern (ns @ ''/'' @ nm)
           \<longleftrightarrow> pattern \<in> {''*'', ns @ ''/'' @ nm, ns @ ''/*''}"
proof -
  note c = safe_identifier_chars [OF assms(1)] safe_identifier_chars [OF assms(2)]
  let ?p = "ns @ ''/'' @ nm"
  show ?thesis
  proof (cases "ends_with pattern ''/*''")
    case True
    then obtain r where r: "pattern = r @ ''/*''" by (auto simp: ends_with_iff)
    have "PackagePatternMatches pattern ?p \<longleftrightarrow> starts_with ?p (r @ ''/'')"
      using True by (simp add: PackagePatternMatches_def r)
    also have "\<dots> \<longleftrightarrow> r = ns"
    proof
      assume "starts_with ?p (r @ ''/'')"
      then obtain t where t: "ns @ CHR ''/'' # nm = r @ CHR ''/'' # t" by (auto simp: starts_with_iff)
      then have "length (filter (\<lambda>x. x = CHR ''/'') (ns @ CHR ''/'' # nm)) = length (filter (\<lambda>x. x = CHR ''/'') (r @ CHR ''/'' # t))" by simp
      moreover have "filter (\<lambda>x. x = CHR ''/'') ns = []" "filter (\<lambda>x. x = CHR ''/'') nm = []"
        using c by (auto simp: filter_empty_conv)
      ultimately have "filter (\<lambda>x. x = CHR ''/'') r = []" by simp
      then have "CHR ''/'' \<notin> set r" by (auto simp: filter_empty_conv)
      with t c show "r = ns" by (simp add: append_sep_inj)
    next
      assume "r = ns"
      then show "starts_with ?p (r @ ''/'')" using starts_with_append [of "r @ ''/''" nm] by simp
    qed
    also have "\<dots> \<longleftrightarrow> pattern \<in> {''*'', ?p, ns @ ''/*''}"
    proof
      assume "pattern \<in> {''*'', ?p, ns @ ''/*''}"
      moreover have "pattern \<noteq> ''*''" by (simp add: r)
      moreover have "pattern \<noteq> ?p"
      proof
        assume "pattern = ?p"
        then have "last (r @ ''/*'') = last ?p" by (simp add: r)
        with c have "last nm = CHR ''*''" by simp
        with c have "CHR ''*'' \<in> set nm" by (metis last_in_set)
        with c show False by (auto simp: list_all_iff segment_char_def char_class_defs)
      qed
      ultimately show "r = ns" by (simp add: r)
    qed (simp add: r)
    finally show ?thesis .
  next
    case False
    have "ends_with (ns @ ''/*'') ''/*''" by (auto simp: ends_with_iff)
    with False have "pattern \<noteq> ns @ ''/*''" by auto
    with False show ?thesis by (simp add: PackagePatternMatches_def)
  qed
qed

theorem PackagePatternMatches_iff_witness:
  "PackagePatternMatches ''acme/*'' (''acme'' @ ''/'' @ ''core'') \<and> \<not> PackagePatternMatches ''acme/*'' (''acme-labs'' @ ''/'' @ ''core'')"
proof -
  have "IsSafeLowercaseIdentifier ''acme''" "IsSafeLowercaseIdentifier ''acme-labs''" "IsSafeLowercaseIdentifier ''core''"
    by code_simp+
  with PackagePatternMatches_iff [of "''acme''" "''core''" "''acme/*''"]
    PackagePatternMatches_iff [of "''acme-labs''" "''core''" "''acme/*''"] show ?thesis by simp
qed

section \<open>The order of versions\<close>

lemma version_numbers_digits:
  "is_digit (hd s) \<Longrightarrow> s \<noteq> [] \<Longrightarrow> list_all is_digit s \<Longrightarrow> in_int32 (int (text_val 10 s)) \<Longrightarrow>
     stoi s = Some (int (text_val 10 s))"
proof -
  assume h: "is_digit (hd s)" "s \<noteq> []" "list_all is_digit s" "in_int32 (int (text_val 10 s))"
  have sp: "\<not> is_space (hd s)" and sg: "hd s \<noteq> CHR ''-''" "hd s \<noteq> CHR ''+''"
    using h(1) by (auto simp: is_space_def is_digit_def)
  have "dropWhile is_space s = s" using sp h(2) by (simp add: dropWhile_eq_self_iff)
  moreover have "takeWhile is_digit s = s" using h(3) by (simp add: takeWhile_eq_all_conv list_all_iff)
  ultimately show "stoi s = Some (int (text_val 10 s))"
    using sg h(2,4) unfolding stoi_def Let_def by (simp only: simp_thms if_False if_True)
qed

lemma string_of_nat_digits: "list_all is_digit (string_of_nat n)" "string_of_nat n \<noteq> []" "CHR ''.'' \<notin> set (string_of_nat n)"
proof -
  have d: "\<forall>d \<in> set [0..<10]. is_digit (digit_char d)" by code_simp
  then show l: "list_all is_digit (string_of_nat n)"
    using digits_in_chars [of 10 n] by (force simp: string_of_nat_def list_all_iff)
  show "string_of_nat n \<noteq> []" by (simp add: string_of_nat_def)
  show "CHR ''.'' \<notin> set (string_of_nat n)" using l by (auto simp: list_all_iff is_digit_def)
qed

lemma stoi_string_of_nat: "n < 2 ^ 31 \<Longrightarrow> stoi (string_of_nat n) = Some (int n)"
  using string_of_nat_digits [of n] version_numbers_digits [of "string_of_nat n"]
  by (auto simp: string_of_nat_val in_int32_def list_all_iff)

definition dotted :: "nat \<Rightarrow> nat \<Rightarrow> nat \<Rightarrow> string" where
  "dotted a b c = string_of_nat a @ ''.'' @ string_of_nat b @ ''.'' @ string_of_nat c"

lemma no_dots: "filter (\<lambda>x. x = CHR ''.'') (string_of_nat n) = []"
  using string_of_nat_digits(3) by (auto simp: filter_empty_conv)

lemma version_key_dotted:
  assumes "a < 2 ^ 31" "b < 2 ^ 31" "c < 2 ^ 31"
  shows "version_key (dotted a b c) = ([int a, int b, int c], [])"
proof -
  have "getlines (CHR ''.'') (dotted a b c) = [string_of_nat a, string_of_nat b, string_of_nat c]"
    using string_of_nat_digits by (simp add: dotted_def getlines_delim getlines_single)
  moreover have "length (filter (\<lambda>x. x = CHR ''.'') (dotted a b c)) = 2" by (simp add: dotted_def no_dots)
  ultimately show ?thesis
    using assms by (simp add: version_key_def Let_def stoi_string_of_nat numeral_3_eq_3)
qed

lemma VersionLess_key: "VersionLess v w \<longleftrightarrow> fst (version_key v) < fst (version_key w)
    \<or> (fst (version_key v) = fst (version_key w) \<and> snd (version_key v) < snd (version_key w))"
  by (simp add: VersionLess_def split: prod.splits)

text \<open>\<^verbatim>\<open>VersionLess\<close> is what \<^verbatim>\<open>std::sort\<close> needs, a strict weak order on all texts (irreflexive,
  transitive, with transitive incomparability), and on versions of three numbers below
  \<open>2 ^ 31\<close> it is the numeric order of the triples.\<close>

theorem VersionLess_order:
  "\<not> VersionLess u u
   \<and> (VersionLess u v \<and> VersionLess v w \<longrightarrow> VersionLess u w)
   \<and> (\<not> VersionLess u v \<and> \<not> VersionLess v u \<and> \<not> VersionLess v w \<and> \<not> VersionLess w v
        \<longrightarrow> \<not> VersionLess u w \<and> \<not> VersionLess w u)
   \<and> (a < 2 ^ 31 \<and> b < 2 ^ 31 \<and> c < 2 ^ 31 \<and> d < 2 ^ 31 \<and> e < 2 ^ 31 \<and> f < 2 ^ 31
        \<longrightarrow> (VersionLess (dotted a b c) (dotted d e f) \<longleftrightarrow> a < d \<or> (a = d \<and> (b < e \<or> (b = e \<and> c < f)))))"
  by (auto simp: VersionLess_key version_key_dotted)

theorem VersionLess_order_witness: "VersionLess (dotted 1 9 0) (dotted 1 10 0) \<and> \<not> VersionLess ''1.0.0'' ''1.0.0''"
  using VersionLess_order [of "''1.0.0''" "[]" "[]" 1 9 0 1 10 0] by simp

text \<open>Versions with more than three numbers: a trailing part, a fourth part or a pre-release
  tag is ignored, so \<^verbatim>\<open>1.2.3-beta\<close>, \<^verbatim>\<open>1.2.3.4\<close> and \<^verbatim>\<open>1.2.3\<close> are all incomparable and their
  order in a sorted list is left open.\<close>

theorem VersionLess_ties:
  "\<not> VersionLess ''1.2.3-beta'' ''1.2.3'' \<and> \<not> VersionLess ''1.2.3'' ''1.2.3-beta''
   \<and> \<not> VersionLess ''1.2.3.4'' ''1.2.3'' \<and> \<not> VersionLess ''1.2.3'' ''1.2.3.4''"
  by code_simp

end
