(* ===== verification/Source_Policy.thy ===== *)
theory Source_Policy
  imports Platform_Prelude "HOL-Library.Word"
begin

text \<open>
  The pure part of \<^verbatim>\<open>PlatformCore/SourceFetch/SourceFetch.cpp\<close>: which Git origins a policy admits,
  and the identity hash and slug that name an origin on disk. Running Git and the snapshot
  directories are outside the model. A C++ \<^verbatim>\<open>char\<close> is read as \<^verbatim>\<open>unsigned char\<close> where the
  source does so.
\<close>

unbundle bit_operations_syntax

record GitSourcePolicy =
  allow_https :: bool
  allow_http :: bool
  allow_ssh :: bool
  allow_file_url :: bool
  allow_git_protocol :: bool
  allow_local_path :: bool

definition PublicGitSourcePolicy :: GitSourcePolicy where
  "PublicGitSourcePolicy =
     \<lparr>allow_https = True, allow_http = True, allow_ssh = True, allow_file_url = True,
      allow_git_protocol = True, allow_local_path = True\<rparr>"

definition TrustedGitSourcePolicy :: GitSourcePolicy where
  "TrustedGitSourcePolicy =
     \<lparr>allow_https = True, allow_http = True, allow_ssh = True, allow_file_url = True,
      allow_git_protocol = True, allow_local_path = True\<rparr>"

definition HasControlCharacter :: "string \<Rightarrow> bool" where
  "HasControlCharacter s = list_ex (\<lambda>c. (of_char c :: nat) < 32 \<or> (of_char c :: nat) = 127) s"

definition LooksLikeRemoteGitSource :: "string \<Rightarrow> bool" where
  "LooksLikeRemoteGitSource source = (contains_sub source ''://'' \<or> starts_with source ''git@'')"

definition GitSourcePolicyViolation :: "string \<Rightarrow> GitSourcePolicy \<Rightarrow> string option" where
  "GitSourcePolicyViolation source policy =
     (if source = [] then Some ''git source origin is required''
      else if HasControlCharacter source then Some ''git source origin contains control characters''
      else if starts_with source ''https://''
      then (if allow_https policy then None else Some ''https git sources are not allowed'')
      else if starts_with source ''http://''
      then (if allow_http policy then None else Some ''http git sources are not allowed'')
      else if starts_with source ''ssh://'' \<or> starts_with source ''git@''
      then (if allow_ssh policy then None else Some ''ssh git sources are not allowed'')
      else if starts_with source ''file://''
      then (if allow_file_url policy then None else Some ''file git sources are not allowed'')
      else if starts_with source ''git://''
      then (if allow_git_protocol policy then None else Some ''git protocol sources are not allowed'')
      else if contains_sub source ''://'' then Some ''unsupported git source protocol''
      else (if allow_local_path policy then None else Some ''local git source paths are not allowed''))"

definition ValidateOrigin :: "string \<Rightarrow> GitSourcePolicy \<Rightarrow> unit result" where
  "ValidateOrigin origin policy =
     (case GitSourcePolicyViolation origin policy of
        None \<Rightarrow> Inr ()
      | Some violation \<Rightarrow> Inl (FetchError (violation @ '': '' @ origin)))"

section \<open>Identity hash and slug\<close>

definition fnv_offset :: "64 word" where "fnv_offset = 1469598103934665603"
definition fnv_prime :: "64 word" where "fnv_prime = 1099511628211"

definition fnv_step :: "64 word \<Rightarrow> char \<Rightarrow> 64 word" where
  "fnv_step hash ch = (hash XOR of_char ch) * fnv_prime"

definition Fnv1a64 :: "string \<Rightarrow> 64 word" where
  "Fnv1a64 s = foldl fnv_step fnv_offset s"

definition Hex64 :: "64 word \<Rightarrow> bool \<Rightarrow> string" where
  "Hex64 v padded =
     (if padded then pad_left 16 (CHR ''0'') (digits_in 16 (unat v)) else digits_in 16 (unat v))"

definition SourceFetchIdentityHash :: "string \<Rightarrow> string" where
  "SourceFetchIdentityHash s = Hex64 (Fnv1a64 s) False"

definition slug_char :: "char \<Rightarrow> bool" where
  "slug_char c = (is_lower c \<or> is_upper c \<or> is_digit c \<or> c = CHR ''.'' \<or> c = CHR ''_'' \<or> c = CHR ''-'')"

definition SourceFetchSlug :: "string \<Rightarrow> string" where
  "SourceFetchSlug s =
     map (\<lambda>c. if slug_char c then c else CHR ''_'') s @ ''-'' @ Hex64 (Fnv1a64 s) True"

section \<open>Origins\<close>

text \<open>
  The transport an origin names, independent of any policy. The prefixes are pairwise
  incompatible, so the order of the tests in the source does not matter.
\<close>

datatype transport = Https | Http | Ssh | File_Url | Git_Protocol | Unsupported | Local_Path

definition transport_of :: "string \<Rightarrow> transport" where
  "transport_of s =
     (if starts_with s ''git@'' \<or> starts_with s ''ssh://'' then Ssh
      else if starts_with s ''git://'' then Git_Protocol
      else if starts_with s ''file://'' then File_Url
      else if starts_with s ''http://'' then Http
      else if starts_with s ''https://'' then Https
      else if contains_sub s ''://'' then Unsupported
      else Local_Path)"

fun admits :: "GitSourcePolicy \<Rightarrow> transport \<Rightarrow> bool" where
  "admits p Https = allow_https p"
| "admits p Http = allow_http p"
| "admits p Ssh = allow_ssh p"
| "admits p File_Url = allow_file_url p"
| "admits p Git_Protocol = allow_git_protocol p"
| "admits p Unsupported = False"
| "admits p Local_Path = allow_local_path p"

text \<open>The same digits computed on integers, for evaluation.\<close>

primrec hex_digits :: "nat \<Rightarrow> int \<Rightarrow> string" where
  "hex_digits 0 i = []"
| "hex_digits (Suc n) i =
     (if i < 16 then [digit_char (nat i)] else hex_digits n (i div 16) @ [digit_char (nat (i mod 16))])"

lemma hex_digits_eq: "0 \<le> i \<Longrightarrow> i < 16 ^ Suc n \<Longrightarrow> digits_in 16 (nat i) = hex_digits (Suc n) i"
proof (induction n arbitrary: i)
  case 0
  then show ?case by (subst digits_in.simps) simp
next
  case (Suc n)
  show ?case
  proof (cases "i < 16")
    case True
    with Suc.prems show ?thesis by (subst digits_in.simps) simp
  next
    case False
    have "digits_in 16 (nat (i div 16)) = hex_digits (Suc n) (i div 16)" using Suc by simp
    moreover have "hex_digits (Suc (Suc n)) i = hex_digits (Suc n) (i div 16) @ [digit_char (nat (i mod 16))]"
      using False by (subst hex_digits.simps(2)) simp
    moreover have "digits_in 16 (nat i) = digits_in 16 (nat (i div 16)) @ [digit_char (nat (i mod 16))]"
      using False by (subst digits_in.simps) (simp add: nat_div_distrib nat_mod_distrib)
    ultimately show ?thesis by simp
  qed
qed

lemma Hex64_code [code]:
  "Hex64 v padded = (let s = hex_digits 16 (uint v) in if padded then pad_left 16 (CHR ''0'') s else s)"
proof -
  have "uint v < 16 ^ Suc 15" using uint_lt2p [of v] by simp
  then have "digits_in 16 (unat v) = hex_digits (Suc 15) (uint v)" using hex_digits_eq [of "uint v" 15] by simp
  then show ?thesis by (simp add: Hex64_def Let_def)
qed
lemma schemes_exclusive:
  shows "starts_with s ''https://'' \<Longrightarrow> \<not> starts_with s ''http://''"
    and "starts_with s ''https://'' \<or> starts_with s ''http://'' \<Longrightarrow>
           \<not> starts_with s ''ssh://'' \<and> \<not> starts_with s ''git@'' \<and> \<not> starts_with s ''git://''
             \<and> \<not> starts_with s ''file://''"
    and "starts_with s ''file://'' \<Longrightarrow> \<not> starts_with s ''git://'' \<and> \<not> starts_with s ''git@''
           \<and> \<not> starts_with s ''ssh://''"
    and "starts_with s ''git://'' \<Longrightarrow> \<not> starts_with s ''git@'' \<and> \<not> starts_with s ''ssh://''"
  by (cases s; auto simp: starts_with_iff)+

text \<open>An origin is accepted exactly when it is non-empty, holds no control character and
  names a transport the policy admits; an unknown scheme is never accepted.\<close>

theorem GitSourcePolicyViolation_None_iff:
  "GitSourcePolicyViolation source policy = None
     \<longleftrightarrow> source \<noteq> [] \<and> \<not> HasControlCharacter source \<and> admits policy (transport_of source)"
  using schemes_exclusive [of source]
  unfolding GitSourcePolicyViolation_def transport_of_def by (auto split: if_splits)

section \<open>The hash\<close>

lemma fnv_prime_inverse: "fnv_prime * 14886173955864302971 = 1"
  by (simp add: fnv_prime_def)

lemma fnv_prime_cancel: "a * fnv_prime = b * fnv_prime \<longleftrightarrow> a = b"
proof
  assume "a * fnv_prime = b * fnv_prime"
  then have "a * (fnv_prime * 14886173955864302971) = b * (fnv_prime * 14886173955864302971)"
    by (simp only: mult.assoc [symmetric])
  then show "a = b" unfolding fnv_prime_inverse by simp
qed simp

lemma of_char_word_inj: "(of_char c :: 64 word) = of_char d \<longleftrightarrow> c = d"
proof
  assume eq: "(of_char c :: 64 word) = of_char d"
  have lt: "(of_char e :: nat) < 2 ^ 64" for e
  proof -
    have "(of_char e :: nat) mod 256 < 256" by (rule mod_less_divisor) simp
    then have "(of_char e :: nat) < 256" by (simp only: of_char_mod_256)
    then show ?thesis by (rule less_trans) simp
  qed
  from eq have "unat (of_nat (of_char c) :: 64 word) = unat (of_nat (of_char d) :: 64 word)"
    by (simp only: of_nat_of_char)
  then have "(of_char c :: nat) = of_char d" using lt [of c] lt [of d] by (simp add: unat_of_nat)
  then show "c = d" by simp
qed simp

lemma xor_cancel:
  fixes a b c :: "64 word"
  shows "a XOR c = b XOR c \<longleftrightarrow> a = b" and "a XOR b = a XOR c \<longleftrightarrow> b = c"
proof -
  have "(x XOR c) XOR c = x" and "a XOR (a XOR x) = x" for x :: "64 word"
    by (simp_all add: xor.assoc xor.left_commute [of a])
  then show "a XOR c = b XOR c \<longleftrightarrow> a = b" and "a XOR b = a XOR c \<longleftrightarrow> b = c" by metis+
qed

lemma fnv_step_inj_hash: "fnv_step a c = fnv_step b c \<longleftrightarrow> a = b"
  by (simp add: fnv_step_def fnv_prime_cancel xor_cancel)

lemma fnv_step_inj_char: "fnv_step a c = fnv_step a d \<longleftrightarrow> c = d"
  by (simp add: fnv_step_def fnv_prime_cancel xor_cancel of_char_word_inj)

lemma foldl_fnv_inj: "foldl fnv_step a s = foldl fnv_step b s \<longleftrightarrow> a = b"
  by (induction s arbitrary: a b) (auto simp: fnv_step_inj_hash)

text \<open>Origins that differ in exactly one byte never share a repository directory: the
  FNV-1a step is a bijection of the 64-bit state, so the identity hash separates them.\<close>

theorem SourceFetchIdentityHash_separates:
  assumes "c \<noteq> d"
  shows "SourceFetchIdentityHash (p @ c # s) \<noteq> SourceFetchIdentityHash (p @ d # s)"
proof
  assume "SourceFetchIdentityHash (p @ c # s) = SourceFetchIdentityHash (p @ d # s)"
  then have "text_val 16 (digits_in 16 (unat (Fnv1a64 (p @ c # s))))
               = text_val 16 (digits_in 16 (unat (Fnv1a64 (p @ d # s))))"
    by (simp add: SourceFetchIdentityHash_def Hex64_def)
  then have "Fnv1a64 (p @ c # s) = Fnv1a64 (p @ d # s)" by (simp add: digits_in_val unsigned_word_eqI)
  then have "c = d" by (simp add: Fnv1a64_def foldl_fnv_inj fnv_step_inj_char)
  with assms show False ..
qed

theorem SourceFetchIdentityHash_separates_witness:
  "SourceFetchIdentityHash (''git@a'' @ CHR ''b'' # ''/x'') \<noteq> SourceFetchIdentityHash (''git@a'' @ CHR ''c'' # ''/x'')"
  by (rule SourceFetchIdentityHash_separates) simp

lemma hex_slug_chars: "c \<in> set (digits_in 16 n) \<Longrightarrow> slug_char c"
proof -
  assume "c \<in> set (digits_in 16 n)"
  then obtain d where "d < 16" "c = digit_char d" using digits_in_chars [of 16 n] by auto
  moreover have "\<forall>d \<in> set [0..<16]. slug_char (digit_char d)" by code_simp
  ultimately show "slug_char c" by simp
qed

text \<open>A slug is one path component of portable characters: it has the length of the
  origin plus 17, holds no separator, and is never empty, \<^verbatim>\<open>.\<close> or \<^verbatim>\<open>..\<close>.\<close>

theorem SourceFetchSlug_component:
  "length (SourceFetchSlug s) = length s + 17 \<and> list_all slug_char (SourceFetchSlug s)
   \<and> CHR ''/'' \<notin> set (SourceFetchSlug s) \<and> SourceFetchSlug s \<notin> {[], ''.'', ''..''}"
proof -
  have "unat (Fnv1a64 s) < 16 ^ 16" using unsigned_less [of "Fnv1a64 s"] by simp
  then have "length (digits_in 16 (unat (Fnv1a64 s))) \<le> 16" by (rule digits_in_length [rotated]) simp_all
  then have len: "length (SourceFetchSlug s) = length s + 17"
    by (simp add: SourceFetchSlug_def Hex64_def pad_left_def)
  moreover have all: "list_all slug_char (SourceFetchSlug s)"
    by (auto simp: SourceFetchSlug_def Hex64_def pad_left_def list_all_iff hex_slug_chars)
       (simp_all add: slug_char_def char_class_defs)
  moreover from all have "CHR ''/'' \<notin> set (SourceFetchSlug s)"
    by (auto simp: list_all_iff slug_char_def char_class_defs)
  moreover have "SourceFetchSlug s \<notin> {[], ''.'', ''..''}" using len by auto
  ultimately show ?thesis by blast
qed

end
