(* ===== verification/Job_Queue.thy ===== *)
theory Job_Queue
  imports Router_Support Source_Policy
begin

text \<open>
  Job submission requests (\<^verbatim>\<open>PlatformCloud/DeveloperWorkspace/JobQueue.cpp\<close>) and the field checks of
  the compile-container handlers (\<^verbatim>\<open>WorkspaceControlPlaneSupport.hpp\<close>): what is accepted, and
  the queued record an accepted submission becomes.
\<close>

definition IsAction :: "string \<Rightarrow> bool" where
  "IsAction v = (v = ''build'' \<or> v = ''run'' \<or> v = ''test'')"

definition WorkerPoolFromRequest :: "json \<Rightarrow> string" where
  "WorkerPoolFromRequest request =
     (if has_string request ''preferred_worker_pool'' then string_field request ''preferred_worker_pool''
      else (case json_lookup request ''job_request'' of
              Some job_request \<Rightarrow>
                (case json_lookup job_request ''cloud'' of
                   Some cloud \<Rightarrow>
                     (if has_string cloud ''worker_pool_key'' then string_field cloud ''worker_pool_key''
                      else ''linux/x86_64/binary/stable/minimal'')
                 | None \<Rightarrow> ''linux/x86_64/binary/stable/minimal'')
            | None \<Rightarrow> ''linux/x86_64/binary/stable/minimal''))"

definition ValidateCloudBuildRequest :: "json \<Rightarrow> string option" where
  "ValidateCloudBuildRequest job_request =
     or_error (error_if (\<not> (case json_lookup job_request ''schema_version'' of
                               Some v \<Rightarrow> is_number_integer v | None \<Rightarrow> False))
                 ''job_request.schema_version is required'')
     (or_error (error_if (\<not> HasNonEmptyString job_request ''manifest_path'')
                  ''job_request.manifest_path is required'')
     (case json_lookup job_request ''source'' of
        Some (JObject source) \<Rightarrow>
          or_error (error_if (\<not> HasNonEmptyString (JObject source) ''origin'')
                      ''job_request.source.origin is required'')
          (or_error (map_option (\<lambda>violation. ''job_request.source.origin '' @ violation)
                       (GitSourcePolicyViolation (string_field (JObject source) ''origin'') PublicGitSourcePolicy))
          (or_error (error_if (json_contains (JObject source) ''requested_revision''
                               \<and> \<not> HasNonEmptyString (JObject source) ''requested_revision'')
                       ''job_request.source.requested_revision must be a non-empty string when present'')
            (first_error (\<lambda>field. error_if (case json_lookup job_request field of
                                               Some v \<Rightarrow> \<not> is_object v | None \<Rightarrow> False)
                                     (''job_request.'' @ field @ '' must be an object when present''))
               [''toolchain'', ''workflow'', ''target'', ''cloud''])))
      | _ \<Rightarrow> Some ''job_request.source is required''))"

definition ValidateSubmitJobRequest :: "json \<Rightarrow> string option" where
  "ValidateSubmitJobRequest request =
     or_error (error_if (\<not> is_object request) ''request body must be an object'')
     (or_error (first_error (\<lambda>field. error_if (\<not> HasNonEmptyString request field) (field @ '' is required''))
                  [''tenant_id'', ''user_id'', ''workspace_id'', ''action''])
     (or_error (error_if (\<not> IsAction (string_field request ''action'')) ''action must be build, run, or test'')
     (case json_lookup request ''job_request'' of
        Some (JObject job_request) \<Rightarrow> ValidateCloudBuildRequest (JObject job_request)
      | _ \<Rightarrow> Some ''job_request is required'')))"

definition BuildQueuedJobRecord :: "json \<Rightarrow> PlatformConfig \<Rightarrow> string \<Rightarrow> PlatformJobRecord result" where
  "BuildQueuedJobRecord request config job_id =
     rbind (json_string_at request ''tenant_id'') (\<lambda>tenant_id.
     rbind (json_string_at request ''user_id'') (\<lambda>user_id.
     rbind (json_string_at request ''workspace_id'') (\<lambda>workspace_id.
     rbind (json_string_at request ''action'') (\<lambda>action.
     rbind (json_value get_string request ''region'' (cfg_region config)) (\<lambda>region.
     rbind (json_at request ''job_request'') (\<lambda>job_request.
       Inr \<lparr>j_job_id = job_id, j_tenant_id = tenant_id, j_user_id = user_id,
            j_workspace_id = workspace_id, j_action = action, j_status = ''queued'',
            j_region = region, j_worker_pool_key = WorkerPoolFromRequest request,
            j_created_at = default_created_at, j_worker_id = [], j_finished_at = [],
            j_job_request = job_request, j_artifacts = []\<rparr>))))))"

section \<open>Compile-container requests\<close>

definition ValidateCompileContainerRegistration :: "json \<Rightarrow> (string option) result" where
  "ValidateCompileContainerRegistration body =
     (case or_error (error_if (\<not> is_object body) ''request body must be an object'')
             (first_error (\<lambda>field. error_if (\<not> HasNonEmptyString body field) (field @ '' is required''))
                [''container_id'', ''worker_id'', ''tenant_id'', ''user_id'', ''workspace_id'', ''region'',
                 ''worker_pool_key'']) of
        Some e \<Rightarrow> Inr (Some e)
      | None \<Rightarrow>
          rbind (json_value get_int body ''capacity'' 0) (\<lambda>capacity.
            Inr (or_error (error_if (capacity < 1) ''capacity must be positive'')
                   (error_if (case json_lookup body ''status'' of
                                None \<Rightarrow> False
                              | Some v \<Rightarrow> v \<noteq> JString ''active'' \<and> v \<noteq> JString ''draining'')
                      ''status must be active or draining when present''))))"

definition ValidateCompileContainerSwitch :: "json \<Rightarrow> string option" where
  "ValidateCompileContainerSwitch body =
     or_error (error_if (\<not> is_object body) ''request body must be an object'')
     (or_error (first_error (\<lambda>field. error_if (\<not> HasNonEmptyString body field) (field @ '' is required''))
                  [''worker_id'', ''workspace_id''])
       (ValidateOptionalStringFields body [''tenant_id'', ''user_id'', ''reason'']))"

section \<open>Accepted submissions\<close>

lemma ValidateSubmitJobRequest_None:
  assumes "ValidateSubmitJobRequest q = None"
  shows "HasNonEmptyString q ''tenant_id''" "HasNonEmptyString q ''user_id''"
    "HasNonEmptyString q ''workspace_id''" "HasNonEmptyString q ''action''"
    "IsAction (string_field q ''action'')"
    "\<exists>m. json_lookup q ''job_request'' = Some (JObject m) \<and> ValidateCloudBuildRequest (JObject m) = None"
  using assms
  by (auto simp: ValidateSubmitJobRequest_def split: option.splits json.splits)

lemma ValidateCloudBuildRequest_None:
  assumes "ValidateCloudBuildRequest r = None"
  shows "HasNonEmptyString r ''manifest_path''"
    and "\<exists>m s. json_lookup r ''source'' = Some (JObject m) \<and> json_lookup (JObject m) ''origin'' = Some (JString s)
           \<and> GitSourcePolicyViolation s PublicGitSourcePolicy = None"
  using assms
  by (auto simp: ValidateCloudBuildRequest_def HasNonEmptyString_iff string_field_def
      split: option.splits json.splits)

lemma BuildQueuedJobRecord_fields:
  assumes "BuildQueuedJobRecord q config i = Inr job"
  shows "j_job_id job = i" and "j_status job = ''queued''" and "j_worker_id job = []"
    and "json_lookup q ''tenant_id'' = Some (JString (j_tenant_id job))"
    and "json_lookup q ''user_id'' = Some (JString (j_user_id job))"
    and "json_lookup q ''action'' = Some (JString (j_action job))"
    and "json_lookup q ''workspace_id'' = Some (JString (j_workspace_id job))"
  using assms by (auto simp: BuildQueuedJobRecord_def rbind_eq_Inr)

text \<open>A submission that passes validation and whose optional \<^verbatim>\<open>region\<close> is a string becomes a
  queued record: the caller's tenant, user, workspace and action, all non-empty and the
  action one of the three, no worker yet, and a source origin the Git policy admits.\<close>

theorem BuildQueuedJobRecord_accepted:
  assumes "ValidateSubmitJobRequest q = None"
    and "json_lookup q ''region'' = None \<or> has_string q ''region''"
  shows "\<exists>job. BuildQueuedJobRecord q config i = Inr job \<and> j_job_id job = i \<and> j_status job = ''queued''
     \<and> j_worker_id job = [] \<and> j_tenant_id job \<noteq> [] \<and> j_user_id job \<noteq> [] \<and> j_workspace_id job \<noteq> []
     \<and> IsAction (j_action job)
     \<and> (\<exists>m s. json_lookup (j_job_request job) ''source'' = Some (JObject m)
           \<and> json_lookup (JObject m) ''origin'' = Some (JString s)
           \<and> GitSourcePolicyViolation s PublicGitSourcePolicy = None)"
proof -
  note v = ValidateSubmitJobRequest_None [OF assms(1)]
  from v(1-4) obtain t u w a where l: "json_lookup q ''tenant_id'' = Some (JString t)" "t \<noteq> []"
    "json_lookup q ''user_id'' = Some (JString u)" "u \<noteq> []"
    "json_lookup q ''workspace_id'' = Some (JString w)" "w \<noteq> []"
    "json_lookup q ''action'' = Some (JString a)" "a \<noteq> []"
    by (auto simp: HasNonEmptyString_iff)
  from v(6) obtain m where m: "json_lookup q ''job_request'' = Some (JObject m)"
    "ValidateCloudBuildRequest (JObject m) = None" by blast
  obtain ms where q: "q = JObject ms" using json_lookup_is_object [OF l(1)] by (cases q) auto
  obtain r where r: "json_value get_string q ''region'' (cfg_region config) = Inr r"
    using assms(2) by (auto simp: q has_string_iff split: option.splits)
  show ?thesis
    using l m r v(5) ValidateCloudBuildRequest_None(2) [OF m(2)]
    by (simp add: BuildQueuedJobRecord_def json_string_at_def json_at_def string_field_def)
qed

definition sample_submission :: json where
  "sample_submission = json_obj
     [(''tenant_id'', JString ''t1''), (''user_id'', JString ''u1''), (''workspace_id'', JString ''w1''),
      (''action'', JString ''build''),
      (''job_request'', json_obj
         [(''schema_version'', JInt 1), (''manifest_path'', JString ''spio.toml''),
          (''source'', json_obj [(''origin'', JString ''https://example.org/a.git'')])])]"

theorem BuildQueuedJobRecord_accepted_witness:
  "\<exists>job. BuildQueuedJobRecord sample_submission default_config ''job-1'' = Inr job \<and> j_job_id job = ''job-1''
     \<and> j_status job = ''queued''"
proof -
  have "ValidateSubmitJobRequest sample_submission = None" by code_simp
  moreover have "json_lookup sample_submission ''region'' = None" by code_simp
  ultimately show ?thesis
    using BuildQueuedJobRecord_accepted [of sample_submission default_config "''job-1''"] by blast
qed

end
