(* ===== verification/Platform_Ops.thy ===== *)
theory Platform_Ops
  imports Json_Value
begin

text \<open>
  The rate limiter and the request metrics of \<^verbatim>\<open>PlatformService/PlatformOps/OpsManager.cpp\<close>. The
  limiter keeps one fixed window per subject and operation; times are seconds, and the
  counters of the source are unbounded integers here (a window would need \<open>2 ^ 31\<close>
  requests to leave their range).
\<close>

record Bucket =
  window_start :: int
  bucket_count :: int

type_synonym limiter = "(string, Bucket) smap"

definition fresh_bucket :: Bucket where
  "fresh_bucket = \<lparr>window_start = 0, bucket_count = 0\<rparr>"

definition bucket_key :: "string \<Rightarrow> string \<Rightarrow> string" where
  "bucket_key subject operation = subject @ '':'' @ operation"

definition Allow :: "string \<Rightarrow> string \<Rightarrow> int \<Rightarrow> int \<Rightarrow> int \<Rightarrow> limiter \<Rightarrow> bool \<times> limiter" where
  "Allow subject operation limit window_seconds now_seconds buckets =
     (if limit \<le> 0 \<or> window_seconds \<le> 0 then (True, buckets)
      else let key = bucket_key subject operation;
               bucket = smap_get fresh_bucket buckets key;
               bucket = (if window_start bucket = 0 \<or> now_seconds - window_start bucket \<ge> window_seconds
                         then \<lparr>window_start = now_seconds, bucket_count = 0\<rparr> else bucket);
               bucket = bucket\<lparr>bucket_count := bucket_count bucket + 1\<rparr>
           in (bucket_count bucket \<le> limit, smap_put key bucket buckets))"

definition limiter_Snapshot :: "limiter \<Rightarrow> json" where
  "limiter_Snapshot buckets = json_obj
     [(''buckets'',
       foldl (\<lambda>j (key, bucket). json_set key
                (json_obj [(''window_start'', JInt (window_start bucket)),
                           (''count'', JInt (bucket_count bucket))]) j) (JObject []) buckets)]"

record metrics =
  total_requests :: int
  by_operation :: "(string, int) smap"
  by_status :: "(int, int) smap"

definition empty_metrics :: metrics where
  "empty_metrics = \<lparr>total_requests = 0, by_operation = [], by_status = []\<rparr>"

definition Record :: "string \<Rightarrow> int \<Rightarrow> metrics \<Rightarrow> metrics" where
  "Record operation status_code m =
     m\<lparr>total_requests := total_requests m + 1,
       by_operation := smap_put operation (smap_get 0 (by_operation m) operation + 1) (by_operation m),
       by_status := smap_put status_code (smap_get 0 (by_status m) status_code + 1) (by_status m)\<rparr>"

definition metrics_Snapshot :: "metrics \<Rightarrow> json" where
  "metrics_Snapshot m = json_obj
     [(''total_requests'', JInt (total_requests m)),
      (''by_operation'',
       foldl (\<lambda>j (operation, count). json_set operation (JInt count) j) (JObject []) (by_operation m)),
      (''by_status'',
       foldl (\<lambda>j (status, count). json_set (string_of_int status) (JInt count) j) (JObject []) (by_status m))]"

section \<open>Runs of the limiter\<close>

type_synonym call = "string \<times> string \<times> int"

text \<open>
  A sequence of calls \<open>(subject, operation, now)\<close> under one limit, and how many of those for a
  given key are let through.
\<close>

fun allowed_for :: "string \<Rightarrow> int \<Rightarrow> int \<Rightarrow> call list \<Rightarrow> limiter \<Rightarrow> nat" where
  "allowed_for k limit window [] b = 0"
| "allowed_for k limit window ((subject, operation, now) # calls) b =
     (case Allow subject operation limit window now b of
        (ok, b') \<Rightarrow> (if ok \<and> bucket_key subject operation = k then 1 else 0)
                     + allowed_for k limit window calls b')"

fun calls_for :: "string \<Rightarrow> call list \<Rightarrow> nat" where
  "calls_for k [] = 0"
| "calls_for k ((subject, operation, now) # calls) =
     (if bucket_key subject operation = k then 1 else 0) + calls_for k calls"

definition call_time :: "call \<Rightarrow> int" where
  "call_time c = snd (snd c)"

definition counts_nonneg :: "limiter \<Rightarrow> bool" where
  "counts_nonneg b = (\<forall>k v. smap_find b k = Some v \<longrightarrow> 0 \<le> bucket_count v)"

lemma call_time_simp [simp]: "call_time (s, opn, t) = t"
  by (simp add: call_time_def)

lemma smap_get_put: "smap_get d (smap_put k v m) k' = (if k' = k then v else smap_get d m k')"
  by (simp add: smap_get_def)

lemma Allow_other:
  "bucket_key s opn \<noteq> k \<Longrightarrow> smap_get fresh_bucket (snd (Allow s opn l w t b)) k = smap_get fresh_bucket b k"
  by (auto simp: Allow_def Let_def smap_get_put)

lemma Allow_no_reset:
  assumes "0 < l" "0 < w" "window_start (smap_get fresh_bucket b (bucket_key s opn)) \<noteq> 0"
    and "t - window_start (smap_get fresh_bucket b (bucket_key s opn)) < w"
  shows "fst (Allow s opn l w t b) \<longleftrightarrow> bucket_count (smap_get fresh_bucket b (bucket_key s opn)) < l"
    and "smap_get fresh_bucket (snd (Allow s opn l w t b)) (bucket_key s opn)
           = (smap_get fresh_bucket b (bucket_key s opn))\<lparr>bucket_count :=
                bucket_count (smap_get fresh_bucket b (bucket_key s opn)) + 1\<rparr>"
  using assms by (auto simp: Allow_def Let_def smap_get_put)

lemma Allow_reset:
  assumes "0 < l" "0 < w" "window_start (smap_get fresh_bucket b (bucket_key s opn)) = 0
       \<or> t - window_start (smap_get fresh_bucket b (bucket_key s opn)) \<ge> w"
  shows "fst (Allow s opn l w t b)"
    and "smap_get fresh_bucket (snd (Allow s opn l w t b)) (bucket_key s opn)
           = \<lparr>window_start = t, bucket_count = 1\<rparr>"
  using assms by (auto simp: Allow_def Let_def smap_get_put)

text \<open>Inside the window a bucket opened at or after \<open>T\<close> lets through what is left of the limit.\<close>

lemma allowed_in_window:
  assumes "0 < l" "0 < w" "0 < T" "\<forall>c \<in> set calls. call_time c < T + w"
    and "T \<le> window_start (smap_get fresh_bucket b k)"
  shows "allowed_for k l w calls b
           = min (calls_for k calls) (nat (l - bucket_count (smap_get fresh_bucket b k)))"
  using assms(4,5)
proof (induction calls arbitrary: b)
  case (Cons c calls)
  obtain s opn t where c: "c = (s, opn, t)" by (cases c)
  obtain ok b' where A: "Allow s opn l w t b = (ok, b')" by (cases "Allow s opn l w t b")
  show ?case
  proof (cases "bucket_key s opn = k")
    case True
    let ?B = "smap_get fresh_bucket b k"
    from Cons.prems have "window_start ?B \<noteq> 0" "t - window_start ?B < w"
      using assms(3) by (auto simp: c)
    then have ok: "ok \<longleftrightarrow> bucket_count ?B < l"
      and b': "smap_get fresh_bucket b' k = ?B\<lparr>bucket_count := bucket_count ?B + 1\<rparr>"
      using Allow_no_reset [of l w b s opn t] True A assms(1,2) by auto
    from Cons.prems b' have "allowed_for k l w calls b' = min (calls_for k calls) (nat (l - (bucket_count ?B + 1)))"
      using Cons.IH [of b'] by simp
    with True A ok show ?thesis by (auto simp: c)
  next
    case False
    with A Allow_other [of s opn k l w t b] have "smap_get fresh_bucket b' k = smap_get fresh_bucket b k" by simp
    with Cons False A show ?thesis by (simp add: c)
  qed
qed simp

text \<open>For a subject and operation not seen before, the calls made within one window,
  interleaved with any calls for other keys, get through exactly up to the limit: all of
  them when they are at most the limit, the limit otherwise.\<close>

theorem Allow_fresh_window:
  assumes "0 < limit" and "0 < window" and "0 < T"
    and "\<forall>c \<in> set calls. T \<le> call_time c \<and> call_time c < T + window"
    and "smap_find b k = None"
  shows "allowed_for k limit window calls b = min (calls_for k calls) (nat limit)"
  using assms(4,5)
proof (induction calls arbitrary: b)
  case (Cons c calls)
  obtain s opn t where c: "c = (s, opn, t)" by (cases c)
  obtain ok b' where A: "Allow s opn limit window t b = (ok, b')" by (cases "Allow s opn limit window t b")
  show ?case
  proof (cases "bucket_key s opn = k")
    case True
    have "smap_get fresh_bucket b k = fresh_bucket" using Cons.prems by (simp add: smap_get_def)
    then have "ok" and b': "smap_get fresh_bucket b' k = \<lparr>window_start = t, bucket_count = 1\<rparr>"
      using Allow_reset [of limit window b s opn t] True A assms(1,2) by (auto simp: fresh_bucket_def)
    moreover have "allowed_for k limit window calls b' = min (calls_for k calls) (nat (limit - 1))"
      using allowed_in_window [of limit window T calls b' k] Cons.prems assms(1-3) b' by (auto simp: c)
    ultimately show ?thesis using True A assms(1) by (auto simp: c)
  next
    case False
    with A have "smap_find b' k = None"
      using Cons.prems(2) by (auto simp: Allow_def Let_def split: if_splits)
    with Cons False A show ?thesis by (simp add: c)
  qed
qed simp

theorem Allow_fresh_window_witness:
  "allowed_for ''n:op'' 2 60 [(''n'', ''op'', 100), (''m'', ''op'', 101), (''n'', ''op'', 102), (''n'', ''op'', 103)] [] = 2"
  using Allow_fresh_window [of 2 60 100
      "[(''n'', ''op'', 100), (''m'', ''op'', 101), (''n'', ''op'', 102), (''n'', ''op'', 103)]" "[]" "''n:op''"]
  by (simp add: bucket_key_def)

lemma Allow_counts_nonneg: "counts_nonneg b \<Longrightarrow> counts_nonneg (snd (Allow s opn l w t b))"
  by (auto simp: counts_nonneg_def Allow_def Let_def smap_get_def fresh_bucket_def split: option.splits)

lemma allowed_any_window:
  assumes "0 < l" "0 < w" "0 < T" "\<forall>c \<in> set calls. T \<le> call_time c \<and> call_time c < T + w"
    and "counts_nonneg b"
  shows "allowed_for k l w calls b \<le> nat (l - bucket_count (smap_get fresh_bucket b k)) + nat l"
  using assms(4,5)
proof (induction calls arbitrary: b)
  case (Cons c calls)
  obtain s opn t where c: "c = (s, opn, t)" by (cases c)
  obtain ok b' where A: "Allow s opn l w t b = (ok, b')" by (cases "Allow s opn l w t b")
  have nn: "counts_nonneg b'" using Allow_counts_nonneg [of b s opn l w t] Cons.prems A by simp
  let ?B = "smap_get fresh_bucket b k"
  show ?case
  proof (cases "bucket_key s opn = k")
    case False
    with A Allow_other [of s opn k l w t b] have "smap_get fresh_bucket b' k = ?B" by simp
    then have "allowed_for k l w calls b' \<le> nat (l - bucket_count ?B) + nat l"
      using Cons.IH [of b'] Cons.prems nn by simp
    with False A show ?thesis by (simp add: c)
  next
    case key: True
    show ?thesis
    proof (cases "window_start ?B = 0 \<or> t - window_start ?B \<ge> w")
      case True
      then have "smap_get fresh_bucket b' k = \<lparr>window_start = t, bucket_count = 1\<rparr>"
        using Allow_reset [of l w b s opn t] key A assms(1,2) by auto
      then have "allowed_for k l w calls b' \<le> nat (l - 1)"
        using allowed_in_window [of l w T calls b' k] Cons.prems assms(1-3) by (auto simp: c)
      with key A assms(1) show ?thesis by (auto simp: c)
    next
      case False
      then have ok: "ok \<longleftrightarrow> bucket_count ?B < l"
        and b': "smap_get fresh_bucket b' k = ?B\<lparr>bucket_count := bucket_count ?B + 1\<rparr>"
        using Allow_no_reset [of l w b s opn t] key A assms(1,2) by auto
      have "allowed_for k l w calls b' \<le> nat (l - (bucket_count ?B + 1)) + nat l"
        using Cons.IH [of b'] Cons.prems nn b' by simp
      with key A ok show ?thesis by (auto simp: c)
    qed
  qed
qed simp

text \<open>Whatever happened before, within any stretch of time as long as the window at most
  twice the limit gets through for one subject and operation: the fixed windows of the
  limiter can meet inside the stretch, but only two of them can.\<close>

theorem Allow_any_window:
  assumes "0 < limit" and "0 < window" and "0 < T"
    and "\<forall>c \<in> set calls. T \<le> call_time c \<and> call_time c < T + window"
    and "counts_nonneg b"
  shows "int (allowed_for k limit window calls b) \<le> 2 * limit"
proof -
  have "0 \<le> bucket_count (smap_get fresh_bucket b k)"
    using assms(5) by (auto simp: counts_nonneg_def smap_get_def fresh_bucket_def split: option.splits)
  moreover have "allowed_for k limit window calls b
      \<le> nat (limit - bucket_count (smap_get fresh_bucket b k)) + nat limit"
    using assms by (rule allowed_any_window)
  ultimately show ?thesis using assms(1) by linarith
qed

theorem Allow_any_window_witness:
  "int (allowed_for ''n:op'' 1 60 [(''n'', ''op'', 100), (''n'', ''op'', 101)]
      [(''n:op'', \<lparr>window_start = 41, bucket_count = 0\<rparr>)]) \<le> 2 * 1"
  by (rule Allow_any_window [where T = 100]) (auto simp: counts_nonneg_def)

text \<open>Requests of different subjects or operations never share a window, because no
  operation id holds a colon.\<close>

theorem bucket_key_inj:
  assumes "CHR '':'' \<notin> set op1" and "CHR '':'' \<notin> set op2"
  shows "bucket_key s1 op1 = bucket_key s2 op2 \<longleftrightarrow> s1 = s2 \<and> op1 = op2"
proof
  assume eq: "bucket_key s1 op1 = bucket_key s2 op2"
  define f where "f x = takeWhile (\<lambda>c. c \<noteq> CHR '':'') (rev x)" for x
  have op: "f (bucket_key s opn) = rev opn" if "CHR '':'' \<notin> set opn" for s opn
  proof -
    from that have "\<And>c. c \<in> set (rev opn) \<Longrightarrow> c \<noteq> CHR '':''" by auto
    then have "takeWhile (\<lambda>c. c \<noteq> CHR '':'') (rev opn @ CHR '':'' # rev s) = rev opn @ []"
      by (subst takeWhile_append2) auto
    then show ?thesis by (simp add: bucket_key_def f_def)
  qed
  from op [OF assms(1), of s1] op [OF assms(2), of s2] eq have "op1 = op2" by simp
  with eq show "s1 = s2 \<and> op1 = op2" by (simp add: bucket_key_def)
qed simp

theorem bucket_key_inj_witness:
  "bucket_key ''token:a'' ''getJob'' \<noteq> bucket_key ''token'' ''submitJob''"
  using bucket_key_inj [of "''getJob''" "''submitJob''" "''token:a''" "''token''"] by simp

section \<open>Metrics\<close>

lemma sum_smap_put:
  fixes m :: "('k::linorder, int) smap"
  assumes "smap_wf m"
  shows "sum_list (smap_values (smap_put k (smap_get 0 m k + x) m)) = sum_list (smap_values m) + x"
  using assms
proof (induction m)
  case (Cons e m)
  obtain a y where e: "e = (a, y)" by (cases e)
  from Cons.prems have wf: "smap_wf m" and gt: "\<forall>k \<in> fst ` set m. a < k" by (auto simp: e smap_wf_simps)
  consider "a < k" | "a = k" | "k < a" by (rule linorder_cases)
  then show ?case
  proof cases
    case 3
    then have "smap_find m k = None" using gt smap_find_in [OF wf] by (metis (no_types, lifting)
        fst_conv image_eqI not_None_eq order_less_asym)
    with 3 show ?thesis by (auto simp: e smap_values_def smap_get_def)
  qed (use Cons wf in \<open>auto simp: e smap_values_def smap_get_def\<close>)
qed (simp add: smap_values_def smap_get_def)

definition metrics_ok :: "metrics \<Rightarrow> bool" where
  "metrics_ok m = (smap_wf (by_operation m) \<and> smap_wf (by_status m)
     \<and> sum_list (smap_values (by_operation m)) = total_requests m
     \<and> sum_list (smap_values (by_status m)) = total_requests m)"

text \<open>After any sequence of recorded requests the per-operation counts and the
  per-status counts each add up to the total, which is the number of requests recorded.\<close>

theorem Record_totals:
  "metrics_ok (foldl (\<lambda>m (operation, status). Record operation status m) empty_metrics rs)
   \<and> total_requests (foldl (\<lambda>m (operation, status). Record operation status m) empty_metrics rs) = int (length rs)"
proof (induction rs rule: rev_induct)
  case (snoc r rs)
  then show ?case by (cases r) (auto simp: Record_def metrics_ok_def sum_smap_put)
qed (simp add: empty_metrics_def metrics_ok_def smap_wf_simps smap_values_def)

end
