(* ===== verification/Workspace_Plane.thy ===== *)
theory Workspace_Plane
  imports Job_Queue Platform_Ops
begin

text \<open>
  The developer-workspace handlers of the router
  (\<^verbatim>\<open>PlatformCloud/DeveloperWorkspace/WorkspaceControlPlane.cpp\<close>): each handler as a function from the
  router's state to its response, or the exception that leaves it, and the new state. The
  router holds the in-memory store and, when configured, a PostgreSQL store; the latter
  talks to a database server, so its operations are a parameter, a record of functions
  on a database state. A method of it either returns or throws a \<^verbatim>\<open>PostgresStoreError\<close>
  with a message (\<open>Inl\<close>). Its field \<open>pg_what\<close> is the text of any other standard exception caught
  around such a call, which the JSON library and the standard library choose. \<open>None\<close> for the parameter is the null \<^verbatim>\<open>postgres_\<close> of the default backend.
\<close>

type_synonym 'a pg_result = "string + 'a"

record 'db postgres =
  pg_what :: "platform_error \<Rightarrow> string"
  pg_NextJobId :: "'db \<Rightarrow> string pg_result \<times> 'db"
  pg_SubmitJob :: "PlatformJobRecord \<Rightarrow> 'db \<Rightarrow> unit pg_result \<times> 'db"
  pg_GetJob :: "string \<Rightarrow> 'db \<Rightarrow> PlatformJobRecord option pg_result \<times> 'db"
  pg_GetJobEvents :: "string \<Rightarrow> 'db \<Rightarrow> JobEventRecord list pg_result \<times> 'db"
  pg_CancelJob :: "string \<Rightarrow> string \<Rightarrow> 'db \<Rightarrow> PlatformJobRecord option pg_result \<times> 'db"
  pg_RegisterWorker :: "json \<Rightarrow> 'db \<Rightarrow> json pg_result \<times> 'db"
  pg_RegisterCompileContainer :: "CompileContainerRecord \<Rightarrow> 'db \<Rightarrow> CompileContainerRecord pg_result \<times> 'db"
  pg_GetCompileContainer :: "string \<Rightarrow> 'db \<Rightarrow> CompileContainerRecord option pg_result \<times> 'db"
  pg_SwitchCompileContainerWorkspace ::
    "string \<Rightarrow> string \<Rightarrow> string \<Rightarrow> string \<Rightarrow> 'db \<Rightarrow> CompileContainerRecord option pg_result \<times> 'db"
  pg_ClaimJob :: "string \<Rightarrow> string \<Rightarrow> string \<Rightarrow> 'db \<Rightarrow> PlatformJobRecord option pg_result \<times> 'db"
  pg_ClaimJobForCompileContainer ::
    "string \<Rightarrow> string \<Rightarrow> string \<Rightarrow> string \<Rightarrow> 'db \<Rightarrow> PlatformJobRecord option pg_result \<times> 'db"
  pg_HeartbeatJob :: "string \<Rightarrow> string \<Rightarrow> string \<Rightarrow> 'db \<Rightarrow> PlatformJobRecord option pg_result \<times> 'db"
  pg_CompleteJob ::
    "string \<Rightarrow> string \<Rightarrow> string \<Rightarrow> string \<Rightarrow> ArtifactRecord list \<Rightarrow> json \<Rightarrow> 'db
       \<Rightarrow> PlatformJobRecord option pg_result \<times> 'db"
  pg_RegisterWorkgroupCluster :: "string \<Rightarrow> json \<Rightarrow> 'db \<Rightarrow> json pg_result \<times> 'db"
  pg_ListWorkgroupClusters :: "string \<Rightarrow> 'db \<Rightarrow> json pg_result \<times> 'db"
  pg_GetMirrorState :: "string \<Rightarrow> 'db \<Rightarrow> MirrorCursorRecord option pg_result \<times> 'db"
  pg_ListRegistryPackageOwners :: "string \<Rightarrow> 'db \<Rightarrow> json pg_result \<times> 'db"
  pg_AddRegistryPackageOwner :: "RegistryPackageOwnerRecord \<Rightarrow> 'db \<Rightarrow> unit pg_result \<times> 'db"
  pg_RemoveRegistryPackageOwner :: "string \<Rightarrow> string \<Rightarrow> 'db \<Rightarrow> bool pg_result \<times> 'db"
  pg_HasRegistryPackageOwner :: "string \<Rightarrow> string \<Rightarrow> 'db \<Rightarrow> bool pg_result \<times> 'db"
  pg_NextRegistryTokenId :: "'db \<Rightarrow> string pg_result \<times> 'db"
  pg_UpsertRegistryPublishToken :: "RegistryPublishTokenRecord \<Rightarrow> 'db \<Rightarrow> unit pg_result \<times> 'db"
  pg_GetRegistryPublishToken :: "string \<Rightarrow> 'db \<Rightarrow> RegistryPublishTokenRecord option pg_result \<times> 'db"
  pg_FindRegistryPublishTokenByHash :: "string \<Rightarrow> 'db \<Rightarrow> RegistryPublishTokenRecord option pg_result \<times> 'db"
  pg_ListRegistryPublishTokens :: "string \<Rightarrow> 'db \<Rightarrow> json pg_result \<times> 'db"
  pg_RevokeRegistryPublishToken :: "string \<Rightarrow> string \<Rightarrow> 'db \<Rightarrow> bool pg_result \<times> 'db"
  pg_NextRegistryAuditEventId :: "'db \<Rightarrow> string pg_result \<times> 'db"
  pg_RecordRegistryAuditEvent :: "RegistryAuditEventRecord \<Rightarrow> 'db \<Rightarrow> unit pg_result \<times> 'db"
  pg_ListRegistryAuditEvents :: "'db \<Rightarrow> json pg_result \<times> 'db"
  pg_RecordMirrorState :: "MirrorCursorRecord \<Rightarrow> 'db \<Rightarrow> unit pg_result \<times> 'db"
  pg_UpsertRegistryPackage :: "RegistryPackageRecord \<Rightarrow> 'db \<Rightarrow> unit pg_result \<times> 'db"
  pg_GetRegistryPackage :: "string \<Rightarrow> 'db \<Rightarrow> RegistryPackageRecord option pg_result \<times> 'db"
  pg_UpsertRegistryPackageRelease :: "RegistryPackageReleaseRecord \<Rightarrow> 'db \<Rightarrow> unit pg_result \<times> 'db"
  pg_GetRegistryPackageRelease :: "string \<Rightarrow> string \<Rightarrow> 'db \<Rightarrow> RegistryPackageReleaseRecord option pg_result \<times> 'db"
  pg_ListRegistryPackageReleases :: "string \<Rightarrow> 'db \<Rightarrow> json pg_result \<times> 'db"
  pg_SetRegistryPackageReleaseYanked :: "string \<Rightarrow> string \<Rightarrow> bool \<Rightarrow> string \<Rightarrow> 'db \<Rightarrow> bool pg_result \<times> 'db"
  pg_NextRepositoryVersionSequence :: "string \<Rightarrow> 'db \<Rightarrow> int pg_result \<times> 'db"
  pg_UpsertRegistryRepository :: "RegistryRepositoryRecord \<Rightarrow> 'db \<Rightarrow> unit pg_result \<times> 'db"
  pg_ListRegistryRepositories :: "'db \<Rightarrow> json pg_result \<times> 'db"
  pg_RecordRegistryRepositoryVersion :: "RegistryRepositoryVersionRecord \<Rightarrow> 'db \<Rightarrow> unit pg_result \<times> 'db"
  pg_ListRegistryRepositoryVersions :: "string \<Rightarrow> 'db \<Rightarrow> json pg_result \<times> 'db"
  pg_RecordRegistryPublication :: "RegistryPublicationRecord \<Rightarrow> 'db \<Rightarrow> unit pg_result \<times> 'db"
  pg_GetRegistryPublication :: "string \<Rightarrow> 'db \<Rightarrow> RegistryPublicationRecord option pg_result \<times> 'db"
  pg_UpsertRegistryDistribution :: "RegistryDistributionRecord \<Rightarrow> 'db \<Rightarrow> unit pg_result \<times> 'db"
  pg_ListRegistryDistributions :: "'db \<Rightarrow> json pg_result \<times> 'db"

record 'db router =
  rt_memory :: store
  rt_db :: 'db
  rt_rate_limiter :: limiter
  rt_metrics :: metrics

type_synonym 'db handler = "'db router \<Rightarrow> HttpResponse result \<times> 'db router"

definition pg_call :: "('db \<Rightarrow> 'a pg_result \<times> 'db) \<Rightarrow> 'db router \<Rightarrow> 'a pg_result \<times> 'db router" where
  "pg_call f s = (case f (rt_db s) of (r, db) \<Rightarrow> (r, s\<lparr>rt_db := db\<rparr>))"

definition respond :: "int \<Rightarrow> json \<Rightarrow> 'db handler" where
  "respond status body s = (Inr (JsonResponse status body), s)"

definition fail503 :: "string \<Rightarrow> string \<Rightarrow> string \<Rightarrow> string \<Rightarrow> 'db handler" where
  "fail503 message detail category operation_id s =
     (Inr (FailureResponse 503 message detail category operation_id 17), s)"

definition escape :: "platform_error \<Rightarrow> 'db handler" where
  "escape e s = (Inl e, s)"

text \<open>\<^verbatim>\<open>match.parameters.at(name)\<close>, and an optional that is dereferenced without a test.\<close>

definition param_at :: "RouteMatch \<Rightarrow> string \<Rightarrow> string result" where
  "param_at rm name = (case smap_find (rm_parameters rm) name of None \<Rightarrow> Inl OutOfRange | Some v \<Rightarrow> Inr v)"

definition unwrap :: "'a option \<Rightarrow> 'a result" where
  "unwrap x = (case x of None \<Rightarrow> Inl (LogicError ''bad optional access'') | Some y \<Rightarrow> Inr y)"

text \<open>Run a fallible pure step; an error leaves the handler.\<close>

definition using_result :: "'a result \<Rightarrow> ('a \<Rightarrow> 'db handler) \<Rightarrow> 'db handler" where
  "using_result r f s = (case r of Inl e \<Rightarrow> escape e s | Inr x \<Rightarrow> f x s)"

text \<open>The same step inside \<^verbatim>\<open>try { ... } catch (const std::exception &)\<close> around the database calls.\<close>

definition trying :: "'db postgres \<Rightarrow> string \<Rightarrow> string \<Rightarrow> 'a result \<Rightarrow> ('a \<Rightarrow> 'db handler) \<Rightarrow> 'db handler" where
  "trying p message operation_id r f =
     (case r of Inl e \<Rightarrow> fail503 message (pg_what p e) ''PostgresError'' operation_id | Inr x \<Rightarrow> f x)"

definition require_strings :: "string \<Rightarrow> string \<Rightarrow> json \<Rightarrow> string list \<Rightarrow> json option" where
  "require_strings message operation_id body keys =
     map_option (\<lambda>e. FailureEnvelope message e ''ValidationError'' operation_id 2)
       (first_error (\<lambda>field. error_if (\<not> has_string body field) (field @ '' is required'')) keys)"

section \<open>Submitting and reading jobs\<close>

definition HandleSubmitJob :: "'db postgres option \<Rightarrow> PlatformConfig \<Rightarrow> HttpRequest \<Rightarrow> 'db handler" where
  "HandleSubmitJob pg config request s =
     (case ValidateSubmitJobRequest (rq_body request) of
        Some error \<Rightarrow>
          respond 400 (FailureEnvelope ''job submission rejected'' error ''ValidationError'' ''submitJob'' 2) s
      | None \<Rightarrow>
          (case (case pg of
                   Some p \<Rightarrow> pg_call (pg_NextJobId p) s
                 | None \<Rightarrow> (case NextJobId (rt_memory s) of (i, m) \<Rightarrow> (Inr i, s\<lparr>rt_memory := m\<rparr>))) of
             (Inl what, s1) \<Rightarrow> fail503 ''job submission failed'' what ''PostgresError'' ''submitJob'' s1
           | (Inr job_id, s1) \<Rightarrow>
               using_result (BuildQueuedJobRecord (rq_body request) config job_id) (\<lambda>job s1.
                 case pg of
                   Some p \<Rightarrow>
                     (case pg_call (pg_SubmitJob p job) s1 of
                        (Inl what, s2) \<Rightarrow> fail503 ''job submission failed'' what ''PostgresError'' ''submitJob'' s2
                      | (Inr _, s2) \<Rightarrow> respond 200 (SuccessEnvelope ''queued platform job'' (SerializeJobRecord job)) s2)
                 | None \<Rightarrow> respond 200 (SuccessEnvelope ''queued platform job'' (SerializeJobRecord job))
                            (s1\<lparr>rt_memory := SubmitJob job (rt_memory s1)\<rparr>)) s1))"

definition get_job_response :: "PlatformJobRecord option \<Rightarrow> 'db handler" where
  "get_job_response found =
     (case found of
        None \<Rightarrow> respond 404 (FailureEnvelope ''job lookup failed'' ''job not found'' ''NotFound'' ''getJob'' 17)
      | Some job \<Rightarrow> respond 200 (SuccessEnvelope ''loaded platform job'' (SerializeJobRecord job)))"

definition HandleGetJob :: "'db postgres option \<Rightarrow> RouteMatch \<Rightarrow> 'db handler" where
  "HandleGetJob pg rm s =
     (case pg of
        Some p \<Rightarrow>
          trying p ''job lookup failed'' ''getJob'' (param_at rm ''job_id'') (\<lambda>job_id s.
            case pg_call (pg_GetJob p job_id) s of
              (Inl what, s1) \<Rightarrow> fail503 ''job lookup failed'' what ''PostgresError'' ''getJob'' s1
            | (Inr found, s1) \<Rightarrow> get_job_response found s1) s
      | None \<Rightarrow>
          using_result (param_at rm ''job_id'') (\<lambda>job_id s.
            get_job_response (GetJob job_id (rt_memory s)) s) s)"

definition events_payload :: "string \<Rightarrow> JobEventRecord list \<Rightarrow> json" where
  "events_payload job_id es = SuccessEnvelope ''loaded platform job events''
     (json_obj [(''job_id'', JString job_id), (''events'', JArray (map SerializeJobEvent es))])"

definition HandleGetJobEvents :: "'db postgres option \<Rightarrow> RouteMatch \<Rightarrow> 'db handler" where
  "HandleGetJobEvents pg rm =
     using_result (param_at rm ''job_id'') (\<lambda>job_id s.
       let missing = respond 404
             (FailureEnvelope ''job event lookup failed'' ''job not found'' ''NotFound'' ''getJobEvents'' 17)
       in case pg of
            Some p \<Rightarrow>
              (case pg_call (pg_GetJob p job_id) s of
                 (Inl what, s1) \<Rightarrow> fail503 ''job event lookup failed'' what ''PostgresError'' ''getJobEvents'' s1
               | (Inr None, s1) \<Rightarrow> missing s1
               | (Inr (Some _), s1) \<Rightarrow>
                   (case pg_call (pg_GetJobEvents p job_id) s1 of
                      (Inl what, s2) \<Rightarrow> fail503 ''job event lookup failed'' what ''PostgresError'' ''getJobEvents'' s2
                    | (Inr es, s2) \<Rightarrow> respond 200 (events_payload job_id es) s2))
          | None \<Rightarrow>
              (case GetJob job_id (rt_memory s) of
                 None \<Rightarrow> missing s
               | Some _ \<Rightarrow> respond 200 (events_payload job_id (GetJobEvents job_id (rt_memory s))) s))"

definition HandleCancelJob :: "'db postgres option \<Rightarrow> RouteMatch \<Rightarrow> HttpRequest \<Rightarrow> 'db handler" where
  "HandleCancelJob pg rm request s =
     (let reason = string_field (rq_body request) ''reason'' in
      if \<not> has_string (rq_body request) ''reason''
      then respond 400 (FailureEnvelope ''job cancellation failed'' ''reason is required'' ''ValidationError'' ''cancelJob'' 2) s
      else (case pg of
        Some p \<Rightarrow>
          trying p ''job cancellation failed'' ''cancelJob'' (param_at rm ''job_id'') (\<lambda>job_id s.
            case pg_call (pg_CancelJob p job_id reason) s of
              (Inl what, s1) \<Rightarrow> fail503 ''job cancellation failed'' what ''PostgresError'' ''cancelJob'' s1
            | (Inr None, s1) \<Rightarrow>
                respond 404 (FailureEnvelope ''job cancellation failed''
                  ''job not found or already completed'' ''NotFound'' ''cancelJob'' 17) s1
            | (Inr (Some job), s1) \<Rightarrow>
                respond 200 (SuccessEnvelope ''cancelled platform job'' (SerializeJobRecord job)) s1) s
      | None \<Rightarrow>
          using_result (param_at rm ''job_id'') (\<lambda>job_id s.
            case CancelJob job_id reason (rt_memory s) of
              (None, m) \<Rightarrow>
                respond 404 (FailureEnvelope ''job cancellation failed'' ''job not found'' ''NotFound'' ''cancelJob'' 17)
                  (s\<lparr>rt_memory := m\<rparr>)
            | (Some job, m) \<Rightarrow>
                respond 200 (SuccessEnvelope ''cancelled platform job'' (SerializeJobRecord job))
                  (s\<lparr>rt_memory := m\<rparr>)) s))"

section \<open>Workers and containers\<close>

definition HandleRegisterWorker :: "'db postgres option \<Rightarrow> HttpRequest \<Rightarrow> 'db handler" where
  "HandleRegisterWorker pg request s =
     (let body = rq_body request in
      case require_strings ''worker registration rejected'' ''registerWorker'' body
             [''worker_id'', ''region'', ''worker_pool_key''] of
        Some failure \<Rightarrow> respond 400 failure s
      | None \<Rightarrow>
          using_result (json_value get_int body ''capacity'' 0) (\<lambda>capacity s.
            if capacity < 1
            then respond 400 (FailureEnvelope ''worker registration rejected'' ''capacity must be positive''
                                ''ValidationError'' ''registerWorker'' 2) s
            else
              let worker = json_obj
                    [(''worker_id'', JString (string_field body ''worker_id'')),
                     (''region'', JString (string_field body ''region'')),
                     (''worker_pool_key'', JString (string_field body ''worker_pool_key'')),
                     (''capacity'', JInt capacity), (''status'', JString ''registered'')]
              in case pg of
                   Some p \<Rightarrow>
                     (case pg_call (pg_RegisterWorker p worker) s of
                        (Inl what, s1) \<Rightarrow> fail503 ''worker registration failed'' what ''PostgresError'' ''registerWorker'' s1
                      | (Inr w, s1) \<Rightarrow> respond 200 (SuccessEnvelope ''registered platform worker'' w) s1)
                 | None \<Rightarrow>
                     using_result (RegisterWorker worker (rt_memory s)) (\<lambda>(w, m) s.
                       respond 200 (SuccessEnvelope ''registered platform worker'' w) (s\<lparr>rt_memory := m\<rparr>)) s) s)"

definition binding_failure :: "string \<Rightarrow> json" where
  "binding_failure detail =
     FailureEnvelope ''compile container registration rejected'' detail ''BindingError'' ''registerCompileContainer'' 2"

definition register_container_pg_failure :: "string \<Rightarrow> 'db handler" where
  "register_container_pg_failure detail =
     (if contains_sub detail ''worker is not registered''
      then respond 403 (FailureEnvelope ''compile container registration rejected'' ''worker is not registered''
                          ''WorkerError'' ''registerCompileContainer'' 17)
      else if contains_sub detail ''user binding mismatch''
      then respond 409 (binding_failure ''compile container user binding mismatch'')
      else if contains_sub detail ''worker owner mismatch''
      then respond 409 (binding_failure ''compile container worker owner mismatch'')
      else fail503 ''compile container registration failed'' detail ''PostgresError'' ''registerCompileContainer'')"

definition register_container_memory_failure :: "string \<Rightarrow> 'db handler" where
  "register_container_memory_failure detail =
     (if contains_sub detail ''worker is not registered'' \<or> contains_sub detail ''worker region or pool''
      then respond 403 (FailureEnvelope ''compile container registration rejected'' detail
                          ''WorkerError'' ''registerCompileContainer'' 17)
      else if contains_sub detail ''user binding mismatch''
      then respond 409 (binding_failure ''compile container user binding mismatch'')
      else if contains_sub detail ''worker owner mismatch''
      then respond 409 (binding_failure ''compile container worker owner mismatch'')
      else fail503 ''compile container registration failed'' detail ''MemoryStateError'' ''registerCompileContainer'')"

definition HandleRegisterCompileContainer :: "'db postgres option \<Rightarrow> HttpRequest \<Rightarrow> 'db handler" where
  "HandleRegisterCompileContainer pg request =
     using_result (ValidateCompileContainerRegistration (rq_body request)) (\<lambda>verdict.
       case verdict of
         Some error \<Rightarrow>
           respond 400 (FailureEnvelope ''compile container registration rejected'' error
                          ''ValidationError'' ''registerCompileContainer'' 2)
       | None \<Rightarrow>
           using_result (CreateFromRegistration (rq_body request)) (\<lambda>container s.
             case pg of
               Some p \<Rightarrow>
                 (case pg_call (pg_RegisterCompileContainer p container) s of
                    (Inl detail, s1) \<Rightarrow> register_container_pg_failure detail s1
                  | (Inr c, s1) \<Rightarrow>
                      respond 200 (SuccessEnvelope ''registered compile container'' (SerializeCompileContainerRecord c)) s1)
             | None \<Rightarrow>
                 (case RegisterCompileContainer container (rt_memory s) of
                    Inl (MemoryStateStoreError detail) \<Rightarrow> register_container_memory_failure detail s
                  | Inl e \<Rightarrow> escape e s
                  | Inr (c, m) \<Rightarrow>
                      respond 200 (SuccessEnvelope ''registered compile container'' (SerializeCompileContainerRecord c))
                        (s\<lparr>rt_memory := m\<rparr>))))"

definition HandleGetCompileContainer :: "'db postgres option \<Rightarrow> RouteMatch \<Rightarrow> 'db handler" where
  "HandleGetCompileContainer pg rm =
     using_result (param_at rm ''container_id'') (\<lambda>container_id s.
       let found = (\<lambda>c. case c of
             None \<Rightarrow> respond 404 (FailureEnvelope ''compile container lookup failed'' ''compile container not found''
                                    ''NotFound'' ''getCompileContainer'' 17)
           | Some container \<Rightarrow>
               respond 200 (SuccessEnvelope ''loaded compile container'' (SerializeCompileContainerRecord container)))
       in case pg of
            Some p \<Rightarrow>
              (case pg_call (pg_GetCompileContainer p container_id) s of
                 (Inl what, s1) \<Rightarrow> fail503 ''compile container lookup failed'' what ''PostgresError'' ''getCompileContainer'' s1
               | (Inr c, s1) \<Rightarrow> found c s1)
          | None \<Rightarrow> found (GetCompileContainer container_id (rt_memory s)) s)"

definition switch_failure :: "string \<Rightarrow> string \<Rightarrow> string \<Rightarrow> int \<Rightarrow> json" where
  "switch_failure message detail category returncode =
     FailureEnvelope message detail category ''switchCompileContainerWorkspace'' returncode"

text \<open>
  The checks of a switch request against the container as it is now, the same in both
  backends: it exists, the worker owns it, and a tenant or user named in the request is
  the bound one.
\<close>

definition switch_precheck ::
  "json \<Rightarrow> string \<Rightarrow> CompileContainerRecord option \<Rightarrow> (int \<times> json) option" where
  "switch_precheck body worker_id current =
     (case current of
        None \<Rightarrow> Some (404, switch_failure ''compile container workspace switch failed''
                            ''compile container not found'' ''NotFound'' 17)
      | Some c \<Rightarrow>
          if cc_worker_id c \<noteq> worker_id
          then Some (403, switch_failure ''compile container workspace switch rejected''
                            ''worker does not own compile container'' ''WorkerError'' 17)
          else if json_contains body ''tenant_id'' \<and> string_field body ''tenant_id'' \<noteq> cc_tenant_id c
          then Some (403, switch_failure ''compile container workspace switch rejected''
                            ''tenant binding mismatch'' ''BindingError'' 2)
          else if json_contains body ''user_id'' \<and> string_field body ''user_id'' \<noteq> cc_user_id c
          then Some (403, switch_failure ''compile container workspace switch rejected''
                            ''user binding mismatch'' ''BindingError'' 2)
          else None)"

definition switch_outcome :: "CompileContainerRecord option \<Rightarrow> 'db handler" where
  "switch_outcome switched =
     (case switched of
        None \<Rightarrow> respond 403 (switch_failure ''compile container workspace switch rejected''
                               ''compile container is not active'' ''StateError'' 17)
      | Some c \<Rightarrow> respond 200 (SuccessEnvelope ''switched compile container workspace''
                                 (SerializeCompileContainerRecord c)))"

definition HandleSwitchCompileContainerWorkspace ::
  "'db postgres option \<Rightarrow> RouteMatch \<Rightarrow> HttpRequest \<Rightarrow> 'db handler" where
  "HandleSwitchCompileContainerWorkspace pg rm request s =
     (let body = rq_body request in
      case ValidateCompileContainerSwitch body of
        Some error \<Rightarrow>
          respond 400 (switch_failure ''compile container workspace switch rejected'' error ''ValidationError'' 2) s
      | None \<Rightarrow>
          using_result (param_at rm ''container_id'') (\<lambda>container_id.
          using_result (json_value get_string body ''reason'' ''manual switch'') (\<lambda>reason s.
            let worker_id = string_field body ''worker_id''; workspace_id = string_field body ''workspace_id'' in
            case pg of
              Some p \<Rightarrow>
                (case pg_call (pg_GetCompileContainer p container_id) s of
                   (Inl what, s1) \<Rightarrow>
                     fail503 ''compile container workspace switch failed'' what ''PostgresError''
                       ''switchCompileContainerWorkspace'' s1
                 | (Inr current, s1) \<Rightarrow>
                     (case switch_precheck body worker_id current of
                        Some (status, failure) \<Rightarrow> respond status failure s1
                      | None \<Rightarrow>
                          (case pg_call (pg_SwitchCompileContainerWorkspace p container_id worker_id workspace_id reason) s1 of
                             (Inl what, s2) \<Rightarrow>
                               fail503 ''compile container workspace switch failed'' what ''PostgresError''
                                 ''switchCompileContainerWorkspace'' s2
                           | (Inr switched, s2) \<Rightarrow> switch_outcome switched s2)))
            | None \<Rightarrow>
                (case switch_precheck body worker_id (GetCompileContainer container_id (rt_memory s)) of
                   Some (status, failure) \<Rightarrow> respond status failure s
                 | None \<Rightarrow>
                     (case SwitchCompileContainerWorkspace container_id worker_id workspace_id reason (rt_memory s) of
                        Inl (MemoryStateStoreError detail) \<Rightarrow>
                          respond 403 (switch_failure ''compile container workspace switch rejected'' detail ''WorkerError'' 17) s
                      | Inl e \<Rightarrow> escape e s
                      | Inr (switched, m) \<Rightarrow> switch_outcome switched (s\<lparr>rt_memory := m\<rparr>))))) s)"

section \<open>The worker protocol\<close>

definition claim_failure :: "string \<Rightarrow> json" where
  "claim_failure detail = FailureEnvelope ''job claim failed'' detail ''WorkerError'' ''claimJob'' 17"

definition claim_none :: json where
  "claim_none = SuccessEnvelope ''no platform job available'' (json_obj [(''claimed'', JBool False)])"

definition claim_payload :: "PlatformJobRecord \<Rightarrow> CompileContainerRecord option \<Rightarrow> json" where
  "claim_payload job container =
     SuccessEnvelope ''claimed platform job''
       (case container of
          None \<Rightarrow> json_obj [(''claimed'', JBool True), (''job'', SerializeJobRecord job)]
        | Some c \<Rightarrow> json_set ''compile_container'' (SerializeCompileContainerRecord c)
                     (json_obj [(''claimed'', JBool True), (''job'', SerializeJobRecord job)]))"

definition claim_pg_failure :: "string \<Rightarrow> 'db handler" where
  "claim_pg_failure detail =
     (if contains_sub detail ''worker is not registered''
      then respond 403 (claim_failure ''worker is not registered'')
      else if contains_sub detail ''compile container is not registered''
      then respond 403 (claim_failure ''compile container is not registered'')
      else fail503 ''job claim failed'' detail ''PostgresError'' ''claimJob'')"

definition claim_memory_failure :: "string \<Rightarrow> 'db handler" where
  "claim_memory_failure detail =
     (if contains_sub detail ''worker is not registered''
      then respond 403 (claim_failure ''worker is not registered'')
      else if contains_sub detail ''compile container is not registered''
      then respond 403 (claim_failure ''compile container is not registered'')
      else if contains_sub detail ''compile container is not available''
      then respond 403 (claim_failure ''compile container is not available for this worker'')
      else fail503 ''job claim failed'' detail ''MemoryStateError'' ''claimJob'')"

definition claim_via_postgres ::
  "'db postgres \<Rightarrow> string \<Rightarrow> string \<Rightarrow> string \<Rightarrow> string option \<Rightarrow> 'db handler" where
  "claim_via_postgres p worker_id region worker_pool_key container s =
     (case pg_call (case container of
                      Some c \<Rightarrow> pg_ClaimJobForCompileContainer p worker_id region worker_pool_key c
                    | None \<Rightarrow> pg_ClaimJob p worker_id region worker_pool_key) s of
        (Inl detail, s1) \<Rightarrow> claim_pg_failure detail s1
      | (Inr None, s1) \<Rightarrow> respond 200 claim_none s1
      | (Inr (Some job), s1) \<Rightarrow>
          (case container of
             None \<Rightarrow> respond 200 (claim_payload job None) s1
           | Some c \<Rightarrow>
               (case pg_call (pg_GetCompileContainer p c) s1 of
                  (Inl detail, s2) \<Rightarrow> claim_pg_failure detail s2
                | (Inr found, s2) \<Rightarrow> respond 200 (claim_payload job found) s2)))"

definition claim_via_memory :: "string \<Rightarrow> string \<Rightarrow> string \<Rightarrow> string option \<Rightarrow> 'db handler" where
  "claim_via_memory worker_id region worker_pool_key container s =
     (case (case container of
              Some c \<Rightarrow> ClaimJobForCompileContainer worker_id region worker_pool_key c (rt_memory s)
            | None \<Rightarrow> ClaimJob worker_id region worker_pool_key (rt_memory s)) of
        Inl (MemoryStateStoreError detail) \<Rightarrow> claim_memory_failure detail s
      | Inl e \<Rightarrow> escape e s
      | Inr (None, m) \<Rightarrow> respond 200 claim_none (s\<lparr>rt_memory := m\<rparr>)
      | Inr (Some job, m) \<Rightarrow>
          respond 200
            (claim_payload job (case container of None \<Rightarrow> None | Some c \<Rightarrow> GetCompileContainer c m))
            (s\<lparr>rt_memory := m\<rparr>))"

definition HandleClaimJob :: "'db postgres option \<Rightarrow> HttpRequest \<Rightarrow> 'db handler" where
  "HandleClaimJob pg request s =
     (let body = rq_body request in
      case require_strings ''job claim failed'' ''claimJob'' body [''worker_id'', ''region'', ''worker_pool_key''] of
        Some failure \<Rightarrow> respond 400 failure s
      | None \<Rightarrow>
          if json_contains body ''compile_container_id'' \<and> \<not> HasNonEmptyString body ''compile_container_id''
          then respond 400 (FailureEnvelope ''job claim failed''
                 ''compile_container_id must be a non-empty string when present'' ''ValidationError'' ''claimJob'' 2) s
          else
            let container = (if json_contains body ''compile_container_id''
                             then Some (string_field body ''compile_container_id'') else None);
                worker_id = string_field body ''worker_id'';
                region = string_field body ''region'';
                worker_pool_key = string_field body ''worker_pool_key''
            in case pg of
                 Some p \<Rightarrow> claim_via_postgres p worker_id region worker_pool_key container s
               | None \<Rightarrow> claim_via_memory worker_id region worker_pool_key container s)"

definition owner_failure :: "string \<Rightarrow> string \<Rightarrow> json" where
  "owner_failure message operation_id =
     FailureEnvelope message ''worker does not own job'' ''WorkerError'' operation_id 17"

definition HandleHeartbeatJob :: "'db postgres option \<Rightarrow> RouteMatch \<Rightarrow> HttpRequest \<Rightarrow> 'db handler" where
  "HandleHeartbeatJob pg rm request s =
     (let body = rq_body request in
      case pg of
        Some p \<Rightarrow>
          if \<not> has_string body ''worker_id''
          then respond 400 (FailureEnvelope ''job heartbeat failed'' ''worker_id is required''
                              ''ValidationError'' ''heartbeatJob'' 2) s
          else trying p ''job heartbeat failed'' ''heartbeatJob'' (param_at rm ''job_id'') (\<lambda>job_id.
               trying p ''job heartbeat failed'' ''heartbeatJob''
                 (json_value get_string body ''message'' ''worker heartbeat'') (\<lambda>message s.
                 case pg_call (pg_HeartbeatJob p job_id (string_field body ''worker_id'') message) s of
                   (Inl what, s1) \<Rightarrow> fail503 ''job heartbeat failed'' what ''PostgresError'' ''heartbeatJob'' s1
                 | (Inr None, s1) \<Rightarrow> respond 403 (owner_failure ''job heartbeat failed'' ''heartbeatJob'') s1
                 | (Inr (Some job), s1) \<Rightarrow>
                     respond 200 (SuccessEnvelope ''recorded platform job heartbeat'' (SerializeJobRecord job)) s1)) s
      | None \<Rightarrow>
          using_result (param_at rm ''job_id'') (\<lambda>job_id s.
            case GetJob job_id (rt_memory s) of
              None \<Rightarrow> respond 404 (FailureEnvelope ''job heartbeat failed'' ''job not found'' ''NotFound'' ''heartbeatJob'' 17) s
            | Some existing \<Rightarrow>
                if json_lookup body ''worker_id'' \<noteq> Some (JString (j_worker_id existing))
                then respond 403 (owner_failure ''job heartbeat failed'' ''heartbeatJob'') s
                else using_result (json_value get_string body ''message'' ''worker heartbeat'') (\<lambda>message s.
                       case HeartbeatJob job_id (string_field body ''worker_id'') message (rt_memory s) of
                         (job, m) \<Rightarrow>
                           using_result (unwrap job) (\<lambda>job. respond 200
                             (SuccessEnvelope ''recorded platform job heartbeat'' (SerializeJobRecord job)))
                             (s\<lparr>rt_memory := m\<rparr>)) s) s)"

definition is_final_status :: "string \<Rightarrow> bool" where
  "is_final_status status = (status = ''succeeded'' \<or> status = ''failed'' \<or> status = ''cancelled'')"

definition read_artifact :: "json \<Rightarrow> ArtifactRecord result" where
  "read_artifact artifact =
     rbind (json_value get_string artifact ''artifact_id'' ''artifact'') (\<lambda>artifact_id.
     rbind (json_value get_string artifact ''object_key'' []) (\<lambda>object_key.
     rbind (json_value get_string artifact ''kind'' ''artifact'') (\<lambda>kind.
       Inr \<lparr>ar_artifact_id = artifact_id, ar_object_key = object_key, ar_kind = kind\<rparr>)))"

definition read_artifacts :: "json \<Rightarrow> ArtifactRecord list result" where
  "read_artifacts body =
     (case json_lookup body ''artifacts'' of
        Some (JArray xs) \<Rightarrow> rmap read_artifact xs
      | _ \<Rightarrow> Inr [])"

text \<open>
  The part of the completion both backends share once the worker is known: the status and the
  artifacts. The message and the result document are read where the store is called.
\<close>

definition complete_with :: "json \<Rightarrow> (string \<Rightarrow> ArtifactRecord list \<Rightarrow> 'db handler) \<Rightarrow> 'db handler" where
  "complete_with body k =
     using_result (json_value get_string body ''status'' []) (\<lambda>status.
       if \<not> is_final_status status
       then respond 400 (FailureEnvelope ''job completion failed'' ''status must be succeeded, failed, or cancelled''
                           ''ValidationError'' ''completeJob'' 2)
       else using_result (read_artifacts body) (\<lambda>artifacts. k status artifacts))"

definition completion_texts :: "json \<Rightarrow> (string \<times> json) result" where
  "completion_texts body =
     rbind (json_value get_string body ''message'' ''job completed'') (\<lambda>message.
     rbind (json_value Inr body ''result'' (JObject [])) (\<lambda>result. Inr (message, result)))"

definition complete_via_postgres :: "'db postgres \<Rightarrow> RouteMatch \<Rightarrow> json \<Rightarrow> 'db handler" where
  "complete_via_postgres p rm body s =
     (if \<not> has_string body ''worker_id''
      then respond 400 (FailureEnvelope ''job completion failed'' ''worker_id is required''
                          ''ValidationError'' ''completeJob'' 2) s
      else complete_with body (\<lambda>status artifacts.
             trying p ''job completion failed'' ''completeJob'' (param_at rm ''job_id'') (\<lambda>job_id.
             trying p ''job completion failed'' ''completeJob'' (completion_texts body) (\<lambda>(message, result) s.
               case pg_call (pg_CompleteJob p job_id (string_field body ''worker_id'') status message artifacts result) s of
                 (Inl what, s1) \<Rightarrow> fail503 ''job completion failed'' what ''PostgresError'' ''completeJob'' s1
               | (Inr None, s1) \<Rightarrow> respond 403 (owner_failure ''job completion failed'' ''completeJob'') s1
               | (Inr (Some job), s1) \<Rightarrow>
                   respond 200 (SuccessEnvelope ''completed platform job'' (SerializeJobRecord job)) s1))) s)"

definition complete_via_memory :: "RouteMatch \<Rightarrow> json \<Rightarrow> 'db handler" where
  "complete_via_memory rm body =
     using_result (param_at rm ''job_id'') (\<lambda>job_id s.
       case GetJob job_id (rt_memory s) of
         None \<Rightarrow> respond 404 (FailureEnvelope ''job completion failed'' ''job not found'' ''NotFound'' ''completeJob'' 17) s
       | Some existing \<Rightarrow>
           if json_lookup body ''worker_id'' \<noteq> Some (JString (j_worker_id existing))
           then respond 403 (owner_failure ''job completion failed'' ''completeJob'') s
           else complete_with body (\<lambda>status artifacts.
                  using_result (completion_texts body) (\<lambda>(message, result) s.
                    case CompleteJob job_id (string_field body ''worker_id'') status message artifacts result (rt_memory s) of
                      (job, m) \<Rightarrow>
                        using_result (unwrap job) (\<lambda>job. respond 200
                          (SuccessEnvelope ''completed platform job'' (SerializeJobRecord job)))
                          (s\<lparr>rt_memory := m\<rparr>))) s)"

definition HandleCompleteJob :: "'db postgres option \<Rightarrow> RouteMatch \<Rightarrow> HttpRequest \<Rightarrow> 'db handler" where
  "HandleCompleteJob pg rm request =
     (case pg of
        Some p \<Rightarrow> complete_via_postgres p rm (rq_body request)
      | None \<Rightarrow> complete_via_memory rm (rq_body request))"

section \<open>Dispatch\<close>

text \<open>
  \<^verbatim>\<open>PlatformRouter::DispatchWorkspaceOperation\<close>: the handler of a workspace operation, \<open>None\<close> for
  any other operation; and the state the router's constructor sets up.
\<close>

definition DispatchWorkspaceOperation ::
  "'db postgres option \<Rightarrow> PlatformConfig \<Rightarrow> RouteMatch \<Rightarrow> HttpRequest \<Rightarrow> 'db router
     \<Rightarrow> (HttpResponse result \<times> 'db router) option" where
  "DispatchWorkspaceOperation pg config rm request s =
     (let operation = rs_operation_id (rm_route rm) in
      if operation = ''submitJob'' then Some (HandleSubmitJob pg config request s)
      else if operation = ''getJob'' then Some (HandleGetJob pg rm s)
      else if operation = ''getJobEvents'' then Some (HandleGetJobEvents pg rm s)
      else if operation = ''cancelJob'' then Some (HandleCancelJob pg rm request s)
      else if operation = ''registerWorker'' then Some (HandleRegisterWorker pg request s)
      else if operation = ''registerCompileContainer'' then Some (HandleRegisterCompileContainer pg request s)
      else if operation = ''getCompileContainer'' then Some (HandleGetCompileContainer pg rm s)
      else if operation = ''switchCompileContainerWorkspace''
      then Some (HandleSwitchCompileContainerWorkspace pg rm request s)
      else if operation = ''claimJob'' then Some (HandleClaimJob pg request s)
      else if operation = ''heartbeatJob'' then Some (HandleHeartbeatJob pg rm request s)
      else if operation = ''completeJob'' then Some (HandleCompleteJob pg rm request s)
      else None)"

definition initial_router :: "PlatformConfig \<Rightarrow> 'db \<Rightarrow> 'db router" where
  "initial_router config db =
     \<lparr>rt_memory = RecordMirrorState (rg_mirror_id (cfg_registry config)) (cfg_region config)
                    (rg_mirror_origin (cfg_registry config)) ''lagging'' ''checkpoint-0000'' [] [] [] 0
                    empty_store,
      rt_db = db, rt_rate_limiter = [], rt_metrics = empty_metrics\<rparr>"

end
