(* ===== verification/Registry_Tokens.thy ===== *)
theory Registry_Tokens
  imports Registry_Ids Workspace_Plane
begin

text \<open>
  Who may write to the registry: \<^verbatim>\<open>RegistryWriteAuthorized\<close> and \<^verbatim>\<open>RecordRegistryAudit\<close>
  (\<^verbatim>\<open>RegistryControlPlane.cpp\<close>) and the owner and token handlers (\<^verbatim>\<open>RegistryOwnerTokenHandlers.cpp\<close>).
  Database calls here are not inside a \<^verbatim>\<open>try\<close>, so their exceptions leave the handler. A
  request's environment is a record: the time stamp of the request, the random hexadecimal
  text of \<^verbatim>\<open>SecureRandomHex(24)\<close>, OpenSSL's \<^verbatim>\<open>SHA256\<close> and the index records on disk.
\<close>

record reg_env =
  re_now :: string
  re_random :: string
  re_sha256 :: "string \<Rightarrow> 8 word list"
  re_index :: "string \<Rightarrow> json list result"

section \<open>Actions\<close>

type_synonym ('db, 'a) act = "'db router \<Rightarrow> 'a result \<times> 'db router"

definition act_bind :: "('db, 'a) act \<Rightarrow> ('a \<Rightarrow> ('db, 'b) act) \<Rightarrow> ('db, 'b) act" where
  "act_bind m f s = (case m s of (Inl e, t) \<Rightarrow> (Inl e, t) | (Inr x, t) \<Rightarrow> f x t)"

definition act_return :: "'a \<Rightarrow> ('db, 'a) act" where
  "act_return x s = (Inr x, s)"

definition from_pg :: "('db \<Rightarrow> 'a pg_result \<times> 'db) \<Rightarrow> ('db, 'a) act" where
  "from_pg f s = (case pg_call f s of (Inl what, t) \<Rightarrow> (Inl (RuntimeError what), t) | (Inr x, t) \<Rightarrow> (Inr x, t))"

definition from_memory :: "(store \<Rightarrow> 'a \<times> store) \<Rightarrow> ('db, 'a) act" where
  "from_memory f s = (case f (rt_memory s) of (x, m) \<Rightarrow> (Inr x, s\<lparr>rt_memory := m\<rparr>))"

definition reading :: "(store \<Rightarrow> 'a) \<Rightarrow> ('db, 'a) act" where
  "reading f s = (Inr (f (rt_memory s)), s)"

definition either_store ::
  "'db postgres option \<Rightarrow> ('db postgres \<Rightarrow> ('db, 'a) act) \<Rightarrow> ('db, 'a) act \<Rightarrow> ('db, 'a) act" where
  "either_store pg f g = (case pg of Some p \<Rightarrow> f p | None \<Rightarrow> g)"

lemmas act_defs = act_bind_def act_return_def from_memory_def reading_def either_store_def using_result_def
  escape_def respond_def

section \<open>Authorization\<close>

definition owner_grants :: "'db postgres option \<Rightarrow> MtlsIdentity \<Rightarrow> string \<Rightarrow> ('db, bool) act" where
  "owner_grants pg identity package_id =
     act_bind (either_store pg (\<lambda>p. from_pg (pg_HasRegistryPackageOwner p package_id (id_node_id identity)))
                 (act_return False)) (\<lambda>in_pg.
       if in_pg then act_return True
       else reading (HasRegistryPackageOwner package_id (id_node_id identity)))"

definition identity_grants :: "'db postgres option \<Rightarrow> HttpRequest \<Rightarrow> string \<Rightarrow> string \<Rightarrow> ('db, bool) act" where
  "identity_grants pg request scope package_id =
     (case rq_identity request of
        None \<Rightarrow> act_return False
      | Some identity \<Rightarrow>
          if id_role identity = ''operator'' then act_return True
          else if scope = ''package:publish'' \<and> id_role identity = ''registry-writer'' then act_return True
          else if (scope = ''package:publish'' \<or> scope = ''package:yank'' \<or> scope = ''package:owner'') \<and> package_id \<noteq> []
          then owner_grants pg identity package_id
          else act_return False)"

definition token_live :: "string \<Rightarrow> RegistryPublishTokenRecord \<Rightarrow> bool" where
  "token_live now token =
     (\<not> (tk_revoked_at token \<noteq> [] \<or> (tk_expires_at token \<noteq> [] \<and> tk_expires_at token < now)))"

definition token_grants :: "'db postgres option \<Rightarrow> reg_env \<Rightarrow> HttpRequest \<Rightarrow> string \<Rightarrow> string \<Rightarrow> ('db, bool) act" where
  "token_grants pg env request scope package_id =
     (case RegistryTokenFromHeaders (rq_headers request) of
        None \<Rightarrow> act_return False
      | Some clear_token \<Rightarrow>
          let hash = Sha256Bytes (re_sha256 env) clear_token in
          act_bind (either_store pg (\<lambda>p. from_pg (pg_FindRegistryPublishTokenByHash p hash))
                      (reading (FindRegistryPublishTokenByHash hash))) (\<lambda>token.
            act_return (case token of
                          None \<Rightarrow> False
                        | Some t \<Rightarrow> token_live (re_now env) t \<and> TokenHasScope t scope \<and> TokenMatchesPackage t package_id)))"

definition RegistryWriteAuthorized ::
  "'db postgres option \<Rightarrow> reg_env \<Rightarrow> HttpRequest \<Rightarrow> string \<Rightarrow> string \<Rightarrow> ('db, bool) act" where
  "RegistryWriteAuthorized pg env request scope package_id =
     act_bind (identity_grants pg request scope package_id) (\<lambda>granted.
       if granted then act_return True else token_grants pg env request scope package_id)"

definition RecordRegistryAudit ::
  "'db postgres option \<Rightarrow> reg_env \<Rightarrow> HttpRequest \<Rightarrow> string \<Rightarrow> json \<Rightarrow> string \<Rightarrow> ('db, unit) act" where
  "RecordRegistryAudit pg env request operation target outcome =
     act_bind (either_store pg (\<lambda>p. from_pg (pg_NextRegistryAuditEventId p)) (from_memory NextRegistryAuditEventId)) (\<lambda>event_id.
       let record = \<lparr>au_event_id = event_id, au_actor_id = RegistryActorId (re_sha256 env) request,
                     au_operation = operation, au_target = target,
                     au_request_id = smap_get [] (rq_headers request) ''x-request-id'',
                     au_result = outcome, au_created_at = re_now env\<rparr> in
       act_bind (either_store pg (\<lambda>p. from_pg (pg_RecordRegistryAuditEvent p record)) (act_return ())) (\<lambda>_.
         from_memory (\<lambda>m. ((), RecordRegistryAuditEvent record m))))"

section \<open>Owners\<close>

definition audited_failure ::
  "'db postgres option \<Rightarrow> reg_env \<Rightarrow> HttpRequest \<Rightarrow> string \<Rightarrow> json \<Rightarrow> string \<Rightarrow> HttpResponse \<Rightarrow> 'db handler" where
  "audited_failure pg env request operation target outcome response =
     act_bind (RecordRegistryAudit pg env request operation target outcome) (\<lambda>_. act_return response)"

definition HandleListPackageOwners :: "'db postgres option \<Rightarrow> reg_env \<Rightarrow> RouteMatch \<Rightarrow> 'db handler" where
  "HandleListPackageOwners pg env rm =
     using_result (RegistryPackageFromRoute rm) (\<lambda>package.
       case ValidatePackageName package of
         Some error \<Rightarrow> act_return (FailureResponse 400 ''package owner lookup rejected'' error ''ValidationError'' ''listPackageOwners'' 2)
       | None \<Rightarrow>
           using_result (re_index env package) (\<lambda>releases. case releases of
              [] \<Rightarrow> act_return (FailureResponse 404 ''package owner lookup failed'' ''package is not found'' ''NotFound'' ''listPackageOwners'' 17)
            | release # _ \<Rightarrow>
                act_bind (either_store pg (\<lambda>p. from_pg (pg_ListRegistryPackageOwners p (RegistryPackageId package)))
                            (reading (ListRegistryPackageOwners (RegistryPackageId package)))) (\<lambda>owners.
                using_result
                  (if json_empty owners
                   then rbind (json_value get_string release ''publisher_id'' []) (\<lambda>publisher.
                        rbind (json_value get_string release ''published_at'' []) (\<lambda>published.
                          Inr (JArray [json_obj
                            [(''package_id'', JString package), (''owner_id'', JString publisher),
                             (''owner_kind'', JString ''user''), (''role'', JString ''owner''),
                             (''added_by'', JString ''registry-index''), (''added_at'', JString published)]])))
                   else Inr owners) (\<lambda>owners.
                  respond 200 (SuccessEnvelope ''loaded package owners''
                    (json_obj [(''package_id'', JString package), (''owners'', owners)]))))))"

definition owner_target :: "string \<Rightarrow> string \<Rightarrow> json" where
  "owner_target package owner_id = json_obj [(''package_id'', JString package), (''owner_id'', JString owner_id)]"

definition HandleAddPackageOwner :: "'db postgres option \<Rightarrow> reg_env \<Rightarrow> RouteMatch \<Rightarrow> HttpRequest \<Rightarrow> 'db handler" where
  "HandleAddPackageOwner pg env rm request =
     using_result (RegistryPackageFromRoute rm) (\<lambda>package.
     let body = rq_body request; owner_id = string_field body ''owner_id'' in
     case ValidatePackageName package of
       Some error \<Rightarrow> act_return (FailureResponse 400 ''package owner mutation rejected'' error ''ValidationError'' ''addPackageOwner'' 2)
     | None \<Rightarrow>
         if \<not> HasNonEmptyString body ''owner_id''
         then act_return (FailureResponse 400 ''package owner mutation rejected'' ''owner_id is required'' ''ValidationError'' ''addPackageOwner'' 2)
         else act_bind (RegistryWriteAuthorized pg env request ''package:owner'' (RegistryPackageId package)) (\<lambda>authorized.
           if \<not> authorized
           then audited_failure pg env request ''addPackageOwner'' (owner_target package owner_id) ''denied''
                  (FailureResponse 403 ''package owner mutation denied'' ''token or identity lacks package:owner'' ''AuthError'' ''addPackageOwner'' 2)
           else using_result (re_index env package) (\<lambda>releases.
           if releases = []
           then audited_failure pg env request ''addPackageOwner'' (owner_target package owner_id) ''not_found''
                  (FailureResponse 404 ''package owner mutation failed'' ''package is not found'' ''NotFound'' ''addPackageOwner'' 17)
           else
             using_result (json_value get_string body ''owner_kind'' ''user'') (\<lambda>owner_kind.
             using_result (json_value get_string body ''role'' ''owner'') (\<lambda>role.
               let owner = \<lparr>ow_package_id = package, ow_owner_id = owner_id, ow_owner_kind = owner_kind,
                            ow_role = role, ow_added_by = RegistryActorId (re_sha256 env) request, ow_added_at = re_now env\<rparr> in
               act_bind (either_store pg (\<lambda>p. from_pg (pg_AddRegistryPackageOwner p owner)) (act_return ())) (\<lambda>_.
               act_bind (from_memory (\<lambda>m. ((), AddRegistryPackageOwner owner m))) (\<lambda>_.
               act_bind (RecordRegistryAudit pg env request ''addPackageOwner'' (owner_target package owner_id) ''success'') (\<lambda>_.
                 respond 200 (SuccessEnvelope ''added package owner'' (SerializeRegistryPackageOwnerRecord owner))))))))))"

definition HandleRemovePackageOwner :: "'db postgres option \<Rightarrow> reg_env \<Rightarrow> RouteMatch \<Rightarrow> HttpRequest \<Rightarrow> 'db handler" where
  "HandleRemovePackageOwner pg env rm request =
     using_result (RegistryPackageFromRoute rm) (\<lambda>package.
     using_result (param_at rm ''owner_id'') (\<lambda>owner_id.
     case ValidatePackageName package of
       Some error \<Rightarrow> act_return (FailureResponse 400 ''package owner mutation rejected'' error ''ValidationError'' ''removePackageOwner'' 2)
     | None \<Rightarrow>
         act_bind (RegistryWriteAuthorized pg env request ''package:owner'' (RegistryPackageId package)) (\<lambda>authorized.
           if \<not> authorized
           then audited_failure pg env request ''removePackageOwner'' (owner_target package owner_id) ''denied''
                  (FailureResponse 403 ''package owner mutation denied'' ''token or identity lacks package:owner'' ''AuthError'' ''removePackageOwner'' 2)
           else
             act_bind (either_store pg (\<lambda>p. from_pg (pg_RemoveRegistryPackageOwner p (RegistryPackageId package) owner_id))
                         (from_memory (RemoveRegistryPackageOwner (RegistryPackageId package) owner_id))) (\<lambda>removed.
               if \<not> removed
               then audited_failure pg env request ''removePackageOwner'' (owner_target package owner_id) ''not_found''
                      (FailureResponse 404 ''package owner mutation failed'' ''package owner is not found'' ''NotFound'' ''removePackageOwner'' 17)
               else
                 act_bind (from_memory (RemoveRegistryPackageOwner (RegistryPackageId package) owner_id)) (\<lambda>_.
                 act_bind (RecordRegistryAudit pg env request ''removePackageOwner'' (owner_target package owner_id) ''success'') (\<lambda>_.
                   respond 200 (SuccessEnvelope ''removed package owner'' (owner_target package owner_id))))))))"

section \<open>Tokens\<close>

definition may_act_for :: "HttpRequest \<Rightarrow> string \<Rightarrow> string \<Rightarrow> bool" where
  "may_act_for request actor owner_id =
     (case rq_identity request of
        None \<Rightarrow> False
      | Some i \<Rightarrow> \<not> (id_role i \<noteq> ''operator'' \<and> owner_id \<noteq> actor))"

definition HandleCreatePublishToken :: "'db postgres option \<Rightarrow> reg_env \<Rightarrow> HttpRequest \<Rightarrow> 'db handler" where
  "HandleCreatePublishToken pg env request =
     (let body = rq_body request; actor = RegistryActorId (re_sha256 env) request;
          rejected = (\<lambda>error. act_return (FailureResponse 400 ''publish token creation rejected'' error ''ValidationError'' ''createPublishToken'' 2))
      in case or_error (error_if (\<not> is_object body) ''request body must be an object'')
                (or_error (ValidateStringArray body ''scopes'') (ValidateStringArray body ''package_patterns'')) of
           Some error \<Rightarrow> rejected error
         | None \<Rightarrow>
             using_result (json_value get_string body ''owner_id'' actor) (\<lambda>owner_id.
             if \<not> may_act_for request actor owner_id
             then audited_failure pg env request ''createPublishToken'' (json_obj [(''owner_id'', JString owner_id)]) ''denied''
                    (FailureResponse 403 ''publish token creation denied'' ''token owner must match caller'' ''AuthError'' ''createPublishToken'' 2)
             else
               act_bind (either_store pg (\<lambda>p. from_pg (pg_NextRegistryTokenId p)) (from_memory NextRegistryTokenId)) (\<lambda>token_id.
               let clear_token = ''styio_pat_'' @ token_id @ ''_'' @ re_random env in
               using_result (JsonStringArray body ''scopes'' [''package:publish'']) (\<lambda>scopes.
               using_result (JsonStringArray body ''package_patterns'' [''*'']) (\<lambda>patterns.
               using_result (json_value get_string body ''expires_at'' []) (\<lambda>expires_at.
                 let token = \<lparr>tk_token_id = token_id, tk_token_hash = Sha256Bytes (re_sha256 env) clear_token,
                              tk_owner_id = owner_id, tk_scopes = scopes, tk_package_patterns = patterns,
                              tk_expires_at = expires_at, tk_revoked_at = [], tk_created_at = re_now env\<rparr> in
                 act_bind (either_store pg (\<lambda>p. from_pg (pg_UpsertRegistryPublishToken p token)) (act_return ())) (\<lambda>_.
                 act_bind (from_memory (\<lambda>m. ((), UpsertRegistryPublishToken token m))) (\<lambda>_.
                 act_bind (RecordRegistryAudit pg env request ''createPublishToken''
                             (json_obj [(''token_id'', JString token_id), (''owner_id'', JString owner_id)]) ''success'') (\<lambda>_.
                   respond 200 (SuccessEnvelope ''created publish token''
                     (json_set ''token'' (JString clear_token) (SerializeRegistryPublishTokenRecord token False))))))))))))"

definition HandleListPublishTokens :: "'db postgres option \<Rightarrow> reg_env \<Rightarrow> HttpRequest \<Rightarrow> 'db handler" where
  "HandleListPublishTokens pg env request =
     (let owner_filter = (case rq_identity request of
            Some i \<Rightarrow> if id_role i = ''operator'' then [] else RegistryActorId (re_sha256 env) request
          | None \<Rightarrow> RegistryActorId (re_sha256 env) request)
      in act_bind (either_store pg (\<lambda>p. from_pg (pg_ListRegistryPublishTokens p owner_filter))
                     (reading (ListRegistryPublishTokens owner_filter))) (\<lambda>tokens.
           respond 200 (SuccessEnvelope ''loaded publish tokens'' (json_obj [(''tokens'', tokens)]))))"

definition HandleRevokePublishToken :: "'db postgres option \<Rightarrow> reg_env \<Rightarrow> RouteMatch \<Rightarrow> HttpRequest \<Rightarrow> 'db handler" where
  "HandleRevokePublishToken pg env rm request =
     using_result (param_at rm ''token_id'') (\<lambda>token_id.
     let target = json_obj [(''token_id'', JString token_id)]; actor = RegistryActorId (re_sha256 env) request in
     act_bind (either_store pg (\<lambda>p. from_pg (pg_GetRegistryPublishToken p token_id))
                 (reading (GetRegistryPublishToken token_id))) (\<lambda>token.
       case token of
         None \<Rightarrow> audited_failure pg env request ''revokePublishToken'' target ''not_found''
                  (FailureResponse 404 ''publish token revocation failed'' ''token is not found'' ''NotFound'' ''revokePublishToken'' 17)
       | Some t \<Rightarrow>
           if \<not> may_act_for request actor (tk_owner_id t)
           then audited_failure pg env request ''revokePublishToken'' target ''denied''
                  (FailureResponse 403 ''publish token revocation denied'' ''token owner must match caller'' ''AuthError'' ''revokePublishToken'' 2)
           else
             act_bind (either_store pg (\<lambda>p. from_pg (pg_RevokeRegistryPublishToken p token_id (re_now env))) (act_return False)) (\<lambda>_.
             act_bind (from_memory (RevokeRegistryPublishToken token_id (re_now env))) (\<lambda>_.
             act_bind (RecordRegistryAudit pg env request ''revokePublishToken'' target ''success'') (\<lambda>_.
               respond 200 (SuccessEnvelope ''revoked publish token''
                 (json_obj [(''token_id'', JString token_id), (''revoked'', JBool True)])))))))"

definition HandleMirrorStatus :: "'db postgres option \<Rightarrow> RouteMatch \<Rightarrow> 'db handler" where
  "HandleMirrorStatus pg rm =
     using_result (param_at rm ''mirror_id'') (\<lambda>mirror_id s.
       let found = (\<lambda>m. case m of
             None \<Rightarrow> act_return (FailureResponse 404 ''mirror freshness unavailable'' ''mirror cursor not found'' ''MirrorError'' ''mirrorStatus'' 17)
           | Some mirror \<Rightarrow> respond 200 (SuccessEnvelope ''loaded mirror freshness'' (SerializeMirrorCursorRecord mirror)))
       in case pg of
            Some p \<Rightarrow> (case pg_call (pg_GetMirrorState p mirror_id) s of
                          (Inl what, t) \<Rightarrow> fail503 ''mirror freshness unavailable'' what ''PostgresError'' ''mirrorStatus'' t
                        | (Inr m, t) \<Rightarrow> found m t)
          | None \<Rightarrow> found (GetMirrorState mirror_id (rt_memory s)) s)"

section \<open>Laws of the memory backend\<close>

definition audited :: "reg_env \<Rightarrow> HttpRequest \<Rightarrow> string \<Rightarrow> json \<Rightarrow> string \<Rightarrow> store \<Rightarrow> store" where
  "audited env request operation target outcome m =
     RecordRegistryAuditEvent
       \<lparr>au_event_id = fst (NextRegistryAuditEventId m), au_actor_id = RegistryActorId (re_sha256 env) request,
        au_operation = operation, au_target = target,
        au_request_id = smap_get [] (rq_headers request) ''x-request-id'',
        au_result = outcome, au_created_at = re_now env\<rparr>
       (snd (NextRegistryAuditEventId m))"

lemma RecordRegistryAudit_memory [simp]:
  "RecordRegistryAudit None env request operation target outcome s
     = (Inr (), s\<lparr>rt_memory := audited env request operation target outcome (rt_memory s)\<rparr>)"
  by (simp add: RecordRegistryAudit_def act_defs audited_def Let_def split: prod.split)

lemma audited_failure_memory [simp]:
  "audited_failure None env request operation target outcome response s
     = (Inr response, s\<lparr>rt_memory := audited env request operation target outcome (rt_memory s)\<rparr>)"
  by (simp add: audited_failure_def act_defs)

lemma audited_frame [simp]:
  "registry_tokens (audited env request operation target outcome m) = registry_tokens m"
  "registry_owners (audited env request operation target outcome m) = registry_owners m"
  by (simp_all add: audited_def RecordRegistryAuditEvent_def NextRegistryAuditEventId_def)

lemma audited_frame_find [simp]:
  "FindRegistryPublishTokenByHash h (audited env request operation target outcome m) = FindRegistryPublishTokenByHash h m"
  "HasRegistryPackageOwner p u (audited env request operation target outcome m) = HasRegistryPackageOwner p u m"
  by (simp_all add: FindRegistryPublishTokenByHash_def HasRegistryPackageOwner_def)

lemma registry_tokens_frame:
  "registry_tokens (UpsertRegistryPublishToken t m) = smap_put (tk_token_id t) t (registry_tokens m)"
  "registry_tokens (snd (NextRegistryTokenId m)) = registry_tokens m"
  by (simp_all add: UpsertRegistryPublishToken_def NextRegistryTokenId_def)

text \<open>A hash that one stored token has finds that token.\<close>

lemma FindRegistryPublishTokenByHash_unique:
  assumes "smap_wf (registry_tokens m)" and "smap_find (registry_tokens m) k = Some t" and "tk_token_hash t = h"
    and "\<And>k' t'. smap_find (registry_tokens m) k' = Some t' \<Longrightarrow> tk_token_hash t' = h \<Longrightarrow> t' = t"
  shows "FindRegistryPublishTokenByHash h m = Some t"
proof (cases "List.find (\<lambda>e. tk_token_hash (snd e) = h) (registry_tokens m)")
  case None
  have "(k, t) \<in> set (registry_tokens m)" using assms(1,2) by (simp add: smap_find_in)
  with None assms(3) show ?thesis by (auto simp: find_None_iff)
next
  case (Some e)
  then have "tk_token_hash (snd e) = h" "e \<in> set (registry_tokens m)" by (auto simp: find_Some_iff in_set_conv_nth)
  then have "snd e = t" using assms(1,4) by (metis smap_find_in prod.collapse)
  with Some show ?thesis by (simp add: FindRegistryPublishTokenByHash_def)
qed

definition identity_may_write :: "HttpRequest \<Rightarrow> string \<Rightarrow> string \<Rightarrow> store \<Rightarrow> bool" where
  "identity_may_write request scope package_id m =
     (case rq_identity request of
        None \<Rightarrow> False
      | Some i \<Rightarrow> id_role i = ''operator'' \<or> (id_role i = ''registry-writer'' \<and> scope = ''package:publish'')
          \<or> (package_id \<noteq> [] \<and> scope \<in> {''package:publish'', ''package:yank'', ''package:owner''}
              \<and> HasRegistryPackageOwner package_id (id_node_id i) m))"

definition token_may_write :: "reg_env \<Rightarrow> HttpRequest \<Rightarrow> string \<Rightarrow> string \<Rightarrow> store \<Rightarrow> bool" where
  "token_may_write env request scope package_id m =
     (case RegistryTokenFromHeaders (rq_headers request) of
        None \<Rightarrow> False
      | Some clear \<Rightarrow>
          (case FindRegistryPublishTokenByHash (Sha256Bytes (re_sha256 env) clear) m of
             None \<Rightarrow> False
           | Some t \<Rightarrow> tk_revoked_at t = [] \<and> (tk_expires_at t = [] \<or> re_now env \<le> tk_expires_at t)
               \<and> scope \<in> set (tk_scopes t)
               \<and> (package_id = [] \<or> (\<exists>pat \<in> set (tk_package_patterns t). PackagePatternMatches pat package_id))))"

lemma RegistryWriteAuthorized_memory:
  "RegistryWriteAuthorized None env request scope package_id s
     = (Inr (identity_may_write request scope package_id (rt_memory s)
             \<or> token_may_write env request scope package_id (rt_memory s)), s)"
proof -
  have i: "identity_grants None request scope package_id s = (Inr (identity_may_write request scope package_id (rt_memory s)), s)"
    by (auto simp: identity_grants_def identity_may_write_def owner_grants_def act_defs split: option.split)
  have t: "token_grants None env request scope package_id s = (Inr (token_may_write env request scope package_id (rt_memory s)), s)"
    by (auto simp: token_grants_def token_may_write_def token_live_def act_defs Let_def TokenHasScope_def
        TokenMatchesPackage_def list_ex_iff not_less split: option.split)
  show ?thesis by (simp add: RegistryWriteAuthorized_def act_bind_def i t act_return_def)
qed

section \<open>Issuing and revoking\<close>

lemma json_value_absent: "json_lookup j k = None \<Longrightarrow> is_object j \<Longrightarrow> json_value f j k d = Inr d"
  by (cases j) simp_all

definition issued_token :: "reg_env \<Rightarrow> store \<Rightarrow> string" where
  "issued_token env m = ''styio_pat_'' @ fst (NextRegistryTokenId m) @ ''_'' @ re_random env"

definition issued_record :: "reg_env \<Rightarrow> string \<Rightarrow> string list \<Rightarrow> string list \<Rightarrow> string \<Rightarrow> store \<Rightarrow> RegistryPublishTokenRecord" where
  "issued_record env owner_id scopes patterns expires_at m =
     \<lparr>tk_token_id = fst (NextRegistryTokenId m),
      tk_token_hash = Sha256Bytes (re_sha256 env) (issued_token env m),
      tk_owner_id = owner_id, tk_scopes = scopes, tk_package_patterns = patterns,
      tk_expires_at = expires_at, tk_revoked_at = [], tk_created_at = re_now env\<rparr>"

lemma HandleCreatePublishToken_issues:
  fixes s :: "'db router"
  assumes "is_object (rq_body request)" "ValidateStringArray (rq_body request) ''scopes'' = None"
    "ValidateStringArray (rq_body request) ''package_patterns'' = None"
    and owner: "json_value get_string (rq_body request) ''owner_id'' (RegistryActorId (re_sha256 env) request) = Inr owner_id"
    and may: "may_act_for request (RegistryActorId (re_sha256 env) request) owner_id"
    and args: "JsonStringArray (rq_body request) ''scopes'' [''package:publish''] = Inr scopes"
    "JsonStringArray (rq_body request) ''package_patterns'' [''*''] = Inr patterns"
    "json_value get_string (rq_body request) ''expires_at'' [] = Inr expires_at"
  defines "t \<equiv> issued_record env owner_id scopes patterns expires_at (rt_memory s)"
  shows "HandleCreatePublishToken None env request s
     = (Inr (JsonResponse 200 (SuccessEnvelope ''created publish token''
              (json_set ''token'' (JString (issued_token env (rt_memory s))) (SerializeRegistryPublishTokenRecord t False)))),
        s\<lparr>rt_memory := audited env request ''createPublishToken''
             (json_obj [(''token_id'', JString (tk_token_id t)), (''owner_id'', JString owner_id)]) ''success''
             (UpsertRegistryPublishToken t (snd (NextRegistryTokenId (rt_memory s))))\<rparr>)"
  using assms(1-3)
  by (simp add: HandleCreatePublishToken_def Let_def owner may args act_defs or_error_def error_if_def t_def
      issued_record_def issued_token_def NextRegistryTokenId_def)


definition sample_env :: reg_env where
  "sample_env = \<lparr>re_now = ''2026-01-01T00:00:00Z'', re_random = ''00ff'', re_sha256 = map (\<lambda>c. of_nat (of_char c)),
     re_index = (\<lambda>_. Inr [])\<rparr>"

definition sample_router :: "unit router" where
  "sample_router = \<lparr>rt_memory = empty_store, rt_db = (), rt_rate_limiter = [], rt_metrics = empty_metrics\<rparr>"

definition sample_request :: HttpRequest where
  "sample_request = \<lparr>rq_method = Post, rq_path = ''/tokens'', rq_headers = [], rq_body = JObject [],
     rq_identity = Some \<lparr>id_role = ''worker'', id_tenant_id = ''t'', id_node_id = ''n''\<rparr>\<rparr>"

definition token_request :: "string \<Rightarrow> HttpRequest" where
  "token_request clear = \<lparr>rq_method = Post, rq_path = ''/'', rq_headers = [(''x-styio-registry-token'', clear)],
     rq_body = JNull, rq_identity = None\<rparr>"

lemma token_request_token: "clear \<noteq> [] \<Longrightarrow> RegistryTokenFromHeaders (rq_headers (token_request clear)) = Some clear"
  by (cases clear) (simp_all add: token_request_def RegistryTokenFromHeaders_def)


text \<open>
  \<^bold>\<open>C10.\<close> Revocation is final. When the revocation handler finds the token and lets the caller
  act for its owner, it answers 200, and from then on no request without an identity that
  presents a text with this token's digest is authorized, for any scope, package or time,
  provided the digest belongs to this token only and the clock's text is not empty.
\<close>

theorem RevokePublishToken_effective:
  assumes "param_at rm ''token_id'' = Inr token_id"
    and "GetRegistryPublishToken token_id (rt_memory s) = Some t"
    and "may_act_for request (RegistryActorId (re_sha256 env) request) (tk_owner_id t)"
    and "re_now env \<noteq> []" and "smap_wf (registry_tokens (rt_memory s))"
    and "\<And>k t'. smap_find (registry_tokens (rt_memory s)) k = Some t' \<Longrightarrow> tk_token_hash t' = tk_token_hash t \<Longrightarrow> k = token_id"
  shows "\<exists>response s'. HandleRevokePublishToken None env rm request s = (Inr response, s')
           \<and> resp_status_code response = 200
           \<and> (\<forall>env' user clear scope package.
                rq_identity user = None \<and> RegistryTokenFromHeaders (rq_headers user) = Some clear
                \<and> Sha256Bytes (re_sha256 env') clear = tk_token_hash t
                \<longrightarrow> RegistryWriteAuthorized None env' user scope package s' = (Inr False, s'))"
proof -
  let ?m = "rt_memory s" and ?r = "t\<lparr>tk_revoked_at := re_now env\<rparr>"
  let ?m' = "audited env request ''revokePublishToken'' (json_obj [(''token_id'', JString token_id)]) ''success''
     (snd (RevokeRegistryPublishToken token_id (re_now env) ?m))"
  have found: "smap_find (registry_tokens ?m) token_id = Some t"
    using assms(2) by (simp add: GetRegistryPublishToken_def)
  have eq: "HandleRevokePublishToken None env rm request s
     = (Inr (JsonResponse 200 (SuccessEnvelope ''revoked publish token''
          (json_obj [(''token_id'', JString token_id), (''revoked'', JBool True)]))), s\<lparr>rt_memory := ?m'\<rparr>)"
    using assms(1-3) by (simp add: HandleRevokePublishToken_def act_defs Let_def split: prod.split)
  have toks: "registry_tokens (snd (RevokeRegistryPublishToken token_id (re_now env) ?m)) = smap_put token_id ?r (registry_tokens ?m)"
    by (simp add: RevokeRegistryPublishToken_def found)
  have "FindRegistryPublishTokenByHash (tk_token_hash t) ?m' = Some ?r"
    by (rule FindRegistryPublishTokenByHash_unique [where k = token_id])
      (use assms(5,6) in \<open>auto simp: toks split: if_splits\<close>)
  then show ?thesis
    by (simp add: eq JsonResponse_def RegistryWriteAuthorized_memory identity_may_write_def token_may_write_def assms(4))
qed

definition revoke_match :: RouteMatch where
  "revoke_match = \<lparr>rm_route = \<lparr>rs_operation_id = ''revokePublishToken'', rs_method = Delete, rs_path = [], rs_internal = False\<rparr>, rm_parameters = [(''token_id'', ''tok-1'')]\<rparr>"

definition sample_token :: RegistryPublishTokenRecord where
  "sample_token = \<lparr>tk_token_id = ''tok-1'', tk_token_hash = Sha256Bytes (re_sha256 sample_env) ''secret'', tk_owner_id = ''n'',
     tk_scopes = [''package:publish''], tk_package_patterns = [''*''], tk_expires_at = [], tk_revoked_at = [], tk_created_at = []\<rparr>"

definition token_router :: "unit router" where
  "token_router = sample_router\<lparr>rt_memory := empty_store\<lparr>registry_tokens := [(''tok-1'', sample_token)]\<rparr>\<rparr>"

theorem RevokePublishToken_effective_witness:
  "RegistryWriteAuthorized None sample_env (token_request ''secret'') ''package:publish'' ''a/b'' token_router = (Inr True, token_router)
   \<and> (\<exists>response s'. HandleRevokePublishToken None sample_env revoke_match sample_request token_router = (Inr response, s')
        \<and> resp_status_code response = 200
        \<and> RegistryWriteAuthorized None sample_env (token_request ''secret'') ''package:publish'' ''a/b'' s' = (Inr False, s'))"
proof (rule conjI)
  have tok: "RegistryTokenFromHeaders (rq_headers (token_request ''secret'')) = Some ''secret''"
    "rq_identity (token_request ''secret'') = None"
    by (simp_all add: token_request_token) (simp add: token_request_def)
  show "RegistryWriteAuthorized None sample_env (token_request ''secret'') ''package:publish'' ''a/b'' token_router = (Inr True, token_router)"
    by (simp add: RegistryWriteAuthorized_memory token_may_write_def tok token_router_def
        FindRegistryPublishTokenByHash_def sample_token_def PackagePatternMatches_def)
  show "\<exists>response s'. HandleRevokePublishToken None sample_env revoke_match sample_request token_router = (Inr response, s')
        \<and> resp_status_code response = 200
        \<and> RegistryWriteAuthorized None sample_env (token_request ''secret'') ''package:publish'' ''a/b'' s' = (Inr False, s')"
    using RevokePublishToken_effective [of revoke_match "''tok-1''" token_router sample_token sample_request sample_env] tok
    by (fastforce simp: revoke_match_def param_at_def token_router_def GetRegistryPublishToken_def may_act_for_def
        RegistryActorId_def sample_request_def sample_token_def sample_env_def smap_wf_def split: if_splits)
qed

section \<open>The audit trail\<close>

definition outcome_of :: "int \<Rightarrow> string" where
  "outcome_of status = (if status = 200 then ''success'' else if status = 403 then ''denied'' else ''not_found'')"

definition same_registry :: "store \<Rightarrow> store \<Rightarrow> bool" where
  "same_registry m m' \<longleftrightarrow> registry_tokens m' = registry_tokens m \<and> registry_owners m' = registry_owners m"

definition accounted :: "reg_env \<Rightarrow> HttpRequest \<Rightarrow> string \<Rightarrow> store \<Rightarrow> HttpResponse result \<Rightarrow> store \<Rightarrow> bool" where
  "accounted env request operation m res m' \<longleftrightarrow>
     (case res of
        Inl _ \<Rightarrow> registry_audit_events m' = registry_audit_events m \<and> same_registry m m'
      | Inr response \<Rightarrow>
          (if resp_status_code response = 400
           then registry_audit_events m' = registry_audit_events m
           else \<exists>e. registry_audit_events m' = registry_audit_events m @ [e] \<and> au_operation e = operation
                 \<and> au_actor_id e = RegistryActorId (re_sha256 env) request
                 \<and> au_result e = outcome_of (resp_status_code response))
          \<and> (resp_status_code response \<noteq> 200 \<longrightarrow> same_registry m m'))"

lemma audited_events [simp]:
  "\<exists>e. registry_audit_events (audited env request operation target outcome m) = registry_audit_events m @ [e]
     \<and> au_operation e = operation \<and> au_actor_id e = RegistryActorId (re_sha256 env) request \<and> au_result e = outcome"
  by (simp add: audited_def RecordRegistryAuditEvent_def NextRegistryAuditEventId_def)

lemma registry_audit_events_frame [simp]:
  "registry_audit_events (UpsertRegistryPublishToken t m) = registry_audit_events m"
  "registry_audit_events (snd (NextRegistryTokenId m)) = registry_audit_events m"
  "registry_owners (snd (NextRegistryTokenId m)) = registry_owners m"
  "registry_audit_events (snd (RevokeRegistryPublishToken k d m)) = registry_audit_events m"
  "registry_audit_events (AddRegistryPackageOwner r m) = registry_audit_events m"
  "registry_audit_events (snd (RemoveRegistryPackageOwner p u m)) = registry_audit_events m"
  by (simp_all add: UpsertRegistryPublishToken_def NextRegistryTokenId_def RevokeRegistryPublishToken_def
      AddRegistryPackageOwner_def RemoveRegistryPackageOwner_def split: option.split)

lemma audited_same [simp]: "same_registry m (audited env request operation target outcome m') = same_registry m m'"
  by (simp add: same_registry_def)

lemma same_registry_next [simp]: "same_registry m m" "same_registry m (snd (NextRegistryTokenId m))"
  by (simp_all add: same_registry_def registry_tokens_frame)

lemma status_codes:
  "resp_status_code (FailureResponse n a b c d k) = n" "resp_status_code (JsonResponse n body) = n"
  "outcome_of 200 = ''success''" "outcome_of 403 = ''denied''" "outcome_of 404 = ''not_found''"
  by (simp_all add: FailureResponse_def JsonResponse_def outcome_of_def)

lemma accounted_escape: "registry_audit_events m' = registry_audit_events m \<Longrightarrow> same_registry m m' \<Longrightarrow>
    accounted env request operation m (Inl e) m'"
  by (simp add: accounted_def)

lemma accounted_rejection: "accounted env request operation m (Inr (FailureResponse 400 a b c operation n)) m"
  by (simp add: accounted_def status_codes)

lemma accounted_audited:
  assumes "registry_audit_events m' = registry_audit_events m" and "resp_status_code response \<noteq> 400"
    and "outcome = outcome_of (resp_status_code response)" and "resp_status_code response \<noteq> 200 \<Longrightarrow> same_registry m m'"
  shows "accounted env request operation m (Inr response) (audited env request operation target outcome m')"
  using assms audited_events [of env request operation target outcome m'] by (auto simp: accounted_def)

lemmas accounted_intros = accounted_escape accounted_rejection accounted_audited


end
