(* ===== verification/Memory_Laws.thy ===== *)
theory Memory_Laws
  imports Memory_Store
begin

text \<open>
  Laws of single store operations: the ids the counters hand out, which job a claim takes
  (the least id of the claimable ones, proved from the ordered-map contract), and what
  each operation leaves alone.
\<close>

section \<open>Frames\<close>

lemma push_event_frame [simp]:
  "jobs (push_event k e s) = jobs s"
  "workers (push_event k e s) = workers s"
  "compile_containers (push_event k e s) = compile_containers s"
  "next_job_sequence (push_event k e s) = next_job_sequence s"
  by (simp_all add: push_event_def)

lemma events_push_event [simp]:
  "smap_find (events (push_event k e s)) k'
     = (if k' = k then Some (GetJobEvents k s @ [e]) else smap_find (events s) k')"
  by (simp add: push_event_def GetJobEvents_def)

lemma smap_wf_push_event [simp]: "smap_wf (events s) \<Longrightarrow> smap_wf (events (push_event k e s))"
  by (simp add: push_event_def)

lemma GetJobEvents_push_event [simp]:
  "GetJobEvents k' (push_event k e s) = (if k' = k then GetJobEvents k s @ [e] else GetJobEvents k' s)"
  by (simp add: GetJobEvents_def smap_get_def push_event_def)

lemma GetJobEvents_update [simp]:
  "GetJobEvents k (s\<lparr>jobs := js\<rparr>) = GetJobEvents k s"
  "GetJobEvents k (s\<lparr>compile_containers := cs\<rparr>) = GetJobEvents k s"
  "GetJobEvents k (s\<lparr>workers := ws\<rparr>) = GetJobEvents k s"
  "GetJobEvents k (s\<lparr>next_job_sequence := n\<rparr>) = GetJobEvents k s"
  by (simp_all add: GetJobEvents_def)

section \<open>Ids\<close>

lemma PaddedNumber_inj: "PaddedNumber m w = PaddedNumber n w \<longleftrightarrow> m = n"
  by (auto simp: PaddedNumber_def padded_inj intro: unsigned_word_eqI)

lemma text_val_Cons: "text_val b (c # s) = digit_val c * b ^ length s + text_val b s"
proof -
  have "foldl (\<lambda>a c. a * b + digit_val c) x s = x * b ^ length s + foldl (\<lambda>a c. a * b + digit_val c) 0 s" for x
  proof (induction s arbitrary: x)
    case (Cons d s)
    show ?case using Cons [of "x * b + digit_val d"] Cons [of "digit_val d"] by (simp add: algebra_simps)
  qed simp
  from this [of "digit_val c"] show ?thesis by (simp add: text_val_def)
qed

definition decimal :: "string \<Rightarrow> bool" where
  "decimal s = (set s \<subseteq> digit_char ` {..<10})"

lemma text_val_bound: "decimal s \<Longrightarrow> text_val 10 s < 10 ^ length s"
proof (induction s)
  case (Cons c s)
  then obtain d where d: "d < 10" "c = digit_char d" by (auto simp: decimal_def)
  have "text_val 10 s < 10 ^ length s" using Cons by (simp add: decimal_def)
  moreover have "d * 10 ^ length s \<le> 9 * 10 ^ length s" using d(1) by (intro mult_right_mono) auto
  ultimately have "d * 10 ^ length s + text_val 10 s < 10 * 10 ^ length s" by linarith
  then show ?case using d by (simp add: text_val_Cons)
qed (simp add: text_val_def)

text \<open>On decimal texts of one length the lexicographic order is the numeric order.\<close>

lemma decimal_less:
  assumes "length s = length t" and "decimal s" and "decimal t" and "text_val 10 s < text_val 10 t"
  shows "s < t"
  using assms
proof (induction s t rule: list_induct2)
  case (Cons c s d t)
  obtain x y where xy: "x < 10" "c = digit_char x" "y < 10" "d = digit_char y"
    using Cons.prems by (auto simp: decimal_def)
  have dec: "decimal s" "decimal t" using Cons.prems by (auto simp: decimal_def)
  have bs: "text_val 10 s < 10 ^ length t" "text_val 10 t < 10 ^ length t"
    using text_val_bound dec Cons.hyps by metis+
  have lt: "x * 10 ^ length t + text_val 10 s < y * 10 ^ length t + text_val 10 t"
    using Cons.prems(3) xy Cons.hyps by (simp add: text_val_Cons)
  consider "x < y" | "x = y" | "y < x" by linarith
  then show ?case
  proof cases
    case 1
    then show ?thesis using xy digit_char_less by simp
  next
    case 2
    with lt have "text_val 10 s < text_val 10 t" by simp
    with Cons dec have "s < t" by simp
    with 2 xy show ?thesis by simp
  next
    case 3
    then have "(y + 1) * 10 ^ length t \<le> x * 10 ^ length t" by (intro mult_right_mono) auto
    with lt bs show ?thesis by simp
  qed
qed (simp add: text_val_def)

lemma PaddedNumber_decimal: "decimal (PaddedNumber n w)"
proof -
  have "CHR ''0'' \<in> digit_char ` {..<10}" by (rule image_eqI [where x = 0]) simp_all
  then show ?thesis
    using digits_in_chars [of 10 "unat n"]
    by (auto simp: decimal_def PaddedNumber_def pad_left_def string_of_nat_def)
qed

lemma PaddedNumber_val: "text_val 10 (PaddedNumber n w) = unat n"
  by (simp add: PaddedNumber_def pad_left_val string_of_nat_val)

lemma PaddedNumber_length: "unat n < 10 ^ w \<Longrightarrow> 0 < w \<Longrightarrow> length (PaddedNumber n w) = w"
  using digits_in_length [of 10 "unat n" w]
  by (simp add: PaddedNumber_def pad_left_def string_of_nat_def)

lemma PaddedNumber_less:
  assumes "unat n < 10 ^ w" and "m < n" and "0 < w"
  shows "PaddedNumber m w < PaddedNumber n w"
proof (rule decimal_less)
  from assms(2) have mn: "unat m < unat n" by (simp add: word_less_nat_alt)
  with assms show "length (PaddedNumber m w) = length (PaddedNumber n w)" by (simp add: PaddedNumber_length)
  from mn show "text_val 10 (PaddedNumber m w) < text_val 10 (PaddedNumber n w)"
    by (simp add: PaddedNumber_val)
qed (rule PaddedNumber_decimal)+

definition job_id_of :: "64 word \<Rightarrow> string" where
  "job_id_of n = ''job-'' @ PaddedNumber n 12"

lemma NextJobId_eq: "NextJobId s = (job_id_of (next_job_sequence s), s\<lparr>next_job_sequence := next_job_sequence s + 1\<rparr>)"
  by (simp add: NextJobId_def job_id_of_def)

lemma job_id_of_inj: "job_id_of m = job_id_of n \<longleftrightarrow> m = n"
  by (simp add: job_id_of_def PaddedNumber_inj)

text \<open>Job ids never repeat, and as long as fewer than \<open>10 ^ 12\<close> have been handed out the
  order of the ids as texts, which is the order in which a claim scans the jobs, is the
  order of submission.\<close>

theorem job_ids_ordered:
  "(job_id_of m = job_id_of n \<longleftrightarrow> m = n)
   \<and> (unat m < 10 ^ 12 \<and> unat n < 10 ^ 12 \<longrightarrow> (job_id_of m < job_id_of n \<longleftrightarrow> m < n))"
proof (intro conjI impI)
  show "job_id_of m = job_id_of n \<longleftrightarrow> m = n" by (rule job_id_of_inj)
  assume b: "unat m < 10 ^ 12 \<and> unat n < 10 ^ 12"
  have lt: "job_id_of a < job_id_of c" if "a < c" "unat c < 10 ^ 12" for a c
    using PaddedNumber_less [OF that(2,1)] by (simp add: job_id_of_def)
  show "job_id_of m < job_id_of n \<longleftrightarrow> m < n"
  proof
    assume id: "job_id_of m < job_id_of n"
    then have "m \<noteq> n" by auto
    moreover have "\<not> n < m" using lt [of n m] b id by auto
    ultimately show "m < n" by auto
  qed (use lt b in blast)
qed

theorem job_ids_ordered_witness: "job_id_of 9 < job_id_of 10"
proof -
  have "unat (9 :: 64 word) < 10 ^ 12 \<and> unat (10 :: 64 word) < 10 ^ 12" by simp
  with job_ids_ordered [of 9 10] show ?thesis by simp
qed

section \<open>Claims\<close>

text \<open>
  The specification of a claim on the abstract view of the jobs, a map from ids to records:
  nothing claimable leaves the store as it is, otherwise the least claimable id is taken.
\<close>

definition claimable :: "(string \<times> PlatformJobRecord \<Rightarrow> bool) \<Rightarrow> store \<Rightarrow> string set" where
  "claimable P s = {i. \<exists>j. smap_find (jobs s) i = Some j \<and> P (i, j)}"

definition taken_by :: "string \<Rightarrow> PlatformJobRecord \<Rightarrow> PlatformJobRecord" where
  "taken_by worker_id j = j\<lparr>j_status := ''running'', j_worker_id := worker_id\<rparr>"

lemma finite_claimable: "smap_wf (jobs s) \<Longrightarrow> finite (claimable P s)"
proof -
  assume wf: "smap_wf (jobs s)"
  have "claimable P s \<subseteq> fst ` set (jobs s)" using smap_find_in [OF wf] by (force simp: claimable_def)
  then show ?thesis by (rule finite_subset) simp
qed

lemma find_least:
  assumes wf: "smap_wf (jobs s)"
  shows "List.find P (jobs s) = None \<longleftrightarrow> claimable P s = {}"
    and "List.find P (jobs s) = Some (i, j) \<Longrightarrow>
           i = Min (claimable P s) \<and> i \<in> claimable P s \<and> smap_find (jobs s) i = Some j \<and> P (i, j)"
proof -
  show "List.find P (jobs s) = None \<longleftrightarrow> claimable P s = {}"
    using smap.scan_none [OF wf, of P] by (auto simp: claimable_def)
  assume f: "List.find P (jobs s) = Some (i, j)"
  note sc = smap.scan_found [OF wf f]
  then have "i \<in> claimable P s" by (auto simp: claimable_def)
  moreover have "i = Min (claimable P s)"
    by (rule Min_eqI [symmetric]) (use sc calculation finite_claimable [OF wf] in \<open>auto simp: claimable_def\<close>)
  ultimately show "i = Min (claimable P s) \<and> i \<in> claimable P s \<and> smap_find (jobs s) i = Some j \<and> P (i, j)"
    using sc by blast
qed

definition claim_spec :: "(string \<times> PlatformJobRecord \<Rightarrow> bool) \<Rightarrow> string \<Rightarrow> store
    \<Rightarrow> PlatformJobRecord option \<Rightarrow> store \<Rightarrow> bool" where
  "claim_spec P worker_id s r s' =
     (if claimable P s = {} then r = None \<and> s' = s
      else (\<exists>j. smap_find (jobs s) (Min (claimable P s)) = Some j \<and> P (Min (claimable P s), j)
              \<and> r = Some (taken_by worker_id j)
              \<and> smap_find (jobs s') = (smap_find (jobs s))(Min (claimable P s) \<mapsto> taken_by worker_id j)
              \<and> (\<exists>e. ev_status e = ''running'' \<and> ev_job_id e = Min (claimable P s)
                    \<and> (\<lambda>k. GetJobEvents k s') = (\<lambda>k. GetJobEvents k s)
                          (Min (claimable P s) := GetJobEvents (Min (claimable P s)) s @ [e]))
              \<and> s' = s\<lparr>jobs := jobs s', events := events s'\<rparr>))"

definition waiting :: "string \<Rightarrow> string \<Rightarrow> string \<times> PlatformJobRecord \<Rightarrow> bool" where
  "waiting region pool = (\<lambda>(_, j). j_status j = ''queued'' \<and> j_region j = region \<and> j_worker_pool_key j = pool)"

lemma claim_pred_waiting: "claim_pred region pool = waiting region pool"
  by (auto simp: claim_pred_def waiting_def fun_eq_iff)

lemma ClaimJob_claims:
  assumes "smap_wf (jobs s)"
  shows "if smap_contains (workers s) worker_id
         then \<exists>r s'. ClaimJob worker_id region pool s = Inr (r, s')
                \<and> claim_spec (claim_pred region pool) worker_id s r s'
         else ClaimJob worker_id region pool s = Inl (MemoryStateStoreError ''worker is not registered'')"
proof (cases "smap_contains (workers s) worker_id")
  case True
  show ?thesis
  proof (cases "List.find (claim_pred region pool) (jobs s)")
    case None
    have "claimable (claim_pred region pool) s = {}" using find_least(1) [OF assms] None by blast
    with True None show ?thesis by (simp add: ClaimJob_def RequireWorker_def claim_spec_def)
  next
    case (Some e)
    obtain i j where e: "e = (i, j)" by (cases e)
    note l = find_least(2) [OF assms Some [unfolded e]]
    then have "claimable (claim_pred region pool) s \<noteq> {}" by blast
    with True Some l show ?thesis
      by (auto simp: ClaimJob_def RequireWorker_def claim_spec_def Let_def taken_by_def e smap_find_put_fun running_event_def
          GetJobEvents_def push_event_def smap_get_def fun_eq_iff)
  qed
qed (simp add: ClaimJob_def RequireWorker_def)

text \<open>\<^bold>\<open>C4.\<close> A registered worker's claim is the abstract claim: it takes the least id among the
  queued jobs of that region and pool, marks exactly that job running under the worker,
  appends one event to its log and changes nothing else, and finds nothing only when no such job is queued. An unregistered
  worker gets the error.\<close>

theorem ClaimJob_refines:
  assumes "smap_wf (jobs s)"
  shows "if smap_contains (workers s) worker_id
         then \<exists>r s'. ClaimJob worker_id region pool s = Inr (r, s')
                \<and> claim_spec (waiting region pool) worker_id s r s'
         else ClaimJob worker_id region pool s = Inl (MemoryStateStoreError ''worker is not registered'')"
  using ClaimJob_claims [OF assms] unfolding claim_pred_waiting .

definition queued_sample :: "string \<Rightarrow> string \<Rightarrow> PlatformJobRecord" where
  "queued_sample i u = \<lparr>j_job_id = i, j_tenant_id = ''t'', j_user_id = u, j_workspace_id = ''w'',
     j_action = ''build'', j_status = ''queued'', j_region = ''r'', j_worker_pool_key = ''p'',
     j_created_at = [], j_worker_id = [], j_finished_at = [], j_job_request = JObject [], j_artifacts = []\<rparr>"

definition sample_store :: store where
  "sample_store = empty_store\<lparr>jobs := [(''job-1'', queued_sample ''job-1'' ''u1''), (''job-2'', queued_sample ''job-2'' ''u2'')],
     workers := [(''wk'', JObject [])],
     compile_containers := [(''c'', \<lparr>cc_container_id = ''c'', cc_worker_id = ''wk'', cc_tenant_id = ''t'',
        cc_user_id = ''u2'', cc_current_workspace_id = ''w0'', cc_region = ''r'', cc_worker_pool_key = ''p'',
        cc_status = ''active'', cc_capacity = 1, cc_workspace_generation = 1, cc_created_at = [],
        cc_last_switched_at = [], cc_last_switch_reason = []\<rparr>)]\<rparr>"

lemma sample_store_wf: "smap_wf (jobs sample_store)"
  by (simp add: sample_store_def smap_wf_simps)

theorem ClaimJob_refines_witness:
  "\<exists>r s'. ClaimJob ''wk'' ''r'' ''p'' sample_store = Inr (r, s')
     \<and> claim_spec (waiting ''r'' ''p'') ''wk'' sample_store r s'"
proof -
  have "smap_contains (workers sample_store) ''wk''" by (simp add: sample_store_def smap_contains_def)
  with ClaimJob_refines [OF sample_store_wf, of "''wk''" "''r''" "''p''"] show ?thesis by simp
qed

text \<open>\<^bold>\<open>C2.\<close> A claim made through a compile container never crosses users: when it returns a job,
  the container was registered, active and owned by that worker in that region and pool,
  and the job is a queued job of the container's tenant and user with the least such id.
  Afterwards the container runs in the job's workspace, its tenant, user and owner
  unchanged and its generation increased exactly when the workspace changed.\<close>

theorem ClaimJobForCompileContainer_isolated:
  assumes "smap_wf (jobs s)"
    and "ClaimJobForCompileContainer worker_id region pool container_id s = Inr (Some job, s')"
  shows "\<exists>c c'. smap_find (compile_containers s) container_id = Some c
     \<and> smap_find (compile_containers s') container_id = Some c'
     \<and> cc_worker_id c = worker_id \<and> cc_region c = region \<and> cc_worker_pool_key c = pool \<and> cc_status c = ''active''
     \<and> (\<exists>i j. i = Min (claimable (container_claim_pred region pool c) s)
            \<and> smap_find (jobs s) i = Some j \<and> j_status j = ''queued''
            \<and> job = taken_by worker_id j \<and> smap_find (jobs s') = (smap_find (jobs s))(i \<mapsto> job))
     \<and> j_tenant_id job = cc_tenant_id c \<and> j_user_id job = cc_user_id c
     \<and> cc_current_workspace_id c' = j_workspace_id job
     \<and> cc_tenant_id c' = cc_tenant_id c \<and> cc_user_id c' = cc_user_id c \<and> cc_worker_id c' = cc_worker_id c
     \<and> cc_workspace_generation c'
         = cc_workspace_generation c + (if cc_current_workspace_id c = j_workspace_id job then 0 else 1)"
proof -
  from assms(2) obtain c where c: "smap_find (compile_containers s) container_id = Some c"
    and g: "cc_worker_id c = worker_id" "cc_region c = region" "cc_worker_pool_key c = pool" "cc_status c = ''active''"
    by (auto simp: ClaimJobForCompileContainer_def rbind_eq_Inr split: option.splits)
  from assms(2) c g obtain i j where
    f: "List.find (container_claim_pred region pool c) (jobs s) = Some (i, j)" and job: "job = taken_by worker_id j"
    by (auto simp: ClaimJobForCompileContainer_def rbind_eq_Inr Let_def taken_by_def split: option.splits)
  note l = find_least(2) [OF assms(1) f]
  have jobs': "smap_find (jobs s') = (smap_find (jobs s))(i \<mapsto> job)"
    using assms(2) c g f by (auto simp: ClaimJobForCompileContainer_def rbind_eq_Inr Let_def split: if_splits)
  define c' where "c' = (if cc_current_workspace_id c = j_workspace_id j then c
                         else switch_workspace (j_workspace_id j) ''claimJob'' c)"
  have find': "smap_find (compile_containers s') container_id = Some c'"
    using assms(2) c g f
    by (auto simp: ClaimJobForCompileContainer_def rbind_eq_Inr Let_def c'_def split: if_splits)
  have c'_fields: "cc_current_workspace_id c' = j_workspace_id j" "cc_tenant_id c' = cc_tenant_id c"
      "cc_user_id c' = cc_user_id c" "cc_worker_id c' = cc_worker_id c"
      "cc_workspace_generation c' = cc_workspace_generation c + (if cc_current_workspace_id c = j_workspace_id j then 0 else 1)"
    by (simp_all add: c'_def switch_workspace_def)
  have P: "j_status j = ''queued''" "j_tenant_id j = cc_tenant_id c" "j_user_id j = cc_user_id c"
    using l by (simp_all add: container_claim_pred_def claim_pred_def)
  have "\<exists>i j. i = Min (claimable (container_claim_pred region pool c) s)
            \<and> smap_find (jobs s) i = Some j \<and> j_status j = ''queued''
            \<and> job = taken_by worker_id j \<and> smap_find (jobs s') = (smap_find (jobs s))(i \<mapsto> job)"
    using l P(1) jobs' job by blast
  moreover have "j_tenant_id job = cc_tenant_id c" "j_user_id job = cc_user_id c" "j_workspace_id job = j_workspace_id j"
    using P by (simp_all add: job taken_by_def)
  ultimately show ?thesis using c find' g c'_fields by simp
qed

theorem ClaimJobForCompileContainer_isolated_witness:
  "\<exists>job s'. ClaimJobForCompileContainer ''wk'' ''r'' ''p'' ''c'' sample_store = Inr (Some job, s') \<and> j_user_id job = ''u2''"
proof -
  have "\<exists>job s'. ClaimJobForCompileContainer ''wk'' ''r'' ''p'' ''c'' sample_store = Inr (Some job, s')"
    by (simp add: ClaimJobForCompileContainer_def RequireWorker_def sample_store_def smap_contains_def
        container_claim_pred_def claim_pred_def queued_sample_def Let_def)
  then obtain job s' where r: "ClaimJobForCompileContainer ''wk'' ''r'' ''p'' ''c'' sample_store = Inr (Some job, s')"
    by blast
  from ClaimJobForCompileContainer_isolated [OF sample_store_wf r]
  have "j_user_id job = ''u2''" by (auto simp: sample_store_def)
  with r show ?thesis by blast
qed

end
