(* ===== verification/Transition.thy ===== *)
theory Transition
  imports Main
begin

text \<open>
  Runs of a transition system and the two ways the development reasons about them: an
  invariant, which may depend on the number of steps taken (for counters that wrap after
  \<open>bound\<close> steps), and a relation between an earlier and a later state that every single
  step respects.
\<close>

inductive runs :: "('s \<Rightarrow> 's \<Rightarrow> bool) \<Rightarrow> nat \<Rightarrow> 's \<Rightarrow> 's \<Rightarrow> bool" for step where
  runs_0: "runs step 0 s s"
| runs_Suc: "runs step n s t \<Longrightarrow> step t u \<Longrightarrow> runs step (Suc n) s u"

locale invariant_system =
  fixes step :: "'s \<Rightarrow> 's \<Rightarrow> bool"
    and inv :: "nat \<Rightarrow> 's \<Rightarrow> bool"
    and bound :: nat
  assumes inv_step: "inv n s \<Longrightarrow> n < bound \<Longrightarrow> step s t \<Longrightarrow> inv (Suc n) t"
begin

lemma inv_runs: "runs step n s t \<Longrightarrow> inv k s \<Longrightarrow> k + n \<le> bound \<Longrightarrow> inv (k + n) t"
proof (induction rule: runs.induct)
  case (runs_Suc n s t u)
  then show ?case using inv_step [of "k + n" t u] by simp
qed simp

end

locale evolving_system = invariant_system step inv bound
  for step :: "'s \<Rightarrow> 's \<Rightarrow> bool" and inv :: "nat \<Rightarrow> 's \<Rightarrow> bool" and bound :: nat +
  fixes evolves :: "'s \<Rightarrow> 's \<Rightarrow> bool"
  assumes evolves_refl: "evolves s s"
    and evolves_trans: "evolves s t \<Longrightarrow> evolves t u \<Longrightarrow> evolves s u"
    and evolves_step: "inv n s \<Longrightarrow> n < bound \<Longrightarrow> step s t \<Longrightarrow> evolves s t"
begin

lemma evolves_runs: "runs step n s t \<Longrightarrow> inv k s \<Longrightarrow> k + n \<le> bound \<Longrightarrow> evolves s t"
proof (induction rule: runs.induct)
  case (runs_Suc n s t u)
  then have "inv (k + n) t" by (auto intro: inv_runs)
  then have "evolves t u" using runs_Suc by (intro evolves_step [of "k + n"]) auto
  moreover have "evolves s t" using runs_Suc by simp
  ultimately show ?case by (rule evolves_trans [rotated])
qed (rule evolves_refl)

end

end
