(* ===== verification/Workspace_Steps.thy ===== *)
theory Workspace_Steps
  imports Workspace_Plane Memory_Laws Transition
begin

text \<open>
  The job and container protocol as a state machine. \<open>store_step\<close> lists what a workspace
  request can do to the in-memory store; every handler, run with the in-memory backend, is
  such a step (\<open>DispatchWorkspaceOperation_step\<close>), so the invariants and the evolution of
  jobs and containers proved for the steps hold for every sequence of requests.
\<close>

inductive store_step :: "store \<Rightarrow> store \<Rightarrow> bool" where
  skip: "store_step m m"
| next_id: "NextJobId m = (i, m') \<Longrightarrow> store_step m m'"
| submit: "NextJobId m = (j_job_id job, m1) \<Longrightarrow> j_status job = ''queued'' \<Longrightarrow> j_worker_id job = []
     \<Longrightarrow> store_step m (SubmitJob job m1)"
| cancel: "CancelJob i reason m = (r, m') \<Longrightarrow> store_step m m'"
| worker: "RegisterWorker w m = Inr (r, m') \<Longrightarrow> store_step m m'"
| container: "RegisterCompileContainer c m = Inr (r, m') \<Longrightarrow> cc_workspace_generation c = 1 \<Longrightarrow> store_step m m'"
| switch: "SwitchCompileContainerWorkspace cid w ws reason m = Inr (r, m') \<Longrightarrow> store_step m m'"
| claim: "ClaimJob w region pool m = Inr (r, m') \<Longrightarrow> store_step m m'"
| claim_container: "ClaimJobForCompileContainer w region pool cid m = Inr (r, m') \<Longrightarrow> store_step m m'"
| heartbeat: "HeartbeatJob i w msg m = (r, m') \<Longrightarrow> store_step m m'"
| complete: "CompleteJob i w status msg arts res m = (r, m') \<Longrightarrow> is_final_status status \<Longrightarrow> store_step m m'"

section \<open>Handlers are steps\<close>

named_theorems handler_defs

lemmas [handler_defs] = respond_def fail503_def escape_def using_result_def

definition mem_step :: "'db router \<Rightarrow> 'db router \<Rightarrow> bool" where
  "mem_step s t = store_step (rt_memory s) (rt_memory t)"

lemma mem_step_refl [simp, intro]: "mem_step s s"
  by (simp add: mem_step_def store_step.skip)

lemma mem_step_respond [simp]:
  "mem_step s (snd (respond st b s))" "mem_step s (snd (fail503 m1 m2 m3 m4 s))" "mem_step s (snd (escape e s))"
  by (simp_all add: handler_defs)

lemma using_result_step:
  "(\<And>x. r = Inr x \<Longrightarrow> mem_step s (snd (f x s))) \<Longrightarrow> mem_step s (snd (using_result r f s))"
  by (auto simp: using_result_def split: sum.splits)

lemma HandleSubmitJob_step: "mem_step s (snd (HandleSubmitJob None config rq s))"
proof (cases "ValidateSubmitJobRequest (rq_body rq)")
  case None
  obtain i m where i: "NextJobId (rt_memory s) = (i, m)" by (cases "NextJobId (rt_memory s)")
  show ?thesis
  proof (cases "BuildQueuedJobRecord (rq_body rq) config i")
    case (Inl e)
    with None i show ?thesis
      by (auto simp: HandleSubmitJob_def handler_defs mem_step_def intro: store_step.next_id)
  next
    case (Inr job)
    note f = BuildQueuedJobRecord_fields [OF Inr]
    have "store_step (rt_memory s) (SubmitJob job m)" by (rule store_step.submit) (simp_all add: i f)
    with None i Inr show ?thesis by (simp add: HandleSubmitJob_def handler_defs mem_step_def)
  qed
qed (simp add: HandleSubmitJob_def)

lemma HandleGetJob_step: "mem_step s (snd (HandleGetJob None rm s))"
  by (auto simp: HandleGetJob_def get_job_response_def handler_defs split: sum.splits option.splits)

lemma HandleGetJobEvents_step: "mem_step s (snd (HandleGetJobEvents None rm s))"
  by (auto simp: HandleGetJobEvents_def handler_defs split: sum.splits option.splits)

lemma HandleCancelJob_step: "mem_step s (snd (HandleCancelJob None rm rq s))"
  by (auto simp: HandleCancelJob_def handler_defs mem_step_def Let_def
      intro: store_step.cancel store_step.skip split: sum.splits option.splits prod.splits)

lemma HandleRegisterWorker_step: "mem_step s (snd (HandleRegisterWorker None rq s))"
  by (auto simp: HandleRegisterWorker_def handler_defs mem_step_def Let_def
      intro: store_step.worker store_step.skip split: sum.splits option.splits prod.splits)

lemma CreateFromRegistration_generation:
  "CreateFromRegistration body = Inr c \<Longrightarrow> cc_workspace_generation c = 1"
  by (auto simp: CreateFromRegistration_def rbind_eq_Inr)

lemma HandleRegisterCompileContainer_step: "mem_step s (snd (HandleRegisterCompileContainer None rq s))"
  by (auto simp: HandleRegisterCompileContainer_def register_container_memory_failure_def handler_defs mem_step_def
      intro: store_step.skip store_step.container [OF _ CreateFromRegistration_generation]
      split: sum.splits option.splits platform_error.splits)

lemma HandleGetCompileContainer_step: "mem_step s (snd (HandleGetCompileContainer None rm s))"
  by (auto simp: HandleGetCompileContainer_def handler_defs split: sum.splits option.splits)

lemma HandleSwitch_step: "mem_step s (snd (HandleSwitchCompileContainerWorkspace None rm rq s))"
  by (auto simp: HandleSwitchCompileContainerWorkspace_def switch_outcome_def handler_defs mem_step_def Let_def
      intro: store_step.switch store_step.skip split: sum.splits option.splits platform_error.splits)

lemma claim_via_memory_step: "mem_step s (snd (claim_via_memory w region pool container s))"
  by (auto simp: claim_via_memory_def claim_memory_failure_def handler_defs mem_step_def
      intro: store_step.claim store_step.claim_container store_step.skip
      split: sum.splits option.splits platform_error.splits)

lemma HandleClaimJob_step: "mem_step s (snd (HandleClaimJob None rq s))"
  by (auto simp: HandleClaimJob_def Let_def claim_via_memory_step split: option.splits)

lemma HandleHeartbeatJob_step: "mem_step s (snd (HandleHeartbeatJob None rm rq s))"
  by (auto simp: HandleHeartbeatJob_def handler_defs mem_step_def Let_def
      intro: store_step.heartbeat store_step.skip split: sum.splits option.splits prod.splits)

lemma complete_via_memory_step: "mem_step s (snd (complete_via_memory rm body s))"
  by (auto simp: complete_via_memory_def complete_with_def handler_defs mem_step_def
      intro: store_step.complete store_step.skip split: sum.splits option.splits prod.splits)

lemmas handler_steps = HandleSubmitJob_step HandleGetJob_step HandleGetJobEvents_step HandleCancelJob_step
  HandleRegisterWorker_step HandleRegisterCompileContainer_step HandleGetCompileContainer_step
  HandleSwitch_step HandleClaimJob_step HandleHeartbeatJob_step complete_via_memory_step

lemma DispatchWorkspaceOperation_step:
  "DispatchWorkspaceOperation None config rm rq s = Some (r, t) \<Longrightarrow> mem_step s t"
  using handler_steps [where s = s]
  by (auto simp: DispatchWorkspaceOperation_def Let_def HandleCompleteJob_def split: if_splits) (metis snd_conv)+

section \<open>The invariant\<close>

definition job_statuses :: "string set" where
  "job_statuses = {''queued'', ''running'', ''succeeded'', ''failed'', ''cancelled''}"

text \<open>
  What holds of a job record and its event log: the id is one the counter handed out, an
  unclaimed job has no worker, a running one has a registered worker, and the log starts
  with the submission, is about this job only and ends in the job's current status.
\<close>

definition log_ok :: "string \<Rightarrow> string \<Rightarrow> JobEventRecord list \<Rightarrow> bool" where
  "log_ok i status es = (es \<noteq> [] \<and> ev_event_id (hd es) = ''event-queued''
     \<and> (\<forall>e \<in> set es. ev_job_id e = i) \<and> ev_status (last es) = status)"

definition job_ok :: "store \<Rightarrow> string \<Rightarrow> PlatformJobRecord \<Rightarrow> bool" where
  "job_ok m i j = (j_job_id j = i \<and> (\<exists>n. n < next_job_sequence m \<and> i = job_id_of n)
     \<and> j_status j \<in> job_statuses
     \<and> (j_status j = ''queued'' \<longrightarrow> j_worker_id j = [])
     \<and> (j_status j = ''running'' \<longrightarrow> smap_contains (workers m) (j_worker_id j))
     \<and> log_ok i (j_status j) (GetJobEvents i m))"

definition container_ok :: "store \<Rightarrow> string \<Rightarrow> CompileContainerRecord \<Rightarrow> bool" where
  "container_ok m k c = (cc_container_id c = k \<and> smap_contains (workers m) (cc_worker_id c)
     \<and> 1 \<le> cc_workspace_generation c)"

definition store_inv :: "store \<Rightarrow> bool" where
  "store_inv m = (smap_wf (jobs m) \<and> smap_wf (events m) \<and> smap_wf (workers m) \<and> smap_wf (compile_containers m)
     \<and> (\<forall>i j. smap_find (jobs m) i = Some j \<longrightarrow> job_ok m i j)
     \<and> (\<forall>i. smap_contains (events m) i \<longrightarrow> smap_contains (jobs m) i)
     \<and> (\<forall>k c. smap_find (compile_containers m) k = Some c \<longrightarrow> container_ok m k c))"

lemma store_invD:
  assumes "store_inv m"
  shows "smap_wf (jobs m)" "smap_wf (events m)" "smap_wf (workers m)" "smap_wf (compile_containers m)"
    and "smap_find (jobs m) i = Some j \<Longrightarrow> job_ok m i j"
    and "smap_contains (events m) i \<Longrightarrow> smap_contains (jobs m) i"
    and "smap_find (compile_containers m) k = Some c \<Longrightarrow> container_ok m k c"
  using assms by (auto simp: store_inv_def)

lemma log_ok_append:
  assumes "log_ok i st es" and "ev_job_id e = i" and "ev_status e = st'"
  shows "log_ok i st' (es @ [e])"
  using assms by (auto simp: log_ok_def)

lemma contains_events_push [simp]:
  "smap_contains (events (push_event k e s)) i \<longleftrightarrow> i = k \<or> smap_contains (events s) i"
  by (simp add: smap_contains_def)

text \<open>Replacing a job's record and logging the event that says so.\<close>

definition update_job :: "string \<Rightarrow> PlatformJobRecord \<Rightarrow> JobEventRecord \<Rightarrow> store \<Rightarrow> store" where
  "update_job i j e m = push_event i e (m\<lparr>jobs := smap_put i j (jobs m)\<rparr>)"

lemma update_job_frame [simp]:
  "workers (update_job i j e m) = workers m"
  "compile_containers (update_job i j e m) = compile_containers m"
  "next_job_sequence (update_job i j e m) = next_job_sequence m"
  "jobs (update_job i j e m) = smap_put i j (jobs m)"
  "GetJobEvents k (update_job i j e m) = (if k = i then GetJobEvents i m @ [e] else GetJobEvents k m)"
  by (simp_all add: update_job_def)

lemma store_inv_update_job:
  assumes inv: "store_inv m" and old: "smap_find (jobs m) i = Some j0"
    and new: "j_job_id j = i" "j_status j \<in> job_statuses"
      "j_status j = ''queued'' \<longrightarrow> j_worker_id j = []"
      "j_status j = ''running'' \<longrightarrow> smap_contains (workers m) (j_worker_id j)"
    and e: "ev_job_id e = i" "ev_status e = j_status j"
  shows "store_inv (update_job i j e m)"
proof -
  note D = store_invD [OF inv]
  from D(5) [OF old] have ok: "job_ok m i j0" .
  then have lok: "log_ok i (j_status j) (GetJobEvents i m @ [e])"
    using e by (auto simp: job_ok_def intro: log_ok_append)
  have "job_ok (update_job i j e m) k j'" if k: "smap_find (smap_put i j (jobs m)) k = Some j'" for k j'
  proof (cases "k = i")
    case True
    with k ok lok new show ?thesis by (simp add: job_ok_def)
  next
    case False
    with k D(5) [of k j'] show ?thesis by (simp add: job_ok_def)
  qed
  moreover have "container_ok (update_job i j e m) k c" if "smap_find (compile_containers m) k = Some c" for k c
    using D(7) [OF that] by (simp add: container_ok_def)
  moreover have "smap_contains (events (update_job i j e m)) k \<Longrightarrow> smap_contains (jobs (update_job i j e m)) k" for k
    using D(6) by (auto simp: update_job_def)
  moreover have "smap_wf (events (update_job i j e m))" using D(2) by (simp add: update_job_def)
  ultimately show ?thesis using D(1,3,4) by (auto simp: store_inv_def)
qed

lemma store_inv_containers:
  assumes "store_inv m" and "container_ok m k c"
  shows "store_inv (m\<lparr>compile_containers := smap_put k c (compile_containers m)\<rparr>)"
  using assms by (auto simp: store_inv_def job_ok_def container_ok_def)

lemma store_inv_counter:
  assumes "store_inv m" and "next_job_sequence m \<le> n"
  shows "store_inv (m\<lparr>next_job_sequence := n\<rparr>)"
  using assms by (force simp: store_inv_def job_ok_def container_ok_def)

lemma inv_id: "store_inv m \<Longrightarrow> smap_find (jobs m) i = Some j \<Longrightarrow> j_job_id j = i"
  using store_invD(5) by (auto simp: job_ok_def)

lemma inv_job: "store_inv m \<Longrightarrow> smap_find (jobs m) i = Some j \<Longrightarrow> job_ok m i j"
  by (rule store_invD(5))

section \<open>Operations as updates\<close>

lemma CancelJob_update:
  assumes "store_inv m" and "CancelJob i reason m = (r, m')"
  shows "m' = m \<or> (\<exists>j e. smap_find (jobs m) i = Some j
     \<and> m' = update_job i (j\<lparr>j_status := ''cancelled'', j_finished_at := ''2026-04-24T00:01:00Z''\<rparr>) e m
     \<and> ev_job_id e = i \<and> ev_status e = ''cancelled'')"
  using assms
  by (auto simp: CancelJob_def Let_def update_job_def inv_id split: option.splits)

lemma HeartbeatJob_update:
  assumes "store_inv m" and "HeartbeatJob i w msg m = (r, m')"
  shows "m' = m \<or> (\<exists>j e. smap_find (jobs m) i = Some j \<and> m' = push_event i e m
     \<and> ev_job_id e = i \<and> ev_status e = j_status j)"
  using assms by (auto simp: HeartbeatJob_def inv_id split: option.splits if_splits)

lemma CompleteJob_update:
  assumes "store_inv m" and "CompleteJob i w status msg arts res m = (r, m')"
  shows "m' = m \<or> (\<exists>j e. smap_find (jobs m) i = Some j \<and> j_worker_id j = w
     \<and> m' = update_job i (j\<lparr>j_status := status, j_finished_at := ''2026-04-24T00:02:00Z'',
                            j_artifacts := j_artifacts j @ arts\<rparr>) e m
     \<and> ev_job_id e = i \<and> ev_status e = status)"
  using assms
  by (auto simp: CompleteJob_def Let_def update_job_def inv_id split: option.splits if_splits)

lemma ClaimJob_update:
  assumes "store_inv m" and "ClaimJob w region pool m = Inr (r, m')"
  shows "m' = m \<or> (\<exists>i j e. smap_find (jobs m) i = Some j \<and> j_status j = ''queued''
     \<and> smap_contains (workers m) w \<and> m' = update_job i (taken_by w j) e m
     \<and> ev_job_id e = i \<and> ev_status e = ''running'')"
proof (cases "List.find (claim_pred region pool) (jobs m)")
  case None
  with assms show ?thesis by (auto simp: ClaimJob_def rbind_eq_Inr)
next
  case (Some x)
  obtain i j where x: "x = (i, j)" by (cases x)
  note l = find_least(2) [OF store_invD(1) [OF assms(1)] Some [unfolded x]]
  from assms(2) Some have "smap_contains (workers m) w"
    and "m' = update_job i (taken_by w j) (running_event i ''job claimed by worker'') m"
    by (auto simp: ClaimJob_def RequireWorker_def rbind_eq_Inr Let_def update_job_def taken_by_def x)
  moreover have "j_status j = ''queued''" using l by (simp add: claim_pred_def)
  moreover have "ev_job_id (running_event i msg) = i" "ev_status (running_event i msg) = ''running''" for msg
    by (simp_all add: running_event_def)
  ultimately show ?thesis using l by blast
qed

lemma jobs_containers_commute:
  fixes m :: store
  shows "m\<lparr>jobs := js, compile_containers := cs\<rparr> = m\<lparr>compile_containers := cs, jobs := js\<rparr>"
  by (cases m) simp

text \<open>A claim through a container is a claim, possibly preceded by a switch of that container
  and the event that records it.\<close>

lemma ClaimJobForCompileContainer_update:
  assumes "store_inv m" and "ClaimJobForCompileContainer w region pool cid m = Inr (r, m')"
  shows "m' = m \<or> (\<exists>i j e. smap_find (jobs m) i = Some j \<and> j_status j = ''queued'' \<and> smap_contains (workers m) w
     \<and> ev_job_id e = i \<and> ev_status e = ''running''
     \<and> (m' = update_job i (taken_by w j) e m
        \<or> (\<exists>c reason. smap_find (compile_containers m) cid = Some c
             \<and> m' = push_event i e (update_job i (taken_by w j) (switched_event i)
                   (m\<lparr>compile_containers := smap_put cid (switch_workspace (j_workspace_id j) reason c)
                        (compile_containers m)\<rparr>)))))"
proof -
  from assms(2) obtain c where c: "smap_find (compile_containers m) cid = Some c"
    and w: "smap_contains (workers m) w"
    by (auto simp: ClaimJobForCompileContainer_def RequireWorker_def rbind_eq_Inr split: option.splits)
  show ?thesis
  proof (cases "List.find (container_claim_pred region pool c) (jobs m)")
    case None
    with assms c show ?thesis by (auto simp: ClaimJobForCompileContainer_def rbind_eq_Inr)
  next
    case (Some x)
    obtain i j where x: "x = (i, j)" by (cases x)
    note l = find_least(2) [OF store_invD(1) [OF assms(1)] Some [unfolded x]]
    then have q: "smap_find (jobs m) i = Some j" "j_status j = ''queued''"
      by (blast, simp add: container_claim_pred_def claim_pred_def)
    define e where "e = running_event i ''job claimed by compile container''"
    have e: "ev_job_id e = i" "ev_status e = ''running''" by (simp_all add: e_def running_event_def)
    show ?thesis
    proof (cases "cc_current_workspace_id c = j_workspace_id j")
      case True
      with assms(2) c Some have "m' = update_job i (taken_by w j) e m"
        by (auto simp: ClaimJobForCompileContainer_def RequireWorker_def rbind_eq_Inr Let_def
            update_job_def taken_by_def x e_def)
      with q w e show ?thesis by blast
    next
      case False
      with assms(2) c Some have "m' = push_event i e (update_job i (taken_by w j) (switched_event i)
          (m\<lparr>compile_containers := smap_put cid (switch_workspace (j_workspace_id j) ''claimJob'' c) (compile_containers m)\<rparr>))"
        by (auto simp: ClaimJobForCompileContainer_def RequireWorker_def rbind_eq_Inr Let_def
            update_job_def taken_by_def x e_def jobs_containers_commute)
      with q w e c show ?thesis by blast
    qed
  qed
qed

lemma RegisterCompileContainer_update:
  assumes "RegisterCompileContainer c m = Inr (r, m')"
  shows "m' = m\<lparr>compile_containers := smap_put (cc_container_id c) c (compile_containers m)\<rparr>"
    and "smap_contains (workers m) (cc_worker_id c)"
    and "smap_find (compile_containers m) (cc_container_id c) = Some c0 \<Longrightarrow>
           cc_tenant_id c0 = cc_tenant_id c \<and> cc_user_id c0 = cc_user_id c \<and> cc_worker_id c0 = cc_worker_id c"
  using assms
  by (auto simp: RegisterCompileContainer_def rbind_eq_Inr Let_def smap_contains_def split: option.splits if_splits)

lemma SwitchCompileContainerWorkspace_update:
  assumes "SwitchCompileContainerWorkspace cid w ws reason m = Inr (r, m')"
  shows "m' = m \<or> (\<exists>c. smap_find (compile_containers m) cid = Some c
     \<and> m' = m\<lparr>compile_containers := smap_put cid (switch_workspace ws reason c) (compile_containers m)\<rparr>)"
  using assms by (auto simp: SwitchCompileContainerWorkspace_def Let_def split: option.splits if_splits)

lemma RegisterWorker_update:
  assumes "RegisterWorker w m = Inr (r, m')"
  shows "\<exists>k. m' = m\<lparr>workers := smap_put k w (workers m)\<rparr>"
  using assms by (auto simp: RegisterWorker_def rbind_eq_Inr)

section \<open>Preservation\<close>

definition plane_inv :: "nat \<Rightarrow> store \<Rightarrow> bool" where
  "plane_inv n m = (store_inv m \<and> 1 \<le> unat (next_job_sequence m) \<and> unat (next_job_sequence m) \<le> n + 1)"

definition id_bound :: nat where
  "id_bound = 2 ^ 64 - 2"

lemma counter_step:
  assumes "plane_inv n m" and "n < id_bound"
  shows "next_job_sequence m < next_job_sequence m + 1"
    and "unat (next_job_sequence m + 1) = unat (next_job_sequence m) + 1"
proof -
  have "unat (next_job_sequence m) + 1 < 2 ^ 64" using assms by (simp add: plane_inv_def id_bound_def)
  then show u: "unat (next_job_sequence m + 1) = unat (next_job_sequence m) + 1"
    by (simp add: unat_word_ariths)
  show "next_job_sequence m < next_job_sequence m + 1" by (simp add: word_less_nat_alt u)
qed

lemma fresh_id:
  assumes "store_inv m"
  shows "smap_find (jobs m) (job_id_of (next_job_sequence m)) = None"
    and "GetJobEvents (job_id_of (next_job_sequence m)) m = []"
proof -
  let ?i = "job_id_of (next_job_sequence m)"
  show none: "smap_find (jobs m) ?i = None"
  proof (rule ccontr)
    assume "smap_find (jobs m) ?i \<noteq> None"
    then obtain j where "smap_find (jobs m) ?i = Some j" by blast
    from inv_job [OF assms this] show False by (auto simp: job_ok_def job_id_of_inj)
  qed
  then have "\<not> smap_contains (events m) ?i"
    using store_invD(6) [OF assms, of ?i] by (metis smap_contains_def)
  then show "GetJobEvents ?i m = []" by (simp add: GetJobEvents_def smap_get_def smap_contains_def)
qed

lemma store_inv_submit:
  assumes inv: "plane_inv n m" "n < id_bound" and next_i: "NextJobId m = (j_job_id job, m1)"
    and job: "j_status job = ''queued''" "j_worker_id job = []"
  shows "store_inv (SubmitJob job m1)"
proof -
  let ?i = "job_id_of (next_job_sequence m)"
  have si: "store_inv m" using inv by (simp add: plane_inv_def)
  note c = counter_step [OF inv] and f = fresh_id [OF si] and D = store_invD [OF si]
  have i: "j_job_id job = ?i" and m1: "m1 = m\<lparr>next_job_sequence := next_job_sequence m + 1\<rparr>"
    using next_i by (auto simp: NextJobId_eq)
  define e where "e = \<lparr>ev_event_id = ''event-queued'', ev_job_id = ?i, ev_status = ''queued'',
        ev_message = ''job queued'', ev_created_at = default_created_at\<rparr>"
  have t: "SubmitJob job m1 = update_job ?i job e m1" by (simp add: SubmitJob_def update_job_def e_def i)
  have si1: "store_inv m1" unfolding m1 using si c(1) by (intro store_inv_counter) auto
  note D1 = store_invD [OF si1]
  have e1: "GetJobEvents ?i m1 = []" using f(2) by (simp add: m1)
  have "job_ok (update_job ?i job e m1) k j" if k: "smap_find (smap_put ?i job (jobs m1)) k = Some j" for k j
  proof (cases "k = ?i")
    case True
    have "next_job_sequence m < next_job_sequence (update_job ?i job e m1)" using c(1) by (simp add: m1)
    with True k e1 i job show ?thesis by (auto simp: job_ok_def log_ok_def e_def job_statuses_def)
  next
    case False
    with k D1(5) [of k j] show ?thesis by (simp add: job_ok_def)
  qed
  moreover have "smap_contains (events (update_job ?i job e m1)) k \<Longrightarrow> smap_contains (jobs (update_job ?i job e m1)) k" for k
    using D1(6) by (auto simp: update_job_def)
  moreover have "container_ok (update_job ?i job e m1) k c'" if "smap_find (compile_containers m1) k = Some c'" for k c'
    using D1(7) [OF that] by (simp add: container_ok_def)
  moreover have "smap_wf (events (update_job ?i job e m1))" using D1(2) by (simp add: update_job_def)
  ultimately show ?thesis using D1(1,3,4) unfolding t by (auto simp: store_inv_def)
qed

lemma store_inv_push:
  assumes inv: "store_inv m" and j: "smap_find (jobs m) i = Some j" and e: "ev_job_id e = i" "ev_status e = j_status j"
  shows "store_inv (push_event i e m)"
proof -
  have same: "smap_find (smap_put i j (jobs m)) = smap_find (jobs m)" using j by (auto simp: smap_find_put_fun)
  have "smap_put i j (jobs m) = jobs m"
    using store_invD(1) [OF inv] same by (intro smap_ext) auto
  then have "push_event i e m = update_job i j e m" by (simp add: update_job_def)
  moreover have "store_inv (update_job i j e m)"
    using inv_job [OF inv j] inv j e by (intro store_inv_update_job) (auto simp: job_ok_def)
  ultimately show ?thesis by simp
qed

lemma store_inv_worker:
  assumes "store_inv m"
  shows "store_inv (m\<lparr>workers := smap_put k w (workers m)\<rparr>)"
  using assms by (auto simp: store_inv_def job_ok_def container_ok_def)

lemma store_inv_claim:
  assumes "store_inv m" "smap_find (jobs m) i = Some j" "j_status j = ''queued''"
    "smap_contains (workers m) w" "ev_job_id e = i" "ev_status e = ''running''"
  shows "store_inv (update_job i (taken_by w j) e m)"
  using assms inv_id [OF assms(1,2)]
  by (intro store_inv_update_job [OF assms(1,2)]) (auto simp: taken_by_def job_statuses_def)

lemma container_ok_switch: "container_ok m k c \<Longrightarrow> container_ok m k (switch_workspace ws reason c)"
  by (simp add: container_ok_def switch_workspace_def)

lemma store_inv_step:
  assumes "plane_inv n m" and "n < id_bound" and "store_step m m'"
  shows "store_inv m'"
proof -
  have si: "store_inv m" using assms(1) by (simp add: plane_inv_def)
  note D = store_invD [OF si]
  from assms(3) show ?thesis
  proof cases
    case skip
    with si show ?thesis by simp
  next
    case (next_id i)
    with si counter_step(1) [OF assms(1,2)] show ?thesis by (auto simp: NextJobId_eq intro!: store_inv_counter)
  next
    case (submit job m1)
    with assms show ?thesis by (auto intro: store_inv_submit)
  next
    case (cancel i reason r)
    from CancelJob_update [OF si cancel] show ?thesis
      using si inv_id [OF si] by (auto intro!: store_inv_update_job simp: job_statuses_def)
  next
    case (worker w r)
    from RegisterWorker_update [OF worker] show ?thesis using si by (auto intro: store_inv_worker)
  next
    case (container c r)
    note u = RegisterCompileContainer_update [OF container(1)]
    show ?thesis unfolding u(1) using si u(2) container(2)
      by (intro store_inv_containers) (simp_all add: container_ok_def)
  next
    case (switch cid w ws reason r)
    from SwitchCompileContainerWorkspace_update [OF switch] show ?thesis
      using si D(7) by (auto intro!: store_inv_containers container_ok_switch)
  next
    case (claim w region pool r)
    from ClaimJob_update [OF si claim] show ?thesis using si by (auto intro: store_inv_claim)
  next
    case (claim_container w region pool cid r)
    from ClaimJobForCompileContainer_update [OF si claim_container] show ?thesis
    proof (elim disjE exE conjE)
      fix i j c reason and e :: JobEventRecord
      assume h: "smap_find (jobs m) i = Some j" "j_status j = ''queued''" "smap_contains (workers m) w"
        "ev_job_id e = i" "ev_status e = ''running''" "smap_find (compile_containers m) cid = Some c"
      define mc where "mc = m\<lparr>compile_containers := smap_put cid (switch_workspace (j_workspace_id j) reason c) (compile_containers m)\<rparr>"
      have "store_inv mc" unfolding mc_def using si D(7) h(6) by (auto intro!: store_inv_containers container_ok_switch)
      then have u: "store_inv (update_job i (taken_by w j) (switched_event i) mc)"
        using h by (intro store_inv_claim) (simp_all add: mc_def switched_event_def)
      assume "m' = push_event i e (update_job i (taken_by w j) (switched_event i)
                (m\<lparr>compile_containers := smap_put cid (switch_workspace (j_workspace_id j) reason c) (compile_containers m)\<rparr>))"
      then show ?thesis
        using h u by (auto simp: mc_def taken_by_def intro!: store_inv_push [where j = "taken_by w j"])
    qed (use si in \<open>auto intro: store_inv_claim\<close>)
  next
    case (heartbeat i w msg r)
    from HeartbeatJob_update [OF si heartbeat] show ?thesis using si by (auto intro: store_inv_push)
  next
    case (complete i w status msg arts res r)
    from CompleteJob_update [OF si complete(1)] show ?thesis
      using si inv_id [OF si] complete(2)
      by (auto intro!: store_inv_update_job simp: job_statuses_def is_final_status_def)
  qed
qed

end
