(* ===== verification/Workspace_Runs.thy ===== *)
theory Workspace_Runs
  imports Workspace_Steps
begin

text \<open>
  Sequences of workspace requests handled by a router with the in-memory store. The contracts
  of \<open>Transition\<close> are interpreted on the handlers: the invariant of \<open>Workspace_Steps\<close> holds
  after any run from the initial state, and jobs, event logs and container bindings evolve
  in one direction only. Runs are bounded by \<open>2 ^ 64 - 2\<close> requests, after which the 64-bit job
  counter would wrap.
\<close>

section \<open>Evolution\<close>

definition job_evolves :: "PlatformJobRecord \<Rightarrow> PlatformJobRecord \<Rightarrow> bool" where
  "job_evolves j k =
     (j_job_id k = j_job_id j \<and> j_tenant_id k = j_tenant_id j \<and> j_user_id k = j_user_id j
      \<and> j_workspace_id k = j_workspace_id j \<and> j_action k = j_action j \<and> j_job_request k = j_job_request j
      \<and> (j_status j \<noteq> ''queued'' \<longrightarrow> j_status k \<noteq> ''queued'' \<and> j_worker_id k = j_worker_id j)
      \<and> (\<exists>arts. j_artifacts k = j_artifacts j @ arts))"

definition same_binding :: "CompileContainerRecord \<Rightarrow> CompileContainerRecord \<Rightarrow> bool" where
  "same_binding c d = (cc_tenant_id d = cc_tenant_id c \<and> cc_user_id d = cc_user_id c \<and> cc_worker_id d = cc_worker_id c)"

definition store_evolves :: "store \<Rightarrow> store \<Rightarrow> bool" where
  "store_evolves m m' =
     ((\<forall>i j. smap_find (jobs m) i = Some j \<longrightarrow> (\<exists>k. smap_find (jobs m') i = Some k \<and> job_evolves j k))
      \<and> (\<forall>i. \<exists>es. GetJobEvents i m' = GetJobEvents i m @ es)
      \<and> (\<forall>k c. smap_find (compile_containers m) k = Some c \<longrightarrow>
            (\<exists>d. smap_find (compile_containers m') k = Some d \<and> same_binding c d)))"

lemma job_evolves_refl [simp]: "job_evolves j j"
  by (simp add: job_evolves_def)

lemma job_evolves_trans: "job_evolves j k \<Longrightarrow> job_evolves k l \<Longrightarrow> job_evolves j l"
  by (auto simp: job_evolves_def)

lemma same_binding_refl [simp]: "same_binding c c"
  by (simp add: same_binding_def)

lemma same_binding_switch [simp]: "same_binding c (switch_workspace ws reason c)"
  by (simp add: same_binding_def switch_workspace_def)

lemma store_evolves_refl [simp]: "store_evolves m m"
  by (simp add: store_evolves_def)

lemma store_evolves_trans: "store_evolves a b \<Longrightarrow> store_evolves b c \<Longrightarrow> store_evolves a c"
  unfolding store_evolves_def same_binding_def
  by (intro conjI) (metis job_evolves_trans, metis append_assoc, metis)

lemma evolves_update_job:
  "smap_find (jobs m) i = Some j \<Longrightarrow> job_evolves j k \<Longrightarrow> store_evolves m (update_job i k e m)"
  by (auto simp: store_evolves_def)

lemma evolves_push: "store_evolves m (push_event i e m)"
  by (auto simp: store_evolves_def)

lemma evolves_container:
  "(\<And>c. smap_find (compile_containers m) k = Some c \<Longrightarrow> same_binding c d) \<Longrightarrow>
     store_evolves m (m\<lparr>compile_containers := smap_put k d (compile_containers m)\<rparr>)"
  by (auto simp: store_evolves_def)

lemma job_evolves_taken: "j_status j = ''queued'' \<Longrightarrow> job_evolves j (taken_by w j)"
  by (simp add: job_evolves_def taken_by_def)

lemma evolves_claim_container:
  assumes "smap_find (jobs m) i = Some j" and "j_status j = ''queued''"
    and "smap_find (compile_containers m) cid = Some c"
  shows "store_evolves m (push_event i e (update_job i (taken_by w j) e'
           (m\<lparr>compile_containers := smap_put cid (switch_workspace ws reason c) (compile_containers m)\<rparr>)))"
proof -
  let ?mc = "m\<lparr>compile_containers := smap_put cid (switch_workspace ws reason c) (compile_containers m)\<rparr>"
  have "store_evolves m ?mc" using assms(3) by (intro evolves_container) auto
  moreover have "store_evolves ?mc (update_job i (taken_by w j) e' ?mc)"
    using assms(1,2) by (intro evolves_update_job [where j = j]) (auto intro: job_evolves_taken)
  ultimately show ?thesis by (blast intro: store_evolves_trans evolves_push)
qed

lemma store_evolves_submit:
  assumes "store_inv m" and "NextJobId m = (j_job_id job, m1)"
  shows "store_evolves m (SubmitJob job m1)"
proof -
  have i: "j_job_id job = job_id_of (next_job_sequence m)" "m1 = m\<lparr>next_job_sequence := next_job_sequence m + 1\<rparr>"
    using assms(2) by (auto simp: NextJobId_eq)
  with fresh_id [OF assms(1)] show ?thesis by (auto simp: store_evolves_def SubmitJob_def)
qed

lemma store_evolves_step:
  assumes si: "store_inv m" and "store_step m m'"
  shows "store_evolves m m'"
  using assms(2)
proof cases
  case (next_id i)
  then show ?thesis by (auto simp: NextJobId_eq store_evolves_def)
next
  case (submit job m1)
  with si show ?thesis by (auto intro: store_evolves_submit)
next
  case (cancel i reason r)
  from CancelJob_update [OF si cancel] show ?thesis
    by (auto intro!: evolves_update_job simp: job_evolves_def)
next
  case (worker w r)
  from RegisterWorker_update [OF worker] show ?thesis by (auto simp: store_evolves_def)
next
  case (container c r)
  note u = RegisterCompileContainer_update [OF container(1)]
  show ?thesis unfolding u(1) using u(3) by (intro evolves_container) (auto simp: same_binding_def)
next
  case (switch cid w ws reason r)
  from SwitchCompileContainerWorkspace_update [OF switch] show ?thesis by (auto intro!: evolves_container)
next
  case (claim w region pool r)
  from ClaimJob_update [OF si claim] show ?thesis by (auto intro: evolves_update_job job_evolves_taken)
next
  case (claim_container w region pool cid r)
  from ClaimJobForCompileContainer_update [OF si claim_container] show ?thesis
    by (auto intro: evolves_update_job job_evolves_taken evolves_claim_container)
next
  case (heartbeat i w msg r)
  from HeartbeatJob_update [OF si heartbeat] show ?thesis by (auto intro: evolves_push)
next
  case (complete i w status msg arts res r)
  from CompleteJob_update [OF si complete(1)] show ?thesis
    using complete(2) by (auto intro!: evolves_update_job simp: job_evolves_def is_final_status_def)
qed simp

section \<open>Runs of requests\<close>

definition plane_step :: "PlatformConfig \<Rightarrow> 'db router \<Rightarrow> 'db router \<Rightarrow> bool" where
  "plane_step config s t = (\<exists>rm rq r. DispatchWorkspaceOperation None config rm rq s = Some (r, t))"

lemma plane_step_store: "plane_step config s t \<Longrightarrow> store_step (rt_memory s) (rt_memory t)"
  by (auto simp: plane_step_def mem_step_def dest: DispatchWorkspaceOperation_step)

lemma counter_of_step:
  assumes si: "store_inv m" and "store_step m m'"
  shows "next_job_sequence m' = next_job_sequence m \<or> next_job_sequence m' = next_job_sequence m + 1"
  using assms(2)
proof cases
  case (cancel i reason r)
  from CancelJob_update [OF si cancel] show ?thesis by auto
next
  case (worker w r)
  from RegisterWorker_update [OF worker] show ?thesis by auto
next
  case (container c r)
  from RegisterCompileContainer_update(1) [OF container(1)] show ?thesis by simp
next
  case (switch cid w ws reason r)
  from SwitchCompileContainerWorkspace_update [OF switch] show ?thesis by auto
next
  case (claim w region pool r)
  from ClaimJob_update [OF si claim] show ?thesis by auto
next
  case (claim_container w region pool cid r)
  from ClaimJobForCompileContainer_update [OF si claim_container] show ?thesis by auto
next
  case (heartbeat i w msg r)
  from HeartbeatJob_update [OF si heartbeat] show ?thesis by auto
next
  case (complete i w status msg arts res r)
  from CompleteJob_update [OF si complete(1)] show ?thesis by auto
qed (auto simp: NextJobId_eq SubmitJob_def)

interpretation plane: evolving_system "plane_step config" "\<lambda>n s. plane_inv n (rt_memory s)" id_bound
    "\<lambda>s t. store_evolves (rt_memory s) (rt_memory t)" for config :: PlatformConfig
proof unfold_locales
  fix n and s t :: "'a router"
  assume inv: "plane_inv n (rt_memory s)" "n < id_bound" and step: "plane_step config s t"
  then have st: "store_step (rt_memory s) (rt_memory t)" by (intro plane_step_store)
  from inv have si: "store_inv (rt_memory s)" by (simp add: plane_inv_def)
  show "plane_inv (Suc n) (rt_memory t)"
    using store_inv_step [OF inv st] counter_of_step [OF si st] counter_step(2) [OF inv] inv(1)
    by (auto simp: plane_inv_def)
  show "store_evolves (rt_memory s) (rt_memory t)" using si st by (rule store_evolves_step)
qed (auto intro: store_evolves_trans)

lemma initial_router_inv: "plane_inv 0 (rt_memory (initial_router config db))"
  by (simp add: plane_inv_def initial_router_def RecordMirrorState_def empty_store_def store_inv_def
      smap_wf_simps smap_contains_def)

lemma initial_runs:
  assumes "runs (plane_step config) n (initial_router config db) s" and "n \<le> id_bound"
  shows "plane_inv n (rt_memory s)"
  using plane.inv_runs [OF assms(1) initial_router_inv] assms(2) by simp

text \<open>\<^bold>\<open>C1.\<close> After any sequence of workspace requests the store is consistent: every job sits under
  its own id, an id handed out before; its status is one of the five, it has no worker while
  queued and a registered one while running; its event log starts with the submission,
  is about that job only and ends with the job's current status; no log exists without its
  job; and every compile container sits under its own id, belongs to a registered worker and
  has a positive generation.\<close>

theorem workspace_invariant:
  assumes "runs (plane_step config) n (initial_router config db) s" and "n \<le> id_bound"
  shows "store_inv (rt_memory s)"
  using initial_runs [OF assms] by (simp add: plane_inv_def)

text \<open>A concrete run: a worker and a container register, a job is submitted and claimed through
  the container.\<close>

definition serve :: "PlatformConfig \<Rightarrow> 'db router \<Rightarrow> string \<times> json \<Rightarrow> 'db router" where
  "serve config s q = (case q of (operation, body) \<Rightarrow>
     (case DispatchWorkspaceOperation None config
             \<lparr>rm_route = \<lparr>rs_operation_id = operation, rs_method = Post, rs_path = [], rs_internal = False\<rparr>,
              rm_parameters = [(''job_id'', job_id_of 1)]\<rparr>
             \<lparr>rq_method = Post, rq_path = [], rq_headers = [], rq_body = body, rq_identity = None\<rparr> s of
        None \<Rightarrow> s
      | Some (_, t) \<Rightarrow> t))"

definition sample_worker :: json where
  "sample_worker = json_obj [(''worker_id'', JString ''wk''), (''region'', JString ''local-dev''),
     (''worker_pool_key'', JString ''linux/x86_64/binary/stable/minimal''), (''capacity'', JInt 1),
     (''compile_container_id'', JString ''c1'')]"

definition sample_container :: json where
  "sample_container = json_obj [(''container_id'', JString ''c1''), (''worker_id'', JString ''wk''),
     (''tenant_id'', JString ''t1''), (''user_id'', JString ''u1''), (''workspace_id'', JString ''w0''),
     (''region'', JString ''local-dev''), (''worker_pool_key'', JString ''linux/x86_64/binary/stable/minimal''),
     (''capacity'', JInt 1)]"

definition sample_requests :: "(string \<times> json) list" where
  "sample_requests = [(''registerWorker'', sample_worker), (''registerCompileContainer'', sample_container),
     (''submitJob'', sample_submission), (''claimJob'', sample_worker)]"

definition served :: "nat \<Rightarrow> unit router" where
  "served n = foldl (serve default_config) (initial_router default_config ()) (take n sample_requests)"

lemma serve_runs:
  "\<exists>n \<le> length qs. runs (plane_step config) n s (foldl (serve config) s qs)"
proof (induction qs rule: rev_induct)
  case (snoc q qs)
  then obtain n where n: "n \<le> length qs" "runs (plane_step config) n s (foldl (serve config) s qs)" by blast
  let ?t = "foldl (serve config) s qs"
  have "serve config ?t q = ?t \<or> plane_step config ?t (serve config ?t q)"
    by (auto simp: serve_def plane_step_def split: prod.splits option.splits)
  then show ?case
  proof
    assume "serve config ?t q = ?t"
    with n show ?thesis by (intro exI [of _ n]) simp
  next
    assume "plane_step config ?t (serve config ?t q)"
    with n show ?thesis by (intro exI [of _ "Suc n"]) (simp add: runs_Suc)
  qed
qed (auto intro: runs_0)

lemma served_runs:
  "\<exists>n \<le> 4. runs (plane_step default_config) n (initial_router default_config ()) (served k)"
proof -
  obtain n where "n \<le> length (take k sample_requests)"
    "runs (plane_step default_config) n (initial_router default_config ()) (served k)"
    using serve_runs [of "take k sample_requests"] unfolding served_def by blast
  moreover have "length (take k sample_requests) \<le> 4" by (simp add: sample_requests_def)
  ultimately show ?thesis by (meson order_trans)
qed

lemma served_continues:
  assumes "k \<le> l"
  shows "\<exists>n \<le> 4. runs (plane_step default_config) n (served k) (served l)"
proof -
  define qs where "qs = drop k (take l sample_requests)"
  have "take l sample_requests = take k sample_requests @ qs"
    using assms by (simp add: qs_def drop_take take_add [symmetric])
  then have "served l = foldl (serve default_config) (served k) qs" by (simp add: served_def)
  moreover have "length qs \<le> 4" by (simp add: qs_def sample_requests_def)
  ultimately show ?thesis using serve_runs [of qs] by (metis order_trans)
qed

theorem workspace_invariant_witness: "store_inv (rt_memory (served 4))"
proof -
  obtain n where n: "n \<le> 4" "runs (plane_step default_config) n (initial_router default_config ()) (served 4)"
    using served_runs by blast
  show ?thesis by (rule workspace_invariant [OF n(2)]) (use n(1) in \<open>simp add: id_bound_def\<close>)
qed

text \<open>\<^bold>\<open>C5.\<close> A job is claimed at most once: from any reachable state on, whatever requests follow,
  a job keeps its tenant, user, workspace, action and request, its artifact list only grows,
  and once it has left the queue it never returns to it and never changes worker.\<close>

theorem job_claimed_at_most_once:
  assumes "runs (plane_step config) k (initial_router config db) s"
    and "runs (plane_step config) n s t" and "k + n \<le> id_bound"
    and "smap_find (jobs (rt_memory s)) i = Some j"
  shows "\<exists>j'. smap_find (jobs (rt_memory t)) i = Some j' \<and> job_evolves j j'
     \<and> (j_status j \<noteq> ''queued'' \<longrightarrow> j_status j' \<noteq> ''queued'' \<and> j_worker_id j' = j_worker_id j)"
proof -
  have "store_evolves (rt_memory s) (rt_memory t)"
    using plane.evolves_runs [OF assms(2) initial_runs [OF assms(1)]] assms(3) by simp
  with assms(4) obtain k where "smap_find (jobs (rt_memory t)) i = Some k" "job_evolves j k"
    unfolding store_evolves_def by blast
  then show ?thesis by (auto simp: job_evolves_def)
qed

theorem job_claimed_at_most_once_witness:
  "\<exists>j j'. smap_find (jobs (rt_memory (served 3))) (job_id_of 1) = Some j
     \<and> smap_find (jobs (rt_memory (served 4))) (job_id_of 1) = Some j' \<and> job_evolves j j'
     \<and> j_status j = ''queued'' \<and> j_status j' = ''running''"
proof -
  have "map_option j_status (smap_find (jobs (rt_memory (served 3))) (job_id_of 1)) = Some ''queued''"
    and "map_option j_status (smap_find (jobs (rt_memory (served 4))) (job_id_of 1)) = Some ''running''"
    by code_simp+
  then obtain j j' where j: "smap_find (jobs (rt_memory (served 3))) (job_id_of 1) = Some j" "j_status j = ''queued''"
    and j': "smap_find (jobs (rt_memory (served 4))) (job_id_of 1) = Some j'" "j_status j' = ''running''" by auto
  obtain k n where k: "k \<le> 4" "runs (plane_step default_config) k (initial_router default_config ()) (served 3)"
    and n: "n \<le> 4" "runs (plane_step default_config) n (served 3) (served 4)"
    using served_runs [of 3] served_continues [of 3 4] by auto
  have "k + n \<le> id_bound" using k(1) n(1) by (simp add: id_bound_def)
  from job_claimed_at_most_once [OF k(2) n(2) this j(1)] j j' show ?thesis by auto
qed

text \<open>\<^bold>\<open>C6.\<close> A compile container is bound for life: once registered it stays registered, and no
  sequence of requests, re-registration included, changes its tenant, its user or the
  worker that owns it.\<close>

theorem container_binding_permanent:
  assumes "runs (plane_step config) k (initial_router config db) s"
    and "runs (plane_step config) n s t" and "k + n \<le> id_bound"
    and "smap_find (compile_containers (rt_memory s)) cid = Some c"
  shows "\<exists>d. smap_find (compile_containers (rt_memory t)) cid = Some d
     \<and> cc_tenant_id d = cc_tenant_id c \<and> cc_user_id d = cc_user_id c \<and> cc_worker_id d = cc_worker_id c"
proof -
  have "store_evolves (rt_memory s) (rt_memory t)"
    using plane.evolves_runs [OF assms(2) initial_runs [OF assms(1)]] assms(3) by simp
  with assms(4) show ?thesis by (auto simp: store_evolves_def same_binding_def)
qed

theorem container_binding_permanent_witness:
  "\<exists>d. smap_find (compile_containers (rt_memory (served 4))) ''c1'' = Some d
     \<and> cc_tenant_id d = ''t1'' \<and> cc_user_id d = ''u1'' \<and> cc_worker_id d = ''wk''"
proof -
  have "map_option (\<lambda>c. (cc_tenant_id c, cc_user_id c, cc_worker_id c))
          (smap_find (compile_containers (rt_memory (served 2))) ''c1'') = Some (''t1'', ''u1'', ''wk'')" by code_simp
  then obtain c where c: "smap_find (compile_containers (rt_memory (served 2))) ''c1'' = Some c"
    "cc_tenant_id c = ''t1''" "cc_user_id c = ''u1''" "cc_worker_id c = ''wk''" by auto
  obtain k n where k: "k \<le> 4" "runs (plane_step default_config) k (initial_router default_config ()) (served 2)"
    and n: "n \<le> 4" "runs (plane_step default_config) n (served 2) (served 4)"
    using served_runs [of 2] served_continues [of 2 4] by auto
  have "k + n \<le> id_bound" using k(1) n(1) by (simp add: id_bound_def)
  from container_binding_permanent [OF k(2) n(2) this c(1)] c show ?thesis by auto
qed

text \<open>\<^bold>\<open>C7.\<close> Event logs are append-only: the events a client has read for a job are a prefix of what
  it reads after any further requests.\<close>

theorem job_events_append_only:
  assumes "runs (plane_step config) k (initial_router config db) s"
    and "runs (plane_step config) n s t" and "k + n \<le> id_bound"
  shows "prefix (GetJobEvents i (rt_memory s)) (GetJobEvents i (rt_memory t))"
proof -
  have "store_evolves (rt_memory s) (rt_memory t)"
    using plane.evolves_runs [OF assms(2) initial_runs [OF assms(1)]] assms(3) by simp
  then show ?thesis by (auto simp: store_evolves_def prefix_def)
qed

theorem job_events_append_only_witness:
  "prefix (GetJobEvents (job_id_of 1) (rt_memory (served 3))) (GetJobEvents (job_id_of 1) (rt_memory (served 4)))"
proof -
  obtain k n where k: "k \<le> 4" "runs (plane_step default_config) k (initial_router default_config ()) (served 3)"
    and n: "n \<le> 4" "runs (plane_step default_config) n (served 3) (served 4)"
    using served_runs [of 3] served_continues [of 3 4] by auto
  have "k + n \<le> id_bound" using k(1) n(1) by (simp add: id_bound_def)
  from job_events_append_only [OF k(2) n(2) this] show ?thesis .
qed

section \<open>What the in-memory backend does not refuse\<close>


end
