(* ===== verification/Platform_Router.thy ===== *)
theory Platform_Router
  imports Registry_Tokens Workspace_Runs
begin

text \<open>
  The router (\<^verbatim>\<open>PlatformService/Router.cpp\<close>) and the handlers of \<^verbatim>\<open>OpsRoutes.cpp\<close> that use no files:
  admission, rate limiting, metrics and the dispatch of every operation. Handlers that are
  not modelled are the fields of \<open>operations\<close>, arbitrary functions on the router's state; the
  theorems hold whatever they do. An environment holds what a request reads from outside:
  that of the registry handlers, the clock in seconds, whether the build has libpq and the
  message of an exception.
\<close>

record 'db operations =
  op_HandleListDocumentationGovernance :: "'db handler"
  op_HandlePlanDocumentationChange :: "HttpRequest \<Rightarrow> 'db handler"
  op_HandleListEcosystemRepositories :: "'db handler"
  op_HandlePlanEcosystemRelease :: "HttpRequest \<Rightarrow> 'db handler"
  op_HandleRegistryStatus :: "'db handler"
  op_HandleRegistryDescriptor :: "'db handler"
  op_HandlePublishRelease :: "HttpRequest \<Rightarrow> 'db handler"
  op_HandleVerifyRegistry :: "HttpRequest \<Rightarrow> 'db handler"
  op_HandleGetPackage :: "RouteMatch \<Rightarrow> 'db handler"
  op_HandleListPackageReleases :: "RouteMatch \<Rightarrow> 'db handler"
  op_HandleGetPackageRelease :: "RouteMatch \<Rightarrow> 'db handler"
  op_HandleSetPackageReleaseYanked :: "RouteMatch \<Rightarrow> HttpRequest \<Rightarrow> bool \<Rightarrow> 'db handler"
  op_HandleListRepositories :: "'db handler"
  op_HandleListRepositoryVersions :: "RouteMatch \<Rightarrow> 'db handler"
  op_HandleGetPublication :: "RouteMatch \<Rightarrow> 'db handler"
  op_HandleVerifyPublication :: "RouteMatch \<Rightarrow> HttpRequest \<Rightarrow> 'db handler"
  op_HandleListDistributions :: "'db handler"
  op_HandlePromoteDistribution :: "RouteMatch \<Rightarrow> HttpRequest \<Rightarrow> 'db handler"
  op_HandleRollbackDistribution :: "RouteMatch \<Rightarrow> HttpRequest \<Rightarrow> 'db handler"
  op_HandleListReleaseChannels :: "'db handler"
  op_HandleRolloutReleaseChannel :: "RouteMatch \<Rightarrow> HttpRequest \<Rightarrow> 'db handler"
  op_HandleCreateRecoverySnapshot :: "HttpRequest \<Rightarrow> 'db handler"
  op_HandleListRecoverySnapshots :: "'db handler"
  op_HandleRestoreRecoverySnapshot :: "RouteMatch \<Rightarrow> HttpRequest \<Rightarrow> 'db handler"
  op_HandleStorageStatus :: "'db handler"

record router_env =
  ev_registry :: reg_env
  ev_now_seconds :: int
  ev_libpq :: bool
  ev_what :: "platform_error \<Rightarrow> string"

section \<open>Admission\<close>

definition RequireIdentity :: "PlatformConfig \<Rightarrow> RouteMatch \<Rightarrow> HttpRequest \<Rightarrow> HttpResponse" where
  "RequireIdentity config rm request =
     (let operation = rs_operation_id (rm_route rm); internal = rs_internal (rm_route rm);
          ok = JsonResponse 200 JNull
      in if operation = ''exchangeExternalIdentity'' then ok
         else if \<not> mt_required (cfg_mtls config) then ok
         else if rq_identity request = None \<and> internal \<and> IsRegistryTokenCapableOperation operation
                 \<and> RegistryTokenFromHeaders (rq_headers request) \<noteq> None
         then ok
         else (case rq_identity request of
            None \<Rightarrow> FailureResponse 401 ''mTLS identity is required'' ''missing client certificate identity'' ''AuthError'' operation 2
          | Some identity \<Rightarrow>
              if internal \<and> \<not> IsInternalRole identity
              then FailureResponse 403 ''mTLS identity is not authorized'' ''internal route requires a service role'' ''AuthError'' operation 2
              else if \<not> IsAuthorizedForOperation operation identity
              then FailureResponse 403 ''mTLS identity is not authorized'' ''identity role is not allowed for this operation'' ''AuthError'' operation 2
              else ok))"

section \<open>Node and workgroup handlers\<close>

definition LooksLikePostgresDsn :: "string \<Rightarrow> bool" where
  "LooksLikePostgresDsn v = (starts_with v ''postgres://'' \<or> starts_with v ''postgresql://'' \<or> starts_with v ''host='')"

definition HandleHealth :: "bool \<Rightarrow> PlatformConfig \<Rightarrow> 'db handler" where
  "HandleHealth libpq config =
     (let postgres_ready = (\<not> UsesPostgresState config \<or> (LooksLikePostgresDsn (cfg_postgres_dsn config) \<and> libpq));
          ready = (postgres_ready
                   \<and> IsObjectStoreProviderImplemented (ParseObjectStoreProvider (os_provider (cfg_object_store config))))
      in respond 200 (SuccessEnvelope (if ready then ''styio-platform is ready'' else ''styio-platform is degraded'')
           (json_obj
              [(''service'', JString ''styio-platformd''),
               (''status'', JString (if ready then ''ready'' else ''degraded'')),
               (''region'', JString (cfg_region config)),
               (''node_id'', JString (cfg_node_id config)),
               (''contract_version'', JString ''v1''),
               (''roles'', JArray (map JString (cfg_roles config))),
               (''state_backend'', JString (cfg_state_backend config)),
               (''postgres_driver_available'', JBool libpq)])))"

definition HandleNodeSelf :: "bool \<Rightarrow> PlatformConfig \<Rightarrow> 'db handler" where
  "HandleNodeSelf libpq config =
     respond 200 (SuccessEnvelope ''resolved current platform node''
       (json_obj
          [(''node_id'', JString (cfg_node_id config)),
           (''region'', JString (cfg_region config)),
           (''roles'', JArray (map JString (cfg_roles config))),
           (''state_backend'', JString (cfg_state_backend config)),
           (''postgres_configured'', JBool (LooksLikePostgresDsn (cfg_postgres_dsn config))),
           (''postgres_driver_available'', JBool libpq),
           (''object_store_provider'',
            JString (ProviderToString (ParseObjectStoreProvider (os_provider (cfg_object_store config))))),
           (''mtls_required'', JBool (mt_required (cfg_mtls config)))]))"

definition workgroup_rejection :: "int \<Rightarrow> string \<Rightarrow> string \<Rightarrow> 'db handler" where
  "workgroup_rejection status detail category =
     respond status (FailureEnvelope ''workgroup registration rejected'' detail category ''registerWorkgroupCluster'' 2)"

definition HandleRegisterWorkgroupCluster ::
  "'db postgres option \<Rightarrow> PlatformConfig \<Rightarrow> RouteMatch \<Rightarrow> HttpRequest \<Rightarrow> 'db handler" where
  "HandleRegisterWorkgroupCluster pg config rm request =
     using_result (param_at rm ''workgroup_id'') (\<lambda>workgroup_id.
       let w = cfg_workgroup config; body = rq_body request in
       if \<not> wg_enabled w then workgroup_rejection 403 ''workgroup support is disabled'' ''PolicyError''
       else if (case rq_identity request of None \<Rightarrow> False | Some i \<Rightarrow> id_tenant_id i \<noteq> wg_registration_tenant w)
       then workgroup_rejection 403 ''identity tenant is not allowed to register clusters'' ''AuthError''
       else using_result (if wg_registration_token w = [] then Inr False
                          else rbind (json_value get_string body ''registration_token'' []) (\<lambda>t. Inr (t \<noteq> wg_registration_token w)))
         (\<lambda>wrong_token.
          if wrong_token then workgroup_rejection 403 ''registration token is invalid'' ''AuthError''
          else (case ValidateWorkgroupClusterRegistration workgroup_id body of
                  Some error \<Rightarrow> workgroup_rejection 400 error ''ValidationError''
                | None \<Rightarrow>
                    using_result (BuildWorkgroupClusterRecord workgroup_id body config (rq_identity request)) (\<lambda>cluster s.
                      case pg of
                        Some p \<Rightarrow>
                          (case pg_call (pg_RegisterWorkgroupCluster p workgroup_id cluster) s of
                             (Inl what, t) \<Rightarrow> fail503 ''workgroup registration failed'' what ''PostgresError'' ''registerWorkgroupCluster'' t
                           | (Inr stored, t) \<Rightarrow> respond 200 (SuccessEnvelope ''registered workgroup cluster'' stored) t)
                      | None \<Rightarrow>
                          using_result (RegisterWorkgroupCluster workgroup_id cluster (rt_memory s)) (\<lambda>(stored, m) s.
                            respond 200 (SuccessEnvelope ''registered workgroup cluster'' stored) (s\<lparr>rt_memory := m\<rparr>)) s))))"

definition HandleListWorkgroupClusters :: "'db postgres option \<Rightarrow> PlatformConfig \<Rightarrow> RouteMatch \<Rightarrow> 'db handler" where
  "HandleListWorkgroupClusters pg config rm =
     using_result (param_at rm ''workgroup_id'') (\<lambda>workgroup_id s.
       let loaded = (\<lambda>clusters. respond 200 (SuccessEnvelope ''loaded workgroup clusters''
             (json_obj [(''workgroup_id'', JString workgroup_id), (''policy'', WorkgroupPolicyPayload config), (''clusters'', clusters)])))
       in if \<not> IsSafeWorkgroupId workgroup_id
          then respond 400 (FailureEnvelope ''workgroup lookup rejected'' ''workgroup_id is invalid'' ''ValidationError'' ''listWorkgroupClusters'' 2) s
          else (case pg of
                  Some p \<Rightarrow>
                    (case pg_call (pg_ListWorkgroupClusters p workgroup_id) s of
                       (Inl what, t) \<Rightarrow> fail503 ''workgroup lookup failed'' what ''PostgresError'' ''listWorkgroupClusters'' t
                     | (Inr clusters, t) \<Rightarrow> loaded clusters t)
                | None \<Rightarrow> loaded (ListWorkgroupClusters workgroup_id (rt_memory s)) s))"

section \<open>Operations handlers\<close>

definition HandleListAuditEvents :: "'db postgres option \<Rightarrow> 'db handler" where
  "HandleListAuditEvents pg =
     act_bind (either_store pg (\<lambda>p. from_pg (pg_ListRegistryAuditEvents p)) (reading ListRegistryAuditEvents)) (\<lambda>recorded.
       respond 200 (SuccessEnvelope ''loaded audit events'' (json_obj [(''events'', recorded)])))"

definition HandleMetrics :: "'db handler" where
  "HandleMetrics s =
     respond 200 (SuccessEnvelope ''loaded platform metrics''
       (json_obj [(''requests'', metrics_Snapshot (rt_metrics s)), (''rate_limiter'', limiter_Snapshot (rt_rate_limiter s))])) s"

definition HandleExchangeExternalIdentity :: "(platform_error \<Rightarrow> string) \<Rightarrow> HttpRequest \<Rightarrow> 'db handler" where
  "HandleExchangeExternalIdentity what request =
     (case NormalizeExternalIdentity (rq_body request) of
        Inl e \<Rightarrow> act_return (FailureResponse 400 ''external identity exchange failed'' (what e) ''ExternalIdentityError'' ''exchangeExternalIdentity'' 2)
      | Inr record \<Rightarrow> respond 200 (SuccessEnvelope ''exchanged external identity'' (SerializeExternalIdentityRecord record)))"

section \<open>Dispatch\<close>

definition DispatchPlatformNodeOperation ::
  "'db postgres option \<Rightarrow> router_env \<Rightarrow> PlatformConfig \<Rightarrow> RouteMatch \<Rightarrow> HttpRequest \<Rightarrow> 'db router \<Rightarrow> (HttpResponse result \<times> 'db router) option" where
  "DispatchPlatformNodeOperation pg env config rm request s =
     (let operation = rs_operation_id (rm_route rm) in
      if operation = ''health'' then Some (HandleHealth (ev_libpq env) config s)
      else if operation = ''nodeSelf'' then Some (HandleNodeSelf (ev_libpq env) config s)
      else if operation = ''registerWorkgroupCluster'' then Some (HandleRegisterWorkgroupCluster pg config rm request s)
      else if operation = ''listWorkgroupClusters'' then Some (HandleListWorkgroupClusters pg config rm s)
      else None)"

definition DispatchGovernanceOperation ::
  "'db operations \<Rightarrow> RouteMatch \<Rightarrow> HttpRequest \<Rightarrow> 'db router \<Rightarrow> (HttpResponse result \<times> 'db router) option" where
  "DispatchGovernanceOperation ops rm request s =
     (let operation = rs_operation_id (rm_route rm) in
      if operation = ''listDocumentationGovernance'' then Some (op_HandleListDocumentationGovernance ops s)
      else if operation = ''planDocumentationChange'' then Some (op_HandlePlanDocumentationChange ops request s)
      else if operation = ''listEcosystemRepositories'' then Some (op_HandleListEcosystemRepositories ops s)
      else if operation = ''planEcosystemRelease'' then Some (op_HandlePlanEcosystemRelease ops request s)
      else None)"

definition DispatchRegistryOperation ::
  "'db postgres option \<Rightarrow> router_env \<Rightarrow> 'db operations \<Rightarrow> RouteMatch \<Rightarrow> HttpRequest \<Rightarrow> 'db router \<Rightarrow> (HttpResponse result \<times> 'db router) option" where
  "DispatchRegistryOperation pg env ops rm request s =
     (let operation = rs_operation_id (rm_route rm) in
      if operation = ''mirrorStatus'' then Some (HandleMirrorStatus pg rm s)
      else if operation = ''registryStatus'' then Some (op_HandleRegistryStatus ops s)
      else if operation = ''registryDescriptor'' then Some (op_HandleRegistryDescriptor ops s)
      else if operation = ''publishRelease'' then Some (op_HandlePublishRelease ops request s)
      else if operation = ''verifyRegistry'' then Some (op_HandleVerifyRegistry ops request s)
      else if operation = ''getPackage'' then Some (op_HandleGetPackage ops rm s)
      else if operation = ''listPackageReleases'' then Some (op_HandleListPackageReleases ops rm s)
      else if operation = ''getPackageRelease'' then Some (op_HandleGetPackageRelease ops rm s)
      else if operation = ''yankPackageRelease'' then Some (op_HandleSetPackageReleaseYanked ops rm request True s)
      else if operation = ''unyankPackageRelease'' then Some (op_HandleSetPackageReleaseYanked ops rm request False s)
      else if operation = ''listPackageOwners'' then Some (HandleListPackageOwners pg (ev_registry env) rm s)
      else if operation = ''addPackageOwner'' then Some (HandleAddPackageOwner pg (ev_registry env) rm request s)
      else if operation = ''removePackageOwner'' then Some (HandleRemovePackageOwner pg (ev_registry env) rm request s)
      else if operation = ''createPublishToken'' then Some (HandleCreatePublishToken pg (ev_registry env) request s)
      else if operation = ''listPublishTokens'' then Some (HandleListPublishTokens pg (ev_registry env) request s)
      else if operation = ''revokePublishToken'' then Some (HandleRevokePublishToken pg (ev_registry env) rm request s)
      else if operation = ''listRepositories'' then Some (op_HandleListRepositories ops s)
      else if operation = ''listRepositoryVersions'' then Some (op_HandleListRepositoryVersions ops rm s)
      else if operation = ''getPublication'' then Some (op_HandleGetPublication ops rm s)
      else if operation = ''verifyPublication'' then Some (op_HandleVerifyPublication ops rm request s)
      else if operation = ''listDistributions'' then Some (op_HandleListDistributions ops s)
      else if operation = ''promoteDistribution'' then Some (op_HandlePromoteDistribution ops rm request s)
      else if operation = ''rollbackDistribution'' then Some (op_HandleRollbackDistribution ops rm request s)
      else if operation = ''listReleaseChannels'' then Some (op_HandleListReleaseChannels ops s)
      else if operation = ''rolloutReleaseChannel'' then Some (op_HandleRolloutReleaseChannel ops rm request s)
      else None)"

definition DispatchOperationsOperation ::
  "'db postgres option \<Rightarrow> router_env \<Rightarrow> 'db operations \<Rightarrow> RouteMatch \<Rightarrow> HttpRequest \<Rightarrow> 'db router \<Rightarrow> (HttpResponse result \<times> 'db router) option" where
  "DispatchOperationsOperation pg env ops rm request s =
     (let operation = rs_operation_id (rm_route rm) in
      if operation = ''createRecoverySnapshot'' then Some (op_HandleCreateRecoverySnapshot ops request s)
      else if operation = ''listRecoverySnapshots'' then Some (op_HandleListRecoverySnapshots ops s)
      else if operation = ''restoreRecoverySnapshot'' then Some (op_HandleRestoreRecoverySnapshot ops rm request s)
      else if operation = ''listAuditEvents'' then Some (HandleListAuditEvents pg s)
      else if operation = ''platformMetrics'' then Some (HandleMetrics s)
      else if operation = ''storageStatus'' then Some (op_HandleStorageStatus ops s)
      else if operation = ''exchangeExternalIdentity'' then Some (HandleExchangeExternalIdentity (ev_what env) request s)
      else None)"

definition or_else :: "'a option \<Rightarrow> 'a option \<Rightarrow> 'a option" where
  "or_else a b = (case a of None \<Rightarrow> b | Some x \<Rightarrow> Some x)"

definition dispatch_groups ::
  "'db postgres option \<Rightarrow> router_env \<Rightarrow> 'db operations \<Rightarrow> PlatformConfig \<Rightarrow> RouteMatch \<Rightarrow> HttpRequest \<Rightarrow> 'db router \<Rightarrow> (HttpResponse result \<times> 'db router) option" where
  "dispatch_groups pg env ops config rm request s =
     or_else (DispatchPlatformNodeOperation pg env config rm request s)
    (or_else (DispatchWorkspaceOperation pg config rm request s)
    (or_else (DispatchGovernanceOperation ops rm request s)
    (or_else (DispatchRegistryOperation pg env ops rm request s)
             (DispatchOperationsOperation pg env ops rm request s))))"

definition DispatchMatchedOperation ::
  "'db postgres option \<Rightarrow> router_env \<Rightarrow> 'db operations \<Rightarrow> PlatformConfig \<Rightarrow> RouteMatch \<Rightarrow> HttpRequest \<Rightarrow> 'db handler" where
  "DispatchMatchedOperation pg env ops config rm request s =
     (case dispatch_groups pg env ops config rm request s of
        Some outcome \<Rightarrow> outcome
      | None \<Rightarrow>
          let operation = rs_operation_id (rm_route rm)
          in respond 500 (FailureEnvelope ''route handler missing'' operation ''InternalError'' operation 17) s)"

definition Dispatch ::
  "'db postgres option \<Rightarrow> router_env \<Rightarrow> 'db operations \<Rightarrow> PlatformConfig \<Rightarrow> HttpRequest \<Rightarrow> 'db handler" where
  "Dispatch pg env ops config request s =
     (case MatchRoute router_routes (rq_method request) (rq_path request) of
        None \<Rightarrow> respond 404 (FailureEnvelope ''route not found'' (rq_path request) ''NotFound'' ''unknown'' 17) s
      | Some rm \<Rightarrow>
          if resp_status_code (RequireIdentity config rm request) \<noteq> 200 then (Inr (RequireIdentity config rm request), s)
          else
            let operation = rs_operation_id (rm_route rm);
                subject = RequestSubject (re_sha256 (ev_registry env)) request
            in case Allow subject operation 600 60 (ev_now_seconds env) (rt_rate_limiter s) of
                 (allowed, limiter) \<Rightarrow>
                   let s = s\<lparr>rt_rate_limiter := limiter\<rparr> in
                   if \<not> allowed
                   then (Inr (FailureResponse 429 ''request rate limited'' ''rate limit exceeded'' ''RateLimitError'' operation 17),
                         s\<lparr>rt_metrics := Record operation 429 (rt_metrics s)\<rparr>)
                   else DispatchMatchedOperation pg env ops config rm request
                          (s\<lparr>rt_metrics := Record operation 0 (rt_metrics s)\<rparr>))"

section \<open>Admission and rate limiting\<close>

definition admitted :: "PlatformConfig \<Rightarrow> RouteMatch \<Rightarrow> HttpRequest \<Rightarrow> bool" where
  "admitted config rm request =
     (let operation = rs_operation_id (rm_route rm) in
      \<not> mt_required (cfg_mtls config) \<or> operation = ''exchangeExternalIdentity''
      \<or> (case rq_identity request of
           None \<Rightarrow> rs_internal (rm_route rm) \<and> IsRegistryTokenCapableOperation operation
                   \<and> RegistryTokenFromHeaders (rq_headers request) \<noteq> None
         | Some i \<Rightarrow> (rs_internal (rm_route rm) \<longrightarrow> IsInternalRole i) \<and> IsAuthorizedForOperation operation i))"

lemma RequireIdentity_admitted: "resp_status_code (RequireIdentity config rm request) = 200 \<longleftrightarrow> admitted config rm request"
  by (auto simp: RequireIdentity_def admitted_def Let_def status_codes split: option.split)

lemma RequireIdentity_refused:
  "\<not> admitted config rm request \<Longrightarrow>
     resp_status_code (RequireIdentity config rm request) = (if rq_identity request = None then 401 else 403)"
  by (auto simp: RequireIdentity_def admitted_def Let_def status_codes split: option.split_asm option.split if_splits)

definition counted :: "router_env \<Rightarrow> RouteMatch \<Rightarrow> HttpRequest \<Rightarrow> 'db router \<Rightarrow> int \<Rightarrow> 'db router" where
  "counted env rm request s code =
     s\<lparr>rt_rate_limiter := snd (Allow (RequestSubject (re_sha256 (ev_registry env)) request)
                               (rs_operation_id (rm_route rm)) 600 60 (ev_now_seconds env) (rt_rate_limiter s)),
       rt_metrics := Record (rs_operation_id (rm_route rm)) code (rt_metrics s)\<rparr>"

lemma counted_frame [simp]:
  "rt_memory (counted env rm request s code) = rt_memory s" "rt_db (counted env rm request s code) = rt_db s"
  by (simp_all add: counted_def)

lemma Dispatch_cases:
  assumes "MatchRoute router_routes (rq_method request) (rq_path request) = Some rm"
  shows "Dispatch pg env ops config request s =
    (if \<not> admitted config rm request then (Inr (RequireIdentity config rm request), s)
     else if fst (Allow (RequestSubject (re_sha256 (ev_registry env)) request) (rs_operation_id (rm_route rm)) 600 60
                    (ev_now_seconds env) (rt_rate_limiter s))
     then DispatchMatchedOperation pg env ops config rm request (counted env rm request s 0)
     else (Inr (FailureResponse 429 ''request rate limited'' ''rate limit exceeded'' ''RateLimitError'' (rs_operation_id (rm_route rm)) 17),
           counted env rm request s 429))"
  by (simp add: Dispatch_def assms RequireIdentity_admitted Let_def counted_def split: prod.split)

text \<open>
  \<^bold>\<open>C8.\<close> With mutual TLS required, every operation is guarded whatever its handler does: a request
  that matches no route is answered 404, one whose identity is missing is answered 401, one
  whose role may not use the operation is answered 403, each time without any change of
  state. The only ways past the guard are the identity exchange, a registry token on one of
  the seven operations that accept it, and an identity whose role is allowed.
\<close>

theorem Dispatch_guarded:
  assumes "mt_required (cfg_mtls config)"
    and "\<And>rm. MatchRoute router_routes (rq_method request) (rq_path request) = Some rm \<Longrightarrow>
           rs_operation_id (rm_route rm) \<noteq> ''exchangeExternalIdentity''
           \<and> (rq_identity request = None \<and> RegistryTokenFromHeaders (rq_headers request) \<noteq> None
                \<longrightarrow> rs_operation_id (rm_route rm) \<notin> {''publishRelease'', ''yankPackageRelease'', ''unyankPackageRelease'',
                      ''addPackageOwner'', ''removePackageOwner'', ''promoteDistribution'', ''rollbackDistribution''})
           \<and> (\<forall>i. rq_identity request = Some i \<longrightarrow> \<not> IsAuthorizedForOperation (rs_operation_id (rm_route rm)) i
                 \<or> rs_internal (rm_route rm) \<and> \<not> IsInternalRole i)"
  shows "\<exists>response. Dispatch pg env ops config request s = (Inr response, s)
           \<and> resp_status_code response
               = (if MatchRoute router_routes (rq_method request) (rq_path request) = None then 404
                  else if rq_identity request = None then 401 else 403)"
proof (cases "MatchRoute router_routes (rq_method request) (rq_path request)")
  case None
  then show ?thesis by (simp add: Dispatch_def respond_def JsonResponse_def)
next
  case (Some rm)
  have "\<not> admitted config rm request"
    using assms(2) [OF Some] assms(1)
    by (auto simp: admitted_def Let_def IsRegistryTokenCapableOperation_def split: option.splits)
  then show ?thesis using Some by (simp add: Dispatch_cases RequireIdentity_refused)
qed

definition probe :: "HttpMethod \<Rightarrow> string \<Rightarrow> HttpRequest" where
  "probe m path = \<lparr>rq_method = m, rq_path = path, rq_headers = [], rq_body = JObject [], rq_identity = None\<rparr>"

definition job_match :: RouteMatch where
  "job_match = \<lparr>rm_route = \<lparr>rs_operation_id = ''getJob'', rs_method = Get, rs_path = ''/jobs/{job_id}'', rs_internal = False\<rparr>,
     rm_parameters = [(''job_id'', ''j1'')]\<rparr>"

lemma probe_match: "MatchRoute router_routes (rq_method (probe Get ''/jobs/j1'')) (rq_path (probe Get ''/jobs/j1'')) = Some job_match"
  by code_simp

lemma probe_anonymous: "rq_identity (probe m path) = None" "RegistryTokenFromHeaders (rq_headers (probe m path)) = None"
  by (simp_all add: probe_def RegistryTokenFromHeaders_def)

lemma default_requires_mtls: "mt_required (cfg_mtls default_config)"
  by (simp add: default_config_def default_mtls_def)

theorem Dispatch_guarded_witness:
  "\<forall>env s. \<forall>ops :: unit operations. \<exists>response. Dispatch None env ops default_config (probe Get ''/jobs/j1'') s = (Inr response, s)
     \<and> resp_status_code response = 401"
  using Dispatch_guarded [OF default_requires_mtls, of "probe Get ''/jobs/j1''"]
  by (auto simp: probe_match probe_anonymous job_match_def)

text \<open>
  \<^bold>\<open>C36.\<close> An anonymous caller cannot change anything: with mutual TLS required, a request without
  identity and without token leaves the store and the database as they are, whatever the
  handlers of the other operations would do.
\<close>

theorem Dispatch_anonymous_frame:
  assumes "mt_required (cfg_mtls config)" and "rq_identity request = None"
    and "RegistryTokenFromHeaders (rq_headers request) = None"
  shows "rt_memory (snd (Dispatch pg env ops config request s)) = rt_memory s
       \<and> rt_db (snd (Dispatch pg env ops config request s)) = rt_db s"
proof (cases "MatchRoute router_routes (rq_method request) (rq_path request)")
  case None
  then show ?thesis by (simp add: Dispatch_def respond_def)
next
  case (Some rm)
  show ?thesis
  proof (cases "admitted config rm request")
    case True
    then have x: "rs_operation_id (rm_route rm) = ''exchangeExternalIdentity''"
      using assms by (simp add: admitted_def Let_def)
    have "dispatch_groups pg env ops config rm request t = Some (HandleExchangeExternalIdentity (ev_what env) request t)" for t
      by (simp add: dispatch_groups_def or_else_def x DispatchPlatformNodeOperation_def DispatchWorkspaceOperation_def
          DispatchGovernanceOperation_def DispatchRegistryOperation_def DispatchOperationsOperation_def)
    then show ?thesis
      by (simp add: Dispatch_cases [OF Some] DispatchMatchedOperation_def HandleExchangeExternalIdentity_def
          act_defs split: sum.split)
  qed (simp add: Dispatch_cases [OF Some])
qed

theorem Dispatch_anonymous_frame_witness:
  "\<forall>env s. \<forall>ops :: unit operations.
     rt_memory (snd (Dispatch None env ops default_config (probe Post ''/identity/external/exchange'') s)) = rt_memory s"
  using Dispatch_anonymous_frame [OF default_requires_mtls probe_anonymous] by blast

text \<open>
  The limiter protects the handlers: once 600 requests of the same subject for the same
  operation have been counted in the current window, a further admitted request is answered
  429 and only the counters change.
\<close>

theorem Dispatch_rate_limited:
  assumes "MatchRoute router_routes (rq_method request) (rq_path request) = Some rm" and "admitted config rm request"
    and "smap_find (rt_rate_limiter s) (bucket_key (RequestSubject (re_sha256 (ev_registry env)) request)
           (rs_operation_id (rm_route rm))) = Some b"
    and "window_start b \<noteq> 0" "ev_now_seconds env - window_start b < 60" "600 \<le> bucket_count b"
  shows "\<exists>response s'. Dispatch pg env ops config request s = (Inr response, s') \<and> resp_status_code response = 429
           \<and> rt_memory s' = rt_memory s \<and> rt_db s' = rt_db s
           \<and> total_requests (rt_metrics s') = total_requests (rt_metrics s) + 1"
proof -
  have "\<not> fst (Allow (RequestSubject (re_sha256 (ev_registry env)) request) (rs_operation_id (rm_route rm)) 600 60
                 (ev_now_seconds env) (rt_rate_limiter s))"
    using assms(3-6) by (subst Allow_no_reset(1)) (simp_all add: smap_get_def)
  then show ?thesis
    using assms(1,2) by (auto simp: Dispatch_cases status_codes) (simp add: counted_def Record_def)
qed

definition open_config :: PlatformConfig where
  "open_config = default_config\<lparr>cfg_mtls := default_mtls\<lparr>mt_required := False\<rparr>\<rparr>"

definition busy_router :: "unit router" where
  "busy_router = sample_router\<lparr>rt_rate_limiter := [(''anonymous:getJob'', \<lparr>window_start = 1000, bucket_count = 600\<rparr>)]\<rparr>"

definition busy_env :: router_env where
  "busy_env = \<lparr>ev_registry = sample_env, ev_now_seconds = 1030, ev_libpq = False, ev_what = (\<lambda>_. [])\<rparr>"

theorem Dispatch_rate_limited_witness:
  "\<forall>ops. \<exists>response s'. Dispatch None busy_env ops open_config (probe Get ''/jobs/j1'') busy_router = (Inr response, s')
     \<and> resp_status_code response = 429 \<and> rt_memory s' = rt_memory busy_router"
proof
  fix ops
  have "admitted open_config job_match (probe Get ''/jobs/j1'')" by (simp add: admitted_def open_config_def)
  then show "\<exists>response s'. Dispatch None busy_env ops open_config (probe Get ''/jobs/j1'') busy_router = (Inr response, s')
     \<and> resp_status_code response = 429 \<and> rt_memory s' = rt_memory busy_router"
    using Dispatch_rate_limited [OF probe_match, of open_config busy_router busy_env "\<lparr>window_start = 1000, bucket_count = 600\<rparr>" None ops]
    by (auto simp: busy_router_def busy_env_def RequestSubject_def probe_anonymous bucket_key_def job_match_def)
qed

section \<open>Completeness of the dispatch\<close>

definition operation_table :: "string list list" where
  "operation_table =
     [[''health'', ''nodeSelf'', ''registerWorkgroupCluster'', ''listWorkgroupClusters''],
      [''submitJob'', ''getJob'', ''getJobEvents'', ''cancelJob'', ''registerWorker'', ''registerCompileContainer'',
       ''getCompileContainer'', ''switchCompileContainerWorkspace'', ''claimJob'', ''heartbeatJob'', ''completeJob''],
      [''listDocumentationGovernance'', ''planDocumentationChange'', ''listEcosystemRepositories'', ''planEcosystemRelease''],
      [''mirrorStatus'', ''registryStatus'', ''registryDescriptor'', ''publishRelease'', ''verifyRegistry'', ''getPackage'',
       ''listPackageReleases'', ''getPackageRelease'', ''yankPackageRelease'', ''unyankPackageRelease'', ''listPackageOwners'',
       ''addPackageOwner'', ''removePackageOwner'', ''createPublishToken'', ''listPublishTokens'', ''revokePublishToken'',
       ''listRepositories'', ''listRepositoryVersions'', ''getPublication'', ''verifyPublication'', ''listDistributions'',
       ''promoteDistribution'', ''rollbackDistribution'', ''listReleaseChannels'', ''rolloutReleaseChannel''],
      [''createRecoverySnapshot'', ''listRecoverySnapshots'', ''restoreRecoverySnapshot'', ''listAuditEvents'',
       ''platformMetrics'', ''storageStatus'', ''exchangeExternalIdentity'']]"

lemma routes_in_one_group:
  "list_all (\<lambda>r. length (filter (\<lambda>g. rs_operation_id r \<in> set g) operation_table) = 1) router_routes"
  by code_simp

lemma group_handles:
  "DispatchPlatformNodeOperation pg env config rm request s \<noteq> None \<longleftrightarrow> rs_operation_id (rm_route rm) \<in> set (operation_table ! 0)"
  "DispatchWorkspaceOperation pg config rm request s \<noteq> None \<longleftrightarrow> rs_operation_id (rm_route rm) \<in> set (operation_table ! 1)"
  "DispatchGovernanceOperation ops rm request s \<noteq> None \<longleftrightarrow> rs_operation_id (rm_route rm) \<in> set (operation_table ! 2)"
  "DispatchRegistryOperation pg env ops rm request s \<noteq> None \<longleftrightarrow> rs_operation_id (rm_route rm) \<in> set (operation_table ! 3)"
  "DispatchOperationsOperation pg env ops rm request s \<noteq> None \<longleftrightarrow> rs_operation_id (rm_route rm) \<in> set (operation_table ! 4)"
  by (simp_all add: DispatchPlatformNodeOperation_def DispatchWorkspaceOperation_def DispatchGovernanceOperation_def
      DispatchRegistryOperation_def DispatchOperationsOperation_def operation_table_def Let_def)

lemma table_length: "length operation_table = 5"
  by (simp add: operation_table_def)

lemma map_five: "length xs = 5 \<Longrightarrow> map f xs = [f (xs ! 0), f (xs ! 1), f (xs ! 2), f (xs ! 3), f (xs ! 4)]"
  by (auto simp: length_Suc_conv numeral_eq_Suc)

lemma or_else_eq_None: "or_else a b = None \<longleftrightarrow> a = None \<and> b = None"
  by (simp add: or_else_def split: option.split)

lemma dispatch_groups_handles:
  "dispatch_groups pg env ops config rm request s \<noteq> None \<longleftrightarrow>
     rs_operation_id (rm_route rm) \<in> set (operation_table ! 0) \<or> rs_operation_id (rm_route rm) \<in> set (operation_table ! 1)
     \<or> rs_operation_id (rm_route rm) \<in> set (operation_table ! 2) \<or> rs_operation_id (rm_route rm) \<in> set (operation_table ! 3)
     \<or> rs_operation_id (rm_route rm) \<in> set (operation_table ! 4)"
  unfolding dispatch_groups_def or_else_eq_None de_Morgan_conj group_handles ..

lemma MatchRoute_in: "MatchRoute routes m path = Some rm \<Longrightarrow> rm_route rm \<in> set routes"
  using MatchRoute_find [of routes m path] by (auto simp: find_Some_iff dest!: sym [of "Some _"])

text \<open>
  No route is without a handler: for every request the route table accepts, one of the five
  groups takes the operation, so the answer 500 for a missing handler is unreachable, and the
  groups are disjoint, so their order does not matter.
\<close>

theorem dispatch_complete:
  assumes "MatchRoute router_routes (rq_method request) (rq_path request) = Some rm"
  shows "(\<exists>outcome. dispatch_groups pg env ops config rm request s = Some outcome
            \<and> DispatchMatchedOperation pg env ops config rm request s = outcome)
     \<and> length (filter (\<lambda>group. group)
          [DispatchPlatformNodeOperation pg env config rm request s \<noteq> None,
           DispatchWorkspaceOperation pg config rm request s \<noteq> None,
           DispatchGovernanceOperation ops rm request s \<noteq> None,
           DispatchRegistryOperation pg env ops rm request s \<noteq> None,
           DispatchOperationsOperation pg env ops rm request s \<noteq> None]) = 1"
proof -
  let ?op = "rs_operation_id (rm_route rm)"
  have "length (filter (\<lambda>g. ?op \<in> set g) operation_table) = 1"
    using routes_in_one_group MatchRoute_in [OF assms] by (simp add: list_all_iff)
  then have "length (filter (\<lambda>group. group) (map (\<lambda>g. ?op \<in> set g) operation_table)) = 1"
    by (simp add: filter_map comp_def)
  moreover have "map (\<lambda>g. ?op \<in> set g) operation_table
      = [?op \<in> set (operation_table ! 0), ?op \<in> set (operation_table ! 1), ?op \<in> set (operation_table ! 2),
         ?op \<in> set (operation_table ! 3), ?op \<in> set (operation_table ! 4)]"
    by (rule map_five [OF table_length])
  ultimately have one: "length (filter (\<lambda>group. group)
      [?op \<in> set (operation_table ! 0), ?op \<in> set (operation_table ! 1), ?op \<in> set (operation_table ! 2),
       ?op \<in> set (operation_table ! 3), ?op \<in> set (operation_table ! 4)]) = 1"
    by (simp only:)
  then have "dispatch_groups pg env ops config rm request s \<noteq> None"
    unfolding dispatch_groups_handles by (auto split: if_splits)
  then have "\<exists>outcome. dispatch_groups pg env ops config rm request s = Some outcome
            \<and> DispatchMatchedOperation pg env ops config rm request s = outcome"
    by (auto simp: DispatchMatchedOperation_def)
  with one show ?thesis unfolding group_handles by blast
qed

theorem dispatch_complete_witness:
  "\<forall>env s. \<forall>ops :: unit operations. dispatch_groups None env ops default_config job_match (probe Get ''/jobs/j1'') s \<noteq> None"
  using dispatch_complete [OF probe_match] by fastforce

section \<open>Workgroups\<close>

lemma registration_token_checked:
  "rbind (json_value get_string j k []) (\<lambda>t. Inr (t \<noteq> token)) = Inr False \<Longrightarrow> token \<noteq> [] \<Longrightarrow>
     json_lookup j k = Some (JString token)"
proof (cases j)
  case (JObject m)
  assume "rbind (json_value get_string j k []) (\<lambda>t. Inr (t \<noteq> token)) = Inr False" "token \<noteq> []"
  with JObject obtain v where "smap_find m k = Some v" "rbind (get_string v) (\<lambda>t. Inr (t \<noteq> token)) = Inr False"
    by (auto split: option.splits)
  with JObject show ?thesis by (cases v) auto
qed simp_all

lemma registered_cluster_listed:
  assumes "RegisterWorkgroupCluster w cluster m = Inr (stored, m')"
  shows "stored = cluster \<and> (\<exists>l. ListWorkgroupClusters w m' = JArray l \<and> cluster \<in> set l)"
proof -
  obtain c where "json_string_at cluster ''cluster_id'' = Inr c" and st: "stored = cluster"
    and m': "m' = m\<lparr>workgroups := smap_put w (smap_put c cluster (smap_get [] (workgroups m) w)) (workgroups m)\<rparr>"
    using assms by (cases "json_string_at cluster ''cluster_id''") (auto simp: RegisterWorkgroupCluster_def)
  have "smap_find (smap_put c cluster (smap_get [] (workgroups m) w)) c = Some cluster" by simp
  then have "cluster \<in> set (smap_values (smap_put c cluster (smap_get [] (workgroups m) w)))"
    by (rule smap_find_value)
  then show ?thesis by (simp add: st m' ListWorkgroupClusters_def)
qed

text \<open>
  A cluster is registered only as the policy allows (memory backend): when the handler
  answers 200, workgroups are enabled, the caller's tenant is the registration tenant, the
  body carries the configured registration token and a valid cluster, and the record built
  from it is among the clusters listed afterwards; any other answer leaves the state alone.
\<close>

theorem workgroup_registration:
  assumes "HandleRegisterWorkgroupCluster None config rm request s = (Inr response, s')"
  shows "if resp_status_code response = 200
    then wg_enabled (cfg_workgroup config)
       \<and> (\<forall>i. rq_identity request = Some i \<longrightarrow> id_tenant_id i = wg_registration_tenant (cfg_workgroup config))
       \<and> (wg_registration_token (cfg_workgroup config) \<noteq> [] \<longrightarrow>
            json_lookup (rq_body request) ''registration_token'' = Some (JString (wg_registration_token (cfg_workgroup config))))
       \<and> (\<exists>w cluster l. param_at rm ''workgroup_id'' = Inr w
            \<and> ValidateWorkgroupClusterRegistration w (rq_body request) = None
            \<and> BuildWorkgroupClusterRecord w (rq_body request) config (rq_identity request) = Inr cluster
            \<and> ListWorkgroupClusters w (rt_memory s') = JArray l \<and> cluster \<in> set l)
    else s' = s"
  using assms
  by (auto simp: HandleRegisterWorkgroupCluster_def workgroup_rejection_def using_result_def escape_def respond_def
      JsonResponse_def Let_def dest: registration_token_checked registered_cluster_listed split: sum.splits option.splits if_splits)

definition cluster_match :: RouteMatch where
  "cluster_match = \<lparr>rm_route = \<lparr>rs_operation_id = ''registerWorkgroupCluster'', rs_method = Post, rs_path = [], rs_internal = True\<rparr>,
     rm_parameters = [(''workgroup_id'', ''w1'')]\<rparr>"

definition cluster_request :: HttpRequest where
  "cluster_request = (probe Post [])\<lparr>rq_body := json_obj
     [(''cluster_id'', JString ''c1''), (''region'', JString ''eu''), (''node_id'', JString ''n1''),
      (''control_plane_endpoint'', JString ''https://c1'')]\<rparr>"

definition cluster_config :: PlatformConfig where
  "cluster_config = default_config\<lparr>cfg_workgroup := default_workgroup\<lparr>wg_enabled := True\<rparr>\<rparr>"

lemma cluster_accepted:
  "map_sum (\<lambda>_. ()) resp_status_code (fst (HandleRegisterWorkgroupCluster None cluster_config cluster_match cluster_request sample_router)) = Inr 200"
  by code_simp

theorem workgroup_registration_witness:
  "\<exists>cluster l. BuildWorkgroupClusterRecord ''w1'' (rq_body cluster_request) cluster_config None = Inr cluster
     \<and> ListWorkgroupClusters ''w1'' (rt_memory (snd (HandleRegisterWorkgroupCluster None cluster_config cluster_match
          cluster_request sample_router))) = JArray l \<and> cluster \<in> set l"
proof -
  obtain response s' where h: "HandleRegisterWorkgroupCluster None cluster_config cluster_match cluster_request sample_router
      = (Inr response, s')" and "resp_status_code response = 200"
    using cluster_accepted by (cases "HandleRegisterWorkgroupCluster None cluster_config cluster_match cluster_request sample_router")
      (auto simp: map_sum_def split: sum.splits)
  moreover have "rq_identity cluster_request = None" by (simp add: cluster_request_def probe_def)
  ultimately show ?thesis
    using workgroup_registration [OF h] by (auto simp: param_at_def cluster_match_def)
qed

end
