(* ===== verification/Posix_Path.thy ===== *)
theory Posix_Path
  imports Platform_Prelude
begin

text \<open>
  The part of \<^verbatim>\<open>std::filesystem::path\<close> the sources use, on POSIX, where a path is its text:
  elements, \<^verbatim>\<open>operator/\<close>, \<^verbatim>\<open>parent_path\<close>, \<^verbatim>\<open>filename\<close>, \<^verbatim>\<open>lexically_normal\<close>, \<^verbatim>\<open>lexically_relative\<close>, the order
  and equality of paths (element-wise) and \<^verbatim>\<open>CanonicalAbsolutePath\<close>, which the sources define in
  several files as \<^verbatim>\<open>fs::absolute(path).lexically_normal()\<close>. The current directory, an absolute
  path, is the parameter \<open>cwd\<close>.
\<close>

type_synonym fs_path = string

text \<open>The file system a program sees, by path text; ancestors of a file are not tracked.\<close>

datatype fs_node = Regular string | Directory

type_synonym file_system = "fs_path \<Rightarrow> fs_node option"

definition fs_exists :: "file_system \<Rightarrow> fs_path \<Rightarrow> bool" where
  "fs_exists fs p = (fs p \<noteq> None)"

definition create_directories :: "fs_path \<Rightarrow> file_system \<Rightarrow> file_system" where
  "create_directories p fs = (if fs p = None then fs(p \<mapsto> Directory) else fs)"

definition file_text :: "file_system \<Rightarrow> fs_path \<Rightarrow> string option" where
  "file_text fs p = (case fs p of Some (Regular text) \<Rightarrow> Some text | _ \<Rightarrow> None)"

section \<open>Elements and concatenation\<close>

definition path_names :: "fs_path \<Rightarrow> string list" where
  "path_names p = filter (\<lambda>item. item \<noteq> []) (getlines (CHR ''/'') p)"

definition path_absolute :: "fs_path \<Rightarrow> bool" where
  "path_absolute p = (p \<noteq> [] \<and> hd p = CHR ''/'')"

definition path_elements :: "fs_path \<Rightarrow> string list" where
  "path_elements p =
     (if path_absolute p then [''/''] else []) @ path_names p
       @ (if path_names p \<noteq> [] \<and> last p = CHR ''/'' then [[]] else [])"

definition path_div :: "fs_path \<Rightarrow> fs_path \<Rightarrow> fs_path" where
  "path_div p q =
     (if path_absolute q then q
      else if p = [] \<or> last p = CHR ''/'' then p @ q
      else p @ ''/'' @ q)"

definition path_less :: "fs_path \<Rightarrow> fs_path \<Rightarrow> bool" where
  "path_less p q = (path_elements p < path_elements q)"

definition path_eq :: "fs_path \<Rightarrow> fs_path \<Rightarrow> bool" where
  "path_eq p q = (path_elements p = path_elements q)"

definition path_filename :: "fs_path \<Rightarrow> string" where
  "path_filename p = (if path_names p = [] \<or> last p = CHR ''/'' then [] else last (path_names p))"

definition path_parent :: "fs_path \<Rightarrow> fs_path" where
  "path_parent p =
     (if path_names p = [] then p
      else if last p = CHR ''/'' then strip_back (CHR ''/'') p
      else let r = strip_back (CHR ''/'') (rev (dropWhile (\<lambda>c. c \<noteq> CHR ''/'') (rev p)))
           in if r = [] \<and> path_absolute p then ''/'' else r)"

section \<open>Normal form\<close>

text \<open>
  The names left after the dots and the pairs of a name and \<^verbatim>\<open>..\<close> are removed, on a stack
  with the last name first.
\<close>

definition norm_step :: "bool \<Rightarrow> string list \<Rightarrow> string \<Rightarrow> string list" where
  "norm_step absolute stack name =
     (if name = ''.'' then stack
      else if name = ''..'' then
        (case stack of
           [] \<Rightarrow> if absolute then [] else [''..'']
         | prev # rest \<Rightarrow> if prev = ''..'' then ''..'' # stack else rest)
      else name # stack)"

definition norm_names :: "bool \<Rightarrow> string list \<Rightarrow> string list" where
  "norm_names absolute names = rev (foldl (norm_step absolute) [] names)"

definition lexically_normal :: "fs_path \<Rightarrow> fs_path" where
  "lexically_normal p =
     (if p = [] then []
      else let names = norm_names (path_absolute p) (path_names p);
               body = (if path_absolute p then ''/'' else []) @ join_with ''/'' names;
               open_end = (path_names p \<noteq> [] \<and> (last p = CHR ''/'' \<or> last (path_names p) \<in> {''.'', ''..''}))
           in if names = [] then (if path_absolute p then ''/'' else ''.'')
              else if open_end \<and> last names \<noteq> ''..'' then body @ ''/''
              else body)"

definition CanonicalAbsolutePath :: "fs_path \<Rightarrow> fs_path \<Rightarrow> fs_path" where
  "CanonicalAbsolutePath cwd p = lexically_normal (path_div cwd p)"

fun common_rest :: "string list \<Rightarrow> string list \<Rightarrow> string list \<times> string list" where
  "common_rest (x # xs) (y # ys) = (if x = y then common_rest xs ys else (x # xs, y # ys))"
| "common_rest xs ys = (xs, ys)"

definition lexically_relative :: "fs_path \<Rightarrow> fs_path \<Rightarrow> fs_path" where
  "lexically_relative p base =
     (if path_absolute p \<noteq> path_absolute base then []
      else case common_rest (path_elements p) (path_elements base) of
        ([], []) \<Rightarrow> ''.''
      | (as, bs) \<Rightarrow>
          let n = sum_list (map (\<lambda>b. if b = ''..'' then - 1 else if b = [] \<or> b = ''.'' then 0 else 1 :: int) bs)
          in if n < 0 then []
             else if n = 0 \<and> (as = [] \<or> hd as = []) then ''.''
             else foldl path_div [] (replicate (nat n) ''..'' @ as))"

section \<open>Lemmas\<close>

lemma path_names_nonempty: "x \<in> set (path_names p) \<Longrightarrow> x \<noteq> [] \<and> CHR ''/'' \<notin> set x"
  by (auto simp: path_names_def dest: getlines_no_delim)

lemma path_names_Nil [simp]: "path_names [] = []" "path_names ''/'' = []"
  by (simp_all add: path_names_def)

lemma path_names_join:
  assumes "\<forall>x \<in> set xs. x \<noteq> [] \<and> CHR ''/'' \<notin> set x"
  shows "path_names (join_with ''/'' xs) = xs" "path_names (CHR ''/'' # join_with ''/'' xs) = xs"
    "path_names (join_with ''/'' xs @ ''/'') = xs" "path_names (CHR ''/'' # join_with ''/'' xs @ ''/'') = xs"
proof -
  have *: "getlines (CHR ''/'') (s @ ''/'') = (if s = [] \<or> last s = CHR ''/'' then getlines (CHR ''/'') s @ [[]] else getlines (CHR ''/'') s)" for s
  proof (induction s)
    case (Cons c cs)
    then show ?case by (auto split: list.splits)
  qed simp
  have j: "path_names (join_with ''/'' xs) = xs"
    using split_join [OF assms] by (simp add: path_names_def)
  then show "path_names (join_with ''/'' xs) = xs" "path_names (CHR ''/'' # join_with ''/'' xs) = xs"
    by (simp_all add: path_names_def)
  show "path_names (join_with ''/'' xs @ ''/'') = xs" "path_names (CHR ''/'' # join_with ''/'' xs @ ''/'') = xs"
    using j by (auto simp: path_names_def *)
qed

lemma foldl_norm_step_names:
  "set (foldl (norm_step absolute) stack names) \<subseteq> set stack \<union> set names"
proof (induction names arbitrary: stack)
  case (Cons n names)
  have "set (norm_step absolute stack n) \<subseteq> set stack \<union> {n}" by (auto simp: norm_step_def split: list.splits)
  with Cons.IH [of "norm_step absolute stack n"] show ?case by auto
qed simp

lemma norm_names_subset: "set (norm_names absolute names) \<subseteq> set names"
  using foldl_norm_step_names [of absolute "[]" names] by (auto simp: norm_names_def)

definition dot_free :: "string list \<Rightarrow> bool" where
  "dot_free names = list_all (\<lambda>x. x \<noteq> ''.'' \<and> x \<noteq> ''..'') names"

lemma norm_step_dot_free: "dot_free stack \<Longrightarrow> dot_free (norm_step True stack n)"
  by (auto simp: norm_step_def dot_free_def split: list.splits)

lemma norm_names_dot_free: "dot_free (norm_names True names)"
proof -
  have "dot_free stack \<Longrightarrow> dot_free (foldl (norm_step True) stack names)" for stack
    by (induction names arbitrary: stack) (simp_all add: norm_step_dot_free)
  from this [of "[]"] show ?thesis by (simp add: norm_names_def dot_free_def)
qed

lemma norm_names_id: "dot_free names \<Longrightarrow> norm_names b names = names"
proof -
  have "dot_free names \<Longrightarrow> foldl (norm_step b) stack names = rev names @ stack" for stack
    by (induction names arbitrary: stack) (auto simp: norm_step_def dot_free_def)
  then show "dot_free names \<Longrightarrow> ?thesis" by (simp add: norm_names_def)
qed

lemma norm_names_append:
  "dot_free xs \<Longrightarrow> norm_names b (xs @ ys) = rev (foldl (norm_step b) (rev xs) ys)"
  using arg_cong [OF norm_names_id [of xs b], of rev] by (simp add: norm_names_def)

text \<open>A normal absolute path: one slash before each name, no dots, at most a final slash.\<close>

definition normal_path :: "fs_path \<Rightarrow> bool" where
  "normal_path p =
     (path_absolute p \<and> dot_free (path_names p)
      \<and> (p = CHR ''/'' # join_with ''/'' (path_names p)
         \<or> (path_names p \<noteq> [] \<and> p = CHR ''/'' # join_with ''/'' (path_names p) @ ''/'')))"

lemma lexically_normal_absolute:
  assumes "path_absolute p"
  shows "normal_path (lexically_normal p)" and "path_names (lexically_normal p) = norm_names True (path_names p)"
proof -
  let ?ns = "norm_names True (path_names p)"
  have ne: "\<forall>x \<in> set ?ns. x \<noteq> [] \<and> CHR ''/'' \<notin> set x"
    using norm_names_subset [of True "path_names p"] path_names_nonempty by blast
  note j = path_names_join [OF ne]
  have p: "p \<noteq> []" using assms by (auto simp: path_absolute_def)
  show names: "path_names (lexically_normal p) = ?ns"
    using assms p j by (auto simp: lexically_normal_def Let_def)
  show "normal_path (lexically_normal p)"
    unfolding normal_path_def names
    using assms p norm_names_dot_free [of "path_names p"]
    by (auto simp: lexically_normal_def Let_def path_absolute_def)
qed

lemma path_div_absolute: "path_absolute p \<Longrightarrow> path_absolute (path_div p q)"
  by (auto simp: path_div_def path_absolute_def)

lemma canonical_normal: "path_absolute cwd \<Longrightarrow> normal_path (CanonicalAbsolutePath cwd p)"
  by (simp add: CanonicalAbsolutePath_def lexically_normal_absolute path_div_absolute)

lemma normal_pathD: "normal_path p \<Longrightarrow> path_absolute p"
  by (simp add: normal_path_def)

lemma last_join_no_slash:
  "xs \<noteq> [] \<Longrightarrow> \<forall>x \<in> set xs. x \<noteq> [] \<and> CHR ''/'' \<notin> set x \<Longrightarrow> last (join_with ''/'' xs) \<noteq> CHR ''/'' \<and> join_with ''/'' xs \<noteq> []"
proof (induction xs rule: induct_list012)
  case (2 x)
  then show ?case by (metis join_with.simps(2) last_in_set list.set_intros(1))
next
  case (3 x y ys)
  then show ?case by simp
qed simp

lemma lexically_normal_normal: "normal_path p \<Longrightarrow> lexically_normal p = p"
proof -
  assume n: "normal_path p"
  let ?ns = "path_names p"
  have ne: "\<forall>x \<in> set ?ns. x \<noteq> [] \<and> CHR ''/'' \<notin> set x" using path_names_nonempty by blast
  have df: "dot_free ?ns" and abs: "path_absolute p" using n by (auto simp: normal_path_def)
  have lastn: "?ns \<noteq> [] \<Longrightarrow> last ?ns \<notin> {''.'', ''..''}"
    using df last_in_set by (fastforce simp: dot_free_def list_all_iff)
  have p: "p \<noteq> []" using abs by (auto simp: path_absolute_def)
  show ?thesis
  proof (cases "?ns = []")
    case True
    with n p show ?thesis by (auto simp: lexically_normal_def normal_path_def norm_names_def)
  next
    case False
    note l = last_join_no_slash [OF False ne]
    from n consider "p = CHR ''/'' # join_with ''/'' ?ns" | "p = CHR ''/'' # join_with ''/'' ?ns @ ''/''"
      by (auto simp: normal_path_def)
    then show ?thesis
    proof cases
      case 1
      then have "last p \<noteq> CHR ''/''" using l by (metis last_ConsR)
      with 1 p False lastn abs norm_names_id [OF df, of True] show ?thesis
        by (simp add: lexically_normal_def Let_def)
    next
      case 2
      then have "last p = CHR ''/''" by (metis last_ConsR append_is_Nil_conv last_snoc list.distinct(1))
      with 2 p False lastn abs norm_names_id [OF df, of True] show ?thesis
        by (simp add: lexically_normal_def Let_def)
    qed
  qed
qed

lemma canonical_idem:
  "path_absolute cwd \<Longrightarrow> CanonicalAbsolutePath cwd (CanonicalAbsolutePath cwd' p) = CanonicalAbsolutePath cwd' p"
  if "path_absolute cwd'"
  using canonical_normal [OF that, of p] lexically_normal_normal
  by (simp add: CanonicalAbsolutePath_def path_div_def normal_path_def)

section \<open>Absolute paths as lists of names\<close>

definition plain_name :: "string \<Rightarrow> bool" where
  "plain_name x = (x \<noteq> [] \<and> CHR ''/'' \<notin> set x \<and> x \<noteq> ''.'' \<and> x \<noteq> ''..'')"

definition abs_path :: "string list \<Rightarrow> fs_path" where
  "abs_path ns = CHR ''/'' # join_with ''/'' ns"

lemma join_with_snoc: "join_with sep (xs @ [x]) = (if xs = [] then x else join_with sep xs @ sep @ x)"
  by (induction xs rule: induct_list012) auto

lemma path_names_abs [simp]: "list_all plain_name ns \<Longrightarrow> path_names (abs_path ns) = ns"
  by (simp add: abs_path_def path_names_join plain_name_def list_all_iff)

lemma abs_path_absolute [simp]: "path_absolute (abs_path ns)"
  by (simp add: abs_path_def path_absolute_def)

lemma plain_dot_free: "list_all plain_name ns \<Longrightarrow> dot_free ns"
  by (auto simp: dot_free_def plain_name_def list_all_iff)

lemma abs_path_normal: "list_all plain_name ns \<Longrightarrow> normal_path (abs_path ns)"
  using plain_dot_free by (simp add: normal_path_def) (simp add: abs_path_def)

lemma canonical_abs [simp]: "list_all plain_name ns \<Longrightarrow> CanonicalAbsolutePath cwd (abs_path ns) = abs_path ns"
  by (simp add: CanonicalAbsolutePath_def path_div_def lexically_normal_normal abs_path_normal)

lemma last_abs_path:
  assumes "list_all plain_name ns" "ns \<noteq> []"
  shows "last (abs_path ns) \<noteq> CHR ''/''"
proof -
  have "\<forall>x \<in> set ns. x \<noteq> [] \<and> CHR ''/'' \<notin> set x" using assms(1) by (simp add: plain_name_def list_all_iff)
  from last_join_no_slash [OF assms(2) this] show ?thesis by (simp add: abs_path_def)
qed

lemma path_div_abs [simp]:
  assumes "list_all plain_name ns" "plain_name x"
  shows "path_div (abs_path ns) x = abs_path (ns @ [x])"
proof -
  have "\<not> path_absolute x" using assms(2) by (cases x) (auto simp: plain_name_def path_absolute_def)
  then show ?thesis
    using last_abs_path [OF assms(1)] by (cases "ns = []") (auto simp: path_div_def abs_path_def join_with_snoc)
qed

lemma drop_last_name:
  "CHR ''/'' \<notin> set x \<Longrightarrow> rev (dropWhile (\<lambda>c. c \<noteq> CHR ''/'') (rev (p @ ''/'' @ x))) = p @ ''/''"
proof -
  assume "CHR ''/'' \<notin> set x"
  then have "dropWhile (\<lambda>c. c \<noteq> CHR ''/'') (rev x @ r) = dropWhile (\<lambda>c. c \<noteq> CHR ''/'') r" for r
    by (intro dropWhile_append2) auto
  then show ?thesis by simp
qed

lemma path_parent_abs [simp]:
  assumes "list_all plain_name ns"
  shows "path_parent (abs_path ns) = abs_path (butlast ns)"
proof (cases ns rule: rev_cases)
  case Nil
  then show ?thesis by (simp add: path_parent_def abs_path_def)
next
  case (snoc xs x)
  have x: "CHR ''/'' \<notin> set x" and xs: "list_all plain_name xs" using assms by (auto simp: snoc plain_name_def)
  have l: "last (abs_path ns) \<noteq> CHR ''/''" using last_abs_path [OF assms] snoc by simp
  have "rev (dropWhile (\<lambda>c. c \<noteq> CHR ''/'') (rev (abs_path ns))) = (if xs = [] then ''/'' else abs_path xs @ ''/'')"
    using drop_last_name [OF x, of "abs_path xs"] drop_last_name [OF x, of "[]"]
    by (auto simp: snoc abs_path_def join_with_snoc)
  moreover have "strip_back (CHR ''/'') (abs_path xs @ ''/'') = abs_path xs" if "xs \<noteq> []"
    using last_abs_path [OF xs that] strip_back_id [of "abs_path xs" "CHR ''/''"] by (simp add: strip_back_def)
  moreover have "path_names (abs_path ns) \<noteq> []" using assms snoc by simp
  moreover have "strip_back (CHR ''/'') ''/'' = []" "abs_path [] = ''/''" "abs_path xs \<noteq> []"
    by (simp_all add: strip_back_def abs_path_def)
  moreover have "butlast ns = xs" by (simp add: snoc)
  ultimately show ?thesis using l by (simp add: path_parent_def Let_def)
qed

lemma normal_path_cases:
  assumes "normal_path p"
  obtains ns where "list_all plain_name ns" "p = abs_path ns \<or> p = abs_path ns @ ''/''"
proof
  have "\<forall>x \<in> set (path_names p). plain_name x"
    using assms path_names_nonempty by (fastforce simp: normal_path_def dot_free_def list_all_iff plain_name_def)
  then show "list_all plain_name (path_names p)" by (simp add: list_all_iff)
  show "p = abs_path (path_names p) \<or> p = abs_path (path_names p) @ ''/''"
    using assms by (auto simp: normal_path_def abs_path_def)
qed

lemma path_parent_shorter: "path_parent p \<noteq> p \<Longrightarrow> length (path_parent p) < length p"
proof -
  assume ne: "path_parent p \<noteq> p"
  then have names: "path_names p \<noteq> []" by (auto simp: path_parent_def)
  have strip: "length (strip_back c s) \<le> length s" for c and s :: string
    using length_dropWhile_le [of "\<lambda>x. x = c" "rev s"] by (simp add: strip_back_def)
  show ?thesis
  proof (cases "last p = CHR ''/''")
    case True
    then have pp: "path_parent p = strip_back (CHR ''/'') p" using names by (simp add: path_parent_def)
    with ne strip [of "CHR ''/''" p] strip_back_prefix [of p "CHR ''/''"] show ?thesis
      by (metis append.right_neutral length_0_conv length_append length_replicate less_add_same_cancel1 not_gr_zero replicate_0)
  next
    case False
    have "p \<noteq> []" using names by auto
    then obtain q x where p: "p = q @ [x]" by (cases p rule: rev_cases) auto
    with False have "dropWhile (\<lambda>c. c \<noteq> CHR ''/'') (rev p) = dropWhile (\<lambda>c. c \<noteq> CHR ''/'') (rev q)" by simp
    then have "length (rev (dropWhile (\<lambda>c. c \<noteq> CHR ''/'') (rev p))) < length p"
      using length_dropWhile_le [of "\<lambda>c. c \<noteq> CHR ''/''" "rev q"] by (simp add: p)
    with strip have s: "length (strip_back (CHR ''/'') (rev (dropWhile (\<lambda>c. c \<noteq> CHR ''/'') (rev p)))) < length p"
      using le_less_trans by blast
    have "path_absolute p \<Longrightarrow> 1 < length p"
      using names by (cases p) (auto simp: path_absolute_def path_names_def)
    with s names False show ?thesis by (simp add: path_parent_def Let_def)
  qed
qed

end
