(* ===== verification/Cache_Paths.thy ===== *)
theory Cache_Paths
  imports Posix_Path
begin

text \<open>
  Where the tool keeps its files (\<^verbatim>\<open>PlatformStorage/PlatformCache/CachePaths.cpp\<close>). \<open>cwd\<close> is the current
  directory, \<open>ex\<close> stands for \<^verbatim>\<open>fs::exists\<close> and \<open>getenv\<close> for the adapter's \<^verbatim>\<open>GetEnv\<close>.
\<close>

definition ProjectStateRootForManifest :: "fs_path \<Rightarrow> fs_path \<Rightarrow> fs_path" where
  "ProjectStateRootForManifest cwd manifest_path =
     CanonicalAbsolutePath cwd (path_div (path_parent (CanonicalAbsolutePath cwd manifest_path)) ''.spio'')"

definition ProjectVendorRootForManifest :: "fs_path \<Rightarrow> fs_path \<Rightarrow> fs_path" where
  "ProjectVendorRootForManifest cwd manifest_path =
     CanonicalAbsolutePath cwd (path_div (ProjectStateRootForManifest cwd manifest_path) ''vendor'')"

definition ProjectToolchainPinPathForManifest :: "fs_path \<Rightarrow> fs_path \<Rightarrow> fs_path" where
  "ProjectToolchainPinPathForManifest cwd manifest_path =
     CanonicalAbsolutePath cwd (path_div (path_parent (CanonicalAbsolutePath cwd manifest_path)) ''spio-toolchain.toml'')"

definition ProjectToolchainStatePathForManifest :: "fs_path \<Rightarrow> fs_path \<Rightarrow> fs_path" where
  "ProjectToolchainStatePathForManifest cwd manifest_path =
     CanonicalAbsolutePath cwd (path_div (path_parent (CanonicalAbsolutePath cwd manifest_path)) ''spio-toolchain.lock'')"

text \<open>The loop the two searches share: up the directories until the file exists or the root is passed.\<close>

function find_upwards :: "(fs_path \<Rightarrow> bool) \<Rightarrow> fs_path \<Rightarrow> string \<Rightarrow> fs_path \<Rightarrow> fs_path option" where
  "find_upwards ex cwd name current =
     (let candidate = CanonicalAbsolutePath cwd (path_div current name) in
      if ex candidate then Some candidate
      else let up = path_parent current in
           if path_eq up current then None else find_upwards ex cwd name up)"
  by pat_completeness auto
termination
proof (relation "measure (\<lambda>(ex, cwd, name, current). length current)")
  fix ex :: "fs_path \<Rightarrow> bool" and cwd name current candidate up :: string
  assume "up = path_parent current" "\<not> path_eq up current"
  then have "path_parent current \<noteq> current" by (auto simp: path_eq_def)
  with \<open>up = path_parent current\<close>
  show "((ex, cwd, name, up), (ex, cwd, name, current)) \<in> measure (\<lambda>(ex, cwd, name, current). length current)"
    by (simp add: path_parent_shorter)
qed simp

declare find_upwards.simps [simp del]

definition FindProjectToolchainPinPath :: "(fs_path \<Rightarrow> bool) \<Rightarrow> fs_path \<Rightarrow> fs_path \<Rightarrow> fs_path option" where
  "FindProjectToolchainPinPath ex cwd manifest_path =
     find_upwards ex cwd ''spio-toolchain.toml'' (path_parent (CanonicalAbsolutePath cwd manifest_path))"

definition FindProjectToolchainStatePath :: "(fs_path \<Rightarrow> bool) \<Rightarrow> fs_path \<Rightarrow> fs_path \<Rightarrow> fs_path option" where
  "FindProjectToolchainStatePath ex cwd manifest_path =
     find_upwards ex cwd ''spio-toolchain.lock'' (path_parent (CanonicalAbsolutePath cwd manifest_path))"

definition ResolveOptionalSpioHome :: "(string \<Rightarrow> string option) \<Rightarrow> fs_path \<Rightarrow> fs_path option" where
  "ResolveOptionalSpioHome getenv cwd =
     (case getenv ''SPIO_HOME'' of
        Some (c # cs) \<Rightarrow> Some (CanonicalAbsolutePath cwd (c # cs))
      | _ \<Rightarrow> (case getenv ''HOME'' of
                Some (c # cs) \<Rightarrow> Some (CanonicalAbsolutePath cwd (path_div (c # cs) ''.spio''))
              | _ \<Rightarrow> None))"

definition ResolveSpioHome :: "(string \<Rightarrow> string option) \<Rightarrow> fs_path \<Rightarrow> fs_path result" where
  "ResolveSpioHome getenv cwd =
     (case ResolveOptionalSpioHome getenv cwd of
        None \<Rightarrow> Inl (CacheError ''unable to resolve SPIO_HOME: set SPIO_HOME or HOME'')
      | Some home \<Rightarrow> Inr home)"

section \<open>Directories under the home\<close>

definition ManagedToolsRoot :: "fs_path \<Rightarrow> fs_path \<Rightarrow> fs_path" where
  "ManagedToolsRoot cwd spio_home = CanonicalAbsolutePath cwd (path_div (CanonicalAbsolutePath cwd spio_home) ''tools'')"

definition ManagedStyioRoot :: "fs_path \<Rightarrow> fs_path \<Rightarrow> fs_path" where
  "ManagedStyioRoot cwd spio_home = CanonicalAbsolutePath cwd (path_div (ManagedToolsRoot cwd spio_home) ''styio'')"

definition ManagedStyioInstallRoot :: "fs_path \<Rightarrow> fs_path \<Rightarrow> string \<Rightarrow> string \<Rightarrow> fs_path" where
  "ManagedStyioInstallRoot cwd spio_home channel compiler_version =
     CanonicalAbsolutePath cwd (path_div (path_div (ManagedStyioRoot cwd spio_home) channel) compiler_version)"

definition ManagedStyioCurrentRoot :: "fs_path \<Rightarrow> fs_path \<Rightarrow> fs_path" where
  "ManagedStyioCurrentRoot cwd spio_home = CanonicalAbsolutePath cwd (path_div (ManagedStyioRoot cwd spio_home) ''current'')"

definition ManagedStyioBinaryPath :: "fs_path \<Rightarrow> fs_path \<Rightarrow> fs_path" where
  "ManagedStyioBinaryPath cwd install = CanonicalAbsolutePath cwd (path_div (path_div install ''bin'') ''styio'')"

definition ManagedStyioMetadataPath :: "fs_path \<Rightarrow> fs_path \<Rightarrow> fs_path" where
  "ManagedStyioMetadataPath cwd install = CanonicalAbsolutePath cwd (path_div install ''install.json'')"

definition SourceStateRoot :: "fs_path \<Rightarrow> fs_path \<Rightarrow> fs_path" where
  "SourceStateRoot cwd spio_home =
     CanonicalAbsolutePath cwd (path_div (path_div (CanonicalAbsolutePath cwd spio_home) ''src'') ''styio'')"

definition SourceCheckoutRoot :: "fs_path \<Rightarrow> fs_path \<Rightarrow> string \<Rightarrow> string \<Rightarrow> fs_path" where
  "SourceCheckoutRoot cwd spio_home channel identity =
     CanonicalAbsolutePath cwd (path_div (path_div (path_div (SourceStateRoot cwd spio_home) channel) identity) ''source'')"

definition SourceToolchainBuildRoot :: "fs_path \<Rightarrow> fs_path \<Rightarrow> string \<Rightarrow> string \<Rightarrow> string \<Rightarrow> fs_path" where
  "SourceToolchainBuildRoot cwd spio_home channel identity build_mode =
     CanonicalAbsolutePath cwd
       (foldl path_div (CanonicalAbsolutePath cwd spio_home) [''toolchains'', ''source'', channel, identity, build_mode])"

definition RegistryCacheRoot :: "fs_path \<Rightarrow> fs_path \<Rightarrow> fs_path" where
  "RegistryCacheRoot cwd spio_home = CanonicalAbsolutePath cwd (path_div (CanonicalAbsolutePath cwd spio_home) ''registry'')"

definition RegistryIndexCacheRoot :: "fs_path \<Rightarrow> fs_path \<Rightarrow> fs_path" where
  "RegistryIndexCacheRoot cwd spio_home = CanonicalAbsolutePath cwd (path_div (RegistryCacheRoot cwd spio_home) ''index'')"

definition RegistryBlobCacheRoot :: "fs_path \<Rightarrow> fs_path \<Rightarrow> fs_path" where
  "RegistryBlobCacheRoot cwd spio_home =
     CanonicalAbsolutePath cwd (path_div (path_div (RegistryCacheRoot cwd spio_home) ''blobs'') ''sha256'')"

definition RegistryCheckoutRoot :: "fs_path \<Rightarrow> fs_path \<Rightarrow> fs_path" where
  "RegistryCheckoutRoot cwd spio_home = CanonicalAbsolutePath cwd (path_div (RegistryCacheRoot cwd spio_home) ''checkouts'')"

definition ServerStateRoot :: "fs_path \<Rightarrow> fs_path \<Rightarrow> fs_path" where
  "ServerStateRoot cwd spio_home = CanonicalAbsolutePath cwd (path_div (CanonicalAbsolutePath cwd spio_home) ''server'')"

definition RegistryServerRoot :: "fs_path \<Rightarrow> fs_path \<Rightarrow> fs_path" where
  "RegistryServerRoot cwd spio_home = CanonicalAbsolutePath cwd (path_div (ServerStateRoot cwd spio_home) ''registry'')"

definition RegistryPublishProfileRoot :: "fs_path \<Rightarrow> fs_path \<Rightarrow> fs_path" where
  "RegistryPublishProfileRoot cwd spio_home =
     CanonicalAbsolutePath cwd (path_div (RegistryServerRoot cwd spio_home) ''publish-profiles'')"

definition RegistryPublishProfilePath :: "fs_path \<Rightarrow> fs_path \<Rightarrow> string \<Rightarrow> fs_path" where
  "RegistryPublishProfilePath cwd spio_home profile_name =
     CanonicalAbsolutePath cwd (path_div (RegistryPublishProfileRoot cwd spio_home) (profile_name @ ''.toml''))"

section \<open>The searches\<close>

lemma path_eq_abs: "list_all plain_name ns \<Longrightarrow> path_eq (abs_path (butlast ns)) (abs_path ns) \<longleftrightarrow> ns = []"
proof (cases ns rule: rev_cases)
  case (snoc xs x)
  assume v: "list_all plain_name ns"
  then have xs: "list_all plain_name xs" by (simp add: snoc)
  have "path_elements (abs_path ys) = ''/'' # ys" if "list_all plain_name ys" for ys
    using that last_abs_path [OF that] by (auto simp: path_elements_def)
  with v xs show ?thesis by (simp add: path_eq_def snoc)
qed (simp add: path_eq_def)

text \<open>The directories from \<open>ns\<close> up to the root, nearest first.\<close>

definition upward :: "string list \<Rightarrow> string list list" where
  "upward ns = map (\<lambda>k. take k ns) (rev [0..<Suc (length ns)])"

lemma upward_snoc: "upward (ns @ [n]) = (ns @ [n]) # upward ns"
  by (simp add: upward_def)

lemma find_upwards_eq:
  assumes "list_all plain_name ns" "plain_name name"
  shows "find_upwards ex cwd name (abs_path ns)
           = List.find ex (map (\<lambda>dir. abs_path (dir @ [name])) (upward ns))"
  using assms(1)
proof (induction ns rule: rev_induct)
  case Nil
  have "CanonicalAbsolutePath cwd (path_div (abs_path []) name) = abs_path [name]"
    using assms(2) by (simp del: path_parent_abs)
  then show ?case
    using path_eq_abs [of "[]"] by (subst find_upwards.simps) (simp add: upward_def Let_def)
next
  case (snoc n ns)
  then have v: "list_all plain_name (ns @ [n])" "list_all plain_name ns" by auto
  have c: "CanonicalAbsolutePath cwd (path_div (abs_path (ns @ [n])) name) = abs_path (ns @ [n] @ [name])"
    using v assms(2) canonical_abs [of "ns @ [n] @ [name]" cwd] path_div_abs [of "ns @ [n]" name] by simp
  show ?case
    using snoc.IH [OF v(2)] path_eq_abs [OF v(1)] v(1)
    by (subst find_upwards.simps) (simp add: c upward_snoc Let_def)
qed

lemma canonical_file_cases:
  assumes "path_absolute cwd" and "path_filename (CanonicalAbsolutePath cwd m) \<noteq> []"
  obtains ns f where "list_all plain_name (ns @ [f])" "CanonicalAbsolutePath cwd m = abs_path (ns @ [f])"
proof -
  obtain xs where xs: "list_all plain_name xs" "CanonicalAbsolutePath cwd m = abs_path xs \<or> CanonicalAbsolutePath cwd m = abs_path xs @ ''/''"
    using normal_path_cases [OF canonical_normal [OF assms(1), of m]] by metis
  with assms(2) have c: "CanonicalAbsolutePath cwd m = abs_path xs" by (auto simp: path_filename_def)
  with assms(2) xs(1) have "xs \<noteq> []" by (auto simp: path_filename_def)
  then obtain ns f where "xs = ns @ [f]" by (cases xs rule: rev_cases) auto
  with that xs c show thesis by blast
qed

text \<open>
  The search for the toolchain files ends and finds the nearest one: for a manifest in the
  directory \<open>ns\<close> the result is the first existing file among those of the directory, its parent
  and so on up to the root, and nothing exactly when none of them exists.
\<close>

theorem FindProjectToolchain_nearest:
  assumes "path_absolute cwd" and "CanonicalAbsolutePath cwd manifest = abs_path (ns @ [file])"
    and "list_all plain_name (ns @ [file])"
  shows "FindProjectToolchainStatePath ex cwd manifest
           = List.find ex (map (\<lambda>dir. abs_path (dir @ [''spio-toolchain.lock''])) (upward ns))
       \<and> FindProjectToolchainPinPath ex cwd manifest
           = List.find ex (map (\<lambda>dir. abs_path (dir @ [''spio-toolchain.toml''])) (upward ns))"
proof -
  have "plain_name ''spio-toolchain.lock''" "plain_name ''spio-toolchain.toml''" by (simp_all add: plain_name_def)
  with assms show ?thesis
    by (simp add: FindProjectToolchainStatePath_def FindProjectToolchainPinPath_def find_upwards_eq)
qed

theorem FindProjectToolchain_nearest_witness:
  "FindProjectToolchainStatePath (\<lambda>p. p = ''/w/spio-toolchain.lock'') ''/'' ''/w/app/spio.toml'' = Some ''/w/spio-toolchain.lock''"
proof -
  have c: "CanonicalAbsolutePath ''/'' ''/w/app/spio.toml'' = abs_path ([''w'', ''app''] @ [''spio.toml''])" by code_simp
  have v: "list_all plain_name ([''w'', ''app''] @ [''spio.toml''])" by code_simp
  have "List.find (\<lambda>p. p = ''/w/spio-toolchain.lock'')
      (map (\<lambda>dir. abs_path (dir @ [''spio-toolchain.lock''])) (upward [''w'', ''app''])) = Some ''/w/spio-toolchain.lock''"
    by code_simp
  then show ?thesis
    using FindProjectToolchain_nearest [OF _ c v] by (simp add: path_absolute_def)
qed

end
