(* ===== verification/Toml_Value.thy ===== *)
theory Toml_Value
  imports Std_Map Posix_Path
begin

text \<open>
  TOML documents as the toml++ library hands them out: a tree of nodes whose tables are
  ordered by key. The sources read strings, arrays and tables, which only a node of that type
  yields; \<^verbatim>\<open>value<bool>()\<close> and \<^verbatim>\<open>value<int64_t>()\<close> also convert between numbers in ways the library
  chooses, so they are fields of \<open>toml_lib\<close>, as is the parser behind \<^verbatim>\<open>parse_file\<close>, which turns the text of
  a file (\<open>None\<close> when it cannot be read) into its root table or the description of an error.
  Floats and dates are never read.
\<close>

datatype toml =
    TString string
  | TInt int
  | TBool bool
  | TOther
  | TArray "toml list"
  | TTable "(string \<times> toml) list"

type_synonym toml_table = "(string \<times> toml) list"

record toml_lib =
  tl_bool :: "toml \<Rightarrow> bool option"
  tl_int :: "toml \<Rightarrow> int option"
  tl_parse :: "string option \<Rightarrow> string + toml_table"

fun value_string :: "toml \<Rightarrow> string option" where
  "value_string (TString s) = Some s"
| "value_string _ = None"

fun as_table :: "toml \<Rightarrow> toml_table option" where
  "as_table (TTable t) = Some t"
| "as_table _ = None"

fun as_array :: "toml \<Rightarrow> toml list option" where
  "as_array (TArray xs) = Some xs"
| "as_array _ = None"

text \<open>\<^verbatim>\<open>table[key].value<T>()\<close> and the like: \<open>None\<close> also for a missing key.\<close>

definition node_at :: "(toml \<Rightarrow> 'a option) \<Rightarrow> toml_table \<Rightarrow> string \<Rightarrow> 'a option" where
  "node_at f t key = Option.bind (smap_find t key) f"

definition parse_file :: "toml_lib \<Rightarrow> file_system \<Rightarrow> fs_path \<Rightarrow> string + toml_table" where
  "parse_file L fs p = tl_parse L (file_text fs p)"

text \<open>The table a list of keys and values denotes.\<close>

definition tbl :: "(string \<times> toml) list \<Rightarrow> toml_table" where
  "tbl kvs = foldr (\<lambda>(k, v) m. smap_put k v m) kvs []"

lemma tbl_find [simp]: "smap_find (tbl kvs) k = map_of kvs k"
  by (induction kvs) (auto simp: tbl_def)

lemma value_string_eq [simp]: "value_string n = Some s \<longleftrightarrow> n = TString s"
  by (cases n) auto

lemma as_table_eq [simp]: "as_table n = Some t \<longleftrightarrow> n = TTable t"
  by (cases n) auto

lemma as_array_eq [simp]: "as_array n = Some xs \<longleftrightarrow> n = TArray xs"
  by (cases n) auto

lemma node_at_Some: "node_at f t key = Some v \<longleftrightarrow> (\<exists>n. smap_find t key = Some n \<and> f n = Some v)"
  by (cases "smap_find t key") (auto simp: node_at_def)

text \<open>
  What TOML prescribes for the two conversions on the nodes the tools write: a boolean reads
  as itself and an integer as itself.
\<close>

definition toml_scalars :: "toml_lib \<Rightarrow> bool" where
  "toml_scalars L \<longleftrightarrow> (\<forall>b. tl_bool L (TBool b) = Some b) \<and> (\<forall>i. tl_int L (TInt i) = Some i)"

definition plain_toml :: toml_lib where
  "plain_toml = \<lparr>tl_bool = (\<lambda>n. case n of TBool b \<Rightarrow> Some b | _ \<Rightarrow> None),
     tl_int = (\<lambda>n. case n of TInt i \<Rightarrow> Some i | _ \<Rightarrow> None), tl_parse = (\<lambda>_. Inl [])\<rparr>"

lemma plain_toml_scalars: "toml_scalars plain_toml"
  by (simp add: toml_scalars_def plain_toml_def)

end
