(* ===== verification/Manifest.thy ===== *)
theory Manifest
  imports Toml_Value
begin

text \<open>
  Project manifests (\<^verbatim>\<open>PlatformCore/Manifest/Manifest.hpp\<close>, \<^verbatim>\<open>Manifest.cpp\<close>): reading and validating a TOML
  document, the canonical text of a manifest, and the scaffold of a new project. \<^verbatim>\<open>std::sort\<close> is
  a stable sort here; the keys it sorts by are distinct in every manifest that was read.
\<close>

datatype DependencySourceKind = DepPath | DepGit | DepRegistry

record Dependency =
  dp_alias :: string
  dp_package :: "string option"
  dp_source_kind :: DependencySourceKind
  dp_source :: string
  dp_rev :: "string option"
  dp_version :: "string option"

record Toolchain =
  tc_channel :: string
  tc_implicit_std :: bool

record LibTarget =
  lib_path :: string

record BinTarget =
  bin_name :: string
  bin_path :: string

record TestTarget =
  test_name :: string
  test_path :: string

record WorkspaceConfig =
  ws_members :: "string list"
  ws_exclude :: "string list"
  ws_resolver :: string

record PackageConfig =
  pc_name :: string
  pc_version :: string
  pc_edition :: string
  pc_publish :: bool
  pc_toolchain :: Toolchain
  pc_lib :: "LibTarget option"
  pc_bins :: "BinTarget list"
  pc_tests :: "TestTarget list"
  pc_dependencies :: "Dependency list"
  pc_dev_dependencies :: "Dependency list"

record ManifestDocument =
  md_package :: "PackageConfig option"
  md_workspace :: "WorkspaceConfig option"

section \<open>Patterns\<close>

fun split_all :: "char \<Rightarrow> string \<Rightarrow> string list" where
  "split_all d [] = [[]]"
| "split_all d (c # cs) =
     (if c = d then [] # split_all d cs
      else (case split_all d cs of [] \<Rightarrow> [[c]] | item # items \<Rightarrow> (c # item) # items))"

definition name_part :: "string \<Rightarrow> bool" where
  "name_part s =
     (s \<noteq> [] \<and> (is_lower (hd s) \<or> is_digit (hd s))
      \<and> list_all (\<lambda>c. is_lower c \<or> is_digit c \<or> c = CHR ''_'' \<or> c = CHR ''-'') s)"

definition NameRegex :: "string \<Rightarrow> bool" where
  "NameRegex s = (case split_all (CHR ''/'') s of [a, b] \<Rightarrow> name_part a \<and> name_part b | _ \<Rightarrow> False)"

definition digits_text :: "string \<Rightarrow> bool" where
  "digits_text s = (s \<noteq> [] \<and> list_all is_digit s)"

definition SemverRegex :: "string \<Rightarrow> bool" where
  "SemverRegex s = (length (split_all (CHR ''.'') s) = 3 \<and> list_all digits_text (split_all (CHR ''.'') s))"

definition BareKeyRegex :: "string \<Rightarrow> bool" where
  "BareKeyRegex s = (s \<noteq> [] \<and> list_all (\<lambda>c. is_alnum c \<or> c = CHR ''_'' \<or> c = CHR ''-'') s)"

definition IsNonEmptyRelativePath :: "string \<Rightarrow> bool" where
  "IsNonEmptyRelativePath v = (v \<noteq> [] \<and> \<not> path_absolute v)"

definition IsRegistryRootUrl :: "string \<Rightarrow> bool" where
  "IsRegistryRootUrl v = (starts_with v ''file://'' \<or> starts_with v ''http://'' \<or> starts_with v ''https://'')"

section \<open>Reading tables\<close>

definition RequireTable :: "toml_table \<Rightarrow> string \<Rightarrow> string \<Rightarrow> toml_table result" where
  "RequireTable parent key ctx =
     (case node_at as_table parent key of
        Some t \<Rightarrow> Inr t
      | None \<Rightarrow> Inl (ValidationError (''missing or invalid ['' @ key @ ''] table in '' @ ctx)))"

definition RequireValue :: "toml_table \<Rightarrow> string \<Rightarrow> string \<Rightarrow> string result" where
  "RequireValue t key ctx =
     (case node_at value_string t key of
        Some v \<Rightarrow> Inr v
      | None \<Rightarrow> Inl (ValidationError (''missing or invalid '' @ [CHR 0x27] @ key @ [CHR 0x27] @ '' in '' @ ctx)))"

definition OptionalBool :: "toml_lib \<Rightarrow> toml_table \<Rightarrow> string \<Rightarrow> bool option" where
  "OptionalBool L t key = node_at (tl_bool L) t key"

definition OptionalString :: "toml_table \<Rightarrow> string \<Rightarrow> string option" where
  "OptionalString t key = node_at value_string t key"

definition string_array :: "toml_table \<Rightarrow> string \<Rightarrow> string \<Rightarrow> string list result" where
  "string_array t key ctx =
     (case node_at as_array t key of
        None \<Rightarrow> Inl (ValidationError (''missing or invalid '' @ [CHR 0x27] @ key @ [CHR 0x27] @ '' array in '' @ ctx))
      | Some nodes \<Rightarrow>
          rmap (\<lambda>node. case value_string node of
                  Some v \<Rightarrow> Inr v
                | None \<Rightarrow> Inl (ValidationError (''array '' @ [CHR 0x27] @ key @ [CHR 0x27] @ '' in '' @ ctx @ '' must contain only strings''))) nodes)"

definition RequireStringArray :: "toml_table \<Rightarrow> string \<Rightarrow> string \<Rightarrow> bool \<Rightarrow> string list result" where
  "RequireStringArray t key ctx require_non_empty =
     rbind (string_array t key ctx) (\<lambda>items.
     rbind (guard_err (require_non_empty \<and> items = [])
              (ValidationError (''array '' @ [CHR 0x27] @ key @ [CHR 0x27] @ '' in '' @ ctx @ '' must not be empty''))) (\<lambda>_.
       Inr items))"

definition ValidateManifestPackageName :: "string \<Rightarrow> string \<Rightarrow> unit result" where
  "ValidateManifestPackageName name ctx = guard_err (\<not> NameRegex name) (ValidationError (ctx @ '' must match namespace/name''))"

definition ValidateSemver :: "string \<Rightarrow> string \<Rightarrow> unit result" where
  "ValidateSemver version ctx = guard_err (\<not> SemverRegex version) (ValidationError (ctx @ '' must be strict semver x.y.z''))"

definition ValidateRelativePath :: "string \<Rightarrow> string \<Rightarrow> unit result" where
  "ValidateRelativePath p ctx =
     guard_err (\<not> IsNonEmptyRelativePath p) (ValidationError (ctx @ '' must be an explicit relative path''))"

definition ValidateRegistryRoot :: "string \<Rightarrow> string \<Rightarrow> unit result" where
  "ValidateRegistryRoot r ctx =
     guard_err (\<not> IsRegistryRootUrl r) (ValidationError (ctx @ '' must use file://, http://, or https://''))"

definition dep_ctx :: "string \<Rightarrow> string" where
  "dep_ctx alias = ''dependency '' @ [CHR 0x27] @ alias @ [CHR 0x27]"

definition parse_dependency :: "string \<Rightarrow> string \<times> toml \<Rightarrow> Dependency result" where
  "parse_dependency table_name entry =
     (case entry of (alias, node) \<Rightarrow>
      case as_table node of
        None \<Rightarrow> Inl (ValidationError (dep_ctx alias @ '' in ['' @ table_name @ ''] must be an inline table''))
      | Some dep \<Rightarrow>
          let has_path = smap_contains dep ''path''; has_git = smap_contains dep ''git'';
              has_registry_source = (smap_contains dep ''version'' \<or> smap_contains dep ''registry'');
              package = OptionalString dep ''package'';
              base = \<lparr>dp_alias = alias, dp_package = package, dp_source_kind = DepPath, dp_source = [],
                      dp_rev = None, dp_version = None\<rparr> in
          rbind (guard_err (of_bool has_path + of_bool has_git + of_bool has_registry_source \<noteq> (1 :: nat))
                   (ValidationError (dep_ctx alias @ '' in ['' @ table_name @ ''] must declare exactly one source kind''))) (\<lambda>_.
          rbind (case package of None \<Rightarrow> Inr () | Some p \<Rightarrow> ValidateManifestPackageName p (dep_ctx alias @ '' package'')) (\<lambda>_.
          if has_path then
            rbind (RequireValue dep ''path'' (dep_ctx alias)) (\<lambda>source.
            rbind (ValidateRelativePath source (dep_ctx alias @ '' path'')) (\<lambda>_.
              Inr (base\<lparr>dp_source := source\<rparr>)))
          else if has_git then
            rbind (RequireValue dep ''git'' (dep_ctx alias)) (\<lambda>source.
            rbind (guard_err (source = []) (ValidationError (dep_ctx alias @ '' git must be a non-empty string''))) (\<lambda>_.
            rbind (RequireValue dep ''rev'' (dep_ctx alias)) (\<lambda>rev_text.
            rbind (guard_err (rev_text = []) (ValidationError (dep_ctx alias @ '' rev must be a non-empty string''))) (\<lambda>_.
              Inr (base\<lparr>dp_source_kind := DepGit, dp_source := source, dp_rev := Some rev_text\<rparr>)))))
          else
            rbind (guard_err (package = None)
                     (ValidationError (dep_ctx alias @ '' must declare package = '' @ [CHR 0x22] @ ''namespace/name'' @ [CHR 0x22] @ '' for registry sources''))) (\<lambda>_.
            rbind (RequireValue dep ''version'' (dep_ctx alias)) (\<lambda>version.
            rbind (ValidateSemver version (dep_ctx alias @ '' version'')) (\<lambda>_.
            rbind (RequireValue dep ''registry'' (dep_ctx alias)) (\<lambda>source.
            rbind (ValidateRegistryRoot source (dep_ctx alias @ '' registry'')) (\<lambda>_.
              Inr (base\<lparr>dp_source_kind := DepRegistry, dp_source := source, dp_version := Some version\<rparr>)))))))))"

definition ParseDependencies :: "toml_table \<Rightarrow> string \<Rightarrow> Dependency list result" where
  "ParseDependencies doc table_name =
     (case node_at as_table doc table_name of
        None \<Rightarrow> Inr []
      | Some deps \<Rightarrow> rmap (parse_dependency table_name) deps)"

definition ParseToolchain :: "toml_lib \<Rightarrow> toml_table \<Rightarrow> Toolchain result" where
  "ParseToolchain L doc =
     rbind (RequireTable doc ''toolchain'' ''package manifest'') (\<lambda>t.
     rbind (RequireValue t ''channel'' ''[toolchain]'') (\<lambda>channel.
     rbind (guard_err (channel = []) (ValidationError ''[toolchain].channel must be a non-empty string'')) (\<lambda>_.
       case OptionalBool L t ''implicit-std'' of
         None \<Rightarrow> Inl (ValidationError ''[toolchain].implicit-std must be a boolean'')
       | Some b \<Rightarrow> Inr \<lparr>tc_channel = channel, tc_implicit_std = b\<rparr>)))"

definition ParseLib :: "toml_table \<Rightarrow> LibTarget option result" where
  "ParseLib doc =
     (case node_at as_table doc ''lib'' of
        None \<Rightarrow> Inr None
      | Some t \<Rightarrow>
          rbind (RequireValue t ''path'' ''[lib]'') (\<lambda>p.
          rbind (ValidateRelativePath p ''[lib].path'') (\<lambda>_. Inr (Some \<lparr>lib_path = p\<rparr>))))"

text \<open>
  The loop over \<^verbatim>\<open>[[bin]]\<close> and the one over \<^verbatim>\<open>[[test]]\<close>, which differ in the word and the record: \<open>seen\<close> is
  the set of names read so far.
\<close>

fun parse_targets :: "string \<Rightarrow> (string \<Rightarrow> string \<Rightarrow> 'a) \<Rightarrow> string list \<Rightarrow> toml list \<Rightarrow> 'a list result" where
  "parse_targets label mk seen [] = Inr []"
| "parse_targets label mk seen (node # nodes) =
     (case as_table node of
        None \<Rightarrow> Inl (ValidationError (label @ '' entries must be tables''))
      | Some t \<Rightarrow>
          rbind (RequireValue t ''name'' label) (\<lambda>name.
          rbind (RequireValue t ''path'' label) (\<lambda>p.
          rbind (guard_err (name = []) (ValidationError (label @ ''.name must be a non-empty string''))) (\<lambda>_.
          rbind (ValidateRelativePath p (label @ ''.path'')) (\<lambda>_.
          rbind (guard_err (name \<in> set seen) (ValidationError (''duplicate '' @ label @ ''.name in package manifest: '' @ name))) (\<lambda>_.
          rbind (parse_targets label mk (name # seen) nodes) (\<lambda>rest. Inr (mk name p # rest))))))))"

definition ParseBins :: "toml_table \<Rightarrow> BinTarget list result" where
  "ParseBins doc =
     (case node_at as_array doc ''bin'' of
        None \<Rightarrow> Inr []
      | Some nodes \<Rightarrow> parse_targets ''[[bin]]'' (\<lambda>n p. \<lparr>bin_name = n, bin_path = p\<rparr>) [] nodes)"

definition ParseTests :: "toml_table \<Rightarrow> TestTarget list result" where
  "ParseTests doc =
     (case node_at as_array doc ''test'' of
        None \<Rightarrow> Inr []
      | Some nodes \<Rightarrow> parse_targets ''[[test]]'' (\<lambda>n p. \<lparr>test_name = n, test_path = p\<rparr>) [] nodes)"

definition ParsePackage :: "toml_lib \<Rightarrow> toml_table \<Rightarrow> PackageConfig result" where
  "ParsePackage L doc =
     rbind (RequireTable doc ''package'' ''manifest'') (\<lambda>t.
     rbind (RequireValue t ''name'' ''[package]'') (\<lambda>name.
     rbind (RequireValue t ''version'' ''[package]'') (\<lambda>version.
     rbind (RequireValue t ''edition'' ''[package]'') (\<lambda>edition.
     rbind (ParseToolchain L doc) (\<lambda>toolchain.
     rbind (ParseLib doc) (\<lambda>lib.
     rbind (ParseBins doc) (\<lambda>bins.
     rbind (ParseTests doc) (\<lambda>tests.
     rbind (ParseDependencies doc ''dependencies'') (\<lambda>dependencies.
     rbind (ParseDependencies doc ''dev-dependencies'') (\<lambda>dev_dependencies.
     rbind (ValidateManifestPackageName name ''package.name'') (\<lambda>_.
     rbind (ValidateSemver version ''package.version'') (\<lambda>_.
     rbind (guard_err (edition = []) (ValidationError ''package.edition must be an explicit string'')) (\<lambda>_.
     rbind (guard_err (lib = None \<and> bins = [] \<and> tests = [])
              (ValidationError ''package manifests must define at least one explicit [lib], [[bin]], or [[test]] target'')) (\<lambda>_.
       Inr \<lparr>pc_name = name, pc_version = version, pc_edition = edition,
            pc_publish = (case OptionalBool L t ''publish'' of None \<Rightarrow> False | Some b \<Rightarrow> b),
            pc_toolchain = toolchain, pc_lib = lib, pc_bins = bins, pc_tests = tests,
            pc_dependencies = dependencies, pc_dev_dependencies = dev_dependencies\<rparr>))))))))))))))"

definition validate_all :: "(string \<Rightarrow> unit result) \<Rightarrow> string list \<Rightarrow> unit result" where
  "validate_all f xs = rbind (rmap f xs) (\<lambda>_. Inr ())"

definition ParseWorkspace :: "toml_table \<Rightarrow> WorkspaceConfig result" where
  "ParseWorkspace doc =
     rbind (RequireTable doc ''workspace'' ''manifest'') (\<lambda>t.
     rbind (RequireStringArray t ''members'' ''[workspace]'' True) (\<lambda>members.
     rbind (if smap_contains t ''exclude'' then RequireStringArray t ''exclude'' ''[workspace]'' False else Inr []) (\<lambda>exclude.
     rbind (RequireValue t ''resolver'' ''[workspace]'') (\<lambda>resolver.
     rbind (guard_err (resolver \<noteq> ''1'') (ValidationError (''[workspace].resolver must be '' @ [CHR 0x22] @ ''1'' @ [CHR 0x22]))) (\<lambda>_.
     rbind (validate_all (\<lambda>m. ValidateRelativePath m ''[workspace].members entry'') members) (\<lambda>_.
     rbind (validate_all (\<lambda>e. ValidateRelativePath e ''[workspace].exclude entry'') exclude) (\<lambda>_.
       Inr \<lparr>ws_members = members, ws_exclude = exclude, ws_resolver = resolver\<rparr>)))))))"

definition parse_manifest :: "toml_lib \<Rightarrow> toml_table \<Rightarrow> ManifestDocument result" where
  "parse_manifest L doc =
     rbind (RequireTable doc ''spio'' ''manifest'') (\<lambda>spio_table.
     rbind (guard_err (node_at (tl_int L) spio_table ''manifest-version'' \<noteq> Some 1)
              (ValidationError ''spio manifest-version must be 1'')) (\<lambda>_.
     let has_package = smap_contains doc ''package''; has_workspace = smap_contains doc ''workspace'' in
     rbind (guard_err (\<not> has_package \<and> \<not> has_workspace)
              (ValidationError ''manifest must contain [package], [workspace], or both'')) (\<lambda>_.
     rbind (if has_package then rbind (ParsePackage L doc) (\<lambda>p. Inr (Some p)) else Inr None) (\<lambda>package.
     rbind (if has_workspace then rbind (ParseWorkspace doc) (\<lambda>w. Inr (Some w)) else Inr None) (\<lambda>workspace.
       Inr \<lparr>md_package = package, md_workspace = workspace\<rparr>)))))"

definition LoadManifest :: "toml_lib \<Rightarrow> file_system \<Rightarrow> fs_path \<Rightarrow> ManifestDocument result" where
  "LoadManifest L fs manifest_path =
     (case parse_file L fs manifest_path of
        Inl description \<Rightarrow>
          Inl (ValidationError (''failed to parse manifest '' @ [CHR 0x27] @ manifest_path @ [CHR 0x27] @ '': '' @ description))
      | Inr doc \<Rightarrow> parse_manifest L doc)"

section \<open>Canonical text\<close>

definition nl :: string where
  "nl = [CHR 0x0A]"

definition PackageShortName :: "string \<Rightarrow> string result" where
  "PackageShortName name =
     (case find_char (CHR ''/'') name of
        Some slash \<Rightarrow> if slash + 1 \<ge> length name then Inl (ValidationError ''package.name must match namespace/name'')
                      else Inr (drop (slash + 1) name)
      | None \<Rightarrow> Inl (ValidationError ''package.name must match namespace/name''))"

text \<open>\<^verbatim>\<open>std::quoted\<close>: a backslash goes before each quote and each backslash, nothing else is escaped.\<close>

definition QuoteTomlString :: "string \<Rightarrow> string" where
  "QuoteTomlString v =
     [CHR 0x22] @ concat (map (\<lambda>c. if c = CHR 0x22 \<or> c = CHR 0x5C then [CHR 0x5C, c] else [c]) v) @ [CHR 0x22]"

definition QuoteTomlKey :: "string \<Rightarrow> string" where
  "QuoteTomlKey v = (if BareKeyRegex v then v else QuoteTomlString v)"

definition EmitStringArray :: "string \<Rightarrow> string list \<Rightarrow> string" where
  "EmitStringArray key items = key @ '' = ['' @ join_with '', '' (map QuoteTomlString items) @ '']'' @ nl"

definition emit_field :: "string \<Rightarrow> string \<Rightarrow> string" where
  "emit_field label v = label @ '' = '' @ QuoteTomlString v"

definition text_or_empty :: "string option \<Rightarrow> string" where
  "text_or_empty v = (case v of None \<Rightarrow> [] | Some s \<Rightarrow> s)"

definition dependency_fields :: "Dependency \<Rightarrow> (string \<times> string) list" where
  "dependency_fields d =
     (case dp_package d of None \<Rightarrow> [] | Some p \<Rightarrow> [(''package'', p)])
     @ (case dp_source_kind d of
          DepPath \<Rightarrow> [(''path'', dp_source d)]
        | DepGit \<Rightarrow> [(''git'', dp_source d), (''rev'', text_or_empty (dp_rev d))]
        | DepRegistry \<Rightarrow> [(''version'', text_or_empty (dp_version d)), (''registry'', dp_source d)])"

definition emit_dependency :: "Dependency \<Rightarrow> string" where
  "emit_dependency d =
     QuoteTomlKey (dp_alias d) @ '' = { '' @ join_with '', '' (map (\<lambda>(l, v). emit_field l v) (dependency_fields d)) @ '' }'' @ nl"

definition EmitDependencySection :: "string \<Rightarrow> Dependency list \<Rightarrow> string" where
  "EmitDependencySection section_name dependencies =
     (if dependencies = [] then []
      else ''['' @ section_name @ '']'' @ nl @ concat (map emit_dependency (sort_key dp_alias dependencies)))"

definition emit_line :: "string \<Rightarrow> string \<Rightarrow> string" where
  "emit_line key v = key @ '' = '' @ v @ nl"

definition bool_text :: "bool \<Rightarrow> string" where
  "bool_text b = (if b then ''true'' else ''false'')"

definition serialize_package :: "PackageConfig \<Rightarrow> string" where
  "serialize_package p =
     nl @ ''[package]'' @ nl
     @ emit_line ''name'' (QuoteTomlString (pc_name p)) @ emit_line ''version'' (QuoteTomlString (pc_version p))
     @ emit_line ''edition'' (QuoteTomlString (pc_edition p)) @ emit_line ''publish'' (bool_text (pc_publish p))
     @ nl @ ''[toolchain]'' @ nl
     @ emit_line ''channel'' (QuoteTomlString (tc_channel (pc_toolchain p)))
     @ emit_line ''implicit-std'' (bool_text (tc_implicit_std (pc_toolchain p)))
     @ (case pc_lib p of None \<Rightarrow> [] | Some l \<Rightarrow> nl @ ''[lib]'' @ nl @ emit_line ''path'' (QuoteTomlString (lib_path l)))
     @ concat (map (\<lambda>b. nl @ ''[[bin]]'' @ nl @ emit_line ''name'' (QuoteTomlString (bin_name b))
                          @ emit_line ''path'' (QuoteTomlString (bin_path b))) (sort_key bin_name (pc_bins p)))
     @ concat (map (\<lambda>t. nl @ ''[[test]]'' @ nl @ emit_line ''name'' (QuoteTomlString (test_name t))
                          @ emit_line ''path'' (QuoteTomlString (test_path t))) (sort_key test_name (pc_tests p)))
     @ (if pc_dependencies p = [] then [] else nl @ EmitDependencySection ''dependencies'' (pc_dependencies p))
     @ (if pc_dev_dependencies p = [] then [] else nl @ EmitDependencySection ''dev-dependencies'' (pc_dev_dependencies p))"

definition serialize_workspace :: "WorkspaceConfig \<Rightarrow> string" where
  "serialize_workspace w =
     nl @ ''[workspace]'' @ nl @ EmitStringArray ''members'' (ws_members w)
     @ (if ws_exclude w = [] then [] else EmitStringArray ''exclude'' (ws_exclude w))
     @ emit_line ''resolver'' (QuoteTomlString (ws_resolver w))"

definition SerializeManifestCanonical :: "ManifestDocument \<Rightarrow> string" where
  "SerializeManifestCanonical m =
     ''[spio]'' @ nl @ emit_line ''manifest-version'' ''1''
     @ (case md_package m of None \<Rightarrow> [] | Some p \<Rightarrow> serialize_package p)
     @ (case md_workspace m of None \<Rightarrow> [] | Some w \<Rightarrow> serialize_workspace w)"

section \<open>New projects\<close>

definition BuildScaffoldManifest :: "string \<Rightarrow> string \<Rightarrow> ManifestDocument result" where
  "BuildScaffoldManifest package_name kind =
     rbind (ValidateManifestPackageName package_name ''package.name'') (\<lambda>_.
     let base = \<lparr>pc_name = package_name, pc_version = ''0.1.0'', pc_edition = ''2026'', pc_publish = False,
                 pc_toolchain = \<lparr>tc_channel = ''nightly'', tc_implicit_std = True\<rparr>, pc_lib = None, pc_bins = [],
                 pc_tests = [], pc_dependencies = [], pc_dev_dependencies = []\<rparr> in
     rbind (if kind = ''lib'' then Inr (base\<lparr>pc_lib := Some \<lparr>lib_path = ''src/lib.styio''\<rparr>\<rparr>)
            else rbind (PackageShortName package_name) (\<lambda>short.
                   Inr (base\<lparr>pc_bins := [\<lparr>bin_name = short, bin_path = ''src/main.styio''\<rparr>]\<rparr>))) (\<lambda>package.
       Inr \<lparr>md_package = Some package, md_workspace = None\<rparr>))"

definition RenderLibSource :: string where
  "RenderLibSource = ''# add := (a: i32, b: i32) => a + b'' @ nl"

definition RenderMainSource :: string where
  "RenderMainSource = ''>_('' @ [CHR 0x22] @ ''hello from native spio bootstrap'' @ [CHR 0x22] @ '')'' @ nl"

definition InferLocalPackageName :: "fs_path \<Rightarrow> string" where
  "InferLocalPackageName dir = ''local/'' @ path_filename dir"

record InitOptions =
  io_package_name :: string
  io_root :: fs_path
  io_kind :: string

text \<open>
  The manifest file is opened before the scaffold is built, so an invalid name leaves an
  empty manifest behind.
\<close>

definition InitializeProject :: "InitOptions \<Rightarrow> file_system \<Rightarrow> unit result \<times> file_system" where
  "InitializeProject options fs =
     (let manifest_path = path_div (io_root options) ''spio.toml''; src_dir = path_div (io_root options) ''src'';
          fs = create_directories src_dir (create_directories (io_root options) fs) in
      if fs_exists fs manifest_path then (Inl (RuntimeError (''manifest already exists: '' @ manifest_path)), fs)
      else case BuildScaffoldManifest (io_package_name options) (io_kind options) of
        Inl e \<Rightarrow> (Inl e, fs(manifest_path \<mapsto> Regular []))
      | Inr m \<Rightarrow>
          (Inr (),
           fs(manifest_path \<mapsto> Regular (SerializeManifestCanonical m),
              path_div src_dir (if io_kind options = ''lib'' then ''lib.styio'' else ''main.styio'')
                \<mapsto> Regular (if io_kind options = ''lib'' then RenderLibSource else RenderMainSource))))"

section \<open>Well-formed manifests\<close>

definition wf_dependency :: "Dependency \<Rightarrow> bool" where
  "wf_dependency d =
     ((case dp_package d of None \<Rightarrow> True | Some p \<Rightarrow> NameRegex p)
      \<and> (case dp_source_kind d of
           DepPath \<Rightarrow> IsNonEmptyRelativePath (dp_source d) \<and> dp_rev d = None \<and> dp_version d = None
         | DepGit \<Rightarrow> dp_source d \<noteq> [] \<and> (\<exists>r. dp_rev d = Some r \<and> r \<noteq> []) \<and> dp_version d = None
         | DepRegistry \<Rightarrow> IsRegistryRootUrl (dp_source d) \<and> dp_package d \<noteq> None \<and> dp_rev d = None
                          \<and> (\<exists>v. dp_version d = Some v \<and> SemverRegex v)))"

definition wf_package :: "PackageConfig \<Rightarrow> bool" where
  "wf_package p =
     (NameRegex (pc_name p) \<and> SemverRegex (pc_version p) \<and> pc_edition p \<noteq> [] \<and> tc_channel (pc_toolchain p) \<noteq> []
      \<and> (pc_lib p \<noteq> None \<or> pc_bins p \<noteq> [] \<or> pc_tests p \<noteq> [])
      \<and> (case pc_lib p of None \<Rightarrow> True | Some l \<Rightarrow> IsNonEmptyRelativePath (lib_path l))
      \<and> list_all (\<lambda>b. bin_name b \<noteq> [] \<and> IsNonEmptyRelativePath (bin_path b)) (pc_bins p) \<and> distinct (map bin_name (pc_bins p))
      \<and> list_all (\<lambda>t. test_name t \<noteq> [] \<and> IsNonEmptyRelativePath (test_path t)) (pc_tests p) \<and> distinct (map test_name (pc_tests p))
      \<and> list_all wf_dependency (pc_dependencies p) \<and> list_all wf_dependency (pc_dev_dependencies p)
      \<and> distinct (map dp_alias (pc_dependencies p)) \<and> distinct (map dp_alias (pc_dev_dependencies p)))"

definition wf_workspace :: "WorkspaceConfig \<Rightarrow> bool" where
  "wf_workspace w =
     (ws_members w \<noteq> [] \<and> list_all IsNonEmptyRelativePath (ws_members w) \<and> list_all IsNonEmptyRelativePath (ws_exclude w)
      \<and> ws_resolver w = ''1'')"

definition wf_manifest :: "ManifestDocument \<Rightarrow> bool" where
  "wf_manifest m =
     ((md_package m \<noteq> None \<or> md_workspace m \<noteq> None)
      \<and> (case md_package m of None \<Rightarrow> True | Some p \<Rightarrow> wf_package p)
      \<and> (case md_workspace m of None \<Rightarrow> True | Some w \<Rightarrow> wf_workspace w))"

end
