(* ===== verification/Manifest_Correct.thy ===== *)
theory Manifest_Correct
  imports Manifest Registry_Ids
begin

text \<open>
  What reading a manifest guarantees, for every text and whatever the TOML library makes of
  it, and that the manifest's rule for package names is the registry's.
\<close>

section \<open>Ordered documents\<close>

fun toml_wf :: "toml \<Rightarrow> bool" where
  "toml_wf (TTable t) = (smap_wf t \<and> list_all (\<lambda>e. toml_wf (snd e)) t)"
| "toml_wf (TArray xs) = list_all toml_wf xs"
| "toml_wf _ = True"

lemma toml_wf_find: "list_all (\<lambda>e. toml_wf (snd e)) t \<Longrightarrow> smap_find t k = Some n \<Longrightarrow> toml_wf n"
  by (induction t) (auto split: if_splits)

lemma smap_wf_distinct: "smap_wf t \<Longrightarrow> distinct (map fst t)"
  by (simp add: smap_wf_def strict_sorted_iff)

section \<open>Reading yields well-formed manifests\<close>

lemmas validate_defs = ValidateManifestPackageName_def ValidateSemver_def ValidateRelativePath_def ValidateRegistryRoot_def

lemma parse_dependency_wf:
  assumes "parse_dependency tn e = Inr d"
  shows "wf_dependency d" and "dp_alias d = fst e"
proof -
  obtain a n where e: "e = (a, n)" by (cases e)
  obtain t where n: "n = TTable t" using assms by (auto simp: e parse_dependency_def split: option.splits)
  show "wf_dependency d" "dp_alias d = fst e"
    using assms
    by (auto simp: e n parse_dependency_def wf_dependency_def Let_def rbind_eq_Inr validate_defs
        split: if_splits option.splits)
qed

lemma ParseDependencies_wf:
  assumes "ParseDependencies doc tn = Inr ds" and "toml_wf (TTable doc)"
  shows "list_all wf_dependency ds \<and> distinct (map dp_alias ds)"
proof (cases "node_at as_table doc tn")
  case None
  with assms(1) show ?thesis by (auto simp: ParseDependencies_def)
next
  case (Some t)
  then have t: "smap_find doc tn = Some (TTable t)" by (auto simp: node_at_Some)
  then have wf: "smap_wf t" using toml_wf_find [OF _ t] assms(2) by simp
  have ds: "list_all2 (\<lambda>e d. parse_dependency tn e = Inr d) t ds"
    using assms(1) Some by (simp add: ParseDependencies_def rmap_eq_Inr)
  then have "map dp_alias ds = map fst t"
    by (induction rule: list_all2_induct) (auto dest: parse_dependency_wf)
  moreover have "list_all wf_dependency ds"
    using ds by (induction rule: list_all2_induct) (auto dest: parse_dependency_wf)
  ultimately show ?thesis using smap_wf_distinct [OF wf] by simp
qed

lemma parse_targets_Inr:
  "parse_targets label mk seen nodes = Inr xs \<Longrightarrow>
     \<exists>ps. xs = map (\<lambda>(n, p). mk n p) ps \<and> distinct (map fst ps) \<and> set (map fst ps) \<inter> set seen = {}
       \<and> list_all (\<lambda>(n, p). n \<noteq> [] \<and> IsNonEmptyRelativePath p) ps"
proof (induction nodes arbitrary: seen xs)
  case (Cons node nodes)
  then obtain t name p rest where t: "node = TTable t"
    and f: "name \<noteq> []" "IsNonEmptyRelativePath p" "name \<notin> set seen"
    and rest: "parse_targets label mk (name # seen) nodes = Inr rest" and xs: "xs = mk name p # rest"
    by (auto simp: rbind_eq_Inr validate_defs split: option.splits)
  from Cons.IH [OF rest] obtain ps where "rest = map (\<lambda>(n, p). mk n p) ps" "distinct (map fst ps)"
    "set (map fst ps) \<inter> set (name # seen) = {}" "list_all (\<lambda>(n, p). n \<noteq> [] \<and> IsNonEmptyRelativePath p) ps" by blast
  with f xs show ?case by (intro exI [of _ "(name, p) # ps"]) auto
qed simp

lemma parse_targets_wf:
  assumes "parse_targets label mk [] nodes = Inr xs" and "\<And>n p. nm (mk n p) = n" and "\<And>n p. pt (mk n p) = p"
  shows "list_all (\<lambda>x. nm x \<noteq> [] \<and> IsNonEmptyRelativePath (pt x)) xs \<and> distinct (map nm xs)"
proof -
  from parse_targets_Inr [OF assms(1)] obtain ps where ps: "xs = map (\<lambda>(n, p). mk n p) ps" "distinct (map fst ps)"
    "list_all (\<lambda>(n, p). n \<noteq> [] \<and> IsNonEmptyRelativePath p) ps" by blast
  have "map nm xs = map fst ps" by (simp add: ps(1) assms(2) case_prod_beta)
  then have "distinct (map nm xs)" using ps(2) by (simp only:)
  moreover have "list_all (\<lambda>x. nm x \<noteq> [] \<and> IsNonEmptyRelativePath (pt x)) xs"
    using ps(1,3) by (auto simp: list_all_iff assms)
  ultimately show ?thesis by simp
qed

lemma ParseBins_wf:
  "ParseBins doc = Inr bs \<Longrightarrow>
     list_all (\<lambda>b. bin_name b \<noteq> [] \<and> IsNonEmptyRelativePath (bin_path b)) bs \<and> distinct (map bin_name bs)"
  unfolding ParseBins_def by (cases "node_at as_array doc ''bin''") (auto dest!: parse_targets_wf [where nm = bin_name and pt = bin_path])

lemma ParseTests_wf:
  "ParseTests doc = Inr ts \<Longrightarrow>
     list_all (\<lambda>t. test_name t \<noteq> [] \<and> IsNonEmptyRelativePath (test_path t)) ts \<and> distinct (map test_name ts)"
  unfolding ParseTests_def by (cases "node_at as_array doc ''test''") (auto dest!: parse_targets_wf [where nm = test_name and pt = test_path])

lemma ParsePackage_wf:
  assumes "ParsePackage L doc = Inr p" "toml_wf (TTable doc)"
  shows "wf_package p"
proof -
  from assms(1) obtain name version edition tc lib bins tests deps devs pub where
    parts: "ParseToolchain L doc = Inr tc" "ParseLib doc = Inr lib" "ParseBins doc = Inr bins" "ParseTests doc = Inr tests"
      "ParseDependencies doc ''dependencies'' = Inr deps" "ParseDependencies doc ''dev-dependencies'' = Inr devs"
      "NameRegex name" "SemverRegex version" "edition \<noteq> []" "lib \<noteq> None \<or> bins \<noteq> [] \<or> tests \<noteq> []"
    and p: "p = \<lparr>pc_name = name, pc_version = version, pc_edition = edition, pc_publish = pub, pc_toolchain = tc, pc_lib = lib,
                pc_bins = bins, pc_tests = tests, pc_dependencies = deps, pc_dev_dependencies = devs\<rparr>"
    by (auto simp: ParsePackage_def rbind_eq_Inr validate_defs)
  have "tc_channel tc \<noteq> []" using parts(1) by (auto simp: ParseToolchain_def rbind_eq_Inr split: option.splits)
  moreover have "case lib of None \<Rightarrow> True | Some l \<Rightarrow> IsNonEmptyRelativePath (lib_path l)"
    using parts(2) by (auto simp: ParseLib_def rbind_eq_Inr validate_defs split: option.splits)
  ultimately show ?thesis
    using parts(7-10) ParseBins_wf [OF parts(3)] ParseTests_wf [OF parts(4)]
      ParseDependencies_wf [OF parts(5) assms(2)] ParseDependencies_wf [OF parts(6) assms(2)]
    by (simp add: wf_package_def p)
qed

lemma validate_all_Inr: "validate_all f xs = Inr u \<longleftrightarrow> list_all (\<lambda>x. f x = Inr ()) xs"
  by (induction xs) (auto simp: validate_all_def rbind_eq_Inr)

lemma ParseWorkspace_wf: "ParseWorkspace doc = Inr w \<Longrightarrow> wf_workspace w"
  by (auto simp: ParseWorkspace_def rbind_eq_Inr RequireStringArray_def validate_all_Inr validate_defs wf_workspace_def
      list_all_iff split: if_splits)

lemma parse_manifest_wf:
  assumes "parse_manifest L doc = Inr m" and "toml_wf (TTable doc)"
  shows "wf_manifest m"
  using assms
  by (auto simp: parse_manifest_def wf_manifest_def rbind_eq_Inr Let_def dest: ParsePackage_wf ParseWorkspace_wf split: if_splits)

text \<open>The tables the library hands out are ordered by key, each key once.\<close>

definition toml_ordered :: "toml_lib \<Rightarrow> bool" where
  "toml_ordered L \<longleftrightarrow> (\<forall>text doc. tl_parse L text = Inr doc \<longrightarrow> toml_wf (TTable doc))"

lemma load_manifest_wf:
  assumes "toml_ordered L" and "LoadManifest L fs p = Inr m"
  shows "wf_manifest m"
  using assms parse_manifest_wf unfolding toml_ordered_def
  by (auto simp: LoadManifest_def parse_file_def simp del: toml_wf.simps split: sum.splits)

text \<open>
  \<^bold>\<open>C29.\<close> Whatever text it is given, a manifest that loads is well formed: it has a package or a
  workspace; names are \<^verbatim>\<open>namespace/name\<close>, versions \<^verbatim>\<open>x.y.z\<close>, paths relative and non-empty; bins, tests
  and aliases have distinct names; there is a target; each dependency has the fields of
  exactly one source kind.
\<close>

theorem LoadManifest_well_formed:
  assumes "LoadManifest L fs path = Inr m" and "toml_ordered L"
  shows "wf_manifest m"
  using load_manifest_wf [OF assms(2,1)] .

text \<open>A document that parses, and a text that the TOML grammar reads as it.\<close>

definition sample_document :: toml_table where
  "sample_document =
     tbl [(''spio'', TTable (tbl [(''manifest-version'', TInt 1)])),
          (''package'', TTable (tbl [(''name'', TString ''acme/app''), (''version'', TString ''0.1.0''), (''edition'', TString ''2026'')])),
          (''toolchain'', TTable (tbl [(''channel'', TString ''nightly''), (''implicit-std'', TBool True)])),
          (''lib'', TTable (tbl [(''path'', TString ''src/lib.styio'')])),
          (''dependencies'', TTable (tbl [(''util'', TTable (tbl [(''path'', TString ''../util'')]))]))]"

definition sample_toml :: toml_lib where
  "sample_toml = plain_toml\<lparr>tl_parse := (\<lambda>text. Inr (if text = None then [] else sample_document))\<rparr>"

definition sample_package :: PackageConfig where
  "sample_package =
     \<lparr>pc_name = ''acme/app'', pc_version = ''0.1.0'', pc_edition = ''2026'', pc_publish = False,
      pc_toolchain = \<lparr>tc_channel = ''nightly'', tc_implicit_std = True\<rparr>, pc_lib = Some \<lparr>lib_path = ''src/lib.styio''\<rparr>,
      pc_bins = [], pc_tests = [],
      pc_dependencies = [\<lparr>dp_alias = ''util'', dp_package = None, dp_source_kind = DepPath, dp_source = ''../util'',
                          dp_rev = None, dp_version = None\<rparr>],
      pc_dev_dependencies = []\<rparr>"

lemma tbl_single: "tbl [(k, v)] = [(k, v)]"
  by (simp add: tbl_def)

lemma sample_toml_wf: "toml_ordered sample_toml"
proof -
  have "toml_wf (TTable sample_document) \<and> toml_wf (TTable [])" by code_simp
  then show ?thesis unfolding toml_ordered_def by (auto simp: sample_toml_def simp del: toml_wf.simps split: if_splits)
qed

lemma sample_loads:
  "LoadManifest sample_toml [''/p/spio.toml'' \<mapsto> Regular ''t''] ''/p/spio.toml''
     = Inr \<lparr>md_package = Some sample_package, md_workspace = None\<rparr>"
proof -
  have doc: "node_at f sample_document k = Option.bind (smap_find sample_document k) f" for f :: "toml \<Rightarrow> 'b option" and k
    by (simp add: node_at_def)
  have names: "NameRegex ''acme/app''" "SemverRegex ''0.1.0''" "IsNonEmptyRelativePath ''src/lib.styio''"
    "IsNonEmptyRelativePath ''../util''" by code_simp+
  have "parse_manifest sample_toml sample_document = Inr \<lparr>md_package = Some sample_package, md_workspace = None\<rparr>"
    by (simp add: parse_manifest_def ParsePackage_def ParseToolchain_def ParseLib_def ParseBins_def ParseTests_def
        ParseDependencies_def parse_dependency_def RequireTable_def RequireValue_def OptionalBool_def OptionalString_def
        validate_defs names doc sample_document_def smap_contains_def node_at_def sample_toml_def plain_toml_def
        sample_package_def Let_def tbl_single)
  then show ?thesis by (simp add: LoadManifest_def parse_file_def file_text_def sample_toml_def)
qed

theorem LoadManifest_well_formed_witness:
  "wf_manifest \<lparr>md_package = Some sample_package, md_workspace = None\<rparr>"
  by (rule LoadManifest_well_formed [OF sample_loads sample_toml_wf])

section \<open>One rule for package names\<close>

lemma split_all_nil: "split_all d s \<noteq> []"
  by (induction s) (auto split: list.splits)

lemma split_all_single: "split_all d s = [a] \<longleftrightarrow> s = a \<and> d \<notin> set s"
proof (induction s arbitrary: a)
  case (Cons c s)
  then show ?case using split_all_nil [of d s] by (cases a; cases "split_all d s") auto
qed auto

lemma split_all_two: "split_all d s = [a, b] \<longleftrightarrow> s = a @ [d] @ b \<and> d \<notin> set a \<and> d \<notin> set b"
proof (induction s arbitrary: a)
  case (Cons c s)
  show ?case
  proof (cases "c = d")
    case True
    then show ?thesis by (cases a) (auto simp: split_all_single)
  next
    case False
    then show ?thesis using Cons split_all_nil [of d s]
      by (cases a; cases "split_all d s") auto
  qed
qed simp

lemma name_part_safe: "name_part s = IsSafeLowercaseIdentifier s"
  by (auto simp: name_part_def IsSafeLowercaseIdentifier_def list_all_iff)

lemma NameRegex_split:
  "NameRegex p \<longleftrightarrow> (\<exists>a b. p = a @ ''/'' @ b \<and> IsSafeLowercaseIdentifier a \<and> IsSafeLowercaseIdentifier b)"
proof -
  have "NameRegex p \<longleftrightarrow> (\<exists>a b. split_all (CHR ''/'') p = [a, b] \<and> name_part a \<and> name_part b)"
    by (auto simp: NameRegex_def split: list.splits)
  also have "\<dots> \<longleftrightarrow> (\<exists>a b. p = a @ ''/'' @ b \<and> IsSafeLowercaseIdentifier a \<and> IsSafeLowercaseIdentifier b)"
    using safe_identifier_chars by (auto simp: split_all_two name_part_safe)
  finally show ?thesis .
qed

lemma NameRegex_no_at: "NameRegex p \<Longrightarrow> CHR ''@'' \<notin> set p"
  using safe_identifier_chars by (auto simp: NameRegex_split)

text \<open>
  \<^bold>\<open>C30.\<close> The regular expression that the manifest reader matches package names against and the
  character tests of the registry's publish handler accept the same names, so a manifest that
  loads never has a name that the registry refuses, and the converse.
\<close>

theorem NameRegex_is_registry_rule: "NameRegex p \<longleftrightarrow> ValidatePackageName p = None"
  by (simp add: NameRegex_split ValidatePackageName_split)

end
