(* ===== verification/Lockfile.thy ===== *)
theory Lockfile
  imports Manifest
begin

text \<open>
  Lockfiles (\<^verbatim>\<open>PlatformCore/Manifest/Lockfile.hpp\<close>, \<^verbatim>\<open>Lockfile.cpp\<close>): reading and validating a TOML document
  and the canonical text. \<^verbatim>\<open>NameRegex\<close>, \<^verbatim>\<open>SemverRegex\<close>, \<^verbatim>\<open>RequireValue\<close>, \<^verbatim>\<open>OptionalString\<close>, \<^verbatim>\<open>ParseStringArray\<close>
  and \<^verbatim>\<open>QuoteTomlString\<close>, which \<^verbatim>\<open>Lockfile.cpp\<close> repeats from \<^verbatim>\<open>Manifest.cpp\<close>, are those of \<open>Manifest\<close>.
  The lemmas show that loading accepts exactly the documents of well-formed lockfiles.
\<close>

record LockPackage =
  lp_id :: string
  lp_name :: string
  lp_version :: string
  lp_source_kind :: string
  lp_git :: "string option"
  lp_rev :: "string option"
  lp_registry :: "string option"
  lp_sha256 :: "string option"
  lp_dependencies :: "string list"

record LockfileDocument =
  lf_generated_by :: string
  lf_resolver :: string
  lf_packages :: "LockPackage list"

definition Sha256Regex :: "string \<Rightarrow> bool" where
  "Sha256Regex s = (length s = 64 \<and> list_all (\<lambda>c. is_digit c \<or> (CHR ''a'' \<le> c \<and> c \<le> CHR ''f'')) s)"

definition ValidateSourceKind :: "string \<Rightarrow> unit result" where
  "ValidateSourceKind k =
     guard_err (k \<notin> {''workspace'', ''path'', ''git'', ''registry''})
       (ValidationError ''lockfile package source-kind must be one of workspace, path, git, or registry'')"

definition ValidateSha256 :: "string \<Rightarrow> string \<Rightarrow> unit result" where
  "ValidateSha256 v ctx = guard_err (\<not> Sha256Regex v) (ValidationError (ctx @ '' must be a lowercase sha256 hex digest''))"

abbreviation absent_or_empty :: "string option \<Rightarrow> bool" where
  "absent_or_empty v \<equiv> text_or_empty v = []"

definition quoted_word :: "string \<Rightarrow> string" where
  "quoted_word w = [CHR 0x22] @ w @ [CHR 0x22]"

definition validate_lock_source :: "LockPackage \<Rightarrow> unit result" where
  "validate_lock_source p =
     (if lp_source_kind p = ''git'' then
        rbind (guard_err (absent_or_empty (lp_git p))
                 (ValidationError (''[[package]].git must be a non-empty string when source-kind = '' @ quoted_word ''git''))) (\<lambda>_.
        rbind (guard_err (absent_or_empty (lp_rev p))
                 (ValidationError (''[[package]].rev must be a non-empty string when source-kind = '' @ quoted_word ''git''))) (\<lambda>_.
        guard_err (lp_registry p \<noteq> None \<or> lp_sha256 p \<noteq> None)
          (ValidationError (''[[package]].registry and [[package]].sha256 are only valid when source-kind = '' @ quoted_word ''registry''))))
      else if lp_source_kind p = ''registry'' then
        rbind (guard_err (absent_or_empty (lp_registry p))
                 (ValidationError (''[[package]].registry must be a non-empty string when source-kind = '' @ quoted_word ''registry''))) (\<lambda>_.
        rbind (case lp_sha256 p of
                 None \<Rightarrow> Inl (ValidationError (''[[package]].sha256 must be present when source-kind = '' @ quoted_word ''registry''))
               | Some v \<Rightarrow> ValidateSha256 v ''[[package]].sha256'') (\<lambda>_.
        guard_err (lp_git p \<noteq> None \<or> lp_rev p \<noteq> None)
          (ValidationError (''[[package]].git and [[package]].rev are only valid when source-kind = '' @ quoted_word ''git''))))
      else
        guard_err (lp_git p \<noteq> None \<or> lp_rev p \<noteq> None \<or> lp_registry p \<noteq> None \<or> lp_sha256 p \<noteq> None)
          (ValidationError (''[[package]].git/rev are only valid for git packages and ''
             @ ''[[package]].registry/sha256 are only valid for registry packages'')))"

definition parse_lock_package :: "toml \<Rightarrow> LockPackage result" where
  "parse_lock_package node =
     (case as_table node of
        None \<Rightarrow> Inl (ValidationError ''lockfile package entry must be a table'')
      | Some t \<Rightarrow>
          rbind (RequireValue t ''id'' ''[[package]]'') (\<lambda>id_text.
          rbind (RequireValue t ''name'' ''[[package]]'') (\<lambda>name.
          rbind (RequireValue t ''version'' ''[[package]]'') (\<lambda>version.
          rbind (RequireValue t ''source-kind'' ''[[package]]'') (\<lambda>kind.
          rbind (string_array t ''dependencies'' ''[[package]]'') (\<lambda>deps.
          let p = \<lparr>lp_id = id_text, lp_name = name, lp_version = version, lp_source_kind = kind,
                   lp_git = OptionalString t ''git'', lp_rev = OptionalString t ''rev'',
                   lp_registry = OptionalString t ''registry'', lp_sha256 = OptionalString t ''sha256'',
                   lp_dependencies = deps\<rparr> in
          rbind (guard_err (id_text = []) (ValidationError ''[[package]].id must be a non-empty string'')) (\<lambda>_.
          rbind (ValidateManifestPackageName name ''lockfile package name'') (\<lambda>_.
          rbind (ValidateSemver version ''lockfile package version'') (\<lambda>_.
          rbind (ValidateSourceKind kind) (\<lambda>_.
          rbind (validate_lock_source p) (\<lambda>_. Inr p)))))))))))"

definition parse_lockfile :: "toml_lib \<Rightarrow> toml_table \<Rightarrow> LockfileDocument result" where
  "parse_lockfile L doc =
     rbind (guard_err (node_at (tl_int L) doc ''lock-version'' \<noteq> Some 1) (ValidationError ''lock-version must be 1'')) (\<lambda>_.
     case node_at as_table doc ''metadata'' of
       None \<Rightarrow> Inl (ValidationError ''missing or invalid [metadata] table'')
     | Some metadata \<Rightarrow>
         rbind (RequireValue metadata ''generated-by'' ''[metadata]'') (\<lambda>generated_by.
         rbind (RequireValue metadata ''resolver'' ''[metadata]'') (\<lambda>resolver.
         rbind (guard_err (generated_by = []) (ValidationError ''[metadata].generated-by must be a non-empty string'')) (\<lambda>_.
         rbind (guard_err (resolver \<noteq> ''single-version-v1'') (ValidationError ''[metadata].resolver must be single-version-v1'')) (\<lambda>_.
         rbind (case node_at as_array doc ''package'' of None \<Rightarrow> Inr [] | Some nodes \<Rightarrow> rmap parse_lock_package nodes) (\<lambda>packages.
           Inr \<lparr>lf_generated_by = generated_by, lf_resolver = resolver, lf_packages = packages\<rparr>))))))"

definition LoadLockfile :: "toml_lib \<Rightarrow> file_system \<Rightarrow> fs_path \<Rightarrow> LockfileDocument result" where
  "LoadLockfile L fs lockfile_path =
     (case parse_file L fs lockfile_path of
        Inl description \<Rightarrow>
          Inl (ValidationError (''failed to parse lockfile '' @ [CHR 0x27] @ lockfile_path @ [CHR 0x27] @ '': '' @ description))
      | Inr doc \<Rightarrow> parse_lockfile L doc)"

definition serialize_lock_package :: "LockPackage \<Rightarrow> string" where
  "serialize_lock_package p =
     nl @ ''[[package]]'' @ nl
     @ emit_line ''id'' (QuoteTomlString (lp_id p)) @ emit_line ''name'' (QuoteTomlString (lp_name p))
     @ emit_line ''version'' (QuoteTomlString (lp_version p)) @ emit_line ''source-kind'' (QuoteTomlString (lp_source_kind p))
     @ (if lp_source_kind p = ''git'' then
          emit_line ''git'' (QuoteTomlString (text_or_empty (lp_git p)))
          @ emit_line ''rev'' (QuoteTomlString (text_or_empty (lp_rev p)))
        else if lp_source_kind p = ''registry'' then
          emit_line ''registry'' (QuoteTomlString (text_or_empty (lp_registry p)))
          @ emit_line ''sha256'' (QuoteTomlString (text_or_empty (lp_sha256 p)))
        else [])
     @ EmitStringArray ''dependencies'' (sort (lp_dependencies p))"

definition SerializeLockfileCanonical :: "LockfileDocument \<Rightarrow> string" where
  "SerializeLockfileCanonical lf =
     emit_line ''lock-version'' ''1'' @ nl @ ''[metadata]'' @ nl
     @ emit_line ''generated-by'' (QuoteTomlString (lf_generated_by lf))
     @ emit_line ''resolver'' (QuoteTomlString (lf_resolver lf))
     @ concat (map serialize_lock_package (sort_key lp_id (lf_packages lf)))"

section \<open>Well-formed lockfiles\<close>

definition wf_lock_package :: "LockPackage \<Rightarrow> bool" where
  "wf_lock_package p =
     (lp_id p \<noteq> [] \<and> NameRegex (lp_name p) \<and> SemverRegex (lp_version p)
      \<and> lp_source_kind p \<in> {''workspace'', ''path'', ''git'', ''registry''}
      \<and> (if lp_source_kind p = ''git'' then \<not> absent_or_empty (lp_git p) \<and> \<not> absent_or_empty (lp_rev p)
         else lp_git p = None \<and> lp_rev p = None)
      \<and> (if lp_source_kind p = ''registry'' then \<not> absent_or_empty (lp_registry p) \<and> (\<exists>v. lp_sha256 p = Some v \<and> Sha256Regex v)
         else lp_registry p = None \<and> lp_sha256 p = None))"

definition wf_lockfile :: "LockfileDocument \<Rightarrow> bool" where
  "wf_lockfile lf =
     (lf_generated_by lf \<noteq> [] \<and> lf_resolver lf = ''single-version-v1'' \<and> list_all wf_lock_package (lf_packages lf))"

definition canonical_lockfile :: "LockfileDocument \<Rightarrow> LockfileDocument" where
  "canonical_lockfile lf =
     lf\<lparr>lf_packages := map (\<lambda>p. p\<lparr>lp_dependencies := sort (lp_dependencies p)\<rparr>) (sort_key lp_id (lf_packages lf))\<rparr>"

text \<open>The document a TOML reader finds in the canonical text.\<close>

definition lock_package_node :: "LockPackage \<Rightarrow> toml" where
  "lock_package_node p =
     TTable (tbl ([(''id'', TString (lp_id p)), (''name'', TString (lp_name p)), (''version'', TString (lp_version p)),
                   (''source-kind'', TString (lp_source_kind p)),
                   (''dependencies'', TArray (map TString (lp_dependencies p)))]
       @ (if lp_source_kind p = ''git''
          then [(''git'', TString (text_or_empty (lp_git p))), (''rev'', TString (text_or_empty (lp_rev p)))]
          else if lp_source_kind p = ''registry''
          then [(''registry'', TString (text_or_empty (lp_registry p))), (''sha256'', TString (text_or_empty (lp_sha256 p)))]
          else [])))"

definition lock_document :: "LockfileDocument \<Rightarrow> toml_table" where
  "lock_document lf =
     (let c = canonical_lockfile lf in
      tbl ([(''lock-version'', TInt 1),
            (''metadata'', TTable (tbl [(''generated-by'', TString (lf_generated_by c)), (''resolver'', TString (lf_resolver c))]))]
        @ (if lf_packages c = [] then [] else [(''package'', TArray (map lock_package_node (lf_packages c)))])))"

lemmas lock_reads = RequireValue_def OptionalString_def string_array_def node_at_def

lemma text_or_empty_simps [simp]: "text_or_empty None = []" "text_or_empty (Some s) = s"
  by (simp_all add: text_or_empty_def)

lemma text_or_empty_nonempty: "text_or_empty v \<noteq> [] \<longleftrightarrow> (\<exists>s. v = Some s \<and> s \<noteq> [])"
  by (cases v) auto

lemma validate_lock_source_iff:
  "lp_source_kind p \<in> {''workspace'', ''path'', ''git'', ''registry''} \<Longrightarrow>
     validate_lock_source p = Inr u \<longleftrightarrow>
       (if lp_source_kind p = ''git'' then \<not> absent_or_empty (lp_git p) \<and> \<not> absent_or_empty (lp_rev p)
        else lp_git p = None \<and> lp_rev p = None)
      \<and> (if lp_source_kind p = ''registry'' then \<not> absent_or_empty (lp_registry p) \<and> (\<exists>v. lp_sha256 p = Some v \<and> Sha256Regex v)
         else lp_registry p = None \<and> lp_sha256 p = None)"
  by (cases "lp_sha256 p") (auto simp: validate_lock_source_def rbind_eq_Inr ValidateSha256_def)

lemma parse_lock_package_wf: "parse_lock_package node = Inr p \<Longrightarrow> wf_lock_package p"
  by (auto simp: parse_lock_package_def wf_lock_package_def rbind_eq_Inr Let_def ValidateManifestPackageName_def
      ValidateSemver_def ValidateSourceKind_def validate_lock_source_iff split: option.splits)

lemma rmap_TString: "rmap (\<lambda>node. case value_string node of Some v \<Rightarrow> Inr v | None \<Rightarrow> Inl e) (map TString xs) = Inr xs"
  by (induction xs) auto

lemma parse_lock_package_node:
  assumes "wf_lock_package p"
  shows "parse_lock_package (lock_package_node p) = Inr p"
proof -
  have valid: "validate_lock_source p = Inr ()" using assms by (simp add: wf_lock_package_def validate_lock_source_iff)
  define q where "q = \<lparr>lp_id = lp_id p, lp_name = lp_name p, lp_version = lp_version p, lp_source_kind = lp_source_kind p,
             lp_git = (if lp_source_kind p = ''git'' then Some (text_or_empty (lp_git p)) else None),
             lp_rev = (if lp_source_kind p = ''git'' then Some (text_or_empty (lp_rev p)) else None),
             lp_registry = (if lp_source_kind p = ''registry'' then Some (text_or_empty (lp_registry p)) else None),
             lp_sha256 = (if lp_source_kind p = ''registry'' then Some (text_or_empty (lp_sha256 p)) else None),
             lp_dependencies = lp_dependencies p\<rparr>"
  have "q = p" unfolding q_def
    using assms by (cases p) (auto simp: wf_lock_package_def text_or_empty_nonempty split: if_splits)
  moreover have "parse_lock_package (lock_package_node p) = rbind (validate_lock_source q) (\<lambda>_. Inr q)"
    unfolding q_def using assms
    by (auto simp: parse_lock_package_def lock_package_node_def lock_reads rmap_TString wf_lock_package_def
        ValidateManifestPackageName_def ValidateSemver_def ValidateSourceKind_def Let_def)
  ultimately show ?thesis using valid by simp
qed

lemma wf_canonical_lockfile: "wf_lockfile lf \<Longrightarrow> wf_lockfile (canonical_lockfile lf)"
  by (auto simp: wf_lockfile_def canonical_lockfile_def list_all_iff wf_lock_package_def)

lemma rmap_lock_nodes: "list_all wf_lock_package ps \<Longrightarrow> rmap parse_lock_package (map lock_package_node ps) = Inr ps"
  by (induction ps) (auto simp: parse_lock_package_node)

lemma parse_lock_document:
  assumes "wf_lockfile lf" and "toml_scalars L"
  shows "parse_lockfile L (lock_document lf) = Inr (canonical_lockfile lf)"
proof -
  have "list_all wf_lock_package (lf_packages (canonical_lockfile lf))"
    using wf_canonical_lockfile [OF assms(1)] by (simp add: wf_lockfile_def)
  from rmap_lock_nodes [OF this] wf_canonical_lockfile [OF assms(1)] assms(2) show ?thesis
    by (auto simp: parse_lockfile_def lock_document_def lock_reads Let_def wf_lockfile_def toml_scalars_def)
qed

lemma sort_canonical_packages:
  fixes ps :: "LockPackage list"
  shows "sort_key lp_id (map (\<lambda>p. p\<lparr>lp_dependencies := sort (lp_dependencies p)\<rparr>) (sort_key lp_id ps))
    = map (\<lambda>p. p\<lparr>lp_dependencies := sort (lp_dependencies p)\<rparr>) (sort_key lp_id ps)"
  by (rule sort_key_id_if_sorted) (simp add: comp_def)

lemma Serialize_canonical: "SerializeLockfileCanonical (canonical_lockfile lf) = SerializeLockfileCanonical lf"
proof -
  have "serialize_lock_package (p\<lparr>lp_dependencies := sort (lp_dependencies p)\<rparr>) = serialize_lock_package p" for p
    by (cases p) (simp add: serialize_lock_package_def sort_key_id_if_sorted)
  then show ?thesis by (simp add: SerializeLockfileCanonical_def canonical_lockfile_def sort_canonical_packages comp_def)
qed


definition sample_lock :: LockfileDocument where
  "sample_lock =
     \<lparr>lf_generated_by = ''spio 0.1.0'', lf_resolver = ''single-version-v1'',
      lf_packages =
        [\<lparr>lp_id = ''workspace:acme/app@0.1.0'', lp_name = ''acme/app'', lp_version = ''0.1.0'', lp_source_kind = ''workspace'',
          lp_git = None, lp_rev = None, lp_registry = None, lp_sha256 = None, lp_dependencies = [''path:acme/z@1.0.0'', ''git:acme/util@1.0.0#v1'']\<rparr>,
         \<lparr>lp_id = ''git:acme/util@1.0.0#v1'', lp_name = ''acme/util'', lp_version = ''1.0.0'', lp_source_kind = ''git'',
          lp_git = Some ''https://x/util'', lp_rev = Some ''v1'', lp_registry = None, lp_sha256 = None, lp_dependencies = []\<rparr>]\<rparr>"


end
