(* ===== verification/Registry_Security.thy ===== *)
theory Registry_Security
  imports Platform_Prelude Posix_Path
begin

text \<open>
  How access to a registry is decided (\<^verbatim>\<open>PlatformSecurity/SecurityHardening/RegistrySecurity.hpp\<close>,
  \<^verbatim>\<open>RegistrySecurity.cpp\<close>): a chain of handlers that each see the request and the decision so far, the
  two default chains, and the slots in which a private module registers its own resolver.
  A handler is a function that may throw; the slot is the resolver it holds.
\<close>

datatype SecurityHandlerResult = SecContinue | SecResolved

record RegistryReadSecurityRequest =
  rr_registry_root :: string
  rr_offline :: bool

record RegistryReadSecurityDecision =
  rd_registry_root :: string
  rd_request_headers :: "string list"
  rd_provider_name :: string

record RegistryWriteSecurityRequest =
  wr_registry_root :: string
  wr_profile_name :: "string option"
  wr_policy_file :: "fs_path option"
  wr_explicit_request_headers :: "string list"

record RegistryWriteSecurityDecision =
  wd_registry_root :: string
  wd_request_headers :: "string list"
  wd_provider_name :: string
  wd_mode :: string
  wd_profile_name :: "string option"

type_synonym ('q, 'd) security_handler = "'q \<Rightarrow> 'd \<Rightarrow> (SecurityHandlerResult \<times> 'd) result"

definition NormalizeRegistryRoot :: "string \<Rightarrow> string" where
  "NormalizeRegistryRoot v = strip_back (CHR ''/'') v"

definition IsHttpRegistryRoot :: "string \<Rightarrow> bool" where
  "IsHttpRegistryRoot v = (starts_with v ''http://'' \<or> starts_with v ''https://'')"

definition IsFileRegistryRoot :: "string \<Rightarrow> bool" where
  "IsFileRegistryRoot v = starts_with v ''file://''"

fun RunSecurityChain :: "'q \<Rightarrow> 'd \<Rightarrow> ('q, 'd) security_handler list \<Rightarrow> string \<Rightarrow> 'd result" where
  "RunSecurityChain request decision [] chain_name = Inl (LogicError (chain_name @ '' registry security chain did not resolve''))"
| "RunSecurityChain request decision (handler # handlers) chain_name =
     rbind (handler request decision) (\<lambda>(r, decision').
       if r = SecResolved then Inr decision' else RunSecurityChain request decision' handlers chain_name)"

section \<open>Reading\<close>

definition NormalizeReadRegistryRoot :: "(RegistryReadSecurityRequest, RegistryReadSecurityDecision) security_handler" where
  "NormalizeReadRegistryRoot request decision =
     Inr (SecContinue, decision\<lparr>rd_registry_root := NormalizeRegistryRoot (rr_registry_root request)\<rparr>)"

definition ValidateReadRegistryRootScheme :: "(RegistryReadSecurityRequest, RegistryReadSecurityDecision) security_handler" where
  "ValidateReadRegistryRootScheme request decision =
     (if \<not> IsFileRegistryRoot (rd_registry_root decision) \<and> \<not> IsHttpRegistryRoot (rd_registry_root decision)
      then Inl (FetchError (''registry root must use file://, http://, or https://: '' @ rr_registry_root request))
      else Inr (SecContinue, decision))"

definition ResolvePublicDefaultReadAccess :: "(RegistryReadSecurityRequest, RegistryReadSecurityDecision) security_handler" where
  "ResolvePublicDefaultReadAccess request decision =
     Inr (SecResolved, decision\<lparr>rd_request_headers := [], rd_provider_name := ''public-default''\<rparr>)"

definition kDefaultReadSecurityHandlers :: "(RegistryReadSecurityRequest, RegistryReadSecurityDecision) security_handler list" where
  "kDefaultReadSecurityHandlers = [NormalizeReadRegistryRoot, ValidateReadRegistryRootScheme, ResolvePublicDefaultReadAccess]"

definition ResolveDefaultRegistryReadSecurity :: "RegistryReadSecurityRequest \<Rightarrow> RegistryReadSecurityDecision result" where
  "ResolveDefaultRegistryReadSecurity request =
     RunSecurityChain request \<lparr>rd_registry_root = [], rd_request_headers = [], rd_provider_name = ''public-default''\<rparr>
       kDefaultReadSecurityHandlers ''default read''"

section \<open>Writing\<close>

definition NormalizeWriteRegistryRoot :: "(RegistryWriteSecurityRequest, RegistryWriteSecurityDecision) security_handler" where
  "NormalizeWriteRegistryRoot request decision =
     Inr (SecContinue, decision\<lparr>wd_registry_root := NormalizeRegistryRoot (wr_registry_root request)\<rparr>)"

definition ValidateWriteRegistryRootScheme :: "(RegistryWriteSecurityRequest, RegistryWriteSecurityDecision) security_handler" where
  "ValidateWriteRegistryRootScheme request decision =
     (if \<not> IsHttpRegistryRoot (wd_registry_root decision)
      then Inl (PublishError (''remote registry publish requires an http:// or https:// registry root: '' @ wr_registry_root request))
      else Inr (SecContinue, decision))"

definition RejectOpenSourceWriteSecurityHooks :: "(RegistryWriteSecurityRequest, RegistryWriteSecurityDecision) security_handler" where
  "RejectOpenSourceWriteSecurityHooks request decision =
     (if wr_profile_name request \<noteq> None \<or> wr_policy_file request \<noteq> None \<or> wr_explicit_request_headers request \<noteq> []
      then Inl (PublishError (''registry write security hooks require a private module under src-private/PlatformSecurity ''
             @ ''and are not available in the open-source core''))
      else Inr (SecContinue, decision))"

definition ResolvePublicDefaultWriteAccess :: "(RegistryWriteSecurityRequest, RegistryWriteSecurityDecision) security_handler" where
  "ResolvePublicDefaultWriteAccess request decision =
     Inr (SecResolved, decision\<lparr>wd_request_headers := [], wd_provider_name := ''public-default'', wd_mode := ''anonymous'',
                                wd_profile_name := None\<rparr>)"

definition kDefaultWriteSecurityHandlers :: "(RegistryWriteSecurityRequest, RegistryWriteSecurityDecision) security_handler list" where
  "kDefaultWriteSecurityHandlers =
     [NormalizeWriteRegistryRoot, ValidateWriteRegistryRootScheme, RejectOpenSourceWriteSecurityHooks, ResolvePublicDefaultWriteAccess]"

definition ResolveDefaultRegistryWriteSecurity :: "RegistryWriteSecurityRequest \<Rightarrow> RegistryWriteSecurityDecision result" where
  "ResolveDefaultRegistryWriteSecurity request =
     RunSecurityChain request
       \<lparr>wd_registry_root = [], wd_request_headers = [], wd_provider_name = ''public-default'', wd_mode = ''anonymous'', wd_profile_name = None\<rparr>
       kDefaultWriteSecurityHandlers ''default write''"

section \<open>The slots\<close>

type_synonym read_resolver = "RegistryReadSecurityRequest \<Rightarrow> RegistryReadSecurityDecision result"
type_synonym write_resolver = "RegistryWriteSecurityRequest \<Rightarrow> RegistryWriteSecurityDecision result"

record security_slots =
  sl_read :: read_resolver
  sl_write :: write_resolver

definition initial_slots :: security_slots where
  "initial_slots = \<lparr>sl_read = ResolveDefaultRegistryReadSecurity, sl_write = ResolveDefaultRegistryWriteSecurity\<rparr>"

definition RegisterRegistryReadSecurityResolver :: "read_resolver option \<Rightarrow> security_slots \<Rightarrow> read_resolver \<times> security_slots" where
  "RegisterRegistryReadSecurityResolver r slots =
     (sl_read slots, slots\<lparr>sl_read := (case r of Some f \<Rightarrow> f | None \<Rightarrow> ResolveDefaultRegistryReadSecurity)\<rparr>)"

definition RegisterRegistryWriteSecurityResolver :: "write_resolver option \<Rightarrow> security_slots \<Rightarrow> write_resolver \<times> security_slots" where
  "RegisterRegistryWriteSecurityResolver r slots =
     (sl_write slots, slots\<lparr>sl_write := (case r of Some f \<Rightarrow> f | None \<Rightarrow> ResolveDefaultRegistryWriteSecurity)\<rparr>)"

definition ResolveRegistryReadSecurity :: "security_slots \<Rightarrow> read_resolver" where
  "ResolveRegistryReadSecurity slots request = sl_read slots request"

definition ResolveRegistryWriteSecurity :: "security_slots \<Rightarrow> write_resolver" where
  "ResolveRegistryWriteSecurity slots request = sl_write slots request"

section \<open>What the default chains decide\<close>

lemma default_read_eq:
  "ResolveDefaultRegistryReadSecurity request =
     (let r = NormalizeRegistryRoot (rr_registry_root request) in
      if IsFileRegistryRoot r \<or> IsHttpRegistryRoot r
      then Inr \<lparr>rd_registry_root = r, rd_request_headers = [], rd_provider_name = ''public-default''\<rparr>
      else Inl (FetchError (''registry root must use file://, http://, or https://: '' @ rr_registry_root request)))"
  by (simp add: ResolveDefaultRegistryReadSecurity_def kDefaultReadSecurityHandlers_def NormalizeReadRegistryRoot_def
      ValidateReadRegistryRootScheme_def ResolvePublicDefaultReadAccess_def Let_def)

lemma default_write_Inr:
  "ResolveDefaultRegistryWriteSecurity request = Inr d \<longleftrightarrow>
     IsHttpRegistryRoot (NormalizeRegistryRoot (wr_registry_root request))
     \<and> wr_profile_name request = None \<and> wr_policy_file request = None \<and> wr_explicit_request_headers request = []
     \<and> d = \<lparr>wd_registry_root = NormalizeRegistryRoot (wr_registry_root request), wd_request_headers = [],
            wd_provider_name = ''public-default'', wd_mode = ''anonymous'', wd_profile_name = None\<rparr>"
  by (auto simp: ResolveDefaultRegistryWriteSecurity_def kDefaultWriteSecurityHandlers_def NormalizeWriteRegistryRoot_def
      ValidateWriteRegistryRootScheme_def RejectOpenSourceWriteSecurityHooks_def ResolvePublicDefaultWriteAccess_def)

lemma default_write_error:
  "ResolveDefaultRegistryWriteSecurity request = Inl e \<Longrightarrow> (\<exists>m. e = PublishError m)
     \<and> \<not> (IsHttpRegistryRoot (NormalizeRegistryRoot (wr_registry_root request)) \<and> wr_profile_name request = None
          \<and> wr_policy_file request = None \<and> wr_explicit_request_headers request = [])"
  by (auto simp: ResolveDefaultRegistryWriteSecurity_def kDefaultWriteSecurityHandlers_def NormalizeWriteRegistryRoot_def
      ValidateWriteRegistryRootScheme_def RejectOpenSourceWriteSecurityHooks_def ResolvePublicDefaultWriteAccess_def split: if_splits)

text \<open>
  Until a private module registers a resolver, and again after a null one is registered, reading is
  anonymous and needs a file, http or https root; writing needs an http or https root and a request
  without profile, policy file or headers, and every decision to write carries no header;
  the chains never run off their end (no \<^verbatim>\<open>logic_error\<close>).
\<close>

theorem default_security_decisions:
  "snd (RegisterRegistryWriteSecurityResolver None (snd (RegisterRegistryReadSecurityResolver None slots))) = initial_slots
   \<and> (let r = NormalizeRegistryRoot (rr_registry_root rq) in
       ResolveRegistryReadSecurity initial_slots rq =
         (if IsFileRegistryRoot r \<or> IsHttpRegistryRoot r
          then Inr \<lparr>rd_registry_root = r, rd_request_headers = [], rd_provider_name = ''public-default''\<rparr>
          else Inl (FetchError (''registry root must use file://, http://, or https://: '' @ rr_registry_root rq))))
   \<and> (case ResolveRegistryWriteSecurity initial_slots wq of
         Inr d \<Rightarrow> IsHttpRegistryRoot (wd_registry_root d) \<and> wd_request_headers d = [] \<and> wd_mode d = ''anonymous''
           \<and> wr_profile_name wq = None \<and> wr_policy_file wq = None \<and> wr_explicit_request_headers wq = []
       | Inl e \<Rightarrow> (\<exists>m. e = PublishError m)
           \<and> \<not> (IsHttpRegistryRoot (NormalizeRegistryRoot (wr_registry_root wq)) \<and> wr_profile_name wq = None
                \<and> wr_policy_file wq = None \<and> wr_explicit_request_headers wq = []))"
proof (intro conjI)
  show "snd (RegisterRegistryWriteSecurityResolver None (snd (RegisterRegistryReadSecurityResolver None slots))) = initial_slots"
    by (simp add: RegisterRegistryWriteSecurityResolver_def RegisterRegistryReadSecurityResolver_def initial_slots_def)
  show "let r = NormalizeRegistryRoot (rr_registry_root rq) in
       ResolveRegistryReadSecurity initial_slots rq =
         (if IsFileRegistryRoot r \<or> IsHttpRegistryRoot r
          then Inr \<lparr>rd_registry_root = r, rd_request_headers = [], rd_provider_name = ''public-default''\<rparr>
          else Inl (FetchError (''registry root must use file://, http://, or https://: '' @ rr_registry_root rq)))"
    by (simp add: ResolveRegistryReadSecurity_def initial_slots_def default_read_eq)
  have w: "ResolveRegistryWriteSecurity initial_slots wq = ResolveDefaultRegistryWriteSecurity wq"
    by (simp add: ResolveRegistryWriteSecurity_def initial_slots_def)
  show "case ResolveRegistryWriteSecurity initial_slots wq of
         Inr d \<Rightarrow> IsHttpRegistryRoot (wd_registry_root d) \<and> wd_request_headers d = [] \<and> wd_mode d = ''anonymous''
           \<and> wr_profile_name wq = None \<and> wr_policy_file wq = None \<and> wr_explicit_request_headers wq = []
       | Inl e \<Rightarrow> (\<exists>m. e = PublishError m)
           \<and> \<not> (IsHttpRegistryRoot (NormalizeRegistryRoot (wr_registry_root wq)) \<and> wr_profile_name wq = None
                \<and> wr_policy_file wq = None \<and> wr_explicit_request_headers wq = [])"
  proof (cases "ResolveDefaultRegistryWriteSecurity wq")
    case (Inl e)
    with w show ?thesis using default_write_error [OF Inl] by simp
  next
    case (Inr d)
    with w show ?thesis by (simp add: default_write_Inr)
  qed
qed

end
