(* ===== verification/Os_Process.thy ===== *)
theory Os_Process
  imports Posix_Path
begin

text \<open>
  Child processes (\<^verbatim>\<open>PlatformCore/Core/Process.hpp\<close>, \<^verbatim>\<open>Process.cpp\<close>): requests and results, the loop of
  \<^verbatim>\<open>RunProcessChecked\<close> that feeds standard input and collects the two outputs until both are closed, and
  the texts that describe a failure. What the kernel answers to \<^verbatim>\<open>poll\<close>, \<^verbatim>\<open>read\<close>, \<^verbatim>\<open>write\<close> and \<^verbatim>\<open>waitpid\<close> is the
  input of the model: one \<open>poll_round\<close> per turn of the loop. Creating the pipes and forking are not
  modelled.
\<close>

record ProcessResult =
  ps_exit_code :: int
  ps_terminated_by_signal :: bool
  ps_signal_number :: int
  ps_timed_out :: bool
  ps_stdout_truncated :: bool
  ps_stderr_truncated :: bool
  ps_stdout_text :: string
  ps_stderr_text :: string

definition empty_result :: ProcessResult where
  "empty_result = \<lparr>ps_exit_code = 0, ps_terminated_by_signal = False, ps_signal_number = 0, ps_timed_out = False,
     ps_stdout_truncated = False, ps_stderr_truncated = False, ps_stdout_text = [], ps_stderr_text = []\<rparr>"

record ProcessRequest =
  pr_program :: string
  pr_args :: "string list"
  pr_working_directory :: "fs_path option"
  pr_search_path :: bool
  pr_environment_overrides :: "(string \<times> string option) list"
  pr_clear_environment :: bool
  pr_timeout :: "nat option"
  pr_max_stdout_bytes :: nat
  pr_max_stderr_bytes :: nat
  pr_stdin_text :: string
  pr_terminate_process_group_on_timeout :: bool
  pr_error_context :: string

definition process_request :: "string \<Rightarrow> string list \<Rightarrow> ProcessRequest" where
  "process_request program args = \<lparr>pr_program = program, pr_args = args, pr_working_directory = None, pr_search_path = True,
     pr_environment_overrides = [], pr_clear_environment = False, pr_timeout = None, pr_max_stdout_bytes = 1048576,
     pr_max_stderr_bytes = 1048576, pr_stdin_text = [], pr_terminate_process_group_on_timeout = True,
     pr_error_context = ''child process''\<rparr>"

text \<open>The timeouts, in milliseconds.\<close>

definition kExternalProcessProbeTimeout :: nat where "kExternalProcessProbeTimeout = 30000"
definition kExternalProcessStepTimeout :: nat where "kExternalProcessStepTimeout = 600000"
definition kExternalProcessBuildTimeout :: nat where "kExternalProcessBuildTimeout = 3600000"

definition DescribeProcessContext :: "string \<Rightarrow> string" where
  "DescribeProcessContext ctx = (if ctx = [] then ''child process'' else ctx)"

definition TrimTrailingNewline :: "string \<Rightarrow> string" where
  "TrimTrailingNewline text = rev (dropWhile (\<lambda>c. c = CHR 0x0A \<or> c = CHR 0x0D) (rev text))"

definition DescribeProcessFailure :: "ProcessResult \<Rightarrow> string" where
  "DescribeProcessFailure r =
     (if ps_timed_out r then ''process timed out''
      else if ps_stderr_text r \<noteq> [] then TrimTrailingNewline (ps_stderr_text r)
      else if ps_stdout_text r \<noteq> [] then TrimTrailingNewline (ps_stdout_text r)
      else if ps_terminated_by_signal r then ''process terminated by signal '' @ string_of_int (ps_signal_number r)
      else ''process exited with code '' @ string_of_int (ps_exit_code r))"

section \<open>Collecting output\<close>

definition AppendOutputChunk :: "nat \<Rightarrow> string \<Rightarrow> string \<times> bool \<Rightarrow> string \<times> bool" where
  "AppendOutputChunk limit chunk out =
     (case out of (target, truncated) \<Rightarrow>
      if limit = 0 then (target, truncated \<or> chunk \<noteq> [])
      else if length target \<ge> limit then (target, truncated \<or> chunk \<noteq> [])
      else let to_copy = min (limit - length target) (length chunk)
           in (target @ take to_copy chunk, if to_copy < length chunk then True else truncated))"

text \<open>What \<^verbatim>\<open>read\<close> returns: data, end of file, an interrupted or a would-block call, another error.\<close>

datatype read_event = ReadData string | ReadEof | ReadInterrupted | ReadWouldBlock | ReadFailed

record out_pipe =
  op_text :: string
  op_truncated :: bool
  op_open :: bool

fun drain_fd :: "nat \<Rightarrow> out_pipe \<Rightarrow> read_event list \<Rightarrow> out_pipe" where
  "drain_fd limit p [] = p"
| "drain_fd limit p (ReadData chunk # es) =
     (case AppendOutputChunk limit chunk (op_text p, op_truncated p) of
        (text', truncated') \<Rightarrow> drain_fd limit (p\<lparr>op_text := text', op_truncated := truncated'\<rparr>) es)"
| "drain_fd limit p (ReadEof # es) = p\<lparr>op_open := False\<rparr>"
| "drain_fd limit p (ReadInterrupted # es) = drain_fd limit p es"
| "drain_fd limit p (ReadWouldBlock # es) = p"
| "drain_fd limit p (ReadFailed # es) = p\<lparr>op_open := False\<rparr>"

text \<open>What \<^verbatim>\<open>write\<close> returns; a written count is at least one and at most what was offered.\<close>

datatype write_event = Wrote nat | WriteInterrupted | WriteWouldBlock | WriteFailed

fun feed_stdin :: "nat \<Rightarrow> nat \<Rightarrow> write_event list \<Rightarrow> nat" where
  "feed_stdin len written [] = written"
| "feed_stdin len written (e # es) =
     (if written \<ge> len then written
      else case e of
        Wrote n \<Rightarrow> feed_stdin len (written + n) es
      | WriteInterrupted \<Rightarrow> feed_stdin len written es
      | WriteWouldBlock \<Rightarrow> written
      | WriteFailed \<Rightarrow> len)"

section \<open>The loop\<close>

datatype poll_outcome =
    PollInterrupted
  | PollFailed
  | PollTimedOut
  | PollReady "write_event list option" "read_event list option" "read_event list option"

text \<open>One turn: the milliseconds since the start, and what \<^verbatim>\<open>poll\<close> and the calls after it return;
  a missing list is a descriptor that is not ready.\<close>

type_synonym poll_round = "nat \<times> poll_outcome"

record loop_state =
  ls_stdin_open :: bool
  ls_stdin_written :: nat
  ls_stdout :: out_pipe
  ls_stderr :: out_pipe

datatype loop_end = LoopDone loop_state | LoopTimedOut loop_state | LoopFailed

definition feed_ready :: "nat \<Rightarrow> write_event list option \<Rightarrow> loop_state \<Rightarrow> loop_state" where
  "feed_ready len writes s =
     (case writes of
        Some es \<Rightarrow>
          if ls_stdin_open s then
            let written = feed_stdin len (ls_stdin_written s) es
            in s\<lparr>ls_stdin_written := written, ls_stdin_open := \<not> (written \<ge> len)\<rparr>
          else s
      | None \<Rightarrow> s)"

definition drain_ready :: "nat \<Rightarrow> read_event list option \<Rightarrow> out_pipe \<Rightarrow> out_pipe" where
  "drain_ready limit reads p = (case reads of Some es \<Rightarrow> if op_open p then drain_fd limit p es else p | None \<Rightarrow> p)"

definition loop_ready :: "ProcessRequest \<Rightarrow> loop_state \<Rightarrow> write_event list option \<Rightarrow> read_event list option \<Rightarrow> read_event list option \<Rightarrow> loop_state" where
  "loop_ready req s writes outs errs =
     (let s = feed_ready (length (pr_stdin_text req)) writes s
      in s\<lparr>ls_stdout := drain_ready (pr_max_stdout_bytes req) outs (ls_stdout s),
           ls_stderr := drain_ready (pr_max_stderr_bytes req) errs (ls_stderr s)\<rparr>)"

definition deadline_passed :: "ProcessRequest \<Rightarrow> nat \<Rightarrow> bool" where
  "deadline_passed req elapsed = (case pr_timeout req of None \<Rightarrow> False | Some t \<Rightarrow> elapsed \<ge> t)"

text \<open>\<open>None\<close>: the rounds given do not bring the loop to its end.\<close>

fun process_loop :: "ProcessRequest \<Rightarrow> loop_state \<Rightarrow> poll_round list \<Rightarrow> loop_end option" where
  "process_loop req s rounds =
     (if \<not> (op_open (ls_stdout s) \<or> op_open (ls_stderr s)) then Some (LoopDone s)
      else case rounds of
        [] \<Rightarrow> None
      | (elapsed, outcome) # rest \<Rightarrow>
          if deadline_passed req elapsed then Some (LoopTimedOut s)
          else case outcome of
            PollInterrupted \<Rightarrow> process_loop req s rest
          | PollFailed \<Rightarrow> Some LoopFailed
          | PollTimedOut \<Rightarrow> Some (LoopTimedOut s)
          | PollReady writes outs errs \<Rightarrow> process_loop req (loop_ready req s writes outs errs) rest)"

declare process_loop.simps [simp del]

datatype wait_status = WaitFailed | WaitExited int | WaitSignaled int | WaitOther

definition start_state :: "ProcessRequest \<Rightarrow> loop_state" where
  "start_state req =
     (let p = \<lparr>op_text = [], op_truncated = False, op_open = True\<rparr>
      in \<lparr>ls_stdin_open = (pr_stdin_text req \<noteq> []), ls_stdin_written = 0, ls_stdout = p, ls_stderr = p\<rparr>)"

definition collect_result :: "bool \<Rightarrow> loop_state \<Rightarrow> ProcessResult" where
  "collect_result timed_out s = empty_result\<lparr>ps_timed_out := timed_out,
     ps_stdout_text := op_text (ls_stdout s), ps_stdout_truncated := op_truncated (ls_stdout s),
     ps_stderr_text := op_text (ls_stderr s), ps_stderr_truncated := op_truncated (ls_stderr s)\<rparr>"

definition exit_result :: "wait_status \<Rightarrow> ProcessResult \<Rightarrow> ProcessResult option" where
  "exit_result status r =
     (case status of
        WaitFailed \<Rightarrow> None
      | WaitExited code \<Rightarrow> Some (r\<lparr>ps_exit_code := code\<rparr>)
      | WaitSignaled sig \<Rightarrow> Some (r\<lparr>ps_terminated_by_signal := True, ps_signal_number := sig, ps_exit_code := 128 + sig\<rparr>)
      | WaitOther \<Rightarrow> Some (r\<lparr>ps_exit_code := 1\<rparr>))"

text \<open>
  From the fork on, in the parent. A \<open>ProcessFailure\<close> is \<open>Inl\<close> of its message.
\<close>

definition run_parent :: "ProcessRequest \<Rightarrow> poll_round list \<Rightarrow> wait_status \<Rightarrow> (string + ProcessResult) option" where
  "run_parent req rounds status =
     (let ctx = DescribeProcessContext (pr_error_context req) in
      case process_loop req (start_state req) rounds of
        None \<Rightarrow> None
      | Some LoopFailed \<Rightarrow> Some (Inl (''failed to poll process pipes for '' @ ctx))
      | Some (LoopDone s) \<Rightarrow>
          Some (case exit_result status (collect_result False s) of None \<Rightarrow> Inl (''failed to wait for '' @ ctx) | Some r \<Rightarrow> Inr r)
      | Some (LoopTimedOut s) \<Rightarrow>
          Some (case exit_result status (collect_result True s) of None \<Rightarrow> Inl (''failed to wait for '' @ ctx) | Some r \<Rightarrow> Inr r))"

section \<open>What is collected\<close>

text \<open>The bytes one turn reads from a descriptor and whether it stays open, and the bytes of all turns.\<close>

fun read_bytes :: "read_event list \<Rightarrow> string \<times> bool" where
  "read_bytes [] = ([], True)"
| "read_bytes (ReadData chunk # es) = (let (bs, live) = read_bytes es in (chunk @ bs, live))"
| "read_bytes (ReadInterrupted # es) = read_bytes es"
| "read_bytes (ReadWouldBlock # es) = ([], True)"
| "read_bytes (_ # es) = ([], False)"

fun stream_bytes :: "read_event list option list \<Rightarrow> string \<times> bool" where
  "stream_bytes [] = ([], True)"
| "stream_bytes (None # rs) = stream_bytes rs"
| "stream_bytes (Some es # rs) =
     (let (bs, live) = read_bytes es
      in if live then (let (cs, live') = stream_bytes rs in (bs @ cs, live')) else (bs, False))"

fun out_reads :: "poll_outcome \<Rightarrow> read_event list option" where
  "out_reads (PollReady writes outs errs) = outs"
| "out_reads _ = None"

fun err_reads :: "poll_outcome \<Rightarrow> read_event list option" where
  "err_reads (PollReady writes outs errs) = errs"
| "err_reads _ = None"

definition stdout_stream :: "poll_round list \<Rightarrow> string \<times> bool" where
  "stdout_stream rounds = stream_bytes (map (out_reads \<circ> snd) rounds)"

definition stderr_stream :: "poll_round list \<Rightarrow> string \<times> bool" where
  "stderr_stream rounds = stream_bytes (map (err_reads \<circ> snd) rounds)"

definition captured :: "nat \<Rightarrow> string \<Rightarrow> out_pipe \<Rightarrow> bool" where
  "captured limit bs p = (op_text p = take limit bs \<and> op_truncated p = (limit < length bs))"

lemma AppendOutputChunk_eq:
  "AppendOutputChunk limit chunk (take limit bs, limit < length bs)
     = (take limit (bs @ chunk), limit < length (bs @ chunk))"
  by (auto simp: AppendOutputChunk_def Let_def min_def)

lemma drain_fd_captured:
  assumes "captured limit bs p" and "op_open p"
  shows "captured limit (bs @ fst (read_bytes es)) (drain_fd limit p es) \<and> op_open (drain_fd limit p es) = snd (read_bytes es)"
  using assms
proof (induction es arbitrary: bs p)
  case (Cons e es)
  then show ?case
  proof (cases e)
    case (ReadData chunk)
    let ?p = "p\<lparr>op_text := take limit (bs @ chunk), op_truncated := limit < length (bs @ chunk)\<rparr>"
    have "AppendOutputChunk limit chunk (op_text p, op_truncated p) = (take limit (bs @ chunk), limit < length (bs @ chunk))"
      using Cons.prems AppendOutputChunk_eq by (simp add: captured_def)
    then have "drain_fd limit p (e # es) = drain_fd limit ?p es" by (simp add: ReadData)
    moreover have "captured limit (bs @ chunk) ?p" "op_open ?p" using Cons.prems by (simp_all add: captured_def)
    ultimately show ?thesis using Cons.IH [of "bs @ chunk" ?p] by (cases "read_bytes es") (simp add: ReadData)
  qed (auto simp: captured_def)
qed (auto simp: captured_def)

definition tracks :: "nat \<Rightarrow> string \<times> bool \<Rightarrow> out_pipe \<Rightarrow> bool" where
  "tracks limit st p = (captured limit (fst st) p \<and> op_open p = snd st)"

lemma stream_bytes_snoc:
  "stream_bytes (rs @ [r]) =
     (let (bs, live) = stream_bytes rs
      in if live then (case r of None \<Rightarrow> (bs, live) | Some es \<Rightarrow> (bs @ fst (read_bytes es), snd (read_bytes es))) else (bs, live))"
  by (induction rs rule: stream_bytes.induct) (auto split: prod.splits option.splits)

lemma drain_ready_tracks:
  "tracks limit (stream_bytes rs) p \<Longrightarrow> tracks limit (stream_bytes (rs @ [r])) (drain_ready limit r p)"
  using drain_fd_captured [of limit "fst (stream_bytes rs)" p]
  by (auto simp: tracks_def stream_bytes_snoc drain_ready_def split: prod.splits option.splits)

definition loop_tracks :: "ProcessRequest \<Rightarrow> poll_round list \<Rightarrow> loop_state \<Rightarrow> bool" where
  "loop_tracks req past s =
     (tracks (pr_max_stdout_bytes req) (stdout_stream past) (ls_stdout s)
      \<and> tracks (pr_max_stderr_bytes req) (stderr_stream past) (ls_stderr s))"

lemma loop_tracks_step:
  assumes "loop_tracks req past s"
  shows "loop_tracks req (past @ [(e, PollReady writes outs errs)]) (loop_ready req s writes outs errs)"
    and "loop_tracks req (past @ [(e, PollInterrupted)]) s"
proof -
  have "ls_stdout (feed_ready n writes s) = ls_stdout s" "ls_stderr (feed_ready n writes s) = ls_stderr s" for n
    by (auto simp: feed_ready_def Let_def split: option.splits)
  then show "loop_tracks req (past @ [(e, PollReady writes outs errs)]) (loop_ready req s writes outs errs)"
    using assms by (auto simp: loop_tracks_def stdout_stream_def stderr_stream_def loop_ready_def Let_def intro: drain_ready_tracks)
  show "loop_tracks req (past @ [(e, PollInterrupted)]) s"
    using assms by (auto simp: loop_tracks_def tracks_def stdout_stream_def stderr_stream_def stream_bytes_snoc split: prod.splits)
qed

definition loop_result :: "ProcessRequest \<Rightarrow> poll_round list \<Rightarrow> nat \<Rightarrow> loop_end \<Rightarrow> bool" where
  "loop_result req rounds k le =
     (case le of
        LoopDone s \<Rightarrow> loop_tracks req (take k rounds) s \<and> \<not> op_open (ls_stdout s) \<and> \<not> op_open (ls_stderr s)
      | LoopTimedOut s \<Rightarrow> loop_tracks req (take k rounds) s \<and> k < length rounds
          \<and> (deadline_passed req (fst (rounds ! k)) \<or> snd (rounds ! k) = PollTimedOut)
      | LoopFailed \<Rightarrow> True)"

lemma process_loop_result:
  assumes "loop_tracks req past s" and "process_loop req s rounds = Some le"
  shows "\<exists>k. loop_result req (past @ rounds) k le"
  using assms
proof (induction rounds arbitrary: past s)
  case Nil
  then show ?case
    by (intro exI [of _ "length past"]) (auto simp: process_loop.simps [of _ _ "[]"] loop_result_def split: if_splits)
next
  case (Cons r rounds)
  obtain e outcome where r: "r = (e, outcome)" by (cases r)
  show ?case
  proof (cases "\<not> (op_open (ls_stdout s) \<or> op_open (ls_stderr s)) \<or> deadline_passed req e \<or> outcome \<in> {PollFailed, PollTimedOut}")
    case True
    with Cons.prems show ?thesis
      by (intro exI [of _ "length past"])
        (auto simp: r process_loop.simps [of _ _ "_ # _"] loop_result_def nth_append split: if_splits)
  next
    case False
    then consider "outcome = PollInterrupted" | writes outs errs where "outcome = PollReady writes outs errs"
      by (cases outcome) auto
    then show ?thesis
    proof cases
      case 1
      then show ?thesis
        using Cons.IH [OF loop_tracks_step(2) [OF Cons.prems(1), of e]] Cons.prems(2) False
        by (auto simp: r process_loop.simps [of _ _ "_ # _"])
    next
      case 2
      then show ?thesis
        using Cons.IH [OF loop_tracks_step(1) [OF Cons.prems(1), of e]] Cons.prems(2) False
        by (auto simp: r process_loop.simps [of _ _ "_ # _"])
    qed
  qed
qed

text \<open>
  \<^bold>\<open>C33.\<close> Whatever the kernel answers, a finished child process leaves in the result, for each of the
  two outputs, the bytes read from it cut at the requested maximum, marked as truncated
  exactly when there were more. The result says that it timed out only when the deadline had
  passed or \<^verbatim>\<open>poll\<close> ran into it, and otherwise both outputs were read to their end.
\<close>

theorem run_parent_output:
  assumes "run_parent req rounds status = Some (Inr r)"
  shows "\<exists>k. ps_stdout_text r = take (pr_max_stdout_bytes req) (fst (stdout_stream (take k rounds)))
     \<and> ps_stdout_truncated r = (pr_max_stdout_bytes req < length (fst (stdout_stream (take k rounds))))
     \<and> ps_stderr_text r = take (pr_max_stderr_bytes req) (fst (stderr_stream (take k rounds)))
     \<and> ps_stderr_truncated r = (pr_max_stderr_bytes req < length (fst (stderr_stream (take k rounds))))
     \<and> (if ps_timed_out r
        then k < length rounds \<and> (deadline_passed req (fst (rounds ! k)) \<or> snd (rounds ! k) = PollTimedOut)
        else \<not> snd (stdout_stream (take k rounds)) \<and> \<not> snd (stderr_stream (take k rounds)))"
proof -
  have start: "loop_tracks req [] (start_state req)"
    by (simp add: loop_tracks_def stdout_stream_def stderr_stream_def start_state_def tracks_def captured_def Let_def)
  from assms obtain le where le: "process_loop req (start_state req) rounds = Some le"
    by (auto simp: run_parent_def Let_def split: option.splits)
  obtain s where s: "le = LoopDone s \<and> exit_result status (collect_result False s) = Some r
      \<or> le = LoopTimedOut s \<and> exit_result status (collect_result True s) = Some r"
    using assms le by (cases le) (auto simp: run_parent_def Let_def split: option.splits)
  then have fields: "ps_stdout_text r = op_text (ls_stdout s)" "ps_stdout_truncated r = op_truncated (ls_stdout s)"
    "ps_stderr_text r = op_text (ls_stderr s)" "ps_stderr_truncated r = op_truncated (ls_stderr s)"
    "ps_timed_out r \<longleftrightarrow> le = LoopTimedOut s"
    by (auto simp: exit_result_def collect_result_def empty_result_def split: wait_status.splits)
  obtain k where "loop_result req rounds k le" using process_loop_result [OF start le] by auto
  with s fields show ?thesis
    by (intro exI [of _ k]) (auto simp: loop_result_def loop_tracks_def tracks_def captured_def Let_def split: prod.splits)
qed

theorem run_parent_output_witness:
  "\<exists>k. ''ab'' = take 2 (fst (stdout_stream (take k [(1, PollReady None (Some [ReadData ''abc'', ReadEof]) (Some [ReadEof]))])))
     \<and> 2 < length (fst (stdout_stream (take k [(1, PollReady None (Some [ReadData ''abc'', ReadEof]) (Some [ReadEof]))])))"
proof -
  let ?req = "(process_request ''git'' [])\<lparr>pr_max_stdout_bytes := 2\<rparr>"
  let ?rounds = "[(1 :: nat, PollReady None (Some [ReadData ''abc'', ReadEof]) (Some [ReadEof]))]"
  let ?r = "empty_result\<lparr>ps_stdout_text := ''ab'', ps_stdout_truncated := True\<rparr>"
  have "run_parent ?req ?rounds (WaitExited 0) = Some (Inr ?r)"
    by (simp add: run_parent_def Let_def process_loop.simps start_state_def process_request_def deadline_passed_def loop_ready_def
        feed_ready_def drain_ready_def AppendOutputChunk_def collect_result_def exit_result_def empty_result_def)
  from run_parent_output [OF this] show ?thesis by (auto simp: process_request_def)
qed

end
