(* ===== verification/Os_World.thy ===== *)
theory Os_World
  imports Os_Process Sha256_Correct
begin

text \<open>
  Programs that read and change the file system and run other programs: state passing over
  \<open>os_world\<close>, the file system and the log of the processes run so far. An exception is \<open>Inl\<close>; the
  world it leaves behind stays visible. What a program does when run, the environment and
  the listing of a directory come from \<open>os_env\<close>. Opening a file for writing fails where a directory is;
  host failures such as a full disk are not modelled.
\<close>

record os_env =
  oe_cwd :: fs_path
  oe_getenv :: "string \<Rightarrow> string option"
  oe_run :: "ProcessRequest \<Rightarrow> file_system \<Rightarrow> (string + ProcessResult) \<times> file_system"
  oe_subdirectories :: "file_system \<Rightarrow> fs_path \<Rightarrow> fs_path list"

record os_world =
  w_fs :: file_system
  w_log :: "ProcessRequest list"

type_synonym ('e, 'a) io = "os_world \<Rightarrow> ('e + 'a) \<times> os_world"

definition ireturn :: "'a \<Rightarrow> ('e, 'a) io" where
  "ireturn x w = (Inr x, w)"

definition ithrow :: "'e \<Rightarrow> ('e, 'a) io" where
  "ithrow e w = (Inl e, w)"

definition ilift :: "'e + 'a \<Rightarrow> ('e, 'a) io" where
  "ilift r w = (r, w)"

definition ibind :: "('e, 'a) io \<Rightarrow> ('a \<Rightarrow> ('e, 'b) io) \<Rightarrow> ('e, 'b) io" where
  "ibind m f w = (case m w of (Inl e, w') \<Rightarrow> (Inl e, w') | (Inr x, w') \<Rightarrow> f x w')"

definition iguard :: "bool \<Rightarrow> 'e \<Rightarrow> ('e, unit) io" where
  "iguard bad e = (if bad then ithrow e else ireturn ())"

definition ierror :: "('e \<Rightarrow> 'f) \<Rightarrow> ('e, 'a) io \<Rightarrow> ('f, 'a) io" where
  "ierror f m w = (case m w of (Inl e, w') \<Rightarrow> (Inl (f e), w') | (Inr x, w') \<Rightarrow> (Inr x, w'))"

definition icatch :: "('e, 'a) io \<Rightarrow> ('e \<Rightarrow> ('f, 'a) io) \<Rightarrow> ('f, 'a) io" where
  "icatch m h w = (case m w of (Inl e, w') \<Rightarrow> h e w' | (Inr x, w') \<Rightarrow> (Inr x, w'))"

text \<open>A change of the file system on every way out.\<close>

definition ifinally :: "(file_system \<Rightarrow> file_system) \<Rightarrow> ('e, 'a) io \<Rightarrow> ('e, 'a) io" where
  "ifinally g m w = (case m w of (r, w') \<Rightarrow> (r, w'\<lparr>w_fs := g (w_fs w')\<rparr>))"

definition ireads :: "(file_system \<Rightarrow> 'a) \<Rightarrow> ('e, 'a) io" where
  "ireads f w = (Inr (f (w_fs w)), w)"

definition ichange :: "(file_system \<Rightarrow> file_system) \<Rightarrow> ('e, unit) io" where
  "ichange f w = (Inr (), w\<lparr>w_fs := f (w_fs w)\<rparr>)"

definition irun :: "os_env \<Rightarrow> ProcessRequest \<Rightarrow> (string, ProcessResult) io" where
  "irun E req w =
     (case oe_run E req (w_fs w) of (r, fs) \<Rightarrow> (r, w\<lparr>w_fs := fs, w_log := w_log w @ [req]\<rparr>))"

text \<open>\<^verbatim>\<open>RunProcess<Error>\<close>: a failure to run the program becomes an exception of the given class.\<close>

definition RunProcess :: "os_env \<Rightarrow> (string \<Rightarrow> platform_error) \<Rightarrow> ProcessRequest \<Rightarrow> (platform_error, ProcessResult) io" where
  "RunProcess E mk req = ierror mk (irun E req)"

section \<open>File operations\<close>

definition fs_remove :: "fs_path \<Rightarrow> file_system \<Rightarrow> file_system" where
  "fs_remove p fs = fs(p := None)"

definition fs_remove_all :: "fs_path \<Rightarrow> file_system \<Rightarrow> file_system" where
  "fs_remove_all p fs = (\<lambda>q. if q = p \<or> starts_with q (p @ ''/'') then None else fs q)"

definition fs_is_directory :: "file_system \<Rightarrow> fs_path \<Rightarrow> bool" where
  "fs_is_directory fs p = (fs p = Some Directory)"

definition iwrite :: "'e \<Rightarrow> fs_path \<Rightarrow> string \<Rightarrow> ('e, unit) io" where
  "iwrite e p text w =
     (if fs_is_directory (w_fs w) p then (Inl e, w) else (Inr (), w\<lparr>w_fs := (w_fs w)(p \<mapsto> Regular text)\<rparr>))"

text \<open>\<^verbatim>\<open>fs::rename\<close> of a file, with the removal and the exception the sources have for a failure.\<close>

definition irename :: "'e \<Rightarrow> fs_path \<Rightarrow> fs_path \<Rightarrow> ('e, unit) io" where
  "irename e a b w =
     (let fs = w_fs w in
      if fs a = None \<or> fs_is_directory fs b then (Inl e, w\<lparr>w_fs := fs_remove a fs\<rparr>)
      else (Inr (), w\<lparr>w_fs := (fs(b := fs a))(a := None)\<rparr>))"

text \<open>\<^verbatim>\<open>Sha256File\<close> on a file of this file system, read in one block: the digest does not depend on
  the blocks.\<close>

definition file_stream :: "string option \<Rightarrow> (byte list list \<times> bool) option" where
  "file_stream text = map_option (\<lambda>t. ([map of_char t], True)) text"

definition sha256_file :: "file_system \<Rightarrow> fs_path \<Rightarrow> string result" where
  "sha256_file fs p = the (Sha256File p (file_stream (file_text fs p)))"

lemma update_all_returns: "\<exists>s. update_all sha256_init reads = Some s"
  using update_all_abs [OF sha_abs_init, of reads] by (auto simp: sha256_init_def)

lemma Sha256File_returns: "\<exists>r. Sha256File p (Some (reads, eof)) = Some r"
  using update_all_returns [of reads] by (auto simp: Sha256File_def)

lemma sha256_file_returns: "Sha256File p (file_stream (file_text fs p)) = Some (sha256_file fs p)"
proof (cases "file_text fs p")
  case None
  then show ?thesis by (simp add: sha256_file_def file_stream_def Sha256File_def)
next
  case (Some t)
  then show ?thesis using Sha256File_returns [of p "[map of_char t]" True] by (auto simp: sha256_file_def file_stream_def)
qed

lemma sha256_file_error: "sha256_file fs p = Inl e \<Longrightarrow> \<exists>m. e = CacheError m"
  using sha256_file_returns [of p fs]
  by (auto simp: Sha256File_def split: option.splits prod.splits if_splits)

lemma sha256_file_shape:
  assumes "sha256_file fs p = Inr d"
  shows "length d = 64 \<and> list_all is_lower_hex d \<and> (\<exists>t. fs p = Some (Regular t))"
proof -
  obtain t where t: "file_text fs p = Some t" using assms
    by (cases "file_text fs p") (auto simp: sha256_file_def file_stream_def Sha256File_def)
  then obtain s where "update_all sha256_init [map of_char t] = Some s"
    using update_all_returns by blast
  with assms t have "d = FinalHex s" by (auto simp: sha256_file_def file_stream_def Sha256File_def)
  moreover have "\<exists>t. fs p = Some (Regular t)" using t by (auto simp: file_text_def split: option.splits fs_node.splits)
  ultimately show ?thesis using FinalHex_shape by simp
qed

section \<open>Reasoning\<close>

named_theorems io_simps
named_theorems runs_intros

lemma io_eqs [io_simps]:
  "ireturn x w = (Inr x, w)"
  "ithrow e w = (Inl e, w)"
  "ilift r w = (r, w)"
  "ireads f w = (Inr (f (w_fs w)), w)"
  "ichange g w = (Inr (), w\<lparr>w_fs := g (w_fs w)\<rparr>)"
  by (simp_all add: ireturn_def ithrow_def ilift_def ireads_def ichange_def)

lemma ibind_Inr: "ibind m f w = (Inr y, w'') \<longleftrightarrow> (\<exists>x w'. m w = (Inr x, w') \<and> f x w' = (Inr y, w''))"
  by (auto simp: ibind_def split: prod.splits sum.splits)

lemma iguard_Inr: "iguard bad e w = (Inr u, w') \<longleftrightarrow> \<not> bad \<and> w' = w"
  by (auto simp: iguard_def io_simps)

lemma ierror_Inr: "ierror f m w = (Inr x, w') \<longleftrightarrow> m w = (Inr x, w')"
  by (auto simp: ierror_def split: prod.splits sum.splits)

lemma ibind_Inl: "ibind m f w = (Inl e, w'') \<longleftrightarrow> m w = (Inl e, w'') \<or> (\<exists>x w'. m w = (Inr x, w') \<and> f x w' = (Inl e, w''))"
  by (auto simp: ibind_def split: prod.splits sum.splits)

lemma iguard_Inl: "iguard bad e w = (Inl e', w') \<longleftrightarrow> bad \<and> e' = e \<and> w' = w"
  by (auto simp: iguard_def io_simps)

lemma ierror_Inl: "ierror f m w = (Inl e, w') \<longleftrightarrow> (\<exists>e'. m w = (Inl e', w') \<and> e = f e')"
  by (auto simp: ierror_def split: prod.splits sum.splits)

lemmas io_Inl = ibind_Inl iguard_Inl ierror_Inl
lemmas io_Inr = ibind_Inr iguard_Inr ierror_Inr

text \<open>Every process a computation runs satisfies \<open>Q\<close>, whether it returns or throws.\<close>

definition runs_only :: "(ProcessRequest \<Rightarrow> bool) \<Rightarrow> ('e, 'a) io \<Rightarrow> bool" where
  "runs_only Q m \<longleftrightarrow> (\<forall>w. \<exists>more. w_log (snd (m w)) = w_log w @ more \<and> list_all Q more)"

lemma runs_only_basic [runs_intros]:
  "runs_only Q (ireturn x)" "runs_only Q (ithrow e)" "runs_only Q (ilift r)" "runs_only Q (ireads f)"
  "runs_only Q (ichange g)" "runs_only Q (iguard bad e)" "runs_only Q (iwrite e p text)" "runs_only Q (irename e a b)"
  by (auto simp: runs_only_def io_simps iguard_def iwrite_def irename_def Let_def)

lemma runs_only_bind [runs_intros]:
  assumes "runs_only Q m" and "\<And>x. runs_only Q (f x)"
  shows "runs_only Q (ibind m f)"
  unfolding runs_only_def
proof
  fix w
  obtain r w' where m: "m w = (r, w')" by (cases "m w")
  with assms(1) obtain more where l: "w_log w' = w_log w @ more" "list_all Q more" by (metis runs_only_def snd_conv)
  show "\<exists>more. w_log (snd (ibind m f w)) = w_log w @ more \<and> list_all Q more"
  proof (cases r)
    case Inl
    with m l show ?thesis by (auto simp: ibind_def)
  next
    case (Inr x)
    obtain more' where "w_log (snd (f x w')) = w_log w' @ more'" "list_all Q more'"
      using assms(2) [of x] by (auto simp: runs_only_def)
    with Inr m l show ?thesis by (auto simp: ibind_def intro!: exI [of _ "more @ more'"])
  qed
qed

lemma runs_only_finally [runs_intros]: "runs_only Q m \<Longrightarrow> runs_only Q (ifinally g m)"
  by (auto simp: runs_only_def ifinally_def split: prod.splits) (metis snd_conv)

lemma runs_only_catch [runs_intros]:
  assumes "runs_only Q m" and "\<And>e. runs_only Q (h e)"
  shows "runs_only Q (icatch m h)"
  unfolding runs_only_def
proof
  fix w
  obtain r w' where m: "m w = (r, w')" by (cases "m w")
  with assms(1) obtain more where l: "w_log w' = w_log w @ more" "list_all Q more" by (metis runs_only_def snd_conv)
  show "\<exists>more. w_log (snd (icatch m h w)) = w_log w @ more \<and> list_all Q more"
  proof (cases r)
    case Inr
    with m l show ?thesis by (auto simp: icatch_def)
  next
    case (Inl e)
    obtain more' where "w_log (snd (h e w')) = w_log w' @ more'" "list_all Q more'"
      using assms(2) [of e] by (auto simp: runs_only_def)
    with Inl m l show ?thesis by (auto simp: icatch_def intro!: exI [of _ "more @ more'"])
  qed
qed

lemma runs_only_error [runs_intros]: "runs_only Q m \<Longrightarrow> runs_only Q (ierror f m)"
  unfolding runs_only_def ierror_def by (metis (no_types, lifting) case_prod_conv prod.collapse snd_conv sum.case_eq_if)

lemma runs_only_run [runs_intros]: "Q req \<Longrightarrow> runs_only Q (irun E req)"
  by (auto simp: runs_only_def irun_def split: prod.splits)

lemma runs_only_RunProcess [runs_intros]: "Q req \<Longrightarrow> runs_only Q (RunProcess E mk req)"
  by (auto simp: RunProcess_def intro: runs_intros)

lemma runs_only_if [runs_intros]:
  "(b \<Longrightarrow> runs_only Q m) \<Longrightarrow> (\<not> b \<Longrightarrow> runs_only Q m') \<Longrightarrow> runs_only Q (if b then m else m')"
  by simp

lemma runs_only_option [runs_intros]:
  "(v = None \<Longrightarrow> runs_only Q m) \<Longrightarrow> (\<And>x. v = Some x \<Longrightarrow> runs_only Q (f x)) \<Longrightarrow> runs_only Q (case v of None \<Rightarrow> m | Some x \<Rightarrow> f x)"
  by (cases v) auto

text \<open>A computation that never throws.\<close>

named_theorems returns_intros

definition returns :: "('e, 'a) io \<Rightarrow> bool" where
  "returns m \<longleftrightarrow> (\<forall>w. \<exists>x w'. m w = (Inr x, w'))"

lemma returns_basic [returns_intros]:
  "returns (ireturn x)" "returns (ireads f)" "returns (ichange g)" "returns (ilift (Inr x))" "\<not> bad \<Longrightarrow> returns (iguard bad e)"
  by (auto simp: returns_def io_simps iguard_def)

lemma returns_bind [returns_intros]: "returns m \<Longrightarrow> (\<And>x. returns (f x)) \<Longrightarrow> returns (ibind m f)"
  unfolding returns_def ibind_def by (metis (no_types, lifting) case_prod_conv sum.simps(6))

lemma returns_wrap [returns_intros]:
  assumes "returns m"
  shows "returns (ierror f m)" "returns (icatch m h)" "returns (ifinally g m)"
proof -
  have "(\<exists>x w'. ierror f m w = (Inr x, w')) \<and> (\<exists>x w'. icatch m h w = (Inr x, w')) \<and> (\<exists>x w'. ifinally g m w = (Inr x, w'))" for w
  proof -
    obtain x w' where "m w = (Inr x, w')" using assms unfolding returns_def by blast
    then show ?thesis by (simp add: ierror_def icatch_def ifinally_def)
  qed
  then show "returns (ierror f m)" "returns (icatch m h)" "returns (ifinally g m)" unfolding returns_def by blast+
qed

lemma returns_if [returns_intros]: "(b \<Longrightarrow> returns m) \<Longrightarrow> (\<not> b \<Longrightarrow> returns m') \<Longrightarrow> returns (if b then m else m')"
  by simp

lemma returns_option [returns_intros]:
  "returns m \<Longrightarrow> (\<And>x. returns (f x)) \<Longrightarrow> returns (case v of None \<Rightarrow> m | Some x \<Rightarrow> f x)"
  by (cases v) auto

end
