(* ===== verification/Source_Fetch.thy ===== *)
theory Source_Fetch
  imports Source_Policy Cache_Paths Os_World
begin

text \<open>
  Fetching sources with Git (\<^verbatim>\<open>PlatformCore/SourceFetch/SourceFetch.hpp\<close>, \<^verbatim>\<open>SourceFetch.cpp\<close>): normalised
  origins, worktrees that a job checks out, and the snapshots dependency resolution reads.
  A \<^verbatim>\<open>SourceFetchError\<close> carries the result of the process, which only the revision probe inspects.
\<close>

definition NormalizeGitSource :: "fs_path \<Rightarrow> string \<Rightarrow> fs_path \<Rightarrow> string" where
  "NormalizeGitSource cwd source base_dir =
     (if LooksLikeRemoteGitSource source then source
      else if path_absolute source then CanonicalAbsolutePath cwd source
      else CanonicalAbsolutePath cwd (path_div base_dir source))"

definition ResultFailed :: "ProcessResult \<Rightarrow> bool" where
  "ResultFailed r = (ps_exit_code r \<noteq> 0 \<or> ps_timed_out r \<or> ps_terminated_by_signal r)"

definition FailureMessage :: "string \<Rightarrow> ProcessResult \<Rightarrow> string" where
  "FailureMessage operation r = operation @ '' failed: '' @ DescribeProcessFailure r"

definition ready_marker :: "fs_path \<Rightarrow> fs_path" where
  "ready_marker snapshot_root = path_div snapshot_root ''.spio-snapshot-ready''"

text \<open>Written without a test of the stream.\<close>

definition write_marker :: "fs_path \<Rightarrow> file_system \<Rightarrow> file_system" where
  "write_marker p fs = (if fs_is_directory fs p then fs else fs(p \<mapsto> Regular (''ready'' @ [CHR 0x0A])))"

definition FindVendoredSnapshot :: "fs_path \<Rightarrow> file_system \<Rightarrow> fs_path option \<Rightarrow> string \<Rightarrow> string \<Rightarrow> fs_path option" where
  "FindVendoredSnapshot cwd fs vendor_root repo_hash revision =
     (case vendor_root of
        None \<Rightarrow> None
      | Some v \<Rightarrow>
          let snapshot_root = path_div (path_div (path_div (CanonicalAbsolutePath cwd v) ''git'') repo_hash) revision in
          if \<not> fs_exists fs snapshot_root then None
          else if fs_exists fs (ready_marker snapshot_root) \<or> fs_exists fs (path_div snapshot_root ''spio.toml'')
          then Some (CanonicalAbsolutePath cwd snapshot_root)
          else None)"

record SourceFetchError =
  sfe_operation :: string
  sfe_result :: ProcessResult
  sfe_message :: string

definition fetch_error :: "SourceFetchError \<Rightarrow> platform_error" where
  "fetch_error e = FetchError (sfe_message e)"

definition git_request :: "string list \<Rightarrow> fs_path option \<Rightarrow> nat \<Rightarrow> string \<Rightarrow> ProcessRequest" where
  "git_request args working_directory timeout ctx =
     (process_request ''git'' args)\<lparr>pr_working_directory := working_directory, pr_timeout := Some timeout, pr_error_context := ctx\<rparr>"

definition checked_git :: "os_env \<Rightarrow> ProcessRequest \<Rightarrow> string \<Rightarrow> (SourceFetchError, ProcessResult) io" where
  "checked_git E req operation =
     ibind (ierror (\<lambda>what. \<lparr>sfe_operation = operation, sfe_result = empty_result, sfe_message = operation @ '' failed: '' @ what\<rparr>)
              (irun E req)) (\<lambda>r.
     if ResultFailed r
     then ithrow \<lparr>sfe_operation = operation, sfe_result = r, sfe_message = FailureMessage operation r\<rparr>
     else ireturn r)"

definition RunGitChecked :: "os_env \<Rightarrow> string list \<Rightarrow> fs_path option \<Rightarrow> string \<Rightarrow> string \<Rightarrow> (SourceFetchError, ProcessResult) io" where
  "RunGitChecked E args working_directory operation ctx =
     checked_git E (git_request args working_directory kExternalProcessStepTimeout ctx) operation"

definition ResolveWorktreeRevision :: "os_env \<Rightarrow> fs_path \<Rightarrow> (platform_error, string) io" where
  "ResolveWorktreeRevision E checkout_root =
     ibind (ierror fetch_error
              (checked_git E (git_request [''rev-parse'', ''HEAD''] (Some checkout_root) kExternalProcessProbeTimeout
                                ''source revision probe'') ''git rev-parse'')) (\<lambda>r.
       ireturn (TrimTrailingNewline (ps_stdout_text r)))"

section \<open>Worktrees\<close>

record GitWorktreeRequest =
  gw_origin :: string
  gw_checkout_root :: fs_path
  gw_revision :: "string option"
  gw_update_existing :: bool
  gw_shallow :: bool
  gw_depth :: int
  gw_clone_revision_as_branch :: bool
  gw_policy :: GitSourcePolicy
  gw_error_context :: string

record GitWorktreeResult =
  gr_origin :: string
  gr_checkout_root :: fs_path
  gr_requested_revision :: "string option"
  gr_resolved_revision :: string
  gr_cloned :: bool
  gr_fetched :: bool
  gr_checked_out :: bool

definition add_depth :: "GitWorktreeRequest \<Rightarrow> string list" where
  "add_depth req = (if gw_shallow req then [''--depth'', string_of_int (max (gw_depth req) 1)] else [])"

definition clone_args :: "GitWorktreeRequest \<Rightarrow> fs_path \<Rightarrow> string list" where
  "clone_args req checkout_root =
     [''clone''] @ add_depth req
     @ (case gw_revision req of
          None \<Rightarrow> []
        | Some r \<Rightarrow> if gw_clone_revision_as_branch req then [''--branch'', r] else [''--no-checkout''])
     @ [gw_origin req, checkout_root]"

definition EnsureWorktree :: "os_env \<Rightarrow> GitWorktreeRequest \<Rightarrow> (platform_error, GitWorktreeResult) io" where
  "EnsureWorktree E req =
     ibind (ilift (ValidateOrigin (gw_origin req) (gw_policy req))) (\<lambda>_.
     ibind (iguard (gw_checkout_root req = []) (FetchError ''git checkout root is required'')) (\<lambda>_.
     ibind (iguard (gw_revision req = Some []) (FetchError ''git revision must be non-empty when present'')) (\<lambda>_.
     let checkout_root = CanonicalAbsolutePath (oe_cwd E) (gw_checkout_root req);
         git = (\<lambda>args dir operation. ierror fetch_error (RunGitChecked E args dir operation (gw_error_context req)));
         as_branch = (gw_revision req \<noteq> None \<and> gw_clone_revision_as_branch req) in
     ibind (ireads (\<lambda>fs. fs_exists fs checkout_root)) (\<lambda>checkout_exists.
     ibind (if \<not> checkout_exists then
              ibind (ichange (create_directories (path_parent checkout_root))) (\<lambda>_.
              ibind (git (clone_args req checkout_root) None ''git clone'') (\<lambda>_. ireturn (True, as_branch)))
            else
              ibind (ireads (\<lambda>fs. fs_is_directory fs checkout_root)) (\<lambda>is_dir.
              ibind (iguard (\<not> is_dir)
                       (FetchError (''git checkout root exists but is not a directory: '' @ checkout_root))) (\<lambda>_.
                ireturn (False, False)))) (\<lambda>(cloned, branched).
     ibind (case gw_revision req of
              Some r \<Rightarrow>
                if (\<not> gw_clone_revision_as_branch req \<or> checkout_exists) \<and> gw_update_existing req then
                  ibind (git ([''fetch''] @ add_depth req @ [''origin'', r]) (Some checkout_root) ''git fetch'') (\<lambda>_.
                  ibind (git [''checkout'', ''--force'', ''FETCH_HEAD''] (Some checkout_root) ''git checkout'') (\<lambda>_.
                    ireturn (True, True)))
                else ireturn (False, branched)
            | None \<Rightarrow> ireturn (False, branched)) (\<lambda>(fetched, checked_out).
     ibind (ResolveWorktreeRevision E checkout_root) (\<lambda>resolved.
       ireturn \<lparr>gr_origin = gw_origin req, gr_checkout_root = checkout_root, gr_requested_revision = gw_revision req,
                gr_resolved_revision = resolved, gr_cloned = cloned, gr_fetched = fetched, gr_checked_out = checked_out\<rparr>)))))))"

section \<open>Snapshots\<close>

record GitSnapshotRequest =
  gs_spio_home :: fs_path
  gs_vendor_root :: "fs_path option"
  gs_origin :: string
  gs_revision :: string
  gs_offline :: bool
  gs_policy :: GitSourcePolicy
  gs_error_context :: string

record GitSnapshotResult =
  sn_origin :: string
  sn_revision :: string
  sn_repo_hash :: string
  sn_snapshot_root :: fs_path
  sn_used_vendor :: bool
  sn_cloned_mirror :: bool
  sn_fetched :: bool
  sn_created_snapshot :: bool

definition has_revision :: "os_env \<Rightarrow> GitSnapshotRequest \<Rightarrow> fs_path \<Rightarrow> (platform_error, bool) io" where
  "has_revision E req repo_dir =
     icatch (ibind (RunGitChecked E [''--git-dir'', repo_dir, ''cat-file'', ''-e'', gs_revision req @ ''^{commit}''] None
                      ''git rev check'' (gs_error_context req)) (\<lambda>_. ireturn True))
       (\<lambda>e. if ps_timed_out (sfe_result e) then ithrow (fetch_error e) else ireturn False)"

text \<open>The archive and its extraction; the archive file is removed on every way out.\<close>

definition extract_archive :: "os_env \<Rightarrow> GitSnapshotRequest \<Rightarrow> fs_path \<Rightarrow> fs_path \<Rightarrow> fs_path \<Rightarrow> (platform_error, unit) io" where
  "extract_archive E req repo_dir snapshot_root archive_path =
     ifinally (fs_remove archive_path)
       (ibind (ierror fetch_error
                 (RunGitChecked E [''--git-dir'', repo_dir, ''archive'', ''--format=tar'', ''--output'', archive_path, gs_revision req]
                    None ''git archive'' (gs_error_context req))) (\<lambda>_.
        ibind (ierror RuntimeError
                 (irun E ((process_request ''tar'' [''-xf'', archive_path, ''-C'', snapshot_root])
                            \<lparr>pr_timeout := Some kExternalProcessStepTimeout, pr_error_context := gs_error_context req\<rparr>))) (\<lambda>extract.
          iguard (ResultFailed extract)
            (CacheError (''failed to extract git snapshot '' @ [CHR 0x27] @ snapshot_root @ [CHR 0x27] @ '': '' @ DescribeProcessFailure extract)))))"

definition snapshot_cache_root :: "fs_path \<Rightarrow> string \<Rightarrow> string \<Rightarrow> fs_path" where
  "snapshot_cache_root home repo_hash revision =
     path_div (path_div (path_div (path_div home ''git'') ''checkouts'') repo_hash) revision"

definition ensure_mirror :: "os_env \<Rightarrow> GitSnapshotRequest \<Rightarrow> fs_path \<Rightarrow> (platform_error, bool) io" where
  "ensure_mirror E req repo_dir =
     ibind (ireads (\<lambda>fs. fs_exists fs repo_dir)) (\<lambda>present.
     if present then ireturn False
     else
       ibind (iguard (gs_offline req)
                (FetchError (''offline mode requires a vendored snapshot or cached git mirror for '' @ [CHR 0x27] @ gs_origin req @ [CHR 0x27]))) (\<lambda>_.
       ibind (ichange (create_directories (path_parent repo_dir))) (\<lambda>_.
       ibind (ierror fetch_error
                (RunGitChecked E [''clone'', ''--mirror'', gs_origin req, repo_dir] None ''git clone'' (gs_error_context req))) (\<lambda>_.
         ireturn True))))"

definition ensure_revision :: "os_env \<Rightarrow> GitSnapshotRequest \<Rightarrow> fs_path \<Rightarrow> (platform_error, bool) io" where
  "ensure_revision E req repo_dir =
     ibind (has_revision E req repo_dir) (\<lambda>present.
     if present then ireturn False
     else
       ibind (iguard (gs_offline req)
                (FetchError (''offline mode is missing git rev '' @ [CHR 0x27] @ gs_revision req @ [CHR 0x27]
                   @ '' in the local cache for '' @ [CHR 0x27] @ gs_origin req @ [CHR 0x27]))) (\<lambda>_.
       ibind (ierror fetch_error
                (RunGitChecked E [''--git-dir'', repo_dir, ''fetch'', ''--prune'', ''origin''] None ''git fetch'' (gs_error_context req))) (\<lambda>_.
       ibind (has_revision E req repo_dir) (\<lambda>found.
       ibind (iguard (\<not> found)
                (FetchError (''git source does not contain requested rev '' @ [CHR 0x27] @ gs_revision req @ [CHR 0x27] @ '': '' @ gs_origin req))) (\<lambda>_.
         ireturn True)))))"

definition fill_snapshot :: "os_env \<Rightarrow> GitSnapshotRequest \<Rightarrow> fs_path \<Rightarrow> fs_path \<Rightarrow> (platform_error, bool) io" where
  "fill_snapshot E req repo_dir snapshot_root =
     ibind (ireads (\<lambda>fs. fs_exists fs (ready_marker snapshot_root))) (\<lambda>is_ready.
     if is_ready then ireturn False
     else
       ibind (ichange (fs_remove_all snapshot_root)) (\<lambda>_.
       ibind (ichange (create_directories snapshot_root)) (\<lambda>_.
       ibind (extract_archive E req repo_dir snapshot_root
                (path_div (path_parent snapshot_root) (SourceFetchIdentityHash (gs_revision req) @ ''.tar''))) (\<lambda>_.
       ibind (ichange (write_marker (ready_marker snapshot_root))) (\<lambda>_.
         ireturn True)))))"

definition MaterializeSnapshot :: "os_env \<Rightarrow> GitSnapshotRequest \<Rightarrow> (platform_error, GitSnapshotResult) io" where
  "MaterializeSnapshot E req =
     ibind (ilift (ValidateOrigin (gs_origin req) (gs_policy req))) (\<lambda>_.
     ibind (iguard (gs_revision req = []) (FetchError ''git snapshot revision is required'')) (\<lambda>_.
     ibind (iguard (gs_spio_home req = []) (FetchError ''git snapshot cache root is required'')) (\<lambda>_.
     let home = CanonicalAbsolutePath (oe_cwd E) (gs_spio_home req);
         repo_hash = SourceFetchIdentityHash (gs_origin req);
         snapshot = (\<lambda>p vendored cloned fetched created.
           \<lparr>sn_origin = gs_origin req, sn_revision = gs_revision req, sn_repo_hash = repo_hash, sn_snapshot_root = p,
            sn_used_vendor = vendored, sn_cloned_mirror = cloned, sn_fetched = fetched, sn_created_snapshot = created\<rparr>) in
     ibind (ireads (\<lambda>fs. FindVendoredSnapshot (oe_cwd E) fs (gs_vendor_root req) repo_hash (gs_revision req))) (\<lambda>vendored.
     case vendored of
       Some p \<Rightarrow> ireturn (snapshot p True False False False)
     | None \<Rightarrow>
         ibind (ichange (create_directories (path_div (path_div home ''git'') ''repos''))) (\<lambda>_.
         ibind (ichange (create_directories (path_div (path_div home ''git'') ''checkouts''))) (\<lambda>_.
         let repo_dir = path_div (path_div (path_div home ''git'') ''repos'') (repo_hash @ ''.git'');
             snapshot_root = snapshot_cache_root home repo_hash (gs_revision req) in
         ibind (ensure_mirror E req repo_dir) (\<lambda>cloned.
         ibind (ensure_revision E req repo_dir) (\<lambda>fetched.
         ibind (fill_snapshot E req repo_dir snapshot_root) (\<lambda>created.
           ireturn (snapshot snapshot_root False cloned fetched created))))))))))"

section \<open>What a fetch does\<close>

text \<open>The commands that reach for the network: \<^verbatim>\<open>curl\<close>, and \<^verbatim>\<open>git\<close> when it clones or fetches.\<close>

definition network_request :: "ProcessRequest \<Rightarrow> bool" where
  "network_request req =
     (pr_program req = ''curl''
      \<or> pr_program req = ''git''
        \<and> (take 1 (pr_args req) \<in> {[''clone''], [''fetch'']} \<or> take 1 (drop 2 (pr_args req)) = [''fetch'']))"

abbreviation local_request :: "ProcessRequest \<Rightarrow> bool" where
  "local_request req \<equiv> \<not> network_request req"

lemma runs_RunGitChecked [runs_intros]:
  "Q (git_request args dir kExternalProcessStepTimeout ctx) \<Longrightarrow> runs_only Q (RunGitChecked E args dir operation ctx)"
  unfolding RunGitChecked_def checked_git_def by (intro runs_intros)

lemma runs_snapshot_steps [runs_intros]:
  "runs_only local_request (has_revision E req repo_dir)"
  "runs_only local_request (extract_archive E req repo_dir root_dir archive_path)"
  unfolding has_revision_def extract_archive_def
  by (intro runs_intros; simp add: network_request_def git_request_def process_request_def)+

lemma runs_fill_snapshot [runs_intros]: "runs_only local_request (fill_snapshot E req repo_dir root_dir)"
  unfolding fill_snapshot_def by (intro runs_intros)

lemma runs_offline_steps [runs_intros]:
  assumes "gs_offline req"
  shows "runs_only local_request (ensure_mirror E req repo_dir)"
    and "runs_only local_request (ensure_revision E req repo_dir)"
proof -
  have stop: "ibind (iguard True e) f = ithrow e" for e :: platform_error and f :: "unit \<Rightarrow> (platform_error, bool) io"
    by (auto simp: ibind_def iguard_def io_simps)
  show "runs_only local_request (ensure_mirror E req repo_dir)"
    unfolding ensure_mirror_def by (simp only: assms stop) (intro runs_intros)
  show "runs_only local_request (ensure_revision E req repo_dir)"
    unfolding ensure_revision_def by (simp only: assms stop) (intro runs_intros)
qed

text \<open>
  In offline mode materialising a snapshot never runs a command that contacts the network
  (no \<^verbatim>\<open>clone\<close>, no \<^verbatim>\<open>fetch\<close>), whatever the programs it does run do and however it ends.
\<close>

theorem MaterializeSnapshot_offline:
  assumes "gs_offline req"
  shows "\<exists>more. w_log (snd (MaterializeSnapshot E req w)) = w_log w @ more \<and> list_all local_request more"
proof -
  have "runs_only local_request (MaterializeSnapshot E req)"
    unfolding MaterializeSnapshot_def Let_def using assms by (intro runs_intros)
  then show ?thesis by (simp add: runs_only_def)
qed

text \<open>A machine on which every program succeeds and changes nothing, and a request.\<close>

definition quiet_os :: os_env where
  "quiet_os = \<lparr>oe_cwd = ''/w'', oe_getenv = (\<lambda>_. None), oe_run = (\<lambda>_ fs. (Inr empty_result, fs)), oe_subdirectories = (\<lambda>_ _. [])\<rparr>"

definition blank_world :: os_world where
  "blank_world = \<lparr>w_fs = Map.empty, w_log = []\<rparr>"

definition sample_snapshot_request :: "bool \<Rightarrow> GitSnapshotRequest" where
  "sample_snapshot_request offline =
     \<lparr>gs_spio_home = ''/h'', gs_vendor_root = None, gs_origin = ''https://x/r'', gs_revision = ''v1'', gs_offline = offline,
      gs_policy = TrustedGitSourcePolicy, gs_error_context = ''resolver process''\<rparr>"

theorem MaterializeSnapshot_offline_witness:
  "\<exists>more. w_log (snd (MaterializeSnapshot quiet_os (sample_snapshot_request True) blank_world)) = w_log blank_world @ more
     \<and> list_all local_request more"
  by (rule MaterializeSnapshot_offline) (simp add: sample_snapshot_request_def)

section \<open>What a snapshot is\<close>

lemma MaterializeSnapshot_guard:
  assumes "MaterializeSnapshot E req w = (Inr s, w')"
  shows "GitSourcePolicyViolation (gs_origin req) (gs_policy req) = None" "gs_revision req \<noteq> []"
  using assms by (auto simp: MaterializeSnapshot_def Let_def io_Inr io_simps ValidateOrigin_def split: option.splits)

lemma offline_no_origin:
  assumes "gs_offline req"
  shows "ensure_mirror E req d w = (Inr b, w') \<Longrightarrow> \<not> b" "ensure_revision E req d w = (Inr b, w') \<Longrightarrow> \<not> b"
  using assms by (auto simp: ensure_mirror_def ensure_revision_def io_Inr io_simps split: if_splits)

lemma fill_snapshot_ready:
  assumes "fill_snapshot E req repo_dir root_dir w = (Inr b, w')"
  shows "fs_exists (w_fs w') (ready_marker root_dir)"
proof -
  have "fs_exists (write_marker p fs) p" for p fs
    by (simp add: fs_exists_def write_marker_def fs_is_directory_def)
  then show ?thesis using assms by (auto simp: fill_snapshot_def io_Inr io_simps split: if_splits)
qed

text \<open>
  \<^bold>\<open>C31.\<close> A snapshot that is returned is either the vendored copy, and then nothing was run and
  nothing changed, or the directory of the cache that belongs to the origin and the revision,
  and that directory carries its ready marker. The origin and the revision of the result are
  those that were asked for, and the offline mode never reports a clone or a fetch.
\<close>

theorem MaterializeSnapshot_result:
  assumes "MaterializeSnapshot E req w = (Inr s, w')"
  shows "sn_origin s = gs_origin req \<and> sn_revision s = gs_revision req \<and> gs_revision req \<noteq> []
    \<and> GitSourcePolicyViolation (gs_origin req) (gs_policy req) = None
    \<and> sn_repo_hash s = SourceFetchIdentityHash (gs_origin req)
    \<and> (if sn_used_vendor s
       then w' = w \<and> FindVendoredSnapshot (oe_cwd E) (w_fs w) (gs_vendor_root req) (sn_repo_hash s) (gs_revision req) = Some (sn_snapshot_root s)
       else sn_snapshot_root s = snapshot_cache_root (CanonicalAbsolutePath (oe_cwd E) (gs_spio_home req)) (sn_repo_hash s) (gs_revision req)
            \<and> fs_exists (w_fs w') (ready_marker (sn_snapshot_root s)))
    \<and> \<not> (gs_offline req \<and> (sn_cloned_mirror s \<or> sn_fetched s))"
proof -
  let ?home = "CanonicalAbsolutePath (oe_cwd E) (gs_spio_home req)" and ?h = "SourceFetchIdentityHash (gs_origin req)"
  note pre = MaterializeSnapshot_guard [OF assms]
  show ?thesis
  proof (cases "FindVendoredSnapshot (oe_cwd E) (w_fs w) (gs_vendor_root req) ?h (gs_revision req)")
    case (Some p)
    with assms pre show ?thesis by (auto simp: MaterializeSnapshot_def Let_def io_Inr io_simps)
  next
    case None
    with assms pre show ?thesis
      by (auto simp: MaterializeSnapshot_def Let_def io_Inr io_simps dest: fill_snapshot_ready offline_no_origin [rotated])
  qed
qed

section \<open>When fetching succeeds\<close>

text \<open>Every program that is run ends with status zero, in time.\<close>

definition programs_succeed :: "os_env \<Rightarrow> bool" where
  "programs_succeed E \<longleftrightarrow> (\<forall>req fs. \<exists>r fs'. oe_run E req fs = (Inr r, fs') \<and> \<not> ResultFailed r)"

lemma returns_irun: "programs_succeed E \<Longrightarrow> irun E req w = (r, w') \<Longrightarrow> \<exists>x. r = Inr x \<and> \<not> ResultFailed x"
  unfolding programs_succeed_def irun_def by (auto split: prod.splits) (metis Pair_inject)

lemma returns_RunGitChecked [returns_intros]: "programs_succeed E \<Longrightarrow> returns (RunGitChecked E args dir operation ctx)"
  unfolding returns_def RunGitChecked_def checked_git_def ibind_def ierror_def
  by (auto simp: io_simps split: prod.splits sum.splits dest: returns_irun)

lemma returns_steps [returns_intros]:
  assumes "programs_succeed E"
  shows "returns (has_revision E req d)" "returns (extract_archive E req d p a)"
proof -
  show "returns (has_revision E req d)"
    unfolding has_revision_def using assms by (intro returns_intros)
  have "returns (ibind (ierror RuntimeError (irun E r)) (\<lambda>x. iguard (ResultFailed x) (e x)))" for r e
    unfolding returns_def ibind_def ierror_def iguard_def
    by (auto simp: io_simps split: prod.splits sum.splits dest: returns_irun [OF assms])
  then show "returns (extract_archive E req d p a)"
    unfolding extract_archive_def
    by (intro returns_wrap(3) returns_bind [OF returns_wrap(1) [OF returns_RunGitChecked [OF assms]]])
qed

lemma has_revision_found:
  assumes "programs_succeed E" and "has_revision E req d w = (Inr b, w')"
  shows "b"
proof -
  obtain x w1 where "RunGitChecked E [''--git-dir'', d, ''cat-file'', ''-e'', gs_revision req @ ''^{commit}''] None
      ''git rev check'' (gs_error_context req) w = (Inr x, w1)"
    using returns_RunGitChecked [OF assms(1)] unfolding returns_def by blast
  with assms(2) show ?thesis by (simp add: has_revision_def icatch_def ibind_def io_simps)
qed

lemma returns_ensure_revision: "programs_succeed E \<Longrightarrow> returns (ensure_revision E req d)"
  unfolding returns_def
proof
  fix w assume E: "programs_succeed E"
  obtain b w1 where r: "has_revision E req d w = (Inr b, w1)"
    using returns_steps(1) [OF E, of req d] unfolding returns_def by blast
  with has_revision_found [OF E r] show "\<exists>x w'. ensure_revision E req d w = (Inr x, w')" by (auto simp: ensure_revision_def ibind_def io_simps)
qed

lemma returns_MaterializeSnapshot:
  assumes "programs_succeed E" and "\<not> gs_offline req"
    and "GitSourcePolicyViolation (gs_origin req) (gs_policy req) = None" and "gs_revision req \<noteq> []" and "gs_spio_home req \<noteq> []"
  shows "returns (MaterializeSnapshot E req)"
proof -
  have "returns (ensure_mirror E req d)" for d
    unfolding ensure_mirror_def using assms(1,2) by (intro returns_intros)
  moreover have "returns (fill_snapshot E req d p)" for d p
    unfolding fill_snapshot_def using assms(1) by (intro returns_intros)
  moreover have "ValidateOrigin (gs_origin req) (gs_policy req) = Inr ()" using assms(3) by (simp add: ValidateOrigin_def)
  ultimately show ?thesis
    unfolding MaterializeSnapshot_def Let_def using assms(4,5) returns_ensure_revision [OF assms(1)]
    by (intro returns_bind returns_option) (auto intro: returns_basic)
qed


lemma sample_conditions:
  "programs_succeed quiet_os" "\<not> gs_offline (sample_snapshot_request False)"
  "GitSourcePolicyViolation (gs_origin (sample_snapshot_request False)) (gs_policy (sample_snapshot_request False)) = None"
  "gs_revision (sample_snapshot_request False) \<noteq> []" "gs_spio_home (sample_snapshot_request False) \<noteq> []"
proof -
  have "GitSourcePolicyViolation ''https://x/r'' TrustedGitSourcePolicy = None" by code_simp
  then show "GitSourcePolicyViolation (gs_origin (sample_snapshot_request False)) (gs_policy (sample_snapshot_request False)) = None"
    by (simp add: sample_snapshot_request_def)
qed (simp_all add: programs_succeed_def quiet_os_def sample_snapshot_request_def ResultFailed_def empty_result_def)


theorem MaterializeSnapshot_result_witness:
  "sn_origin (projr (fst (MaterializeSnapshot quiet_os (sample_snapshot_request False) blank_world))) = ''https://x/r''"
proof -
  have "returns (MaterializeSnapshot quiet_os (sample_snapshot_request False))"
    by (rule returns_MaterializeSnapshot [OF sample_conditions])
  then obtain s w' where r: "MaterializeSnapshot quiet_os (sample_snapshot_request False) blank_world = (Inr s, w')"
    unfolding returns_def by blast
  with MaterializeSnapshot_result [OF r] show ?thesis by (simp add: sample_snapshot_request_def)
qed

end
