(* ===== verification/Registry_Client.thy ===== *)
theory Registry_Client
  imports Lockfile Registry_Security Source_Fetch Json_Value
begin

text \<open>
  The registry client (\<^verbatim>\<open>PlatformCore/RegistryClient/Client.hpp\<close>, \<^verbatim>\<open>Client.cpp\<close>): reading the configuration,
  the targets metadata and the index of a registry, over the file system or with \<^verbatim>\<open>curl\<close> and a cache,
  fetching an artifact into the blob cache and unpacking it. The JSON parser is a parameter:
  \<open>P text\<close> is the value of a text or \<open>None\<close> when it is not JSON. \<^verbatim>\<open>Fnv1a64\<close> and \<^verbatim>\<open>Hex64\<close>, which \<^verbatim>\<open>Client.cpp\<close> repeats,
  are those of \<open>Source_Policy\<close>; \<^verbatim>\<open>NormalizeRegistryRoot\<close>, \<^verbatim>\<open>IsHttpRegistry\<close> and \<^verbatim>\<open>IsFileRegistry\<close> those of
  \<open>Registry_Security\<close>.
\<close>

type_synonym 'a client = "(platform_error, 'a) io"

definition FileUrlToPath :: "string \<Rightarrow> fs_path" where
  "FileUrlToPath registry_root = drop (length ''file://'') registry_root"

definition ClientSplitPackageName :: "string \<Rightarrow> (string \<times> string) result" where
  "ClientSplitPackageName package_name =
     (case find_char (CHR ''/'') package_name of
        Some slash \<Rightarrow>
          if slash = 0 \<or> slash + 1 \<ge> length package_name
          then Inl (FetchError (''registry package name must match namespace/name: '' @ package_name))
          else Inr (take slash package_name, drop (slash + 1) package_name)
      | None \<Rightarrow> Inl (FetchError (''registry package name must match namespace/name: '' @ package_name)))"

definition ReadTextFile :: "fs_path \<Rightarrow> string \<Rightarrow> string client" where
  "ReadTextFile p ctx =
     ibind (ireads (\<lambda>fs. file_text fs p)) (\<lambda>text.
     case text of Some t \<Rightarrow> ireturn t | None \<Rightarrow> ithrow (FetchError (''failed to open '' @ ctx @ '': '' @ p)))"

definition temp_path :: "fs_path \<Rightarrow> fs_path" where
  "temp_path p = path_div (path_parent p) (path_filename p @ ''.tmp'')"

definition WriteFileAtomically :: "fs_path \<Rightarrow> string \<Rightarrow> string \<Rightarrow> unit client" where
  "WriteFileAtomically p content ctx =
     ibind (ichange (create_directories (path_parent p))) (\<lambda>_.
     ibind (iwrite (CacheError (''failed to open temporary '' @ ctx @ '' for write: '' @ temp_path p)) (temp_path p) content) (\<lambda>_.
       irename (CacheError (''failed to finalize '' @ ctx @ '': '' @ p)) (temp_path p) p))"

definition ParseJsonObject :: "(string \<Rightarrow> json option) \<Rightarrow> string \<Rightarrow> string \<Rightarrow> json result" where
  "ParseJsonObject P text ctx =
     (case P text of
        None \<Rightarrow> Inl (FetchError (ctx @ '' is not valid JSON''))
      | Some payload \<Rightarrow>
          if is_object payload then Inr payload else Inl (FetchError (ctx @ '' must be a JSON object'')))"

definition NormalizeRelativeRegistryPath :: "string \<Rightarrow> string \<Rightarrow> fs_path result" where
  "NormalizeRelativeRegistryPath relative_path ctx =
     rbind (guard_err (relative_path = []) (FetchError (ctx @ '' must be a non-empty relative path''))) (\<lambda>_.
     rbind (guard_err (path_absolute relative_path) (FetchError (ctx @ '' must be relative: '' @ relative_path))) (\<lambda>_.
     let text = lexically_normal relative_path in
     rbind (guard_err (text = [] \<or> text = ''.'' \<or> text = ''..'' \<or> starts_with text ''../'')
              (FetchError (ctx @ '' escapes the registry root: '' @ relative_path))) (\<lambda>_.
       Inr text)))"

section \<open>Documents of the registry\<close>

definition ValidateConfig :: "json \<Rightarrow> string \<Rightarrow> string result" where
  "ValidateConfig config ctx =
     rbind (json_value get_string config ''protocol'' []) (\<lambda>protocol.
     rbind (if protocol \<noteq> ''spio-static-registry'' then Inr True
            else rbind (json_value get_int config ''protocol_version'' 0) (\<lambda>v. Inr (v \<noteq> 2))) (\<lambda>bad.
     rbind (guard_err bad (FetchError (ctx @ '' does not match the supported registry v2 protocol''))) (\<lambda>_.
     rbind (case json_lookup config ''paths'' of
              None \<Rightarrow> Inr ''trust/targets/''
            | Some ps \<Rightarrow>
                if is_object ps then json_value get_string ps ''targets_prefix'' ''trust/targets/''
                else Inl (FetchError (ctx @ '' paths must be a JSON object''))) (\<lambda>targets_prefix.
     rbind (guard_err (targets_prefix = []) (FetchError (ctx @ '' is missing paths.targets_prefix''))) (\<lambda>_.
       Inr targets_prefix)))))"

definition object_at :: "json \<Rightarrow> string \<Rightarrow> platform_error \<Rightarrow> json result" where
  "object_at j k e =
     (case json_lookup j k of Some v \<Rightarrow> if is_object v then Inr v else Inl e | None \<Rightarrow> Inl e)"

definition ValidateTargetsMetadata :: "json \<Rightarrow> string \<Rightarrow> string \<Rightarrow> string \<Rightarrow> string \<Rightarrow> string result" where
  "ValidateTargetsMetadata payload package_name package_namespace version ctx =
     rbind (object_at payload ''signed'' (FetchError (ctx @ '' must contain a signed object''))) (\<lambda>signed_payload.
     rbind (json_value get_string signed_payload ''type'' []) (\<lambda>type_text.
     rbind (guard_err (type_text \<noteq> ''targets'')
              (FetchError (ctx @ '' signed.type must equal '' @ [CHR 0x27] @ ''targets'' @ [CHR 0x27]))) (\<lambda>_.
     rbind (json_value get_string signed_payload ''namespace'' []) (\<lambda>ns.
     rbind (guard_err (ns \<noteq> package_namespace)
              (FetchError (ctx @ '' namespace mismatch: expected '' @ [CHR 0x27] @ package_namespace @ [CHR 0x27]
                 @ '' but found '' @ [CHR 0x27] @ ns @ [CHR 0x27]))) (\<lambda>_.
     rbind (object_at signed_payload ''packages'' (FetchError (ctx @ '' signed.packages must be a JSON object''))) (\<lambda>packages.
     rbind (object_at packages package_name
              (FetchError (''registry v2 targets metadata is missing package: '' @ package_name))) (\<lambda>package.
     rbind (json_value get_string package ''index_path'' []) (\<lambda>index_path.
     rbind (guard_err (index_path = [])
              (FetchError (''registry v2 targets metadata is missing index_path for '' @ package_name))) (\<lambda>_.
     rbind (object_at package ''releases''
              (FetchError (''registry v2 targets metadata is missing releases for '' @ package_name))) (\<lambda>releases.
     rbind (guard_err (\<not> json_contains releases version)
              (FetchError (''registry v2 targets metadata does not contain version '' @ package_name @ ''@'' @ version))) (\<lambda>_.
       NormalizeRelativeRegistryPath index_path ''registry v2 package index_path'')))))))))))"

record RegistryEntry =
  en_package :: string
  en_version :: string
  en_sha256 :: string
  en_artifact_path :: string

definition mismatch_text :: "string \<Rightarrow> string \<Rightarrow> string \<Rightarrow> string" where
  "mismatch_text what expected actual =
     ''registry v2 entry '' @ what @ '' mismatch: expected '' @ [CHR 0x27] @ expected @ [CHR 0x27]
     @ '' but found '' @ [CHR 0x27] @ actual @ [CHR 0x27]"

definition ValidateEntry :: "json \<Rightarrow> string \<Rightarrow> string \<Rightarrow> RegistryEntry result" where
  "ValidateEntry entry expected_package expected_version =
     rbind (json_value get_string entry ''package'' []) (\<lambda>package.
     rbind (json_value get_string entry ''version'' []) (\<lambda>version.
     rbind (guard_err (package \<noteq> expected_package) (FetchError (mismatch_text ''package'' expected_package package))) (\<lambda>_.
     rbind (guard_err (version \<noteq> expected_version) (FetchError (mismatch_text ''version'' expected_version version))) (\<lambda>_.
     rbind (object_at entry ''source_artifact'' (FetchError ''registry v2 entry is missing source_artifact'')) (\<lambda>artifact.
     rbind (json_value get_string artifact ''sha256'' []) (\<lambda>sha256.
     rbind (json_value get_string artifact ''path'' []) (\<lambda>artifact_path.
     rbind (guard_err (length sha256 \<noteq> 64) (FetchError ''registry v2 source_artifact is missing a valid sha256 digest'')) (\<lambda>_.
     rbind (NormalizeRelativeRegistryPath artifact_path ''registry v2 source_artifact path'') (\<lambda>_.
       Inr \<lparr>en_package = package, en_version = version, en_sha256 = sha256, en_artifact_path = artifact_path\<rparr>)))))))))"

section \<open>Transport and caches\<close>

definition curl_request :: "string list \<Rightarrow> ProcessRequest" where
  "curl_request args =
     (process_request ''curl'' args)\<lparr>pr_timeout := Some kExternalProcessStepTimeout, pr_error_context := ''registry process''\<rparr>"

definition header_args :: "string list \<Rightarrow> string list" where
  "header_args headers = concat (map (\<lambda>h. [''-H'', h]) headers)"

definition FetchUrlToString :: "os_env \<Rightarrow> string \<Rightarrow> string list \<Rightarrow> string client" where
  "FetchUrlToString E url headers =
     ibind (RunProcess E CacheError (curl_request ([''-fsSL''] @ header_args headers @ [url]))) (\<lambda>r.
     ibind (iguard (ps_exit_code r \<noteq> 0)
              (FetchError (''failed to fetch registry url '' @ [CHR 0x27] @ url @ [CHR 0x27] @ '': '' @ DescribeProcessFailure r))) (\<lambda>_.
       ireturn (ps_stdout_text r)))"

definition FetchUrlToFile :: "os_env \<Rightarrow> string \<Rightarrow> fs_path \<Rightarrow> string list \<Rightarrow> unit client" where
  "FetchUrlToFile E url p headers =
     ibind (ichange (create_directories (path_parent p))) (\<lambda>_.
     ibind (RunProcess E CacheError (curl_request ([''-fsSL''] @ header_args headers @ [''-o'', temp_path p, url]))) (\<lambda>r.
     ibind (if ps_exit_code r \<noteq> 0 then
              ibind (ichange (fs_remove (temp_path p))) (\<lambda>_.
                ithrow (FetchError (''failed to download registry artifact '' @ [CHR 0x27] @ url @ [CHR 0x27] @ '': '' @ DescribeProcessFailure r)))
            else ireturn ()) (\<lambda>_.
       irename (CacheError (''failed to finalize registry artifact cache: '' @ p)) (temp_path p) p)))"

definition JoinUrl :: "string \<Rightarrow> string \<Rightarrow> string result" where
  "JoinUrl r relative_path =
     rbind (NormalizeRelativeRegistryPath relative_path ''registry object path'') (\<lambda>p. Inr (NormalizeRegistryRoot r @ ''/'' @ p))"

definition RegistryObjectCachePath :: "os_env \<Rightarrow> fs_path \<Rightarrow> string \<Rightarrow> string \<Rightarrow> fs_path result" where
  "RegistryObjectCachePath E spio_home registry_root relative_path =
     rbind (NormalizeRelativeRegistryPath relative_path ''registry cache object path'') (\<lambda>p.
       Inr (path_div (path_div (RegistryIndexCacheRoot (oe_cwd E) spio_home) (Hex64 (Fnv1a64 registry_root) False)) p))"

definition BlobCachePath :: "os_env \<Rightarrow> fs_path \<Rightarrow> string \<Rightarrow> fs_path" where
  "BlobCachePath E spio_home sha256 =
     path_div (path_div (path_div (RegistryBlobCacheRoot (oe_cwd E) spio_home) (take 2 sha256)) (take 2 (drop 2 sha256))) (sha256 @ ''.tar'')"

definition CheckoutPath :: "os_env \<Rightarrow> fs_path \<Rightarrow> string \<Rightarrow> string \<Rightarrow> string \<Rightarrow> fs_path result" where
  "CheckoutPath E spio_home package_name version sha256 =
     rbind (ClientSplitPackageName package_name) (\<lambda>(ns, short).
       Inr (path_div (path_div (path_div (path_div (RegistryCheckoutRoot (oe_cwd E) spio_home) ns) short) version) sha256))"

definition LoadRegistryObjectText :: "os_env \<Rightarrow> fs_path \<Rightarrow> string \<Rightarrow> string list \<Rightarrow> string \<Rightarrow> string \<Rightarrow> bool \<Rightarrow> string client" where
  "LoadRegistryObjectText E spio_home registry_root headers relative_path ctx offline =
     ibind (ilift (NormalizeRelativeRegistryPath relative_path ctx)) (\<lambda>p.
     if IsFileRegistryRoot registry_root then ReadTextFile (path_div (FileUrlToPath registry_root) p) ctx
     else if \<not> IsHttpRegistryRoot registry_root
     then ithrow (FetchError (''registry root must use file://, http://, or https://: '' @ registry_root))
     else
       ibind (ilift (RegistryObjectCachePath E spio_home registry_root p)) (\<lambda>cache_path.
       if offline then
         ibind (ireads (\<lambda>fs. fs_exists fs cache_path)) (\<lambda>present.
         ibind (iguard (\<not> present) (FetchError (''offline mode is missing cached '' @ ctx @ '' for '' @ registry_root))) (\<lambda>_.
           ReadTextFile cache_path (''cached '' @ ctx)))
       else
         ibind (ilift (JoinUrl registry_root p)) (\<lambda>url.
         ibind (FetchUrlToString E url headers) (\<lambda>text.
         ibind (WriteFileAtomically cache_path text (ctx @ '' cache'')) (\<lambda>_.
           ireturn text)))))"

definition LoadConfig :: "(string \<Rightarrow> json option) \<Rightarrow> os_env \<Rightarrow> fs_path \<Rightarrow> string \<Rightarrow> string list \<Rightarrow> bool \<Rightarrow> string client" where
  "LoadConfig P E spio_home registry_root headers offline =
     ibind (LoadRegistryObjectText E spio_home registry_root headers ''config.json'' ''registry v2 config'' offline) (\<lambda>text.
     ilift (rbind (ParseJsonObject P text ''registry v2 config'') (\<lambda>config. ValidateConfig config ''registry v2 config'')))"

definition LoadPackageMetadata ::
  "(string \<Rightarrow> json option) \<Rightarrow> os_env \<Rightarrow> fs_path \<Rightarrow> string \<Rightarrow> string list \<Rightarrow> string \<Rightarrow> string \<Rightarrow> string \<Rightarrow> bool \<Rightarrow> string client" where
  "LoadPackageMetadata P E spio_home registry_root headers targets_prefix package_name version offline =
     ibind (ilift (ClientSplitPackageName package_name)) (\<lambda>(ns, _).
     ibind (LoadRegistryObjectText E spio_home registry_root headers (targets_prefix @ ns @ ''.json'')
              ''registry v2 targets metadata'' offline) (\<lambda>text.
     ilift (rbind (ParseJsonObject P text ''registry v2 targets metadata'') (\<lambda>payload.
       ValidateTargetsMetadata payload package_name ns version ''registry v2 targets metadata''))))"

definition blank_line :: "string \<Rightarrow> bool" where
  "blank_line line = list_all (\<lambda>c. c \<in> {CHR '' '', CHR 0x09, CHR 0x0D, CHR 0x0A}) line"

fun find_entry :: "(string \<Rightarrow> json option) \<Rightarrow> string \<Rightarrow> string \<Rightarrow> string list \<Rightarrow> RegistryEntry result" where
  "find_entry P package_name version [] =
     Inl (FetchError (''registry v2 index does not contain package version: '' @ package_name @ ''@'' @ version))"
| "find_entry P package_name version (line # lines) =
     (if blank_line line then find_entry P package_name version lines
      else
        rbind (ParseJsonObject P line ''registry v2 index record'') (\<lambda>entry.
        rbind (json_value get_string entry ''package'' []) (\<lambda>package.
        rbind (if package = package_name
               then rbind (json_value get_string entry ''version'' []) (\<lambda>v. Inr (v = version)) else Inr False) (\<lambda>hit.
        if hit then ValidateEntry entry package_name version else find_entry P package_name version lines))))"

definition LoadEntry ::
  "(string \<Rightarrow> json option) \<Rightarrow> os_env \<Rightarrow> fs_path \<Rightarrow> string \<Rightarrow> string list \<Rightarrow> string \<Rightarrow> string \<Rightarrow> string \<Rightarrow> bool \<Rightarrow> RegistryEntry client" where
  "LoadEntry P E spio_home registry_root headers package_name version index_path offline =
     ibind (LoadRegistryObjectText E spio_home registry_root headers index_path ''registry v2 index'' offline) (\<lambda>text.
       ilift (find_entry P package_name version (getlines (CHR 0x0A) text)))"

section \<open>Artifacts\<close>

definition copy_blob :: "fs_path \<Rightarrow> fs_path \<Rightarrow> unit client" where
  "copy_blob source blob =
     ibind (ireads (\<lambda>fs. fs_exists fs source)) (\<lambda>present.
     ibind (iguard (\<not> present) (FetchError (''registry v2 source artifact not found: '' @ source))) (\<lambda>_.
     ibind (ichange (create_directories (path_parent blob))) (\<lambda>_.
     ibind (ireads (\<lambda>fs. file_text fs source)) (\<lambda>text.
       case text of
         Some t \<Rightarrow> iwrite (CacheError (''failed to cache registry v2 source artifact: '' @ blob)) blob t
       | None \<Rightarrow> ithrow (CacheError (''failed to cache registry v2 source artifact: '' @ blob))))))"

definition sha_mismatch :: "RegistryEntry \<Rightarrow> platform_error" where
  "sha_mismatch entry = FetchError (''registry v2 source artifact sha256 mismatch for '' @ en_package entry @ ''@'' @ en_version entry)"

definition MaterializeArtifact :: "os_env \<Rightarrow> fs_path \<Rightarrow> string \<Rightarrow> string list \<Rightarrow> RegistryEntry \<Rightarrow> bool \<Rightarrow> unit client" where
  "MaterializeArtifact E spio_home registry_root headers entry offline =
     (let blob = BlobCachePath E spio_home (en_sha256 entry) in
      ibind (ireads (\<lambda>fs. fs_exists fs blob)) (\<lambda>cached.
      if cached then
        ibind (ireads (\<lambda>fs. sha256_file fs blob)) (\<lambda>digest.
        ibind (ilift digest) (\<lambda>actual.
          iguard (actual \<noteq> en_sha256 entry) (CacheError (''cached registry artifact sha256 mismatch: '' @ blob))))
      else
        ibind (ilift (NormalizeRelativeRegistryPath (en_artifact_path entry) ''registry v2 source artifact path'')) (\<lambda>artifact.
        ibind (if IsFileRegistryRoot registry_root then copy_blob (path_div (FileUrlToPath registry_root) artifact) blob
               else if offline
               then ithrow (FetchError (''offline mode is missing cached registry artifact for '' @ en_package entry @ ''@'' @ en_version entry))
               else ibind (ilift (JoinUrl registry_root artifact)) (\<lambda>url. FetchUrlToFile E url blob headers)) (\<lambda>_.
        ibind (ireads (\<lambda>fs. sha256_file fs blob)) (\<lambda>digest.
        ibind (ilift digest) (\<lambda>actual.
          iguard (actual \<noteq> en_sha256 entry) (sha_mismatch entry)))))))"

definition DetectSnapshotRoot :: "os_env \<Rightarrow> fs_path \<Rightarrow> fs_path client" where
  "DetectSnapshotRoot E checkout_root =
     ibind (ireads (\<lambda>fs. fs)) (\<lambda>fs.
     if fs_exists fs (path_div checkout_root ''spio.toml'') then ireturn checkout_root
     else case oe_subdirectories E fs checkout_root of
       [d] \<Rightarrow> if fs_exists fs (path_div d ''spio.toml'') then ireturn d
              else ithrow (CacheError (''registry package snapshot does not contain spio.toml: '' @ checkout_root))
     | _ \<Rightarrow> ithrow (CacheError (''registry package snapshot does not contain spio.toml: '' @ checkout_root)))"

definition EnsureCheckout :: "os_env \<Rightarrow> fs_path \<Rightarrow> RegistryEntry \<Rightarrow> fs_path client" where
  "EnsureCheckout E spio_home entry =
     ibind (ilift (CheckoutPath E spio_home (en_package entry) (en_version entry) (en_sha256 entry))) (\<lambda>checkout_root.
     ibind (ireads (\<lambda>fs. fs_exists fs (ready_marker checkout_root))) (\<lambda>is_ready.
     if is_ready then DetectSnapshotRoot E checkout_root
     else
       let blob = BlobCachePath E spio_home (en_sha256 entry) in
       ibind (ichange (fs_remove_all checkout_root)) (\<lambda>_.
       ibind (ichange (create_directories checkout_root)) (\<lambda>_.
       ibind (RunProcess E CacheError
                ((process_request ''tar'' [''-xf'', blob, ''-C'', checkout_root])
                   \<lparr>pr_timeout := Some kExternalProcessStepTimeout, pr_error_context := ''registry process''\<rparr>)) (\<lambda>extract.
       ibind (iguard (ps_exit_code extract \<noteq> 0)
                (CacheError (''failed to extract registry artifact '' @ [CHR 0x27] @ blob @ [CHR 0x27] @ '': '' @ DescribeProcessFailure extract))) (\<lambda>_.
       ibind (DetectSnapshotRoot E checkout_root) (\<lambda>snapshot_root.
       ibind (iwrite (CacheError (''failed to write registry ready marker: '' @ ready_marker checkout_root))
                (ready_marker checkout_root) (''ready'' @ [CHR 0x0A])) (\<lambda>_.
         ireturn snapshot_root))))))))"

record RegistryMaterializationResult =
  mz_registry_root :: string
  mz_package_name :: string
  mz_version :: string
  mz_sha256 :: string
  mz_snapshot_root :: fs_path

definition MaterializeRegistryPackage ::
  "(string \<Rightarrow> json option) \<Rightarrow> os_env \<Rightarrow> security_slots \<Rightarrow> string \<Rightarrow> string \<Rightarrow> string \<Rightarrow> bool \<Rightarrow> RegistryMaterializationResult client" where
  "MaterializeRegistryPackage P E slots registry_root package_name version offline =
     ibind (ilift (ResolveRegistryReadSecurity slots \<lparr>rr_registry_root = registry_root, rr_offline = offline\<rparr>)) (\<lambda>security.
     ibind (ilift (ResolveSpioHome (oe_getenv E) (oe_cwd E))) (\<lambda>spio_home.
     let r = rd_registry_root security; headers = rd_request_headers security in
     ibind (LoadConfig P E spio_home r headers offline) (\<lambda>targets_prefix.
     ibind (LoadPackageMetadata P E spio_home r headers targets_prefix package_name version offline) (\<lambda>index_path.
     ibind (LoadEntry P E spio_home r headers package_name version index_path offline) (\<lambda>entry.
     ibind (MaterializeArtifact E spio_home r headers entry offline) (\<lambda>_.
     ibind (EnsureCheckout E spio_home entry) (\<lambda>snapshot_root.
       ireturn \<lparr>mz_registry_root = r, mz_package_name = en_package entry, mz_version = en_version entry,
                mz_sha256 = en_sha256 entry, mz_snapshot_root = snapshot_root\<rparr>)))))))"

section \<open>Integrity\<close>

lemma MaterializeArtifact_digest:
  assumes "MaterializeArtifact E home r headers entry offline w = (Inr u, w')"
  shows "sha256_file (w_fs w') (BlobCachePath E home (en_sha256 entry)) = Inr (en_sha256 entry)"
  using assms by (auto simp: MaterializeArtifact_def Let_def io_Inr io_simps split: if_splits)

lemma ValidateEntry_fields:
  "ValidateEntry j package version = Inr entry \<Longrightarrow> en_package entry = package \<and> en_version entry = version"
  by (auto simp: ValidateEntry_def rbind_eq_Inr)

lemma find_entry_fields:
  "find_entry P package version lines = Inr entry \<Longrightarrow> en_package entry = package \<and> en_version entry = version"
  by (induction lines) (auto simp: rbind_eq_Inr dest: ValidateEntry_fields split: if_splits)

lemma Sha256Regex_digest: "sha256_file fs p = Inr d \<Longrightarrow> Sha256Regex d"
  using sha256_file_shape [of fs p d] by (auto simp: Sha256Regex_def is_lower_hex_def list_all_iff)

lemma MaterializeRegistryPackage_steps:
  assumes "MaterializeRegistryPackage P E slots r package version offline w = (Inr m, w')"
  obtains home entry w1 where "ResolveSpioHome (oe_getenv E) (oe_cwd E) = Inr home"
    and "en_package entry = package" "en_version entry = version" "en_sha256 entry = mz_sha256 m"
    and "mz_package_name m = package" "mz_version m = version"
    and "sha256_file (w_fs w1) (BlobCachePath E home (mz_sha256 m)) = Inr (mz_sha256 m)"
    and "EnsureCheckout E home entry w1 = (Inr (mz_snapshot_root m), w')"
proof -
  from assms obtain home rr headers entry w0 w1 w2 where home: "ResolveSpioHome (oe_getenv E) (oe_cwd E) = Inr home"
    and entry: "\<exists>text. find_entry P package version (getlines (CHR 0x0A) text) = Inr entry"
    and art: "MaterializeArtifact E home rr headers entry offline w0 = (Inr (), w1)"
    and out: "EnsureCheckout E home entry w1 = (Inr (mz_snapshot_root m), w')"
    and m: "mz_package_name m = en_package entry" "mz_version m = en_version entry" "mz_sha256 m = en_sha256 entry"
    by (fastforce simp: MaterializeRegistryPackage_def LoadEntry_def Let_def io_Inr io_simps)
  from entry find_entry_fields have "en_package entry = package \<and> en_version entry = version" by blast
  with that [of home entry w1] home out m MaterializeArtifact_digest [OF art] show thesis by simp
qed

lemma registry_digest:
  "MaterializeRegistryPackage P E slots r package version offline w = (Inr m, w') \<Longrightarrow> Sha256Regex (mz_sha256 m)"
  by (erule MaterializeRegistryPackage_steps) (rule Sha256Regex_digest)


text \<open>A registry on disk whose other files, the cached archive included, all have the text \<^verbatim>\<open>x\<close>.\<close>

definition demo_os :: os_env where
  "demo_os = quiet_os\<lparr>oe_getenv := (\<lambda>_. Some ''/h'')\<rparr>"

definition demo_fs :: file_system where
  "demo_fs = (\<lambda>q. Some (Regular (if q = ''/reg/config.json'' then ''c'' else if q = ''/reg/trust/targets/acme.json'' then ''t''
                                else if q = ''/reg/index'' then ''i'' else ''x'')))"

definition demo_digest :: string where
  "demo_digest = projr (sha256_file (\<lambda>_. Some (Regular ''x'')) [])"

definition demo_parse :: "string \<Rightarrow> json option" where
  "demo_parse text =
     (if text = ''c'' then Some (JObject [(''protocol'', JString ''spio-static-registry''), (''protocol_version'', JInt 2)])
      else if text = ''t'' then
        Some (JObject [(''signed'', JObject [(''namespace'', JString ''acme''),
          (''packages'', JObject [(''acme/util'', JObject [(''index_path'', JString ''index''), (''releases'', JObject [(''1.0.0'', JNull)])])]),
          (''type'', JString ''targets'')])])
      else if text = ''i'' then
        Some (JObject [(''package'', JString ''acme/util''),
          (''source_artifact'', JObject [(''path'', JString ''a.tar''), (''sha256'', JString demo_digest)]), (''version'', JString ''1.0.0'')])
      else None)"

lemma demo_digest_file: "fs p = Some (Regular ''x'') \<Longrightarrow> sha256_file fs p = Inr demo_digest"
  using update_all_returns [of "[map of_char ''x'']"]
  by (auto simp: demo_digest_def sha256_file_def file_stream_def file_text_def Sha256File_def)

lemma demo_blob: "demo_fs (BlobCachePath E home d) = Some (Regular ''x'')"
proof -
  have "last (path_div p (d @ ''.tar'')) = CHR ''r''" for p by (simp add: path_div_def)
  then have "last (BlobCachePath E home d) = CHR ''r''" by (simp add: BlobCachePath_def)
  then have "BlobCachePath E home d \<notin> {''/reg/config.json'', ''/reg/trust/targets/acme.json'', ''/reg/index''}" by auto
  then show ?thesis by (simp add: demo_fs_def)
qed

lemma demo_reads:
  "NormalizeRegistryRoot ''file:///reg'' = ''file:///reg''" "IsFileRegistryRoot ''file:///reg''"
  "ResolveSpioHome (oe_getenv demo_os) (oe_cwd demo_os) = Inr ''/h''"
  "NormalizeRelativeRegistryPath ''config.json'' ctx = Inr ''config.json''"
  "NormalizeRelativeRegistryPath ''trust/targets/acme.json'' ctx = Inr ''trust/targets/acme.json''"
  "NormalizeRelativeRegistryPath ''index'' ctx = Inr ''index''"
  "NormalizeRelativeRegistryPath ''a.tar'' ctx = Inr ''a.tar''"
  "ClientSplitPackageName ''acme/util'' = Inr (''acme'', ''util'')"
proof -
  have "lexically_normal ''config.json'' = ''config.json''" "lexically_normal ''trust/targets/acme.json'' = ''trust/targets/acme.json''"
    "lexically_normal ''index'' = ''index''" "lexically_normal ''a.tar'' = ''a.tar''" by code_simp+
  then show "NormalizeRelativeRegistryPath ''config.json'' ctx = Inr ''config.json''"
    "NormalizeRelativeRegistryPath ''trust/targets/acme.json'' ctx = Inr ''trust/targets/acme.json''"
    "NormalizeRelativeRegistryPath ''index'' ctx = Inr ''index''" "NormalizeRelativeRegistryPath ''a.tar'' ctx = Inr ''a.tar''"
    by (simp_all add: NormalizeRelativeRegistryPath_def path_absolute_def starts_with_def)
qed code_simp+

lemma demo_run:
  "\<exists>m. MaterializeRegistryPackage demo_parse demo_os initial_slots ''file:///reg'' ''acme/util'' ''1.0.0'' True \<lparr>w_fs = demo_fs, w_log = []\<rparr>
     = (Inr m, \<lparr>w_fs = demo_fs, w_log = []\<rparr>)"
proof -
  let ?w = "\<lparr>w_fs = demo_fs, w_log = []\<rparr>"
  let ?e = "\<lparr>en_package = ''acme/util'', en_version = ''1.0.0'', en_sha256 = demo_digest, en_artifact_path = ''a.tar''\<rparr>"
  have files: "path_div ''/reg'' ''config.json'' = ''/reg/config.json''"
    "path_div ''/reg'' ''trust/targets/acme.json'' = ''/reg/trust/targets/acme.json''" "path_div ''/reg'' ''index'' = ''/reg/index''"
    by (simp_all add: path_div_def path_absolute_def)
  have loads: "LoadRegistryObjectText demo_os ''/h'' ''file:///reg'' [] ''config.json'' ctx True ?w = (Inr ''c'', ?w)"
    "LoadRegistryObjectText demo_os ''/h'' ''file:///reg'' [] ''trust/targets/acme.json'' ctx True ?w = (Inr ''t'', ?w)"
    "LoadRegistryObjectText demo_os ''/h'' ''file:///reg'' [] ''index'' ctx True ?w = (Inr ''i'', ?w)" for ctx
    by (simp_all add: LoadRegistryObjectText_def demo_reads FileUrlToPath_def files ReadTextFile_def ibind_def io_simps file_text_def demo_fs_def)
  have config: "LoadConfig demo_parse demo_os ''/h'' ''file:///reg'' [] True ?w = (Inr ''trust/targets/'', ?w)"
    by (simp add: LoadConfig_def loads ibind_def io_simps demo_parse_def ParseJsonObject_def ValidateConfig_def to_int32_def)
  have meta: "LoadPackageMetadata demo_parse demo_os ''/h'' ''file:///reg'' [] ''trust/targets/'' ''acme/util'' ''1.0.0'' True ?w
      = (Inr ''index'', ?w)"
    by (simp add: LoadPackageMetadata_def loads ibind_def io_simps demo_reads demo_parse_def ParseJsonObject_def
        ValidateTargetsMetadata_def object_at_def smap_contains_def)
  have entry: "LoadEntry demo_parse demo_os ''/h'' ''file:///reg'' [] ''acme/util'' ''1.0.0'' ''index'' True ?w = (Inr ?e, ?w)"
    using sha256_file_shape [OF demo_digest_file [of "\<lambda>_. Some (Regular ''x'')" "[]"]]
    by (simp add: LoadEntry_def loads ibind_def io_simps demo_reads blank_line_def demo_parse_def ParseJsonObject_def
        ValidateEntry_def object_at_def)
  have art: "MaterializeArtifact demo_os ''/h'' ''file:///reg'' [] ?e True ?w = (Inr (), ?w)"
    using demo_blob by (simp add: MaterializeArtifact_def Let_def ibind_def io_simps fs_exists_def demo_digest_file iguard_def)
  have "fs_exists demo_fs p" for p by (simp add: fs_exists_def demo_fs_def)
  then have "\<exists>p. EnsureCheckout demo_os ''/h'' ?e ?w = (Inr p, ?w)"
    by (simp add: EnsureCheckout_def CheckoutPath_def demo_reads ibind_def io_simps DetectSnapshotRoot_def)
  with config meta entry art show ?thesis
    by (auto simp: MaterializeRegistryPackage_def Let_def ResolveRegistryReadSecurity_def initial_slots_def default_read_eq demo_reads
        ibind_def io_simps)
qed


section \<open>Offline mode\<close>

lemma runs_LoadRegistryObjectText:
  "offline \<Longrightarrow> runs_only local_request (LoadRegistryObjectText E home r headers p ctx offline)"
  unfolding LoadRegistryObjectText_def ReadTextFile_def by (simp only: if_True) (intro runs_intros)

lemma runs_only_split [runs_intros]: "(\<And>a b. runs_only Q (f a b)) \<Longrightarrow> runs_only Q (case x of (a, b) \<Rightarrow> f a b)"
  by (cases x) simp

lemma runs_DetectSnapshotRoot [runs_intros]: "runs_only Q (DetectSnapshotRoot E p)"
proof -
  have "runs_only Q (case ds of [d] \<Rightarrow> if b d then ireturn d else ithrow e | _ \<Rightarrow> ithrow e)"
    for ds :: "fs_path list" and b and e :: platform_error
    by (auto split: list.splits intro: runs_intros)
  then show ?thesis unfolding DetectSnapshotRoot_def by (intro runs_intros)
qed

lemma runs_EnsureCheckout [runs_intros]: "runs_only local_request (EnsureCheckout E home entry)"
  unfolding EnsureCheckout_def Let_def by (intro runs_intros) (simp add: network_request_def process_request_def)

lemma runs_MaterializeArtifact:
  "offline \<Longrightarrow> runs_only local_request (MaterializeArtifact E home r headers entry offline)"
  unfolding MaterializeArtifact_def copy_blob_def Let_def by (simp only: if_True) (intro runs_intros)

text \<open>
  In offline mode materialising a registry package downloads nothing: no command that contacts the network is run, whatever
  the registry root, the caches and the security resolver are, and however it ends.
\<close>

theorem MaterializeRegistryPackage_offline:
  "\<exists>more. w_log (snd (MaterializeRegistryPackage P E slots r package version True w)) = w_log w @ more
     \<and> list_all local_request more"
proof -
  have "runs_only local_request (MaterializeRegistryPackage P E slots r package version True)"
    unfolding MaterializeRegistryPackage_def LoadConfig_def LoadPackageMetadata_def LoadEntry_def Let_def
    by (intro runs_intros runs_LoadRegistryObjectText runs_MaterializeArtifact TrueI)
  then show ?thesis by (simp add: runs_only_def)
qed

section \<open>A digest that does not match\<close>

lemma NormalizeRelative_error:
  "NormalizeRelativeRegistryPath p ctx = Inl e \<Longrightarrow> \<exists>more. e = FetchError (ctx @ '' '' @ more)"
  by (auto simp: NormalizeRelativeRegistryPath_def rbind_eq_Inl Let_def)

lemma copy_blob_error:
  "copy_blob source blob w = (Inl e, w') \<Longrightarrow> (\<exists>m. e = CacheError m) \<or> e = FetchError (''registry v2 source artifact not found: '' @ source)"
  by (auto simp: copy_blob_def io_Inl io_simps iwrite_def split: option.splits if_splits)

lemma FetchUrlToFile_error:
  "FetchUrlToFile E url p headers w = (Inl e, w') \<Longrightarrow> (\<exists>m. e = CacheError m) \<or> (\<exists>m. e = FetchError (''failed to download registry artifact '' @ m))"
  by (auto simp: FetchUrlToFile_def RunProcess_def io_Inl io_simps irename_def Let_def split: if_splits)

lemma JoinUrl_error: "JoinUrl r p = Inl e \<Longrightarrow> \<exists>more. e = FetchError (''registry object path '' @ more)"
  using NormalizeRelative_error by (fastforce simp: JoinUrl_def rbind_eq_Inl)

lemma mismatch_digest:
  assumes "MaterializeArtifact E home r headers entry offline w = (Inl (sha_mismatch entry), w')"
  shows "\<exists>d. sha256_file (w_fs w') (BlobCachePath E home (en_sha256 entry)) = Inr d \<and> d \<noteq> en_sha256 entry"
  using assms
  by (auto simp: MaterializeArtifact_def Let_def io_Inl io_simps sha_mismatch_def split: if_splits
      dest!: sha256_file_error NormalizeRelative_error copy_blob_error FetchUrlToFile_error JoinUrl_error)

text \<open>
  \<^bold>\<open>C35.\<close> An artifact whose bytes do not have the digest of the index is refused, but it stays in the
  blob cache: from then on every attempt to materialise that entry, from any registry,
  fails with a cache error and changes nothing, although the registry may by then serve the
  right bytes.
\<close>

theorem artifact_mismatch_sticks:
  assumes "MaterializeArtifact E home r headers entry offline w = (Inl (sha_mismatch entry), w')"
  shows "MaterializeArtifact E home r' headers' entry offline' w'
    = (Inl (CacheError (''cached registry artifact sha256 mismatch: '' @ BlobCachePath E home (en_sha256 entry))), w')"
proof -
  obtain d where d: "sha256_file (w_fs w') (BlobCachePath E home (en_sha256 entry)) = Inr d" "d \<noteq> en_sha256 entry"
    using mismatch_digest [OF assms] by blast
  then have "fs_exists (w_fs w') (BlobCachePath E home (en_sha256 entry))"
    using sha256_file_shape by (fastforce simp: fs_exists_def)
  with d show ?thesis by (simp add: MaterializeArtifact_def Let_def ibind_def io_simps iguard_def)
qed

text \<open>A registry with one artifact whose entry carries a wrong digest.\<close>

definition stale_entry :: RegistryEntry where
  "stale_entry = \<lparr>en_package = ''a/b'', en_version = ''1.0.0'', en_sha256 = ''00'', en_artifact_path = ''a.tar''\<rparr>"

definition stale_world :: os_world where
  "stale_world = \<lparr>w_fs = [''/reg/a.tar'' \<mapsto> Regular ''x''], w_log = []\<rparr>"

lemma sha256_file_Regular: "fs p = Some (Regular t) \<Longrightarrow> \<exists>d. sha256_file fs p = Inr d"
  using update_all_returns [of "[map of_char t]"] by (auto simp: sha256_file_def file_stream_def file_text_def Sha256File_def)

lemma stale_mismatch:
  "\<exists>w'. MaterializeArtifact quiet_os ''/h'' ''file:///reg'' [] stale_entry False stale_world = (Inl (sha_mismatch stale_entry), w')"
proof -
  let ?b = "''/h/registry/blobs/sha256/00/00.tar''"
  have eqs: "BlobCachePath quiet_os ''/h'' ''00'' = ''/h/registry/blobs/sha256/00/00.tar''"
    "NormalizeRelativeRegistryPath ''a.tar'' ''registry v2 source artifact path'' = Inr ''a.tar''"
    "path_div (FileUrlToPath ''file:///reg'') ''a.tar'' = ''/reg/a.tar''" "IsFileRegistryRoot ''file:///reg''"
    "path_parent ?b = ''/h/registry/blobs/sha256/00''" by code_simp+
  let ?fs = "[''/reg/a.tar'' \<mapsto> Regular ''x'', ''/h/registry/blobs/sha256/00'' \<mapsto> Directory, ?b \<mapsto> Regular ''x'']"
  obtain d where d: "sha256_file ?fs ?b = Inr d" using sha256_file_Regular [of ?fs ?b "''x''"] by auto
  then have "length d = 64" using sha256_file_shape [of ?fs ?b d] by blast
  then have "d \<noteq> ''00''" by auto
  with d show ?thesis
    by (simp add: MaterializeArtifact_def Let_def stale_entry_def stale_world_def eqs copy_blob_def ibind_def io_simps iguard_def
        fs_exists_def file_text_def iwrite_def fs_is_directory_def create_directories_def)
qed

theorem artifact_mismatch_sticks_witness:
  "\<exists>w'. MaterializeArtifact quiet_os ''/h'' ''https://mirror'' [] stale_entry False w'
     = (Inl (CacheError (''cached registry artifact sha256 mismatch: '' @ BlobCachePath quiet_os ''/h'' (en_sha256 stale_entry))), w')"
  using stale_mismatch artifact_mismatch_sticks [of quiet_os "''/h''" "''file:///reg''" "[]" stale_entry False stale_world] by blast

end
