(* ===== verification/Resolver.thy ===== *)
theory Resolver
  imports Manifest_Correct Registry_Client
begin

text \<open>
  Dependency resolution (\<^verbatim>\<open>PlatformCore/Resolve/Resolver.hpp\<close>, \<^verbatim>\<open>Resolver.cpp\<close>): from a manifest to the graph of
  packages it needs, one version each. The class \<^verbatim>\<open>SingleVersionResolver\<close> is split into the record
  \<open>resolver\<close>, which its constructor fills and nothing changes, and \<open>resolver_state\<close>, the node table with its
  two indexes and the machine. \<^verbatim>\<open>ResolveNode\<close> recurses over what it reads from disk and network, so it takes
  fuel, the depth of the recursion, and \<open>None\<close> means that the fuel ran out.
\<close>

datatype SourceKind = KWorkspace | KPath | KGit | KRegistry

record SourceOrigin =
  so_kind :: SourceKind
  so_git_source :: "string option"
  so_git_rev :: "string option"
  so_registry_root :: "string option"
  so_registry_version :: "string option"
  so_registry_sha256 :: "string option"
  so_repo_hash :: "string option"
  so_snapshot_root :: "fs_path option"

definition source_origin :: "SourceKind \<Rightarrow> SourceOrigin" where
  "source_origin kind = \<lparr>so_kind = kind, so_git_source = None, so_git_rev = None, so_registry_root = None,
     so_registry_version = None, so_registry_sha256 = None, so_repo_hash = None, so_snapshot_root = None\<rparr>"

record ManifestSelection =
  sel_manifest_path :: fs_path
  sel_origin :: SourceOrigin

record ResolveOptions =
  ro_offline :: bool
  ro_vendor_root :: "fs_path option"

record ResolvedDependencyAlias =
  ra_alias :: string
  ra_package_id :: string

record Node =
  nd_manifest_path :: fs_path
  nd_package_dir :: fs_path
  nd_package :: PackageConfig
  nd_origin :: SourceOrigin
  nd_source_fingerprint :: string
  nd_id :: string
  nd_dependencies :: "string list"
  nd_dependency_aliases :: "ResolvedDependencyAlias list"

text \<open>What the process has around it: the TOML and JSON libraries, the operating system, the
  security slots and the version the build puts into the binary.\<close>

record resolver_env =
  re_toml :: toml_lib
  re_json :: "string \<Rightarrow> json option"
  re_os :: os_env
  re_slots :: security_slots
  re_version :: string

record resolver =
  rv_env :: resolver_env
  rv_root_manifest_path :: fs_path
  rv_root_manifest :: ManifestDocument
  rv_options :: ResolveOptions
  rv_root_seeds :: "ManifestSelection list"
  rv_top_level_workspace_dirs :: "string list"

abbreviation rv_cwd :: "resolver \<Rightarrow> fs_path" where
  "rv_cwd R \<equiv> oe_cwd (re_os (rv_env R))"

definition PathKey :: "fs_path \<Rightarrow> fs_path \<Rightarrow> string" where
  "PathKey cwd p = CanonicalAbsolutePath cwd p"

definition PathIsWithin :: "fs_path \<Rightarrow> fs_path \<Rightarrow> fs_path \<Rightarrow> bool" where
  "PathIsWithin cwd candidate base =
     (let text = lexically_relative (CanonicalAbsolutePath cwd candidate) (CanonicalAbsolutePath cwd base)
      in text \<noteq> [] \<and> text \<noteq> ''..'' \<and> \<not> starts_with text ''../'')"

fun SourceKindString :: "SourceKind \<Rightarrow> string" where
  "SourceKindString KWorkspace = ''workspace''"
| "SourceKindString KPath = ''path''"
| "SourceKindString KGit = ''git''"
| "SourceKindString KRegistry = ''registry''"

text \<open>\<^verbatim>\<open>optional::value()\<close> on an origin's fields: they are set for the kinds that read them, and an
  empty one would throw \<^verbatim>\<open>bad_optional_access\<close>.\<close>

definition opt_value :: "'a option \<Rightarrow> 'a result" where
  "opt_value v = (case v of Some x \<Rightarrow> Inr x | None \<Rightarrow> Inl (RuntimeError ''bad optional access''))"

definition SnapshotRelativeKey :: "fs_path \<Rightarrow> SourceOrigin \<Rightarrow> fs_path \<Rightarrow> string result" where
  "SnapshotRelativeKey cwd origin package_dir =
     rbind (opt_value (so_snapshot_root origin)) (\<lambda>snap.
     let key = lexically_relative (CanonicalAbsolutePath cwd package_dir) (CanonicalAbsolutePath cwd snap)
     in Inr (if key = [] then ''.'' else key))"

definition BuildSourceFingerprint :: "fs_path \<Rightarrow> SourceOrigin \<Rightarrow> fs_path \<Rightarrow> string result" where
  "BuildSourceFingerprint cwd origin package_dir =
     (if so_kind origin = KGit then
        rbind (opt_value (so_git_source origin)) (\<lambda>source.
        rbind (opt_value (so_git_rev origin)) (\<lambda>rev_text.
        rbind (SnapshotRelativeKey cwd origin package_dir) (\<lambda>key.
          Inr (''git:'' @ source @ ''#'' @ rev_text @ '':'' @ key))))
      else if so_kind origin = KRegistry then
        rbind (opt_value (so_registry_root origin)) (\<lambda>source.
        rbind (opt_value (so_registry_sha256 origin)) (\<lambda>sha256.
        rbind (SnapshotRelativeKey cwd origin package_dir) (\<lambda>key.
          Inr (''registry:'' @ source @ ''#'' @ sha256 @ '':'' @ key))))
      else Inr (SourceKindString (so_kind origin) @ '':'' @ PathKey cwd package_dir))"

definition BuildLockId :: "SourceOrigin \<Rightarrow> PackageConfig \<Rightarrow> string result" where
  "BuildLockId origin package =
     (let base = SourceKindString (so_kind origin) @ '':'' @ pc_name package @ ''@'' @ pc_version package in
      if so_kind origin = KGit then rbind (opt_value (so_git_rev origin)) (\<lambda>r. Inr (base @ ''#'' @ r))
      else if so_kind origin = KRegistry then rbind (opt_value (so_registry_sha256 origin)) (\<lambda>s. Inr (base @ ''#'' @ s))
      else Inr base)"

definition CollectDependencies :: "PackageConfig \<Rightarrow> Dependency list" where
  "CollectDependencies package = sort_key dp_alias (pc_dependencies package @ pc_dev_dependencies package)"

definition NormalizeOptions :: "os_env \<Rightarrow> file_system \<Rightarrow> fs_path \<Rightarrow> ResolveOptions \<Rightarrow> ResolveOptions" where
  "NormalizeOptions E fs manifest_path options =
     (case ro_vendor_root options of
        None \<Rightarrow>
          let default_root = ProjectVendorRootForManifest (oe_cwd E) manifest_path
          in if fs_exists fs default_root then options\<lparr>ro_vendor_root := Some default_root\<rparr> else options
      | Some v \<Rightarrow> options\<lparr>ro_vendor_root := Some (CanonicalAbsolutePath (oe_cwd E) v)\<rparr>)"

section \<open>Roots\<close>

definition member_manifest :: "fs_path \<Rightarrow> fs_path \<Rightarrow> string \<Rightarrow> fs_path" where
  "member_manifest cwd manifest_path member =
     CanonicalAbsolutePath cwd (path_div (path_div (path_parent manifest_path) member) ''spio.toml'')"

fun seed_members :: "resolver_env \<Rightarrow> file_system \<Rightarrow> fs_path \<Rightarrow> string list \<Rightarrow> string list \<Rightarrow> fs_path list result" where
  "seed_members V fs manifest_path excluded [] = Inr []"
| "seed_members V fs manifest_path excluded (member # members) =
     rbind (guard_err (member \<in> set excluded) (WorkspaceError (''workspace member is also excluded: '' @ member))) (\<lambda>_.
     let p = member_manifest (oe_cwd (re_os V)) manifest_path member in
     rbind (guard_err (\<not> fs_exists fs p) (WorkspaceError (''workspace member manifest not found: '' @ p))) (\<lambda>_.
     rbind (LoadManifest (re_toml V) fs p) (\<lambda>doc.
     rbind (guard_err (md_package doc = None) (WorkspaceError (''workspace member manifest must define [package]: '' @ p))) (\<lambda>_.
     rbind (seed_members V fs manifest_path excluded members) (\<lambda>rest. Inr (p # rest))))))"

text \<open>\<^verbatim>\<open>std::unique\<close> on adjacent elements.\<close>

fun unique_by :: "('a \<Rightarrow> 'a \<Rightarrow> bool) \<Rightarrow> 'a list \<Rightarrow> 'a list" where
  "unique_by eq (x # y # ys) = (if eq x y then unique_by eq (x # ys) else x # unique_by eq (y # ys))"
| "unique_by eq xs = xs"

definition BuildRootSeeds :: "resolver_env \<Rightarrow> file_system \<Rightarrow> fs_path \<Rightarrow> ManifestDocument \<Rightarrow> (ManifestSelection list \<times> string list) result" where
  "BuildRootSeeds V fs manifest_path root_manifest =
     (let cwd = oe_cwd (re_os V);
          own = (if md_package root_manifest \<noteq> None then [manifest_path] else []);
          seeds = map (\<lambda>p. \<lparr>sel_manifest_path = p, sel_origin = source_origin KWorkspace\<rparr>);
          dirs = map (\<lambda>p. PathKey cwd (path_parent p)) in
      case md_workspace root_manifest of
        None \<Rightarrow> Inr (seeds own, dirs own)
      | Some ws \<Rightarrow>
          rbind (seed_members V fs manifest_path (ws_exclude ws) (sort (ws_members ws))) (\<lambda>members.
            Inr (unique_by (\<lambda>l r. path_eq (sel_manifest_path l) (sel_manifest_path r))
                   (sort_key (\<lambda>s. path_elements (sel_manifest_path s)) (seeds (own @ members))),
                 dirs (own @ members))))"

definition SingleVersionResolver :: "resolver_env \<Rightarrow> file_system \<Rightarrow> fs_path \<Rightarrow> ResolveOptions \<Rightarrow> resolver result" where
  "SingleVersionResolver V fs manifest_path options =
     (let p = CanonicalAbsolutePath (oe_cwd (re_os V)) manifest_path in
      rbind (LoadManifest (re_toml V) fs p) (\<lambda>doc.
      rbind (BuildRootSeeds V fs p doc) (\<lambda>(seeds, dirs).
        Inr \<lparr>rv_env = V, rv_root_manifest_path = p, rv_root_manifest = doc,
             rv_options = NormalizeOptions (re_os V) fs p options, rv_root_seeds = seeds, rv_top_level_workspace_dirs = dirs\<rparr>)))"

section \<open>Selecting a manifest\<close>

definition load_manifest_at :: "resolver \<Rightarrow> file_system \<Rightarrow> fs_path \<Rightarrow> ManifestDocument result" where
  "load_manifest_at R fs p =
     (if path_eq p (rv_root_manifest_path R) then Inr (rv_root_manifest R) else LoadManifest (re_toml (rv_env R)) fs p)"

fun member_matches :: "resolver \<Rightarrow> file_system \<Rightarrow> fs_path \<Rightarrow> string list \<Rightarrow> string \<Rightarrow> string list \<Rightarrow> fs_path list result" where
  "member_matches R fs manifest_path excluded expected [] = Inr []"
| "member_matches R fs manifest_path excluded expected (member # members) =
     (if member \<in> set excluded then member_matches R fs manifest_path excluded expected members
      else
        let p = member_manifest (rv_cwd R) manifest_path member in
        rbind (guard_err (\<not> fs_exists fs p) (ResolutionError (''dependency workspace member manifest not found: '' @ p))) (\<lambda>_.
        rbind (LoadManifest (re_toml (rv_env R)) fs p) (\<lambda>doc.
        case md_package doc of
          None \<Rightarrow> Inl (ResolutionError (''dependency workspace member manifest must define [package]: '' @ p))
        | Some pkg \<Rightarrow>
            rbind (member_matches R fs manifest_path excluded expected members) (\<lambda>rest.
              Inr (if pc_name pkg = expected then p # rest else rest)))))"

definition candidate_manifests :: "resolver \<Rightarrow> file_system \<Rightarrow> fs_path \<Rightarrow> string option \<Rightarrow> fs_path list result" where
  "candidate_manifests R fs manifest_path expected =
     rbind (load_manifest_at R fs manifest_path) (\<lambda>doc.
     let own = (case md_package doc of
                  Some pkg \<Rightarrow> if expected = None \<or> expected = Some (pc_name pkg) then [manifest_path] else []
                | None \<Rightarrow> []) in
     rbind (case md_workspace doc of
              None \<Rightarrow> Inr []
            | Some ws \<Rightarrow>
                rbind (guard_err (md_package doc = None \<and> expected = None)
                         (ResolutionError (''dependency target is a workspace root and requires an explicit package: '' @ manifest_path))) (\<lambda>_.
                case expected of
                  None \<Rightarrow> Inr []
                | Some name \<Rightarrow> member_matches R fs manifest_path (ws_exclude ws) name (sort (ws_members ws)))) (\<lambda>others.
       Inr (own @ others)))"

definition SelectPackageManifestFromRoot :: "resolver \<Rightarrow> file_system \<Rightarrow> fs_path \<Rightarrow> SourceOrigin \<Rightarrow> string option \<Rightarrow> ManifestSelection result" where
  "SelectPackageManifestFromRoot R fs manifest_path origin_hint expected =
     rbind (candidate_manifests R fs manifest_path expected) (\<lambda>matches.
     case matches of
       [] \<Rightarrow> Inl (ResolutionError (case expected of
                Some name \<Rightarrow> ''dependency target package '' @ [CHR 0x27] @ name @ [CHR 0x27] @ '' was not found under '' @ manifest_path
              | None \<Rightarrow> ''dependency target manifest does not define [package]: '' @ manifest_path))
     | [p] \<Rightarrow>
         Inr \<lparr>sel_manifest_path = p,
              sel_origin =
                (if so_kind origin_hint = KWorkspace \<or> so_kind origin_hint = KPath
                 then origin_hint\<lparr>so_kind :=
                        (if PathKey (rv_cwd R) (path_parent p) \<in> set (rv_top_level_workspace_dirs R) then KWorkspace else KPath)\<rparr>
                 else origin_hint)\<rparr>
     | _ \<Rightarrow> Inl (ResolutionError (''dependency target package is ambiguous under '' @ manifest_path)))"

definition ResolvePathDependency :: "resolver \<Rightarrow> Node \<Rightarrow> Dependency \<Rightarrow> (platform_error, ManifestSelection) io" where
  "ResolvePathDependency R parent dependency =
     (let p = CanonicalAbsolutePath (rv_cwd R) (path_div (path_div (nd_package_dir parent) (dp_source dependency)) ''spio.toml'') in
      ibind (ireads (\<lambda>fs. fs)) (\<lambda>fs.
      ilift
        (rbind (guard_err (\<not> fs_exists fs p) (ResolutionError (''path dependency manifest not found: '' @ p))) (\<lambda>_.
         if so_kind (nd_origin parent) = KGit then
           rbind (opt_value (so_snapshot_root (nd_origin parent))) (\<lambda>snap.
           rbind (guard_err (\<not> PathIsWithin (rv_cwd R) (path_parent p) snap
                             \<and> \<not> path_eq (CanonicalAbsolutePath (rv_cwd R) (path_parent p)) (CanonicalAbsolutePath (rv_cwd R) snap))
                    (ResolutionError (''git-sourced path dependency escapes its pinned snapshot: '' @ p))) (\<lambda>_.
             SelectPackageManifestFromRoot R fs p (nd_origin parent) (dp_package dependency)))
         else SelectPackageManifestFromRoot R fs p (source_origin KPath) (dp_package dependency)))))"

definition ResolveGitDependency :: "resolver \<Rightarrow> Node \<Rightarrow> Dependency \<Rightarrow> (platform_error, ManifestSelection) io" where
  "ResolveGitDependency R parent dependency =
     (let E = re_os (rv_env R); source = NormalizeGitSource (oe_cwd E) (dp_source dependency) (nd_package_dir parent) in
      ibind (ilift (ResolveSpioHome (oe_getenv E) (oe_cwd E))) (\<lambda>home.
      ibind (ilift (opt_value (dp_rev dependency))) (\<lambda>rev_text.
      ibind (MaterializeSnapshot E
               \<lparr>gs_spio_home = home, gs_vendor_root = ro_vendor_root (rv_options R), gs_origin = source, gs_revision = rev_text,
                gs_offline = ro_offline (rv_options R), gs_policy = TrustedGitSourcePolicy, gs_error_context = ''resolver process''\<rparr>) (\<lambda>snapshot.
      let origin = (source_origin KGit)\<lparr>so_git_source := Some source, so_git_rev := Some rev_text,
                     so_repo_hash := Some (sn_repo_hash snapshot), so_snapshot_root := Some (sn_snapshot_root snapshot)\<rparr>;
          p = path_div (sn_snapshot_root snapshot) ''spio.toml'' in
      ibind (ireads (\<lambda>fs. fs)) (\<lambda>fs.
      ibind (iguard (\<not> fs_exists fs p) (ResolutionError (''git dependency snapshot does not contain spio.toml: '' @ p))) (\<lambda>_.
        ilift (SelectPackageManifestFromRoot R fs p origin (dp_package dependency))))))))"

definition ResolveRegistryDependency :: "resolver \<Rightarrow> Node \<Rightarrow> Dependency \<Rightarrow> (platform_error, ManifestSelection) io" where
  "ResolveRegistryDependency R parent dependency =
     (case dp_package dependency of
        None \<Rightarrow> ithrow (ResolutionError (''registry dependency '' @ [CHR 0x27] @ dp_alias dependency @ [CHR 0x27]
                  @ '' must declare package = '' @ quoted_word ''namespace/name''))
      | Some package \<Rightarrow>
      case dp_version dependency of
        None \<Rightarrow> ithrow (ResolutionError (''registry dependency '' @ [CHR 0x27] @ dp_alias dependency @ [CHR 0x27]
                  @ '' must declare version = '' @ quoted_word ''x.y.z''))
      | Some version \<Rightarrow>
          ibind (MaterializeRegistryPackage (re_json (rv_env R)) (re_os (rv_env R)) (re_slots (rv_env R))
                   (dp_source dependency) package version (ro_offline (rv_options R))) (\<lambda>m.
          let origin = (source_origin KRegistry)\<lparr>so_registry_root := Some (mz_registry_root m), so_registry_version := Some (mz_version m),
                         so_registry_sha256 := Some (mz_sha256 m), so_snapshot_root := Some (mz_snapshot_root m)\<rparr>;
              p = path_div (mz_snapshot_root m) ''spio.toml'' in
          ibind (ireads (\<lambda>fs. fs)) (\<lambda>fs.
          ibind (iguard (\<not> fs_exists fs p) (ResolutionError (''registry dependency snapshot does not contain spio.toml: '' @ p))) (\<lambda>_.
            ilift (SelectPackageManifestFromRoot R fs p origin (dp_package dependency))))))"

definition select_dependency :: "resolver \<Rightarrow> Node \<Rightarrow> Dependency \<Rightarrow> (platform_error, ManifestSelection) io" where
  "select_dependency R parent dependency =
     (case dp_source_kind dependency of
        DepPath \<Rightarrow> ResolvePathDependency R parent dependency
      | DepGit \<Rightarrow> ResolveGitDependency R parent dependency
      | DepRegistry \<Rightarrow> ResolveRegistryDependency R parent dependency)"

section \<open>The graph\<close>

record resolver_state =
  rs_nodes :: "Node list"
  rs_by_fingerprint :: "string \<rightharpoonup> nat"
  rs_by_name :: "string \<rightharpoonup> nat"
  rs_world :: os_world

type_synonym 'a resolving = "resolver_state \<Rightarrow> ('a result \<times> resolver_state) option"

definition at_node :: "resolver_state \<Rightarrow> nat \<Rightarrow> Node result" where
  "at_node s i = (if i < length (rs_nodes s) then Inr (rs_nodes s ! i) else Inl OutOfRange)"

text \<open>The loop over the dependencies of a node: the ids and aliases collected so far are returned
  in the order of the loop. \<open>rec\<close> is the recursive call.\<close>

fun resolve_dependencies ::
  "resolver \<Rightarrow> (fs_path \<Rightarrow> SourceOrigin \<Rightarrow> nat resolving) \<Rightarrow> nat \<Rightarrow> Node \<Rightarrow> Dependency list \<Rightarrow> (string list \<times> ResolvedDependencyAlias list) resolving" where
  "resolve_dependencies R rec node_index node [] s = Some (Inr ([], []), s)"
| "resolve_dependencies R rec node_index node (dep # deps) s =
     (case at_node s node_index of
        Inl e \<Rightarrow> Some (Inl e, s)
      | Inr parent \<Rightarrow>
      case select_dependency R parent dep (rs_world s) of
        (Inl e, w) \<Rightarrow> Some (Inl e, s\<lparr>rs_world := w\<rparr>)
      | (Inr sel, w) \<Rightarrow>
      case rec (sel_manifest_path sel) (sel_origin sel) (s\<lparr>rs_world := w\<rparr>) of
        None \<Rightarrow> None
      | Some (Inl e, s') \<Rightarrow> Some (Inl e, s')
      | Some (Inr dep_index, s') \<Rightarrow>
      case at_node s' dep_index of
        Inl e \<Rightarrow> Some (Inl e, s')
      | Inr dep_node \<Rightarrow>
          if dp_package dep \<noteq> None \<and> dp_package dep \<noteq> Some (pc_name (nd_package dep_node)) then
            Some (Inl (ResolutionError (''dependency '' @ [CHR 0x27] @ dp_alias dep @ [CHR 0x27] @ '' expected package '' @ [CHR 0x27]
                    @ text_or_empty (dp_package dep) @ [CHR 0x27] @ '' but found '' @ [CHR 0x27] @ pc_name (nd_package dep_node) @ [CHR 0x27])), s')
          else if nd_source_fingerprint dep_node = nd_source_fingerprint node then
            Some (Inl (ResolutionError (''package '' @ [CHR 0x27] @ pc_name (nd_package node) @ [CHR 0x27] @ '' cannot depend on itself'')), s')
          else
            case resolve_dependencies R rec node_index node deps s' of
              None \<Rightarrow> None
            | Some (Inl e, s'') \<Rightarrow> Some (Inl e, s'')
            | Some (Inr (ids, aliases), s'') \<Rightarrow>
                Some (Inr (nd_id dep_node # ids, \<lparr>ra_alias = dp_alias dep, ra_package_id = nd_id dep_node\<rparr> # aliases), s''))"

definition new_node :: "resolver \<Rightarrow> file_system \<Rightarrow> fs_path \<Rightarrow> SourceOrigin \<Rightarrow> string \<Rightarrow> Node result" where
  "new_node R fs manifest_path origin fingerprint =
     rbind (load_manifest_at R fs manifest_path) (\<lambda>doc.
     case md_package doc of
       None \<Rightarrow> Inl (if so_kind origin = KWorkspace
                     then WorkspaceError (''workspace package manifest must define [package]: '' @ manifest_path)
                     else ResolutionError (''resolved manifest must define [package]: '' @ manifest_path))
     | Some package \<Rightarrow>
         rbind (BuildLockId origin package) (\<lambda>lock_id.
           Inr \<lparr>nd_manifest_path = manifest_path, nd_package_dir = path_parent manifest_path, nd_package = package,
                nd_origin = origin, nd_source_fingerprint = fingerprint, nd_id = lock_id,
                nd_dependencies = [], nd_dependency_aliases = []\<rparr>))"

definition known_by_name :: "resolver_state \<Rightarrow> Node \<Rightarrow> nat \<Rightarrow> nat result" where
  "known_by_name s node i =
     rbind (at_node s i) (\<lambda>other.
     rbind (guard_err (pc_version (nd_package other) \<noteq> pc_version (nd_package node))
              (ResolutionError (''single-version-v1 conflict for package '' @ [CHR 0x27] @ pc_name (nd_package node) @ [CHR 0x27]
                 @ '': versions '' @ [CHR 0x27] @ pc_version (nd_package other) @ [CHR 0x27] @ '' and '' @ [CHR 0x27]
                 @ pc_version (nd_package node) @ [CHR 0x27]))) (\<lambda>_.
     rbind (guard_err (nd_source_fingerprint other \<noteq> nd_source_fingerprint node)
              (ResolutionError (''single-version-v1 source conflict for package '' @ [CHR 0x27] @ pc_name (nd_package node) @ [CHR 0x27]))) (\<lambda>_.
       Inr i)))"

definition push_node :: "Node \<Rightarrow> resolver_state \<Rightarrow> resolver_state" where
  "push_node node s = s\<lparr>rs_nodes := rs_nodes s @ [node],
     rs_by_fingerprint := (rs_by_fingerprint s)(nd_source_fingerprint node \<mapsto> length (rs_nodes s)),
     rs_by_name := (rs_by_name s)(pc_name (nd_package node) \<mapsto> length (rs_nodes s))\<rparr>"

definition finish_node :: "nat \<Rightarrow> string list \<Rightarrow> ResolvedDependencyAlias list \<Rightarrow> resolver_state \<Rightarrow> resolver_state" where
  "finish_node i ids aliases s = s\<lparr>rs_nodes := (rs_nodes s)[i := (rs_nodes s ! i)
     \<lparr>nd_dependencies := unique_by (=) (sort ids), nd_dependency_aliases := sort_key ra_alias aliases\<rparr>]\<rparr>"

fun ResolveNode :: "resolver \<Rightarrow> nat \<Rightarrow> fs_path \<Rightarrow> SourceOrigin \<Rightarrow> nat resolving" where
  "ResolveNode R 0 manifest_path origin s = None"
| "ResolveNode R (Suc fuel) manifest_path origin s =
     (let p = CanonicalAbsolutePath (rv_cwd R) manifest_path in
      case BuildSourceFingerprint (rv_cwd R) origin (path_parent p) of
        Inl e \<Rightarrow> Some (Inl e, s)
      | Inr fingerprint \<Rightarrow>
      case rs_by_fingerprint s fingerprint of
        Some i \<Rightarrow> Some (Inr i, s)
      | None \<Rightarrow>
      case new_node R (w_fs (rs_world s)) p origin fingerprint of
        Inl e \<Rightarrow> Some (Inl e, s)
      | Inr node \<Rightarrow>
      case rs_by_name s (pc_name (nd_package node)) of
        Some i \<Rightarrow> Some (known_by_name s node i, s)
      | None \<Rightarrow>
          let i = length (rs_nodes s) in
          case resolve_dependencies R (ResolveNode R fuel) i node (CollectDependencies (nd_package node)) (push_node node s) of
            None \<Rightarrow> None
          | Some (Inl e, s') \<Rightarrow> Some (Inl e, s')
          | Some (Inr (ids, aliases), s') \<Rightarrow> Some (Inr i, finish_node i ids aliases s'))"

fun resolve_roots :: "resolver \<Rightarrow> nat \<Rightarrow> ManifestSelection list \<Rightarrow> (string list) resolving" where
  "resolve_roots R fuel [] s = Some (Inr [], s)"
| "resolve_roots R fuel (seed # seeds) s =
     (case ResolveNode R fuel (sel_manifest_path seed) (sel_origin seed) s of
        None \<Rightarrow> None
      | Some (Inl e, s') \<Rightarrow> Some (Inl e, s')
      | Some (Inr i, s') \<Rightarrow>
      case at_node s' i of
        Inl e \<Rightarrow> Some (Inl e, s')
      | Inr node \<Rightarrow>
      case resolve_roots R fuel seeds s' of
        None \<Rightarrow> None
      | Some (Inl e, s'') \<Rightarrow> Some (Inl e, s'')
      | Some (Inr ids, s'') \<Rightarrow> Some (Inr (nd_id node # ids), s''))"

section \<open>The results\<close>

record ResolvedPackage =
  rk_manifest_path :: fs_path
  rk_root_dir :: fs_path
  rk_package :: PackageConfig
  rk_id :: string
  rk_source_kind :: string
  rk_git :: "string option"
  rk_rev :: "string option"
  rk_registry :: "string option"
  rk_sha256 :: "string option"
  rk_repo_hash :: "string option"
  rk_snapshot_root :: "fs_path option"
  rk_dependencies :: "string list"
  rk_dependency_aliases :: "ResolvedDependencyAlias list"

record ResolvedGraphResult =
  rg_manifest_path :: fs_path
  rg_lockfile_path :: fs_path
  rg_root_ids :: "string list"
  rg_packages :: "ResolvedPackage list"
  rg_lockfile :: LockfileDocument

record LockGenerationResult =
  lg_manifest_path :: fs_path
  lg_lockfile_path :: fs_path
  lg_root_ids :: "string list"
  lg_lockfile :: LockfileDocument

definition resolved_package :: "Node \<Rightarrow> ResolvedPackage" where
  "resolved_package node =
     \<lparr>rk_manifest_path = nd_manifest_path node, rk_root_dir = nd_package_dir node, rk_package = nd_package node,
      rk_id = nd_id node, rk_source_kind = SourceKindString (so_kind (nd_origin node)),
      rk_git = so_git_source (nd_origin node), rk_rev = so_git_rev (nd_origin node),
      rk_registry = so_registry_root (nd_origin node), rk_sha256 = so_registry_sha256 (nd_origin node),
      rk_repo_hash = so_repo_hash (nd_origin node), rk_snapshot_root = so_snapshot_root (nd_origin node),
      rk_dependencies = nd_dependencies node, rk_dependency_aliases = nd_dependency_aliases node\<rparr>"

definition lock_package :: "ResolvedPackage \<Rightarrow> LockPackage" where
  "lock_package p =
     \<lparr>lp_id = rk_id p, lp_name = pc_name (rk_package p), lp_version = pc_version (rk_package p), lp_source_kind = rk_source_kind p,
      lp_git = rk_git p, lp_rev = rk_rev p, lp_registry = rk_registry p, lp_sha256 = rk_sha256 p,
      lp_dependencies = rk_dependencies p\<rparr>"

definition initial_state :: "os_world \<Rightarrow> resolver_state" where
  "initial_state w = \<lparr>rs_nodes = [], rs_by_fingerprint = Map.empty, rs_by_name = Map.empty, rs_world = w\<rparr>"

definition graph_result :: "resolver \<Rightarrow> string list \<Rightarrow> Node list \<Rightarrow> ResolvedGraphResult" where
  "graph_result R root_ids nodes =
     (let packages = sort_key rk_id (map resolved_package nodes) in
      \<lparr>rg_manifest_path = rv_root_manifest_path R,
       rg_lockfile_path = path_div (path_parent (rv_root_manifest_path R)) ''spio.lock'',
       rg_root_ids = unique_by (=) (sort root_ids), rg_packages = packages,
       rg_lockfile = \<lparr>lf_generated_by = ''spio '' @ re_version (rv_env R), lf_resolver = ''single-version-v1'',
                      lf_packages = map lock_package packages\<rparr>\<rparr>)"

definition ResolveGraph :: "resolver \<Rightarrow> nat \<Rightarrow> os_world \<Rightarrow> (ResolvedGraphResult result \<times> os_world) option" where
  "ResolveGraph R fuel w =
     (case resolve_roots R fuel (rv_root_seeds R) (initial_state w) of
        None \<Rightarrow> None
      | Some (Inl e, s) \<Rightarrow> Some (Inl e, rs_world s)
      | Some (Inr root_ids, s) \<Rightarrow> Some (Inr (graph_result R root_ids (rs_nodes s)), rs_world s))"

definition ResolveSingleVersionGraph :: "resolver_env \<Rightarrow> nat \<Rightarrow> fs_path \<Rightarrow> ResolveOptions \<Rightarrow> os_world \<Rightarrow> (ResolvedGraphResult result \<times> os_world) option" where
  "ResolveSingleVersionGraph V fuel manifest_path options w =
     (case SingleVersionResolver V (w_fs w) manifest_path options of
        Inl e \<Rightarrow> Some (Inl e, w)
      | Inr R \<Rightarrow> ResolveGraph R fuel w)"

definition ResolveSingleVersionLockfile :: "resolver_env \<Rightarrow> nat \<Rightarrow> fs_path \<Rightarrow> ResolveOptions \<Rightarrow> os_world \<Rightarrow> (LockGenerationResult result \<times> os_world) option" where
  "ResolveSingleVersionLockfile V fuel manifest_path options w =
     map_option (\<lambda>(r, w'). (rbind r (\<lambda>g. Inr \<lparr>lg_manifest_path = rg_manifest_path g, lg_lockfile_path = rg_lockfile_path g,
        lg_root_ids = rg_root_ids g, lg_lockfile = rg_lockfile g\<rparr>), w')) (ResolveSingleVersionGraph V fuel manifest_path options w)"

end
