(* ===== verification/Resolver_Graph.thy ===== *)
theory Resolver_Graph
  imports Resolver
begin

text \<open>
  What every resolved graph satisfies. \<open>graph_inv\<close> holds of the node table and its two indexes at every
  moment of a resolution; \<open>complete\<close> of every node whose dependencies have been resolved. A call of
  \<^verbatim>\<open>ResolveNode\<close> only appends to the table, and what it appends is complete when it returns.
\<close>

section \<open>Origins\<close>

definition origin_ok :: "SourceOrigin \<Rightarrow> bool" where
  "origin_ok o' =
     ((if so_kind o' = KGit then \<not> absent_or_empty (so_git_source o') \<and> \<not> absent_or_empty (so_git_rev o')
       else so_git_source o' = None \<and> so_git_rev o' = None)
      \<and> (if so_kind o' = KRegistry then \<not> absent_or_empty (so_registry_root o') \<and> (\<exists>d. so_registry_sha256 o' = Some d \<and> Sha256Regex d)
         else so_registry_root o' = None \<and> so_registry_sha256 o' = None))"

lemma origin_ok_plain [simp]: "origin_ok (source_origin KWorkspace)" "origin_ok (source_origin KPath)"
  by (simp_all add: origin_ok_def source_origin_def)

lemma Select_single:
  assumes "SelectPackageManifestFromRoot R fs p hint expected = Inr sel"
  obtains q where "candidate_manifests R fs p expected = Inr [q]" and "sel_manifest_path sel = q"
    and "sel_origin sel = hint \<or> so_kind hint \<in> {KWorkspace, KPath} \<and> (\<exists>k \<in> {KWorkspace, KPath}. sel_origin sel = hint\<lparr>so_kind := k\<rparr>)"
proof -
  from assms obtain ms where ms: "candidate_manifests R fs p expected = Inr ms"
    by (auto simp: SelectPackageManifestFromRoot_def rbind_eq_Inr)
  with assms obtain q where q: "ms = [q]"
    by (cases ms; cases "tl ms") (auto simp: SelectPackageManifestFromRoot_def)
  with assms ms that [of q] show thesis by (auto simp: SelectPackageManifestFromRoot_def)
qed

lemma Select_origin:
  assumes "SelectPackageManifestFromRoot R fs p hint expected = Inr sel" and "origin_ok hint"
  shows "origin_ok (sel_origin sel)"
  using assms(1) by (rule Select_single) (use assms(2) in \<open>auto simp: origin_ok_def\<close>)

lemma registry_root_nonempty:
  assumes "MaterializeRegistryPackage P E slots r package version offline w = (Inr m, w')"
  shows "mz_registry_root m \<noteq> []"
proof -
  have scheme: "IsFileRegistryRoot rr \<or> IsHttpRegistryRoot rr" if "LoadConfig P E home rr headers offline w1 = (Inr pre, w2)"
    for home rr headers w1 pre w2
    using that by (auto simp: LoadConfig_def LoadRegistryObjectText_def io_Inr io_simps split: if_splits)
  from assms have "\<exists>home headers w1 pre w2. LoadConfig P E home (mz_registry_root m) headers offline w1 = (Inr pre, w2)"
    by (auto simp: MaterializeRegistryPackage_def Let_def io_Inr io_simps) blast
  with scheme have "IsFileRegistryRoot (mz_registry_root m) \<or> IsHttpRegistryRoot (mz_registry_root m)" by blast
  then show ?thesis by (auto simp: IsFileRegistryRoot_def IsHttpRegistryRoot_def starts_with_def)
qed

lemma select_dependency_origin:
  assumes "select_dependency R parent d w = (Inr sel, w')" and "origin_ok (nd_origin parent)" and "wf_dependency d"
  shows "origin_ok (sel_origin sel)"
proof (cases "dp_source_kind d")
  case DepPath
  with assms show ?thesis
    by (auto simp: select_dependency_def ResolvePathDependency_def Let_def io_Inr io_simps rbind_eq_Inr
        intro: Select_origin split: if_splits)
next
  case DepGit
  with assms(1) obtain req snap w1 o' where m: "MaterializeSnapshot (re_os (rv_env R)) req w = (Inr snap, w1)"
    and o': "o' = (source_origin KGit)\<lparr>so_git_source := Some (gs_origin req), so_git_rev := Some (gs_revision req),
       so_repo_hash := Some (sn_repo_hash snap), so_snapshot_root := Some (sn_snapshot_root snap)\<rparr>"
    and sel: "\<exists>fs p. SelectPackageManifestFromRoot R fs p o' (dp_package d) = Inr sel"
    by (fastforce simp: select_dependency_def ResolveGitDependency_def Let_def io_Inr io_simps)
  have "gs_origin req \<noteq> []" "gs_revision req \<noteq> []"
    using MaterializeSnapshot_guard [OF m] by (auto simp: GitSourcePolicyViolation_def)
  then have "origin_ok o'" by (simp add: o' origin_ok_def source_origin_def)
  with sel show ?thesis using Select_origin by blast
next
  case DepRegistry
  with assms(1) obtain package version m w1 o' where
      m: "MaterializeRegistryPackage (re_json (rv_env R)) (re_os (rv_env R)) (re_slots (rv_env R)) (dp_source d) package version
            (ro_offline (rv_options R)) w = (Inr m, w1)"
    and o': "o' = (source_origin KRegistry)\<lparr>so_registry_root := Some (mz_registry_root m), so_registry_version := Some (mz_version m),
                   so_registry_sha256 := Some (mz_sha256 m), so_snapshot_root := Some (mz_snapshot_root m)\<rparr>"
    and sel: "\<exists>fs p. SelectPackageManifestFromRoot R fs p o' (dp_package d) = Inr sel"
    by (fastforce simp: select_dependency_def ResolveRegistryDependency_def Let_def io_Inr io_simps split: option.splits)
  have "origin_ok o'" using registry_root_nonempty [OF m] registry_digest [OF m] by (simp add: o' origin_ok_def source_origin_def)
  with sel show ?thesis using Select_origin by blast
qed

section \<open>Nodes\<close>

definition node_ok :: "Node \<Rightarrow> bool" where
  "node_ok n = (BuildLockId (nd_origin n) (nd_package n) = Inr (nd_id n) \<and> wf_package (nd_package n) \<and> origin_ok (nd_origin n))"

definition resolver_ok :: "resolver \<Rightarrow> bool" where
  "resolver_ok R \<longleftrightarrow> wf_manifest (rv_root_manifest R) \<and> toml_ordered (re_toml (rv_env R))"

lemma new_node_ok:
  assumes "resolver_ok R" and "origin_ok origin" and "new_node R fs p origin fp = Inr n"
  shows "node_ok n" and "nd_source_fingerprint n = fp" and "nd_origin n = origin"
proof -
  from assms(3) obtain doc package where doc: "load_manifest_at R fs p = Inr doc" "md_package doc = Some package"
    and n: "nd_package n = package" "nd_origin n = origin" "BuildLockId origin package = Inr (nd_id n)" "nd_source_fingerprint n = fp"
    by (auto simp: new_node_def rbind_eq_Inr split: option.splits)
  have "wf_manifest doc"
    using assms(1) doc(1) load_manifest_wf by (auto simp: resolver_ok_def load_manifest_at_def split: if_splits)
  with doc n assms(2) show "node_ok n" "nd_source_fingerprint n = fp" "nd_origin n = origin"
    by (simp_all add: node_ok_def wf_manifest_def)
qed

text \<open>The part of a node that is fixed when it enters the table.\<close>

definition core :: "Node \<Rightarrow> Node" where
  "core n = n\<lparr>nd_dependencies := [], nd_dependency_aliases := []\<rparr>"

lemma core_eq_fields:
  "core m = core n \<Longrightarrow> nd_id m = nd_id n \<and> nd_package m = nd_package n \<and> nd_source_fingerprint m = nd_source_fingerprint n
     \<and> nd_origin m = nd_origin n"
  by (cases m; cases n) (simp add: core_def)

text \<open>A map from keys to positions that is exact for a table.\<close>

definition index_ok :: "('a \<Rightarrow> 'k) \<Rightarrow> ('k \<rightharpoonup> nat) \<Rightarrow> 'a list \<Rightarrow> bool" where
  "index_ok key ix xs \<longleftrightarrow> (\<forall>k i. ix k = Some i \<longleftrightarrow> i < length xs \<and> key (xs ! i) = k)"

lemma index_ok_push:
  assumes "index_ok key ix xs" and "ix (key x) = None"
  shows "index_ok key (ix(key x \<mapsto> length xs)) (xs @ [x])"
proof -
  have "key (xs ! i) \<noteq> key x" if "i < length xs" for i
    using assms that unfolding index_ok_def by (metis option.distinct(1))
  then show ?thesis using assms(1) by (auto simp: index_ok_def nth_append less_Suc_eq)
qed

lemma index_ok_map:
  assumes "index_ok key ix xs" and "map key ys = map key xs"
  shows "index_ok key ix ys"
proof -
  have "length ys = length xs" using assms(2) map_eq_imp_length_eq by blast
  moreover have "key (ys ! i) = key (xs ! i)" if "i < length xs" for i
    using assms(2) that \<open>length ys = length xs\<close> by (metis nth_map)
  ultimately show ?thesis using assms(1) by (auto simp: index_ok_def)
qed

lemma index_ok_distinct: "index_ok key ix xs \<Longrightarrow> distinct (map key xs)"
  unfolding index_ok_def distinct_conv_nth by (metis length_map nth_map option.inject)

definition graph_inv :: "resolver_state \<Rightarrow> bool" where
  "graph_inv s \<longleftrightarrow>
     list_all node_ok (rs_nodes s)
     \<and> index_ok (pc_name \<circ> nd_package) (rs_by_name s) (rs_nodes s)
     \<and> index_ok nd_source_fingerprint (rs_by_fingerprint s) (rs_nodes s)"

lemma graph_inv_initial: "graph_inv (initial_state w)"
  by (simp add: graph_inv_def initial_state_def index_ok_def)

lemma graph_inv_world [simp]: "graph_inv (s\<lparr>rs_world := w\<rparr>) = graph_inv s"
  by (simp add: graph_inv_def)

lemma graph_inv_push:
  assumes "graph_inv s" and "node_ok n"
    and "rs_by_name s (pc_name (nd_package n)) = None" and "rs_by_fingerprint s (nd_source_fingerprint n) = None"
  shows "graph_inv (push_node n s)"
  using assms index_ok_push [of "pc_name \<circ> nd_package" "rs_by_name s" "rs_nodes s" n]
    index_ok_push [of nd_source_fingerprint "rs_by_fingerprint s" "rs_nodes s" n]
  by (simp add: graph_inv_def push_node_def)

lemma core_update [simp]: "core (n\<lparr>nd_dependencies := ids, nd_dependency_aliases := as\<rparr>) = core n"
  by (simp add: core_def)

lemma finish_node_core: "map core (rs_nodes (finish_node i ids aliases s)) = map core (rs_nodes s)"
proof (cases "i < length (rs_nodes s)")
  case True
  then show ?thesis by (simp add: finish_node_def map_update list_update_same_conv)
qed (simp add: finish_node_def list_update_beyond)

lemma map_core_key:
  assumes "map core xs = map core ys" and "\<And>n. key (core n) = key n"
  shows "map key xs = map key ys"
proof -
  have "map key xs = map (key \<circ> core) xs" "map key ys = map (key \<circ> core) ys" using assms(2) by (simp_all add: comp_def)
  with assms(1) show ?thesis by (metis map_map)
qed

lemma graph_inv_core:
  assumes "graph_inv s" and "map core (rs_nodes s') = map core (rs_nodes s)"
    and "rs_by_name s' = rs_by_name s" and "rs_by_fingerprint s' = rs_by_fingerprint s"
  shows "graph_inv s'"
proof -
  have "map node_ok (rs_nodes s') = map node_ok (rs_nodes s)"
    using assms(2) by (rule map_core_key) (simp add: core_def node_ok_def)
  moreover have "list_all node_ok xs = list_all id (map node_ok xs)" for xs by (simp add: list_all_iff)
  ultimately have "list_all node_ok (rs_nodes s') = list_all node_ok (rs_nodes s)" by (simp only:)
  moreover have "map (pc_name \<circ> nd_package) (rs_nodes s') = map (pc_name \<circ> nd_package) (rs_nodes s)"
    using assms(2) by (rule map_core_key) (simp add: core_def)
  moreover have "map nd_source_fingerprint (rs_nodes s') = map nd_source_fingerprint (rs_nodes s)"
    using assms(2) by (rule map_core_key) (simp add: core_def)
  ultimately show ?thesis using assms(1,3,4) by (auto simp: graph_inv_def intro: index_ok_map)
qed

section \<open>Complete nodes\<close>

text \<open>What a dependency of a node leads to: another node, with the package it asks for.\<close>

definition dep_target :: "Node list \<Rightarrow> Node \<Rightarrow> Dependency \<Rightarrow> nat \<Rightarrow> bool" where
  "dep_target ns n d j =
     (j < length ns \<and> nd_source_fingerprint (ns ! j) \<noteq> nd_source_fingerprint n
      \<and> (dp_package d = None \<or> dp_package d = Some (pc_name (nd_package (ns ! j)))))"

definition alias_of :: "Node list \<Rightarrow> Dependency \<Rightarrow> nat \<Rightarrow> ResolvedDependencyAlias" where
  "alias_of ns d j = \<lparr>ra_alias = dp_alias d, ra_package_id = nd_id (ns ! j)\<rparr>"

definition complete :: "Node list \<Rightarrow> Node \<Rightarrow> bool" where
  "complete ns n \<longleftrightarrow>
     (\<exists>js. list_all2 (dep_target ns n) (CollectDependencies (nd_package n)) js
        \<and> nd_dependencies n = unique_by (=) (sort (map (\<lambda>j. nd_id (ns ! j)) js))
        \<and> nd_dependency_aliases n = sort_key ra_alias (map2 (alias_of ns) (CollectDependencies (nd_package n)) js))"

lemma dep_target_core:
  assumes "map core ns = map core (take (length ns) ns')" and "length ns \<le> length ns'" and "dep_target ns n d j"
  shows "dep_target ns' n d j" and "nd_id (ns' ! j) = nd_id (ns ! j)"
proof -
  have j: "j < length ns" using assms(3) by (simp add: dep_target_def)
  then have "core (ns ! j) = core (ns' ! j)" using assms(1,2) by (metis length_take min_absorb2 nth_map nth_take)
  note f = core_eq_fields [OF this]
  show "nd_id (ns' ! j) = nd_id (ns ! j)" using f by simp
  show "dep_target ns' n d j" using assms(2,3) f by (auto simp: dep_target_def)
qed

lemma complete_core:
  assumes "map core ns = map core (take (length ns) ns')" and "length ns \<le> length ns'" and "complete ns n"
  shows "complete ns' n"
proof -
  obtain js where js: "list_all2 (dep_target ns n) (CollectDependencies (nd_package n)) js"
    "nd_dependencies n = unique_by (=) (sort (map (\<lambda>j. nd_id (ns ! j)) js))"
    "nd_dependency_aliases n = sort_key ra_alias (map2 (alias_of ns) (CollectDependencies (nd_package n)) js)"
    using assms(3) by (auto simp: complete_def)
  note t = dep_target_core [OF assms(1,2)]
  have all: "list_all2 (dep_target ns' n) (CollectDependencies (nd_package n)) js"
    using js(1) by (rule list_all2_mono) (rule t(1))
  have "map (\<lambda>j. nd_id (ns ! j)) js = map (\<lambda>j. nd_id (ns' ! j)) js \<and> map2 (alias_of ns) ds js = map2 (alias_of ns') ds js"
    if "list_all2 (dep_target ns n) ds js" for ds
    using that by (induction rule: list_all2_induct) (auto simp: t(2) alias_of_def)
  with js all show ?thesis by (auto simp: complete_def)
qed

section \<open>A call appends complete nodes\<close>

definition appends :: "resolver_state \<Rightarrow> resolver_state \<Rightarrow> bool" where
  "appends s s' \<longleftrightarrow> graph_inv s' \<and> (\<exists>more. rs_nodes s' = rs_nodes s @ more)
     \<and> (\<forall>k. length (rs_nodes s) \<le> k \<and> k < length (rs_nodes s') \<longrightarrow> complete (rs_nodes s') (rs_nodes s' ! k))"

lemma appends_refl: "graph_inv s \<Longrightarrow> appends s s"
  by (auto simp: appends_def)

lemma appends_world: "appends (s\<lparr>rs_world := w\<rparr>) s' \<Longrightarrow> appends s s'"
  by (simp add: appends_def)

lemma complete_append: "complete ns n \<Longrightarrow> complete (ns @ ns') n"
  by (rule complete_core) auto

lemma appends_trans:
  assumes "appends s s1" and "appends s1 s2"
  shows "appends s s2"
proof -
  obtain m1 m2 where m: "rs_nodes s1 = rs_nodes s @ m1" "rs_nodes s2 = rs_nodes s1 @ m2"
    using assms by (auto simp: appends_def)
  have "complete (rs_nodes s2) (rs_nodes s2 ! k)" if k: "length (rs_nodes s) \<le> k" "k < length (rs_nodes s2)" for k
  proof (cases "k < length (rs_nodes s1)")
    case True
    with assms(1) k(1) have "complete (rs_nodes s1) (rs_nodes s1 ! k)" by (simp add: appends_def)
    then show ?thesis using True m(2) complete_append by (simp add: nth_append)
  next
    case False
    with assms(2) k(2) show ?thesis by (simp add: appends_def)
  qed
  with assms(2) m show ?thesis by (auto simp: appends_def)
qed

definition good_rec :: "(fs_path \<Rightarrow> SourceOrigin \<Rightarrow> nat resolving) \<Rightarrow> bool" where
  "good_rec rec \<longleftrightarrow> (\<forall>p o' s i s'. rec p o' s = Some (Inr i, s') \<longrightarrow> graph_inv s \<longrightarrow> origin_ok o'
     \<longrightarrow> appends s s' \<and> i < length (rs_nodes s'))"

lemma resolve_dependencies_step:
  assumes "resolve_dependencies R rec ni node (d # ds) s = Some (Inr (ids, as), s')"
  obtains parent sel w i s1 ids' as' where "at_node s ni = Inr parent"
    and "select_dependency R parent d (rs_world s) = (Inr sel, w)"
    and "rec (sel_manifest_path sel) (sel_origin sel) (s\<lparr>rs_world := w\<rparr>) = Some (Inr i, s1)"
    and "dep_target (rs_nodes s1) node d i"
    and "resolve_dependencies R rec ni node ds s1 = Some (Inr (ids', as'), s')"
    and "ids = nd_id (rs_nodes s1 ! i) # ids'" "as = alias_of (rs_nodes s1) d i # as'"
proof -
  from assms obtain parent sel w i s1 where a: "at_node s ni = Inr parent"
      "select_dependency R parent d (rs_world s) = (Inr sel, w)"
      "rec (sel_manifest_path sel) (sel_origin sel) (s\<lparr>rs_world := w\<rparr>) = Some (Inr i, s1)"
    by (auto split: sum.splits prod.splits option.splits)
  from assms a obtain n where n: "at_node s1 i = Inr n" by (auto split: sum.splits)
  then have i: "i < length (rs_nodes s1)" "n = rs_nodes s1 ! i" by (auto simp: at_node_def split: if_splits)
  with assms a n have t: "dep_target (rs_nodes s1) node d i"
    by (auto simp: dep_target_def split: if_splits)
  from assms a n t i obtain ids' as' where "resolve_dependencies R rec ni node ds s1 = Some (Inr (ids', as'), s')"
      "ids = nd_id n # ids'" "as = \<lparr>ra_alias = dp_alias d, ra_package_id = nd_id n\<rparr> # as'"
    by (auto split: if_splits option.splits sum.splits prod.splits)
  with a t i that show thesis by (simp add: alias_of_def)
qed

lemma resolve_dependencies_appends:
  assumes "resolve_dependencies R rec ni node ds s = Some (Inr (ids, as), s')"
    and "good_rec rec" and "graph_inv s" and "list_all wf_dependency ds"
  shows "appends s s' \<and> (\<exists>js. list_all2 (dep_target (rs_nodes s') node) ds js
      \<and> ids = map (\<lambda>j. nd_id (rs_nodes s' ! j)) js \<and> as = map2 (alias_of (rs_nodes s')) ds js)"
  using assms(1,3,4)
proof (induction ds arbitrary: s ids as)
  case Nil
  then show ?case by (auto simp: appends_refl)
next
  case (Cons d ds)
  from resolve_dependencies_step [OF Cons.prems(1)] obtain parent sel w i s1 ids' as' where
      st: "at_node s ni = Inr parent" "select_dependency R parent d (rs_world s) = (Inr sel, w)"
        "rec (sel_manifest_path sel) (sel_origin sel) (s\<lparr>rs_world := w\<rparr>) = Some (Inr i, s1)"
        "dep_target (rs_nodes s1) node d i" "resolve_dependencies R rec ni node ds s1 = Some (Inr (ids', as'), s')"
        "ids = nd_id (rs_nodes s1 ! i) # ids'" "as = alias_of (rs_nodes s1) d i # as'" by metis
  have "origin_ok (nd_origin parent)"
    using st(1) Cons.prems(2) by (auto simp: at_node_def graph_inv_def list_all_length node_ok_def split: if_splits)
  then have "origin_ok (sel_origin sel)" using select_dependency_origin [OF st(2)] Cons.prems(3) by simp
  then have "appends (s\<lparr>rs_world := w\<rparr>) s1" using assms(2) st(3) Cons.prems(2) unfolding good_rec_def by (metis graph_inv_world)
  then have ap1: "appends s s1" by (rule appends_world)
  then have "graph_inv s1" by (simp add: appends_def)
  from Cons.IH [OF st(5) this] Cons.prems(3) obtain js where ap2: "appends s1 s'"
    and js: "list_all2 (dep_target (rs_nodes s') node) ds js" "ids' = map (\<lambda>j. nd_id (rs_nodes s' ! j)) js"
      "as' = map2 (alias_of (rs_nodes s')) ds js" by auto
  obtain more where "rs_nodes s' = rs_nodes s1 @ more" using ap2 by (auto simp: appends_def)
  then have "map core (rs_nodes s1) = map core (take (length (rs_nodes s1)) (rs_nodes s'))" "length (rs_nodes s1) \<le> length (rs_nodes s')"
    by simp_all
  note t = dep_target_core [OF this st(4)]
  have "list_all2 (dep_target (rs_nodes s') node) (d # ds) (i # js) \<and> ids = map (\<lambda>j. nd_id (rs_nodes s' ! j)) (i # js)
      \<and> as = map2 (alias_of (rs_nodes s')) (d # ds) (i # js)"
    using t js st(6,7) by (simp add: alias_of_def)
  with appends_trans [OF ap1 ap2] show ?case by blast
qed

lemma finish_node_appends:
  assumes "appends (push_node node s) s'" and "list_all2 (dep_target (rs_nodes s') node) (CollectDependencies (nd_package node)) js"
  defines "i \<equiv> length (rs_nodes s)"
  defines "t \<equiv> finish_node i (map (\<lambda>j. nd_id (rs_nodes s' ! j)) js)
                 (map2 (alias_of (rs_nodes s')) (CollectDependencies (nd_package node)) js) s'"
  shows "appends s t \<and> i < length (rs_nodes t)"
proof -
  obtain more where nodes: "rs_nodes s' = rs_nodes s @ node # more" using assms(1) by (auto simp: appends_def push_node_def)
  have same: "map core (rs_nodes t) = map core (rs_nodes s')" unfolding t_def by (rule finish_node_core)
  have inv: "graph_inv t"
    by (rule graph_inv_core [OF _ same]) (use assms(1) in \<open>auto simp: appends_def t_def finish_node_def\<close>)
  have len: "length (rs_nodes t) = length (rs_nodes s')" using same map_eq_imp_length_eq by blast
  have keep: "complete (rs_nodes s') n \<Longrightarrow> complete (rs_nodes t) n" for n
    by (rule complete_core) (simp_all add: len same flip: same)
  have at_i: "rs_nodes t ! i = node\<lparr>nd_dependencies := unique_by (=) (sort (map (\<lambda>j. nd_id (rs_nodes s' ! j)) js)),
      nd_dependency_aliases := sort_key ra_alias (map2 (alias_of (rs_nodes s')) (CollectDependencies (nd_package node)) js)\<rparr>"
    by (simp add: t_def finish_node_def nodes i_def nth_append)
  have "complete (rs_nodes s') (rs_nodes t ! i)"
    unfolding complete_def at_i using assms(2) by (auto simp: dep_target_def [abs_def])
  then have "complete (rs_nodes t) (rs_nodes t ! i)" by (rule keep)
  moreover have "complete (rs_nodes t) (rs_nodes t ! k)" if "i < k" "k < length (rs_nodes t)" for k
  proof -
    have "complete (rs_nodes s') (rs_nodes s' ! k)" using assms(1) that len by (auto simp: appends_def push_node_def i_def)
    moreover have "rs_nodes t ! k = rs_nodes s' ! k" using that by (simp add: t_def finish_node_def)
    ultimately show ?thesis using keep by simp
  qed
  moreover have "\<exists>more. rs_nodes t = rs_nodes s @ more"
    by (simp add: t_def finish_node_def nodes i_def)
  ultimately show ?thesis using inv len nodes by (auto simp: appends_def i_def le_less)
qed

lemma CollectDependencies_wf: "wf_package p \<Longrightarrow> list_all wf_dependency (CollectDependencies p)"
  by (auto simp: CollectDependencies_def wf_package_def list_all_iff)

lemma ResolveNode_good: "resolver_ok R \<Longrightarrow> good_rec (ResolveNode R fuel)"
proof (induction fuel)
  case 0
  then show ?case by (simp add: good_rec_def)
next
  case (Suc fuel)
  show ?case unfolding good_rec_def
  proof (intro allI impI)
    fix q o' s i s'
    assume call: "ResolveNode R (Suc fuel) q o' s = Some (Inr i, s')" and inv: "graph_inv s" and o': "origin_ok o'"
    let ?p = "CanonicalAbsolutePath (rv_cwd R) q"
    from call obtain fp where fp: "BuildSourceFingerprint (rv_cwd R) o' (path_parent ?p) = Inr fp"
      by (auto simp: Let_def split: sum.splits)
    show "appends s s' \<and> i < length (rs_nodes s')"
    proof (cases "rs_by_fingerprint s fp")
      case (Some j)
      with call fp inv show ?thesis by (auto simp: Let_def appends_refl graph_inv_def index_ok_def)
    next
      case None
      with call fp obtain node where node: "new_node R (w_fs (rs_world s)) ?p o' fp = Inr node"
        by (auto simp: Let_def split: sum.splits)
      note ok = new_node_ok [OF Suc.prems o' node]
      show ?thesis
      proof (cases "rs_by_name s (pc_name (nd_package node))")
        case (Some j)
        with call fp node None inv show ?thesis
          by (auto simp: Let_def appends_refl known_by_name_def at_node_def rbind_eq_Inr split: if_splits)
      next
        case free: None
        let ?deps = "resolve_dependencies R (ResolveNode R fuel) (length (rs_nodes s)) node (CollectDependencies (nd_package node))
                       (push_node node s)"
        have run: "ResolveNode R (Suc fuel) q o' s = (case ?deps of None \<Rightarrow> None | Some (Inl e, s1) \<Rightarrow> Some (Inl e, s1)
            | Some (Inr (ids, as), s1) \<Rightarrow> Some (Inr (length (rs_nodes s)), finish_node (length (rs_nodes s)) ids as s1))"
          by (simp add: Let_def fp node None free)
        with call obtain x s1 where x: "?deps = Some (x, s1)" by (cases ?deps) auto
        with call run obtain ids as where x': "x = Inr (ids, as)" by (cases x) auto
        with x have deps: "?deps = Some (Inr (ids, as), s1)" by simp
        with call run have s': "s' = finish_node (length (rs_nodes s)) ids as s1" "i = length (rs_nodes s)" by simp_all
        have "graph_inv (push_node node s)" using graph_inv_push [OF inv ok(1) free] None ok(2) by simp
        moreover have "list_all wf_dependency (CollectDependencies (nd_package node))"
          using ok(1) CollectDependencies_wf by (simp add: node_ok_def)
        ultimately have "appends (push_node node s) s1 \<and> (\<exists>js. list_all2 (dep_target (rs_nodes s1) node) (CollectDependencies (nd_package node)) js
            \<and> ids = map (\<lambda>j. nd_id (rs_nodes s1 ! j)) js \<and> as = map2 (alias_of (rs_nodes s1)) (CollectDependencies (nd_package node)) js)"
          by (rule resolve_dependencies_appends [OF deps Suc.IH [OF Suc.prems]])
        then obtain js where "appends (push_node node s) s1"
            "list_all2 (dep_target (rs_nodes s1) node) (CollectDependencies (nd_package node)) js"
            "ids = map (\<lambda>j. nd_id (rs_nodes s1 ! j)) js" "as = map2 (alias_of (rs_nodes s1)) (CollectDependencies (nd_package node)) js"
          by blast
        from finish_node_appends [OF this(1,2)] this(3,4) s' show ?thesis by simp
      qed
    qed
  qed
qed

lemma resolve_roots_appends:
  assumes "resolve_roots R fuel seeds s = Some (Inr ids, s')" and "resolver_ok R" and "graph_inv s"
    and "list_all (\<lambda>x. origin_ok (sel_origin x)) seeds"
  shows "appends s s' \<and> set ids \<subseteq> nd_id ` set (rs_nodes s')"
  using assms(1,3,4)
proof (induction seeds arbitrary: s ids)
  case Nil
  then show ?case by (auto simp: appends_refl)
next
  case (Cons seed seeds)
  from Cons.prems(1) obtain i s1 n ids' where r: "ResolveNode R fuel (sel_manifest_path seed) (sel_origin seed) s = Some (Inr i, s1)"
      "at_node s1 i = Inr n" "resolve_roots R fuel seeds s1 = Some (Inr ids', s')" "ids = nd_id n # ids'"
    by (auto split: option.splits sum.splits prod.splits)
  have "origin_ok (sel_origin seed)" using Cons.prems(3) by simp
  then have ap: "appends s s1" using ResolveNode_good [OF assms(2), of fuel] r(1) Cons.prems(2) unfolding good_rec_def by blast
  have ih: "appends s1 s'" "set ids' \<subseteq> nd_id ` set (rs_nodes s')"
    using Cons.IH [OF r(3)] ap Cons.prems(3) by (simp_all add: appends_def)
  have "n \<in> set (rs_nodes s')" using r(2) ih(1) by (auto simp: at_node_def appends_def split: if_splits)
  then show ?case using appends_trans [OF ap ih(1)] r(4) ih(2) by simp
qed

end
