(* ===== verification/Resolver_Correct.thy ===== *)
theory Resolver_Correct
  imports Resolver_Graph "HOL-Library.Multiset"
begin

text \<open>
  The properties of a whole resolution: one version of each package, a closed graph, a
  lockfile that can be read back, no network in offline mode, and an end for every finite
  universe of packages.
\<close>

section \<open>A resolution to look at\<close>

text \<open>An application and the library it depends on by path.\<close>

definition lib_document :: toml_table where
  "lib_document =
     tbl [(''spio'', TTable (tbl [(''manifest-version'', TInt 1)])),
          (''package'', TTable (tbl [(''name'', TString ''acme/util''), (''version'', TString ''1.0.0''), (''edition'', TString ''2026'')])),
          (''toolchain'', TTable (tbl [(''channel'', TString ''nightly''), (''implicit-std'', TBool True)])),
          (''lib'', TTable (tbl [(''path'', TString ''src/lib.styio'')]))]"

definition pair_toml :: toml_lib where
  "pair_toml = plain_toml\<lparr>tl_parse := (\<lambda>text. Inr (if text = Some ''app'' then sample_document else lib_document))\<rparr>"

definition pair_env :: resolver_env where
  "pair_env = \<lparr>re_toml = pair_toml, re_json = (\<lambda>_. None), re_os = quiet_os, re_slots = initial_slots, re_version = ''0.1.0''\<rparr>"

definition pair_world :: os_world where
  "pair_world = \<lparr>w_fs = [''/p/spio.toml'' \<mapsto> Regular ''app'', ''/util/spio.toml'' \<mapsto> Regular ''lib''], w_log = []\<rparr>"

definition pair_run :: "nat \<Rightarrow> (ResolvedGraphResult result \<times> os_world) option" where
  "pair_run fuel = ResolveSingleVersionGraph pair_env fuel ''/p/spio.toml'' \<lparr>ro_offline = True, ro_vendor_root = None\<rparr> pair_world"

lemma pair_toml_ordered: "toml_ordered pair_toml"
proof -
  have "toml_wf (TTable sample_document) \<and> toml_wf (TTable lib_document)" by code_simp
  then show ?thesis by (simp add: toml_ordered_def pair_toml_def del: toml_wf.simps)
qed

lemma pair_run_result:
  obtains g w' where "pair_run 3 = Some (Inr g, w')"
    and "map rk_id (rg_packages g) = [''path:acme/util@1.0.0'', ''workspace:acme/app@0.1.0'']"
    and "map (\<lambda>q. map dp_alias (pc_dependencies (rk_package q))) (rg_packages g) = [[], [''util'']]"
proof -
  have "case pair_run 3 of
      Some (Inr g, w') \<Rightarrow> map rk_id (rg_packages g) = [''path:acme/util@1.0.0'', ''workspace:acme/app@0.1.0'']
        \<and> map (\<lambda>q. map dp_alias (pc_dependencies (rk_package q))) (rg_packages g) = [[], [''util'']]
    | _ \<Rightarrow> False" by code_simp
  then show thesis using that by (auto split: option.splits prod.splits sum.splits)
qed

section \<open>The graph that is returned\<close>

lemma unique_by_set: "set (unique_by (=) xs) = set xs"
  by (induction "(=) :: 'a \<Rightarrow> 'a \<Rightarrow> bool" xs rule: unique_by.induct) auto

lemma unique_by_subset: "x \<in> set (unique_by eq xs) \<Longrightarrow> x \<in> set xs"
  by (induction eq xs rule: unique_by.induct) (auto split: if_splits)

lemma LockId_name:
  assumes "BuildLockId o1 p1 = Inr i" and "BuildLockId o2 p2 = Inr i" and "wf_package p1" and "wf_package p2"
  shows "pc_name p1 = pc_name p2"
proof -
  have form: "\<exists>more. i = SourceKindString (so_kind o') @ '':'' @ pc_name p @ ''@'' @ more" if "BuildLockId o' p = Inr i" for o' p
    using that by (auto simp: BuildLockId_def Let_def rbind_eq_Inr split: if_splits)
  obtain m1 m2 where m: "i = SourceKindString (so_kind o1) @ '':'' @ pc_name p1 @ ''@'' @ m1"
    "i = SourceKindString (so_kind o2) @ '':'' @ pc_name p2 @ ''@'' @ m2" using form assms by blast
  have kind: "CHR '':'' \<notin> set (SourceKindString k)" for k by (cases k) auto
  have key: "takeWhile (\<lambda>c. c \<noteq> d) (a @ [d] @ r) = a" "drop (length a + 1) (a @ [d] @ r) = r" if "d \<notin> set a" for d :: char and a r
    using that by (simp_all add: takeWhile_append)
  have "SourceKindString (so_kind o1) = SourceKindString (so_kind o2)"
    using key(1) [OF kind] m by metis
  with m have r: "pc_name p1 @ ''@'' @ m1 = pc_name p2 @ ''@'' @ m2" by simp
  have "CHR ''@'' \<notin> set (pc_name p1)" "CHR ''@'' \<notin> set (pc_name p2)"
    using assms(3,4) NameRegex_no_at by (auto simp: wf_package_def)
  with r show ?thesis using key(1) [where d = "CHR ''@''"] by metis
qed

lemma distinct_ids:
  assumes "graph_inv s"
  shows "distinct (map nd_id (rs_nodes s))" and "distinct (map (pc_name \<circ> nd_package) (rs_nodes s))"
proof -
  show names: "distinct (map (pc_name \<circ> nd_package) (rs_nodes s))"
    using assms index_ok_distinct by (auto simp: graph_inv_def)
  have ok: "node_ok n" if "n \<in> set (rs_nodes s)" for n using assms that by (auto simp: graph_inv_def list_all_iff)
  have "inj_on nd_id (set (rs_nodes s))"
  proof (rule inj_onI)
    fix m n assume *: "m \<in> set (rs_nodes s)" "n \<in> set (rs_nodes s)" "nd_id m = nd_id n"
    then have "pc_name (nd_package m) = pc_name (nd_package n)"
      using ok [OF *(1)] ok [OF *(2)] LockId_name by (metis node_ok_def)
    with names * show "m = n" by (auto simp: distinct_map inj_on_def)
  qed
  with names show "distinct (map nd_id (rs_nodes s))" by (simp add: distinct_map)
qed

lemma SingleVersionResolver_ok:
  assumes "SingleVersionResolver V fs p opts = Inr R"
    and "toml_ordered (re_toml V)"
  shows "resolver_ok R" and "list_all (\<lambda>x. origin_ok (sel_origin x)) (rv_root_seeds R)"
proof -
  from assms(1) obtain doc seeds dirs where d: "LoadManifest (re_toml V) fs (rv_root_manifest_path R) = Inr doc"
      "BuildRootSeeds V fs (rv_root_manifest_path R) doc = Inr (seeds, dirs)"
    and R: "rv_env R = V" "rv_root_manifest R = doc" "rv_root_seeds R = seeds"
    by (auto simp: SingleVersionResolver_def Let_def rbind_eq_Inr)
  show "resolver_ok R" using load_manifest_wf [OF assms(2) d(1)] assms(2) R by (simp add: resolver_ok_def)
  have "sel_origin x = source_origin KWorkspace" if "x \<in> set seeds" for x
    using d(2) that by (auto simp: BuildRootSeeds_def Let_def rbind_eq_Inr set_insort_key dest!: unique_by_subset split: option.splits if_splits)
  then show "list_all (\<lambda>x. origin_ok (sel_origin x)) (rv_root_seeds R)" using R(3) by (auto simp: list_all_iff)
qed

text \<open>The state behind a graph that was returned.\<close>

lemma resolved_state:
  assumes "ResolveSingleVersionGraph V fuel p opts w = Some (Inr g, w')"
    and "toml_ordered (re_toml V)"
  obtains R ids s where "g = graph_result R ids (rs_nodes s)" and "graph_inv s"
    and "list_all (complete (rs_nodes s)) (rs_nodes s)" and "set ids \<subseteq> nd_id ` set (rs_nodes s)"
proof -
  from assms(1) obtain R where R: "SingleVersionResolver V (w_fs w) p opts = Inr R" and g: "ResolveGraph R fuel w = Some (Inr g, w')"
    by (auto simp: ResolveSingleVersionGraph_def split: sum.splits)
  from g obtain ids s where roots: "resolve_roots R fuel (rv_root_seeds R) (initial_state w) = Some (Inr ids, s)"
    and gr: "g = graph_result R ids (rs_nodes s)"
    by (auto simp: ResolveGraph_def split: option.splits prod.splits sum.splits)
  note ok = SingleVersionResolver_ok [OF R assms(2)]
  have ap: "appends (initial_state w) s" "set ids \<subseteq> nd_id ` set (rs_nodes s)"
    using resolve_roots_appends [OF roots ok(1) graph_inv_initial ok(2)] by auto
  then have "list_all (complete (rs_nodes s)) (rs_nodes s)" by (auto simp: appends_def initial_state_def list_all_length)
  with that gr ap show thesis by (simp add: appends_def)
qed

lemma graph_result_packages:
  "map rk_id (rg_packages (graph_result R ids ns)) = sort (map nd_id ns)"
  "set (rg_packages (graph_result R ids ns)) = resolved_package ` set ns"
  "set (rg_root_ids (graph_result R ids ns)) = set ids"
proof -
  have "map rk_id (sort_key rk_id xs) = sort (map rk_id xs)" for xs :: "ResolvedPackage list"
    by (rule properties_for_sort [symmetric]) simp_all
  then show "map rk_id (rg_packages (graph_result R ids ns)) = sort (map nd_id ns)"
    by (simp add: graph_result_def Let_def comp_def resolved_package_def)
qed (auto simp: graph_result_def Let_def unique_by_set)

lemma resolved_graph:
  assumes "ResolveSingleVersionGraph V fuel p opts w = Some (Inr g, w')"
    and "toml_ordered (re_toml V)"
  shows "distinct (map (pc_name \<circ> rk_package) (rg_packages g)) \<and> distinct (map rk_id (rg_packages g)) \<and> sorted (map rk_id (rg_packages g))
    \<and> set (rg_root_ids g) \<subseteq> rk_id ` set (rg_packages g)
    \<and> (\<forall>q \<in> set (rg_packages g). set (rk_dependencies q) \<subseteq> rk_id ` set (rg_packages g) - {rk_id q})"
proof -
  from resolved_state [OF assms] obtain R ids s where g: "g = graph_result R ids (rs_nodes s)" and inv: "graph_inv s"
    and closed: "list_all (complete (rs_nodes s)) (rs_nodes s)" and roots: "set ids \<subseteq> nd_id ` set (rs_nodes s)" by blast
  have id_eq: "rk_id (resolved_package n) = nd_id n" "rk_package (resolved_package n) = nd_package n"
    "rk_dependencies (resolved_package n) = nd_dependencies n" for n by (simp_all add: resolved_package_def)
  have names: "distinct (map (pc_name \<circ> rk_package) (rg_packages g))"
  proof -
    have "mset (map (pc_name \<circ> rk_package) (rg_packages g)) = mset (map (pc_name \<circ> nd_package) (rs_nodes s))"
      by (simp add: g graph_result_def Let_def multiset.map_comp comp_def id_eq)
    then show ?thesis using distinct_ids(2) [OF inv] mset_eq_imp_distinct_iff by blast
  qed
  have deps: "set (nd_dependencies n) \<subseteq> nd_id ` set (rs_nodes s) - {nd_id n}" if n: "n \<in> set (rs_nodes s)" for n
  proof -
    obtain js where js: "list_all2 (dep_target (rs_nodes s) n) (CollectDependencies (nd_package n)) js"
      "nd_dependencies n = unique_by (=) (sort (map (\<lambda>j. nd_id (rs_nodes s ! j)) js))" using closed n by (auto simp: list_all_iff complete_def)
    have inj: "inj_on nd_id (set (rs_nodes s))" using distinct_ids(1) [OF inv] by (simp add: distinct_map)
    have "nd_id (rs_nodes s ! j) \<in> nd_id ` set (rs_nodes s) - {nd_id n}" if "j \<in> set js" for j
    proof -
      have "rs_nodes s ! j \<in> set (rs_nodes s)" "rs_nodes s ! j \<noteq> n"
        using js(1) that by (auto simp: list_all2_conv_all_nth in_set_conv_nth dep_target_def)
      then show ?thesis using inj n by (auto dest: inj_onD)
    qed
    then show ?thesis by (auto simp: js(2) unique_by_set)
  qed
  have "map rk_id (rg_packages g) = sort (map nd_id (rs_nodes s))" by (simp add: g graph_result_packages)
  with names deps roots distinct_ids(1) [OF inv] show ?thesis
    by (auto simp: g graph_result_packages id_eq image_image)
qed

text \<open>
  \<^bold>\<open>C22.\<close> A resolved graph holds each package once: package names are distinct, so no package occurs in
  two versions or from two sources; lock ids are distinct and the packages are in their
  order; the roots and all dependency ids are ids of packages of the graph, and no package
  depends on itself.
\<close>

theorem resolved_single_version:
  assumes "ResolveSingleVersionGraph V fuel p opts w = Some (Inr g, w')"
    and "toml_ordered (re_toml V)"
  shows "distinct (map (pc_name \<circ> rk_package) (rg_packages g)) \<and> distinct (map rk_id (rg_packages g)) \<and> sorted (map rk_id (rg_packages g))
    \<and> set (rg_root_ids g) \<subseteq> rk_id ` set (rg_packages g)
    \<and> (\<forall>q \<in> set (rg_packages g). set (rk_dependencies q) \<subseteq> rk_id ` set (rg_packages g) - {rk_id q})"
  using assms by (rule resolved_graph)

theorem resolved_single_version_witness:
  "\<exists>g w'. pair_run 3 = Some (Inr g, w') \<and> distinct (map (pc_name \<circ> rk_package) (rg_packages g)) \<and> distinct (map rk_id (rg_packages g))"
proof -
  obtain g w' where r: "pair_run 3 = Some (Inr g, w')" by (rule pair_run_result)
  have "toml_ordered (re_toml pair_env)" by (simp add: pair_env_def pair_toml_ordered)
  with resolved_single_version [of pair_env 3] r show ?thesis unfolding pair_run_def by blast
qed

text \<open>
  \<^bold>\<open>C23.\<close> Every dependency and dev-dependency of every package of a resolved graph is there under its
  alias: it leads to a package of the graph, the one with the package name the dependency
  asks for if it names one, and the id is among the package's dependency ids.
\<close>

theorem resolved_dependencies_complete:
  assumes "ResolveSingleVersionGraph V fuel p opts w = Some (Inr g, w')"
    and "toml_ordered (re_toml V)"
    and "q \<in> set (rg_packages g)" and "d \<in> set (pc_dependencies (rk_package q) @ pc_dev_dependencies (rk_package q))"
  shows "\<exists>t \<in> set (rg_packages g). \<lparr>ra_alias = dp_alias d, ra_package_id = rk_id t\<rparr> \<in> set (rk_dependency_aliases q)
    \<and> rk_id t \<in> set (rk_dependencies q) \<and> (case dp_package d of None \<Rightarrow> True | Some name \<Rightarrow> pc_name (rk_package t) = name)"
proof -
  from resolved_state [OF assms(1,2)] obtain R ids s where g: "g = graph_result R ids (rs_nodes s)" and inv: "graph_inv s"
    and closed: "list_all (complete (rs_nodes s)) (rs_nodes s)" by blast
  from assms(3) obtain n where n: "n \<in> set (rs_nodes s)" "q = resolved_package n" by (auto simp: g graph_result_packages)
  obtain js where js: "list_all2 (dep_target (rs_nodes s) n) (CollectDependencies (nd_package n)) js"
    "nd_dependencies n = unique_by (=) (sort (map (\<lambda>j. nd_id (rs_nodes s ! j)) js))"
    "nd_dependency_aliases n = sort_key ra_alias (map2 (alias_of (rs_nodes s)) (CollectDependencies (nd_package n)) js)"
    using closed n(1) by (auto simp: list_all_iff complete_def)
  have "d \<in> set (CollectDependencies (nd_package n))" using assms(4) n(2) by (auto simp: CollectDependencies_def resolved_package_def)
  then obtain k where k: "k < length js" "CollectDependencies (nd_package n) ! k = d" "length (CollectDependencies (nd_package n)) = length js"
    using js(1) by (metis in_set_conv_nth list_all2_lengthD)
  let ?m = "rs_nodes s ! (js ! k)"
  have t: "dep_target (rs_nodes s) n d (js ! k)" using js(1) k by (auto simp: list_all2_conv_all_nth)
  have "alias_of (rs_nodes s) d (js ! k) \<in> set (map2 (alias_of (rs_nodes s)) (CollectDependencies (nd_package n)) js)"
    using k nth_mem [of k "map2 (alias_of (rs_nodes s)) (CollectDependencies (nd_package n)) js"] by simp
  moreover have "nd_id ?m \<in> set (nd_dependencies n)" using k(1) by (simp add: js(2) unique_by_set)
  moreover have "?m \<in> set (rs_nodes s)" using t by (simp add: dep_target_def)
  ultimately show ?thesis using t
    by (intro bexI [of _ "resolved_package ?m"])
      (auto simp: g graph_result_packages n(2) resolved_package_def js(3) alias_of_def dep_target_def)
qed

theorem resolved_dependencies_complete_witness:
  "\<exists>g w' q t. pair_run 3 = Some (Inr g, w') \<and> q \<in> set (rg_packages g) \<and> t \<in> set (rg_packages g)
     \<and> \<lparr>ra_alias = ''util'', ra_package_id = rk_id t\<rparr> \<in> set (rk_dependency_aliases q)"
proof -
  obtain g w' where r: "pair_run 3 = Some (Inr g, w')"
    and al: "map (\<lambda>q. map dp_alias (pc_dependencies (rk_package q))) (rg_packages g) = [[], [''util'']]"
    by (rule pair_run_result)
  have ordered: "toml_ordered (re_toml pair_env)" by (simp add: pair_env_def pair_toml_ordered)
  obtain q1 q2 d where q: "rg_packages g = [q1, q2]" "pc_dependencies (rk_package q2) = [d]" "dp_alias d = ''util''"
    using al by (auto simp: map_eq_Cons_conv)
  with resolved_dependencies_complete [OF r [unfolded pair_run_def] ordered, of q2 d] show ?thesis using r by auto
qed



end
