(* ===== verification/Resolver_Runs.thy ===== *)
theory Resolver_Runs
  imports Resolver_Correct
begin

text \<open>
  Resolutions as computations: what one call does to the machine and to the index of names,
  in every outcome, that it ends, and that the result does not depend on the fuel.
  \<open>relates S rec\<close> says that every call of \<open>rec\<close> ends in a state that \<open>S\<close> relates to the state it began in.
\<close>

section \<open>Relations kept by every call\<close>

text \<open>
  The interface of the three arguments below: a reflexive and transitive relation on states
  that the steps of the resolver respect.
\<close>

locale resolver_relation =
  fixes R :: resolver and S :: "resolver_state \<Rightarrow> resolver_state \<Rightarrow> bool"
  assumes S_refl: "S s s"
    and S_trans: "S s s1 \<Longrightarrow> S s1 s2 \<Longrightarrow> S s s2"
    and S_select: "select_dependency R parent d (rs_world s) = (r, w) \<Longrightarrow> S s (s\<lparr>rs_world := w\<rparr>)"
    and S_push: "S s (push_node node s)"
    and S_finish: "S s (finish_node i ids aliases s)"
begin

lemma loop_related:
  assumes "\<And>p o' s r s'. rec p o' s = Some (r, s') \<Longrightarrow> S s s'"
  shows "resolve_dependencies R rec ni node ds s = Some (r, s') \<Longrightarrow> S s s'"
proof (induction ds arbitrary: s r)
  case Nil
  then show ?case by (simp add: S_refl)
next
  case (Cons d ds)
  show ?case
  proof (cases "at_node s ni")
    case Inl
    with Cons.prems show ?thesis by (simp add: S_refl)
  next
    case (Inr parent)
    obtain sr w where sel: "select_dependency R parent d (rs_world s) = (sr, w)" by (cases "select_dependency R parent d (rs_world s)")
    note first = S_select [OF sel]
    show ?thesis
    proof (cases sr)
      case (Inl e)
      with Cons.prems Inr sel first show ?thesis by simp
    next
      case sel': (Inr m)
      with Cons.prems Inr sel obtain x s1 where call: "rec (sel_manifest_path m) (sel_origin m) (s\<lparr>rs_world := w\<rparr>) = Some (x, s1)"
        by (cases "rec (sel_manifest_path m) (sel_origin m) (s\<lparr>rs_world := w\<rparr>)") auto
      have to1: "S s s1" using S_trans [OF first assms [OF call]] .
      have "s' = s1 \<or> (\<exists>y. resolve_dependencies R rec ni node ds s1 = Some (y, s'))"
        using Cons.prems Inr sel sel' call by (auto split: sum.splits if_splits option.splits prod.splits)
      then show ?thesis using to1 Cons.IH S_trans by blast
    qed
  qed
qed

lemma ResolveNode_related: "ResolveNode R fuel p o' s = Some (r, s') \<Longrightarrow> S s s'"
proof (induction fuel arbitrary: p o' s r s')
  case (Suc fuel)
  let ?q = "CanonicalAbsolutePath (rv_cwd R) p"
  let ?deps = "\<lambda>node. resolve_dependencies R (ResolveNode R fuel) (length (rs_nodes s)) node (CollectDependencies (nd_package node)) (push_node node s)"
  have "s' = s \<or> (\<exists>node x s1. ?deps node = Some (x, s1) \<and> (s' = s1 \<or> (\<exists>ids as. s' = finish_node (length (rs_nodes s)) ids as s1)))"
    using Suc.prems by (auto simp: Let_def split: sum.splits option.splits prod.splits) blast+
  then consider "s' = s" | node x s1 where "?deps node = Some (x, s1)" "s' = s1 \<or> (\<exists>ids as. s' = finish_node (length (rs_nodes s)) ids as s1)"
    by blast
  then show ?case
  proof cases
    case 1
    then show ?thesis by (simp add: S_refl)
  next
    case 2
    from loop_related [OF Suc.IH 2(1)] have "S (push_node node s) s1" .
    then have "S s s1" using S_push S_trans by blast
    with 2(2) show ?thesis using S_finish S_trans by blast
  qed
qed simp

lemma resolve_roots_related: "resolve_roots R fuel seeds s = Some (r, s') \<Longrightarrow> S s s'"
proof (induction seeds arbitrary: s r)
  case (Cons seed seeds)
  then obtain x s1 where call: "ResolveNode R fuel (sel_manifest_path seed) (sel_origin seed) s = Some (x, s1)"
    by (cases "ResolveNode R fuel (sel_manifest_path seed) (sel_origin seed) s") auto
  have "s' = s1 \<or> (\<exists>y. resolve_roots R fuel seeds s1 = Some (y, s'))"
    using Cons.prems call by (auto split: sum.splits option.splits prod.splits)
  then show ?case using ResolveNode_related [OF call] Cons.IH S_trans by blast
qed (simp add: S_refl)

end

section \<open>Offline resolution\<close>

definition local_log :: "resolver_state \<Rightarrow> resolver_state \<Rightarrow> bool" where
  "local_log s s' \<longleftrightarrow> (\<exists>extra. w_log (rs_world s') = w_log (rs_world s) @ extra \<and> list_all local_request extra)"

lemma runs_MaterializeSnapshot: "gs_offline req \<Longrightarrow> runs_only local_request (MaterializeSnapshot E req)"
  unfolding MaterializeSnapshot_def Let_def by (intro runs_intros)

lemma runs_MaterializeRegistryPackage: "runs_only local_request (MaterializeRegistryPackage P E slots r package version True)"
  unfolding MaterializeRegistryPackage_def LoadConfig_def LoadPackageMetadata_def LoadEntry_def Let_def
  by (intro runs_intros runs_LoadRegistryObjectText runs_MaterializeArtifact TrueI)

lemma runs_select_dependency:
  assumes "ro_offline (rv_options R)"
  shows "runs_only local_request (select_dependency R parent d)"
proof (cases "dp_source_kind d")
  case DepPath
  then show ?thesis unfolding select_dependency_def ResolvePathDependency_def Let_def by (simp add: runs_intros)
next
  case DepGit
  have "runs_only local_request (ResolveGitDependency R parent d)"
    unfolding ResolveGitDependency_def Let_def by (intro runs_intros runs_MaterializeSnapshot) (simp add: assms)
  with DepGit show ?thesis by (simp add: select_dependency_def)
next
  case DepRegistry
  have "runs_only local_request (ResolveRegistryDependency R parent d)"
    unfolding ResolveRegistryDependency_def Let_def using assms by (simp only:) (intro runs_intros runs_MaterializeRegistryPackage)
  with DepRegistry show ?thesis by (simp add: select_dependency_def)
qed

text \<open>The resolvers that work offline; every instance of the interface is one of them.\<close>

definition offline_log :: "resolver \<Rightarrow> resolver_state \<Rightarrow> resolver_state \<Rightarrow> bool" where
  "offline_log R s s' \<longleftrightarrow> (ro_offline (rv_options R) \<longrightarrow> local_log s s')"

interpretation off: resolver_relation R "offline_log R" for R
proof
  fix s s1 s2 :: resolver_state and node i ids aliases parent d r w
  show "offline_log R s s" by (simp add: offline_log_def local_log_def)
  show "offline_log R s s1 \<Longrightarrow> offline_log R s1 s2 \<Longrightarrow> offline_log R s s2" by (auto simp: offline_log_def local_log_def)
  show "offline_log R s (push_node node s)" by (simp add: offline_log_def local_log_def push_node_def)
  show "offline_log R s (finish_node i ids aliases s)" by (simp add: offline_log_def local_log_def finish_node_def)
  assume sel: "select_dependency R parent d (rs_world s) = (r, w)"
  show "offline_log R s (s\<lparr>rs_world := w\<rparr>)" unfolding offline_log_def
  proof
    assume "ro_offline (rv_options R)"
    from runs_select_dependency [OF this] sel show "local_log s (s\<lparr>rs_world := w\<rparr>)"
      unfolding runs_only_def local_log_def by (metis resolver_state.select_convs(4) resolver_state.surjective resolver_state.update_convs(4) snd_conv)
  qed
qed

text \<open>
  \<^bold>\<open>C26.\<close> An offline resolution contacts no network: whatever manifests, caches and registries it
  meets, and whether it succeeds or throws, none of the processes it runs is \<^verbatim>\<open>curl\<close> or a \<^verbatim>\<open>git\<close> that
  clones or fetches.
\<close>

theorem resolution_offline:
  assumes "ResolveSingleVersionGraph V fuel p opts w = Some (r, w')" and "ro_offline opts"
  shows "\<exists>extra. w_log w' = w_log w @ extra \<and> list_all local_request extra"
proof (cases "SingleVersionResolver V (w_fs w) p opts")
  case (Inl e)
  with assms(1) show ?thesis by (simp add: ResolveSingleVersionGraph_def)
next
  case (Inr R)
  then have "rv_options R = NormalizeOptions (re_os V) (w_fs w) (rv_root_manifest_path R) opts"
    by (auto simp: SingleVersionResolver_def Let_def rbind_eq_Inr)
  then have "ro_offline (rv_options R)" using assms(2) by (simp add: NormalizeOptions_def Let_def split: option.splits)
  moreover obtain x s where "resolve_roots R fuel (rv_root_seeds R) (initial_state w) = Some (x, s)" "w' = rs_world s"
    using assms(1) Inr by (auto simp: ResolveSingleVersionGraph_def ResolveGraph_def split: option.splits prod.splits sum.splits)
  ultimately show ?thesis using off.resolve_roots_related [of R fuel "rv_root_seeds R" "initial_state w" x s]
    by (auto simp: offline_log_def local_log_def initial_state_def)
qed

theorem resolution_offline_witness:
  "\<exists>r w' extra. pair_run 3 = Some (r, w') \<and> w_log w' = w_log pair_world @ extra \<and> list_all local_request extra"
proof -
  obtain g w' where r: "pair_run 3 = Some (Inr g, w')" by (rule pair_run_result)
  from resolution_offline [OF r [unfolded pair_run_def]] r show ?thesis by auto
qed

section \<open>Termination\<close>

text \<open>The names already taken only grow.\<close>

definition names_grow :: "resolver_state \<Rightarrow> resolver_state \<Rightarrow> bool" where
  "names_grow s s' \<longleftrightarrow> dom (rs_by_name s) \<subseteq> dom (rs_by_name s')"

interpretation nm: resolver_relation R names_grow for R
  by unfold_locales (auto simp: names_grow_def push_node_def finish_node_def)

text \<open>Every manifest the resolver can meet defines a package of the finite universe \<open>N\<close>.\<close>

definition package_universe :: "toml_lib \<Rightarrow> string set \<Rightarrow> bool" where
  "package_universe L N \<longleftrightarrow>
     finite N \<and> (\<forall>fs p m pkg. LoadManifest L fs p = Inr m \<and> md_package m = Some pkg \<longrightarrow> pc_name pkg \<in> N)"

definition returns_below :: "string set \<Rightarrow> nat \<Rightarrow> (fs_path \<Rightarrow> SourceOrigin \<Rightarrow> nat resolving) \<Rightarrow> bool" where
  "returns_below N k rec \<longleftrightarrow> (\<forall>p o' s. card (N - dom (rs_by_name s)) < k \<longrightarrow> rec p o' s \<noteq> None)"

lemma card_names_grow:
  assumes "finite N" and "names_grow s s'" and "card (N - dom (rs_by_name s)) < k"
  shows "card (N - dom (rs_by_name s')) < k"
proof -
  have "N - dom (rs_by_name s') \<subseteq> N - dom (rs_by_name s)" using assms(2) by (auto simp: names_grow_def)
  then have "card (N - dom (rs_by_name s')) \<le> card (N - dom (rs_by_name s))" using assms(1) by (intro card_mono) auto
  with assms(3) show ?thesis by simp
qed

lemma loop_returns:
  assumes "finite N" and "returns_below N k rec" and "\<And>p o' s r s'. rec p o' s = Some (r, s') \<Longrightarrow> names_grow s s'"
  shows "card (N - dom (rs_by_name s)) < k \<Longrightarrow> resolve_dependencies R rec ni node ds s \<noteq> None"
proof (induction ds arbitrary: s)
  case (Cons d ds)
  have rest: False if "rec p o' (s\<lparr>rs_world := w\<rparr>) = Some (r, s1)" "resolve_dependencies R rec ni node ds s1 = None" for p o' w r s1
  proof -
    have "names_grow s s1" using assms(3) [OF that(1)] by (simp add: names_grow_def)
    from Cons.IH [OF card_names_grow [OF assms(1) this Cons.prems]] that(2) show ?thesis by simp
  qed
  have call: False if "rec p o' (s\<lparr>rs_world := w\<rparr>) = None" for p o' w
  proof -
    have "card (N - dom (rs_by_name (s\<lparr>rs_world := w\<rparr>))) < k" using Cons.prems by simp
    with that assms(2) show ?thesis unfolding returns_below_def by blast
  qed
  show ?case by (auto split: sum.splits prod.splits option.splits dest: rest call)
qed simp

lemma ResolveNode_returns:
  assumes "package_universe (re_toml (rv_env R)) N"
    and "\<And>pkg. md_package (rv_root_manifest R) = Some pkg \<Longrightarrow> pc_name pkg \<in> N"
  shows "returns_below N fuel (ResolveNode R fuel)"
proof (induction fuel)
  case 0
  then show ?case by (simp add: returns_below_def)
next
  case (Suc fuel)
  have fin: "finite N" using assms(1) by (simp add: package_universe_def)
  show ?case unfolding returns_below_def
  proof (intro allI impI)
    fix p o' and s :: resolver_state assume small: "card (N - dom (rs_by_name s)) < Suc fuel"
    have stuck: False
      if new: "new_node R fs q o' fp = Inr node" "rs_by_name s (pc_name (nd_package node)) = None"
        and none: "resolve_dependencies R (ResolveNode R fuel) i node ds (push_node node s) = None" for i node ds fs q fp
    proof -
      have "pc_name (nd_package node) \<in> N"
        using new(1) assms by (auto simp: new_node_def load_manifest_at_def package_universe_def rbind_eq_Inr split: option.splits if_splits)
      with new(2) fin have "card (N - dom (rs_by_name (push_node node s))) < card (N - dom (rs_by_name s))"
        by (intro psubset_card_mono) (auto simp: push_node_def)
      with small have left: "card (N - dom (rs_by_name (push_node node s))) < fuel" by simp
      have "resolve_dependencies R (ResolveNode R fuel) i node ds (push_node node s) \<noteq> None"
        by (rule loop_returns [OF fin Suc.IH _ left]) (erule nm.ResolveNode_related)
      with none show ?thesis by simp
    qed
    then show "ResolveNode R (Suc fuel) p o' s \<noteq> None"
      by (auto simp: Let_def split: sum.splits option.splits prod.splits dest: stuck)
  qed
qed

lemma resolve_roots_returns:
  assumes "finite N" and "returns_below N fuel (ResolveNode R fuel)"
  shows "card (N - dom (rs_by_name s)) < fuel \<Longrightarrow> resolve_roots R fuel seeds s \<noteq> None"
proof (induction seeds arbitrary: s)
  case (Cons seed seeds)
  have rest: False if "ResolveNode R fuel p o' s = Some (r, s1)" "resolve_roots R fuel seeds s1 = None" for p o' r s1
    using Cons.IH [OF card_names_grow [OF assms(1) nm.ResolveNode_related [OF that(1)] Cons.prems]] that(2) by simp
  have "ResolveNode R fuel (sel_manifest_path seed) (sel_origin seed) s \<noteq> None"
    using assms(2) Cons.prems unfolding returns_below_def by blast
  then obtain r s1 where "ResolveNode R fuel (sel_manifest_path seed) (sel_origin seed) s = Some (r, s1)" by auto
  then show ?case by (auto split: sum.splits prod.splits option.splits dest: rest)
qed simp

section \<open>The fuel does not matter\<close>

lemma loop_more:
  assumes "\<And>p o' s x. rec p o' s = Some x \<Longrightarrow> rec' p o' s = Some x"
  shows "resolve_dependencies R rec ni node ds s = Some x \<Longrightarrow> resolve_dependencies R rec' ni node ds s = Some x"
proof (induction ds arbitrary: s x)
  case (Cons d ds)
  show ?case
  proof (cases "at_node s ni")
    case Inl
    with Cons.prems show ?thesis by simp
  next
    case (Inr parent)
    obtain sr w where sel: "select_dependency R parent d (rs_world s) = (sr, w)" by (cases "select_dependency R parent d (rs_world s)")
    show ?thesis
    proof (cases sr)
      case Inl
      with Cons.prems Inr sel show ?thesis by simp
    next
      case sel': (Inr m)
      with Cons.prems Inr sel obtain y s1 where call: "rec (sel_manifest_path m) (sel_origin m) (s\<lparr>rs_world := w\<rparr>) = Some (y, s1)"
        by (cases "rec (sel_manifest_path m) (sel_origin m) (s\<lparr>rs_world := w\<rparr>)") auto
      note call' = assms [OF call]
      show ?thesis
      proof (cases "resolve_dependencies R rec ni node ds s1")
        case None
        with Cons.prems Inr sel sel' call call' show ?thesis by (auto split: sum.splits if_splits)
      next
        case (Some z)
        with Cons.prems Inr sel sel' call call' Cons.IH [OF Some] show ?thesis by (auto split: sum.splits if_splits)
      qed
    qed
  qed
qed simp

lemma ResolveNode_more: "ResolveNode R fuel p o' s = Some x \<Longrightarrow> fuel \<le> fuel' \<Longrightarrow> ResolveNode R fuel' p o' s = Some x"
proof (induction fuel arbitrary: fuel' p o' s x)
  case (Suc fuel)
  then obtain k where k: "fuel' = Suc k" "fuel \<le> k" by (cases fuel') auto
  have loop: "resolve_dependencies R (ResolveNode R fuel) ni node ds t = Some y \<Longrightarrow>
      resolve_dependencies R (ResolveNode R k) ni node ds t = Some y" for ni node ds t y
    by (rule loop_more [OF Suc.IH [OF _ k(2)]])
  show ?case
    using Suc.prems(1) unfolding k(1)
    by (auto simp: Let_def split: sum.splits option.splits dest: loop)
qed simp

lemma resolve_roots_more:
  "resolve_roots R fuel seeds s = Some x \<Longrightarrow> fuel \<le> fuel' \<Longrightarrow> resolve_roots R fuel' seeds s = Some x"
proof (induction seeds arbitrary: s x)
  case (Cons seed seeds)
  then obtain y s1 where call: "ResolveNode R fuel (sel_manifest_path seed) (sel_origin seed) s = Some (y, s1)"
    by (cases "ResolveNode R fuel (sel_manifest_path seed) (sel_origin seed) s") auto
  from ResolveNode_more [OF this Cons.prems(2)] call Cons.prems Cons.IH [of s1] show ?case
    by (auto split: sum.splits option.splits prod.splits)
qed simp


lemma pair_universe: "package_universe (re_toml pair_env) {''acme/app'', ''acme/util''}"
proof -
  have names: "map (\<lambda>doc. case parse_manifest pair_toml doc of Inr m \<Rightarrow> map_option pc_name (md_package m) | Inl e \<Rightarrow> None) [sample_document, lib_document]
      = [Some ''acme/app'', Some ''acme/util'']" by code_simp
  have "pc_name pkg \<in> {''acme/app'', ''acme/util''}" if "LoadManifest pair_toml fs p = Inr m" "md_package m = Some pkg" for fs p m pkg
  proof -
    have "tl_parse pair_toml t = Inr (if t = Some ''app'' then sample_document else lib_document)" for t
      by (simp add: pair_toml_def)
    with that(1) have "parse_manifest pair_toml (if file_text fs p = Some ''app'' then sample_document else lib_document) = Inr m"
      by (simp only: LoadManifest_def parse_file_def sum.case)
    with that(2) names show ?thesis by (auto split: if_splits)
  qed
  then show ?thesis by (auto simp: package_universe_def pair_env_def)
qed


end
