(* ===== verification/Compile_Plan.thy ===== *)
theory Compile_Plan
  imports Resolver_Runs
begin

text \<open>
  Compile plans (\<^verbatim>\<open>SpioPlatformProtocols/CompilePlan.cpp\<close>): from a resolved graph to the JSON document the
  compiler reads. \<^verbatim>\<open>visit\<close>, the recursive function of \<^verbatim>\<open>BuildPackageOrder\<close>, takes fuel; the order is built
  with one unit more than there are packages, which \<^verbatim>\<open>Compile_Plan_Correct\<close> shows to be enough.
  \<^verbatim>\<open>json::dump(2)\<close> is a parameter: it throws on text that is not UTF-8. The existence of a relative
  path is the one of its absolute form.
\<close>

datatype VisitState = kUnseen | kActive | kDone

record ProfileConfig =
  pf_name :: string
  pf_opt_level :: int
  pf_debug :: bool
  pf_lto :: bool

record SelectedTarget =
  st_package :: ResolvedPackage
  st_kind :: string
  st_name :: string
  st_file :: fs_path

record BuildPlanRequest =
  br_manifest_path :: fs_path
  br_intent :: string
  br_package_name :: "string option"
  br_bin_name :: "string option"
  br_test_name :: "string option"
  br_select_lib :: bool
  br_profile :: string
  br_build_mode :: string
  br_compiler_version :: "string option"
  br_offline :: bool
  br_vendor_root :: "fs_path option"

definition default_plan_request :: BuildPlanRequest where
  "default_plan_request =
     \<lparr>br_manifest_path = ''spio.toml'', br_intent = ''build'', br_package_name = None, br_bin_name = None,
      br_test_name = None, br_select_lib = False, br_profile = ''dev'', br_build_mode = ''minimal'',
      br_compiler_version = None, br_offline = False, br_vendor_root = None\<rparr>"

record BuildPlanResult =
  bp_manifest_path :: fs_path
  bp_workspace_root :: fs_path
  bp_build_root :: fs_path
  bp_artifact_dir :: fs_path
  bp_diag_dir :: fs_path
  bp_plan_path :: fs_path
  bp_cache_key :: string
  bp_plan_json :: string
  bp_entry_package_id :: string
  bp_entry_package_name :: string
  bp_entry_target_kind :: string
  bp_entry_target_name :: string
  bp_profile_name :: string
  bp_build_mode :: string
  bp_package_count :: nat

definition ValidateIntent :: "string \<Rightarrow> unit result" where
  "ValidateIntent intent =
     guard_err (intent \<noteq> ''build'' \<and> intent \<noteq> ''run'' \<and> intent \<noteq> ''test'')
       (PlanError (''unsupported compile-plan intent for the current native core: '' @ intent))"

section \<open>Files\<close>

definition is_regular_file :: "file_system \<Rightarrow> fs_path \<Rightarrow> bool" where
  "is_regular_file fs p = (case fs p of Some (Regular text) \<Rightarrow> True | _ \<Rightarrow> False)"

definition ReadPlanFile :: "file_system \<Rightarrow> fs_path \<Rightarrow> string result" where
  "ReadPlanFile fs p =
     (case file_text fs p of
        Some text \<Rightarrow> Inr text
      | None \<Rightarrow> Inl (PlanError (''failed to read file required for compile-plan: '' @ p)))"

definition AbsoluteTargetPath :: "fs_path \<Rightarrow> ResolvedPackage \<Rightarrow> string \<Rightarrow> fs_path" where
  "AbsoluteTargetPath cwd package relative_path = CanonicalAbsolutePath cwd (path_div (rk_root_dir package) relative_path)"

definition RequireExistingSourceFile :: "file_system \<Rightarrow> fs_path \<Rightarrow> string \<Rightarrow> unit result" where
  "RequireExistingSourceFile fs p ctx =
     (if \<not> fs_exists fs p then Inl (PlanError (ctx @ '' source file not found: '' @ p))
      else if \<not> is_regular_file fs p then Inl (PlanError (ctx @ '' source path is not a file: '' @ p))
      else Inr ())"

section \<open>Choosing the entry\<close>

definition find_package :: "ResolvedPackage list \<Rightarrow> string \<Rightarrow> ResolvedPackage option" where
  "find_package packages package_id = List.find (\<lambda>p. rk_id p = package_id) packages"

definition RequirePackageById :: "ResolvedPackage list \<Rightarrow> string \<Rightarrow> ResolvedPackage result" where
  "RequirePackageById packages package_id =
     (case find_package packages package_id of
        Some p \<Rightarrow> Inr p
      | None \<Rightarrow> Inl (PlanError (''resolver graph references unknown package id: '' @ package_id)))"

definition CollectRootPackages :: "ResolvedGraphResult \<Rightarrow> ResolvedPackage list result" where
  "CollectRootPackages graph =
     rbind (rmap (RequirePackageById (rg_packages graph)) (rg_root_ids graph)) (\<lambda>roots. Inr (sort_key rk_id roots))"

definition ResolveEntryPackage :: "BuildPlanRequest \<Rightarrow> ResolvedGraphResult \<Rightarrow> ResolvedPackage result" where
  "ResolveEntryPackage request graph =
     rbind (CollectRootPackages graph) (\<lambda>roots.
     if roots = [] then Inl (PlanError ''compile-plan generation requires at least one root package'')
     else case br_package_name request of
       Some name \<Rightarrow>
         (case filter (\<lambda>p. pc_name (rk_package p) = name) roots of
            [] \<Rightarrow> Inl (PlanError (''selected package is not a root package of the active manifest: '' @ name))
          | p # _ \<Rightarrow> Inr p)
     | None \<Rightarrow>
         (case List.find (\<lambda>p. path_eq (rk_manifest_path p) (rg_manifest_path graph)) roots of
            Some p \<Rightarrow> Inr p
          | None \<Rightarrow>
              if length roots = 1 then Inr (hd roots)
              else Inl (PlanError ''workspace build is ambiguous; select a root package with --package <namespace/name>'')))"

definition select_file :: "fs_path \<Rightarrow> file_system \<Rightarrow> ResolvedPackage \<Rightarrow> string \<Rightarrow> string \<Rightarrow> string \<Rightarrow> string \<Rightarrow> SelectedTarget result" where
  "select_file cwd fs package ctx kind name relative =
     (let file = AbsoluteTargetPath cwd package relative in
      rbind (RequireExistingSourceFile fs file ctx) (\<lambda>_.
        Inr \<lparr>st_package = package, st_kind = kind, st_name = name, st_file = file\<rparr>))"

definition select_lib_target :: "fs_path \<Rightarrow> file_system \<Rightarrow> ResolvedPackage \<Rightarrow> LibTarget \<Rightarrow> SelectedTarget result" where
  "select_lib_target cwd fs package lib = select_file cwd fs package ''library'' ''lib'' (pc_name (rk_package package)) (lib_path lib)"

definition select_bin_target :: "fs_path \<Rightarrow> file_system \<Rightarrow> ResolvedPackage \<Rightarrow> BinTarget \<Rightarrow> SelectedTarget result" where
  "select_bin_target cwd fs package bin = select_file cwd fs package ''binary'' ''bin'' (bin_name bin) (bin_path bin)"

definition select_test_target :: "fs_path \<Rightarrow> file_system \<Rightarrow> ResolvedPackage \<Rightarrow> TestTarget \<Rightarrow> SelectedTarget result" where
  "select_test_target cwd fs package test = select_file cwd fs package ''test'' ''test'' (test_name test) (test_path test)"

definition quoted_name :: "string \<Rightarrow> string" where
  "quoted_name name = [CHR 0x22] @ name @ [CHR 0x22]"

text \<open>The target when none was named: the only test, the only binary, or the library of a package without binaries.\<close>

definition default_target :: "fs_path \<Rightarrow> file_system \<Rightarrow> string \<Rightarrow> ResolvedPackage \<Rightarrow> SelectedTarget result" where
  "default_target cwd fs intent package =
     (let cfg = rk_package package; apostrophe = [CHR 0x27] in
      if intent = ''test'' then
        (case pc_tests cfg of
           [test] \<Rightarrow> select_test_target cwd fs package test
         | [] \<Rightarrow> Inl (PlanError (''selected package does not define any [[test]] target: '' @ pc_name cfg))
         | _ \<Rightarrow> Inl (PlanError (''test target is ambiguous for package '' @ apostrophe @ pc_name cfg @ apostrophe @ ''; select --test <name>'')))
      else if intent = ''run'' then
        (case pc_bins cfg of
           [bin] \<Rightarrow> select_bin_target cwd fs package bin
         | [] \<Rightarrow> Inl (PlanError (''selected package does not define any [[bin]] target: '' @ pc_name cfg))
         | _ \<Rightarrow> Inl (PlanError (''run target is ambiguous for package '' @ apostrophe @ pc_name cfg @ apostrophe @ ''; select --bin <name>'')))
      else case (pc_lib cfg, pc_bins cfg) of
        (Some lib, []) \<Rightarrow> select_lib_target cwd fs package lib
      | (None, [bin]) \<Rightarrow> select_bin_target cwd fs package bin
      | _ \<Rightarrow> Inl (PlanError (''build target is ambiguous for package '' @ apostrophe @ pc_name cfg @ apostrophe @ ''; select --lib or --bin <name>'')))"

definition ResolveEntryTarget :: "fs_path \<Rightarrow> file_system \<Rightarrow> BuildPlanRequest \<Rightarrow> ResolvedPackage \<Rightarrow> SelectedTarget result" where
  "ResolveEntryTarget cwd fs request package =
     (let cfg = rk_package package in
      if br_select_lib request \<and> br_bin_name request \<noteq> None then
        Inl (PlanError (br_intent request @ '' target selection cannot combine --lib and --bin''))
      else if br_select_lib request \<and> br_test_name request \<noteq> None then
        Inl (PlanError (br_intent request @ '' target selection cannot combine --lib and --test''))
      else if br_bin_name request \<noteq> None \<and> br_test_name request \<noteq> None then
        Inl (PlanError (br_intent request @ '' target selection cannot combine --bin and --test''))
      else if br_select_lib request then
        (if br_intent request = ''run'' then Inl (PlanError ''run requires a binary target and does not accept --lib'')
         else if br_intent request = ''test'' then Inl (PlanError ''test requires an explicit [[test]] target and does not accept --lib'')
         else case pc_lib cfg of
           None \<Rightarrow> Inl (PlanError (''selected package does not define [lib]: '' @ pc_name cfg))
         | Some lib \<Rightarrow> select_lib_target cwd fs package lib)
      else case br_bin_name request of
        Some name \<Rightarrow>
          (case List.find (\<lambda>b. bin_name b = name) (pc_bins cfg) of
             Some bin \<Rightarrow> select_bin_target cwd fs package bin
           | None \<Rightarrow> Inl (PlanError (''selected package does not define [[bin]].name = '' @ quoted_name name)))
      | None \<Rightarrow>
      (case br_test_name request of
        Some name \<Rightarrow>
          (case List.find (\<lambda>t. test_name t = name) (pc_tests cfg) of
             Some test \<Rightarrow> select_test_target cwd fs package test
           | None \<Rightarrow> Inl (PlanError (''selected package does not define [[test]].name = '' @ quoted_name name)))
      | None \<Rightarrow> default_target cwd fs (br_intent request) package))"

definition ResolveProfile :: "string \<Rightarrow> ProfileConfig result" where
  "ResolveProfile profile_name =
     (if profile_name = ''dev'' then Inr \<lparr>pf_name = ''dev'', pf_opt_level = 0, pf_debug = True, pf_lto = False\<rparr>
      else if profile_name = ''release'' then Inr \<lparr>pf_name = ''release'', pf_opt_level = 3, pf_debug = False, pf_lto = True\<rparr>
      else Inl (PlanError (''unsupported build profile: '' @ profile_name)))"

definition uniform_with :: "ResolvedPackage \<Rightarrow> ResolvedPackage \<Rightarrow> unit result" where
  "uniform_with baseline package =
     (let p = rk_package package; b = rk_package baseline in
      if pc_edition p \<noteq> pc_edition b then
        Inl (PlanError ''compile-plan v1 requires a uniform package.edition across the resolved graph'')
      else if tc_channel (pc_toolchain p) \<noteq> tc_channel (pc_toolchain b) then
        Inl (PlanError ''compile-plan v1 requires a uniform [toolchain].channel across the resolved graph'')
      else if tc_implicit_std (pc_toolchain p) \<noteq> tc_implicit_std (pc_toolchain b) then
        Inl (PlanError ''compile-plan v1 requires a uniform [toolchain].implicit-std across the resolved graph'')
      else Inr ())"

definition ValidateUniformToolchain :: "ResolvedGraphResult \<Rightarrow> unit result" where
  "ValidateUniformToolchain graph =
     (case rg_packages graph of
        [] \<Rightarrow> Inl (PlanError ''compile-plan generation requires at least one resolved package'')
      | baseline # _ \<Rightarrow> rbind (rmap (uniform_with baseline) (rg_packages graph)) (\<lambda>_. Inr ()))"

definition BuildStdPackageId :: "ResolvedPackage \<Rightarrow> string" where
  "BuildStdPackageId entry =
     (if tc_implicit_std (pc_toolchain (rk_package entry)) then ''builtin:std@'' else ''builtin:std-disabled@'')
       @ tc_channel (pc_toolchain (rk_package entry)) @ ''/'' @ pc_edition (rk_package entry)"

section \<open>The order of the packages\<close>

record order_state =
  os_visit_state :: "string \<rightharpoonup> VisitState"
  os_order :: "string list"
  os_stack :: "string list"

definition state_of :: "order_state \<Rightarrow> string \<Rightarrow> VisitState" where
  "state_of s x = (case os_visit_state s x of None \<Rightarrow> kUnseen | Some v \<Rightarrow> v)"

fun visit_list :: "('x \<Rightarrow> 's \<Rightarrow> 's result option) \<Rightarrow> 'x list \<Rightarrow> 's \<Rightarrow> 's result option" where
  "visit_list f [] s = Some (Inr s)"
| "visit_list f (x # xs) s =
     (case f x s of
        None \<Rightarrow> None
      | Some (Inl e) \<Rightarrow> Some (Inl e)
      | Some (Inr s') \<Rightarrow> visit_list f xs s')"

definition cycle_error :: "order_state \<Rightarrow> string \<Rightarrow> platform_error" where
  "cycle_error s package_id =
     PlanError (''compile-plan requires an acyclic package graph: ''
       @ join_with '' -> '' (dropWhile (\<lambda>x. x \<noteq> package_id) (os_stack s) @ [package_id]))"

definition enter_package :: "string \<Rightarrow> order_state \<Rightarrow> order_state" where
  "enter_package x s = s\<lparr>os_visit_state := (os_visit_state s)(x \<mapsto> kActive), os_stack := os_stack s @ [x]\<rparr>"

definition leave_package :: "string \<Rightarrow> order_state \<Rightarrow> order_state" where
  "leave_package x s =
     s\<lparr>os_stack := butlast (os_stack s), os_visit_state := (os_visit_state s)(x \<mapsto> kDone), os_order := os_order s @ [x]\<rparr>"

fun visit :: "ResolvedPackage list \<Rightarrow> nat \<Rightarrow> string \<Rightarrow> order_state \<Rightarrow> order_state result option" where
  "visit packages 0 package_id s = None"
| "visit packages (Suc n) package_id s =
     (case state_of s package_id of
        kDone \<Rightarrow> Some (Inr s)
      | kActive \<Rightarrow> Some (Inl (cycle_error s package_id))
      | kUnseen \<Rightarrow>
          (case RequirePackageById packages package_id of
             Inl e \<Rightarrow> Some (Inl e)
           | Inr package \<Rightarrow>
               (case visit_list (visit packages n) (rk_dependencies package) (enter_package package_id s) of
                  None \<Rightarrow> None
                | Some (Inl e) \<Rightarrow> Some (Inl e)
                | Some (Inr s') \<Rightarrow> Some (Inr (leave_package package_id s')))))"

definition start_order :: order_state where
  "start_order = \<lparr>os_visit_state = Map.empty, os_order = [], os_stack = []\<rparr>"

definition BuildPackageOrder :: "ResolvedGraphResult \<Rightarrow> string list result option" where
  "BuildPackageOrder graph =
     map_option (\<lambda>r. rbind r (\<lambda>s. Inr (os_order s)))
       (visit_list (visit (rg_packages graph) (Suc (length (rg_packages graph)))) (sort (map rk_id (rg_packages graph))) start_order)"

section \<open>Source hash and documents\<close>

definition package_files :: "fs_path \<Rightarrow> ResolvedPackage \<Rightarrow> fs_path list" where
  "package_files cwd package =
     (let cfg = rk_package package in
      rk_manifest_path package
        # (case pc_lib cfg of None \<Rightarrow> [] | Some lib \<Rightarrow> [AbsoluteTargetPath cwd package (lib_path lib)])
        @ map (\<lambda>bin. AbsoluteTargetPath cwd package (bin_path bin)) (pc_bins cfg)
        @ map (\<lambda>test. AbsoluteTargetPath cwd package (test_path test)) (pc_tests cfg))"

definition digest_part :: "file_system \<Rightarrow> fs_path \<Rightarrow> string result" where
  "digest_part fs p =
     rbind (RequireExistingSourceFile fs p ''compile-plan'') (\<lambda>_.
     rbind (ReadPlanFile fs p) (\<lambda>text. Inr (p @ [CHR 0x00] @ text @ [CHR 0x00])))"

definition source_files :: "fs_path \<Rightarrow> ResolvedGraphResult \<Rightarrow> fs_path list" where
  "source_files cwd graph = unique_by path_eq (sort_key path_elements (concat (map (package_files cwd) (rg_packages graph))))"

definition BuildSourceHash :: "fs_path \<Rightarrow> file_system \<Rightarrow> ResolvedGraphResult \<Rightarrow> string result" where
  "BuildSourceHash cwd fs graph =
     rbind (rmap (digest_part fs) (source_files cwd graph)) (\<lambda>parts. Inr (Hex64 (Fnv1a64 (concat parts)) False))"

definition target_json :: "fs_path \<Rightarrow> file_system \<Rightarrow> ResolvedPackage \<Rightarrow> string \<Rightarrow> string \<times> string \<Rightarrow> json result" where
  "target_json cwd fs package ctx entry =
     (case entry of (name, relative) \<Rightarrow>
      let p = AbsoluteTargetPath cwd package relative in
      rbind (RequireExistingSourceFile fs p ctx) (\<lambda>_. Inr (json_obj [(''name'', JString name), (''path'', JString p)])))"

definition BuildTargetsJson :: "fs_path \<Rightarrow> file_system \<Rightarrow> ResolvedPackage \<Rightarrow> json result" where
  "BuildTargetsJson cwd fs package =
     (let cfg = rk_package package in
      rbind (rmap (\<lambda>bin. target_json cwd fs package ''binary'' (bin_name bin, bin_path bin)) (sort_key bin_name (pc_bins cfg))) (\<lambda>bins.
      rbind (rmap (\<lambda>test. target_json cwd fs package ''test'' (test_name test, test_path test)) (sort_key test_name (pc_tests cfg))) (\<lambda>tests.
      let targets = json_set_if (tests \<noteq> []) ''tests'' (JArray tests) (json_obj [(''lib'', JNull), (''bins'', JArray bins)]) in
      case pc_lib cfg of
        None \<Rightarrow> Inr targets
      | Some lib \<Rightarrow>
          let p = AbsoluteTargetPath cwd package (lib_path lib) in
          rbind (RequireExistingSourceFile fs p ''library'') (\<lambda>_. Inr (json_set ''lib'' (JString p) targets)))))"

definition BuildPackageJson :: "fs_path \<Rightarrow> file_system \<Rightarrow> ResolvedPackage \<Rightarrow> json result" where
  "BuildPackageJson cwd fs package =
     rbind (BuildTargetsJson cwd fs package) (\<lambda>targets.
     Inr (json_obj [
       (''id'', JString (rk_id package)),
       (''name'', JString (pc_name (rk_package package))),
       (''version'', JString (pc_version (rk_package package))),
       (''root_dir'', JString (rk_root_dir package)),
       (''manifest_path'', JString (rk_manifest_path package)),
       (''source_kind'', JString (rk_source_kind package)),
       (''targets'', targets),
       (''dependency_aliases'',
          foldl (\<lambda>j a. json_set (ra_alias a) (JString (ra_package_id a)) j) (json_obj []) (rk_dependency_aliases package))]))"

section \<open>The plan\<close>

text \<open>What the plan is computed from before anything is written.\<close>

record plan_inputs =
  pi_graph :: ResolvedGraphResult
  pi_entry :: ResolvedPackage
  pi_target :: SelectedTarget
  pi_profile :: ProfileConfig
  pi_order :: "string list"
  pi_source_hash :: string

definition cache_material :: "BuildPlanRequest \<Rightarrow> plan_inputs \<Rightarrow> string" where
  "cache_material request i =
     ''compiler='' @ (case br_compiler_version request of None \<Rightarrow> ''unbound'' | Some v \<Rightarrow> v) @
     '';compile-plan=1'' @
     '';intent='' @ br_intent request @
     '';edition='' @ pc_edition (rk_package (pi_entry i)) @
     '';build-mode='' @ br_build_mode request @
     '';profile='' @ pf_name (pi_profile i) @
     '';target='' @ rk_id (pi_entry i) @ '':'' @ st_kind (pi_target i) @ '':'' @ st_name (pi_target i) @
     '';source='' @ pi_source_hash i"

definition gather_inputs :: "fs_path \<Rightarrow> file_system \<Rightarrow> BuildPlanRequest \<Rightarrow> ResolvedGraphResult \<Rightarrow> plan_inputs result option" where
  "gather_inputs cwd fs request graph =
     (case rbind (ValidateUniformToolchain graph) (\<lambda>_.
           rbind (ResolveEntryPackage request graph) (\<lambda>entry.
           rbind (ResolveEntryTarget cwd fs request entry) (\<lambda>target.
           rbind (ResolveProfile (br_profile request)) (\<lambda>profile. Inr (entry, target, profile))))) of
        Inl e \<Rightarrow> Some (Inl e)
      | Inr (entry, target, profile) \<Rightarrow>
          map_option (\<lambda>ordered.
            rbind ordered (\<lambda>order.
            rbind (BuildSourceHash cwd fs graph) (\<lambda>source_hash.
            Inr \<lparr>pi_graph = graph, pi_entry = entry, pi_target = target, pi_profile = profile,
                 pi_order = order, pi_source_hash = source_hash\<rparr>))) (BuildPackageOrder graph))"

definition plan_result :: "fs_path \<Rightarrow> BuildPlanRequest \<Rightarrow> plan_inputs \<Rightarrow> BuildPlanResult" where
  "plan_result cwd request i =
     (let cache_key = Hex64 (Fnv1a64 (cache_material request i)) False;
          workspace_root = CanonicalAbsolutePath cwd (path_parent (rg_manifest_path (pi_graph i)));
          build_root = path_div (path_div (path_div workspace_root ''.spio'') ''build'') cache_key
      in \<lparr>bp_manifest_path = rg_manifest_path (pi_graph i), bp_workspace_root = workspace_root, bp_build_root = build_root,
          bp_artifact_dir = path_div build_root ''artifacts'', bp_diag_dir = path_div build_root ''diag'',
          bp_plan_path = path_div build_root ''plan.json'', bp_cache_key = cache_key, bp_plan_json = [],
          bp_entry_package_id = rk_id (pi_entry i), bp_entry_package_name = pc_name (rk_package (pi_entry i)),
          bp_entry_target_kind = st_kind (pi_target i), bp_entry_target_name = st_name (pi_target i),
          bp_profile_name = pf_name (pi_profile i), bp_build_mode = br_build_mode request,
          bp_package_count = length (rg_packages (pi_graph i))\<rparr>)"

definition plan_document :: "string \<Rightarrow> BuildPlanRequest \<Rightarrow> plan_inputs \<Rightarrow> BuildPlanResult \<Rightarrow> json list \<Rightarrow> json" where
  "plan_document version request i r packages =
     (let cfg = rk_package (pi_entry i) in
      json_obj [
       (''plan_version'', JInt 1),
       (''generated_by'', json_obj [(''tool'', JString ''spio''), (''version'', JString version)]),
       (''intent'', JString (br_intent request)),
       (''workspace_root'', JString (bp_workspace_root r)),
       (''entry'', json_obj [
          (''package_id'', JString (rk_id (pi_entry i))), (''target_kind'', JString (st_kind (pi_target i))),
          (''target_name'', JString (st_name (pi_target i))), (''file'', JString (st_file (pi_target i)))]),
       (''toolchain'', json_obj [
          (''channel'', JString (tc_channel (pc_toolchain cfg))), (''edition'', JString (pc_edition cfg)),
          (''implicit_std'', JBool (tc_implicit_std (pc_toolchain cfg))), (''std_package_id'', JString (BuildStdPackageId (pi_entry i)))]),
       (''profile'', json_obj [
          (''name'', JString (pf_name (pi_profile i))), (''build_mode'', JString (br_build_mode request)),
          (''opt_level'', JInt (pf_opt_level (pi_profile i))), (''debug'', JBool (pf_debug (pi_profile i))),
          (''lto'', JBool (pf_lto (pi_profile i)))]),
       (''packages'', JArray packages),
       (''resolution'', json_obj [(''resolver'', JString ''single-version-v1''), (''package_order'', JArray (map JString (pi_order i)))]),
       (''outputs'', json_obj [
          (''build_root'', JString (bp_build_root r)), (''artifact_dir'', JString (bp_artifact_dir r)), (''diag_dir'', JString (bp_diag_dir r))]),
       (''emit'', json_obj [
          (''error_format'', JString ''jsonl''), (''ast'', JBool False), (''styio_ir'', JBool False), (''llvm_ir'', JBool False)])])"

definition write_plan :: "resolver_env \<Rightarrow> (json \<Rightarrow> string result) \<Rightarrow> BuildPlanRequest \<Rightarrow> plan_inputs \<Rightarrow> (platform_error, BuildPlanResult) io" where
  "write_plan V dump request i =
     (let r = plan_result (oe_cwd (re_os V)) request i in
      ibind (ireads (\<lambda>fs. rmap (BuildPackageJson (oe_cwd (re_os V)) fs) (rg_packages (pi_graph i)))) (\<lambda>packages.
      ibind (ilift packages) (\<lambda>packages.
      ibind (ichange (create_directories (bp_artifact_dir r))) (\<lambda>_.
      ibind (ichange (create_directories (bp_diag_dir r))) (\<lambda>_.
      ibind (ilift (dump (plan_document (re_version V) request i r packages))) (\<lambda>dumped.
      let plan_json = dumped @ [CHR 0x0A] in
      ibind (iwrite (PlanError (''failed to open compile-plan for write: '' @ bp_plan_path r)) (bp_plan_path r) plan_json) (\<lambda>_.
      ireturn (r\<lparr>bp_plan_json := plan_json\<rparr>))))))))"

definition WriteBuildCompilePlan :: "resolver_env \<Rightarrow> (json \<Rightarrow> string result) \<Rightarrow> nat \<Rightarrow> BuildPlanRequest \<Rightarrow> os_world \<Rightarrow> (BuildPlanResult result \<times> os_world) option" where
  "WriteBuildCompilePlan V dump fuel request w =
     (if \<not> fs_exists (w_fs w) (CanonicalAbsolutePath (oe_cwd (re_os V)) (br_manifest_path request)) then Some (Inl (PlanError (''manifest not found: '' @ br_manifest_path request)), w)
      else case ValidateIntent (br_intent request) of
        Inl e \<Rightarrow> Some (Inl e, w)
      | Inr _ \<Rightarrow>
      (case ResolveSingleVersionGraph V fuel (br_manifest_path request)
              \<lparr>ro_offline = br_offline request, ro_vendor_root = br_vendor_root request\<rparr> w of
         None \<Rightarrow> None
       | Some (Inl e, w') \<Rightarrow> Some (Inl e, w')
       | Some (Inr graph, w') \<Rightarrow>
           (case gather_inputs (oe_cwd (re_os V)) (w_fs w') request graph of
              None \<Rightarrow> None
            | Some (Inl e) \<Rightarrow> Some (Inl e, w')
            | Some (Inr i) \<Rightarrow> Some (write_plan V dump request i w'))))"

end
