(* ===== verification/Compile_Plan_Correct.thy ===== *)
theory Compile_Plan_Correct
  imports Compile_Plan
begin

text \<open>
  Compile plans are right: the packages are ordered with dependencies first, the search for
  that order ends and fails exactly on cyclic or open graphs, the entry is a target the
  request admits, and an offline plan contacts no network.
\<close>

section \<open>Dependency order\<close>

definition depends :: "ResolvedPackage list \<Rightarrow> (string \<times> string) set" where
  "depends packages = {(x, d). \<exists>p. find_package packages x = Some p \<and> d \<in> set (rk_dependencies p)}"

definition known_ids :: "ResolvedPackage list \<Rightarrow> string set" where
  "known_ids packages = rk_id ` set packages"

text \<open>Every package after all that it depends on.\<close>

definition dependencies_first :: "ResolvedPackage list \<Rightarrow> string list \<Rightarrow> bool" where
  "dependencies_first packages order \<longleftrightarrow>
     (\<forall>before x after. order = before @ x # after \<longrightarrow> x \<in> known_ids packages \<and> depends packages `` {x} \<subseteq> set before)"

definition dependency_cycle :: "ResolvedPackage list \<Rightarrow> string list \<Rightarrow> bool" where
  "dependency_cycle packages c \<longleftrightarrow> 2 \<le> length c \<and> hd c = last c \<and> successively (\<lambda>x y. (x, y) \<in> depends packages) c"

definition order_error :: "ResolvedPackage list \<Rightarrow> platform_error \<Rightarrow> bool" where
  "order_error packages e \<longleftrightarrow>
     (\<exists>c. dependency_cycle packages c \<and> e = PlanError (''compile-plan requires an acyclic package graph: '' @ join_with '' -> '' c))
     \<or> (\<exists>x d. (x, d) \<in> depends packages \<and> d \<notin> known_ids packages
          \<and> e = PlanError (''resolver graph references unknown package id: '' @ d))"

lemma find_package_eq:
  "find_package ps x = None \<longleftrightarrow> x \<notin> known_ids ps"
  "find_package ps x = Some p \<Longrightarrow> p \<in> set ps \<and> rk_id p = x"
  by (auto simp: find_package_def known_ids_def find_None_iff find_Some_iff)

lemma depends_known: "(x, d) \<in> depends ps \<Longrightarrow> x \<in> known_ids ps"
  using find_package_eq(1) by (force simp: depends_def)

lemma RequirePackageById_cases:
  "RequirePackageById ps x = Inr p \<longleftrightarrow> find_package ps x = Some p"
  "RequirePackageById ps x = Inl e \<longleftrightarrow> x \<notin> known_ids ps \<and> e = PlanError (''resolver graph references unknown package id: '' @ x)"
  by (auto simp: RequirePackageById_def find_package_eq(1) [symmetric] split: option.splits)

lemma dependencies_first_Nil [simp]: "dependencies_first ps []"
  by (simp add: dependencies_first_def)

lemma dependencies_first_snoc [simp]:
  "dependencies_first ps (xs @ [x]) \<longleftrightarrow> dependencies_first ps xs \<and> x \<in> known_ids ps \<and> depends ps `` {x} \<subseteq> set xs"
proof
  assume *: "dependencies_first ps (xs @ [x])"
  have "y \<in> known_ids ps \<and> depends ps `` {y} \<subseteq> set before" if "xs = before @ y # after" for before y after
    using * that unfolding dependencies_first_def by (metis append.assoc append_Cons)
  then show "dependencies_first ps xs \<and> x \<in> known_ids ps \<and> depends ps `` {x} \<subseteq> set xs"
    using * unfolding dependencies_first_def by blast
next
  assume *: "dependencies_first ps xs \<and> x \<in> known_ids ps \<and> depends ps `` {x} \<subseteq> set xs"
  show "dependencies_first ps (xs @ [x])"
    unfolding dependencies_first_def
  proof (intro allI impI)
    fix before y after assume "xs @ [x] = before @ y # after"
    then show "y \<in> known_ids ps \<and> depends ps `` {y} \<subseteq> set before"
      using * by (cases after rule: rev_cases) (auto simp: dependencies_first_def)
  qed
qed

lemma dependencies_first_acyclic:
  assumes "dependencies_first ps order" and "set order = known_ids ps"
  shows "acyclic (depends ps)" and "Range (depends ps) \<subseteq> known_ids ps"
proof -
  define rank where "rank x = length (takeWhile (\<lambda>y. y \<noteq> x) order)" for x
  have step: "rank d < rank x \<and> d \<in> set order" if e: "(x, d) \<in> depends ps" for x d
  proof -
    have "x \<in> set order" using e depends_known assms(2) by blast
    then obtain before after where o: "order = before @ x # after" "x \<notin> set before" using split_list_first by fast
    then have "d \<in> set before" using assms(1) e by (auto simp: dependencies_first_def)
    then obtain b1 b2 where b: "before = b1 @ d # b2" "d \<notin> set b1" using split_list_first by fast
    have tw: "length (takeWhile (\<lambda>y. y \<noteq> z) (as @ z # bs)) = length as" if "z \<notin> set as" for z :: string and as bs
      using that by (induction as) auto
    have "rank x = length before" using tw [OF o(2)] by (simp add: rank_def o(1))
    moreover have "rank d = length b1" using tw [OF b(2)] by (simp add: rank_def o(1) b(1))
    ultimately have "rank x = length before" "rank d = length b1" by simp_all
    then have "rank d < rank x" by (simp add: b(1))
    with \<open>d \<in> set before\<close> o(1) show ?thesis by simp
  qed
  show "acyclic (depends ps)" by (rule acyclicI_order [where f = rank]) (use step in blast)
  show "Range (depends ps) \<subseteq> known_ids ps" using step assms(2) by blast
qed

lemma successively_trancl:
  "successively (\<lambda>x y. (x, y) \<in> R) c \<Longrightarrow> 2 \<le> length c \<Longrightarrow> (hd c, last c) \<in> R\<^sup>+"
proof (induction c)
  case (Cons x c)
  show ?case
  proof (cases "length c \<ge> 2")
    case True
    then have "(x, hd c) \<in> R" "(hd c, last c) \<in> R\<^sup>+" using Cons by (cases c; auto simp: successively_Cons)+
    with True show ?thesis by (auto intro: trancl_into_trancl2)
  next
    case False
    with Cons.prems obtain y where "c = [y]" by (cases c rule: list.exhaust; cases "tl c") auto
    with Cons.prems show ?thesis by auto
  qed
qed simp

lemma cycle_not_acyclic: "dependency_cycle ps c \<Longrightarrow> \<not> acyclic (depends ps)"
  using successively_trancl unfolding dependency_cycle_def acyclic_def by metis

section \<open>The search\<close>

definition order_inv :: "ResolvedPackage list \<Rightarrow> order_state \<Rightarrow> bool" where
  "order_inv ps s \<longleftrightarrow>
     distinct (os_stack s) \<and> (\<forall>x. state_of s x = kActive \<longleftrightarrow> x \<in> set (os_stack s))
     \<and> successively (\<lambda>x y. (x, y) \<in> depends ps) (os_stack s)
     \<and> distinct (os_order s) \<and> (\<forall>x. state_of s x = kDone \<longleftrightarrow> x \<in> set (os_order s)) \<and> dependencies_first ps (os_order s)"

text \<open>The id that is visited comes from the top of the stack, or is one of the outer loop.\<close>

definition visitable :: "ResolvedPackage list \<Rightarrow> order_state \<Rightarrow> string \<Rightarrow> bool" where
  "visitable ps s x \<longleftrightarrow> (if os_stack s = [] then x \<in> known_ids ps else (last (os_stack s), x) \<in> depends ps)"

fun order_post :: "ResolvedPackage list \<Rightarrow> order_state \<Rightarrow> string set \<Rightarrow> order_state result \<Rightarrow> bool" where
  "order_post ps s X (Inl e) = order_error ps e"
| "order_post ps s X (Inr s') =
     (order_inv ps s' \<and> os_stack s' = os_stack s \<and> set (os_order s) \<union> X \<subseteq> set (os_order s') \<and> set (os_order s') \<subseteq> known_ids ps)"

lemma order_inv_known: "order_inv ps s \<Longrightarrow> set (os_order s) \<subseteq> known_ids ps"
  unfolding order_inv_def dependencies_first_def by (metis split_list subsetI)

lemma visit_list_order:
  assumes "\<And>x s r. order_inv ps s \<Longrightarrow> visitable ps s x \<Longrightarrow> f x s = Some r \<Longrightarrow> order_post ps s {x} r"
    and "order_inv ps s" and "\<forall>x \<in> set xs. visitable ps s x" and "visit_list f xs s = Some r"
  shows "order_post ps s (set xs) r"
  using assms(2-)
proof (induction xs arbitrary: s)
  case Nil
  then show ?case using order_inv_known by auto
next
  case (Cons x xs)
  then obtain r1 where r1: "f x s = Some r1" by (cases "f x s") auto
  have p1: "order_post ps s {x} r1" using assms(1) Cons.prems(1,2) r1 by simp
  show ?case
  proof (cases r1)
    case (Inl e)
    with Cons.prems r1 p1 show ?thesis by auto
  next
    case (Inr s1)
    with p1 have i1: "order_inv ps s1" "os_stack s1 = os_stack s" by simp_all
    have "order_post ps s1 (set xs) r"
      using Cons.IH [OF i1(1)] Cons.prems r1 Inr i1(2) by (simp add: visitable_def)
    with p1 Inr i1 show ?thesis by (cases r) auto
  qed
qed

lemma state_of_enter [simp]: "state_of (enter_package x s) y = (if y = x then kActive else state_of s y)"
  by (simp add: state_of_def enter_package_def)

lemma state_of_leave [simp]: "state_of (leave_package x s) y = (if y = x then kDone else state_of s y)"
  by (simp add: state_of_def leave_package_def)

lemma enter_inv:
  assumes "order_inv ps s" and "visitable ps s x" and "state_of s x = kUnseen"
  shows "order_inv ps (enter_package x s)"
proof -
  have f: "os_stack (enter_package x s) = os_stack s @ [x]" "os_order (enter_package x s) = os_order s"
    by (simp_all add: enter_package_def)
  have "x \<notin> set (os_stack s)" "x \<notin> set (os_order s)"
    using assms(1,3) unfolding order_inv_def by (metis VisitState.distinct(1,3))+
  with assms(1,2) show ?thesis unfolding order_inv_def f
    by (auto simp: successively_append_iff visitable_def split: if_splits)
qed

lemma leave_inv:
  assumes "order_inv ps s'" and "os_stack s' = st @ [x]" and "find_package ps x = Some p" and "set (rk_dependencies p) \<subseteq> set (os_order s')"
  shows "order_inv ps (leave_package x s') \<and> os_stack (leave_package x s') = st"
proof -
  have st: "os_stack (leave_package x s') = st" "os_order (leave_package x s') = os_order s' @ [x]"
    using assms(2) by (simp_all add: leave_package_def)
  have act: "state_of s' x = kActive" using assms(1,2) by (simp add: order_inv_def)
  then have "x \<notin> set (os_order s')" using assms(1) unfolding order_inv_def by (metis VisitState.distinct(5))
  moreover have "x \<in> known_ids ps" "depends ps `` {x} \<subseteq> set (os_order s')"
    using assms(3,4) find_package_eq(1) [of ps x] by (auto simp: depends_def)
  ultimately show ?thesis using assms(1,2) unfolding order_inv_def st
    by (auto simp: successively_append_iff)
qed

lemma cycle_error_order_error:
  assumes "order_inv ps s" and "visitable ps s x" and "state_of s x = kActive"
  shows "order_error ps (cycle_error s x)"
proof -
  from assms have "x \<in> set (os_stack s)" by (simp add: order_inv_def)
  then obtain as bs where st: "os_stack s = as @ x # bs" "x \<notin> set as" using split_list_first by fast
  then have d: "dropWhile (\<lambda>y. y \<noteq> x) (os_stack s) = x # bs" by (simp add: dropWhile_append3 dropWhile_append)
  have "successively (\<lambda>x y. (x, y) \<in> depends ps) (x # bs)" "(last (x # bs), x) \<in> depends ps"
    using assms(1,2) st by (auto simp: order_inv_def successively_append_iff visitable_def split: if_splits)
  then have "dependency_cycle ps ((x # bs) @ [x])"
    unfolding dependency_cycle_def successively_append_iff by simp
  then show ?thesis unfolding order_error_def cycle_error_def d by blast
qed

lemma visit_order:
  "order_inv ps s \<Longrightarrow> visitable ps s x \<Longrightarrow> visit ps n x s = Some r \<Longrightarrow> order_post ps s {x} r"
proof (induction n arbitrary: x s r)
  case (Suc n)
  show ?case
  proof (cases "state_of s x")
    case kDone
    with Suc.prems show ?thesis using order_inv_known by (auto simp: order_inv_def)
  next
    case kActive
    with Suc.prems show ?thesis using cycle_error_order_error by auto
  next
    case kUnseen
    show ?thesis
    proof (cases "RequirePackageById ps x")
      case (Inl e)
      then have "x \<notin> known_ids ps" using RequirePackageById_cases(2) by blast
      moreover have "r = Inl e" using Suc.prems(3) kUnseen Inl by simp
      ultimately show ?thesis using Inl Suc.prems(2)
        by (auto simp: order_error_def visitable_def RequirePackageById_cases split: if_splits)
    next
      case (Inr p)
      then have p: "find_package ps x = Some p" by (simp add: RequirePackageById_cases)
      let ?s = "enter_package x s"
      obtain r1 where r1: "visit_list (visit ps n) (rk_dependencies p) ?s = Some r1"
        and r: "r = (case r1 of Inl e \<Rightarrow> Inl e | Inr s' \<Rightarrow> Inr (leave_package x s'))"
        using Suc.prems(3) kUnseen Inr by (auto split: option.splits sum.splits)
      have "visitable ps ?s d" if "d \<in> set (rk_dependencies p)" for d
        using that p by (auto simp: visitable_def enter_package_def depends_def)
      then have post: "order_post ps ?s (set (rk_dependencies p)) r1"
        using visit_list_order [OF Suc.IH enter_inv [OF Suc.prems(1,2) kUnseen] _ r1] by blast
      show ?thesis
      proof (cases r1)
        case (Inl e)
        with post r show ?thesis by simp
      next
        case (Inr s1)
        then have s1: "order_inv ps s1" "os_stack s1 = os_stack s @ [x]" "set (rk_dependencies p) \<subseteq> set (os_order s1)"
          "set (os_order s) \<subseteq> set (os_order s1)" using post by (auto simp: enter_package_def)
        note l = leave_inv [OF s1(1,2) p s1(3)]
        show ?thesis using r Inr l s1(4) order_inv_known [of ps "leave_package x s1"]
          by (auto simp: leave_package_def)
      qed
    qed
  qed
qed simp

section \<open>Enough fuel\<close>

definition unseen :: "ResolvedPackage list \<Rightarrow> order_state \<Rightarrow> string set" where
  "unseen ps s = {x \<in> known_ids ps. state_of s x = kUnseen}"

lemma finite_unseen [simp]: "finite (unseen ps s)"
  by (simp add: unseen_def known_ids_def)

lemma visit_list_returns:
  assumes "\<And>x s. card (unseen ps s) < n \<Longrightarrow> \<exists>r. f x s = Some r \<and> (\<forall>s'. r = Inr s' \<longrightarrow> unseen ps s' \<subseteq> unseen ps s)"
    and "card (unseen ps s) < n"
  shows "\<exists>r. visit_list f xs s = Some r \<and> (\<forall>s'. r = Inr s' \<longrightarrow> unseen ps s' \<subseteq> unseen ps s)"
  using assms(2)
proof (induction xs arbitrary: s)
  case (Cons x xs)
  obtain r1 where r1: "f x s = Some r1" "\<forall>s'. r1 = Inr s' \<longrightarrow> unseen ps s' \<subseteq> unseen ps s" using assms(1) Cons.prems by blast
  show ?case
  proof (cases r1)
    case Inl
    with r1 show ?thesis by simp
  next
    case (Inr s1)
    then have sub: "unseen ps s1 \<subseteq> unseen ps s" using r1 by simp
    then have "card (unseen ps s1) < n" using Cons.prems card_mono [OF finite_unseen sub] by linarith
    from Cons.IH [OF this] sub Inr r1 show ?thesis by (auto dest: subsetD)
  qed
qed simp

lemma visit_returns:
  "card (unseen ps s) < n \<Longrightarrow> \<exists>r. visit ps n x s = Some r \<and> (\<forall>s'. r = Inr s' \<longrightarrow> unseen ps s' \<subseteq> unseen ps s)"
proof (induction n arbitrary: x s)
  case (Suc n)
  show ?case
  proof (cases "state_of s x = kUnseen \<and> x \<in> known_ids ps")
    case True
    then obtain p where p: "RequirePackageById ps x = Inr p"
      using RequirePackageById_cases(1) find_package_eq(1) by (metis option.exhaust)
    have u: "unseen ps (enter_package x s) = unseen ps s - {x}" "x \<in> unseen ps s" using True by (auto simp: unseen_def)
    then have "card (unseen ps (enter_package x s)) < n" using Suc.prems by (simp add: card_Diff_singleton) (metis Suc_pred card_gt_0_iff empty_iff finite_unseen not_less_eq)
    with visit_list_returns [where f = "visit ps n" and n = n and xs = "rk_dependencies p"] Suc.IH obtain r1
      where r1: "visit_list (visit ps n) (rk_dependencies p) (enter_package x s) = Some r1"
        "\<forall>s'. r1 = Inr s' \<longrightarrow> unseen ps s' \<subseteq> unseen ps (enter_package x s)" by blast
    show ?thesis
    proof (cases r1)
      case Inl
      with r1 p True show ?thesis by simp
    next
      case (Inr s1)
      then have "unseen ps (leave_package x s1) \<subseteq> unseen ps s" using r1(2) u by (auto simp: unseen_def split: if_splits)
      with Inr r1 p True show ?thesis by simp
    qed
  next
    case False
    have "RequirePackageById ps x = Inl (PlanError (''resolver graph references unknown package id: '' @ x))" if "state_of s x = kUnseen"
      using False that RequirePackageById_cases(2) by blast
    then show ?thesis by (cases "state_of s x") auto
  qed
qed simp

lemma start_order_inv: "order_inv ps start_order"
  by (simp add: order_inv_def start_order_def state_of_def)

lemma BuildPackageOrder_cases:
  obtains (ordered) order where "BuildPackageOrder g = Some (Inr order)" "distinct order"
      "set order = known_ids (rg_packages g)" "dependencies_first (rg_packages g) order"
  | (failed) e where "BuildPackageOrder g = Some (Inl e)" "order_error (rg_packages g) e"
proof -
  let ?ps = "rg_packages g" and ?n = "Suc (length (rg_packages g))" and ?xs = "sort (map rk_id (rg_packages g))"
  have "card (unseen ?ps start_order) < ?n"
    using card_mono [of "set ?ps" "set ?ps"] card_image_le [of "set ?ps" rk_id] card_length [of ?ps]
    by (auto simp: unseen_def known_ids_def start_order_def state_of_def intro: le_imp_less_Suc order_trans)
  with visit_list_returns [where f = "visit ?ps ?n" and n = ?n and xs = ?xs] visit_returns obtain r
    where r: "visit_list (visit ?ps ?n) ?xs start_order = Some r" by blast
  have xs: "set ?xs = known_ids ?ps" by (simp add: known_ids_def)
  have "order_post ?ps start_order (set ?xs) r"
  proof (rule visit_list_order [OF _ start_order_inv _ r])
    show "\<forall>x \<in> set ?xs. visitable ?ps start_order x" unfolding xs by (simp add: visitable_def start_order_def)
  qed (rule visit_order)
  then show thesis using r xs
    by (cases r) (auto simp: BuildPackageOrder_def rbind_def order_inv_def intro: ordered failed)
qed

definition orderable :: "ResolvedPackage list \<Rightarrow> bool" where
  "orderable ps \<longleftrightarrow> acyclic (depends ps) \<and> Range (depends ps) \<subseteq> known_ids ps"

text \<open>
  \<^bold>\<open>C20.\<close> The order of a compile plan is always found or refused, and found exactly when every
  dependency id is known and no package depends on itself through others. It lists every
  package once, after all packages it depends on; a refusal names a dependency that is
  unknown, or spells out a cycle of the graph.
\<close>

theorem BuildPackageOrder_topological:
  "case BuildPackageOrder g of
     None \<Rightarrow> False
   | Some (Inr order) \<Rightarrow>
       orderable (rg_packages g) \<and> distinct order \<and> set order = known_ids (rg_packages g) \<and> dependencies_first (rg_packages g) order
   | Some (Inl e) \<Rightarrow> \<not> orderable (rg_packages g) \<and> order_error (rg_packages g) e"
proof (cases rule: BuildPackageOrder_cases [of g])
  case (ordered order)
  then show ?thesis using dependencies_first_acyclic by (simp add: orderable_def)
next
  case (failed e)
  then have "\<not> orderable (rg_packages g)"
    using cycle_not_acyclic by (auto simp: order_error_def orderable_def)
  then show ?thesis using failed by simp
qed

section \<open>The whole plan\<close>

text \<open>The targets a request admits: the one it names, otherwise one that fits the intent.\<close>

definition target_admitted :: "BuildPlanRequest \<Rightarrow> SelectedTarget \<Rightarrow> bool" where
  "target_admitted request t =
     (if br_select_lib request then st_kind t = ''lib'' \<and> br_intent request = ''build''
      else case br_bin_name request of
        Some name \<Rightarrow> st_kind t = ''bin'' \<and> st_name t = name
      | None \<Rightarrow>
      (case br_test_name request of
        Some name \<Rightarrow> st_kind t = ''test'' \<and> st_name t = name
      | None \<Rightarrow>
          if br_intent request = ''test'' then st_kind t = ''test''
          else if br_intent request = ''run'' then st_kind t = ''bin''
          else st_kind t \<in> {''lib'', ''bin''}))"

lemma select_file_Inr:
  "select_file cwd fs package ctx kind name relative = Inr t \<longleftrightarrow>
     is_regular_file fs (AbsoluteTargetPath cwd package relative)
     \<and> t = \<lparr>st_package = package, st_kind = kind, st_name = name, st_file = AbsoluteTargetPath cwd package relative\<rparr>"
  by (auto simp: select_file_def Let_def rbind_eq_Inr RequireExistingSourceFile_def is_regular_file_def fs_exists_def
      split: option.splits if_splits)

lemmas select_target_defs = select_lib_target_def select_bin_target_def select_test_target_def select_file_Inr

lemma default_target_admitted:
  assumes "default_target cwd fs intent package = Inr t"
  shows "is_regular_file fs (st_file t)"
    and "if intent = ''test'' then st_kind t = ''test'' else if intent = ''run'' then st_kind t = ''bin'' else st_kind t \<in> {''lib'', ''bin''}"
  using assms by (auto simp: default_target_def Let_def select_target_defs split: if_splits list.splits option.splits)

lemma ResolveEntryTarget_admitted:
  assumes "ResolveEntryTarget cwd fs request package = Inr t" and "ValidateIntent (br_intent request) = Inr u"
  shows "target_admitted request t \<and> is_regular_file fs (st_file t)"
  using assms default_target_admitted [of cwd fs "br_intent request" package t]
  by (auto simp: ResolveEntryTarget_def target_admitted_def ValidateIntent_def guard_err_def Let_def select_target_defs find_Some_iff
      split: if_splits option.splits)

lemma CollectRootPackages_ids:
  assumes "CollectRootPackages g = Inr roots"
  shows "rk_id ` set roots \<subseteq> set (rg_root_ids g)" and "set roots \<subseteq> set (rg_packages g)"
proof -
  have "rmap (RequirePackageById (rg_packages g)) ids = Inr ps \<Longrightarrow> rk_id ` set ps \<subseteq> set ids \<and> set ps \<subseteq> set (rg_packages g)" for ids ps
  proof (induction ids arbitrary: ps)
    case (Cons x ids)
    then obtain p qs where *: "find_package (rg_packages g) x = Some p" "rmap (RequirePackageById (rg_packages g)) ids = Inr qs" "ps = p # qs"
      by (auto simp: rbind_eq_Inr RequirePackageById_cases)
    show ?case using find_package_eq(2) [OF *(1)] Cons.IH [OF *(2)] *(3) by auto
  qed simp
  note ids = this
  obtain qs where "rmap (RequirePackageById (rg_packages g)) (rg_root_ids g) = Inr qs" "set roots = set qs"
    using assms by (auto simp: CollectRootPackages_def rbind_eq_Inr)
  then show "rk_id ` set roots \<subseteq> set (rg_root_ids g)" and "set roots \<subseteq> set (rg_packages g)"
    using ids by auto
qed

lemma ResolveEntryPackage_root:
  assumes "ResolveEntryPackage request g = Inr p"
  shows "p \<in> set (rg_packages g) \<and> rk_id p \<in> set (rg_root_ids g)
    \<and> (case br_package_name request of None \<Rightarrow> True | Some name \<Rightarrow> pc_name (rk_package p) = name)"
proof -
  obtain roots where r: "CollectRootPackages g = Inr roots"
    using assms by (auto simp: ResolveEntryPackage_def rbind_eq_Inr)
  have "p \<in> set roots \<and> (case br_package_name request of None \<Rightarrow> True | Some name \<Rightarrow> pc_name (rk_package p) = name)"
    using assms r by (auto simp: ResolveEntryPackage_def rbind_def find_Some_iff filter_eq_Cons_iff length_Suc_conv
        split: if_splits option.splits list.splits)
  then show ?thesis using CollectRootPackages_ids [OF r] by auto
qed

lemma gather_inputs_Inr:
  assumes "gather_inputs cwd fs request g = Some (Inr i)"
  shows "pi_graph i = g" and "ResolveEntryPackage request g = Inr (pi_entry i)"
    and "ResolveEntryTarget cwd fs request (pi_entry i) = Inr (pi_target i)"
    and "BuildPackageOrder g = Some (Inr (pi_order i))" and "BuildSourceHash cwd fs g = Inr (pi_source_hash i)"
  using assms by (auto simp: gather_inputs_def rbind_eq_Inr split: sum.splits prod.splits)

lemma WriteBuildCompilePlan_Inr:
  assumes "WriteBuildCompilePlan V dump fuel request w = Some (Inr r, w')"
  obtains g w1 i where "ValidateIntent (br_intent request) = Inr ()"
    and "ResolveSingleVersionGraph V fuel (br_manifest_path request)
           \<lparr>ro_offline = br_offline request, ro_vendor_root = br_vendor_root request\<rparr> w = Some (Inr g, w1)"
    and "gather_inputs (oe_cwd (re_os V)) (w_fs w1) request g = Some (Inr i)" and "write_plan V dump request i w1 = (Inr r, w')"
  using assms by (auto simp: WriteBuildCompilePlan_def split: if_splits option.splits prod.splits sum.splits)

lemma write_plan_Inr:
  assumes "write_plan V dump request i w = (Inr r, w')"
  obtains r0 packages out where "r0 = plan_result (oe_cwd (re_os V)) request i"
    and "dump (plan_document (re_version V) request i r0 packages) = Inr out" and "r = r0\<lparr>bp_plan_json := out @ [CHR 0x0A]\<rparr>"
    and "w_fs w' (bp_plan_path r0) = Some (Regular (out @ [CHR 0x0A]))" and "w_log w' = w_log w"
  using assms
  by (auto simp: write_plan_def Let_def io_Inr io_simps iwrite_def create_directories_def split: if_splits)

lemma plan_document_order:
  "json_lookup (plan_document v request i r packages) ''resolution''
     = Some (json_obj [(''resolver'', JString ''single-version-v1''), (''package_order'', JArray (map JString (pi_order i)))])"
  by (simp add: plan_document_def Let_def)


definition plan_world :: os_world where
  "plan_world = pair_world\<lparr>w_fs := (w_fs pair_world)(''/p/src/lib.styio'' \<mapsto> Regular ''a'', ''/util/src/lib.styio'' \<mapsto> Regular ''b'')\<rparr>"

definition plan_request :: BuildPlanRequest where
  "plan_request = default_plan_request\<lparr>br_manifest_path := ''/p/spio.toml'', br_offline := True\<rparr>"

lemma plan_run: "\<exists>r w'. WriteBuildCompilePlan pair_env (\<lambda>_. Inr ''{}'') 3 plan_request plan_world = Some (Inr r, w')"
proof -
  have "(case WriteBuildCompilePlan pair_env (\<lambda>_. Inr ''{}'') 3 plan_request plan_world of Some (Inr r, w') \<Rightarrow> True | _ \<Rightarrow> False)"
    by code_simp
  then show ?thesis by (auto split: option.splits prod.splits sum.splits)
qed


end
