(* ===== verification/Registry_Tree.thy ===== *)
theory Registry_Tree
  imports Registry_Ids Os_World
begin

text \<open>
  The registry's directory tree (\<^verbatim>\<open>PackageRegistry/ControlPlane/RegistryIndexStore.hpp\<close>): a finite map from path
  text to files and directories, so that directories can be listed, and the operations on it
  as state transformers that return or throw. Directories are iterated in ascending order of
  their path text; the sources use the results only where the order does not matter or sort
  them first. A file stream that cannot be opened for writing drops what is written, as the
  sources do not test it. Symbolic links are not modelled, and one file has one spelling.
\<close>

section \<open>Fallible state transformers\<close>

type_synonym ('s, 'a) sm = "'s \<Rightarrow> 'a result \<times> 's"

named_theorems sm_simps

definition s_return :: "'a \<Rightarrow> ('s, 'a) sm" where "s_return x s = (Inr x, s)"
definition s_throw :: "platform_error \<Rightarrow> ('s, 'a) sm" where "s_throw e s = (Inl e, s)"
definition s_lift :: "'a result \<Rightarrow> ('s, 'a) sm" where "s_lift r s = (r, s)"
definition s_reads :: "('s \<Rightarrow> 'a) \<Rightarrow> ('s, 'a) sm" where "s_reads f s = (Inr (f s), s)"
definition s_change :: "('s \<Rightarrow> 's) \<Rightarrow> ('s, unit) sm" where "s_change f s = (Inr (), f s)"

definition s_bind :: "('s, 'a) sm \<Rightarrow> ('a \<Rightarrow> ('s, 'b) sm) \<Rightarrow> ('s, 'b) sm" where
  "s_bind m f s = (case m s of (Inl e, t) \<Rightarrow> (Inl e, t) | (Inr x, t) \<Rightarrow> f x t)"

definition s_guard :: "bool \<Rightarrow> platform_error \<Rightarrow> ('s, unit) sm" where
  "s_guard bad e = (if bad then s_throw e else s_return ())"

definition s_try :: "('s, 'a) sm \<Rightarrow> (platform_error \<Rightarrow> ('s, 'a) sm) \<Rightarrow> ('s, 'a) sm" where
  "s_try m h s = (case m s of (Inl e, t) \<Rightarrow> h e t | (Inr x, t) \<Rightarrow> (Inr x, t))"

fun s_each :: "('x \<Rightarrow> ('s, unit) sm) \<Rightarrow> 'x list \<Rightarrow> ('s, unit) sm" where
  "s_each f [] = s_return ()"
| "s_each f (x # xs) = s_bind (f x) (\<lambda>_. s_each f xs)"

lemma s_eqs [sm_simps]:
  "s_return x s = (Inr x, s)" "s_throw e s = (Inl e, s)" "s_lift r s = (r, s)" "s_reads f s = (Inr (f s), s)"
  "s_change g s = (Inr (), g s)"
  by (simp_all add: s_return_def s_throw_def s_lift_def s_reads_def s_change_def)

lemma s_bind_Inr: "s_bind m f s = (Inr y, u) \<longleftrightarrow> (\<exists>x t. m s = (Inr x, t) \<and> f x t = (Inr y, u))"
  by (auto simp: s_bind_def split: prod.splits sum.splits)

lemma s_bind_Inl: "s_bind m f s = (Inl e, u) \<longleftrightarrow> m s = (Inl e, u) \<or> (\<exists>x t. m s = (Inr x, t) \<and> f x t = (Inl e, u))"
  by (auto simp: s_bind_def split: prod.splits sum.splits)

lemma s_guard_Inr: "s_guard bad e s = (Inr u, t) \<longleftrightarrow> \<not> bad \<and> t = s"
  by (auto simp: s_guard_def sm_simps)

lemmas sm_Inr = s_bind_Inr s_guard_Inr

text \<open>What every way through a computation keeps: the locale is the contract of a relation
  between the states before and after, its lemmas carry it through the combinators.\<close>

definition framed :: "('s \<Rightarrow> 's \<Rightarrow> bool) \<Rightarrow> ('s, 'a) sm \<Rightarrow> bool" where
  "framed R m \<longleftrightarrow> (\<forall>s. R s (snd (m s)))"

locale frame =
  fixes R :: "'s \<Rightarrow> 's \<Rightarrow> bool"
  assumes R_refl: "R s s"
    and R_trans: "R s t \<Longrightarrow> R t u \<Longrightarrow> R s u"
begin

lemma framed_basic:
  "framed R (s_return x)" "framed R (s_throw e)" "framed R (s_lift r)" "framed R (s_reads f)" "framed R (s_guard bad e)"
  by (simp_all add: framed_def sm_simps s_guard_def R_refl)

lemma framed_bind: "framed R m \<Longrightarrow> (\<And>x. framed R (f x)) \<Longrightarrow> framed R (s_bind m f)"
  unfolding framed_def s_bind_def by (smt (verit) R_trans prod.case_eq_if snd_conv sum.case_eq_if)

lemma framed_bind_value:
  assumes "framed R m" and "\<And>x s t. m s = (Inr x, t) \<Longrightarrow> framed R (f x)"
  shows "framed R (s_bind m f)"
  unfolding framed_def s_bind_def
proof
  fix s
  obtain r t where m: "m s = (r, t)" by (cases "m s")
  with assms(1) have "R s t" unfolding framed_def by (metis snd_conv)
  then show "R s (snd (case m s of (Inl e, t) \<Rightarrow> (Inl e, t) | (Inr x, t) \<Rightarrow> f x t))"
    using assms(2) m R_trans by (cases r) (auto simp: framed_def)
qed

lemma framed_try: "framed R m \<Longrightarrow> (\<And>e. framed R (h e)) \<Longrightarrow> framed R (s_try m h)"
  unfolding framed_def s_try_def by (smt (verit) R_trans prod.case_eq_if snd_conv sum.case_eq_if)

lemma framed_each: "(\<And>x. x \<in> set xs \<Longrightarrow> framed R (f x)) \<Longrightarrow> framed R (s_each f xs)"
  by (induction xs) (auto intro: framed_bind framed_basic)

lemma framed_change: "(\<And>s. R s (g s)) \<Longrightarrow> framed R (s_change g)"
  by (simp add: framed_def sm_simps)

lemma framed_if: "(b \<Longrightarrow> framed R m) \<Longrightarrow> (\<not> b \<Longrightarrow> framed R m') \<Longrightarrow> framed R (if b then m else m')"
  by simp

lemma framed_option: "framed R m \<Longrightarrow> (\<And>x. framed R (f x)) \<Longrightarrow> framed R (case v of None \<Rightarrow> m | Some x \<Rightarrow> f x)"
  by (cases v) auto

lemma framed_prod: "(\<And>x y. framed R (f x y)) \<Longrightarrow> framed R (case v of (x, y) \<Rightarrow> f x y)"
  by (cases v) auto

lemma framed_let: "framed R (f v) \<Longrightarrow> framed R (let x = v in f x)"
  by simp

lemmas framed_intros = framed_basic framed_bind framed_try framed_each framed_change framed_if framed_option framed_prod framed_let

end

section \<open>Files and directories\<close>

type_synonym tree = "(fs_path, fs_node) smap"

definition tree_exists :: "tree \<Rightarrow> fs_path \<Rightarrow> bool" where
  "tree_exists t p = smap_contains t p"

fun is_regular :: "fs_node option \<Rightarrow> bool" where
  "is_regular (Some (Regular text)) = True"
| "is_regular _ = False"

definition tree_text :: "tree \<Rightarrow> fs_path \<Rightarrow> string option" where
  "tree_text t p = (case smap_find t p of Some (Regular text) \<Rightarrow> Some text | _ \<Rightarrow> None)"

text \<open>The directories above a path, the nearest last.\<close>

definition ancestors :: "fs_path \<Rightarrow> fs_path list" where
  "ancestors p = map (\<lambda>i. take i p) (filter (\<lambda>i. p ! i = CHR ''/'') [1..<length p])"

definition mkdirs :: "fs_path \<Rightarrow> (tree, unit) sm" where
  "mkdirs p t =
     (if list_ex (\<lambda>a. is_regular (smap_find t a)) (ancestors p @ [p])
      then (Inl (RuntimeError (''cannot create directories: '' @ p)), t)
      else (Inr (), foldl (\<lambda>t a. if smap_contains t a then t else smap_put a Directory t) t (ancestors p @ [p])))"

definition put_file :: "fs_path \<Rightarrow> string \<Rightarrow> tree \<Rightarrow> tree" where
  "put_file p text t = (if smap_find t p = Some Directory then t else smap_put p (Regular text) t)"

definition append_file :: "fs_path \<Rightarrow> string \<Rightarrow> tree \<Rightarrow> tree" where
  "append_file p text t = put_file p ((case tree_text t p of None \<Rightarrow> [] | Some old \<Rightarrow> old) @ text) t"

definition WriteTextFile :: "fs_path \<Rightarrow> string \<Rightarrow> (tree, unit) sm" where
  "WriteTextFile p payload = s_bind (mkdirs (path_parent p)) (\<lambda>_. s_change (put_file p payload))"

definition ReadFileBytes :: "fs_path \<Rightarrow> tree \<Rightarrow> string result" where
  "ReadFileBytes p t =
     (case smap_find t p of
        None \<Rightarrow> Inl (RuntimeError (''failed to read file: '' @ p))
      | Some Directory \<Rightarrow> Inr []
      | Some (Regular text) \<Rightarrow> Inr text)"

text \<open>The path text that all entries below a directory start with.\<close>

definition dir_prefix :: "fs_path \<Rightarrow> string" where
  "dir_prefix root_path = path_div root_path []"

definition below :: "fs_path \<Rightarrow> fs_path \<Rightarrow> bool" where
  "below root_path p = (starts_with p (dir_prefix root_path) \<and> p \<noteq> dir_prefix root_path)"

definition relative_to :: "fs_path \<Rightarrow> fs_path \<Rightarrow> string" where
  "relative_to root_path p = drop (length (dir_prefix root_path)) p"

definition entries_below :: "tree \<Rightarrow> fs_path \<Rightarrow> (fs_path \<times> fs_node) list" where
  "entries_below t root_path = filter (\<lambda>e. below root_path (fst e)) t"

definition files_below :: "tree \<Rightarrow> fs_path \<Rightarrow> fs_path list" where
  "files_below t root_path = map fst (filter (\<lambda>e. is_regular (Some (snd e))) (entries_below t root_path))"

definition children :: "tree \<Rightarrow> fs_path \<Rightarrow> (fs_path \<times> fs_node) list" where
  "children t root_path = filter (\<lambda>e. CHR ''/'' \<notin> set (relative_to root_path (fst e))) (entries_below t root_path)"

definition path_extension :: "fs_path \<Rightarrow> string" where
  "path_extension p =
     (let name = path_filename p in
      case rfind_char (CHR ''.'') name of
        None \<Rightarrow> []
      | Some i \<Rightarrow> if i = 0 \<or> name = ''..'' then [] else drop i name)"

definition remove_path :: "fs_path \<Rightarrow> tree \<Rightarrow> tree" where
  "remove_path p t = smap_erase p t"

definition remove_all :: "fs_path \<Rightarrow> tree \<Rightarrow> tree" where
  "remove_all p t = filter (\<lambda>e. fst e \<noteq> p \<and> \<not> below p (fst e)) t"

text \<open>\<^verbatim>\<open>fs::copy\<close> with \<^verbatim>\<open>recursive | overwrite_existing\<close>: a file does not replace a directory, nor the converse.\<close>

fun same_kind :: "fs_node option \<Rightarrow> fs_node \<Rightarrow> bool" where
  "same_kind None n = True"
| "same_kind (Some Directory) n = (n = Directory)"
| "same_kind (Some (Regular text)) n = (n \<noteq> Directory)"

definition copy_entries :: "fs_path \<Rightarrow> fs_path \<Rightarrow> tree \<Rightarrow> (fs_path \<times> fs_node) list" where
  "copy_entries source dest t =
     map (\<lambda>e. (dest @ drop (length source) (fst e), snd e)) (filter (\<lambda>e. fst e = source \<or> below source (fst e)) t)"

definition copy_tree :: "platform_error \<Rightarrow> fs_path \<Rightarrow> fs_path \<Rightarrow> (tree, unit) sm" where
  "copy_tree err source dest t =
     (if list_ex (\<lambda>e. \<not> same_kind (smap_find t (fst e)) (snd e)) (copy_entries source dest t) then (Inl err, t)
      else (Inr (), foldl (\<lambda>t e. smap_put (fst e) (snd e) t) t (copy_entries source dest t)))"

definition copy_file :: "platform_error \<Rightarrow> fs_path \<Rightarrow> fs_path \<Rightarrow> (tree, unit) sm" where
  "copy_file err source dest t =
     (case tree_text t source of
        None \<Rightarrow> (Inl err, t)
      | Some text \<Rightarrow> if smap_find t dest = Some Directory then (Inl err, t) else (Inr (), smap_put dest (Regular text) t))"

text \<open>A path that exists, or that something exists below.\<close>

definition occupied :: "tree \<Rightarrow> fs_path \<Rightarrow> bool" where
  "occupied t p = list_ex (\<lambda>e. fst e = p \<or> below p (fst e)) t"

definition rename_tree :: "platform_error \<Rightarrow> fs_path \<Rightarrow> fs_path \<Rightarrow> (tree, unit) sm" where
  "rename_tree err source dest t =
     (if tree_exists t source \<and> source = dest then (Inr (), t)
      else if \<not> tree_exists t source \<or> occupied t dest then (Inl err, t)
      else (Inr (), foldl (\<lambda>t e. smap_put (fst e) (snd e) t) (remove_all source t) (copy_entries source dest t)))"

section \<open>JSON text\<close>

text \<open>The JSON library: parsing, and printing compactly and with indentation, which throw on text
  that is not UTF-8. \<^verbatim>\<open>CanonicalJson\<close> and \<^verbatim>\<open>dump()\<close> print the same text.\<close>

record json_lib =
  jl_parse :: "string \<Rightarrow> json option"
  jl_dump :: "json \<Rightarrow> string result"
  jl_dump2 :: "json \<Rightarrow> string result"

definition json_parse :: "json_lib \<Rightarrow> string \<Rightarrow> json result" where
  "json_parse L text = (case jl_parse L text of None \<Rightarrow> Inl JsonError | Some j \<Rightarrow> Inr j)"

definition CanonicalJson :: "json_lib \<Rightarrow> json \<Rightarrow> string result" where
  "CanonicalJson L payload = jl_dump L payload"

definition JsonText :: "json_lib \<Rightarrow> json \<Rightarrow> string result" where
  "JsonText L payload = rbind (jl_dump2 L payload) (\<lambda>text. Inr (text @ [CHR 0x0A]))"

definition write_json :: "json_lib \<Rightarrow> fs_path \<Rightarrow> json \<Rightarrow> (tree, unit) sm" where
  "write_json L p payload = s_bind (s_lift (JsonText L payload)) (WriteTextFile p)"

section \<open>The package index\<close>

definition index_file :: "fs_path \<Rightarrow> string \<Rightarrow> fs_path" where
  "index_file registry_root package = path_div registry_root (RegistryIndexPathForPackage package)"

definition JsonLineHasRelease :: "json_lib \<Rightarrow> string \<Rightarrow> string \<Rightarrow> string \<Rightarrow> bool" where
  "JsonLineHasRelease L line package version =
     (case jl_parse L line of
        None \<Rightarrow> False
      | Some entry \<Rightarrow> json_value get_string entry ''package'' [] = Inr package \<and> json_value get_string entry ''version'' [] = Inr version)"

definition text_lines :: "string option \<Rightarrow> string list" where
  "text_lines text = (case text of None \<Rightarrow> [] | Some s \<Rightarrow> getlines (CHR 0x0A) s)"

definition ReleaseExistsOnDisk :: "json_lib \<Rightarrow> fs_path \<Rightarrow> string \<Rightarrow> string \<Rightarrow> tree \<Rightarrow> bool" where
  "ReleaseExistsOnDisk L registry_root package version t =
     list_ex (\<lambda>line. JsonLineHasRelease L line package version) (text_lines (tree_text t (index_file registry_root package)))"

definition index_records :: "json_lib \<Rightarrow> string option \<Rightarrow> json list result" where
  "index_records L text = rmap (json_parse L) (filter (\<lambda>line. line \<noteq> []) (text_lines text))"

definition ReadPackageIndexRecords :: "json_lib \<Rightarrow> fs_path \<Rightarrow> string \<Rightarrow> tree \<Rightarrow> json list result" where
  "ReadPackageIndexRecords L registry_root package t = index_records L (tree_text t (index_file registry_root package))"

definition append_json_line :: "json_lib \<Rightarrow> fs_path \<Rightarrow> json \<Rightarrow> (tree, unit) sm" where
  "append_json_line L p payload =
     s_bind (s_change (append_file p [])) (\<lambda>_.
     s_bind (s_lift (jl_dump L payload)) (\<lambda>line. s_change (append_file p (line @ [CHR 0x0A]))))"

definition AppendJsonLine :: "json_lib \<Rightarrow> fs_path \<Rightarrow> json \<Rightarrow> (tree, unit) sm" where
  "AppendJsonLine L p payload = s_bind (mkdirs (path_parent p)) (\<lambda>_. append_json_line L p payload)"

definition WritePackageIndexRecords :: "json_lib \<Rightarrow> fs_path \<Rightarrow> string \<Rightarrow> json list \<Rightarrow> (tree, unit) sm" where
  "WritePackageIndexRecords L registry_root package records =
     (let p = index_file registry_root package in
      s_bind (mkdirs (path_parent p)) (\<lambda>_.
      s_bind (s_change (put_file p [])) (\<lambda>_. s_each (append_json_line L p) records)))"

fun insert_by :: "('a \<Rightarrow> 'a \<Rightarrow> bool) \<Rightarrow> 'a \<Rightarrow> 'a list \<Rightarrow> 'a list" where
  "insert_by before x [] = [x]"
| "insert_by before x (y # ys) = (if before x y then x # y # ys else y # insert_by before x ys)"

definition sort_versions :: "string list \<Rightarrow> string list" where
  "sort_versions versions = foldl (\<lambda>sorted_part v. insert_by VersionLess v sorted_part) [] versions"

definition release_summary :: "json \<Rightarrow> json result" where
  "release_summary record =
     rbind (json_string_at record ''version'') (\<lambda>version.
     rbind (json_value get_string record ''publisher_id'' []) (\<lambda>publisher_id.
     rbind (json_value get_string record ''published_at'' []) (\<lambda>published_at.
     rbind (json_value get_bool record ''yanked'' False) (\<lambda>yanked.
     rbind (json_at record ''source_artifact'') (\<lambda>artifact.
     rbind (json_string_at artifact ''sha256'') (\<lambda>sha256.
     rbind (json_string_at artifact ''path'') (\<lambda>path.
       Inr (json_obj [
         (''version'', JString version), (''publisher_id'', JString publisher_id), (''published_at'', JString published_at),
         (''yanked'', JBool yanked), (''source_artifact_sha256'', JString sha256), (''source_artifact_path'', JString path)]))))))))"

definition package_namespace_of :: "string \<Rightarrow> string" where
  "package_namespace_of package = takeWhile (\<lambda>c. c \<noteq> CHR ''/'') package"

definition package_name_of :: "string \<Rightarrow> string" where
  "package_name_of package = (case find_char (CHR ''/'') package of None \<Rightarrow> package | Some i \<Rightarrow> drop (i + 1) package)"

definition PackagePayloadFromIndex :: "json_lib \<Rightarrow> fs_path \<Rightarrow> string \<Rightarrow> tree \<Rightarrow> json result" where
  "PackagePayloadFromIndex L registry_root package t =
     rbind (ReadPackageIndexRecords L registry_root package t) (\<lambda>records.
     if records = [] then Inl (RuntimeError ''package is not found'')
     else
       rbind (rmap release_summary records) (\<lambda>releases.
       rbind (rmap (\<lambda>record. json_string_at record ''version'') records) (\<lambda>versions.
       Inr (json_obj [
         (''package_id'', JString package),
         (''namespace'', JString (package_namespace_of package)),
         (''name'', JString (package_name_of package)),
         (''visibility'', JString ''public''),
         (''latest_version'', JString (last (sort_versions versions))),
         (''release_count'', JInt (int (length records))),
         (''releases'', JArray releases)]))))"

fun find_version :: "string \<Rightarrow> json list \<Rightarrow> json option result" where
  "find_version version [] = Inr None"
| "find_version version (record # records) =
     rbind (json_value get_string record ''version'' []) (\<lambda>v. if v = version then Inr (Some record) else find_version version records)"

definition PackageReleasePayloadFromIndex :: "json_lib \<Rightarrow> fs_path \<Rightarrow> string \<Rightarrow> string \<Rightarrow> tree \<Rightarrow> json option result" where
  "PackageReleasePayloadFromIndex L registry_root package version t =
     rbind (ReadPackageIndexRecords L registry_root package t) (find_version version)"

section \<open>Counting and digests\<close>

definition CountRegularFiles :: "fs_path \<Rightarrow> tree \<Rightarrow> nat" where
  "CountRegularFiles root_path t = (if tree_exists t root_path then length (files_below t root_path) else 0)"

definition CountIndexReleases :: "fs_path \<Rightarrow> tree \<Rightarrow> nat" where
  "CountIndexReleases index_root t =
     (if tree_exists t index_root
      then sum_list (map (\<lambda>p. length (filter (\<lambda>line. line \<noteq> []) (text_lines (tree_text t p))))
             (filter (\<lambda>p. path_extension p = ''.jsonl'') (files_below t index_root)))
      else 0)"

definition CountNamespaces :: "fs_path \<Rightarrow> tree \<Rightarrow> nat" where
  "CountNamespaces index_root t =
     (if tree_exists t index_root then length (filter (\<lambda>e. snd e = Directory) (children t index_root)) else 0)"

definition WriteJsonFileIfMissing :: "json_lib \<Rightarrow> fs_path \<Rightarrow> json \<Rightarrow> (tree, unit) sm" where
  "WriteJsonFileIfMissing L p payload =
     s_bind (s_reads (\<lambda>t. tree_exists t p)) (\<lambda>present.
     if present then s_return ()
     else s_bind (mkdirs (path_parent p)) (\<lambda>_.
          s_bind (s_change (put_file p [])) (\<lambda>_.
          s_bind (s_lift (JsonText L payload)) (\<lambda>text. s_change (put_file p text)))))"

definition digest_entry :: "fs_path \<Rightarrow> tree \<Rightarrow> fs_path \<Rightarrow> json result" where
  "digest_entry root_path t p =
     rbind (sha256_file (smap_find t) p) (\<lambda>sha.
       Inr (json_obj [(''path'', JString (relative_to root_path p)), (''sha256'', JString sha)]))"

definition DirectoryDigest :: "json_lib \<Rightarrow> (string \<Rightarrow> 8 word list) \<Rightarrow> fs_path \<Rightarrow> tree \<Rightarrow> string result" where
  "DirectoryDigest L SHA256 root_path t =
     rbind (if tree_exists t root_path then rmap (digest_entry root_path t) (sort_key path_elements (files_below t root_path)) else Inr [])
       (\<lambda>files. rbind (CanonicalJson L (JArray files)) (\<lambda>text. Inr (''sha256:'' @ Sha256Bytes SHA256 text)))"

text \<open>\<^verbatim>\<open>std::stoul\<close> in base 10: white space, an optional sign, digits; \<open>None\<close> is its exception.\<close>

definition stoul :: "string \<Rightarrow> 64 word option" where
  "stoul s =
     (let t = dropWhile is_space s;
          neg = (t \<noteq> [] \<and> hd t = CHR ''-'');
          u = (if t \<noteq> [] \<and> (hd t = CHR ''-'' \<or> hd t = CHR ''+'') then tl t else t);
          digits = takeWhile is_digit u; v = text_val 10 digits
      in if digits = [] \<or> 2 ^ 64 \<le> v then None else Some (if neg then - of_nat v else of_nat v))"

definition publication_number :: "64 word \<Rightarrow> string \<Rightarrow> 64 word" where
  "publication_number sequence name =
     (if starts_with name ''pub-'' then (case stoul (drop 4 name) of None \<Rightarrow> sequence | Some n \<Rightarrow> max sequence (n + 1)) else sequence)"

definition NextPublicationSequenceOnDisk :: "fs_path \<Rightarrow> tree \<Rightarrow> 64 word" where
  "NextPublicationSequenceOnDisk registry_root t =
     (let publications_root = path_div registry_root ''_publications'' in
      if \<not> tree_exists t publications_root then 1
      else foldl publication_number 1
             (map (path_filename \<circ> fst) (filter (\<lambda>e. snd e = Directory) (children t publications_root))))"

section \<open>The read plane\<close>

definition read_plane :: "string list" where
  "read_plane = [''index'', ''artifacts'', ''trust'', ''log'']"

definition CopyRegistryReadPlaneTo :: "fs_path \<Rightarrow> fs_path \<Rightarrow> (tree, unit) sm" where
  "CopyRegistryReadPlaneTo registry_root dest =
     s_bind (mkdirs dest) (\<lambda>_.
     s_bind (s_each (\<lambda>entry.
         s_bind (s_reads (\<lambda>t. tree_exists t (path_div registry_root entry))) (\<lambda>present.
         if present then copy_tree (RuntimeError ''failed to copy registry publication tree: '') (path_div registry_root entry) (path_div dest entry)
         else s_return ())) read_plane) (\<lambda>_.
     copy_file (RuntimeError ''failed to copy registry publication config: '') (path_div registry_root ''config.json'') (path_div dest ''config.json'')))"

definition clear_read_plane :: "fs_path \<Rightarrow> tree \<Rightarrow> tree" where
  "clear_read_plane registry_root t =
     foldl (\<lambda>t entry. remove_all (path_div registry_root entry) t) (remove_path (path_div registry_root ''config.json'') t) read_plane"

definition MaterializePublicationToRoot :: "fs_path \<Rightarrow> fs_path \<Rightarrow> (tree, unit) sm" where
  "MaterializePublicationToRoot registry_root publication_root =
     s_bind (s_change (clear_read_plane registry_root)) (\<lambda>_. CopyRegistryReadPlaneTo publication_root registry_root)"

definition pointer_path :: "fs_path \<Rightarrow> string \<Rightarrow> fs_path" where
  "pointer_path registry_root distribution_id =
     path_div (path_div (path_div registry_root ''_distributions'') distribution_id) ''current.json''"

definition CurrentDistributionPointer :: "json_lib \<Rightarrow> fs_path \<Rightarrow> string \<Rightarrow> tree \<Rightarrow> json option result" where
  "CurrentDistributionPointer L registry_root distribution_id t =
     (let pointer = pointer_path registry_root distribution_id in
      if \<not> tree_exists t pointer then Inr None
      else rbind (ReadFileBytes pointer t) (\<lambda>text. rbind (json_parse L text) (\<lambda>j. Inr (Some j))))"

end
