(* ===== verification/Registry_Trust.thy ===== *)
theory Registry_Trust
  imports Registry_Tree
begin

text \<open>
  Signed metadata of the registry (\<^verbatim>\<open>PackageRegistry/ControlPlane/RegistryTrustMetadata.hpp\<close>): role keys, signed
  documents, the transparency log's root hash and the metadata that is written anew for every
  change. OpenSSL's programs and functions, the clocks and the JSON library are the record
  \<open>trust_env\<close>; a run of \<^verbatim>\<open>openssl\<close> may change the tree, as \<^verbatim>\<open>-out\<close> does.
\<close>

record trust_env =
  te_json :: json_lib
  te_sha256 :: "string \<Rightarrow> 8 word list"
  te_base64 :: "string \<Rightarrow> string"
  te_openssl :: "ProcessRequest \<Rightarrow> tree \<Rightarrow> (string + ProcessResult) \<times> tree"
  te_stamp :: string
  te_now :: string
  te_plus_days :: "nat \<Rightarrow> string"

definition openssl_request :: "string list \<Rightarrow> string \<Rightarrow> nat \<Rightarrow> ProcessRequest" where
  "openssl_request args input max_stdout_bytes =
     (process_request ''openssl'' args)\<lparr>pr_timeout := Some 30000, pr_max_stdout_bytes := max_stdout_bytes,
        pr_max_stderr_bytes := 1048576, pr_stdin_text := input, pr_error_context := ''registry v2 openssl command''\<rparr>"

definition RunRegistryOpenSsl :: "trust_env \<Rightarrow> string list \<Rightarrow> string \<Rightarrow> nat \<Rightarrow> (tree, ProcessResult) sm" where
  "RunRegistryOpenSsl env args input max_stdout_bytes t =
     (case te_openssl env (openssl_request args input max_stdout_bytes) t of
        (Inl what, u) \<Rightarrow> (Inl (RuntimeError what), u)
      | (Inr r, u) \<Rightarrow>
          if ps_exit_code r \<noteq> 0 \<or> ps_timed_out r
          then (Inl (RuntimeError (''registry v2 openssl command failed: '' @ DescribeProcessFailure r)), u)
          else (Inr r, u))"

section \<open>Role keys\<close>

record RegistryRoleKey =
  rr_role :: string
  rr_keyid :: string
  rr_private_key_path :: fs_path
  rr_public_key_path :: fs_path
  rr_public_key_pem :: string

definition RegistryRoleNames :: "string list" where
  "RegistryRoleNames = [''root'', ''timestamp'', ''snapshot'', ''targets'', ''log'']"

definition RegistryFileKeyId :: "trust_env \<Rightarrow> fs_path \<Rightarrow> (tree, string) sm" where
  "RegistryFileKeyId env public_key_path =
     s_bind (RunRegistryOpenSsl env [''pkey'', ''-pubin'', ''-in'', public_key_path, ''-outform'', ''DER''] [] 65536) (\<lambda>der.
     s_return (Sha256Bytes (te_sha256 env) (ps_stdout_text der)))"

definition generate_role_key :: "trust_env \<Rightarrow> fs_path \<Rightarrow> string \<Rightarrow> json \<Rightarrow> (tree, json) sm" where
  "generate_role_key env key_dir role roles =
     (let private_key = path_div (path_div key_dir ''private'') (role @ ''.pem'');
          public_key = path_div (path_div key_dir ''public'') (role @ ''.pem'') in
      s_bind (s_reads (\<lambda>t. tree_exists t private_key \<and> tree_exists t public_key)) (\<lambda>present.
      s_bind (if present then s_return ()
              else s_bind (RunRegistryOpenSsl env [''genpkey'', ''-algorithm'', ''Ed25519'', ''-out'', private_key] [] 1048576) (\<lambda>_.
                   s_bind (RunRegistryOpenSsl env [''pkey'', ''-in'', private_key, ''-pubout'', ''-out'', public_key] [] 1048576) (\<lambda>_.
                   s_return ()))) (\<lambda>_.
      s_bind (RegistryFileKeyId env public_key) (\<lambda>keyid.
      s_return (json_set role (json_obj [
        (''keyid'', JString keyid),
        (''private_key_path'', JString (''private/'' @ role @ ''.pem'')),
        (''public_key_path'', JString (''public/'' @ role @ ''.pem''))]) roles)))))"

fun generate_role_keys :: "trust_env \<Rightarrow> fs_path \<Rightarrow> string list \<Rightarrow> json \<Rightarrow> (tree, json) sm" where
  "generate_role_keys env key_dir [] roles = s_return roles"
| "generate_role_keys env key_dir (role # rest) roles =
     s_bind (generate_role_key env key_dir role roles) (generate_role_keys env key_dir rest)"

definition GenerateRegistryKeyDirectory :: "trust_env \<Rightarrow> fs_path \<Rightarrow> (tree, unit) sm" where
  "GenerateRegistryKeyDirectory env key_dir =
     s_bind (mkdirs (path_div key_dir ''private'')) (\<lambda>_.
     s_bind (mkdirs (path_div key_dir ''public'')) (\<lambda>_.
     s_bind (generate_role_keys env key_dir RegistryRoleNames (json_obj [])) (\<lambda>roles.
     write_json (te_json env) (path_div key_dir ''keys.json'')
       (json_obj [(''schema_version'', JInt 1), (''algorithm'', JString ''ed25519''), (''roles'', roles)]))))"

definition load_role_key :: "fs_path \<Rightarrow> json \<Rightarrow> tree \<Rightarrow> string \<Rightarrow> (string \<times> RegistryRoleKey) result" where
  "load_role_key key_dir manifest t role =
     rbind (json_at manifest ''roles'') (\<lambda>roles.
     rbind (json_at roles role) (\<lambda>payload.
     rbind (json_string_at payload ''keyid'') (\<lambda>keyid.
     rbind (json_string_at payload ''private_key_path'') (\<lambda>private_key.
     rbind (json_string_at payload ''public_key_path'') (\<lambda>public_key.
     rbind (ReadFileBytes (path_div key_dir public_key) t) (\<lambda>pem.
     Inr (role, \<lparr>rr_role = role, rr_keyid = keyid, rr_private_key_path = path_div key_dir private_key,
                 rr_public_key_path = path_div key_dir public_key, rr_public_key_pem = pem\<rparr>)))))))"

definition LoadOrCreateRegistryRoleKeys :: "trust_env \<Rightarrow> fs_path \<Rightarrow> (tree, (string, RegistryRoleKey) smap) sm" where
  "LoadOrCreateRegistryRoleKeys env key_dir =
     (let keys_path = path_div key_dir ''keys.json'' in
      s_bind (s_reads (\<lambda>t. tree_exists t keys_path)) (\<lambda>present.
      s_bind (if present then s_return () else GenerateRegistryKeyDirectory env key_dir) (\<lambda>_.
      s_bind (s_reads (\<lambda>t. rbind (ReadFileBytes keys_path t) (\<lambda>text. rbind (json_parse (te_json env) text) (\<lambda>manifest.
                rmap (load_role_key key_dir manifest t) RegistryRoleNames)))) (\<lambda>loaded.
      s_bind (s_lift loaded) (\<lambda>loaded.
      s_return (foldl (\<lambda>m e. smap_put (fst e) (snd e) m) [] loaded))))))"

definition RegistryRoleKeysPayload :: "(string, RegistryRoleKey) smap \<Rightarrow> json" where
  "RegistryRoleKeysPayload role_keys =
     foldl (\<lambda>j key. json_set (rr_keyid key) (json_obj [
         (''keytype'', JString ''ed25519''), (''scheme'', JString ''ed25519''),
         (''keyval'', json_obj [(''public'', JString (rr_public_key_pem key))])]) j) (json_obj []) (smap_values role_keys)"

definition role_key :: "(string, RegistryRoleKey) smap \<Rightarrow> string \<Rightarrow> RegistryRoleKey result" where
  "role_key role_keys role = (case smap_find role_keys role of None \<Rightarrow> Inl OutOfRange | Some k \<Rightarrow> Inr k)"

definition RegistryRolesPolicyPayload :: "(string, RegistryRoleKey) smap \<Rightarrow> json result" where
  "RegistryRolesPolicyPayload role_keys =
     rbind (rmap (\<lambda>role. rbind (role_key role_keys role) (\<lambda>k.
              Inr (role, json_obj [(''keyids'', JArray [JString (rr_keyid k)]), (''threshold'', JInt 1)]))) RegistryRoleNames)
       (\<lambda>entries. Inr (json_obj entries))"

section \<open>Signed documents\<close>

definition signature_files :: "trust_env \<Rightarrow> RegistryRoleKey \<Rightarrow> fs_path \<Rightarrow> fs_path \<times> fs_path" where
  "signature_files env key temp_root =
     (path_div temp_root (rr_role key @ ''-'' @ te_stamp env @ ''.json''), path_div temp_root (rr_role key @ ''-'' @ te_stamp env @ ''.sig''))"

definition sign_message :: "trust_env \<Rightarrow> RegistryRoleKey \<Rightarrow> fs_path \<Rightarrow> fs_path \<Rightarrow> (tree, string) sm" where
  "sign_message env key message_path signature_path =
     s_bind (RunRegistryOpenSsl env [''pkeyutl'', ''-sign'', ''-inkey'', rr_private_key_path key, ''-rawin'', ''-in'', message_path,
               ''-out'', signature_path] [] 1048576) (\<lambda>_.
     s_bind (s_reads (ReadFileBytes signature_path)) s_lift)"

definition drop_signature_files :: "fs_path \<Rightarrow> fs_path \<Rightarrow> tree \<Rightarrow> tree" where
  "drop_signature_files message_path signature_path t = remove_path signature_path (remove_path message_path t)"

definition SignedRegistryPayload :: "trust_env \<Rightarrow> json \<Rightarrow> RegistryRoleKey \<Rightarrow> fs_path \<Rightarrow> (tree, json) sm" where
  "SignedRegistryPayload env signed_payload key temp_root =
     (case signature_files env key temp_root of (message_path, signature_path) \<Rightarrow>
      s_bind (mkdirs temp_root) (\<lambda>_.
      s_bind (s_lift (CanonicalJson (te_json env) signed_payload)) (\<lambda>message.
      s_bind (WriteTextFile message_path message) (\<lambda>_.
      s_bind (s_try (sign_message env key message_path signature_path)
                (\<lambda>e. s_bind (s_change (drop_signature_files message_path signature_path)) (\<lambda>_. s_throw e))) (\<lambda>signature.
      s_bind (s_change (drop_signature_files message_path signature_path)) (\<lambda>_.
      s_return (json_obj [
        (''signed'', signed_payload),
        (''signatures'', JArray [json_obj [(''keyid'', JString (rr_keyid key)), (''sig'', JString (te_base64 env signature))]])])))))))"

definition write_signed :: "trust_env \<Rightarrow> (string, RegistryRoleKey) smap \<Rightarrow> fs_path \<Rightarrow> string \<Rightarrow> fs_path \<Rightarrow> json \<Rightarrow> (tree, unit) sm" where
  "write_signed env role_keys temp_root role p payload =
     s_bind (s_lift (role_key role_keys role)) (\<lambda>key.
     s_bind (SignedRegistryPayload env payload key temp_root) (write_json (te_json env) p))"

section \<open>Payloads\<close>

definition RegistryConfigPayload :: "PlatformConfig \<Rightarrow> string \<Rightarrow> json" where
  "RegistryConfigPayload config generated_at =
     json_obj [
       (''schema_version'', JInt 1),
       (''protocol'', JString ''spio-static-registry''),
       (''protocol_version'', JInt 2),
       (''registry_name'', JString (rg_registry_name (cfg_registry config))),
       (''generated_at'', JString generated_at),
       (''capabilities'', json_obj [
          (''append_only_index'', JBool True), (''source_artifacts'', JBool True), (''binary_artifacts'', JBool True),
          (''transparency_log'', JBool True)]),
       (''paths'', json_obj [
          (''root'', JString ''trust/root.json''), (''timestamp'', JString ''trust/timestamp.json''), (''snapshot'', JString ''trust/snapshot.json''),
          (''targets_prefix'', JString ''trust/targets/''), (''index_prefix'', JString ''index/''),
          (''source_artifact_prefix'', JString ''artifacts/source/''), (''binary_artifact_prefix'', JString ''artifacts/binary/''),
          (''transparency_checkpoint'', JString ''log/checkpoint.json''), (''transparency_leaves_prefix'', JString ''log/leaves/'')])]"

definition publication_config_payload :: "PlatformConfig \<Rightarrow> string \<Rightarrow> string \<Rightarrow> string \<Rightarrow> json" where
  "publication_config_payload config generated_at publication_id repository_version_id =
     json_set ''publication'' (json_obj [
        (''publication_id'', JString publication_id), (''repository_version_id'', JString repository_version_id), (''layout_version'', JInt 2),
        (''publication_path'', JString (''_publications/'' @ publication_id @ ''/publication.json'')),
        (''current_pointer'', JString ''_distributions/default/current.json'')])
     (json_set ''distribution_id'' (JString ''default'')
     (json_set ''repository_id'' (JString ''default'') (RegistryConfigPayload config generated_at)))"

definition file_size :: "fs_path \<Rightarrow> tree \<Rightarrow> nat result" where
  "file_size p t = (case tree_text t p of None \<Rightarrow> Inl (RuntimeError (''cannot get file size: '' @ p)) | Some text \<Rightarrow> Inr (length text))"

definition SignedFileMeta :: "fs_path \<Rightarrow> int \<Rightarrow> tree \<Rightarrow> json result" where
  "SignedFileMeta p version t =
     rbind (file_size p t) (\<lambda>size.
     rbind (sha256_file (smap_find t) p) (\<lambda>sha.
     Inr (json_obj [(''version'', JInt version), (''length'', JInt (int size)), (''hashes'', json_obj [(''sha256'', JString sha)])])))"

definition ReadSignedVersion :: "json_lib \<Rightarrow> fs_path \<Rightarrow> tree \<Rightarrow> int" where
  "ReadSignedVersion L p t =
     (if \<not> tree_exists t p then 0
      else case rbind (ReadFileBytes p t) (\<lambda>text. rbind (json_parse L text) (\<lambda>j. rbind (json_at j ''signed'') (\<lambda>s.
             json_value get_int s ''version'' 0))) of
        Inl e \<Rightarrow> 0
      | Inr v \<Rightarrow> v)"

definition LeafSequencePaths :: "fs_path \<Rightarrow> tree \<Rightarrow> fs_path list" where
  "LeafSequencePaths registry_root t =
     (let leaves_root = path_div (path_div registry_root ''log'') ''leaves'' in
      if \<not> tree_exists t leaves_root then []
      else sort_key path_elements
             (map fst (filter (\<lambda>e. is_regular (Some (snd e)) \<and> path_extension (fst e) = ''.json'') (children t leaves_root))))"

text \<open>The bytes of a text of hexadecimal digits, two for each byte; the leaf hashes are such texts.\<close>

fun hex_pairs :: "string \<Rightarrow> string" where
  "hex_pairs (a # b # rest) = char_of (digit_val a * 16 + digit_val b) # hex_pairs rest"
| "hex_pairs _ = []"

definition digest_text :: "(string \<Rightarrow> 8 word list) \<Rightarrow> string \<Rightarrow> string" where
  "digest_text SHA256 s = map (\<lambda>w. char_of (unat w)) (SHA256 s)"

definition log_step :: "(string \<Rightarrow> 8 word list) \<Rightarrow> string \<Rightarrow> string \<Rightarrow> string" where
  "log_step SHA256 state leaf_hash = digest_text SHA256 (state @ hex_pairs leaf_hash)"

definition TransparencyRootHash :: "(string \<Rightarrow> 8 word list) \<Rightarrow> string list \<Rightarrow> string" where
  "TransparencyRootHash SHA256 leaf_hashes =
     HexBytes (map of_char (foldl (log_step SHA256) (replicate 32 (CHR 0x00)) leaf_hashes))"

section \<open>Package maps\<close>

record PackageMaps =
  pm_namespace_packages :: json
  pm_snapshot_meta :: json

definition index_release :: "trust_env \<Rightarrow> string \<Rightarrow> fs_path \<Rightarrow> json \<Rightarrow> (string \<times> json) result" where
  "index_release env package_name p record =
     rbind (json_string_at record ''package'') (\<lambda>package.
     rbind (guard_err (package \<noteq> package_name) (RuntimeError (''registry index file contains mixed package names: '' @ p))) (\<lambda>_.
     rbind (json_string_at record ''version'') (\<lambda>version.
     rbind (json_at record ''source_artifact'') (\<lambda>source_artifact.
     rbind (json_value get_int record ''release_revision'' 1) (\<lambda>revision.
     rbind (CanonicalJson (te_json env) record) (\<lambda>canonical.
     rbind (json_string_at source_artifact ''sha256'') (\<lambda>sha256.
     rbind (json_string_at source_artifact ''path'') (\<lambda>path.
     rbind (json_value Inr record ''binary_artifacts'' (JArray [])) (\<lambda>binaries.
     Inr (version, json_obj [
       (''release_revision'', JInt revision), (''index_record_sha256'', JString (Sha256Bytes (te_sha256 env) canonical)),
       (''source_artifact_sha256'', JString sha256), (''source_artifact_path'', JString path),
       (''binary_artifact_count'', JInt (int (length (json_elements binaries))))]))))))))))"

definition json_member :: "json \<Rightarrow> string \<Rightarrow> json" where
  "json_member j k = (case json_lookup j k of None \<Rightarrow> JNull | Some v \<Rightarrow> v)"

text \<open>\<^verbatim>\<open>SplitPackageName(name).front()\<close>; on a name without parts it is undefined in C++ and an error here.\<close>

definition first_part :: "string \<Rightarrow> string result" where
  "first_part package = (case SplitPackageName package of [] \<Rightarrow> Inl OutOfRange | part # _ \<Rightarrow> Inr part)"

definition collect_index_file :: "trust_env \<Rightarrow> fs_path \<Rightarrow> tree \<Rightarrow> PackageMaps \<Rightarrow> fs_path \<Rightarrow> PackageMaps result" where
  "collect_index_file env registry_root t maps p =
     rbind (index_records (te_json env) (tree_text t p)) (\<lambda>records.
     case records of
       [] \<Rightarrow> Inl (RuntimeError (''registry index file is empty: '' @ p))
     | first # _ \<Rightarrow>
         rbind (json_string_at first ''package'') (\<lambda>package_name.
         rbind (first_part package_name) (\<lambda>package_namespace.
         rbind (rmap (index_release env package_name p) records) (\<lambda>releases.
         let relative = relative_to registry_root p;
             entry = json_obj [
               (''index_path'', JString relative), (''latest_version'', JString (last (sort_versions (map fst releases)))),
               (''releases'', foldl (\<lambda>j r. json_set (fst r) (snd r) j) (json_obj []) releases)];
             packages = json_set package_name entry (json_member (pm_namespace_packages maps) package_namespace) in
         rbind (SignedFileMeta p 1 t) (\<lambda>meta.
         Inr \<lparr>pm_namespace_packages = json_set package_namespace packages (pm_namespace_packages maps),
              pm_snapshot_meta = json_set relative meta (pm_snapshot_meta maps)\<rparr>)))))"

fun rfold :: "('b \<Rightarrow> 'a \<Rightarrow> 'b result) \<Rightarrow> 'b \<Rightarrow> 'a list \<Rightarrow> 'b result" where
  "rfold f acc [] = Inr acc"
| "rfold f acc (x # xs) = rbind (f acc x) (\<lambda>acc. rfold f acc xs)"

definition empty_maps :: PackageMaps where
  "empty_maps = \<lparr>pm_namespace_packages = json_obj [], pm_snapshot_meta = json_obj []\<rparr>"

definition CollectPackageMaps :: "trust_env \<Rightarrow> fs_path \<Rightarrow> tree \<Rightarrow> PackageMaps result" where
  "CollectPackageMaps env registry_root t =
     (let index_root = path_div registry_root ''index'' in
      if \<not> tree_exists t index_root then Inr empty_maps
      else rfold (collect_index_file env registry_root t) empty_maps
             (filter (\<lambda>p. path_extension p = ''.jsonl'') (files_below t index_root)))"

section \<open>Refreshing the metadata\<close>

record MetadataVersions =
  mv_checkpoint_version :: int
  mv_snapshot_version :: int
  mv_timestamp_version :: int
  mv_namespaces :: nat

definition targets_path :: "fs_path \<Rightarrow> string \<Rightarrow> fs_path" where
  "targets_path registry_root namespace_name = path_div (path_div (path_div registry_root ''trust'') ''targets'') (namespace_name @ ''.json'')"

definition checkpoint_path :: "fs_path \<Rightarrow> fs_path" where
  "checkpoint_path registry_root = path_div (path_div registry_root ''log'') ''checkpoint.json''"

definition trust_path :: "fs_path \<Rightarrow> string \<Rightarrow> fs_path" where
  "trust_path registry_root name = path_div (path_div registry_root ''trust'') name"

fun refresh_targets :: "trust_env \<Rightarrow> (string, RegistryRoleKey) smap \<Rightarrow> fs_path \<Rightarrow> (string \<times> json) list \<Rightarrow> json \<Rightarrow> (tree, json) sm" where
  "refresh_targets env role_keys registry_root [] snapshot_meta = s_return snapshot_meta"
| "refresh_targets env role_keys registry_root ((namespace_name, package_map) # rest) snapshot_meta =
     (let p = targets_path registry_root namespace_name in
      s_bind (s_reads (\<lambda>t. ReadSignedVersion (te_json env) p t + 1)) (\<lambda>version.
      s_bind (write_signed env role_keys (path_div registry_root ''_tmp'') ''targets'' p (json_obj [
        (''type'', JString ''targets''), (''spec_version'', JString ''1''), (''version'', JInt version),
        (''expires'', JString (te_plus_days env 30)), (''namespace'', JString namespace_name), (''packages'', package_map)])) (\<lambda>_.
      s_bind (s_reads (SignedFileMeta p version)) (\<lambda>meta.
      s_bind (s_lift meta) (\<lambda>meta.
      refresh_targets env role_keys registry_root rest (json_set (relative_to registry_root p) meta snapshot_meta))))))"

definition leaf_hash :: "trust_env \<Rightarrow> tree \<Rightarrow> fs_path \<Rightarrow> string result" where
  "leaf_hash env t p =
     rbind (ReadFileBytes p t) (\<lambda>text. rbind (json_parse (te_json env) text) (\<lambda>j. rbind (CanonicalJson (te_json env) j) (\<lambda>c.
       Inr (Sha256Bytes (te_sha256 env) c))))"

definition checkpoint_signed :: "int \<Rightarrow> string \<Rightarrow> nat \<Rightarrow> string \<Rightarrow> json" where
  "checkpoint_signed version generated_at tree_size root_hash =
     json_obj [
       (''type'', JString ''checkpoint''), (''spec_version'', JString ''1''), (''version'', JInt version),
       (''generated_at'', JString generated_at), (''tree_size'', JInt (int tree_size)), (''root_hash'', JString root_hash)]"

definition snapshot_signed :: "int \<Rightarrow> string \<Rightarrow> json \<Rightarrow> json \<Rightarrow> json" where
  "snapshot_signed version expires meta checkpoint_meta =
     json_obj [
       (''type'', JString ''snapshot''), (''spec_version'', JString ''1''), (''version'', JInt version),
       (''expires'', JString expires), (''meta'', meta), (''log_meta'', json_obj [(''log/checkpoint.json'', checkpoint_meta)])]"

definition timestamp_signed :: "int \<Rightarrow> string \<Rightarrow> json \<Rightarrow> json" where
  "timestamp_signed version expires snapshot_meta =
     json_obj [
       (''type'', JString ''timestamp''), (''spec_version'', JString ''1''), (''version'', JInt version),
       (''expires'', JString expires), (''meta'', json_obj [(''trust/snapshot.json'', snapshot_meta)])]"

definition refresh_checkpoint :: "trust_env \<Rightarrow> (string, RegistryRoleKey) smap \<Rightarrow> fs_path \<Rightarrow> string \<Rightarrow> (tree, int) sm" where
  "refresh_checkpoint env role_keys registry_root registry_time =
     s_bind (s_reads (\<lambda>t. rmap (leaf_hash env t) (LeafSequencePaths registry_root t))) (\<lambda>hashes.
     s_bind (s_lift hashes) (\<lambda>hashes.
     s_bind (s_reads (\<lambda>t. ReadSignedVersion (te_json env) (checkpoint_path registry_root) t + 1)) (\<lambda>version.
     s_bind (write_signed env role_keys (path_div registry_root ''_tmp'') ''log'' (checkpoint_path registry_root)
               (checkpoint_signed version registry_time (length hashes) (TransparencyRootHash (te_sha256 env) hashes))) (\<lambda>_.
     s_return version))))"

definition refresh_snapshot :: "trust_env \<Rightarrow> (string, RegistryRoleKey) smap \<Rightarrow> fs_path \<Rightarrow> int \<Rightarrow> json \<Rightarrow> (tree, int) sm" where
  "refresh_snapshot env role_keys registry_root checkpoint_version meta =
     s_bind (s_reads (\<lambda>t. ReadSignedVersion (te_json env) (trust_path registry_root ''snapshot.json'') t + 1)) (\<lambda>version.
     s_bind (s_reads (SignedFileMeta (checkpoint_path registry_root) checkpoint_version)) (\<lambda>checkpoint_meta.
     s_bind (s_lift checkpoint_meta) (\<lambda>checkpoint_meta.
     s_bind (write_signed env role_keys (path_div registry_root ''_tmp'') ''snapshot'' (trust_path registry_root ''snapshot.json'')
               (snapshot_signed version (te_plus_days env 7) meta checkpoint_meta)) (\<lambda>_.
     s_return version))))"

definition refresh_timestamp :: "trust_env \<Rightarrow> (string, RegistryRoleKey) smap \<Rightarrow> fs_path \<Rightarrow> int \<Rightarrow> (tree, int) sm" where
  "refresh_timestamp env role_keys registry_root snapshot_version =
     s_bind (s_reads (\<lambda>t. ReadSignedVersion (te_json env) (trust_path registry_root ''timestamp.json'') t + 1)) (\<lambda>version.
     s_bind (s_reads (SignedFileMeta (trust_path registry_root ''snapshot.json'') snapshot_version)) (\<lambda>snapshot_meta.
     s_bind (s_lift snapshot_meta) (\<lambda>snapshot_meta.
     s_bind (write_signed env role_keys (path_div registry_root ''_tmp'') ''timestamp'' (trust_path registry_root ''timestamp.json'')
               (timestamp_signed version (te_plus_days env 1) snapshot_meta)) (\<lambda>_.
     s_return version))))"

fun json_items :: "json \<Rightarrow> (string \<times> json) list" where
  "json_items (JObject m) = m"
| "json_items _ = []"

definition RefreshSignedRegistryMetadata :: "trust_env \<Rightarrow> PlatformConfig \<Rightarrow> (string, RegistryRoleKey) smap \<Rightarrow> string \<Rightarrow> (tree, MetadataVersions) sm" where
  "RefreshSignedRegistryMetadata env config role_keys registry_time =
     (let registry_root = rg_root (cfg_registry config) in
      s_bind (s_reads (CollectPackageMaps env registry_root)) (\<lambda>maps.
      s_bind (s_lift maps) (\<lambda>maps.
      s_bind (refresh_targets env role_keys registry_root (json_items (pm_namespace_packages maps)) (pm_snapshot_meta maps)) (\<lambda>meta.
      s_bind (refresh_checkpoint env role_keys registry_root registry_time) (\<lambda>checkpoint_version.
      s_bind (refresh_snapshot env role_keys registry_root checkpoint_version meta) (\<lambda>snapshot_version.
      s_bind (refresh_timestamp env role_keys registry_root snapshot_version) (\<lambda>timestamp_version.
      s_bind (s_change (remove_all (path_div registry_root ''_tmp''))) (\<lambda>_.
      s_return \<lparr>mv_checkpoint_version = checkpoint_version, mv_snapshot_version = snapshot_version,
                mv_timestamp_version = timestamp_version, mv_namespaces = length (json_items (pm_namespace_packages maps))\<rparr>))))))))"

definition unless_exists :: "fs_path \<Rightarrow> (tree, unit) sm \<Rightarrow> (tree, unit) sm" where
  "unless_exists p m = s_bind (s_reads (\<lambda>t. tree_exists t p)) (\<lambda>present. if present then s_return () else m)"

definition EnsureRegistryRootInitialized :: "trust_env \<Rightarrow> PlatformConfig \<Rightarrow> (tree, unit) sm" where
  "EnsureRegistryRootInitialized env config =
     (let registry_root = rg_root (cfg_registry config); key_dir = rg_key_dir (cfg_registry config);
          temp_root = path_div registry_root ''_tmp''; config_path = path_div registry_root ''config.json'';
          checkpoint = checkpoint_path registry_root; snapshot = trust_path registry_root ''snapshot.json'';
          timestamp = trust_path registry_root ''timestamp.json''; root_path = trust_path registry_root ''root.json'' in
      s_bind (mkdirs registry_root) (\<lambda>_.
      s_bind (mkdirs key_dir) (\<lambda>_.
      s_bind (LoadOrCreateRegistryRoleKeys env key_dir) (\<lambda>role_keys.
      s_bind (unless_exists config_path (write_json (te_json env) config_path (RegistryConfigPayload config (te_now env)))) (\<lambda>_.
      s_bind (unless_exists checkpoint (write_signed env role_keys temp_root ''log'' checkpoint
                (checkpoint_signed 1 (te_now env) 0 (TransparencyRootHash (te_sha256 env) [])))) (\<lambda>_.
      s_bind (unless_exists snapshot
                (s_bind (s_reads (SignedFileMeta checkpoint 1)) (\<lambda>meta. s_bind (s_lift meta) (\<lambda>meta.
                 write_signed env role_keys temp_root ''snapshot'' snapshot
                   (snapshot_signed 1 (te_plus_days env 7) (json_obj []) meta))))) (\<lambda>_.
      s_bind (unless_exists timestamp
                (s_bind (s_reads (SignedFileMeta snapshot 1)) (\<lambda>meta. s_bind (s_lift meta) (\<lambda>meta.
                 write_signed env role_keys temp_root ''timestamp'' timestamp
                   (timestamp_signed 1 (te_plus_days env 1) meta))))) (\<lambda>_.
      s_bind (unless_exists root_path
                (s_bind (s_lift (RegistryRolesPolicyPayload role_keys)) (\<lambda>roles.
                 write_signed env role_keys temp_root ''root'' root_path (json_obj [
                   (''type'', JString ''root''), (''spec_version'', JString ''1''), (''version'', JInt 1),
                   (''expires'', JString (te_plus_days env 365)), (''keys'', RegistryRoleKeysPayload role_keys), (''roles'', roles)])))) (\<lambda>_.
      s_change (remove_all temp_root))))))))))"

end
