(* ===== verification/Registry_Log.thy ===== *)
theory Registry_Log
  imports Registry_Trust
begin

text \<open>
  The transparency log's root hash commits to the leaves: two different sequences of leaf documents
  with the same root hash contain, among the texts hashed on the way, a collision of the hash
  function or a text with the digest of 32 zero bytes the log starts from.
\<close>

lemma hex_byte: "pad_left 2 (CHR ''0'') (digits_in 16 n) = [digit_char (n div 16), digit_char (n mod 16)]" if "n < 256"
proof (cases "n < 16")
  case True
  then show ?thesis by (subst digits_in.simps) (simp add: pad_left_def)
next
  case False
  with that have "digits_in 16 (n div 16) = [digit_char (n div 16)]" by (subst digits_in.simps) simp
  with False show ?thesis by (subst digits_in.simps) (simp add: pad_left_def)
qed

lemma hex_pairs_HexBytes: "hex_pairs (HexBytes data) = map (\<lambda>w. char_of (unat w)) data"
proof (induction data)
  case Nil
  then show ?case by (simp add: HexBytes_def)
next
  case (Cons b data)
  have b: "unat b < 256" using unsigned_less [of b] by simp
  then have "pad_left 2 (CHR ''0'') (digits_in 16 (unat b)) = [digit_char (unat b div 16), digit_char (unat b mod 16)]"
    by (rule hex_byte)
  then have "HexBytes (b # data) = digit_char (unat b div 16) # digit_char (unat b mod 16) # HexBytes data"
    by (simp add: HexBytes_def)
  moreover have "unat b div 16 < 16" "unat b mod 16 < 16" using b by auto
  ultimately show ?case using Cons by simp
qed

lemma char_of_byte_inj: "inj (\<lambda>w :: 8 word. char_of (unat w) :: char)"
proof (rule injI)
  fix v w :: "8 word" assume "(char_of (unat v) :: char) = char_of (unat w)"
  then have "(of_char (char_of (unat v) :: char) :: nat) = of_char (char_of (unat w) :: char)" by simp
  moreover have "unat v < 256" "unat w < 256" using unsigned_less [of v] unsigned_less [of w] by simp_all
  ultimately have "unat v = unat w" by (simp only: of_char_of mod_less)
  then show "v = w" by (rule unsigned_word_eqI)
qed

lemma bytes_text_inj: "map (\<lambda>w :: 8 word. char_of (unat w) :: char) xs = map (\<lambda>w. char_of (unat w)) ys \<longleftrightarrow> xs = ys"
  using char_of_byte_inj by (simp add: inj_map_eq_map)

lemma HexBytes_inj: "HexBytes xs = HexBytes ys \<Longrightarrow> xs = ys"
  by (metis bytes_text_inj hex_pairs_HexBytes)

section \<open>The texts that are hashed\<close>

definition log_state :: "(string \<Rightarrow> 8 word list) \<Rightarrow> string list \<Rightarrow> string" where
  "log_state SHA256 docs = foldl (log_step SHA256) (replicate 32 (CHR 0x00)) (map (Sha256Bytes SHA256) docs)"

definition log_message :: "(string \<Rightarrow> 8 word list) \<Rightarrow> string list \<Rightarrow> nat \<Rightarrow> string" where
  "log_message SHA256 docs i = log_state SHA256 (take i docs) @ hex_pairs (Sha256Bytes SHA256 (docs ! i))"

text \<open>The documents themselves, and what is hashed to extend the log by each of them.\<close>

definition log_inputs :: "(string \<Rightarrow> 8 word list) \<Rightarrow> string list \<Rightarrow> string list" where
  "log_inputs SHA256 docs = docs @ map (log_message SHA256 docs) [0..<length docs]"

lemma log_state_snoc:
  "log_state SHA256 (docs @ [d]) = digest_text SHA256 (log_state SHA256 docs @ digest_text SHA256 d)"
  by (simp add: log_state_def log_step_def Sha256Bytes_def hex_pairs_HexBytes digest_text_def)

lemma log_inputs_snoc:
  "set (log_inputs SHA256 (docs @ [d])) = insert d (insert (log_state SHA256 docs @ digest_text SHA256 d) (set (log_inputs SHA256 docs)))"
proof -
  have "map (log_message SHA256 (docs @ [d])) [0..<length docs] = map (log_message SHA256 docs) [0..<length docs]"
    by (simp add: log_message_def nth_append)
  moreover have "log_message SHA256 (docs @ [d]) (length docs) = log_state SHA256 docs @ digest_text SHA256 d"
    by (simp add: log_message_def Sha256Bytes_def hex_pairs_HexBytes digest_text_def)
  ultimately have "log_inputs SHA256 (docs @ [d])
      = docs @ [d] @ map (log_message SHA256 docs) [0..<length docs] @ [log_state SHA256 docs @ digest_text SHA256 d]"
    by (simp only: log_inputs_def length_append list.size) simp
  then show ?thesis by (auto simp: log_inputs_def)
qed

lemma log_state_length: "(\<And>s. length (SHA256 s) = 32) \<Longrightarrow> length (log_state SHA256 docs) = 32"
proof (cases docs rule: rev_cases)
  case (snoc ds d)
  assume "\<And>s. length (SHA256 s) = 32"
  with snoc show ?thesis by (simp add: log_state_snoc digest_text_def)
qed (simp add: log_state_def)

lemma digest_zero:
  assumes "digest_text SHA256 m = replicate 32 (CHR 0x00)"
  shows "SHA256 m = replicate 32 0"
proof -
  have "map (\<lambda>w :: 8 word. char_of (unat w) :: char) (replicate 32 0) = replicate 32 (CHR 0x00)"
    by (simp add: char_of_def)
  with assms show ?thesis unfolding digest_text_def by (metis bytes_text_inj)
qed

lemma log_state_binds:
  assumes len: "\<And>s. length (SHA256 s) = 32" and "log_state SHA256 xs = log_state SHA256 ys" and "xs \<noteq> ys"
  shows "(\<exists>a \<in> set (log_inputs SHA256 xs). \<exists>b \<in> set (log_inputs SHA256 ys). a \<noteq> b \<and> SHA256 a = SHA256 b)
    \<or> (\<exists>a \<in> set (log_inputs SHA256 xs) \<union> set (log_inputs SHA256 ys). SHA256 a = replicate 32 0)"
  using assms(2,3)
proof (induction xs arbitrary: ys rule: rev_induct)
  case Nil
  then obtain ys' y where "ys = ys' @ [y]" by (metis rev_exhaust)
  with Nil show ?case using digest_zero by (auto simp: log_state_snoc log_inputs_snoc log_state_def [of _ "[]"])
next
  case (snoc x xs)
  show ?case
  proof (cases ys rule: rev_cases)
    case Nil
    with snoc show ?thesis using digest_zero by (auto simp: log_state_snoc log_inputs_snoc log_state_def [of _ "[]"])
  next
    case (snoc ys' y)
    let ?m = "log_state SHA256 xs @ digest_text SHA256 x" and ?n = "log_state SHA256 ys' @ digest_text SHA256 y"
    have eq: "SHA256 ?m = SHA256 ?n"
      using snoc snoc.prems(1) by (simp add: log_state_snoc digest_text_def bytes_text_inj)
    show ?thesis
    proof (cases "?m = ?n \<and> x = y")
      case True
      then have "log_state SHA256 xs = log_state SHA256 ys'" "xs \<noteq> ys'" using snoc snoc.prems(2) by auto
      from snoc.IH [OF this] show ?thesis using snoc by (auto simp: log_inputs_snoc)
    next
      case False
      have "?m = ?n \<Longrightarrow> SHA256 x = SHA256 y"
        using log_state_length [OF len] by (simp add: digest_text_def bytes_text_inj)
      with False eq show ?thesis using snoc by (auto simp: log_inputs_snoc)
    qed
  qed
qed

text \<open>
  \<^bold>\<open>C16.\<close> The root hash of the transparency log commits to its leaves. With a hash function of 32 bytes, two
  different sequences of leaf documents whose leaf hashes have the same root hash hold, among the texts that were
  hashed to compute the two roots, two different texts with the same digest, or a text whose digest is 32 zero
  bytes. Removing, changing, adding or reordering leaves without changing the root means breaking the hash function.
\<close>

theorem TransparencyRootHash_binds:
  assumes "\<And>s. length (SHA256 s) = 32"
    and "TransparencyRootHash SHA256 (map (Sha256Bytes SHA256) xs) = TransparencyRootHash SHA256 (map (Sha256Bytes SHA256) ys)"
    and "xs \<noteq> ys"
  shows "(\<exists>a \<in> set (log_inputs SHA256 xs). \<exists>b \<in> set (log_inputs SHA256 ys). a \<noteq> b \<and> SHA256 a = SHA256 b)
    \<or> (\<exists>a \<in> set (log_inputs SHA256 xs) \<union> set (log_inputs SHA256 ys). SHA256 a = replicate 32 0)"
proof (rule log_state_binds [OF assms(1)])
  have "unat (of_char c :: 8 word) = of_char c" for c :: char
    using of_nat_of_char [of c, where ?'a = "8 word", symmetric] by (simp add: unat_of_nat take_bit_nat_eq_self)
  then have "inj (of_char :: char \<Rightarrow> 8 word)"
    by (intro injI) (metis of_char_eq_iff)
  moreover have "map of_char (log_state SHA256 xs) = (map of_char (log_state SHA256 ys) :: 8 word list)"
    using assms(2) HexBytes_inj by (simp add: TransparencyRootHash_def log_state_def)
  ultimately show "log_state SHA256 xs = log_state SHA256 ys" by (simp add: inj_map_eq_map)
qed (rule assms(3))

theorem TransparencyRootHash_binds_witness:
  "(\<exists>a \<in> set (log_inputs (\<lambda>s. replicate 32 1) [''a'']). \<exists>b \<in> set (log_inputs (\<lambda>s. replicate 32 1) [''b'']).
      a \<noteq> b \<and> (replicate 32 1 :: 8 word list) = replicate 32 1)
    \<or> (\<exists>a \<in> set (log_inputs (\<lambda>s. replicate 32 1) [''a'']) \<union> set (log_inputs (\<lambda>s. replicate 32 1) [''b'']).
        (replicate 32 1 :: 8 word list) = replicate 32 0)"
  by (rule TransparencyRootHash_binds) (simp_all add: TransparencyRootHash_def log_step_def Sha256Bytes_def digest_text_def)

end
