(* ===== verification/Registry_Publish.thy ===== *)
theory Registry_Publish
  imports Registry_Trust Registry_Tokens Manifest_Correct
begin

text \<open>
  Publishing (\<^verbatim>\<open>RegistryPublishWorkflow.hpp\<close>, \<^verbatim>\<open>RegistryObjectStoreSync.hpp\<close> and \<^verbatim>\<open>CreateRegistryPublication\<close> of
  \<^verbatim>\<open>RegistryControlPlane.cpp\<close>). The handlers that use files run on a router whose outside world is a
  \<open>host\<close>: the database beside the directory tree. What they take from outside is the record
  \<open>plane_env\<close>: OpenSSL, clocks and JSON as in \<open>trust_env\<close>, the TOML library, the object store, the URL of a
  local path and the text of an exception.
\<close>

record 'd host =
  ho_db :: 'd
  ho_tree :: tree

record plane_env =
  pe_trust :: trust_env
  pe_random :: string
  pe_toml :: toml_lib
  pe_s3 :: s3_env
  pe_file_url :: "string \<Rightarrow> string"
  pe_what :: "platform_error \<Rightarrow> string"

abbreviation pe_json :: "plane_env \<Rightarrow> json_lib" where
  "pe_json env \<equiv> te_json (pe_trust env)"

definition reg_of :: "plane_env \<Rightarrow> reg_env" where
  "reg_of env = \<lparr>re_now = te_now (pe_trust env), re_random = pe_random env, re_sha256 = te_sha256 (pe_trust env), re_index = (\<lambda>_. Inr [])\<rparr>"

definition on_tree :: "(tree, 'a) sm \<Rightarrow> ('d host, 'a) act" where
  "on_tree m s = (case m (ho_tree (rt_db s)) of (r, t) \<Rightarrow> (r, s\<lparr>rt_db := (rt_db s)\<lparr>ho_tree := t\<rparr>\<rparr>))"

definition in_memory :: "(store \<Rightarrow> store) \<Rightarrow> ('db, unit) act" where
  "in_memory f = from_memory (\<lambda>m. ((), f m))"

definition in_postgres :: "'db postgres option \<Rightarrow> ('db postgres \<Rightarrow> 'db \<Rightarrow> 'a pg_result \<times> 'db) \<Rightarrow> ('db, unit) act" where
  "in_postgres pg f = (case pg of None \<Rightarrow> s_return () | Some p \<Rightarrow> s_bind (from_pg (f p)) (\<lambda>_. s_return ()))"

section \<open>The object store\<close>

definition UsesS3ObjectStore :: "PlatformConfig \<Rightarrow> bool" where
  "UsesS3ObjectStore config = (ParseObjectStoreProvider (os_provider (cfg_object_store config)) = S3)"

definition RemoveLocalRegistryMetadataCache :: "PlatformConfig \<Rightarrow> (tree, unit) sm" where
  "RemoveLocalRegistryMetadataCache config =
     (let registry_root = rg_root (cfg_registry config) in
      s_change (\<lambda>t. foldl (\<lambda>t entry. remove_all (path_div registry_root entry) t)
        (remove_path (path_div registry_root ''config.json'') t) [''trust'', ''index'', ''log'', ''artifacts'']))"

definition sync_key :: "plane_env \<Rightarrow> PlatformConfig \<Rightarrow> string \<Rightarrow> (tree, unit) sm" where
  "sync_key env config key =
     (if starts_with key ''_staging/'' \<or> starts_with key ''_tmp/'' then s_return ()
      else s_bind (s_lift (GetObjectText (pe_s3 env) (cfg_object_store config) key)) (\<lambda>payload.
        case payload of
          None \<Rightarrow> s_return ()
        | Some text \<Rightarrow> s_bind (s_lift (NormalizeObjectKey key)) (\<lambda>k. WriteTextFile (path_div (rg_root (cfg_registry config)) k) text)))"

definition SyncS3RegistryStateToLocal :: "plane_env \<Rightarrow> PlatformConfig \<Rightarrow> (tree, unit) sm" where
  "SyncS3RegistryStateToLocal env config =
     s_bind (RemoveLocalRegistryMetadataCache config) (\<lambda>_.
     s_bind (s_lift (GetObjectText (pe_s3 env) (cfg_object_store config) ''config.json'')) (\<lambda>config_text.
     s_bind (case config_text of None \<Rightarrow> s_return ()
             | Some text \<Rightarrow> WriteTextFile (path_div (rg_root (cfg_registry config)) ''config.json'') text) (\<lambda>_.
     s_each (\<lambda>pre. s_bind (s_lift (ListObjectKeys (pe_s3 env) (cfg_object_store config) pre)) (s_each (sync_key env config)))
       [''trust/'', ''index/'', ''log/'', ''artifacts/'', ''_publications/'', ''_distributions/''])))"

definition RegistryContentTypeForPath :: "string \<Rightarrow> string" where
  "RegistryContentTypeForPath relative_path =
     (if ends_with relative_path ''.json'' then ''application/json''
      else if ends_with relative_path ''.jsonl'' then ''application/x-ndjson''
      else ''application/octet-stream'')"

definition upload_file :: "plane_env \<Rightarrow> PlatformConfig \<Rightarrow> tree \<Rightarrow> fs_path \<Rightarrow> unit result" where
  "upload_file env config t p =
     (let relative = relative_to (rg_root (cfg_registry config)) p in
      if starts_with relative ''_staging/'' \<or> starts_with relative ''_tmp/'' then Inr ()
      else PutObjectFile (pe_s3 env) (sha256_file (smap_find t)) (cfg_object_store config) relative p (RegistryContentTypeForPath relative))"

definition UploadRegistryTreeToS3 :: "plane_env \<Rightarrow> PlatformConfig \<Rightarrow> (tree, unit) sm" where
  "UploadRegistryTreeToS3 env config =
     (let registry_root = rg_root (cfg_registry config) in
      s_bind (s_reads (\<lambda>t. if tree_exists t registry_root then rmap (upload_file env config t) (files_below t registry_root) else Inr [])) (\<lambda>r.
      s_bind (s_lift r) (\<lambda>_. s_return ())))"

section \<open>The draft\<close>

record PublishDraft =
  pd_package :: string
  pd_version :: string
  pd_publisher_id :: string
  pd_archive_path :: fs_path
  pd_dependencies :: nat
  pd_dev_dependencies :: nat

definition manifest_draft :: "plane_env \<Rightarrow> json \<Rightarrow> PublishDraft \<Rightarrow> tree \<Rightarrow> PublishDraft result" where
  "manifest_draft env body draft t =
     (if \<not> HasNonEmptyString body ''manifest_path'' then Inr draft
      else rbind (LoadManifest (pe_toml env) (smap_find t) (string_field body ''manifest_path'')) (\<lambda>manifest.
        case md_package manifest of
          None \<Rightarrow> Inl (ValidationError ''manifest_path must point to a package manifest'')
        | Some package \<Rightarrow>
            Inr (draft\<lparr>pd_package := pc_name package, pd_version := pc_version package,
                   pd_dependencies := length (pc_dependencies package), pd_dev_dependencies := length (pc_dev_dependencies package)\<rparr>)))"

definition explicit_draft :: "json \<Rightarrow> PublishDraft \<Rightarrow> PublishDraft result" where
  "explicit_draft body draft =
     (let package = (if HasNonEmptyString body ''package'' then string_field body ''package'' else pd_package draft);
          version = (if HasNonEmptyString body ''version'' then string_field body ''version'' else pd_version draft) in
      rbind (guard_err (package = []) (ValidationError ''package or manifest_path is required'')) (\<lambda>_.
      rbind (guard_err (version = []) (ValidationError ''manifest_path is required when version is not provided'')) (\<lambda>_.
      case ValidatePackageName package of
        Some error \<Rightarrow> Inl (ValidationError error)
      | None \<Rightarrow> Inr (draft\<lparr>pd_package := package, pd_version := version\<rparr>))))"

definition staged_archive :: "plane_env \<Rightarrow> PlatformConfig \<Rightarrow> PublishDraft \<Rightarrow> (tree, PublishDraft) sm" where
  "staged_archive env config draft =
     (let staging_dir = path_div (rg_root (cfg_registry config)) ''_staging'';
          p = path_div staging_dir (SanitizePathSegment (pd_package draft) @ ''-'' @ SanitizePathSegment (pd_version draft) @ ''.spio.src.tar'') in
      s_bind (mkdirs staging_dir) (\<lambda>_.
      s_bind (s_change (put_file p [])) (\<lambda>_.
      s_bind (s_lift (JsonText (pe_json env) (json_obj [
        (''package'', JString (pd_package draft)), (''version'', JString (pd_version draft)), (''publisher_id'', JString (pd_publisher_id draft))]))) (\<lambda>text.
      s_bind (s_change (put_file p text)) (\<lambda>_.
      s_return (draft\<lparr>pd_archive_path := p\<rparr>))))))"

definition BuildPublishDraft :: "plane_env \<Rightarrow> json \<Rightarrow> PlatformConfig \<Rightarrow> MtlsIdentity option \<Rightarrow> (tree, PublishDraft) sm" where
  "BuildPublishDraft env body config identity =
     s_bind (s_lift (json_value get_string body ''publisher_id''
               (case identity of Some i \<Rightarrow> id_node_id i | None \<Rightarrow> ''control-plane''))) (\<lambda>publisher_id.
     s_bind (s_reads (manifest_draft env body \<lparr>pd_package = [], pd_version = [], pd_publisher_id = publisher_id,
               pd_archive_path = [], pd_dependencies = 0, pd_dev_dependencies = 0\<rparr>)) (\<lambda>draft.
     s_bind (s_lift draft) (\<lambda>draft.
     s_bind (s_lift (explicit_draft body draft)) (\<lambda>draft.
     s_bind (if HasNonEmptyString body ''archive_path'' then s_return (draft\<lparr>pd_archive_path := string_field body ''archive_path''\<rparr>)
             else staged_archive env config draft) (\<lambda>draft.
     s_bind (s_reads (\<lambda>t. is_regular (smap_find t (pd_archive_path draft)))) (\<lambda>readable.
     s_bind (s_guard (\<not> readable) (ValidationError ''archive_path must point to a readable file'')) (\<lambda>_.
     s_return draft)))))))"

section \<open>The release record and the log leaf\<close>

definition artifact_path_for :: "string \<Rightarrow> string" where
  "artifact_path_for sha256 =
     ''artifacts/source/sha256/'' @ take 2 sha256 @ ''/'' @ take 2 (drop 2 sha256) @ ''/'' @ sha256 @ ''.spio.src.tar''"

definition metadata_source :: "PublishDraft \<Rightarrow> string \<Rightarrow> string \<Rightarrow> json" where
  "metadata_source draft published_at archive_sha256 =
     json_obj [
       (''package'', JString (pd_package draft)), (''version'', JString (pd_version draft)), (''publisher_id'', JString (pd_publisher_id draft)),
       (''published_at'', JString published_at), (''archive_sha256'', JString archive_sha256),
       (''dependencies'', JArray []), (''dev_dependencies'', JArray [])]"

definition BuildReleaseRecord :: "plane_env \<Rightarrow> PublishDraft \<Rightarrow> string \<Rightarrow> string \<Rightarrow> nat \<Rightarrow> string \<Rightarrow> json result" where
  "BuildReleaseRecord env draft published_at archive_sha256 archive_size artifact_path =
     rbind (CanonicalJson (pe_json env) (metadata_source draft published_at archive_sha256)) (\<lambda>metadata.
     Inr (json_obj [
       (''schema_version'', JInt 1),
       (''package'', JString (pd_package draft)),
       (''version'', JString (pd_version draft)),
       (''release_revision'', JInt 1),
       (''published_at'', JString published_at),
       (''publisher_id'', JString (pd_publisher_id draft)),
       (''yanked'', JBool False),
       (''deprecated_message'', JString []),
       (''source_artifact'', json_obj [
          (''sha256'', JString archive_sha256), (''size_bytes'', JInt (int archive_size)), (''path'', JString artifact_path),
          (''archive_format'', JString ''tar''), (''compression'', JString ''none'')]),
       (''binary_artifacts'', JArray []),
       (''dependencies'', JArray []),
       (''dev_dependencies'', JArray []),
       (''features'', json_obj [(''default'', JArray []), (''optional'', JArray [])]),
       (''manifest_digest'', JString (Sha256Bytes (te_sha256 (pe_trust env)) (pd_package draft @ ''@'' @ pd_version draft))),
       (''metadata_digest'', JString (Sha256Bytes (te_sha256 (pe_trust env)) metadata))]))"

record LocalAppendResult =
  la_index_path :: string
  la_log_leaf_path :: string
  la_sequence :: nat

definition log_leaf :: "nat \<Rightarrow> PublishDraft \<Rightarrow> string \<Rightarrow> string \<Rightarrow> string \<Rightarrow> json" where
  "log_leaf sequence draft record_sha256 artifact_sha256 artifact_path =
     json_obj [
       (''schema_version'', JInt 1), (''sequence'', JInt (int sequence)),
       (''namespace'', JString (hd (SplitPackageName (pd_package draft)))),
       (''package'', JString (pd_package draft)), (''version'', JString (pd_version draft)), (''release_revision'', JInt 1),
       (''index_path'', JString (RegistryIndexPathForPackage (pd_package draft))), (''index_record_sha256'', JString record_sha256),
       (''source_artifact_sha256'', JString artifact_sha256), (''source_artifact_path'', JString artifact_path)]"

definition record_sha256 :: "json \<Rightarrow> string result" where
  "record_sha256 release_record = rbind (json_at release_record ''source_artifact'') (\<lambda>a. json_string_at a ''sha256'')"

definition place_artifact :: "fs_path \<Rightarrow> fs_path \<Rightarrow> json \<Rightarrow> (tree, unit) sm" where
  "place_artifact archive dest release_record =
     s_bind (mkdirs (path_parent dest)) (\<lambda>_.
     s_bind (s_reads (\<lambda>t. tree_exists t dest)) (\<lambda>present.
     if present then
       s_bind (s_reads (\<lambda>t. sha256_file (smap_find t) dest)) (\<lambda>sha.
       s_bind (s_lift sha) (\<lambda>sha.
       s_bind (s_lift (record_sha256 release_record)) (\<lambda>expected.
       s_guard (sha \<noteq> expected) (RuntimeError ''destination artifact already exists with different content''))))
     else copy_file (RuntimeError ''cannot copy file'') archive dest))"

definition leaf_path :: "nat \<Rightarrow> string" where
  "leaf_path sequence = ''log/leaves/'' @ PaddedNumber (of_nat sequence) 12 @ ''.json''"

definition AppendRegistryReleaseToLocal ::
  "plane_env \<Rightarrow> PlatformConfig \<Rightarrow> PublishDraft \<Rightarrow> json \<Rightarrow> string \<Rightarrow> (tree, LocalAppendResult) sm" where
  "AppendRegistryReleaseToLocal env config draft release_record artifact_path =
     (let registry_root = rg_root (cfg_registry config); L = pe_json env in
      s_bind (place_artifact (pd_archive_path draft) (path_div registry_root artifact_path) release_record) (\<lambda>_.
      s_bind (s_reads (ReleaseExistsOnDisk L registry_root (pd_package draft) (pd_version draft))) (\<lambda>published.
      s_bind (s_guard published (RuntimeError ''package version is already published'')) (\<lambda>_.
      s_bind (AppendJsonLine L (index_file registry_root (pd_package draft)) release_record) (\<lambda>_.
      s_bind (s_reads (\<lambda>t. length (LeafSequencePaths registry_root t) + 1)) (\<lambda>sequence.
      s_bind (s_lift (CanonicalJson L release_record)) (\<lambda>canonical.
      s_bind (s_lift (record_sha256 release_record)) (\<lambda>artifact_sha256.
      s_bind (write_json L (path_div registry_root (leaf_path sequence))
                (log_leaf sequence draft (Sha256Bytes (te_sha256 (pe_trust env)) canonical) artifact_sha256 artifact_path)) (\<lambda>_.
      s_return \<lparr>la_index_path = RegistryIndexPathForPackage (pd_package draft), la_log_leaf_path = leaf_path sequence,
                la_sequence = sequence\<rparr>)))))))))"

section \<open>Publications\<close>

definition RecordMirror :: "'db postgres option \<Rightarrow> PlatformConfig \<Rightarrow> string \<Rightarrow> string \<Rightarrow> string \<Rightarrow> string \<Rightarrow> string \<Rightarrow> int \<Rightarrow> ('db, unit) act" where
  "RecordMirror pg config freshness replay_cursor publication_id repository_version_id synced_at tree_size =
     (let r = cfg_registry config in
      s_bind (in_postgres pg (\<lambda>p. pg_RecordMirrorState p
        \<lparr>mi_mirror_id = rg_mirror_id r, mi_region = cfg_region config, mi_origin = rg_mirror_origin r, mi_freshness = freshness,
         mi_replay_cursor = replay_cursor, mi_publication_id = publication_id, mi_repository_version_id = repository_version_id,
         mi_synced_at = synced_at, mi_tree_size = tree_size\<rparr>)) (\<lambda>_.
      in_memory (RecordMirrorState (rg_mirror_id r) (cfg_region config) (rg_mirror_origin r) freshness replay_cursor publication_id
        repository_version_id synced_at tree_size)))"

definition default_policy :: json where
  "default_policy = json_obj [(''immutable_artifacts'', JBool True), (''append_only_versions'', JBool True)]"

definition publication_root :: "fs_path \<Rightarrow> string \<Rightarrow> fs_path" where
  "publication_root registry_root publication_id = path_div (path_div registry_root ''_publications'') publication_id"

definition publication_document :: "plane_env \<Rightarrow> fs_path \<Rightarrow> string \<Rightarrow> string \<Rightarrow> string \<Rightarrow> tree \<Rightarrow> (json \<times> nat) result" where
  "publication_document env temp_root publication_id repository_version_id generated_at t =
     (let L = pe_json env; sha = te_sha256 (pe_trust env); tree_size = length (LeafSequencePaths temp_root t);
          artifact_count = CountRegularFiles (path_div temp_root ''artifacts'') t in
      rbind (DirectoryDigest L sha (path_div temp_root ''index'') t) (\<lambda>index_digest.
      rbind (DirectoryDigest L sha (path_div temp_root ''trust'') t) (\<lambda>trust_digest.
      Inr (json_obj [
        (''publication_id'', JString publication_id), (''repository_id'', JString ''default''),
        (''repository_version_id'', JString repository_version_id), (''layout_version'', JInt 2),
        (''generated_at'', JString generated_at), (''tree_size'', JInt (int tree_size)),
        (''index_digest'', JString index_digest), (''trust_digest'', JString trust_digest),
        (''artifact_count'', JInt (int artifact_count)), (''verified'', JBool True)], tree_size))))"

definition stage_publication :: "plane_env \<Rightarrow> PlatformConfig \<Rightarrow> string \<Rightarrow> string \<Rightarrow> string \<Rightarrow> (tree, json \<times> nat) sm" where
  "stage_publication env config publication_id repository_version_id generated_at =
     (let registry_root = rg_root (cfg_registry config); L = pe_json env;
          temp_root = path_div (path_div (path_div registry_root ''_tmp'') ''publications'') publication_id;
          final_root = publication_root registry_root publication_id in
      s_bind (s_change (remove_all temp_root)) (\<lambda>_.
      s_bind (mkdirs (path_parent temp_root)) (\<lambda>_.
      s_bind (CopyRegistryReadPlaneTo registry_root temp_root) (\<lambda>_.
      s_bind (write_json L (path_div temp_root ''config.json'')
                (publication_config_payload config generated_at publication_id repository_version_id)) (\<lambda>_.
      s_bind (s_reads (publication_document env temp_root publication_id repository_version_id generated_at)) (\<lambda>doc.
      s_bind (s_lift doc) (\<lambda>(publication, tree_size).
      s_bind (write_json L (path_div temp_root ''publication.json'') publication) (\<lambda>_.
      s_bind (s_reads (\<lambda>t. tree_exists t (path_div temp_root ''config.json'') \<and> tree_exists t (path_div (path_div temp_root ''trust'') ''root.json'')
                \<and> tree_exists t (path_div temp_root ''publication.json''))) (\<lambda>complete.
      s_bind (s_guard (\<not> complete) (RuntimeError ''publication verification failed before distribution update'')) (\<lambda>_.
      s_bind (s_reads (\<lambda>t. tree_exists t final_root)) (\<lambda>present.
      s_bind (s_guard present (RuntimeError (''publication already exists: '' @ publication_id))) (\<lambda>_.
      s_bind (rename_tree (RuntimeError ''failed to publish immutable publication: '') temp_root final_root) (\<lambda>_.
      s_bind (copy_file (RuntimeError ''failed to activate publication config: '') (path_div final_root ''config.json'')
                (path_div registry_root ''config.json'')) (\<lambda>_.
      s_return (publication, tree_size)))))))))))))))"

definition pointer_value :: "json option \<Rightarrow> string \<Rightarrow> string result" where
  "pointer_value pointer key = (case pointer of None \<Rightarrow> Inr [] | Some j \<Rightarrow> json_value get_string j key [])"

definition pointer_document :: "string \<Rightarrow> string \<Rightarrow> string \<Rightarrow> string \<Rightarrow> string \<Rightarrow> json" where
  "pointer_document distribution_id publication_id repository_version_id updated_at previous_publication_id =
     json_set_if (previous_publication_id \<noteq> []) ''previous_publication_id'' (JString previous_publication_id) (json_obj [
       (''distribution_id'', JString distribution_id), (''publication_id'', JString publication_id),
       (''repository_version_id'', JString repository_version_id), (''updated_at'', JString updated_at)])"

definition update_pointer :: "plane_env \<Rightarrow> PlatformConfig \<Rightarrow> string \<Rightarrow> string \<Rightarrow> string \<Rightarrow> (tree, json \<times> string) sm" where
  "update_pointer env config publication_id repository_version_id generated_at =
     (let registry_root = rg_root (cfg_registry config); L = pe_json env in
      s_bind (s_reads (CurrentDistributionPointer L registry_root ''default'')) (\<lambda>previous.
      s_bind (s_lift previous) (\<lambda>previous.
      s_bind (s_lift (pointer_value previous ''publication_id'')) (\<lambda>previous_publication_id.
      let current = pointer_document ''default'' publication_id repository_version_id generated_at previous_publication_id in
      s_bind (write_json L (pointer_path registry_root ''default'') current) (\<lambda>_.
      s_return (current, previous_publication_id))))))"

definition default_repository :: "string \<Rightarrow> RegistryRepositoryRecord" where
  "default_repository generated_at =
     \<lparr>rp_repository_id = ''default'', rp_name = ''default'', rp_tenant_id = ''platform'', rp_policy = default_policy, rp_created_at = generated_at\<rparr>"

definition record_publication ::
  "plane_env \<Rightarrow> PlatformConfig \<Rightarrow> fs_path \<Rightarrow> int \<Rightarrow> string \<Rightarrow> string \<Rightarrow> string \<Rightarrow> string \<Rightarrow> string \<Rightarrow> string \<Rightarrow> nat
     \<Rightarrow> (RegistryRepositoryRecord \<Rightarrow> ('d host, unit) act) \<Rightarrow> (RegistryRepositoryVersionRecord \<Rightarrow> ('d host, unit) act)
     \<Rightarrow> (RegistryPublicationRecord \<Rightarrow> ('d host, unit) act) \<Rightarrow> (RegistryDistributionRecord \<Rightarrow> ('d host, unit) act) \<Rightarrow> ('d host, unit) act" where
  "record_publication env config final_root sequence publication_id repository_version_id change_kind change_ref generated_at previous tree_size
      upsert_repository record_version record_publication_record upsert_distribution =
     s_bind (upsert_repository (default_repository generated_at)) (\<lambda>_.
     s_bind (record_version
        \<lparr>rv_repository_version_id = repository_version_id, rv_repository_id = ''default'', rv_sequence = sequence,
         rv_change_kind = change_kind, rv_change_ref = change_ref, rv_created_at = generated_at\<rparr>) (\<lambda>_.
     s_bind (on_tree (s_bind (s_reads (\<lambda>t. sha256_file (smap_find t) (path_div final_root ''publication.json''))) s_lift)) (\<lambda>manifest_sha256.
     s_bind (record_publication_record
        \<lparr>pb_publication_id = publication_id, pb_repository_version_id = repository_version_id, pb_layout_version = 2,
         pb_root_path = publication_root (rg_root (cfg_registry config)) publication_id, pb_manifest_sha256 = manifest_sha256,
         pb_tree_size = to_int32 (int tree_size), pb_created_at = generated_at, pb_verified = True\<rparr>) (\<lambda>_.
     upsert_distribution
        \<lparr>ds_distribution_id = ''default'', ds_repository_id = ''default'', ds_name = ''default'',
         ds_base_url = RegistryReadRootUrl (pe_file_url env) config, ds_current_publication_id = publication_id,
         ds_previous_publication_id = previous, ds_updated_at = generated_at\<rparr>))))"

definition publication_sequence :: "64 word \<Rightarrow> int \<Rightarrow> int \<Rightarrow> int" where
  "publication_sequence disk_sequence memory_sequence persistent_sequence =
     max (to_int32 (uint (max disk_sequence (of_int memory_sequence)))) persistent_sequence"

definition CreateRegistryPublication ::
  "'d host postgres option \<Rightarrow> plane_env \<Rightarrow> PlatformConfig \<Rightarrow> string \<Rightarrow> string \<Rightarrow> string \<Rightarrow> ('d host, json) act" where
  "CreateRegistryPublication pg env config change_kind change_ref generated_at =
     (let registry_root = rg_root (cfg_registry config) in
      s_bind (on_tree (mkdirs (path_div registry_root ''_publications''))) (\<lambda>_.
      s_bind (on_tree (mkdirs (path_div (path_div registry_root ''_distributions'') ''default''))) (\<lambda>_.
      s_bind (on_tree (s_reads (NextPublicationSequenceOnDisk registry_root))) (\<lambda>disk_sequence.
      s_bind (reading (NextRepositoryVersionSequence ''default'')) (\<lambda>memory_sequence.
      s_bind (either_store pg (\<lambda>p. from_pg (pg_NextRepositoryVersionSequence p ''default'')) (s_return memory_sequence)) (\<lambda>persistent_sequence.
      let sequence = publication_sequence disk_sequence memory_sequence persistent_sequence;
          repository_version_id = ''rv-'' @ PaddedNumber (of_int sequence) 6;
          publication_id = ''pub-'' @ PaddedNumber (of_int sequence) 6;
          final_root = publication_root registry_root publication_id in
      s_bind (on_tree (stage_publication env config publication_id repository_version_id generated_at)) (\<lambda>(publication, tree_size).
      s_bind (on_tree (update_pointer env config publication_id repository_version_id generated_at)) (\<lambda>(current, previous).
      s_bind (record_publication env config final_root sequence publication_id repository_version_id change_kind change_ref generated_at previous tree_size
                (\<lambda>r. in_memory (UpsertRegistryRepository r)) (\<lambda>r. in_memory (RecordRegistryRepositoryVersion r))
                (\<lambda>r. in_memory (RecordRegistryPublication r)) (\<lambda>r. in_memory (UpsertRegistryDistribution r))) (\<lambda>_.
      s_bind (case pg of None \<Rightarrow> s_return ()
              | Some p \<Rightarrow> record_publication env config final_root sequence publication_id repository_version_id change_kind change_ref generated_at previous tree_size
                  (\<lambda>r. in_postgres pg (\<lambda>p. pg_UpsertRegistryRepository p r)) (\<lambda>r. in_postgres pg (\<lambda>p. pg_RecordRegistryRepositoryVersion p r))
                  (\<lambda>r. in_postgres pg (\<lambda>p. pg_RecordRegistryPublication p r)) (\<lambda>r. in_postgres pg (\<lambda>p. pg_UpsertRegistryDistribution p r))) (\<lambda>_.
      s_bind (RecordMirror pg config ''fresh'' (''checkpoint-'' @ PaddedNumber (of_nat tree_size) 4) publication_id repository_version_id
                generated_at (to_int32 (int tree_size))) (\<lambda>_.
      s_bind (on_tree (s_bind (s_reads (\<lambda>t. sha256_file (smap_find t) (path_div final_root ''publication.json''))) s_lift)) (\<lambda>manifest_sha256.
      s_return (json_set ''distribution'' current (json_set ''root_path'' (JString final_root)
        (json_set ''manifest_sha256'' (JString manifest_sha256) publication)))))))))))))))"

end
