(* ===== verification/Tree_Laws.thy ===== *)
theory Tree_Laws
  imports Registry_Publish
begin

text \<open>
  Laws of the registry's directory tree: what each operation leaves in a file, and which files a
  computation keeps. The relation \<open>keeps P\<close> says that every file whose path satisfies \<open>P\<close> has the
  same content afterwards; it interprets the locale \<open>frame\<close>, for trees and for routers with a tree.
\<close>

section \<open>Paths below a directory\<close>

lemma path_div_rel: "\<not> path_absolute x \<Longrightarrow> path_div p x = dir_prefix p @ x"
  by (auto simp: path_div_def dir_prefix_def path_absolute_def)

lemma dir_prefix_div:
  "\<not> path_absolute x \<Longrightarrow> x \<noteq> [] \<Longrightarrow> last x \<noteq> CHR ''/'' \<Longrightarrow> dir_prefix (path_div p x) = dir_prefix p @ x @ ''/''"
  by (auto simp: path_div_def dir_prefix_def path_absolute_def)

lemma dir_prefix_path: "p \<noteq> [] \<Longrightarrow> last p \<noteq> CHR ''/'' \<Longrightarrow> dir_prefix p = p @ ''/''"
  by (simp add: dir_prefix_def path_div_def path_absolute_def)

lemma dir_prefix_append: "x \<noteq> [] \<Longrightarrow> last x \<noteq> CHR ''/'' \<Longrightarrow> dir_prefix (p @ x) = p @ x @ ''/''"
  by (simp add: dir_prefix_def path_div_def path_absolute_def)

lemmas path_simps = path_div_rel dir_prefix_append

lemma path_absolute_Cons [simp]: "path_absolute (c # cs) \<longleftrightarrow> c = CHR ''/''" "\<not> path_absolute []"
  by (auto simp: path_absolute_def)

lemma starts_with_same [simp]: "starts_with (p @ x) (p @ y) \<longleftrightarrow> starts_with x y"
  by (simp add: starts_with_def)

lemma starts_with_refl [simp]: "starts_with p p"
  by (simp add: starts_with_def)

lemma starts_with_trans: "starts_with p q \<Longrightarrow> starts_with q r \<Longrightarrow> starts_with p r"
  by (auto simp: starts_with_iff)

section \<open>Looking a path up\<close>

lemma find_filter: "smap_find (filter (\<lambda>e. Q (fst e)) t) p = (if Q p then smap_find t p else None)"
  by (induction t) auto

lemma find_remove_all: "smap_find (remove_all d t) p = (if p \<noteq> d \<and> \<not> below d p then smap_find t p else None)"
  unfolding remove_all_def by (simp add: find_filter [of "\<lambda>q. q \<noteq> d \<and> \<not> below d q"])

lemma find_put_file: "smap_find (put_file p x t) q = (if q = p \<and> smap_find t p \<noteq> Some Directory then Some (Regular x) else smap_find t q)"
  by (simp add: put_file_def)

lemma tree_text_put_file:
  "tree_text (put_file p x t) q = (if q = p \<and> smap_find t p \<noteq> Some Directory then Some x else tree_text t q)"
  by (simp add: tree_text_def find_put_file)

lemma tree_text_append_file:
  "smap_find t p \<noteq> Some Directory \<Longrightarrow>
   tree_text (append_file p x t) q = (if q = p then Some ((case tree_text t p of None \<Rightarrow> [] | Some old \<Rightarrow> old) @ x) else tree_text t q)"
  by (simp add: append_file_def tree_text_put_file)

lemma regular_text: "is_regular (smap_find t p) \<longleftrightarrow> (\<exists>x. tree_text t p = Some x)"
  by (auto simp: tree_text_def split: option.splits fs_node.splits elim: is_regular.elims)

lemma foldl_put_find:
  "smap_find (foldl (\<lambda>t e. smap_put (fst e) (snd e) t) t es) p =
     (case map_of (rev es) p of None \<Rightarrow> smap_find t p | Some v \<Rightarrow> Some v)"
  by (induction es arbitrary: t) (auto split: option.splits simp: map_add_def)

lemma foldl_put_other: "p \<notin> fst ` set es \<Longrightarrow> smap_find (foldl (\<lambda>t e. smap_put (fst e) (snd e) t) t es) p = smap_find t p"
  by (induction es arbitrary: t) auto

lemma mkdirs_fold_find:
  "smap_find (foldl (\<lambda>t a. if smap_contains t a then t else smap_put a Directory t) t ds) p =
     (if p \<in> set ds \<and> smap_find t p = None then Some Directory else smap_find t p)"
  by (induction ds arbitrary: t) (auto simp: smap_contains_def)

lemma mkdirs_find:
  "smap_find (snd (mkdirs d t)) p = smap_find t p
   \<or> smap_find t p = None \<and> smap_find (snd (mkdirs d t)) p = Some Directory \<and> p \<in> set (ancestors d @ [d])"
  by (auto simp: mkdirs_def mkdirs_fold_find simp del: foldl_append)

lemma mkdirs_text: "tree_text (snd (mkdirs d t)) p = tree_text t p"
  using mkdirs_find [of d t p] by (auto simp: tree_text_def)

lemma mkdirs_Inr_text: "mkdirs d t = (Inr x, u) \<Longrightarrow> tree_text u p = tree_text t p"
  using mkdirs_text [of d t p] by simp

section \<open>Files that are kept\<close>

definition keeps :: "(fs_path \<Rightarrow> bool) \<Rightarrow> tree \<Rightarrow> tree \<Rightarrow> bool" where
  "keeps P t u \<longleftrightarrow> (\<forall>p x. P p \<longrightarrow> tree_text t p = Some x \<longrightarrow> tree_text u p = Some x)"

interpretation kt: frame "keeps P" for P
  by unfold_locales (auto simp: keeps_def)

lemma keepsI: "(\<And>p. P p \<Longrightarrow> tree_text u p = tree_text t p) \<Longrightarrow> keeps P t u"
  by (simp add: keeps_def)

lemma keeps_mkdirs: "framed (keeps P) (mkdirs d)"
  by (auto simp: framed_def mkdirs_text intro: keepsI)

lemma keeps_put_file: "\<not> P p \<Longrightarrow> keeps P t (put_file p x t)"
  by (auto simp: tree_text_put_file intro!: keepsI)

lemma keeps_append_file: "\<not> P p \<Longrightarrow> keeps P t (append_file p x t)"
  by (simp add: append_file_def keeps_put_file)

lemma keeps_remove_path: "\<not> P p \<Longrightarrow> keeps P t (remove_path p t)"
  by (auto simp: remove_path_def tree_text_def intro!: keepsI)

definition apart :: "(fs_path \<Rightarrow> bool) \<Rightarrow> fs_path \<Rightarrow> bool" where
  "apart P d \<longleftrightarrow> (\<forall>p. P p \<longrightarrow> \<not> starts_with p d)"

lemma below_starts: "below d p \<Longrightarrow> starts_with p d"
  by (auto simp: below_def dir_prefix_def path_div_def starts_with_iff split: if_splits)

lemma apart_outside: "apart P d \<Longrightarrow> P p \<Longrightarrow> p \<noteq> d \<and> \<not> below d p"
  using below_starts by (auto simp: apart_def starts_with_def)

lemma keeps_remove_all: "apart P d \<Longrightarrow> keeps P t (remove_all d t)"
  by (auto simp: tree_text_def find_remove_all dest: apart_outside intro!: keepsI)

lemma keeps_WriteTextFile: "\<not> P p \<Longrightarrow> framed (keeps P) (WriteTextFile p x)"
  unfolding WriteTextFile_def by (intro kt.framed_intros keeps_mkdirs keeps_put_file)

lemma keeps_write_json: "\<not> P p \<Longrightarrow> framed (keeps P) (write_json L p j)"
  unfolding write_json_def by (intro kt.framed_intros keeps_WriteTextFile)

lemma keeps_append_json_line: "\<not> P p \<Longrightarrow> framed (keeps P) (append_json_line L p j)"
  unfolding append_json_line_def by (intro kt.framed_intros keeps_append_file)

lemma keeps_AppendJsonLine: "\<not> P p \<Longrightarrow> framed (keeps P) (AppendJsonLine L p j)"
  unfolding AppendJsonLine_def by (intro kt.framed_intros keeps_mkdirs keeps_append_json_line)

lemma copy_entries_starts: "e \<in> set (copy_entries source dest t) \<Longrightarrow> starts_with (fst e) dest"
  by (auto simp: copy_entries_def)

lemma keeps_foldl_put:
  assumes "\<And>e. e \<in> set es \<Longrightarrow> \<not> P (fst e)"
  shows "keeps P t (foldl (\<lambda>t e. smap_put (fst e) (snd e) t) t es)"
proof (rule keepsI)
  fix p assume "P p"
  with assms have "p \<notin> fst ` set es" by blast
  then show "tree_text (foldl (\<lambda>t e. smap_put (fst e) (snd e) t) t es) p = tree_text t p"
    by (simp add: tree_text_def foldl_put_other)
qed

lemma keeps_copy_tree: "apart P dest \<Longrightarrow> framed (keeps P) (copy_tree err source dest)"
  by (auto simp: framed_def copy_tree_def kt.R_refl apart_def dest: copy_entries_starts intro!: keeps_foldl_put)

lemma keeps_copy_file: "\<not> P dest \<Longrightarrow> framed (keeps P) (copy_file err source dest)"
  by (auto simp: framed_def copy_file_def kt.R_refl tree_text_def intro!: keepsI split: option.splits fs_node.splits)

text \<open>Moving a directory overwrites nothing, and removes only what was below its old path.\<close>

lemma copy_entries_below:
  assumes "e \<in> set (copy_entries source dest t)" and "source \<noteq> []" "last source \<noteq> CHR ''/''" "dest \<noteq> []" "last dest \<noteq> CHR ''/''"
  shows "fst e = dest \<or> below dest (fst e)"
  using assms by (auto simp: copy_entries_def below_def dir_prefix_path starts_with_iff)

lemma keeps_rename_tree:
  assumes "apart P source" "source \<noteq> []" "last source \<noteq> CHR ''/''" "dest \<noteq> []" "last dest \<noteq> CHR ''/''"
  shows "framed (keeps P) (rename_tree err source dest)"
proof -
  have "keeps P t (foldl (\<lambda>t e. smap_put (fst e) (snd e) t) (remove_all source t) (copy_entries source dest t))"
    if free: "\<not> occupied t dest" for t
    unfolding keeps_def
  proof (intro allI impI)
    fix p x assume p: "P p" and x: "tree_text t p = Some x"
    then have "(p, Regular x) \<in> set t" by (induction t) (auto simp: tree_text_def split: option.splits if_splits fs_node.splits)
    with free have "p \<noteq> dest \<and> \<not> below dest p" by (force simp: occupied_def list_ex_iff)
    with copy_entries_below [OF _ assms(2-5)] have "p \<notin> fst ` set (copy_entries source dest t)" by blast
    with p x apart_outside [OF assms(1)] show "tree_text (foldl (\<lambda>t e. smap_put (fst e) (snd e) t) (remove_all source t) (copy_entries source dest t)) p = Some x"
      by (auto simp: tree_text_def foldl_put_other find_remove_all)
  qed
  then show ?thesis by (auto simp: framed_def rename_tree_def kt.R_refl)
qed

text \<open>The files that a run of \<^verbatim>\<open>openssl\<close> may write are those its arguments name after \<^verbatim>\<open>-out\<close>.\<close>

fun out_files :: "string list \<Rightarrow> string list" where
  "out_files (a # b # rest) =
     (if a = ''-out'' then b # out_files rest
      else if a \<in> {''-in'', ''-inkey'', ''-algorithm'', ''-outform''} then out_files rest
      else out_files (b # rest))"
| "out_files _ = []"

definition openssl_local :: "trust_env \<Rightarrow> bool" where
  "openssl_local env \<longleftrightarrow>
     (\<forall>request t p. p \<notin> set (out_files (pr_args request)) \<longrightarrow> tree_text (snd (te_openssl env request t)) p = tree_text t p)"

lemma keeps_openssl:
  assumes "openssl_local env" and "\<And>p. p \<in> set (out_files args) \<Longrightarrow> \<not> P p"
  shows "framed (keeps P) (RunRegistryOpenSsl env args input n)"
proof -
  have "pr_args (openssl_request args input n) = args" by (simp add: openssl_request_def process_request_def)
  then have "keeps P t (snd (te_openssl env (openssl_request args input n) t))" for t
    using assms by (intro keepsI) (metis openssl_local_def)
  then show ?thesis
    unfolding framed_def RunRegistryOpenSsl_def by (auto split: prod.splits sum.splits) (metis snd_conv)+
qed

section \<open>What writing leaves in a file\<close>

lemma path_names_Nil_iff: "path_names p = [] \<longleftrightarrow> set p \<subseteq> {CHR ''/''}"
proof -
  have "list_all (\<lambda>x. x = []) (getlines (CHR ''/'') p) \<longleftrightarrow> set p \<subseteq> {CHR ''/''}"
    by (induction p) (auto split: list.splits)
  then show ?thesis by (simp add: path_names_def filter_empty_conv list_all_iff)
qed

lemma parent_shorter: "path_names p \<noteq> [] \<Longrightarrow> length (path_parent p) < length p"
proof -
  assume n: "path_names p \<noteq> []"
  have "path_parent p \<noteq> p"
  proof (cases "last p = CHR ''/''")
    case True
    from n have "p \<noteq> []" by auto
    with True obtain q where "p = q @ ''/''" by (metis append_butlast_last_id)
    then have "length (strip_back (CHR ''/'') p) \<noteq> length p"
      using length_dropWhile_le [of "\<lambda>x. x = CHR ''/''" "rev q"] by (simp add: strip_back_def)
    with n True show ?thesis by (auto simp: path_parent_def)
  next
    case False
    let ?r = "strip_back (CHR ''/'') (rev (dropWhile (\<lambda>c. c \<noteq> CHR ''/'') (rev p)))"
    from n have "p \<noteq> []" by auto
    have "length ?r < length p"
    proof -
      obtain q x where p: "p = q @ [x]" "x \<noteq> CHR ''/''" using False \<open>p \<noteq> []\<close> by (metis append_butlast_last_id)
      then have "length (dropWhile (\<lambda>c. c \<noteq> CHR ''/'') (rev p)) \<le> length q"
        using length_dropWhile_le [of "\<lambda>c. c \<noteq> CHR ''/''" "rev q"] by simp
      then show ?thesis
        using length_dropWhile_le [of "\<lambda>c. c = CHR ''/''" "dropWhile (\<lambda>c. c \<noteq> CHR ''/'') (rev p)"] p
        by (simp add: strip_back_def)
    qed
    moreover have "p \<noteq> ''/''" using n by auto
    ultimately show ?thesis using n False by (auto simp: path_parent_def Let_def)
  qed
  then show ?thesis by (rule path_parent_shorter)
qed

lemma mkdirs_parent_directory:
  assumes "mkdirs (path_parent p) t = (r, u)" and "path_names p \<noteq> []"
  shows "smap_find u p = Some Directory \<longleftrightarrow> smap_find t p = Some Directory"
proof -
  have "p \<notin> set (ancestors (path_parent p) @ [path_parent p])"
  proof
    assume "p \<in> set (ancestors (path_parent p) @ [path_parent p])"
    then have "length p \<le> length (path_parent p)" by (auto simp: ancestors_def dest!: arg_cong [of _ _ length])
    with parent_shorter [OF assms(2)] show False by simp
  qed
  then show ?thesis using mkdirs_find [of "path_parent p" t p] assms(1) by auto
qed

text \<open>Directories appear only above what is written.\<close>

lemma path_parent_prefix: "starts_with p (path_parent p)"
proof -
  have strip: "starts_with s (strip_back c s)" for c and s :: string
    using strip_back_prefix [of s c] by (metis starts_with_append)
  have shorter: "starts_with p (rev (dropWhile P (rev p)))" for P
    using takeWhile_dropWhile_id [of P "rev p"] by (metis rev_append rev_rev_ident starts_with_append)
  have "path_absolute p \<Longrightarrow> starts_with p ''/''" by (cases p) auto
  then show ?thesis
    using strip starts_with_trans [OF shorter strip] by (simp add: path_parent_def Let_def)
qed

lemma mkdirs_dirs: "mkdirs d t = (r, u) \<Longrightarrow> smap_find u q = Some Directory \<Longrightarrow> smap_find t q = Some Directory \<or> starts_with d q"
  using mkdirs_find [of d t q] by (auto simp: ancestors_def starts_with_def)

lemma mkdirs_parent_dirs:
  "mkdirs (path_parent p) t = (r, u) \<Longrightarrow> smap_find u q = Some Directory \<Longrightarrow> smap_find t q = Some Directory \<or> starts_with p q"
  using mkdirs_dirs path_parent_prefix starts_with_trans by blast

text \<open>Nothing is in the way of a path when no file is where a directory above it has to be.\<close>

definition clear_way :: "tree \<Rightarrow> fs_path \<Rightarrow> bool" where
  "clear_way t p \<longleftrightarrow> (\<forall>q. starts_with (path_parent p) q \<longrightarrow> tree_text t q = None)"

lemma mkdirs_clear: "clear_way t p \<Longrightarrow> \<exists>u. mkdirs (path_parent p) t = (Inr (), u)"
proof -
  assume c: "clear_way t p"
  have "\<not> is_regular (smap_find t q)" if "q \<in> set (ancestors (path_parent p) @ [path_parent p])" for q
  proof -
    from that have "starts_with (path_parent p) q" by (auto simp: ancestors_def starts_with_def)
    with c show ?thesis by (auto simp: clear_way_def regular_text)
  qed
  then show ?thesis by (simp add: mkdirs_def list_ex_iff)
qed

lemma clear_way_same: "(\<And>q. tree_text u q = tree_text t q) \<Longrightarrow> clear_way u p = clear_way t p"
  by (simp add: clear_way_def)

lemma clear_way_text:
  "(\<And>q. q \<noteq> d \<Longrightarrow> tree_text u q = tree_text t q) \<Longrightarrow> \<not> starts_with (path_parent p) d \<Longrightarrow> clear_way t p \<Longrightarrow> clear_way u p"
  unfolding clear_way_def by metis

lemma write_json_succeeds:
  assumes "clear_way t p" "jl_dump2 L j = Inr x"
  shows "\<exists>u. write_json L p j t = (Inr (), u)"
  using mkdirs_clear [OF assms(1)] assms(2)
  by (auto simp: write_json_def WriteTextFile_def JsonText_def s_bind_def sm_simps)

lemma AppendJsonLine_succeeds:
  assumes "clear_way t p" "jl_dump L j = Inr x"
  shows "\<exists>u. AppendJsonLine L p j t = (Inr (), u)"
  using mkdirs_clear [OF assms(1)] assms(2)
  by (auto simp: AppendJsonLine_def append_json_line_def s_bind_def sm_simps)

lemma AppendJsonLine_dirs:
  "AppendJsonLine L p j t = (r, u) \<Longrightarrow> smap_find u q = Some Directory \<Longrightarrow> smap_find t q = Some Directory \<or> starts_with p q"
  by (auto simp: AppendJsonLine_def append_json_line_def s_bind_def sm_simps append_file_def find_put_file
      split: prod.splits sum.splits if_splits dest: mkdirs_parent_dirs)

lemma WriteTextFile_text:
  assumes "WriteTextFile p x t = (Inr y, u)" and "path_names p \<noteq> []" "smap_find t p \<noteq> Some Directory"
  shows "tree_text u q = (if q = p then Some x else tree_text t q)"
  using assms mkdirs_parent_directory [of p t]
  by (auto simp: WriteTextFile_def s_bind_Inr sm_simps tree_text_put_file mkdirs_Inr_text)

lemma write_json_text:
  assumes "write_json L p j t = (Inr y, u)" and "path_names p \<noteq> []" "smap_find t p \<noteq> Some Directory"
  obtains x where "jl_dump2 L j = Inr x" "\<And>q. tree_text u q = (if q = p then Some (x @ [CHR 0x0A]) else tree_text t q)"
  using assms by (auto simp: write_json_def s_bind_Inr sm_simps JsonText_def rbind_eq_Inr dest: WriteTextFile_text)

definition file_or_empty :: "string option \<Rightarrow> string" where
  "file_or_empty x = (case x of None \<Rightarrow> [] | Some s \<Rightarrow> s)"

lemma append_json_line_text:
  assumes "append_json_line L p j t = (Inr y, u)" "smap_find t p \<noteq> Some Directory"
  obtains line where "jl_dump L j = Inr line"
    "\<And>q. tree_text u q = (if q = p then Some (file_or_empty (tree_text t p) @ line @ [CHR 0x0A]) else tree_text t q)"
    "smap_find u p \<noteq> Some Directory"
proof -
  from assms(1) obtain line where line: "jl_dump L j = Inr line" and u: "u = append_file p (line @ [CHR 0x0A]) (append_file p [] t)"
    by (auto simp: append_json_line_def s_bind_Inr sm_simps)
  have d: "smap_find (append_file p [] t) p \<noteq> Some Directory" using assms(2) by (simp add: append_file_def find_put_file)
  show thesis
  proof (rule that [OF line])
    show "tree_text u q = (if q = p then Some (file_or_empty (tree_text t p) @ line @ [CHR 0x0A]) else tree_text t q)" for q
      using assms(2) d by (simp add: u tree_text_append_file file_or_empty_def split: option.splits)
    show "smap_find u p \<noteq> Some Directory" using d by (simp add: u append_file_def find_put_file)
  qed
qed

lemma AppendJsonLine_text:
  assumes "AppendJsonLine L p j t = (Inr y, u)" "smap_find t p \<noteq> Some Directory" "path_names p \<noteq> []"
  obtains line where "jl_dump L j = Inr line"
    "\<And>q. tree_text u q = (if q = p then Some (file_or_empty (tree_text t p) @ line @ [CHR 0x0A]) else tree_text t q)"
proof -
  from assms(1) obtain s v where v: "mkdirs (path_parent p) t = (Inr s, v)" and "append_json_line L p j v = (Inr y, u)"
    by (auto simp: AppendJsonLine_def s_bind_Inr)
  then show thesis
    using append_json_line_text [of L p j v y u] mkdirs_parent_directory [OF v assms(3)] assms(2) mkdirs_Inr_text [OF v] that
    by metis
qed

section \<open>JSON lines\<close>

lemma json_value_lookup: "is_object j \<Longrightarrow> json_value get j k d = (case json_lookup j k of None \<Rightarrow> Inr d | Some v \<Rightarrow> get v)"
  by (cases j) simp_all

lemma json_value_obj [simp]: "json_value get (json_obj kvs) k d = (case map_of kvs k of None \<Rightarrow> Inr d | Some v \<Rightarrow> get v)"
  by (simp add: json_value_lookup)

text \<open>
  What the sources rely on of the JSON library: a printed document reads back as itself and the
  compact form is one non-empty line. A value the library cannot hold, such as an integer beyond
  64 bits, has no text.
\<close>

definition json_laws :: "json_lib \<Rightarrow> bool" where
  "json_laws L \<longleftrightarrow>
     (\<forall>j x. jl_dump L j = Inr x \<longrightarrow> jl_parse L x = Some j \<and> x \<noteq> [] \<and> CHR 0x0A \<notin> set x)
     \<and> (\<forall>j x. jl_dump2 L j = Inr x \<longrightarrow> jl_parse L (x @ [CHR 0x0A]) = Some j)"

text \<open>A file of lines: every line, the last one too, ends with a newline.\<close>

definition whole_lines :: "string \<Rightarrow> bool" where
  "whole_lines x = (x = [] \<or> last x = CHR 0x0A)"

lemma getlines_delim_append: "getlines d (a @ d # b) = getlines d (a @ [d]) @ getlines d b"
  by (induction a) (auto split: list.splits)

lemma whole_lines_append:
  assumes "whole_lines x"
  shows "getlines (CHR 0x0A) (x @ y) = getlines (CHR 0x0A) x @ getlines (CHR 0x0A) y"
proof (cases "x = []")
  case False
  with assms obtain a where "x = a @ [CHR 0x0A]" by (metis append_butlast_last_id whole_lines_def)
  then show ?thesis using getlines_delim_append [of "CHR 0x0A" a y] by simp
qed simp

lemma rmap_append: "rmap f (xs @ ys) = rbind (rmap f xs) (\<lambda>as. rbind (rmap f ys) (\<lambda>bs. Inr (as @ bs)))"
  by (induction xs) (auto simp: rbind_def split: sum.splits)

lemma index_records_append:
  assumes "json_laws L" and "whole_lines x" and "jl_dump L j = Inr line"
  shows "index_records L (Some (x @ line @ [CHR 0x0A])) = rbind (index_records L (Some x)) (\<lambda>rs. Inr (rs @ [j]))"
proof -
  have line: "jl_parse L line = Some j" "line \<noteq> []" "CHR 0x0A \<notin> set line" using assms by (auto simp: json_laws_def)
  then have "getlines (CHR 0x0A) (line @ [CHR 0x0A]) = [line]" by (simp add: getlines_delim)
  then show ?thesis
    using line by (simp add: index_records_def text_lines_def whole_lines_append [OF assms(2)] rmap_append json_parse_def)
qed

lemma text_lines_empty: "text_lines x = text_lines (Some (file_or_empty x))"
  by (cases x) (simp_all add: text_lines_def file_or_empty_def)

lemma index_records_empty: "index_records L x = index_records L (Some (file_or_empty x))"
  by (simp add: index_records_def text_lines_empty [of x])

section \<open>Digests of files\<close>

lemma tree_file_text: "file_text (smap_find t) p = tree_text t p"
  by (simp add: file_text_def tree_text_def)

lemma sha256_file_text:
  assumes "sha256_file fs p = Inr d" and "file_text fs p = file_text fs' q"
  shows "sha256_file fs' q = Inr d"
proof -
  obtain x where x: "file_text fs p = Some x"
    using sha256_file_shape [OF assms(1)] by (auto simp: file_text_def)
  then have "Sha256File p (Some ([map of_char x], True)) = Some (Inr d)"
    using sha256_file_returns [of p fs] assms(1) by (simp add: file_stream_def)
  then have "Sha256File q (Some ([map of_char x], True)) = Some (Inr d)"
    using update_all_returns [of "[map of_char x]"] by (auto simp: Sha256File_def simp del: update_all.simps)
  then show ?thesis using x assms(2) by (simp add: sha256_file_def file_stream_def)
qed

lemma sha256_file_exists: "tree_text t p = Some x \<Longrightarrow> \<exists>d. sha256_file (smap_find t) p = Inr d"
  using update_all_returns [of "[map of_char x]"]
  by (auto simp: sha256_file_def tree_file_text file_stream_def Sha256File_def simp del: update_all.simps)

lemma sha256_file_same: "tree_text u p = tree_text t p \<Longrightarrow> sha256_file (smap_find u) p = sha256_file (smap_find t) p"
  by (simp add: sha256_file_def tree_file_text)

end
