(* ===== verification/Json_Codec.thy ===== *)
theory Json_Codec
  imports Tree_Laws
begin

text \<open>
  A text form of JSON documents with a decoder, on which the registry's theorems are applied to
  concrete inputs: prefix codes, strings as two letters for each character, integers in unary.
  It satisfies the laws the development assumes of the JSON library. Fractions have no text.
\<close>

definition nibble_char :: "nat \<Rightarrow> char" where
  "nibble_char n = char_of (97 + n)"

definition nibble_val :: "char \<Rightarrow> nat" where
  "nibble_val c = of_char c - 97"

fun enc_text :: "string \<Rightarrow> string" where
  "enc_text [] = ''.''"
| "enc_text (c # cs) = nibble_char (of_char c div 16) # nibble_char (of_char c mod 16) # enc_text cs"

fun dec_text :: "string \<Rightarrow> (string \<times> string) option" where
  "dec_text [] = None"
| "dec_text (c # cs) =
     (if c = CHR ''.'' then Some ([], cs)
      else case cs of
        [] \<Rightarrow> None
      | d # ds \<Rightarrow> map_option (\<lambda>(s, r). (char_of (nibble_val c * 16 + nibble_val d) # s, r)) (dec_text ds))"

definition enc_int :: "int \<Rightarrow> string" where
  "enc_int i = (if i < 0 then ''-'' else ''+'') @ replicate (nat \<bar>i\<bar>) (CHR ''1'') @ ''.''"

definition dec_int :: "string \<Rightarrow> int \<times> string" where
  "dec_int s = (let k = length (takeWhile (\<lambda>c. c = CHR ''1'') (tl s)) in
     ((if hd s = CHR ''-'' then - int k else int k), drop (k + 2) s))"

fun enc :: "json \<Rightarrow> string" where
  "enc JNull = ''n''"
| "enc (JBool b) = (if b then ''t'' else ''f'')"
| "enc (JInt i) = ''i'' @ enc_int i"
| "enc (JFloat q) = []"
| "enc (JString s) = ''s'' @ enc_text s"
| "enc (JArray xs) = ''a'' @ concat (map enc xs) @ ''z''"
| "enc (JObject m) = ''o'' @ concat (map (\<lambda>(k, v). ''k'' @ enc_text k @ enc v) m) @ ''z''"

fun exact :: "json \<Rightarrow> bool" where
  "exact (JFloat q) = False"
| "exact (JArray xs) = list_all exact xs"
| "exact (JObject m) = list_all (\<lambda>(k, v). exact v) m"
| "exact _ = True"

fun dec :: "nat \<Rightarrow> string \<Rightarrow> (json \<times> string) option"
  and dec_items :: "nat \<Rightarrow> string \<Rightarrow> (json list \<times> string) option"
  and dec_members :: "nat \<Rightarrow> string \<Rightarrow> ((string \<times> json) list \<times> string) option" where
  "dec 0 s = None"
| "dec (Suc n) [] = None"
| "dec (Suc n) (c # s) =
     (if c = CHR ''n'' then Some (JNull, s)
      else if c = CHR ''t'' then Some (JBool True, s)
      else if c = CHR ''f'' then Some (JBool False, s)
      else if c = CHR ''i'' then (case dec_int s of (i, r) \<Rightarrow> Some (JInt i, r))
      else if c = CHR ''s'' then map_option (\<lambda>(x, r). (JString x, r)) (dec_text s)
      else if c = CHR ''a'' then map_option (\<lambda>(xs, r). (JArray xs, r)) (dec_items n s)
      else if c = CHR ''o'' then map_option (\<lambda>(m, r). (JObject m, r)) (dec_members n s)
      else None)"
| "dec_items 0 s = None"
| "dec_items (Suc n) s =
     (if s \<noteq> [] \<and> hd s = CHR ''z'' then Some ([], tl s)
      else case dec n s of
        None \<Rightarrow> None
      | Some (x, r) \<Rightarrow> map_option (\<lambda>(xs, q). (x # xs, q)) (dec_items n r))"
| "dec_members 0 s = None"
| "dec_members (Suc n) s =
     (if s \<noteq> [] \<and> hd s = CHR ''z'' then Some ([], tl s)
      else if s \<noteq> [] \<and> hd s = CHR ''k'' then
        (case dec_text (tl s) of
           None \<Rightarrow> None
         | Some (k, r) \<Rightarrow>
             (case dec n r of
                None \<Rightarrow> None
              | Some (v, q) \<Rightarrow> map_option (\<lambda>(m, p). ((k, v) # m, p)) (dec_members n q)))
      else None)"

definition codec_parse :: "string \<Rightarrow> json option" where
  "codec_parse s =
     (let body = (if s \<noteq> [] \<and> last s = CHR 0x0A then butlast s else s) in
      case dec (Suc (length body)) body of Some (j, []) \<Rightarrow> Some j | _ \<Rightarrow> None)"

definition codec_dump :: "json \<Rightarrow> string result" where
  "codec_dump j = (if exact j then Inr (enc j) else Inl JsonError)"

definition codec :: json_lib where
  "codec = \<lparr>jl_parse = codec_parse, jl_dump = codec_dump, jl_dump2 = codec_dump\<rparr>"

section \<open>The laws hold\<close>

lemma nibble: "n < 16 \<Longrightarrow> nibble_val (nibble_char n) = n" "n < 16 \<Longrightarrow> nibble_char n \<noteq> CHR ''.''" "n < 16 \<Longrightarrow> nibble_char n \<noteq> CHR 0x0A"
  by (auto simp: nibble_val_def nibble_char_def dest: arg_cong [where f = "of_char :: char \<Rightarrow> nat"])

lemma char_nibbles: "(of_char (c :: char) :: nat) div 16 < 16" "(of_char c :: nat) mod 16 < 16"
proof -
  have "(of_char c :: nat) < 256" by simp
  then show "(of_char c :: nat) div 16 < 16" by (simp add: less_mult_imp_div_less)
qed simp

lemma dec_enc_text: "dec_text (enc_text s @ r) = Some (s, r)"
  by (induction s) (simp_all add: nibble char_nibbles)

lemma dec_enc_int: "dec_int (enc_int i @ r) = (i, r)"
proof -
  have "takeWhile (\<lambda>c. c = CHR ''1'') (replicate k (CHR ''1'') @ CHR ''.'' # r) = replicate k (CHR ''1'')" for k
    by (induction k) simp_all
  then show ?thesis by (simp add: dec_int_def enc_int_def Let_def)
qed

lemma enc_hd: "exact j \<Longrightarrow> enc j \<noteq> [] \<and> hd (enc j) \<noteq> CHR ''z''"
  by (cases j) auto

lemma dec_enc: "exact j \<Longrightarrow> length (enc j) \<le> n \<Longrightarrow> dec n (enc j @ r) = Some (j, r)"
proof (induction j arbitrary: n r)
  case (JArray xs)
  then obtain m where n: "n = Suc m" "length (concat (map enc xs)) < m" by (cases n) auto
  have "dec_items k (concat (map enc ys) @ CHR ''z'' # r) = Some (ys, r)"
    if "set ys \<subseteq> set xs" "length (concat (map enc ys)) < k" for ys k
    using that
  proof (induction ys arbitrary: k)
    case Nil
    then show ?case by (cases k) auto
  next
    case (Cons y ys)
    then obtain k' where k: "k = Suc k'" by (cases k) auto
    from Cons.prems have y: "y \<in> set xs" "exact y" using JArray.prems(1) by (auto simp: list_all_iff)
    note hd = enc_hd [OF y(2)]
    have "dec k' (enc y @ concat (map enc ys) @ CHR ''z'' # r) = Some (y, concat (map enc ys) @ CHR ''z'' # r)"
      using JArray.IH [OF y] Cons.prems(2) k by simp
    moreover have "length (concat (map enc ys)) < k'" using Cons.prems(2) hd k by (cases "enc y") auto
    then have "dec_items k' (concat (map enc ys) @ CHR ''z'' # r) = Some (ys, r)" using Cons by auto
    ultimately show ?case using hd k by simp
  qed
  from this [of xs m] n show ?case by simp
next
  case (JObject kvs)
  let ?f = "\<lambda>(k, v). ''k'' @ enc_text k @ enc v"
  from JObject.prems obtain m where n: "n = Suc m" "length (concat (map ?f kvs)) < m" by (cases n) auto
  have "dec_members k (concat (map ?f ys) @ CHR ''z'' # r) = Some (ys, r)"
    if "set ys \<subseteq> set kvs" "length (concat (map ?f ys)) < k" for ys k
    using that
  proof (induction ys arbitrary: k)
    case Nil
    then show ?case by (cases k) auto
  next
    case (Cons e ys)
    obtain a v where e: "e = (a, v)" by (cases e)
    from Cons.prems obtain k' where k: "k = Suc k'" by (cases k) auto
    from Cons.prems have y: "(a, v) \<in> set kvs" "exact v" using JObject.prems(1) by (auto simp: list_all_iff e)
    have "dec k' (enc v @ concat (map ?f ys) @ CHR ''z'' # r) = Some (v, concat (map ?f ys) @ CHR ''z'' # r)"
      using JObject.IH [OF y(1) _ y(2)] Cons.prems(2) k by (simp add: e)
    moreover have "dec_members k' (concat (map ?f ys) @ CHR ''z'' # r) = Some (ys, r)"
      using Cons k by (simp add: e)
    ultimately show ?case using k by (simp add: e dec_enc_text)
  qed
  from this [of kvs m] n show ?case by simp
next
  case (JBool b)
  then show ?case by (cases n) (auto split: if_splits)
next
  case (JInt i)
  then show ?case by (cases n) (auto simp: dec_enc_int)
next
  case (JString s)
  then show ?case by (cases n) (auto simp: dec_enc_text)
next
  case JNull
  then show ?case by (cases n) auto
qed simp

lemma enc_text_plain: "CHR 0x0A \<notin> set (enc_text s)"
proof (induction s)
  case (Cons c s)
  then show ?case using nibble(3) [OF char_nibbles(1) [of c]] nibble(3) [OF char_nibbles(2) [of c]] by simp
qed simp

lemma enc_plain: "CHR 0x0A \<notin> set (enc j)"
  by (induction j) (auto simp: enc_int_def enc_text_plain)

theorem codec_laws: "json_laws codec"
proof -
  have "dec (Suc (length (enc j))) (enc j) = Some (j, [])" if "exact j" for j
    using dec_enc [OF that, of "Suc (length (enc j))" "[]"] by simp
  moreover have "last (enc j) \<noteq> CHR 0x0A" if "exact j" for j
    using enc_plain [of j] enc_hd [OF that] by (metis last_in_set)
  ultimately show ?thesis
    using enc_hd enc_plain by (auto simp: json_laws_def codec_def codec_dump_def codec_parse_def Let_def split: if_splits)
qed

lemma codec_simps [simp]: "jl_dump codec j = codec_dump j" "jl_dump2 codec j = codec_dump j"
  by (simp_all add: codec_def)

section \<open>A small registry\<close>

text \<open>A registry below \<^verbatim>\<open>/r\<close> with keys below \<^verbatim>\<open>/k\<close> and one archive; \<^verbatim>\<open>openssl\<close> writes the files named after \<^verbatim>\<open>-out\<close>.\<close>

definition demo_openssl :: "ProcessRequest \<Rightarrow> tree \<Rightarrow> (string + ProcessResult) \<times> tree" where
  "demo_openssl request t =
     (Inr \<lparr>ps_exit_code = 0, ps_terminated_by_signal = False, ps_signal_number = 0, ps_timed_out = False, ps_stdout_truncated = False,
           ps_stderr_truncated = False, ps_stdout_text = ''k'', ps_stderr_text = []\<rparr>,
      foldl (\<lambda>t p. put_file p ''k'' t) t (out_files (pr_args request)))"

definition demo_trust :: trust_env where
  "demo_trust = \<lparr>te_json = codec, te_sha256 = (\<lambda>s. replicate 32 (of_nat (length s))), te_base64 = (\<lambda>s. s), te_openssl = demo_openssl,
     te_stamp = ''1'', te_now = ''2026-05-02T00:00:00Z'', te_plus_days = (\<lambda>n. ''2026-06-02T00:00:00Z'')\<rparr>"

definition demo_plane :: plane_env where
  "demo_plane = \<lparr>pe_trust = demo_trust, pe_random = ''0a'',
     pe_toml = \<lparr>tl_bool = (\<lambda>_. None), tl_int = (\<lambda>_. None), tl_parse = (\<lambda>_. Inl ''no manifest'')\<rparr>,
     pe_s3 = \<lparr>s3_hash_hex = (\<lambda>s. s), s3_hmac = (\<lambda>k s. s), s3_hex = (\<lambda>s. s), s3_timestamp = [], s3_curl = (\<lambda>args s. Inr [])\<rparr>,
     pe_file_url = (\<lambda>p. ''file://'' @ p), pe_what = (\<lambda>e. ''failed'')\<rparr>"

definition demo_registry :: PlatformConfig where
  "demo_registry = default_config\<lparr>cfg_registry := default_registry\<lparr>rg_root := ''/r'', rg_key_dir := ''/k''\<rparr>,
     cfg_object_store := default_object_store\<lparr>os_provider := ''filesystem''\<rparr>\<rparr>"

definition demo_draft :: PublishDraft where
  "demo_draft = \<lparr>pd_package = ''acme/core'', pd_version = ''1.0.0'', pd_publisher_id = ''alice'', pd_archive_path = ''/a.tar'',
     pd_dependencies = 0, pd_dev_dependencies = 0\<rparr>"

definition demo_tree :: tree where
  "demo_tree = [(''/a.tar'', Regular ''x'')]"

lemma demo_simps [simp]:
  "te_json demo_trust = codec" "pe_trust demo_plane = demo_trust" "te_now demo_trust = ''2026-05-02T00:00:00Z''"
  "rg_root (cfg_registry demo_registry) = ''/r''" "rg_key_dir (cfg_registry demo_registry) = ''/k''"
  "pd_package demo_draft = ''acme/core''" "pd_version demo_draft = ''1.0.0''" "pd_publisher_id demo_draft = ''alice''"
  "pd_archive_path demo_draft = ''/a.tar''"
  by (simp_all add: demo_trust_def demo_plane_def demo_registry_def demo_draft_def)

lemma exact_put: "exact v \<Longrightarrow> list_all (\<lambda>(k, v). exact v) m \<Longrightarrow> list_all (\<lambda>(k, v). exact v) (smap_put k v m)"
  by (induction m) (auto split: if_splits)

lemma exact_obj:
  assumes "list_all (\<lambda>(k, v). exact v) kvs"
  shows "exact (json_obj kvs)"
proof -
  have "list_all (\<lambda>(k, v). exact v) (foldl (\<lambda>m (k, v). if smap_contains m k then m else smap_put k v m) m kvs)"
    if "list_all (\<lambda>(k, v). exact v) m" for m
    using assms that by (induction kvs arbitrary: m) (auto simp: exact_put simp del: smap_put.simps)
  from this [of "[]"] show ?thesis by (simp only: json_obj_def exact.simps list.pred_inject)
qed

end
