(* ===== verification/Registry_Append.thy ===== *)
theory Registry_Append
  imports Json_Codec
begin

text \<open>
  Adding a release to the registry: the index grows by one line, artifacts and earlier releases are
  never changed, and the release is found in the index afterwards.
\<close>

section \<open>Placing the artifact\<close>

lemma place_artifact_placed:
  assumes "place_artifact archive dest j t = (Inr y, u)" and "sha256_file (smap_find t) archive = Inr sha" "record_sha256 j = Inr sha"
  shows "keeps (\<lambda>p. True) t u" and "sha256_file (smap_find u) dest = Inr sha" and "\<And>q. q \<noteq> dest \<Longrightarrow> tree_text u q = tree_text t q"
proof -
  obtain s v where v: "mkdirs (path_parent dest) t = (Inr s, v)"
    using assms(1) by (auto simp: place_artifact_def s_bind_Inr)
  note same = mkdirs_Inr_text [OF v]
  have rest: "if tree_exists v dest then sha256_file (smap_find v) dest = Inr sha \<and> u = v
     else \<exists>x. tree_text v archive = Some x \<and> smap_find v dest \<noteq> Some Directory \<and> u = smap_put dest (Regular x) v"
    using assms(1,3) v
    by (auto simp: place_artifact_def s_bind_Inr sm_simps s_guard_Inr copy_file_def split: option.splits if_splits)
  show others: "\<And>q. q \<noteq> dest \<Longrightarrow> tree_text u q = tree_text t q"
    using rest same by (auto simp: tree_text_def split: if_splits)
  have "tree_text u dest = Some x" if "tree_text t dest = Some x" for x
  proof -
    from that same have "tree_text v dest = Some x" by simp
    then have "tree_exists v dest" by (auto simp: tree_exists_def smap_contains_def tree_text_def split: option.splits)
    with rest \<open>tree_text v dest = Some x\<close> show ?thesis by simp
  qed
  with others show "keeps (\<lambda>p. True) t u" unfolding keeps_def by metis
  show "sha256_file (smap_find u) dest = Inr sha"
  proof (cases "tree_exists v dest")
    case False
    with rest obtain x where "tree_text v archive = Some x" "tree_text u dest = Some x" by (auto simp: tree_text_def)
    then show ?thesis using sha256_file_text [OF assms(2)] same by (simp add: tree_file_text)
  qed (use rest in simp)
qed

lemma place_artifact_dirs:
  "place_artifact archive dest j t = (r, u) \<Longrightarrow> smap_find u q = Some Directory \<Longrightarrow> smap_find t q = Some Directory \<or> starts_with dest q"
  by (auto simp: place_artifact_def copy_file_def s_guard_def s_bind_def sm_simps
      split: prod.splits sum.splits if_splits option.splits dest: mkdirs_parent_dirs)

section \<open>The files of a release\<close>

lemma index_file_eq: "\<exists>x. index_file root_path package = dir_prefix root_path @ ''index/'' @ x"
  by (simp add: index_file_def RegistryIndexPathForPackage_def Let_def path_div_rel)

lemma artifact_file_eq: "\<exists>x. path_div root_path (artifact_path_for sha) = dir_prefix root_path @ ''artifacts/'' @ x"
  by (simp add: artifact_path_for_def path_div_rel)

lemma leaf_file_eq: "path_div root_path (leaf_path n) = dir_prefix root_path @ ''log/leaves/'' @ PaddedNumber (of_nat n) 12 @ ''.json''"
  by (simp add: leaf_path_def path_div_rel)

lemma release_files_distinct:
  "index_file root_path package \<noteq> path_div root_path (artifact_path_for sha)"
  "index_file root_path package \<noteq> path_div root_path (leaf_path n)"
  "path_div root_path (artifact_path_for sha) \<noteq> path_div root_path (leaf_path n)"
  using index_file_eq [of root_path package] artifact_file_eq [of root_path sha] leaf_file_eq [of root_path n] by auto

lemma release_files_named:
  "path_names (index_file root_path package) \<noteq> []" "path_names (path_div root_path (leaf_path n)) \<noteq> []"
  using index_file_eq [of root_path package] by (auto simp: path_names_Nil_iff leaf_file_eq)

text \<open>The three steps of an addition: the artifact, the index line, the log leaf.\<close>

lemma append_steps:
  assumes "AppendRegistryReleaseToLocal env config draft record artifact t = (Inr r, u)"
  obtains sha v w canonical where
    "record_sha256 record = Inr sha"
    "place_artifact (pd_archive_path draft) (path_div (rg_root (cfg_registry config)) artifact) record t = (Inr (), v)"
    "\<not> ReleaseExistsOnDisk (pe_json env) (rg_root (cfg_registry config)) (pd_package draft) (pd_version draft) v"
    "AppendJsonLine (pe_json env) (index_file (rg_root (cfg_registry config)) (pd_package draft)) record v = (Inr (), w)"
    "la_sequence r = length (LeafSequencePaths (rg_root (cfg_registry config)) w) + 1"
    "jl_dump (pe_json env) record = Inr canonical"
    "write_json (pe_json env) (path_div (rg_root (cfg_registry config)) (leaf_path (la_sequence r)))
       (log_leaf (la_sequence r) draft (Sha256Bytes (te_sha256 (pe_trust env)) canonical) sha artifact) w = (Inr (), u)"
  using assms
  by (auto simp: AppendRegistryReleaseToLocal_def Let_def s_bind_Inr sm_simps s_guard_Inr CanonicalJson_def)

lemma append_release:
  assumes run: "AppendRegistryReleaseToLocal env config draft record (artifact_path_for sha) t = (Inr r, u)"
    and sha: "record_sha256 record = Inr sha" "sha256_file (smap_find t) (pd_archive_path draft) = Inr sha"
    and free: "smap_find t (index_file (rg_root (cfg_registry config)) (pd_package draft)) \<noteq> Some Directory"
      "\<And>n. smap_find t (path_div (rg_root (cfg_registry config)) (leaf_path n)) \<noteq> Some Directory"
  obtains line where "jl_dump (pe_json env) record = Inr line"
    "tree_text u (index_file (rg_root (cfg_registry config)) (pd_package draft))
       = Some (file_or_empty (tree_text t (index_file (rg_root (cfg_registry config)) (pd_package draft))) @ line @ [CHR 0x0A])"
    "\<not> ReleaseExistsOnDisk (pe_json env) (rg_root (cfg_registry config)) (pd_package draft) (pd_version draft) t"
    "sha256_file (smap_find u) (path_div (rg_root (cfg_registry config)) (artifact_path_for sha)) = Inr sha"
    "keeps (\<lambda>p. p \<noteq> index_file (rg_root (cfg_registry config)) (pd_package draft)
       \<and> p \<noteq> path_div (rg_root (cfg_registry config)) (leaf_path (la_sequence r))) t u"
proof -
  let ?root = "rg_root (cfg_registry config)" and ?L = "pe_json env"
  let ?index = "index_file ?root (pd_package draft)" and ?leaf = "path_div ?root (leaf_path (la_sequence r))"
  let ?artifact = "path_div ?root (artifact_path_for sha)"
  note ne = release_files_distinct(1) [of ?root "pd_package draft" sha] release_files_distinct(2) [of ?root "pd_package draft"]
    release_files_distinct(3) [of ?root sha]
  from append_steps [OF run] sha(1) obtain v w canonical j where
    v: "place_artifact (pd_archive_path draft) ?artifact record t = (Inr (), v)"
    and new: "\<not> ReleaseExistsOnDisk ?L ?root (pd_package draft) (pd_version draft) v"
    and w: "AppendJsonLine ?L ?index record v = (Inr (), w)"
    and u: "write_json ?L ?leaf j w = (Inr (), u)"
    by (metis Inr_inject)
  note place = place_artifact_placed [OF v sha(2,1)]
  have index_v: "tree_text v ?index = tree_text t ?index" using place(3) ne(1) by simp
  have dirs: "smap_find v ?index \<noteq> Some Directory" "smap_find w ?leaf \<noteq> Some Directory"
    using place_artifact_dirs [OF v] AppendJsonLine_dirs [OF w] free
      index_file_eq [of ?root "pd_package draft"] artifact_file_eq [of ?root sha] leaf_file_eq [of ?root "la_sequence r"]
    by fastforce+
  from AppendJsonLine_text [OF w dirs(1) release_files_named(1)] obtain line where
    line: "jl_dump ?L record = Inr line"
    and w_text: "\<And>q. tree_text w q = (if q = ?index then Some (file_or_empty (tree_text v ?index) @ line @ [CHR 0x0A]) else tree_text v q)"
    by blast
  from write_json_text [OF u release_files_named(2) dirs(2)] obtain x where
    u_text: "\<And>q. tree_text u q = (if q = ?leaf then Some (x @ [CHR 0x0A]) else tree_text w q)" by blast
  show thesis
  proof (rule that [OF line])
    show "tree_text u ?index = Some (file_or_empty (tree_text t ?index) @ line @ [CHR 0x0A])"
      using ne(2) index_v by (simp add: u_text w_text)
    show "\<not> ReleaseExistsOnDisk ?L ?root (pd_package draft) (pd_version draft) t"
      using new index_v by (simp add: ReleaseExistsOnDisk_def)
    show "sha256_file (smap_find u) ?artifact = Inr sha"
      using place(2) ne(1,3) ne(1) [symmetric] by (subst sha256_file_same [of _ _ v]) (simp_all add: u_text w_text)
    show "keeps (\<lambda>p. p \<noteq> ?index \<and> p \<noteq> ?leaf) t u"
      using place(1) by (auto simp: keeps_def u_text w_text)
  qed
qed

text \<open>Nothing but a file in the way, an earlier release or a document without text stops an addition.\<close>

lemma parent_not_starts: "\<not> starts_with p q \<Longrightarrow> \<not> starts_with (path_parent p) q"
  using path_parent_prefix starts_with_trans by blast

lemma append_succeeds:
  assumes sha: "record_sha256 record = Inr sha" "sha256_file (smap_find t) (pd_archive_path draft) = Inr sha"
    and new: "\<not> ReleaseExistsOnDisk (pe_json env) (rg_root (cfg_registry config)) (pd_package draft) (pd_version draft) t"
      "smap_find t (path_div (rg_root (cfg_registry config)) (artifact_path_for sha)) = None"
    and ways: "clear_way t (path_div (rg_root (cfg_registry config)) (artifact_path_for sha))"
      "clear_way t (index_file (rg_root (cfg_registry config)) (pd_package draft))"
      "\<And>n. clear_way t (path_div (rg_root (cfg_registry config)) (leaf_path n))"
    and prints: "jl_dump (pe_json env) record = Inr line"
      "\<And>n c. \<exists>x. jl_dump2 (pe_json env) (log_leaf n draft c sha (artifact_path_for sha)) = Inr x"
  shows "\<exists>r u. AppendRegistryReleaseToLocal env config draft record (artifact_path_for sha) t = (Inr r, u)"
proof -
  let ?root = "rg_root (cfg_registry config)" and ?L = "pe_json env" and ?artifact = "path_div (rg_root (cfg_registry config)) (artifact_path_for sha)"
  let ?index = "index_file ?root (pd_package draft)"
  note eqs = index_file_eq [of ?root "pd_package draft"] artifact_file_eq [of ?root sha] leaf_file_eq [of ?root]
  obtain x where x: "tree_text t (pd_archive_path draft) = Some x"
    using sha256_file_shape [OF sha(2)] by (auto simp: tree_text_def)
  obtain t' where t': "mkdirs (path_parent ?artifact) t = (Inr (), t')" using mkdirs_clear [OF ways(1)] by blast
  have "?artifact \<notin> set (ancestors (path_parent ?artifact) @ [path_parent ?artifact])"
  proof
    assume "?artifact \<in> set (ancestors (path_parent ?artifact) @ [path_parent ?artifact])"
    then have "length ?artifact \<le> length (path_parent ?artifact)" by (auto simp: ancestors_def dest!: arg_cong [of _ _ length])
    moreover have "path_names ?artifact \<noteq> []" using eqs(2) by (auto simp: path_names_Nil_iff)
    ultimately show False using parent_shorter [of ?artifact] by simp
  qed
  then have "smap_find t' ?artifact = None" using mkdirs_find [of "path_parent ?artifact" t ?artifact] t' new(2) by auto
  moreover have "tree_text t' (pd_archive_path draft) = Some x" using mkdirs_Inr_text [OF t'] x by simp
  ultimately obtain v where v: "place_artifact (pd_archive_path draft) ?artifact record t = (Inr (), v)"
    using t' by (auto simp: place_artifact_def s_bind_def sm_simps copy_file_def tree_exists_def smap_contains_def)
  note place = place_artifact_placed [OF v sha(2,1)]
  have index_v: "tree_text v ?index = tree_text t ?index" using place(3) eqs by force
  have "\<not> starts_with (path_parent ?index) ?artifact" using eqs by (intro parent_not_starts) auto
  then have "clear_way v ?index" using clear_way_text [of ?artifact v t ?index] place(3) ways(2) by blast
  then obtain w where w: "AppendJsonLine ?L ?index record v = (Inr (), w)" using AppendJsonLine_succeeds prints(1) by blast
  have "tree_text w q = tree_text v q" if "q \<noteq> ?index" for q
    using w that by (auto simp: AppendJsonLine_def append_json_line_def s_bind_Inr sm_simps append_file_def tree_text_put_file dest: mkdirs_Inr_text)
  moreover have "\<not> starts_with (path_parent (path_div ?root (leaf_path n))) ?artifact"
    "\<not> starts_with (path_parent (path_div ?root (leaf_path n))) ?index" for n
    using eqs by (intro parent_not_starts; auto)+
  ultimately have "clear_way w (path_div ?root (leaf_path n))" for n
    using clear_way_text [of ?index w v] clear_way_text [of ?artifact v t] place(3) ways(3) by metis
  then have leaf: "\<exists>u. write_json ?L (path_div ?root (leaf_path n)) (log_leaf n draft c sha (artifact_path_for sha)) w = (Inr (), u)" for n c
    using write_json_succeeds prints(2) by metis
  have "\<not> ReleaseExistsOnDisk ?L ?root (pd_package draft) (pd_version draft) v" using new(1) index_v by (simp add: ReleaseExistsOnDisk_def)
  moreover obtain u where "write_json ?L (path_div ?root (leaf_path (length (LeafSequencePaths ?root w) + 1)))
      (log_leaf (length (LeafSequencePaths ?root w) + 1) draft (Sha256Bytes (te_sha256 (pe_trust env)) line) sha (artifact_path_for sha)) w = (Inr (), u)"
    using leaf by blast
  ultimately show ?thesis
    using sha(1) v w prints(1) by (simp add: AppendRegistryReleaseToLocal_def Let_def s_bind_def sm_simps s_guard_def CanonicalJson_def)
qed

section \<open>Finding a release\<close>

text \<open>The records of an index file: all of one package, each with a version.\<close>

definition package_records :: "string \<Rightarrow> json list \<Rightarrow> bool" where
  "package_records package records =
     list_all (\<lambda>r. json_value get_string r ''package'' [] = Inr package \<and> \<not> isl (json_value get_string r ''version'' [])) records"

lemma find_version_new:
  assumes "list_all (\<lambda>r. \<not> isl (json_value get_string r ''version'' []) \<and> json_value get_string r ''version'' [] \<noteq> Inr version) records"
    and "json_value get_string record ''version'' [] = Inr version"
  shows "find_version version (records @ [record]) = Inr (Some record)"
  using assms by (induction records) (auto simp: rbind_def split: sum.splits)

lemma find_version_other:
  assumes "list_all (\<lambda>r. \<not> isl (json_value get_string r ''version'' [])) records"
    and "json_value get_string record ''version'' [] = Inr version" "v \<noteq> version"
  shows "find_version v (records @ [record]) = find_version v records"
  using assms by (induction records) (auto simp: rbind_def split: sum.splits)

lemma rmap_in: "rmap f xs = Inr ys \<Longrightarrow> y \<in> set ys \<Longrightarrow> \<exists>x \<in> set xs. f x = Inr y"
  by (induction xs arbitrary: ys) (auto simp: result_simps)

lemma rmap_out: "rmap f xs = Inr ys \<Longrightarrow> x \<in> set xs \<Longrightarrow> \<exists>y \<in> set ys. f x = Inr y"
  by (induction xs arbitrary: ys) (auto simp: result_simps)

lemma new_version_unused:
  assumes "\<not> ReleaseExistsOnDisk L root_path package version t" and "ReadPackageIndexRecords L root_path package t = Inr records"
    and "package_records package records"
  shows "list_all (\<lambda>r. \<not> isl (json_value get_string r ''version'' []) \<and> json_value get_string r ''version'' [] \<noteq> Inr version) records"
proof -
  have "json_value get_string r ''version'' [] \<noteq> Inr version" if r: "r \<in> set records" for r
  proof -
    from assms(2) r obtain line where "line \<in> set (text_lines (tree_text t (index_file root_path package)))" "json_parse L line = Inr r"
      by (fastforce simp: ReadPackageIndexRecords_def index_records_def dest: rmap_in)
    with assms(1,3) r show ?thesis
      by (auto simp: ReleaseExistsOnDisk_def list_ex_iff JsonLineHasRelease_def json_parse_def package_records_def list_all_iff
          split: option.splits)
  qed
  with assms(3) show ?thesis by (simp add: package_records_def list_all_iff)
qed

lemma release_record_fields:
  assumes "BuildReleaseRecord env draft now sha bytes artifact = Inr record"
  shows "record_sha256 record = Inr sha" "json_value get_string record ''package'' [] = Inr (pd_package draft)"
    "json_value get_string record ''version'' [] = Inr (pd_version draft)"
  using assms by (auto simp: BuildReleaseRecord_def result_simps record_sha256_def json_at_def json_string_at_def)


text \<open>
  \<^bold>\<open>C15.\<close> A published release is found. If the index file of the package was readable, with whole lines and only
  records of the package, then after a successful addition it reads as the same records followed by the new one,
  looking the version up gives exactly the new record, looking any other version up gives what it gave before, and
  the version now counts as published, so that publishing it again is refused.
\<close>

theorem published_release_found:
  assumes "BuildReleaseRecord env draft now sha bytes (artifact_path_for sha) = Inr record"
    and "AppendRegistryReleaseToLocal env config draft record (artifact_path_for sha) t = (Inr r, u)"
    and "sha256_file (smap_find t) (pd_archive_path draft) = Inr sha"
    and "smap_find t (index_file (rg_root (cfg_registry config)) (pd_package draft)) \<noteq> Some Directory"
    and "\<And>n. smap_find t (path_div (rg_root (cfg_registry config)) (leaf_path n)) \<noteq> Some Directory"
    and laws: "json_laws (pe_json env)"
    and lines: "whole_lines (file_or_empty (tree_text t (index_file (rg_root (cfg_registry config)) (pd_package draft))))"
    and old: "ReadPackageIndexRecords (pe_json env) (rg_root (cfg_registry config)) (pd_package draft) t = Inr records"
    and one: "package_records (pd_package draft) records"
  shows "ReadPackageIndexRecords (pe_json env) (rg_root (cfg_registry config)) (pd_package draft) u = Inr (records @ [record])
    \<and> PackageReleasePayloadFromIndex (pe_json env) (rg_root (cfg_registry config)) (pd_package draft) (pd_version draft) u = Inr (Some record)
    \<and> (\<forall>v. v \<noteq> pd_version draft \<longrightarrow>
         PackageReleasePayloadFromIndex (pe_json env) (rg_root (cfg_registry config)) (pd_package draft) v u
           = PackageReleasePayloadFromIndex (pe_json env) (rg_root (cfg_registry config)) (pd_package draft) v t)
    \<and> package_records (pd_package draft) (records @ [record])
    \<and> ReleaseExistsOnDisk (pe_json env) (rg_root (cfg_registry config)) (pd_package draft) (pd_version draft) u"
proof -
  note fields = release_record_fields [OF assms(1)]
  let ?L = "pe_json env" and ?root = "rg_root (cfg_registry config)" and ?index = "index_file (rg_root (cfg_registry config)) (pd_package draft)"
  from append_release [OF assms(2) fields(1) assms(3-5)] obtain line where
    line: "jl_dump ?L record = Inr line" and index_u: "tree_text u ?index = Some (file_or_empty (tree_text t ?index) @ line @ [CHR 0x0A])"
    and new: "\<not> ReleaseExistsOnDisk ?L ?root (pd_package draft) (pd_version draft) t" by blast
  have "index_records ?L (Some (file_or_empty (tree_text t ?index))) = Inr records"
    using old by (simp add: ReadPackageIndexRecords_def index_records_empty [of _ "tree_text t ?index"])
  then have read: "ReadPackageIndexRecords ?L ?root (pd_package draft) u = Inr (records @ [record])"
    by (simp add: ReadPackageIndexRecords_def index_u index_records_append [OF laws lines line])
  have vs: "list_all (\<lambda>r. \<not> isl (json_value get_string r ''version'' [])) records" using one by (simp add: package_records_def list_all_iff)
  have parse: "jl_parse ?L line = Some record" "CHR 0x0A \<notin> set line" using laws line by (auto simp: json_laws_def)
  have "line \<in> set (text_lines (tree_text u ?index))"
    using parse(2) by (simp add: index_u text_lines_def whole_lines_append [OF lines] getlines_delim)
  then have exists: "ReleaseExistsOnDisk ?L ?root (pd_package draft) (pd_version draft) u"
    using parse(1) fields by (auto simp: ReleaseExistsOnDisk_def list_ex_iff JsonLineHasRelease_def intro!: bexI [of _ line])
  show ?thesis
    using read old exists find_version_new [OF new_version_unused [OF new old one] fields(3)] find_version_other [OF vs fields(3)] one fields
    by (simp add: PackageReleasePayloadFromIndex_def package_records_def)
qed

section \<open>A concrete addition\<close>

lemma demo_addition:
  obtains sha entry r u where
    "BuildReleaseRecord demo_plane demo_draft ''2026'' sha 1 (artifact_path_for sha) = Inr entry"
    "AppendRegistryReleaseToLocal demo_plane demo_registry demo_draft entry (artifact_path_for sha) demo_tree = (Inr r, u)"
    "sha256_file (smap_find demo_tree) ''/a.tar'' = Inr sha"
proof -
  have content: "tree_text demo_tree p = (if p = ''/a.tar'' then Some ''x'' else None)" for p by (simp add: tree_text_def demo_tree_def)
  obtain sha where sha: "sha256_file (smap_find demo_tree) ''/a.tar'' = Inr sha"
    using sha256_file_exists content by metis
  obtain entry where entry: "BuildReleaseRecord demo_plane demo_draft ''2026'' sha 1 (artifact_path_for sha) = Inr entry"
    by (simp add: BuildReleaseRecord_def CanonicalJson_def codec_dump_def exact_obj metadata_source_def)
  then have exact: "exact entry" by (auto simp: BuildReleaseRecord_def result_simps exact_obj)
  note fields = release_record_fields [OF entry]
  have "\<exists>r u. AppendRegistryReleaseToLocal demo_plane demo_registry demo_draft entry (artifact_path_for sha) demo_tree = (Inr r, u)"
  proof (rule append_succeeds [where line = "enc entry"])
    have apart: "\<not> starts_with (path_div ''/r'' x) ''/a.tar''" if "\<not> path_absolute x" for x
      using that by (simp add: path_div_rel dir_prefix_def path_div_def)
    have clear: "clear_way demo_tree p" if "\<not> starts_with p ''/a.tar''" for p
      using parent_not_starts [OF that] by (auto simp: clear_way_def content)
    show "clear_way demo_tree (path_div (rg_root (cfg_registry demo_registry)) (artifact_path_for sha))"
      "clear_way demo_tree (index_file (rg_root (cfg_registry demo_registry)) (pd_package demo_draft))"
      "clear_way demo_tree (path_div (rg_root (cfg_registry demo_registry)) (leaf_path n))" for n
      using apart by (auto intro!: clear simp: artifact_path_for_def index_file_def RegistryIndexPathForPackage_def Let_def leaf_path_def)
    show "smap_find demo_tree (path_div (rg_root (cfg_registry demo_registry)) (artifact_path_for sha)) = None"
      by (simp add: demo_tree_def artifact_path_for_def path_div_def)
    show "\<not> ReleaseExistsOnDisk (pe_json demo_plane) (rg_root (cfg_registry demo_registry)) (pd_package demo_draft) (pd_version demo_draft) demo_tree"
      by (simp add: ReleaseExistsOnDisk_def content index_file_def path_div_def RegistryIndexPathForPackage_def Let_def text_lines_def)
    show "\<exists>x. jl_dump2 (pe_json demo_plane) (log_leaf n demo_draft c sha (artifact_path_for sha)) = Inr x" for n c
      by (simp add: codec_dump_def log_leaf_def exact_obj)
  qed (use fields sha exact in \<open>simp_all add: codec_dump_def\<close>)
  with sha entry that show thesis by blast
qed

lemma demo_no_directory: "smap_find demo_tree p \<noteq> Some Directory"
  by (simp add: demo_tree_def)


theorem published_release_found_witness:
  "\<exists>sha entry r u. AppendRegistryReleaseToLocal demo_plane demo_registry demo_draft entry (artifact_path_for sha) demo_tree = (Inr r, u)
     \<and> PackageReleasePayloadFromIndex codec ''/r'' ''acme/core'' ''1.0.0'' u = Inr (Some entry)
     \<and> PackageReleasePayloadFromIndex codec ''/r'' ''acme/core'' ''2.0.0'' u = Inr None"
proof -
  obtain sha entry r u where run: "BuildReleaseRecord demo_plane demo_draft ''2026'' sha 1 (artifact_path_for sha) = Inr entry"
    "AppendRegistryReleaseToLocal demo_plane demo_registry demo_draft entry (artifact_path_for sha) demo_tree = (Inr r, u)"
    "sha256_file (smap_find demo_tree) ''/a.tar'' = Inr sha"
    by (rule demo_addition)
  have index: "index_file ''/r'' ''acme/core'' = ''/r/index/acme/core.jsonl''" by code_simp
  have none: "ReadPackageIndexRecords codec ''/r'' ''acme/core'' demo_tree = Inr []"
    by (simp add: ReadPackageIndexRecords_def index index_records_def text_lines_def tree_text_def demo_tree_def)
  have "whole_lines (file_or_empty (tree_text demo_tree ''/r/index/acme/core.jsonl''))"
    by (simp add: whole_lines_def file_or_empty_def tree_text_def demo_tree_def)
  then have found: "PackageReleasePayloadFromIndex codec ''/r'' ''acme/core'' ''1.0.0'' u = Inr (Some entry)"
    "PackageReleasePayloadFromIndex codec ''/r'' ''acme/core'' ''2.0.0'' u = PackageReleasePayloadFromIndex codec ''/r'' ''acme/core'' ''2.0.0'' demo_tree"
    using published_release_found [OF run(1,2), of "[]"] run(3) none
    by (simp_all add: demo_no_directory index codec_laws package_records_def)
  moreover have "PackageReleasePayloadFromIndex codec ''/r'' ''acme/core'' ''2.0.0'' demo_tree = Inr None"
    by (simp add: PackageReleasePayloadFromIndex_def none)
  ultimately show ?thesis using run(2) by metis
qed

end
