(* ===== verification/Governance.thy ===== *)
theory Governance
  imports Workspace_Plane
begin

text \<open>
  The catalogs of the ecosystem and of the documentation and the plans made from them
  (\<^verbatim>\<open>EcosystemManagement/EcosystemManager.cpp\<close>, \<^verbatim>\<open>DocumentationGovernance/DocumentationGovernance.cpp\<close>) with their
  handlers (\<^verbatim>\<open>DocumentationGovernanceRoutes.cpp\<close>). A \<^verbatim>\<open>std::set\<close> of strings is an ascending list without
  repetitions; \<^verbatim>\<open>std::invalid_argument\<close> is a \<^verbatim>\<open>logic_error\<close>.
\<close>

definition json_strings :: "string list \<Rightarrow> json" where
  "json_strings xs = JArray (map JString xs)"

section \<open>The ecosystem\<close>

definition Repository :: "string \<Rightarrow> string \<Rightarrow> string \<Rightarrow> string \<Rightarrow> string list \<Rightarrow> string list \<Rightarrow> string list \<Rightarrow> json" where
  "Repository i origin runtime_kind adapter artifacts contracts gates =
     json_obj [
       (''id'', JString i), (''branch'', JString ''stable''), (''origin'', JString origin),
       (''runtime'', json_obj [(''kind'', JString runtime_kind), (''adapter'', JString adapter)]),
       (''artifacts'', json_strings artifacts), (''contracts'', json_strings contracts), (''required_gates'', json_strings gates)]"

definition RepositoryList :: "json list" where
  "RepositoryList = [
     Repository ''styio'' ''https://github.com/eBioRing/Styio.git'' ''native-toolchain'' ''cmake-native''
       [''styio-compiler'', ''styio-stdlib''] [''compile-plan/v1''] [''build'', ''native-test'', ''compiler-smoke''],
     Repository ''styio-spio'' ''https://github.com/eBioRing/styio-spio.git'' ''native-cli'' ''cmake-native''
       [''spio-cli'', ''package-manager-archive''] [''registry-v2/v1'', ''compile-plan/v1''] [''build'', ''native-test'', ''registry-interop''],
     Repository ''styio-view'' ''https://github.com/eBioRing/styio-view.git'' ''frontend'' ''node-web''
       [''web-console-bundle'', ''desktop-shell-bundle''] [''hosted-control-plane/v1'', ''platform-control-plane/v1'']
       [''install'', ''lint'', ''test'', ''web-build''],
     Repository ''styio-platform'' ''https://github.com/eBioRing/styio-platform.git'' ''server'' ''cmake-server''
       [''styio-platformd'', ''registry-server-bundle'', ''helm-chart'']
       [''platform-control-plane/v1'', ''registry-control-plane/v1'', ''registry-v2/v1'']
       [''build'', ''ctest'', ''docs-gate'', ''contract-gate''],
     Repository ''styio-community'' ''https://github.com/eBioRing/styio-community.git'' ''docs-site'' ''static-docs''
       [''community-site'', ''examples-index''] [''community-governance/v1''] [''link-check'', ''docs-build'', ''examples-smoke'']]"

fun repository_map :: "json list \<Rightarrow> (string, json) smap \<Rightarrow> (string, json) smap result" where
  "repository_map [] repos = Inr repos"
| "repository_map (repo # rs) repos =
     rbind (json_string_at repo ''id'') (\<lambda>i. repository_map rs (if smap_contains repos i then repos else smap_put i repo repos))"

definition RepositoryMap :: "(string, json) smap result" where
  "RepositoryMap = repository_map RepositoryList []"

definition RefForRepository :: "json \<Rightarrow> string \<Rightarrow> string result" where
  "RefForRepository request repo_id =
     (let named = (case json_lookup request ''components'' of
                     Some components \<Rightarrow> if is_object components then json_lookup components repo_id else None
                   | None \<Rightarrow> None)
      in case named of
           Some (JString ref) \<Rightarrow> if ref = [] then Inl (LogicError (''component ref must be a non-empty string: '' @ repo_id)) else Inr ref
         | Some other \<Rightarrow> Inl (LogicError (''component ref must be a non-empty string: '' @ repo_id))
         | None \<Rightarrow>
             (case json_lookup request ''version'' of
                Some (JString version) \<Rightarrow> Inr (if version = [] then ''stable'' else version)
              | _ \<Rightarrow> Inr ''stable''))"

definition DefaultEcosystemRepositories :: json where
  "DefaultEcosystemRepositories =
     json_obj [
       (''ecosystem_id'', JString ''styio''),
       (''branch_policy'', json_obj [(''single_branch'', JString ''stable''), (''release_refs'', JString ''tags-or-stable-ref'')]),
       (''repositories'', JArray RepositoryList)]"

fun unknown_component :: "(string, json) smap \<Rightarrow> (string \<times> json) list \<Rightarrow> unit result" where
  "unknown_component repos [] = Inr ()"
| "unknown_component repos ((repo_id, v) # cs) =
     (if smap_contains repos repo_id then unknown_component repos cs
      else Inl (LogicError (''unknown ecosystem repository: '' @ repo_id)))"

definition check_components :: "json \<Rightarrow> unit result" where
  "check_components request =
     (case json_lookup request ''components'' of
        None \<Rightarrow> Inr ()
      | Some (JObject cs) \<Rightarrow> rbind RepositoryMap (\<lambda>repos. unknown_component repos cs)
      | Some other \<Rightarrow> Inl (LogicError ''components must be an object when present''))"

definition plan_repository :: "json \<Rightarrow> nat \<Rightarrow> json \<Rightarrow> (json \<times> json) result" where
  "plan_repository request index repo =
     rbind (json_string_at repo ''id'') (\<lambda>repo_id.
     rbind (RefForRepository request repo_id) (\<lambda>ref.
     rbind (json_at repo ''origin'') (\<lambda>origin.
     rbind (json_at repo ''branch'') (\<lambda>branch.
     rbind (json_at repo ''runtime'') (\<lambda>runtime.
     rbind (json_at runtime ''adapter'') (\<lambda>adapter.
     rbind (json_at repo ''artifacts'') (\<lambda>artifacts.
     rbind (json_at repo ''required_gates'') (\<lambda>gates.
       Inr (json_obj [
              (''repository_id'', JString repo_id), (''origin'', origin), (''branch'', branch), (''ref'', JString ref),
              (''adapter'', adapter), (''artifacts'', artifacts)],
            json_obj [
              (''step'', JInt (int index + 1)), (''repository_id'', JString repo_id), (''adapter'', adapter),
              (''fetch'', json_obj [(''origin'', origin), (''ref'', JString ref)]),
              (''gates'', gates), (''publish_artifacts'', artifacts)])))))))))"

definition BuildEcosystemReleasePlan :: "json \<Rightarrow> json result" where
  "BuildEcosystemReleasePlan request =
     rbind (guard_err (\<not> is_object request) (LogicError ''request body must be an object'')) (\<lambda>_.
     rbind (check_components request) (\<lambda>_.
     rbind (json_value get_string request ''version'' ''stable'') (\<lambda>version.
     rbind (json_value get_string request ''release_id'' version) (\<lambda>release_id.
     rbind (rmap (\<lambda>(index, repo). plan_repository request index repo) (enumerate 0 RepositoryList)) (\<lambda>planned.
       Inr (json_obj [
         (''ecosystem_id'', JString ''styio''), (''release_id'', JString release_id), (''branch'', JString ''stable''),
         (''components'', JArray (map fst planned)), (''execution_plan'', JArray (map snd planned)),
         (''invariants'', json_strings [
            ''all repositories use stable as the only long-lived branch'',
            ''release refs are immutable tags or the stable ref for unreleased integration'',
            ''runtime adapters are selected per repository and never force one shared runtime''])]))))))"

section \<open>The documentation\<close>

record DocumentationCollection =
  dc_id :: string
  dc_path :: string
  dc_owner :: string
  dc_classification :: string
  dc_purposes :: "string list"
  dc_gates :: "string list"

definition CollectionJson :: "DocumentationCollection \<Rightarrow> json" where
  "CollectionJson c =
     json_obj [
       (''id'', JString (dc_id c)), (''path'', JString (dc_path c)), (''owner'', JString (dc_owner c)),
       (''classification'', JString (dc_classification c)), (''purposes'', json_strings (dc_purposes c)),
       (''required_gates'', json_strings (dc_gates c))]"

definition CollectionList :: "DocumentationCollection list" where
  "CollectionList = [
     \<lparr>dc_id = ''governance'', dc_path = ''docs/governance'', dc_owner = ''control-plane'', dc_classification = ''normative'',
      dc_purposes = [''service-boundary policy'', ''control-plane rules'', ''workspace compile model''],
      dc_gates = [''docs-index'', ''docs-audit'', ''team-docs-gate'', ''contract-gate'']\<rparr>,
     \<lparr>dc_id = ''registry'', dc_path = ''docs/registry'', dc_owner = ''control-plane'', dc_classification = ''normative'',
      dc_purposes = [''package registry contracts'', ''mirror synchronization'', ''static read-plane policy''],
      dc_gates = [''docs-index'', ''docs-audit'', ''team-docs-gate'', ''registry-contract-gate'']\<rparr>,
     \<lparr>dc_id = ''operations'', dc_path = ''docs/operations'', dc_owner = ''control-plane'', dc_classification = ''operational'',
      dc_purposes = [''regional node operations'', ''registry server deployment'', ''compile stress operation''],
      dc_gates = [''docs-index'', ''docs-audit'', ''team-docs-gate'', ''smoke-gate'']\<rparr>,
     \<lparr>dc_id = ''security'', dc_path = ''docs/security'', dc_owner = ''platform-security'', dc_classification = ''normative'',
      dc_purposes = [''trust boundaries'', ''hosted workspace security'', ''registry security''],
      dc_gates = [''docs-index'', ''docs-audit'', ''security-review'']\<rparr>,
     \<lparr>dc_id = ''specs'', dc_path = ''docs/specs'', dc_owner = ''docs-delivery'', dc_classification = ''normative'',
      dc_purposes = [''technology inventory'', ''post-commit checks'', ''audit checklist''],
      dc_gates = [''docs-index'', ''docs-audit'', ''repo-hygiene-gate'']\<rparr>,
     \<lparr>dc_id = ''adr'', dc_path = ''docs/adr'', dc_owner = ''architecture'', dc_classification = ''decision-record'',
      dc_purposes = [''architecture decisions'', ''migration rationale''],
      dc_gates = [''docs-index'', ''docs-audit'']\<rparr>,
     \<lparr>dc_id = ''planning'', dc_path = ''docs/plan'', dc_owner = ''platform-kernel'', dc_classification = ''planning'',
      dc_purposes = [''migration plans'', ''roadmap items''],
      dc_gates = [''docs-index'', ''docs-audit'']\<rparr>,
     \<lparr>dc_id = ''external'', dc_path = ''docs/external'', dc_owner = ''docs-delivery'', dc_classification = ''handoff'',
      dc_purposes = [''downstream handoff'', ''cross-repository alignment''],
      dc_gates = [''docs-index'', ''docs-audit'']\<rparr>,
     \<lparr>dc_id = ''assets'', dc_path = ''docs/assets'', dc_owner = ''docs-delivery'', dc_classification = ''workflow-asset'',
      dc_purposes = [''reusable workflow assets'', ''gate descriptions'', ''templates''],
      dc_gates = [''docs-index'', ''docs-audit'']\<rparr>,
     \<lparr>dc_id = ''teams'', dc_path = ''docs/teams'', dc_owner = ''docs-delivery'', dc_classification = ''ownership-runbook'',
      dc_purposes = [''team ownership'', ''handoff policy'', ''runbook statistics''],
      dc_gates = [''team-docs-gate'', ''docs-audit'']\<rparr>,
     \<lparr>dc_id = ''audit'', dc_path = ''docs/audit'', dc_owner = ''docs-delivery'', dc_classification = ''audit-evidence'',
      dc_purposes = [''public audit summaries'', ''transient defect inventory boundary''],
      dc_gates = [''docs-index'', ''docs-audit'', ''audit-gate'']\<rparr>]"

definition DocsBoundary :: "string \<Rightarrow> string \<Rightarrow> string list \<Rightarrow> json" where
  "DocsBoundary repository_id documentation_owner primary_topics =
     json_obj [(''repository_id'', JString repository_id), (''documentation_owner'', JString documentation_owner),
       (''primary_topics'', json_strings primary_topics)]"

definition EcosystemDocsBoundaries :: "json list" where
  "EcosystemDocsBoundaries = [
     DocsBoundary ''styio'' ''language-and-compiler'' [''language reference'', ''compiler behavior'', ''standard library''],
     DocsBoundary ''styio-spio'' ''package-manager'' [''CLI usage'', ''package resolution'', ''registry client behavior''],
     DocsBoundary ''styio-view'' ''product-experience'' [''hosted workspace UX'', ''control console flows'', ''frontend contract usage''],
     DocsBoundary ''styio-platform'' ''platform-foundation'' [''control-plane contracts'', ''package registry'', ''cloud workspaces'', ''operations''],
     DocsBoundary ''styio-community'' ''community'' [''tutorials'', ''examples'', ''public ecosystem guides'']]"

definition better_collection :: "string \<Rightarrow> string \<times> nat \<Rightarrow> DocumentationCollection \<Rightarrow> string \<times> nat" where
  "better_collection path best c =
     (if (path = dc_path c \<or> starts_with path (dc_path c @ ''/'')) \<and> snd best < length (dc_path c)
      then (dc_id c, length (dc_path c)) else best)"

definition CollectionForPath :: "string \<Rightarrow> string" where
  "CollectionForPath path =
     (let best = fst (foldl (better_collection path) ([], 0) CollectionList) in
      if best \<noteq> [] then best
      else if starts_with path ''contracts/'' then ''contracts''
      else if starts_with path ''manifests/'' then ''business-manifests''
      else if starts_with path ''scripts/'' \<and> contains_sub path ''docs'' then ''docs-automation''
      else ''unclassified'')"

definition GatesForCollection :: "string \<Rightarrow> string list" where
  "GatesForCollection collection_id =
     (case List.find (\<lambda>c. dc_id c = collection_id) CollectionList of
        Some c \<Rightarrow> dc_gates c
      | None \<Rightarrow>
          if collection_id = ''contracts'' then [''contract-gate'', ''docs-audit'', ''team-docs-gate'']
          else if collection_id = ''business-manifests'' then [''manifest-review'', ''docs-audit'', ''team-docs-gate'']
          else if collection_id = ''docs-automation'' then [''docs-index'', ''docs-audit'', ''team-docs-gate'', ''repo-hygiene-gate'']
          else [''docs-audit'', ''repo-hygiene-gate''])"

definition AddAll :: "string list \<Rightarrow> string list \<Rightarrow> string list" where
  "AddAll dest values = foldl (\<lambda>s v. insort_insert v s) dest values"

definition RunbooksForPath :: "string \<Rightarrow> string list" where
  "RunbooksForPath path =
     AddAll []
       ((if starts_with path ''docs/'' \<or> starts_with path ''scripts/docs'' \<or> path = ''README.md''
         then [''docs/teams/DOCS-DELIVERY-RUNBOOK.md''] else [])
      @ (if starts_with path ''contracts/'' \<or> starts_with path ''docs/governance/'' \<or> starts_with path ''docs/registry/''
            \<or> starts_with path ''docs/operations/'' \<or> starts_with path ''tests/interop/''
         then [''docs/teams/CONTROL-PLANE-RUNBOOK.md''] else [])
      @ (if starts_with path ''src/'' \<or> starts_with path ''tests/native/'' \<or> starts_with path ''manifests/'' \<or> path = ''CMakeLists.txt''
         then [''docs/teams/PLATFORM-KERNEL-RUNBOOK.md''] else []))"

definition DefaultDocumentationGovernance :: json where
  "DefaultDocumentationGovernance =
     json_obj [
       (''governance_id'', JString ''styio-docs''),
       (''branch_policy'', json_obj [(''single_branch'', JString ''stable''), (''docs_changes_follow_code_changes'', JBool True)]),
       (''single_sources_of_truth'', json_strings
          [''native JSON contracts'', ''business manifests'', ''generated docs indexes'', ''team runbooks'']),
       (''collections'', JArray (map CollectionJson CollectionList)),
       (''ecosystem_boundaries'', JArray EcosystemDocsBoundaries),
       (''invariants'', json_strings [
          ''every public behavior change has a contract, governance doc, or runbook owner'',
          ''generated INDEX.md files are derived artifacts and never own policy'',
          ''team runbooks record ownership while DOC-STATS records their review footprint'',
          ''documentation gates run before claiming release or audit closure''])]"

record change_impact =
  ci_collections :: "string list"
  ci_gates :: "string list"
  ci_runbooks :: "string list"
  ci_paths :: "json list"

definition changed_path :: "json \<Rightarrow> string result" where
  "changed_path entry =
     (case entry of
        JString path \<Rightarrow>
          if path = [] then Inl (LogicError ''changed_paths entries must be non-empty strings'')
          else if contains_sub path ''..'' \<or> starts_with path ''/''
          then Inl (LogicError ''changed_paths entries must be repository-relative paths'')
          else Inr path
      | other \<Rightarrow> Inl (LogicError ''changed_paths entries must be non-empty strings''))"

definition add_path :: "string \<Rightarrow> change_impact \<Rightarrow> change_impact" where
  "add_path path impact =
     (let collection_id = CollectionForPath path;
          gates = GatesForCollection collection_id;
          runbooks = RunbooksForPath path
      in \<lparr>ci_collections = AddAll (ci_collections impact) [collection_id],
          ci_gates = AddAll (ci_gates impact) gates,
          ci_runbooks = AddAll (ci_runbooks impact) runbooks,
          ci_paths = ci_paths impact @ [json_obj [
            (''path'', JString path), (''collection_id'', JString collection_id),
            (''required_gates'', json_strings gates), (''required_runbooks'', json_strings runbooks)]]\<rparr>)"

fun add_paths :: "json list \<Rightarrow> change_impact \<Rightarrow> change_impact result" where
  "add_paths [] impact = Inr impact"
| "add_paths (entry # es) impact = rbind (changed_path entry) (\<lambda>path. add_paths es (add_path path impact))"

definition close_impact :: "change_impact \<Rightarrow> change_impact" where
  "close_impact impact =
     (let stats = (if ci_runbooks impact \<noteq> []
                   then impact\<lparr>ci_gates := AddAll (ci_gates impact) [''team-docs-gate''],
                               ci_runbooks := AddAll (ci_runbooks impact) [''docs/teams/DOC-STATS.md'']\<rparr>
                   else impact)
      in stats\<lparr>ci_gates := AddAll (ci_gates stats) [''git-diff-check'']\<rparr>)"

definition no_impact :: change_impact where
  "no_impact = \<lparr>ci_collections = [], ci_gates = [], ci_runbooks = [], ci_paths = []\<rparr>"

definition change_plan :: "string \<Rightarrow> string \<Rightarrow> change_impact \<Rightarrow> json" where
  "change_plan repository_id change_kind impact =
     json_obj [
       (''governance_id'', JString ''styio-docs''), (''repository_id'', JString repository_id), (''change_kind'', JString change_kind),
       (''branch'', JString ''stable''), (''path_impacts'', JArray (ci_paths impact)),
       (''touched_collections'', json_strings (ci_collections impact)), (''required_runbooks'', json_strings (ci_runbooks impact)),
       (''required_gates'', json_strings (ci_gates impact)),
       (''review_policy'', json_obj [
          (''generated_indexes'', JString ''refresh with python3 scripts/docs-index.py --write''),
          (''runbook_stats'', JString ''refresh docs/teams/DOC-STATS.md when team runbooks change''),
          (''contracts'', JString ''update native JSON contract examples before route docs claim closure'')])]"

definition BuildDocumentationChangePlan :: "json \<Rightarrow> json result" where
  "BuildDocumentationChangePlan request =
     rbind (guard_err (\<not> is_object request) (LogicError ''request body must be an object'')) (\<lambda>_.
     case json_lookup request ''changed_paths'' of
       Some (JArray es) \<Rightarrow>
         rbind (add_paths es no_impact) (\<lambda>impact.
         rbind (json_value get_string request ''repository_id'' ''styio-platform'') (\<lambda>repository_id.
         rbind (json_value get_string request ''change_kind'' ''documentation'') (\<lambda>change_kind.
           Inr (change_plan repository_id change_kind (close_impact impact)))))
     | _ \<Rightarrow> Inl (LogicError ''changed_paths must be an array''))"

section \<open>Handlers\<close>

definition HandleListDocumentationGovernance :: "'db handler" where
  "HandleListDocumentationGovernance = respond 200 (SuccessEnvelope ''loaded documentation governance'' DefaultDocumentationGovernance)"

definition HandlePlanDocumentationChange :: "(platform_error \<Rightarrow> string) \<Rightarrow> HttpRequest \<Rightarrow> 'db handler" where
  "HandlePlanDocumentationChange what request =
     (case BuildDocumentationChangePlan (rq_body request) of
        Inr plan \<Rightarrow> respond 200 (SuccessEnvelope ''planned documentation change'' plan)
      | Inl e \<Rightarrow> respond 400 (FailureEnvelope ''documentation change planning failed'' (what e) ''ValidationError'' ''planDocumentationChange'' 2))"

definition HandleListEcosystemRepositories :: "'db handler" where
  "HandleListEcosystemRepositories = respond 200 (SuccessEnvelope ''loaded ecosystem repositories'' DefaultEcosystemRepositories)"

definition HandlePlanEcosystemRelease :: "(platform_error \<Rightarrow> string) \<Rightarrow> HttpRequest \<Rightarrow> 'db handler" where
  "HandlePlanEcosystemRelease what request =
     (case BuildEcosystemReleasePlan (rq_body request) of
        Inr plan \<Rightarrow> respond 200 (SuccessEnvelope ''planned ecosystem release'' plan)
      | Inl e \<Rightarrow> respond 400 (FailureEnvelope ''ecosystem release planning failed'' (what e) ''ValidationError'' ''planEcosystemRelease'' 2))"

end
