(* ===== verification/Governance_Plans.thy ===== *)
theory Governance_Plans
  imports Governance
begin

text \<open>What the plans of \<^verbatim>\<open>EcosystemManager.cpp\<close> and \<^verbatim>\<open>DocumentationGovernance.cpp\<close> contain.\<close>

section \<open>Documentation changes\<close>

definition is_string_set :: "string list \<Rightarrow> bool" where
  "is_string_set xs \<longleftrightarrow> sorted xs \<and> distinct xs"

lemma AddAll_set [simp]: "set (AddAll s vs) = set s \<union> set vs"
  unfolding AddAll_def by (induction vs arbitrary: s) (auto simp: set_insort_insert)

lemma AddAll_string_set: "is_string_set s \<Longrightarrow> is_string_set (AddAll s vs)"
  unfolding AddAll_def is_string_set_def by (induction vs arbitrary: s) (auto intro: sorted_insort_insert distinct_insort_insert)

lemma string_set_eq: "is_string_set xs \<Longrightarrow> xs = sorted_list_of_set (set xs)"
  by (simp add: is_string_set_def sorted_list_of_set_sort_remdups distinct_remdups_id sorted_sort_id)

definition relative_path :: "string \<Rightarrow> bool" where
  "relative_path p \<longleftrightarrow> p \<noteq> [] \<and> \<not> contains_sub p ''..'' \<and> \<not> starts_with p ''/''"

definition path_gates :: "string \<Rightarrow> string set" where
  "path_gates p = set (GatesForCollection (CollectionForPath p))"

definition path_impact :: "string \<Rightarrow> json" where
  "path_impact p = json_obj [
     (''path'', JString p), (''collection_id'', JString (CollectionForPath p)),
     (''required_gates'', json_strings (GatesForCollection (CollectionForPath p))),
     (''required_runbooks'', json_strings (RunbooksForPath p))]"

definition impact_of :: "string list \<Rightarrow> change_impact \<Rightarrow> bool" where
  "impact_of ps i \<longleftrightarrow>
     is_string_set (ci_collections i) \<and> is_string_set (ci_gates i) \<and> is_string_set (ci_runbooks i)
     \<and> set (ci_collections i) = CollectionForPath ` set ps
     \<and> set (ci_gates i) = \<Union> (path_gates ` set ps)
     \<and> set (ci_runbooks i) = (\<Union>p \<in> set ps. set (RunbooksForPath p))
     \<and> ci_paths i = map path_impact ps"

lemma impact_of_add: "impact_of ps i \<Longrightarrow> impact_of (ps @ [p]) (add_path p i)"
  by (auto simp: impact_of_def add_path_def Let_def AddAll_string_set path_gates_def path_impact_def)

lemma changed_path_Inr: "changed_path e = Inr p \<longleftrightarrow> e = JString p \<and> relative_path p"
  by (auto simp: changed_path_def relative_path_def split: json.splits if_splits)

lemma add_paths_impact:
  "add_paths es i = Inr j \<Longrightarrow> impact_of qs i \<Longrightarrow> \<exists>ps. es = map JString ps \<and> list_all relative_path ps \<and> impact_of (qs @ ps) j"
proof (induction es arbitrary: i qs)
  case (Cons e es)
  from Cons.prems(1) obtain p where p: "e = JString p" "relative_path p" "add_paths es (add_path p i) = Inr j"
    by (auto simp: rbind_eq_Inr changed_path_Inr)
  from Cons.IH [OF p(3) impact_of_add [OF Cons.prems(2)]] obtain ps where
    "es = map JString ps" "list_all relative_path ps" "impact_of ((qs @ [p]) @ ps) j" by blast
  with p show ?case by (intro exI [of _ "p # ps"]) simp
qed (simp add: exI [of _ "[]"])

definition all_gates :: "string list \<Rightarrow> string set" where
  "all_gates ps =
     {''git-diff-check''} \<union> \<Union> (path_gates ` set ps)
       \<union> (if \<exists>p \<in> set ps. RunbooksForPath p \<noteq> [] then {''team-docs-gate''} else {})"

definition all_runbooks :: "string list \<Rightarrow> string set" where
  "all_runbooks ps =
     (\<Union>p \<in> set ps. set (RunbooksForPath p))
       \<union> (if \<exists>p \<in> set ps. RunbooksForPath p \<noteq> [] then {''docs/teams/DOC-STATS.md''} else {})"

lemma close_impact_sets:
  assumes "impact_of ps i"
  shows "ci_gates (close_impact i) = sorted_list_of_set (all_gates ps)"
    "ci_runbooks (close_impact i) = sorted_list_of_set (all_runbooks ps)"
    "ci_collections (close_impact i) = sorted_list_of_set (CollectionForPath ` set ps)"
    "ci_paths (close_impact i) = map path_impact ps"
proof -
  have books: "ci_runbooks i = [] \<longleftrightarrow> (\<forall>p \<in> set ps. RunbooksForPath p = [])"
  proof -
    have "set (ci_runbooks i) = (\<Union>p \<in> set ps. set (RunbooksForPath p))" using assms by (simp add: impact_of_def)
    then show ?thesis by (metis (no_types, lifting) SUP_bot_conv(2) set_empty)
  qed
  have gates: "is_string_set (ci_gates (close_impact i))" "set (ci_gates (close_impact i)) = all_gates ps"
    using assms books by (auto simp: close_impact_def impact_of_def Let_def all_gates_def AddAll_string_set)
  have runbooks: "is_string_set (ci_runbooks (close_impact i))" "set (ci_runbooks (close_impact i)) = all_runbooks ps"
    using assms books by (auto simp: close_impact_def impact_of_def Let_def all_runbooks_def AddAll_string_set)
  have rest: "ci_collections (close_impact i) = ci_collections i" "ci_paths (close_impact i) = ci_paths i"
    by (simp_all add: close_impact_def Let_def)
  show "ci_gates (close_impact i) = sorted_list_of_set (all_gates ps)"
    "ci_runbooks (close_impact i) = sorted_list_of_set (all_runbooks ps)"
    using gates runbooks string_set_eq by metis+
  show "ci_collections (close_impact i) = sorted_list_of_set (CollectionForPath ` set ps)" "ci_paths (close_impact i) = map path_impact ps"
    using assms string_set_eq [of "ci_collections i"] by (simp_all add: rest impact_of_def)
qed

text \<open>
  A documentation plan that is made is complete: the request listed only non-empty relative paths without \<^verbatim>\<open>..\<close>;
  every path has its entry, in the order of the request; the required gates are exactly those of the collections of
  the paths, \<^verbatim>\<open>git-diff-check\<close>, and \<^verbatim>\<open>team-docs-gate\<close> as soon as a runbook is concerned, which then also
  requires \<^verbatim>\<open>DOC-STATS.md\<close>; gates, runbooks and collections are listed in ascending order without repetition.
\<close>

theorem documentation_plan_complete:
  assumes "BuildDocumentationChangePlan request = Inr plan"
  obtains ps where "json_lookup request ''changed_paths'' = Some (json_strings ps)" "list_all relative_path ps"
    "json_lookup plan ''path_impacts'' = Some (JArray (map path_impact ps))"
    "json_lookup plan ''required_gates'' = Some (json_strings (sorted_list_of_set (all_gates ps)))"
    "json_lookup plan ''required_runbooks'' = Some (json_strings (sorted_list_of_set (all_runbooks ps)))"
    "json_lookup plan ''touched_collections'' = Some (json_strings (sorted_list_of_set (CollectionForPath ` set ps)))"
proof -
  from assms obtain es i r k where es: "json_lookup request ''changed_paths'' = Some (JArray es)" "add_paths es no_impact = Inr i"
    and plan: "plan = change_plan r k (close_impact i)"
    by (auto simp: BuildDocumentationChangePlan_def rbind_eq_Inr split: option.splits json.splits)
  have "impact_of [] no_impact" by (simp add: impact_of_def no_impact_def is_string_set_def)
  from add_paths_impact [OF es(2) this] obtain ps where ps: "es = map JString ps" "list_all relative_path ps" "impact_of ps i" by auto
  show thesis
    using that [of ps] es(1) ps close_impact_sets [OF ps(3)] by (simp add: plan change_plan_def json_strings_def)
qed

section \<open>Releases of the ecosystem\<close>

definition repository_ids :: "string list" where
  "repository_ids = [''styio'', ''styio-spio'', ''styio-view'', ''styio-platform'', ''styio-community'']"

text \<open>The ref a request asks for: the one it names for the repository, or its version, or \<^verbatim>\<open>stable\<close>.\<close>

definition requested_ref :: "json \<Rightarrow> string \<Rightarrow> json" where
  "requested_ref request i =
     (case Option.bind (json_lookup request ''components'') (\<lambda>c. json_lookup c i) of
        Some ref \<Rightarrow> ref
      | None \<Rightarrow>
          (case json_lookup request ''version'' of
             Some version \<Rightarrow> if version = JString [] then JString ''stable'' else version
           | None \<Rightarrow> JString ''stable''))"

lemma RefForRepository_requested:
  assumes "RefForRepository request i = Inr ref" "check_components request = Inr ()" "json_value get_string request ''version'' d = Inr v"
  shows "requested_ref request i = JString ref" "Option.bind (json_lookup request ''components'') (\<lambda>c. json_lookup c i) \<noteq> Some (JString [])"
proof -
  have "requested_ref request i = JString ref \<and> Option.bind (json_lookup request ''components'') (\<lambda>c. json_lookup c i) \<noteq> Some (JString [])"
    using assms
    by (cases request; cases "json_lookup request ''components''")
      (auto simp: RefForRepository_def requested_ref_def check_components_def Let_def split: option.splits json.splits if_splits)
  then show "requested_ref request i = JString ref" "Option.bind (json_lookup request ''components'') (\<lambda>c. json_lookup c i) \<noteq> Some (JString [])"
    by auto
qed

lemma unknown_component_known: "unknown_component repos cs = Inr u \<Longrightarrow> (k, v) \<in> set cs \<Longrightarrow> smap_contains repos k"
  by (induction repos cs rule: unknown_component.induct) (auto split: if_splits)

lemma length_RepositoryList: "length RepositoryList = 5"
  by (simp add: RepositoryList_def)

lemma RepositoryList_ids: "map (\<lambda>r. json_lookup r ''id'') RepositoryList = map (Some \<circ> JString) repository_ids"
  by (simp add: RepositoryList_def Repository_def repository_ids_def)

lemma repository_map_contains:
  "repository_map rs m = Inr m' \<Longrightarrow> map (\<lambda>r. json_lookup r ''id'') rs = map (Some \<circ> JString) ids \<Longrightarrow>
     smap_contains m' k \<longleftrightarrow> smap_contains m k \<or> k \<in> set ids"
proof (induction rs arbitrary: m ids)
  case (Cons r rs)
  from Cons.prems(2) obtain i js where e: "ids = i # js" "json_lookup r ''id'' = Some (JString i)" "map (\<lambda>r. json_lookup r ''id'') rs = map (Some \<circ> JString) js"
    by (cases ids) auto
  let ?m = "if smap_contains m i then m else smap_put i r m"
  from Cons.prems(1) have "repository_map rs ?m = Inr m'" by (simp add: json_string_at_def json_at_def e)
  from Cons.IH [OF this e(3)] show ?case by (auto simp: e(1) smap_contains_def)
qed simp

lemma RepositoryMap_ids: "RepositoryMap = Inr repos \<Longrightarrow> smap_contains repos k \<longleftrightarrow> k \<in> set repository_ids"
  using repository_map_contains [OF _ RepositoryList_ids] by (simp add: RepositoryMap_def smap_contains_def)

lemma check_components_known:
  assumes "check_components request = Inr ()" "json_lookup request ''components'' = Some c" "json_contains c k"
  shows "k \<in> set repository_ids"
proof -
  from assms obtain cs repos v where "c = JObject cs" "RepositoryMap = Inr repos" "unknown_component repos cs = Inr ()" "smap_find cs k = Some v"
    by (cases c) (auto simp: check_components_def rbind_eq_Inr json_contains_lookup)
  moreover have "smap_find m k = Some v \<Longrightarrow> (k, v) \<in> set m" for m :: "(string \<times> json) list"
    by (induction m) (auto split: if_splits)
  ultimately show ?thesis using RepositoryMap_ids unknown_component_known by metis
qed

lemma length_repository_ids: "length repository_ids = 5"
  by (simp add: repository_ids_def)

lemma RepositoryList_id: "i < 5 \<Longrightarrow> json_lookup (RepositoryList ! i) ''id'' = Some (JString (repository_ids ! i))"
  using arg_cong [OF RepositoryList_ids, of "\<lambda>xs. xs ! i"] by (simp add: length_RepositoryList length_repository_ids)

lemma plan_repository_fields:
  assumes "plan_repository request n repo = Inr (component, step)"
  obtains i ref where "json_lookup repo ''id'' = Some (JString i)" "RefForRepository request i = Inr ref"
    "json_lookup component ''repository_id'' = Some (JString i)" "json_lookup component ''ref'' = Some (JString ref)"
    "json_lookup step ''step'' = Some (JInt (int n + 1))" "json_lookup step ''repository_id'' = Some (JString i)"
    "Option.bind (json_lookup step ''fetch'') (\<lambda>f. json_lookup f ''ref'') = Some (JString ref)"
  using assms by (auto simp: plan_repository_def rbind_eq_Inr json_string_at_eq)

text \<open>
  A release plan of the ecosystem has one component and one numbered step for each of the five repositories, in the
  order of the catalog; step and component name the same ref, which is the one the request names for the repository,
  or else its version, or else \<^verbatim>\<open>stable\<close>; a request that names an unknown repository has no plan.
\<close>

theorem ecosystem_plan_complete:
  assumes "BuildEcosystemReleasePlan request = Inr plan"
  obtains components steps where
    "json_lookup plan ''components'' = Some (JArray components)" "json_lookup plan ''execution_plan'' = Some (JArray steps)"
    "length components = length repository_ids" "length steps = length repository_ids"
    "\<And>i. i < length repository_ids \<Longrightarrow> json_lookup (steps ! i) ''step'' = Some (JInt (int i + 1))
       \<and> json_lookup (steps ! i) ''repository_id'' = Some (JString (repository_ids ! i))
       \<and> json_lookup (components ! i) ''repository_id'' = Some (JString (repository_ids ! i))
       \<and> json_lookup (components ! i) ''ref'' = Some (requested_ref request (repository_ids ! i))
       \<and> Option.bind (json_lookup (steps ! i) ''fetch'') (\<lambda>f. json_lookup f ''ref'') = Some (requested_ref request (repository_ids ! i))"
    "\<And>c k. json_lookup request ''components'' = Some c \<Longrightarrow> json_contains c k \<Longrightarrow> k \<in> set repository_ids"
proof -
  from assms obtain version planned where check: "check_components request = Inr ()"
    and version: "json_value get_string request ''version'' ''stable'' = Inr version"
    and planned: "rmap (\<lambda>(n, repo). plan_repository request n repo) (enumerate 0 RepositoryList) = Inr planned"
    and lists: "json_lookup plan ''components'' = Some (JArray (map fst planned))" "json_lookup plan ''execution_plan'' = Some (JArray (map snd planned))"
    by (auto simp: BuildEcosystemReleasePlan_def rbind_eq_Inr)
  have all: "list_all2 (\<lambda>e y. (case e of (n, repo) \<Rightarrow> plan_repository request n repo) = Inr y) (enumerate 0 RepositoryList) planned"
    using planned by (simp add: rmap_eq_Inr)
  then have len: "length planned = length repository_ids"
    by (auto dest!: list_all2_lengthD simp: length_RepositoryList repository_ids_def)
  show thesis
  proof (rule that [OF lists])
    show "length (map fst planned) = length repository_ids" "length (map snd planned) = length repository_ids" using len by simp_all
    fix i assume i: "i < length repository_ids"
    then have i5: "i < 5" by (simp add: repository_ids_def)
    have "i < length (enumerate 0 RepositoryList)" using i5 by (simp add: length_RepositoryList)
    from list_all2_nthD [OF all this] have "plan_repository request i (RepositoryList ! i) = Inr (fst (planned ! i), snd (planned ! i))"
      using i5 by (simp add: nth_enumerate_eq length_RepositoryList)
    then show "json_lookup (map snd planned ! i) ''step'' = Some (JInt (int i + 1))
       \<and> json_lookup (map snd planned ! i) ''repository_id'' = Some (JString (repository_ids ! i))
       \<and> json_lookup (map fst planned ! i) ''repository_id'' = Some (JString (repository_ids ! i))
       \<and> json_lookup (map fst planned ! i) ''ref'' = Some (requested_ref request (repository_ids ! i))
       \<and> Option.bind (json_lookup (map snd planned ! i) ''fetch'') (\<lambda>f. json_lookup f ''ref'') = Some (requested_ref request (repository_ids ! i))"
      using RepositoryList_id [OF i5] RefForRepository_requested(1) [OF _ check version] i len
      by (elim plan_repository_fields) simp
  next
    show "k \<in> set repository_ids" if "json_lookup request ''components'' = Some c" "json_contains c k" for c k
      by (rule check_components_known [OF check that])
  qed
qed

end
