(* ===== verification/Registry_Plane.thy ===== *)
theory Registry_Plane
  imports Registry_Publish
begin

text \<open>
  The registry handlers that work on the directory tree: packages (\<^verbatim>\<open>RegistryPackageHandlers.cpp\<close>), repositories
  and distributions (\<^verbatim>\<open>RegistryRepositoryHandlers.cpp\<close>), status and descriptor (\<^verbatim>\<open>RegistryControlPlane.cpp\<close>) and
  release channels (\<^verbatim>\<open>ReleaseManager.cpp\<close>). \<open>s_try\<close> is a \<^verbatim>\<open>try\<close> with its \<^verbatim>\<open>catch (const std::exception &)\<close>; what
  is thrown outside of one leaves the handler.
\<close>

abbreviation pe_root :: "PlatformConfig \<Rightarrow> fs_path" where
  "pe_root config \<equiv> rg_root (cfg_registry config)"

definition success :: "string \<Rightarrow> json \<Rightarrow> 'db handler" where
  "success message payload = s_return (JsonResponse 200 (SuccessEnvelope message payload))"

definition from_tree :: "(tree \<Rightarrow> 'a result) \<Rightarrow> ('d host, 'a) act" where
  "from_tree f = on_tree (s_bind (s_reads f) s_lift)"

definition release_target :: "string \<Rightarrow> string \<Rightarrow> json" where
  "release_target package version = json_obj [(''package_id'', JString package), (''version'', JString version)]"

section \<open>Publishing a release\<close>

definition sync_before_publish :: "plane_env \<Rightarrow> PlatformConfig \<Rightarrow> (tree, unit) sm" where
  "sync_before_publish env config =
     (if \<not> UsesS3ObjectStore config then s_return ()
      else s_bind (s_lift (rbind (ObjectExists (pe_s3 env) (cfg_object_store config) ''config.json'') (\<lambda>found.
             if found then Inr True else ObjectExists (pe_s3 env) (cfg_object_store config) ''trust/root.json''))) (\<lambda>remote_initialized.
           if remote_initialized then SyncS3RegistryStateToLocal env config else RemoveLocalRegistryMetadataCache config))"

definition publish_payload ::
  "plane_env \<Rightarrow> PlatformConfig \<Rightarrow> PublishDraft \<Rightarrow> bool \<Rightarrow> string \<Rightarrow> nat \<Rightarrow> LocalAppendResult \<Rightarrow> MetadataVersions \<Rightarrow> string \<Rightarrow> string \<Rightarrow> json" where
  "publish_payload env config draft created_root archive_sha256 archive_size appended versions repository_version_id publication_id =
     json_obj [
       (''registry_root'', JString (pe_root config)),
       (''registry_read_root'', JString (RegistryReadRootUrl (pe_file_url env) config)),
       (''object_store_provider'', JString (os_provider (cfg_object_store config))),
       (''created_root'', JBool created_root),
       (''package'', JString (pd_package draft)),
       (''version'', JString (pd_version draft)),
       (''publisher_id'', JString (pd_publisher_id draft)),
       (''published_at'', JString (te_now (pe_trust env))),
       (''archive_path'', JString (pd_archive_path draft)),
       (''archive_sha256'', JString archive_sha256),
       (''archive_size_bytes'', JInt (int archive_size)),
       (''artifact_path'', JString (artifact_path_for archive_sha256)),
       (''index_path'', JString (la_index_path appended)),
       (''log_leaf_path'', JString (la_log_leaf_path appended)),
       (''sequence'', JInt (int (la_sequence appended))),
       (''dependencies'', JInt (int (pd_dependencies draft))),
       (''dev_dependencies'', JInt (int (pd_dev_dependencies draft))),
       (''checkpoint_version'', JInt (mv_checkpoint_version versions)),
       (''snapshot_version'', JInt (mv_snapshot_version versions)),
       (''timestamp_version'', JInt (mv_timestamp_version versions)),
       (''namespaces'', JInt (int (mv_namespaces versions))),
       (''repository_id'', JString ''default''),
       (''repository_version_id'', JString repository_version_id),
       (''publication_id'', JString publication_id),
       (''distribution_id'', JString ''default'')]"

definition already_published :: "'d host postgres option \<Rightarrow> plane_env \<Rightarrow> PlatformConfig \<Rightarrow> PublishDraft \<Rightarrow> ('d host, bool) act" where
  "already_published pg env config draft =
     s_bind (either_store pg (\<lambda>p. s_bind (from_pg (pg_GetRegistryPackageRelease p (RegistryPackageId (pd_package draft)) (pd_version draft)))
               (\<lambda>r. s_return (r \<noteq> None))) (s_return False)) (\<lambda>in_pg.
     s_bind (reading (HasPublishedRelease (RegistryReleaseKey (pd_package draft) (pd_version draft)))) (\<lambda>in_mem.
     s_bind (on_tree (s_reads (ReleaseExistsOnDisk (pe_json env) (pe_root config) (pd_package draft) (pd_version draft)))) (\<lambda>on_disk.
     s_return (in_mem \<or> in_pg \<or> on_disk))))"

definition record_release :: "'d host postgres option \<Rightarrow> plane_env \<Rightarrow> HttpRequest \<Rightarrow> PublishDraft \<Rightarrow> json \<Rightarrow> string \<Rightarrow> json \<Rightarrow> ('d host, unit) act" where
  "record_release pg env request draft release_record archive_sha256 payload =
     (let package = pd_package draft; now = te_now (pe_trust env);
          package_record = \<lparr>pk_package_id = RegistryPackageId package, pk_package_namespace = package_namespace_of package,
            pk_name = package_name_of package, pk_created_at = now, pk_created_by = pd_publisher_id draft, pk_visibility = ''public''\<rparr>;
          owner_record = \<lparr>ow_package_id = RegistryPackageId package, ow_owner_id = pd_publisher_id draft, ow_owner_kind = ''user'',
            ow_role = ''owner'', ow_added_by = RegistryActorId (te_sha256 (pe_trust env)) request, ow_added_at = now\<rparr> in
      s_bind (in_memory (RecordPublishedRelease (RegistryReleaseKey package (pd_version draft)) payload)) (\<lambda>_.
      s_bind (s_lift (json_string_at release_record ''manifest_digest'')) (\<lambda>manifest_sha256.
      s_bind (s_lift (json_at release_record ''dependencies'')) (\<lambda>dependencies.
      let release = \<lparr>rl_package_id = RegistryPackageId package, rl_version = pd_version draft, rl_edition = ''2026'',
            rl_manifest_sha256 = manifest_sha256, rl_source_artifact_sha256 = archive_sha256, rl_dependencies = dependencies,
            rl_publisher_id = pd_publisher_id draft, rl_published_at = now, rl_yanked = False, rl_yanked_reason = []\<rparr> in
      s_bind (in_postgres pg (\<lambda>p. pg_UpsertRegistryPackage p package_record)) (\<lambda>_.
      s_bind (in_postgres pg (\<lambda>p. pg_UpsertRegistryPackageRelease p release)) (\<lambda>_.
      s_bind (in_postgres pg (\<lambda>p. pg_AddRegistryPackageOwner p owner_record)) (\<lambda>_.
      s_bind (in_memory (UpsertRegistryPackage package_record)) (\<lambda>_.
      s_bind (in_memory (UpsertRegistryPackageRelease release)) (\<lambda>_.
      in_memory (AddRegistryPackageOwner owner_record))))))))))"

definition publish_new_release :: "'d host postgres option \<Rightarrow> plane_env \<Rightarrow> PlatformConfig \<Rightarrow> HttpRequest \<Rightarrow> PublishDraft \<Rightarrow> 'd host handler" where
  "publish_new_release pg env config request draft =
     (let registry_root = pe_root config; now = te_now (pe_trust env) in
      s_bind (on_tree (s_reads (\<lambda>t. \<not> tree_exists t (path_div registry_root ''config.json'') \<or> \<not> tree_exists t (trust_path registry_root ''root.json'')))) (\<lambda>created_root.
      s_bind (on_tree (EnsureRegistryRootInitialized (pe_trust env) config)) (\<lambda>_.
      s_bind (on_tree (LoadOrCreateRegistryRoleKeys (pe_trust env) (rg_key_dir (cfg_registry config)))) (\<lambda>role_keys.
      s_bind (from_tree (\<lambda>t. sha256_file (smap_find t) (pd_archive_path draft))) (\<lambda>archive_sha256.
      s_bind (from_tree (file_size (pd_archive_path draft))) (\<lambda>archive_size.
      let artifact_path = artifact_path_for archive_sha256 in
      s_bind (s_lift (BuildReleaseRecord env draft now archive_sha256 archive_size artifact_path)) (\<lambda>release_record.
      s_bind (on_tree (AppendRegistryReleaseToLocal env config draft release_record artifact_path)) (\<lambda>appended.
      s_bind (on_tree (RefreshSignedRegistryMetadata (pe_trust env) config role_keys now)) (\<lambda>versions.
      s_bind (CreateRegistryPublication pg env config ''publish'' (RegistryReleaseKey (pd_package draft) (pd_version draft)) now) (\<lambda>publication.
      s_bind (if UsesS3ObjectStore config then on_tree (UploadRegistryTreeToS3 env config) else s_return ()) (\<lambda>_.
      s_bind (s_lift (json_string_at publication ''repository_version_id'')) (\<lambda>repository_version_id.
      s_bind (s_lift (json_string_at publication ''publication_id'')) (\<lambda>publication_id.
      let payload = publish_payload env config draft created_root archive_sha256 archive_size appended versions repository_version_id publication_id in
      s_bind (record_release pg env request draft release_record archive_sha256 payload) (\<lambda>_.
      s_bind (RecordRegistryAudit pg (reg_of env) request ''publishRelease''
                (json_set ''publication_id'' (JString publication_id) (release_target (pd_package draft) (pd_version draft))) ''success'') (\<lambda>_.
      success ''published registry v2 release'' payload)))))))))))))))"

definition HandlePublishRelease :: "'d host postgres option \<Rightarrow> plane_env \<Rightarrow> PlatformConfig \<Rightarrow> HttpRequest \<Rightarrow> 'd host handler" where
  "HandlePublishRelease pg env config request =
     (let body = rq_body request;
          malformed = (\<lambda>detail. FailureResponse 400 ''malformed registry publish request'' detail ''UsageError'' ''publishRelease'' 2) in
      if \<not> is_object body then s_return (malformed ''request body must be a JSON object'')
      else case ValidateOptionalStringFields body [''archive_path'', ''manifest_path'', ''package'', ''output_path'', ''publisher_id'', ''version''] of
        Some error \<Rightarrow> s_return (malformed error)
      | None \<Rightarrow>
          s_bind (s_try (s_bind (on_tree (BuildPublishDraft env body config (rq_identity request))) (\<lambda>draft. s_return (Inr draft)))
                    (\<lambda>e. s_return (Inl (malformed (pe_what env e))))) (\<lambda>built.
          case built of
            Inl response \<Rightarrow> s_return response
          | Inr draft \<Rightarrow>
              let target = release_target (pd_package draft) (pd_version draft) in
              s_bind (RegistryWriteAuthorized pg (reg_of env) request ''package:publish'' (RegistryPackageId (pd_package draft))) (\<lambda>authorized.
              if \<not> authorized
              then audited_failure pg (reg_of env) request ''publishRelease'' target ''denied''
                     (FailureResponse 403 ''registry publish denied'' ''token or identity lacks package:publish'' ''AuthError'' ''publishRelease'' 2)
              else
                s_try (s_bind (on_tree (sync_before_publish env config)) (\<lambda>_.
                       s_bind (already_published pg env config draft) (\<lambda>published.
                       if published
                       then audited_failure pg (reg_of env) request ''publishRelease'' target ''duplicate''
                              (FailureResponse 409 ''registry publish failed'' ''package version is already published'' ''PublishError'' ''publishRelease'' 17)
                       else publish_new_release pg env config request draft)))
                  (\<lambda>e. audited_failure pg (reg_of env) request ''publishRelease'' target ''failed''
                         (FailureResponse 422 ''registry publish failed'' (pe_what env e) ''PublishError'' ''publishRelease'' 17)))))"

section \<open>Verifying the registry\<close>

definition verify_failure :: "string \<Rightarrow> HttpResponse" where
  "verify_failure detail = FailureResponse 422 ''registry verification failed'' detail ''VerifyError'' ''verifyRegistry'' 17"

definition verify_counts :: "'d host postgres option \<Rightarrow> plane_env \<Rightarrow> PlatformConfig \<Rightarrow> 'd host handler" where
  "verify_counts pg env config =
     (let registry_root = pe_root config; index_root = path_div registry_root ''index'';
          leaves_root = path_div (path_div registry_root ''log'') ''leaves'' in
      s_bind (on_tree (s_reads (\<lambda>t. (CountNamespaces index_root t, CountRegularFiles index_root t, CountIndexReleases index_root t,
                CountRegularFiles leaves_root t)))) (\<lambda>(namespaces, index_files, releases, tree_size).
      s_bind (from_tree (CurrentDistributionPointer (pe_json env) registry_root ''default'')) (\<lambda>current.
      s_bind (s_lift (pointer_value current ''publication_id'')) (\<lambda>publication_id.
      s_bind (s_lift (pointer_value current ''repository_version_id'')) (\<lambda>repository_version_id.
      s_bind (RecordMirror pg config ''fresh'' (''checkpoint-'' @ PaddedNumber (of_nat tree_size) 4) publication_id repository_version_id
                (te_now (pe_trust env)) (to_int32 (int tree_size))) (\<lambda>_.
      success ''verified registry v2 root'' (json_obj [
        (''ok'', JBool True), (''root'', JString registry_root), (''registry_read_root'', JString (RegistryReadRootUrl (pe_file_url env) config)),
        (''object_store_provider'', JString (os_provider (cfg_object_store config))), (''namespaces'', JInt (int namespaces)),
        (''index_files'', JInt (int index_files)), (''releases'', JInt (int releases)), (''tree_size'', JInt (int tree_size))])))))))"

definition HandleVerifyRegistry :: "'d host postgres option \<Rightarrow> plane_env \<Rightarrow> PlatformConfig \<Rightarrow> HttpRequest \<Rightarrow> 'd host handler" where
  "HandleVerifyRegistry pg env config request =
     (let registry_root = pe_root config; missing = verify_failure ''registry root is not initialized'' in
      if \<not> is_object (rq_body request) \<or> \<not> json_empty (rq_body request)
      then s_return (FailureResponse 400 ''registry verification failed'' ''verify request must be an empty JSON object'' ''VerifyError'' ''verifyRegistry'' 2)
      else
        s_try
          (s_bind (if UsesS3ObjectStore config
                   then s_lift (rbind (ObjectExists (pe_s3 env) (cfg_object_store config) ''config.json'') (\<lambda>found.
                          if found then ObjectExists (pe_s3 env) (cfg_object_store config) ''trust/root.json'' else Inr False))
                   else s_return True) (\<lambda>initialized.
           if \<not> initialized then s_return missing
           else
             s_bind (if UsesS3ObjectStore config then on_tree (SyncS3RegistryStateToLocal env config) else s_return ()) (\<lambda>_.
             s_bind (on_tree (s_reads (\<lambda>t. tree_exists t (path_div registry_root ''config.json'') \<and> tree_exists t (trust_path registry_root ''root.json'')))) (\<lambda>present.
             if \<not> present then s_return missing else verify_counts pg env config))))
          (\<lambda>e. s_return (verify_failure (pe_what env e))))"

section \<open>Reading packages\<close>

definition HandleGetPackage :: "'d host postgres option \<Rightarrow> plane_env \<Rightarrow> PlatformConfig \<Rightarrow> RouteMatch \<Rightarrow> 'd host handler" where
  "HandleGetPackage pg env config rm =
     using_result (RegistryPackageFromRoute rm) (\<lambda>package.
     case ValidatePackageName package of
       Some error \<Rightarrow> s_return (FailureResponse 400 ''package lookup rejected'' error ''ValidationError'' ''getPackage'' 2)
     | None \<Rightarrow>
         let from_index = s_bind (from_tree (PackagePayloadFromIndex (pe_json env) (pe_root config) package)) (success ''loaded package'') in
         s_try
           (case pg of
              None \<Rightarrow> from_index
            | Some p \<Rightarrow>
                s_bind (from_pg (pg_GetRegistryPackage p (RegistryPackageId package))) (\<lambda>record.
                case record of
                  None \<Rightarrow> from_index
                | Some r \<Rightarrow>
                    s_bind (from_pg (pg_ListRegistryPackageReleases p (RegistryPackageId package))) (\<lambda>releases.
                    success ''loaded package'' (json_set ''release_count'' (JInt (int (length (json_elements releases))))
                      (json_set ''releases'' releases (SerializeRegistryPackageRecord r))))))
           (\<lambda>e. s_return (FailureResponse 404 ''package lookup failed'' (pe_what env e) ''NotFound'' ''getPackage'' 17)))"

definition HandleListPackageReleases :: "'d host postgres option \<Rightarrow> plane_env \<Rightarrow> PlatformConfig \<Rightarrow> RouteMatch \<Rightarrow> 'd host handler" where
  "HandleListPackageReleases pg env config rm =
     using_result (RegistryPackageFromRoute rm) (\<lambda>package.
     let loaded = (\<lambda>releases. success ''loaded package releases'' (json_obj [(''package_id'', JString package), (''releases'', releases)]));
         missing = s_return (FailureResponse 404 ''package release lookup failed'' ''package is not found'' ''NotFound'' ''listPackageReleases'' 17) in
     case ValidatePackageName package of
       Some error \<Rightarrow> s_return (FailureResponse 400 ''package release lookup rejected'' error ''ValidationError'' ''listPackageReleases'' 2)
     | None \<Rightarrow>
         s_bind (from_tree (ReadPackageIndexRecords (pe_json env) (pe_root config) package)) (\<lambda>releases.
         if releases \<noteq> [] then loaded (JArray releases)
         else case pg of
           None \<Rightarrow> missing
         | Some p \<Rightarrow>
             s_bind (from_pg (pg_ListRegistryPackageReleases p (RegistryPackageId package))) (\<lambda>persisted.
             if json_empty persisted then missing else loaded persisted)))"

definition HandleGetPackageRelease :: "'d host postgres option \<Rightarrow> plane_env \<Rightarrow> PlatformConfig \<Rightarrow> RouteMatch \<Rightarrow> 'd host handler" where
  "HandleGetPackageRelease pg env config rm =
     using_result (RegistryPackageFromRoute rm) (\<lambda>package.
     using_result (param_at rm ''version'') (\<lambda>version.
     let missing = s_return (FailureResponse 404 ''package release lookup failed'' ''package release is not found'' ''NotFound'' ''getPackageRelease'' 17) in
     case ValidatePackageName package of
       Some error \<Rightarrow> s_return (FailureResponse 400 ''package release lookup rejected'' error ''ValidationError'' ''getPackageRelease'' 2)
     | None \<Rightarrow>
         s_bind (from_tree (PackageReleasePayloadFromIndex (pe_json env) (pe_root config) package version)) (\<lambda>release.
         case release of
           Some r \<Rightarrow> success ''loaded package release'' r
         | None \<Rightarrow>
             (case pg of
                None \<Rightarrow> missing
              | Some p \<Rightarrow>
                  s_bind (from_pg (pg_GetRegistryPackageRelease p (RegistryPackageId package) version)) (\<lambda>persisted.
                  case persisted of
                    None \<Rightarrow> missing
                  | Some r \<Rightarrow> success ''loaded package release'' (SerializeRegistryPackageReleaseRecord r))))))"

section \<open>Yanking\<close>

fun json_erase :: "string \<Rightarrow> json \<Rightarrow> json" where
  "json_erase k (JObject m) = JObject (smap_erase k m)"
| "json_erase k j = j"

definition yank_record :: "bool \<Rightarrow> string \<Rightarrow> string \<Rightarrow> json \<Rightarrow> json" where
  "yank_record yanked reason now record =
     (let marked = json_set ''yanked_reason'' (JString (if yanked then reason else [])) (json_set ''yanked'' (JBool yanked) record) in
      if yanked then json_set ''yanked_at'' (JString now) marked else json_erase ''yanked_at'' marked)"

fun yank_records :: "string \<Rightarrow> bool \<Rightarrow> string \<Rightarrow> string \<Rightarrow> json list \<Rightarrow> (json list \<times> string option) result" where
  "yank_records version yanked reason now [] = Inr ([], None)"
| "yank_records version yanked reason now (record # records) =
     rbind (json_value get_string record ''version'' []) (\<lambda>v.
     if v = version then
       rbind (rbind (json_at record ''source_artifact'') (\<lambda>a. json_string_at a ''path'')) (\<lambda>path.
       rbind (yank_records version yanked reason now records) (\<lambda>(rest, later).
       Inr (yank_record yanked reason now record # rest, Some (case later of None \<Rightarrow> path | Some p \<Rightarrow> p))))
     else
       rbind (yank_records version yanked reason now records) (\<lambda>(rest, later). Inr (record # rest, later)))"

definition yank_release ::
  "'d host postgres option \<Rightarrow> plane_env \<Rightarrow> PlatformConfig \<Rightarrow> HttpRequest \<Rightarrow> string \<Rightarrow> string \<Rightarrow> string \<Rightarrow> bool \<Rightarrow> json list \<Rightarrow> string \<Rightarrow> 'd host handler" where
  "yank_release pg env config request operation package version yanked records artifact_path =
     (let registry_root = pe_root config; now = te_now (pe_trust env); target = release_target package version in
      s_bind (on_tree (WritePackageIndexRecords (pe_json env) registry_root package records)) (\<lambda>_.
      s_bind (on_tree (LoadOrCreateRegistryRoleKeys (pe_trust env) (rg_key_dir (cfg_registry config)))) (\<lambda>role_keys.
      s_bind (on_tree (RefreshSignedRegistryMetadata (pe_trust env) config role_keys now)) (\<lambda>versions.
      s_bind (CreateRegistryPublication pg env config (if yanked then ''yank'' else ''unyank'') (RegistryReleaseKey package version) now) (\<lambda>publication.
      s_bind (s_lift (if yanked then json_value get_string (rq_body request) ''reason'' [] else Inr [])) (\<lambda>yank_reason.
      s_bind (in_postgres pg (\<lambda>p. pg_SetRegistryPackageReleaseYanked p (RegistryPackageId package) version yanked yank_reason)) (\<lambda>_.
      s_bind (in_memory (\<lambda>m. snd (SetRegistryPackageReleaseYanked (RegistryPackageId package) version yanked yank_reason m))) (\<lambda>_.
      s_bind (RecordRegistryAudit pg (reg_of env) request operation target ''success'') (\<lambda>_.
      s_bind (if UsesS3ObjectStore config then on_tree (UploadRegistryTreeToS3 env config) else s_return ()) (\<lambda>_.
      s_bind (on_tree (s_reads (\<lambda>t. tree_exists t (path_div registry_root artifact_path)))) (\<lambda>preserved.
      s_bind (s_lift (json_at publication ''repository_version_id'')) (\<lambda>repository_version_id.
      s_bind (s_lift (json_at publication ''publication_id'')) (\<lambda>publication_id.
      success (if yanked then ''yanked package release'' else ''unyanked package release'') (json_obj [
        (''package_id'', JString package), (''version'', JString version), (''yanked'', JBool yanked),
        (''artifact_path'', JString artifact_path), (''artifact_preserved'', JBool preserved),
        (''checkpoint_version'', JInt (mv_checkpoint_version versions)), (''snapshot_version'', JInt (mv_snapshot_version versions)),
        (''timestamp_version'', JInt (mv_timestamp_version versions)), (''repository_version_id'', repository_version_id),
        (''publication_id'', publication_id), (''distribution_id'', JString ''default'')]))))))))))))))"

definition HandleSetPackageReleaseYanked :: "'d host postgres option \<Rightarrow> plane_env \<Rightarrow> PlatformConfig \<Rightarrow> RouteMatch \<Rightarrow> HttpRequest \<Rightarrow> bool \<Rightarrow> 'd host handler" where
  "HandleSetPackageReleaseYanked pg env config rm request yanked =
     using_result (RegistryPackageFromRoute rm) (\<lambda>package.
     using_result (param_at rm ''version'') (\<lambda>version.
     let operation = (if yanked then ''yankPackageRelease'' else ''unyankPackageRelease''); body = rq_body request;
         target = release_target package version;
         rejected = (\<lambda>detail. s_return (FailureResponse 400 ''package release mutation rejected'' detail ''ValidationError'' operation 2)) in
     case ValidatePackageName package of
       Some error \<Rightarrow> rejected error
     | None \<Rightarrow>
         if \<not> is_object body then rejected ''request body must be an object''
         else if json_contains body ''reason'' \<and> \<not> is_string (json_member body ''reason'') then rejected ''reason must be a string when present''
         else
           s_bind (RegistryWriteAuthorized pg (reg_of env) request ''package:yank'' (RegistryPackageId package)) (\<lambda>authorized.
           if \<not> authorized
           then audited_failure pg (reg_of env) request operation target ''denied''
                  (FailureResponse 403 ''package release mutation denied'' ''token or identity lacks package:yank'' ''AuthError'' operation 2)
           else
             s_try
               (s_bind (from_tree (ReadPackageIndexRecords (pe_json env) (pe_root config) package)) (\<lambda>records.
                s_bind (s_lift (json_value get_string body ''reason'' [])) (\<lambda>reason.
                s_bind (s_lift (yank_records version yanked reason (te_now (pe_trust env)) records)) (\<lambda>(changed, found).
                case found of
                  None \<Rightarrow> audited_failure pg (reg_of env) request operation target ''not_found''
                     (FailureResponse 404 ''package release mutation failed'' ''package release is not found'' ''NotFound'' operation 17)
                | Some artifact_path \<Rightarrow> yank_release pg env config request operation package version yanked changed artifact_path))))
               (\<lambda>e. audited_failure pg (reg_of env) request operation target ''failed''
                      (FailureResponse 422 ''package release mutation failed'' (pe_what env e) ''PublishError'' operation 17)))))"

end
