(* ===== verification/Registry_Repositories.thy ===== *)
theory Registry_Repositories
  imports Registry_Plane
begin

text \<open>
  Repositories, publications, distributions and release channels (\<^verbatim>\<open>RegistryRepositoryHandlers.cpp\<close>,
  \<^verbatim>\<open>ReleaseManager.cpp\<close>), the status and descriptor handlers of \<^verbatim>\<open>RegistryControlPlane.cpp\<close>, and the mirror's
  synchronisation with its origin (\<^verbatim>\<open>MirrorSync.cpp\<close>).
\<close>

section \<open>Repositories and publications\<close>

definition HandleListRepositories :: "'d host postgres option \<Rightarrow> 'd host handler" where
  "HandleListRepositories pg =
     s_bind (either_store pg (\<lambda>p. from_pg (pg_ListRegistryRepositories p)) (reading ListRegistryRepositories)) (\<lambda>repositories.
     success ''loaded repositories'' (json_obj [(''repositories'',
       if json_empty repositories
       then JArray [json_obj [(''repository_id'', JString ''default''), (''name'', JString ''default''), (''tenant_id'', JString ''platform''),
                              (''policy'', default_policy), (''created_at'', JString [])]]
       else repositories)]))"

definition HandleListRepositoryVersions :: "'d host postgres option \<Rightarrow> RouteMatch \<Rightarrow> 'd host handler" where
  "HandleListRepositoryVersions pg rm =
     using_result (param_at rm ''repository_id'') (\<lambda>repository_id.
     s_bind (either_store pg (\<lambda>p. from_pg (pg_ListRegistryRepositoryVersions p repository_id))
               (reading (ListRegistryRepositoryVersions repository_id))) (\<lambda>versions.
     success ''loaded repository versions'' (json_obj [(''repository_id'', JString repository_id), (''versions'', versions)])))"

definition publication_file :: "PlatformConfig \<Rightarrow> string \<Rightarrow> fs_path" where
  "publication_file config publication_id = path_div (publication_root (pe_root config) publication_id) ''publication.json''"

definition read_json :: "plane_env \<Rightarrow> fs_path \<Rightarrow> tree \<Rightarrow> json result" where
  "read_json env p t = rbind (ReadFileBytes p t) (json_parse (pe_json env))"

definition HandleGetPublication :: "'d host postgres option \<Rightarrow> plane_env \<Rightarrow> PlatformConfig \<Rightarrow> RouteMatch \<Rightarrow> 'd host handler" where
  "HandleGetPublication pg env config rm =
     using_result (param_at rm ''publication_id'') (\<lambda>publication_id.
     s_bind (on_tree (s_reads (\<lambda>t. tree_exists t (publication_file config publication_id)))) (\<lambda>present.
     if \<not> present then s_return (FailureResponse 404 ''publication lookup failed'' ''publication is not found'' ''NotFound'' ''getPublication'' 17)
     else
       s_bind (from_tree (read_json env (publication_file config publication_id))) (\<lambda>payload.
       s_bind (either_store pg (\<lambda>p. from_pg (pg_GetRegistryPublication p publication_id)) (reading (GetRegistryPublication publication_id))) (\<lambda>record.
       success ''loaded publication''
         (case record of None \<Rightarrow> payload | Some r \<Rightarrow> json_set ''control_plane_record'' (SerializeRegistryPublicationRecord r) payload)))))"

definition digest_matches :: "plane_env \<Rightarrow> json \<Rightarrow> string \<Rightarrow> fs_path \<Rightarrow> tree \<Rightarrow> bool result" where
  "digest_matches env publication key p t =
     rbind (json_value get_string publication key []) (\<lambda>expected.
     rbind (DirectoryDigest (pe_json env) (te_sha256 (pe_trust env)) p t) (\<lambda>actual. Inr (expected = actual)))"

definition HandleVerifyPublication :: "plane_env \<Rightarrow> PlatformConfig \<Rightarrow> RouteMatch \<Rightarrow> HttpRequest \<Rightarrow> 'd host handler" where
  "HandleVerifyPublication env config rm request =
     (if \<not> is_object (rq_body request) \<or> \<not> json_empty (rq_body request)
      then s_return (FailureResponse 400 ''publication verification rejected'' ''verify request must be an empty JSON object'' ''VerifyError'' ''verifyPublication'' 2)
      else
        using_result (param_at rm ''publication_id'') (\<lambda>publication_id.
        let p = publication_file config publication_id; r = publication_root (pe_root config) publication_id;
            failure = (\<lambda>detail. FailureResponse 422 ''publication verification failed'' detail ''VerifyError'' ''verifyPublication'' 17) in
        s_bind (on_tree (s_reads (\<lambda>t. tree_exists t p))) (\<lambda>present.
        if \<not> present then s_return (FailureResponse 404 ''publication verification failed'' ''publication is not found'' ''NotFound'' ''verifyPublication'' 17)
        else
          s_try
            (s_bind (from_tree (read_json env p)) (\<lambda>publication.
             s_bind (from_tree (digest_matches env publication ''index_digest'' (path_div r ''index''))) (\<lambda>index_ok.
             s_bind (from_tree (digest_matches env publication ''trust_digest'' (path_div r ''trust''))) (\<lambda>trust_ok.
             if \<not> index_ok \<or> \<not> trust_ok then s_return (failure ''publication digest mismatch'')
             else success ''verified publication'' (json_set ''verified'' (JBool True) publication)))))
            (\<lambda>e. s_return (failure (pe_what env e))))))"

section \<open>Distributions\<close>

definition HandleListDistributions :: "'d host postgres option \<Rightarrow> plane_env \<Rightarrow> PlatformConfig \<Rightarrow> 'd host handler" where
  "HandleListDistributions pg env config =
     s_bind (either_store pg (\<lambda>p. from_pg (pg_ListRegistryDistributions p)) (reading ListRegistryDistributions)) (\<lambda>distributions.
     s_bind (if \<not> json_empty distributions then s_return distributions
             else
               s_bind (from_tree (CurrentDistributionPointer (pe_json env) (pe_root config) ''default'')) (\<lambda>current.
               s_bind (s_lift (pointer_value current ''publication_id'')) (\<lambda>publication_id.
               s_bind (s_lift (pointer_value current ''previous_publication_id'')) (\<lambda>previous.
               s_bind (s_lift (pointer_value current ''updated_at'')) (\<lambda>updated_at.
               s_return (JArray [json_obj [
                 (''distribution_id'', JString ''default''), (''repository_id'', JString ''default''), (''name'', JString ''default''),
                 (''base_url'', JString (RegistryReadRootUrl (pe_file_url env) config)), (''current_publication_id'', JString publication_id),
                 (''previous_publication_id'', JString previous), (''updated_at'', JString updated_at)]])))))) (\<lambda>distributions.
     success ''loaded distributions'' (json_obj [(''distributions'', distributions)])))"

definition distribution_target :: "string \<Rightarrow> string \<Rightarrow> json" where
  "distribution_target distribution_id publication_id =
     json_obj [(''distribution_id'', JString distribution_id), (''publication_id'', JString publication_id)]"

definition record_distribution ::
  "'d host postgres option \<Rightarrow> plane_env \<Rightarrow> PlatformConfig \<Rightarrow> json \<Rightarrow> string \<Rightarrow> string \<Rightarrow> string \<Rightarrow> ('d host, unit) act" where
  "record_distribution pg env config publication distribution_id publication_id previous =
     s_bind (s_lift (json_value get_string publication ''repository_id'' ''default'')) (\<lambda>repository_id.
     let record = \<lparr>ds_distribution_id = distribution_id, ds_repository_id = repository_id, ds_name = distribution_id,
                   ds_base_url = RegistryReadRootUrl (pe_file_url env) config, ds_current_publication_id = publication_id,
                   ds_previous_publication_id = previous, ds_updated_at = te_now (pe_trust env)\<rparr> in
     s_bind (in_postgres pg (\<lambda>p. pg_UpsertRegistryDistribution p record)) (\<lambda>_. in_memory (UpsertRegistryDistribution record)))"

definition materialize_default :: "PlatformConfig \<Rightarrow> string \<Rightarrow> string \<Rightarrow> (tree, unit) sm" where
  "materialize_default config distribution_id publication_id =
     (if distribution_id = ''default'' then MaterializePublicationToRoot (pe_root config) (publication_root (pe_root config) publication_id)
      else s_return ())"

definition promote_to :: "'d host postgres option \<Rightarrow> plane_env \<Rightarrow> PlatformConfig \<Rightarrow> HttpRequest \<Rightarrow> string \<Rightarrow> string \<Rightarrow> 'd host handler" where
  "promote_to pg env config request distribution_id publication_id =
     (let registry_root = pe_root config in
      s_bind (from_tree (read_json env (publication_file config publication_id))) (\<lambda>publication.
      s_bind (from_tree (CurrentDistributionPointer (pe_json env) registry_root distribution_id)) (\<lambda>previous.
      s_bind (on_tree (materialize_default config distribution_id publication_id)) (\<lambda>_.
      s_bind (s_lift (pointer_value previous ''publication_id'')) (\<lambda>previous_publication_id.
      s_bind (s_lift (json_string_at publication ''repository_version_id'')) (\<lambda>repository_version_id.
      let current = pointer_document distribution_id publication_id repository_version_id (te_now (pe_trust env)) previous_publication_id in
      s_bind (on_tree (write_json (pe_json env) (pointer_path registry_root distribution_id) current)) (\<lambda>_.
      s_bind (record_distribution pg env config publication distribution_id publication_id previous_publication_id) (\<lambda>_.
      s_bind (RecordRegistryAudit pg (reg_of env) request ''promoteDistribution'' (distribution_target distribution_id publication_id) ''success'') (\<lambda>_.
      success ''promoted distribution'' current)))))))))"

definition HandlePromoteDistribution :: "'d host postgres option \<Rightarrow> plane_env \<Rightarrow> PlatformConfig \<Rightarrow> RouteMatch \<Rightarrow> HttpRequest \<Rightarrow> 'd host handler" where
  "HandlePromoteDistribution pg env config rm request =
     using_result (param_at rm ''distribution_id'') (\<lambda>distribution_id.
     let body = rq_body request; audit = audited_failure pg (reg_of env) request ''promoteDistribution'' in
     if \<not> is_object body \<or> \<not> HasNonEmptyString body ''publication_id''
     then s_return (FailureResponse 400 ''distribution promotion rejected'' ''publication_id is required'' ''ValidationError'' ''promoteDistribution'' 2)
     else
       s_bind (RegistryWriteAuthorized pg (reg_of env) request ''repository:promote'' []) (\<lambda>authorized.
       if \<not> authorized
       then audit (json_obj [(''distribution_id'', JString distribution_id)]) ''denied''
              (FailureResponse 403 ''distribution promotion denied'' ''token or identity lacks repository:promote'' ''AuthError'' ''promoteDistribution'' 2)
       else
         s_bind (s_lift (json_string_at body ''publication_id'')) (\<lambda>publication_id.
         s_bind (on_tree (s_reads (\<lambda>t. tree_exists t (publication_file config publication_id)))) (\<lambda>present.
         if \<not> present
         then audit (distribution_target distribution_id publication_id) ''not_found''
                (FailureResponse 404 ''distribution promotion failed'' ''publication is not found'' ''NotFound'' ''promoteDistribution'' 17)
         else
           s_try (promote_to pg env config request distribution_id publication_id)
             (\<lambda>e. audit (distribution_target distribution_id publication_id) ''failed''
                    (FailureResponse 422 ''distribution promotion failed'' (pe_what env e) ''PublishError'' ''promoteDistribution'' 17))))))"

definition rollback_to :: "'d host postgres option \<Rightarrow> plane_env \<Rightarrow> PlatformConfig \<Rightarrow> HttpRequest \<Rightarrow> string \<Rightarrow> json \<Rightarrow> string \<Rightarrow> 'd host handler" where
  "rollback_to pg env config request distribution_id current_pointer publication_id =
     (let registry_root = pe_root config; now = te_now (pe_trust env) in
      s_bind (from_tree (read_json env (publication_file config publication_id))) (\<lambda>publication.
      s_bind (on_tree (materialize_default config distribution_id publication_id)) (\<lambda>_.
      s_bind (s_lift (json_string_at publication ''repository_version_id'')) (\<lambda>repository_version_id.
      s_bind (s_lift (json_value get_string current_pointer ''publication_id'' [])) (\<lambda>replaced.
      let next_pointer = json_obj [
            (''distribution_id'', JString distribution_id), (''publication_id'', JString publication_id),
            (''repository_version_id'', JString repository_version_id), (''previous_publication_id'', JString replaced), (''updated_at'', JString now)] in
      s_bind (on_tree (write_json (pe_json env) (pointer_path registry_root distribution_id) next_pointer)) (\<lambda>_.
      s_bind (record_distribution pg env config publication distribution_id publication_id replaced) (\<lambda>_.
      s_bind (RecordRegistryAudit pg (reg_of env) request ''rollbackDistribution'' (distribution_target distribution_id publication_id) ''success'') (\<lambda>_.
      success ''rolled back distribution'' next_pointer))))))))"

definition HandleRollbackDistribution :: "'d host postgres option \<Rightarrow> plane_env \<Rightarrow> PlatformConfig \<Rightarrow> RouteMatch \<Rightarrow> HttpRequest \<Rightarrow> 'd host handler" where
  "HandleRollbackDistribution pg env config rm request =
     using_result (param_at rm ''distribution_id'') (\<lambda>distribution_id.
     let only = json_obj [(''distribution_id'', JString distribution_id)]; audit = audited_failure pg (reg_of env) request ''rollbackDistribution'' in
     s_bind (RegistryWriteAuthorized pg (reg_of env) request ''repository:promote'' []) (\<lambda>authorized.
     if \<not> authorized
     then audit only ''denied''
            (FailureResponse 403 ''distribution rollback denied'' ''token or identity lacks repository:promote'' ''AuthError'' ''rollbackDistribution'' 2)
     else
       s_bind (from_tree (CurrentDistributionPointer (pe_json env) (pe_root config) distribution_id)) (\<lambda>current_pointer.
       s_bind (s_lift (pointer_value current_pointer ''previous_publication_id'')) (\<lambda>publication_id.
       case current_pointer of
         None \<Rightarrow> audit only ''no_previous_publication''
            (FailureResponse 409 ''distribution rollback failed'' ''previous publication is not available'' ''StateError'' ''rollbackDistribution'' 17)
       | Some pointer \<Rightarrow>
           if publication_id = []
           then audit only ''no_previous_publication''
             (FailureResponse 409 ''distribution rollback failed'' ''previous publication is not available'' ''StateError'' ''rollbackDistribution'' 17)
           else
             s_bind (on_tree (s_reads (\<lambda>t. tree_exists t (publication_file config publication_id)))) (\<lambda>present.
             if \<not> present
             then audit (distribution_target distribution_id publication_id) ''not_found''
                    (FailureResponse 404 ''distribution rollback failed'' ''previous publication is not found'' ''NotFound'' ''rollbackDistribution'' 17)
             else
               s_try (rollback_to pg env config request distribution_id pointer publication_id)
                 (\<lambda>e. audit only ''failed''
                        (FailureResponse 422 ''distribution rollback failed'' (pe_what env e) ''PublishError'' ''rollbackDistribution'' 17)))))))"

section \<open>Release channels\<close>

definition BuildReleaseRolloutPlan :: "string \<Rightarrow> string \<Rightarrow> int \<Rightarrow> string \<Rightarrow> string \<Rightarrow> json result" where
  "BuildReleaseRolloutPlan channel publication_id percentage ring updated_at =
     (if channel = [] then Inl (RuntimeError ''channel is required'')
      else if publication_id = [] then Inl (RuntimeError ''publication_id is required'')
      else if percentage < 0 \<or> 100 < percentage then Inl (RuntimeError ''percentage must be between 0 and 100'')
      else Inr (json_obj [
        (''channel'', JString channel), (''publication_id'', JString publication_id), (''percentage'', JInt percentage),
        (''ring'', JString (if ring = [] then ''default'' else ring)), (''updated_at'', JString updated_at)]))"

definition channels_root :: "fs_path \<Rightarrow> fs_path" where
  "channels_root registry_root = path_div registry_root ''_release_channels''"

definition WriteReleaseChannel :: "json_lib \<Rightarrow> fs_path \<Rightarrow> json \<Rightarrow> (tree, unit) sm" where
  "WriteReleaseChannel L registry_root plan =
     s_bind (s_lift (json_string_at plan ''channel'')) (\<lambda>channel.
     let p = path_div (channels_root registry_root) (channel @ ''.json'') in
     s_bind (mkdirs (channels_root registry_root)) (\<lambda>_.
     s_bind (s_change (put_file p [])) (\<lambda>_.
     s_bind (s_lift (JsonText L plan)) (\<lambda>text. s_change (put_file p text)))))"

definition ListReleaseChannels :: "json_lib \<Rightarrow> fs_path \<Rightarrow> tree \<Rightarrow> json result" where
  "ListReleaseChannels L registry_root t =
     (let root_path = channels_root registry_root in
      if \<not> tree_exists t root_path then Inr (JArray [])
      else rbind (rmap (\<lambda>p. json_parse L (case tree_text t p of None \<Rightarrow> [] | Some text \<Rightarrow> text))
             (map fst (filter (\<lambda>e. is_regular (Some (snd e)) \<and> path_extension (fst e) = ''.json'') (children t root_path))))
           (\<lambda>channels. Inr (JArray channels)))"

definition HandleListReleaseChannels :: "plane_env \<Rightarrow> PlatformConfig \<Rightarrow> 'd host handler" where
  "HandleListReleaseChannels env config =
     s_bind (from_tree (ListReleaseChannels (pe_json env) (pe_root config))) (\<lambda>channels.
     success ''loaded release channels'' (json_obj [(''channels'', channels)]))"

definition HandleRolloutReleaseChannel :: "'d host postgres option \<Rightarrow> plane_env \<Rightarrow> PlatformConfig \<Rightarrow> RouteMatch \<Rightarrow> HttpRequest \<Rightarrow> 'd host handler" where
  "HandleRolloutReleaseChannel pg env config rm request =
     (let body = rq_body request in
      if \<not> is_object body
      then s_return (FailureResponse 400 ''release rollout rejected'' ''request body must be an object'' ''ValidationError'' ''rolloutReleaseChannel'' 2)
      else
        using_result (param_at rm ''channel'') (\<lambda>channel.
        using_result (json_value get_string body ''publication_id'' []) (\<lambda>publication_id.
        let target = json_obj [(''channel'', JString channel), (''publication_id'', JString publication_id)] in
        s_bind (on_tree (s_reads (\<lambda>t. tree_exists t (publication_file config publication_id)))) (\<lambda>present.
        if publication_id = [] \<or> \<not> present
        then s_return (FailureResponse 404 ''release rollout failed'' ''publication is not found'' ''NotFound'' ''rolloutReleaseChannel'' 17)
        else
          s_try
            (s_bind (s_lift (json_value get_int body ''percentage'' 0)) (\<lambda>percentage.
             s_bind (s_lift (json_value get_string body ''ring'' ''default'')) (\<lambda>ring.
             s_bind (s_lift (BuildReleaseRolloutPlan channel publication_id percentage ring (te_now (pe_trust env)))) (\<lambda>plan.
             s_bind (on_tree (WriteReleaseChannel (pe_json env) (pe_root config) plan)) (\<lambda>_.
             s_bind (RecordRegistryAudit pg (reg_of env) request ''rolloutReleaseChannel'' target ''success'') (\<lambda>_.
             success ''updated release channel rollout'' plan))))))
            (\<lambda>e. audited_failure pg (reg_of env) request ''rolloutReleaseChannel'' target ''failed''
                   (FailureResponse 422 ''release rollout failed'' (pe_what env e) ''ReleaseManagementError'' ''rolloutReleaseChannel'' 17))))))"

section \<open>Status and descriptor\<close>

definition status_payload :: "PlatformConfig \<Rightarrow> bool \<Rightarrow> bool \<Rightarrow> bool \<Rightarrow> json" where
  "status_payload config with_provider config_present root_metadata_present =
     json_set_if with_provider ''object_store_provider'' (JString (os_provider (cfg_object_store config))) (json_obj [
       (''registry_root'', JString ''<redacted>''), (''key_dir'', JString ''<redacted>''),
       (''registry_name'', JString (rg_registry_name (cfg_registry config))),
       (''root_initialized'', JBool (config_present \<and> root_metadata_present)),
       (''config_present'', JBool config_present), (''root_metadata_present'', JBool root_metadata_present),
       (''publish_endpoint'', JString ''/api/spio-registry-control/v1/publish''),
       (''verify_endpoint'', JString ''/api/spio-registry-control/v1/verify''),
       (''descriptor_endpoint'', JString ''/api/spio-registry-control/v1/descriptor'')])"

definition HandleRegistryStatus :: "plane_env \<Rightarrow> PlatformConfig \<Rightarrow> 'd host handler" where
  "HandleRegistryStatus env config =
     (let registry_root = pe_root config; key_dir = rg_key_dir (cfg_registry config);
          failure = (\<lambda>detail. FailureResponse 503 ''registry status failed'' detail ''RegistryStatusError'' ''registryStatus'' 17);
          ready = success ''registry control plane is ready'' in
      if UsesS3ObjectStore config then
        s_try
          (s_bind (s_lift (ObjectExists (pe_s3 env) (cfg_object_store config) ''config.json'')) (\<lambda>config_present.
           s_bind (s_lift (ObjectExists (pe_s3 env) (cfg_object_store config) ''trust/root.json'')) (\<lambda>root_present.
           ready (status_payload config True config_present root_present))))
          (\<lambda>e. s_return (failure (pe_what env e)))
      else
        s_bind (on_tree (s_reads (\<lambda>t. t))) (\<lambda>t.
        if is_regular (smap_find t registry_root) then s_return (failure ''registry root is not a directory'')
        else if is_regular (smap_find t key_dir) then s_return (failure ''registry key directory is not a directory'')
        else ready (status_payload config False (tree_exists t (path_div registry_root ''config.json''))
                      (tree_exists t (trust_path registry_root ''root.json'')))))"

definition descriptor_payload :: "plane_env \<Rightarrow> PlatformConfig \<Rightarrow> string \<Rightarrow> string \<Rightarrow> string \<Rightarrow> json" where
  "descriptor_payload env config root_sha256 issued_at expires =
     json_obj [
       (''schema_version'', JInt 1), (''registry_name'', JString (rg_registry_name (cfg_registry config))),
       (''registry_root'', JString (RegistryReadRootUrl (pe_file_url env) config)),
       (''control_plane_base_url'', JString (RegistryControlPlaneBaseUrl config)), (''root_sha256'', JString root_sha256),
       (''issued_at'', JString issued_at), (''expires'', JString expires), (''descriptor_signature'', JString ''platform-control-plane-mtls'')]"

definition HandleRegistryDescriptor :: "plane_env \<Rightarrow> PlatformConfig \<Rightarrow> 'd host handler" where
  "HandleRegistryDescriptor env config =
     (let root_metadata = trust_path (pe_root config) ''root.json'';
          failure = (\<lambda>status detail. FailureResponse status ''registry descriptor failed'' detail ''RegistryDescriptorError'' ''registryDescriptor'' 17);
          missing = s_return (failure 422 ''registry root metadata is not initialized'');
          published = success ''published registry trust descriptor'' in
      if UsesS3ObjectStore config then
        s_try
          (s_bind (s_lift (GetObjectText (pe_s3 env) (cfg_object_store config) ''trust/root.json'')) (\<lambda>metadata.
           case metadata of
             None \<Rightarrow> missing
           | Some text \<Rightarrow> published (descriptor_payload env config (Sha256Bytes (te_sha256 (pe_trust env)) text) (te_now (pe_trust env)) (te_plus_days (pe_trust env) 31))))
          (\<lambda>e. s_return (failure 503 (pe_what env e)))
      else
        s_bind (on_tree (s_reads (\<lambda>t. tree_exists t root_metadata))) (\<lambda>present.
        if \<not> present then missing
        else s_bind (from_tree (\<lambda>t. sha256_file (smap_find t) root_metadata)) (\<lambda>sha.
             published (descriptor_payload env config sha ''2026-05-02T00:00:00Z'' ''2026-06-02T00:00:00Z''))))"

section \<open>Mirrors\<close>

definition CountLogLeaves :: "fs_path \<Rightarrow> tree \<Rightarrow> nat" where
  "CountLogLeaves root_path t = CountRegularFiles (path_div (path_div root_path ''log'') ''leaves'') t"

definition CopyIfPresent :: "fs_path \<Rightarrow> fs_path \<Rightarrow> string \<Rightarrow> (tree, unit) sm" where
  "CopyIfPresent source_root target_root relative =
     s_bind (s_reads (\<lambda>t. tree_exists t (path_div source_root relative))) (\<lambda>present.
     if \<not> present then s_return ()
     else s_bind (s_try (mkdirs (path_parent (path_div target_root relative))) (\<lambda>_. s_return ())) (\<lambda>_.
          copy_tree (RuntimeError (''mirror copy failed for '' @ relative @ '': '')) (path_div source_root relative) (path_div target_root relative)))"

definition VerifyPublicationSnapshot :: "plane_env \<Rightarrow> fs_path \<Rightarrow> json \<Rightarrow> tree \<Rightarrow> unit result" where
  "VerifyPublicationSnapshot env r publication t =
     rbind (guard_err (\<not> (tree_exists t (path_div r ''config.json'') \<and> tree_exists t (path_div (path_div r ''trust'') ''root.json'')
              \<and> tree_exists t (path_div r ''publication.json''))) (RuntimeError ''publication snapshot is incomplete'')) (\<lambda>_.
     rbind (json_value get_bool publication ''verified'' False) (\<lambda>verified.
     rbind (guard_err (\<not> verified) (RuntimeError ''origin publication is not verified'')) (\<lambda>_.
     rbind (json_value get_int publication ''artifact_count'' 0) (\<lambda>count.
     rbind (guard_err (count \<noteq> to_int32 (int (CountRegularFiles (path_div r ''artifacts'') t))) (RuntimeError ''publication artifact count mismatch'')) (\<lambda>_.
     rbind (digest_matches env publication ''index_digest'' (path_div r ''index'') t) (\<lambda>index_ok.
     rbind (guard_err (\<not> index_ok) (RuntimeError ''publication index digest mismatch'')) (\<lambda>_.
     rbind (digest_matches env publication ''trust_digest'' (path_div r ''trust'') t) (\<lambda>trust_ok.
     rbind (guard_err (\<not> trust_ok) (RuntimeError ''publication trust digest mismatch'')) (\<lambda>_.
     rbind (json_value get_int publication ''tree_size'' 0) (\<lambda>tree_size.
     guard_err (tree_size \<noteq> to_int32 (int (CountLogLeaves r t))) (RuntimeError ''publication tree size mismatch'')))))))))))"

definition MaterializePublication :: "fs_path \<Rightarrow> fs_path \<Rightarrow> (tree, unit) sm" where
  "MaterializePublication r target_root =
     s_bind (s_change (\<lambda>t. foldl (\<lambda>t entry. remove_all (path_div target_root entry) t)
        (remove_path (path_div target_root ''config.json'') t) [''trust'', ''artifacts'', ''index'', ''log''])) (\<lambda>_.
     s_each (CopyIfPresent r target_root) [''config.json'', ''trust'', ''artifacts'', ''index'', ''log''])"

definition mirror_publication :: "plane_env \<Rightarrow> PlatformConfig \<Rightarrow> string \<Rightarrow> json \<Rightarrow> (tree, unit) sm" where
  "mirror_publication env config publication_id publication =
     (let target_root = pe_root config; origin = publication_root (rg_mirror_source_root (cfg_registry config)) publication_id;
          temp = path_div (path_div (path_div target_root ''_tmp'') ''mirror'') publication_id;
          final = publication_root target_root publication_id in
      s_bind (mkdirs target_root) (\<lambda>_.
      s_bind (s_change (remove_all temp)) (\<lambda>_.
      s_bind (mkdirs (path_parent temp)) (\<lambda>_.
      s_bind (copy_tree (RuntimeError ''mirror publication copy failed: '') origin temp) (\<lambda>_.
      s_bind (s_reads (VerifyPublicationSnapshot env temp publication)) (\<lambda>verified.
      s_bind (s_lift verified) (\<lambda>_.
      s_bind (mkdirs (path_parent final)) (\<lambda>_.
      s_bind (s_change (remove_all final)) (\<lambda>_.
      s_bind (rename_tree (RuntimeError ''mirror publication activation failed: '') temp final) (\<lambda>_.
      MaterializePublication final target_root))))))))))"

definition mirror_sync :: "plane_env \<Rightarrow> (MirrorCursorRecord \<Rightarrow> unit result) \<Rightarrow> PlatformConfig \<Rightarrow> (tree, unit) sm" where
  "mirror_sync env record_mirror config =
     (let r = cfg_registry config; source_root = rg_mirror_source_root r; target_root = pe_root config;
          origin_pointer = pointer_path source_root ''default'' in
      s_bind (s_guard (source_root = []) (RuntimeError ''STYIO_PLATFORM_REGISTRY_MIRROR_SOURCE_ROOT is required'')) (\<lambda>_.
      s_bind (s_reads (\<lambda>t. smap_find t source_root = Some Directory)) (\<lambda>directory.
      s_bind (s_guard (\<not> directory) (RuntimeError ''mirror source root does not exist or is not a directory'')) (\<lambda>_.
      s_bind (s_reads (\<lambda>t. tree_exists t origin_pointer)) (\<lambda>present.
      s_bind (s_guard (\<not> present) (RuntimeError ''origin distribution current pointer is missing'')) (\<lambda>_.
      s_bind (s_bind (s_reads (read_json env origin_pointer)) s_lift) (\<lambda>current.
      s_bind (s_lift (json_string_at current ''publication_id'')) (\<lambda>publication_id.
      let origin_publication = path_div (publication_root source_root publication_id) ''publication.json'' in
      s_bind (s_reads (\<lambda>t. tree_exists t origin_publication)) (\<lambda>present.
      s_bind (s_guard (\<not> present) (RuntimeError ''origin publication manifest is missing'')) (\<lambda>_.
      s_bind (s_bind (s_reads (read_json env origin_publication)) s_lift) (\<lambda>publication.
      s_bind (mirror_publication env config publication_id publication) (\<lambda>_.
      s_bind (write_json (pe_json env) (pointer_path target_root ''default'') current) (\<lambda>_.
      s_bind (s_reads (CountLogLeaves (publication_root target_root publication_id))) (\<lambda>tree_size.
      if cfg_state_backend config \<noteq> ''postgres'' then s_return ()
      else
        s_bind (s_lift (json_value get_string publication ''repository_version_id'' [])) (\<lambda>repository_version_id.
        s_bind (s_lift (json_value get_string current ''updated_at'' [])) (\<lambda>synced_at.
        s_lift (record_mirror \<lparr>mi_mirror_id = rg_mirror_id r, mi_region = cfg_region config, mi_origin = rg_mirror_origin r,
          mi_freshness = ''fresh'', mi_replay_cursor = ''checkpoint-'' @ PaddedNumber (of_nat tree_size) 4,
          mi_publication_id = publication_id, mi_repository_version_id = repository_version_id,
          mi_synced_at = synced_at, mi_tree_size = to_int32 (int tree_size)\<rparr>)))))))))))))))))"

definition RunMirrorSyncOnce :: "plane_env \<Rightarrow> (MirrorCursorRecord \<Rightarrow> unit result) \<Rightarrow> PlatformConfig \<Rightarrow> tree \<Rightarrow> int \<times> tree" where
  "RunMirrorSyncOnce env record_mirror config t =
     (case mirror_sync env record_mirror config t of (Inr _, u) \<Rightarrow> (0, u) | (Inl e, u) \<Rightarrow> (1, u))"

end
