(* ===== verification/Recovery.thy ===== *)
theory Recovery
  imports Registry_Repositories
begin

text \<open>
  Snapshots of the registry tree (\<^verbatim>\<open>PlatformRecovery/RecoveryManager.cpp\<close>) and the handlers of \<^verbatim>\<open>OpsRoutes.cpp\<close> that
  use them. A copy reads the entries that exist when it starts. \<open>json_norm\<close> makes the library's comparison of
  JSON values, in which a whole floating-point number equals the integer, an equality.
\<close>

fun json_norm :: "json \<Rightarrow> json" where
  "json_norm (JFloat q) = (if of_int \<lfloor>q\<rfloor> = q then JInt \<lfloor>q\<rfloor> else JFloat q)"
| "json_norm (JArray xs) = JArray (map json_norm xs)"
| "json_norm (JObject m) = JObject (map (\<lambda>(k, v). (k, json_norm v)) m)"
| "json_norm j = j"

definition WriteJsonFile :: "json_lib \<Rightarrow> fs_path \<Rightarrow> json \<Rightarrow> (tree, unit) sm" where
  "WriteJsonFile L p payload =
     s_bind (mkdirs (path_parent p)) (\<lambda>_.
     s_bind (s_change (put_file p [])) (\<lambda>_.
     s_bind (s_lift (JsonText L payload)) (\<lambda>text. s_change (put_file p text))))"

definition ReadJsonFile :: "json_lib \<Rightarrow> fs_path \<Rightarrow> tree \<Rightarrow> json result" where
  "ReadJsonFile L p t =
     (case smap_find t p of
        None \<Rightarrow> Inl (RuntimeError (''failed to read snapshot manifest: '' @ p))
      | Some Directory \<Rightarrow> json_parse L []
      | Some (Regular text) \<Rightarrow> json_parse L text)"

definition manifest_entry :: "fs_path \<Rightarrow> tree \<Rightarrow> fs_path \<Rightarrow> json result" where
  "manifest_entry root_path t p =
     rbind (sha256_file (smap_find t) p) (\<lambda>sha.
     rbind (file_size p t) (\<lambda>bytes.
       Inr (json_obj [(''path'', JString (relative_to root_path p)), (''sha256'', JString sha), (''size_bytes'', JInt (int bytes))])))"

definition FileManifest :: "fs_path \<Rightarrow> tree \<Rightarrow> json list result" where
  "FileManifest root_path t =
     (if tree_exists t root_path then rmap (manifest_entry root_path t) (sort_key path_elements (files_below t root_path)) else Inr [])"

definition CopyTree :: "fs_path \<Rightarrow> fs_path \<Rightarrow> (tree, unit) sm" where
  "CopyTree source dest =
     (let err = RuntimeError ''failed to copy snapshot tree: '' in
      s_bind (mkdirs dest) (\<lambda>_.
      s_bind (s_reads (\<lambda>t. smap_find t source)) (\<lambda>found.
      case found of
        None \<Rightarrow> s_return ()
      | Some (Regular text) \<Rightarrow> copy_file err source (path_div dest (path_filename source))
      | Some Directory \<Rightarrow> copy_tree err source dest)))"

record RecoverySnapshotRequest =
  rs_source_root :: fs_path
  rs_snapshots_root :: fs_path
  rs_snapshot_id :: string
  rs_label :: string
  rs_created_at :: string

definition snapshot_manifest :: "RecoverySnapshotRequest \<Rightarrow> json list \<Rightarrow> json" where
  "snapshot_manifest request files =
     json_obj [
       (''snapshot_id'', JString (rs_snapshot_id request)), (''label'', JString (rs_label request)),
       (''created_at'', JString (rs_created_at request)), (''source_root'', JString (rs_source_root request)),
       (''file_count'', JInt (int (length files))), (''files'', JArray files)]"

definition CreateFilesystemSnapshot :: "json_lib \<Rightarrow> RecoverySnapshotRequest \<Rightarrow> (tree, json) sm" where
  "CreateFilesystemSnapshot L request =
     (let snapshot_id = rs_snapshot_id request;
          snapshot_root = path_div (rs_snapshots_root request) snapshot_id;
          data_root = path_div snapshot_root ''data'';
          temp_root = path_div (path_div (rs_snapshots_root request) ''_tmp'') snapshot_id in
      s_bind (s_guard (snapshot_id = []) (RuntimeError ''snapshot_id is required'')) (\<lambda>_.
      s_bind (s_reads (\<lambda>t. tree_exists t snapshot_root)) (\<lambda>present.
      s_bind (s_guard present (RuntimeError (''snapshot already exists: '' @ snapshot_id))) (\<lambda>_.
      s_bind (mkdirs (path_parent snapshot_root)) (\<lambda>_.
      s_bind (s_change (remove_all temp_root)) (\<lambda>_.
      s_bind (CopyTree (rs_source_root request) (path_div temp_root ''data'')) (\<lambda>_.
      s_bind (s_reads (FileManifest (path_div temp_root ''data''))) (\<lambda>files.
      s_bind (s_lift files) (\<lambda>files.
      let manifest = snapshot_manifest request files in
      s_bind (WriteJsonFile L (path_div temp_root ''snapshot.json'') manifest) (\<lambda>_.
      s_bind (rename_tree (RuntimeError ''failed to activate snapshot: '') temp_root snapshot_root) (\<lambda>_.
      s_return (json_set ''data_path'' (JString data_root) (json_set ''root_path'' (JString snapshot_root) manifest)))))))))))))"

definition RestoreFilesystemSnapshot :: "json_lib \<Rightarrow> fs_path \<Rightarrow> string \<Rightarrow> fs_path \<Rightarrow> string \<Rightarrow> (tree, json) sm" where
  "RestoreFilesystemSnapshot L snapshots_root snapshot_id target_root restored_at =
     (let snapshot_root = path_div snapshots_root snapshot_id;
          data_root = path_div snapshot_root ''data'' in
      s_bind (s_guard (snapshot_id = []) (RuntimeError ''snapshot_id is required'')) (\<lambda>_.
      s_bind (s_reads (\<lambda>t. tree_exists t (path_div snapshot_root ''snapshot.json'') \<and> tree_exists t data_root)) (\<lambda>present.
      s_bind (s_guard (\<not> present) (RuntimeError (''snapshot is not found: '' @ snapshot_id))) (\<lambda>_.
      s_bind (s_reads (ReadJsonFile L (path_div snapshot_root ''snapshot.json''))) (\<lambda>manifest.
      s_bind (s_lift manifest) (\<lambda>manifest.
      s_bind (s_lift (json_value Inr manifest ''files'' (JArray []))) (\<lambda>expected_files.
      s_bind (s_reads (FileManifest data_root)) (\<lambda>actual.
      s_bind (s_lift actual) (\<lambda>actual_files.
      s_bind (s_guard (json_norm expected_files \<noteq> json_norm (JArray actual_files)) (RuntimeError ''snapshot verification failed before restore'')) (\<lambda>_.
      s_bind (s_change (remove_all target_root)) (\<lambda>_.
      s_bind (CopyTree data_root target_root) (\<lambda>_.
      s_return (json_obj [
        (''snapshot_id'', JString snapshot_id), (''restored_at'', JString restored_at), (''target_root'', JString target_root),
        (''file_count'', JInt (int (length actual_files))), (''verified'', JBool True)])))))))))))))"

definition ListFilesystemSnapshots :: "json_lib \<Rightarrow> fs_path \<Rightarrow> tree \<Rightarrow> json list result" where
  "ListFilesystemSnapshots L snapshots_root t =
     (if \<not> tree_exists t snapshots_root then Inr []
      else rmap (\<lambda>p. ReadJsonFile L p t)
             (filter (tree_exists t)
               (map (\<lambda>e. path_div (fst e) ''snapshot.json'')
                 (filter (\<lambda>e. snd e = Directory \<and> path_filename (fst e) \<noteq> ''_tmp'') (children t snapshots_root)))))"

definition BuildStorageStatus :: "string \<Rightarrow> string \<Rightarrow> fs_path \<Rightarrow> fs_path \<Rightarrow> tree \<Rightarrow> json" where
  "BuildStorageStatus state_backend object_store_provider registry_root snapshots_root t =
     json_obj [
       (''state_backend'', JString state_backend), (''object_store_provider'', JString object_store_provider),
       (''registry_root_present'', JBool (tree_exists t registry_root)), (''snapshots_root_present'', JBool (tree_exists t snapshots_root)),
       (''registry_root'', JString ''<redacted>''), (''snapshots_root'', JString ''<redacted>'')]"

section \<open>Handlers\<close>

definition snapshots_root_of :: "PlatformConfig \<Rightarrow> fs_path" where
  "snapshots_root_of config = path_div (path_parent (pe_root config)) ''recovery-snapshots''"

definition snapshot_target :: "string \<Rightarrow> json" where
  "snapshot_target snapshot_id = json_obj [(''snapshot_id'', JString snapshot_id)]"

definition HandleCreateRecoverySnapshot :: "'d host postgres option \<Rightarrow> plane_env \<Rightarrow> PlatformConfig \<Rightarrow> HttpRequest \<Rightarrow> 'd host handler" where
  "HandleCreateRecoverySnapshot pg env config request =
     (let body = rq_body request; snapshots_root = snapshots_root_of config in
      if \<not> is_object body
      then s_return (FailureResponse 400 ''recovery snapshot rejected'' ''request body must be an object'' ''ValidationError'' ''createRecoverySnapshot'' 2)
      else
        s_bind (from_tree (ListFilesystemSnapshots (pe_json env) snapshots_root)) (\<lambda>snapshots.
        s_bind (s_lift (json_value get_string body ''snapshot_id'' (''snap-'' @ PaddedNumber (of_nat (length snapshots) + 1) 6))) (\<lambda>snapshot_id.
        s_try
          (s_bind (s_lift (json_value get_string body ''label'' ''manual'')) (\<lambda>label.
           s_bind (on_tree (CreateFilesystemSnapshot (pe_json env)
               \<lparr>rs_source_root = pe_root config, rs_snapshots_root = snapshots_root, rs_snapshot_id = snapshot_id, rs_label = label,
                rs_created_at = te_now (pe_trust env)\<rparr>)) (\<lambda>snapshot.
           s_bind (RecordRegistryAudit pg (reg_of env) request ''createRecoverySnapshot'' (snapshot_target snapshot_id) ''success'') (\<lambda>_.
           success ''created recovery snapshot'' snapshot))))
          (\<lambda>e. audited_failure pg (reg_of env) request ''createRecoverySnapshot'' (snapshot_target snapshot_id) ''failed''
                 (FailureResponse 422 ''recovery snapshot failed'' (pe_what env e) ''RecoveryError'' ''createRecoverySnapshot'' 17)))))"

definition HandleListRecoverySnapshots :: "plane_env \<Rightarrow> PlatformConfig \<Rightarrow> 'd host handler" where
  "HandleListRecoverySnapshots env config =
     s_bind (from_tree (ListFilesystemSnapshots (pe_json env) (snapshots_root_of config))) (\<lambda>snapshots.
     success ''loaded recovery snapshots'' (json_obj [(''snapshots'', JArray snapshots)]))"

definition HandleRestoreRecoverySnapshot :: "'d host postgres option \<Rightarrow> plane_env \<Rightarrow> PlatformConfig \<Rightarrow> RouteMatch \<Rightarrow> HttpRequest \<Rightarrow> 'd host handler" where
  "HandleRestoreRecoverySnapshot pg env config rm request =
     using_result (param_at rm ''snapshot_id'') (\<lambda>snapshot_id.
     s_try
       (s_bind (on_tree (RestoreFilesystemSnapshot (pe_json env) (snapshots_root_of config) snapshot_id (pe_root config) (te_now (pe_trust env)))) (\<lambda>restored.
        s_bind (RecordRegistryAudit pg (reg_of env) request ''restoreRecoverySnapshot'' (snapshot_target snapshot_id) ''success'') (\<lambda>_.
        success ''restored recovery snapshot'' restored)))
       (\<lambda>e. audited_failure pg (reg_of env) request ''restoreRecoverySnapshot'' (snapshot_target snapshot_id) ''failed''
              (FailureResponse 422 ''recovery restore failed'' (pe_what env e) ''RecoveryError'' ''restoreRecoverySnapshot'' 17)))"

definition HandleStorageStatus :: "PlatformConfig \<Rightarrow> 'd host handler" where
  "HandleStorageStatus config =
     s_bind (on_tree (s_reads (BuildStorageStatus (cfg_state_backend config) (os_provider (cfg_object_store config)) (pe_root config) (snapshots_root_of config))))
       (success ''loaded storage status'')"

end
