(* ===== verification/Subtrees.thy ===== *)
theory Subtrees
  imports Tree_Laws
begin

text \<open>
  What lies at and below a directory, as a map from path suffixes: copying and renaming move it
  unchanged, and digests and manifests of a directory depend on nothing else.
\<close>

section \<open>Suffixes\<close>

definition dir_path :: "fs_path \<Rightarrow> bool" where
  "dir_path p \<longleftrightarrow> p \<noteq> [] \<and> last p \<noteq> CHR ''/''"

definition is_suffix :: "string \<Rightarrow> bool" where
  "is_suffix x \<longleftrightarrow> x = [] \<or> (\<exists>y. y \<noteq> [] \<and> x = CHR ''/'' # y)"

lemma in_subtree_iff: "dir_path d \<Longrightarrow> (p = d \<or> below d p) \<longleftrightarrow> (\<exists>x. is_suffix x \<and> p = d @ x)"
  by (auto simp: dir_path_def below_def dir_prefix_path starts_with_iff is_suffix_def)

lemma subtree_suffix: "dir_path d \<Longrightarrow> (d @ x = d \<or> below d (d @ x)) \<longleftrightarrow> is_suffix x"
  using in_subtree_iff [of d "d @ x"] by auto

definition contents :: "fs_path \<Rightarrow> tree \<Rightarrow> tree" where
  "contents d t = copy_entries d [] t"

lemma copy_entries_contents: "copy_entries d e t = map (\<lambda>(x, n). (e @ x, n)) (contents d t)"
  by (simp add: contents_def copy_entries_def)

lemma contents_keys: "dir_path d \<Longrightarrow> (x, n) \<in> set (contents d t) \<Longrightarrow> is_suffix x \<and> (d @ x, n) \<in> set t"
  by (auto simp: contents_def copy_entries_def in_subtree_iff)

lemma append_less_iff: "(p @ a < p @ b) = (a < b)" for a b :: string
  by (induction p) auto

lemma contents_find: "dir_path d \<Longrightarrow> smap_find (contents d t) x = (if is_suffix x then smap_find t (d @ x) else None)"
proof (induction t)
  case (Cons e t)
  obtain p n where e: "e = (p, n)" by (cases e)
  show ?case
  proof (cases "\<exists>y. is_suffix y \<and> p = d @ y")
    case True
    then obtain y where y: "is_suffix y" "p = d @ y" by blast
    then have "contents d (e # t) = (y, n) # contents d t"
      using subtree_suffix [OF Cons.prems, of y] by (simp add: contents_def copy_entries_def e)
    with Cons y show ?thesis by (auto simp: e)
  next
    case False
    then have "contents d (e # t) = contents d t"
      using in_subtree_iff [OF Cons.prems, of p] by (simp add: contents_def copy_entries_def e)
    with Cons False show ?thesis by (auto simp: e)
  qed
qed (simp add: contents_def copy_entries_def)

lemma contents_wf: "dir_path d \<Longrightarrow> smap_wf t \<Longrightarrow> smap_wf (contents d t)"
proof (induction t)
  case (Cons e t)
  obtain p n where e: "e = (p, n)" by (cases e)
  from Cons have t: "smap_wf (contents d t)" and less: "\<And>k v. (k, v) \<in> set t \<Longrightarrow> p < k" by (auto simp: e smap_wf_simps)
  show ?case
  proof (cases "\<exists>y. is_suffix y \<and> p = d @ y")
    case True
    then obtain y where y: "is_suffix y" "p = d @ y" by blast
    then have "contents d (e # t) = (y, n) # contents d t"
      using subtree_suffix [OF Cons.prems(1), of y] by (simp add: contents_def copy_entries_def e)
    moreover have "y < k" if "(k, v) \<in> set (contents d t)" for k v
    proof -
      from contents_keys [OF Cons.prems(1) that] have "d @ y < d @ k" using less y(2) by blast
      then show ?thesis by (simp add: append_less_iff)
    qed
    ultimately show ?thesis using t by (auto simp: smap_wf_simps)
  next
    case False
    then have "contents d (e # t) = contents d t"
      using in_subtree_iff [OF Cons.prems(1), of p] by (simp add: contents_def copy_entries_def e)
    with t show ?thesis by simp
  qed
qed (simp add: contents_def copy_entries_def smap_wf_simps)

lemma contents_eqI:
  assumes "dir_path d" "dir_path e" "smap_wf t" "smap_wf u" "\<And>x. is_suffix x \<Longrightarrow> smap_find u (e @ x) = smap_find t (d @ x)"
  shows "contents e u = contents d t"
  using assms by (intro smap_ext contents_wf) (simp_all add: contents_find)

lemma contents_eqD: "contents e u = contents d t \<Longrightarrow> dir_path d \<Longrightarrow> dir_path e \<Longrightarrow> is_suffix x \<Longrightarrow> smap_find u (e @ x) = smap_find t (d @ x)"
  using contents_find by metis

section \<open>Well-formed trees\<close>

text \<open>Every operation keeps the tree a map in ascending order of its paths.\<close>

definition stays_map :: "tree \<Rightarrow> tree \<Rightarrow> bool" where
  "stays_map t u \<longleftrightarrow> smap_wf t \<longrightarrow> smap_wf u"

interpretation wf: frame stays_map
  by unfold_locales (auto simp: stays_map_def)

lemma smap_wf_filter: "smap_wf t \<Longrightarrow> smap_wf (filter P t)"
  by (auto simp: smap_wf_def sorted_wrt_map sorted_wrt_filter)

lemma foldl_put_wf: "smap_wf t \<Longrightarrow> smap_wf (foldl (\<lambda>t e. smap_put (fst e) (snd e) t) t es)"
  by (induction es arbitrary: t) auto

lemma mkdirs_fold_wf: "smap_wf t \<Longrightarrow> smap_wf (foldl (\<lambda>t a. if smap_contains t a then t else smap_put a Directory t) t ds)"
  by (induction ds arbitrary: t) auto

lemma wf_tree_ops:
  "framed stays_map (mkdirs d)" "stays_map t (put_file p x t)" "stays_map t (remove_all d t)" "stays_map t (remove_path p t)"
  "framed stays_map (copy_tree err s d)" "framed stays_map (copy_file err s d)" "framed stays_map (rename_tree err s d)"
  by (auto simp: framed_def stays_map_def mkdirs_def put_file_def remove_all_def remove_path_def copy_tree_def copy_file_def rename_tree_def
      mkdirs_fold_wf foldl_put_wf smap_wf_filter simp del: foldl_append split: option.splits)

lemma wf_write:
  "framed stays_map (WriteTextFile p x)" "framed stays_map (write_json L p j)"
  unfolding WriteTextFile_def write_json_def by (intro wf.framed_intros wf_tree_ops)+

lemma wf_after: "framed stays_map m \<Longrightarrow> m t = (r, u) \<Longrightarrow> smap_wf t \<Longrightarrow> smap_wf u"
  unfolding framed_def stays_map_def by (metis snd_conv)

section \<open>Moving subtrees\<close>

lemma map_of_rev_distinct: "distinct (map fst es) \<Longrightarrow> map_of (rev es) = map_of es"
  by (metis distinct_rev map_of_inject_set rev_map set_rev)

lemma map_of_smap: "map_of es k = smap_find es k"
  by (induction es) auto

lemma smap_find_shift: "smap_find (map (\<lambda>(x, n). (d @ x, n)) es) (d @ y) = smap_find es y"
  by (induction es) auto

lemma foldl_shift_find:
  assumes "smap_wf es"
  shows "smap_find (foldl (\<lambda>t e. smap_put (fst e) (snd e) t) t (map (\<lambda>(x, n). (d @ x, n)) es)) (d @ y) =
    (case smap_find es y of None \<Rightarrow> smap_find t (d @ y) | Some n \<Rightarrow> Some n)"
proof -
  have "distinct (map fst es)" using assms smap.entries_distinct by blast
  then have "distinct (map fst (map (\<lambda>(x, n). (d @ x, n)) es))"
    by (simp add: distinct_map comp_def inj_on_def case_prod_beta)
  then show ?thesis by (simp add: foldl_put_find map_of_rev_distinct map_of_smap smap_find_shift)
qed

lemma foldl_shift_other:
  "(\<And>x n. (x, n) \<in> set es \<Longrightarrow> p \<noteq> d @ x) \<Longrightarrow>
   smap_find (foldl (\<lambda>t e. smap_put (fst e) (snd e) t) t (map (\<lambda>(x, n). (d @ x, n)) es)) p = smap_find t p"
  by (rule foldl_put_other) fastforce

lemma copy_tree_find:
  assumes "copy_tree err s d t = (Inr u, v)" "dir_path s" "smap_wf t"
  shows "is_suffix x \<Longrightarrow> smap_find v (d @ x) = (case smap_find t (s @ x) of None \<Rightarrow> smap_find t (d @ x) | Some n \<Rightarrow> Some n)"
    "(\<And>x. is_suffix x \<Longrightarrow> p \<noteq> d @ x) \<Longrightarrow> smap_find v p = smap_find t p"
proof -
  from assms(1) have v: "v = foldl (\<lambda>t e. smap_put (fst e) (snd e) t) t (map (\<lambda>(x, n). (d @ x, n)) (contents s t))"
    by (auto simp: copy_tree_def copy_entries_contents split: if_splits)
  show "is_suffix x \<Longrightarrow> smap_find v (d @ x) = (case smap_find t (s @ x) of None \<Rightarrow> smap_find t (d @ x) | Some n \<Rightarrow> Some n)"
    unfolding v foldl_shift_find [OF contents_wf [OF assms(2,3)]] by (simp add: contents_find [OF assms(2)])
  show "smap_find v p = smap_find t p" if "\<And>x. is_suffix x \<Longrightarrow> p \<noteq> d @ x"
    unfolding v using that contents_keys [OF assms(2)] by (intro foldl_shift_other) blast
qed

lemma rename_tree_find:
  assumes "rename_tree err s d t = (Inr u, v)" "dir_path s" "dir_path d" "smap_wf t" "s \<noteq> d"
  shows "is_suffix x \<Longrightarrow> smap_find v (d @ x) = smap_find t (s @ x)"
    "(\<And>x. is_suffix x \<Longrightarrow> p \<noteq> d @ x) \<Longrightarrow> (\<And>x. is_suffix x \<Longrightarrow> p \<noteq> s @ x) \<Longrightarrow> smap_find v p = smap_find t p"
proof -
  from assms(1,5) have v: "v = foldl (\<lambda>t e. smap_put (fst e) (snd e) t) (remove_all s t) (map (\<lambda>(x, n). (d @ x, n)) (contents s t))"
    and free: "\<not> occupied t d"
    by (auto simp: rename_tree_def copy_entries_contents split: if_splits)
  have none: "smap_find t (d @ x) = None" if "is_suffix x" for x
  proof (cases "smap_find t (d @ x)")
    case (Some n)
    then have "(d @ x, n) \<in> set t" using smap_find_in [OF assms(4)] by blast
    with free subtree_suffix [OF assms(3), of x] that show ?thesis by (auto simp: occupied_def list_ex_iff)
  qed
  show "is_suffix x \<Longrightarrow> smap_find v (d @ x) = smap_find t (s @ x)"
    unfolding v foldl_shift_find [OF contents_wf [OF assms(2,4)]]
    by (simp add: contents_find [OF assms(2)] find_remove_all none split: option.split)
  show "smap_find v p = smap_find t p" if "\<And>x. is_suffix x \<Longrightarrow> p \<noteq> d @ x" "\<And>x. is_suffix x \<Longrightarrow> p \<noteq> s @ x"
  proof -
    have "p \<noteq> s \<and> \<not> below s p" using in_subtree_iff [OF assms(2), of p] that(2) by blast
    then have "smap_find (remove_all s t) p = smap_find t p" by (simp add: find_remove_all)
    moreover have "smap_find v p = smap_find (remove_all s t) p"
      unfolding v using that(1) contents_keys [OF assms(2)] by (intro foldl_shift_other) blast
    ultimately show ?thesis by simp
  qed
qed

section \<open>Listing a directory\<close>

lemma getlines_snoc: "a \<noteq> [] \<Longrightarrow> last a \<noteq> c \<Longrightarrow> getlines c (a @ [c]) = getlines c a"
proof (induction a)
  case (Cons x xs)
  then show ?case by (cases "xs = []") (auto split: list.splits)
qed simp

lemma path_names_below: "dir_path d \<Longrightarrow> path_names (d @ CHR ''/'' # y) = path_names d @ path_names y"
  unfolding path_names_def using getlines_delim_append [of "CHR ''/''" d y] by (simp add: dir_path_def getlines_snoc)

lemma dir_path_names: "dir_path d \<Longrightarrow> path_names d \<noteq> []"
  unfolding dir_path_def path_names_Nil_iff using last_in_set by blast

definition elements_rel :: "string \<Rightarrow> string list" where
  "elements_rel y = path_names y @ (if y = [] \<or> last y = CHR ''/'' then [[]] else [])"

lemma path_elements_below:
  assumes "dir_path d"
  shows "path_elements (d @ CHR ''/'' # y) = ((if path_absolute d then [''/''] else []) @ path_names d) @ elements_rel y"
proof -
  have "path_absolute (d @ CHR ''/'' # y) = path_absolute d" using assms by (cases d) (auto simp: dir_path_def)
  then show ?thesis using path_names_below [OF assms] dir_path_names [OF assms] by (simp add: path_elements_def elements_rel_def)
qed

lemma insort_key_map: "insort_key f (g x) (map g xs) = map g (insort_key (\<lambda>y. f (g y)) x xs)"
  by (induction xs) auto

lemma sort_key_map: "sort_key f (map g xs) = map g (sort_key (\<lambda>y. f (g y)) xs)"
  by (induction xs) (simp_all add: insort_key_map)

lemma list_le_append: "(p @ a \<le> p @ b) = (a \<le> b)" for a b :: "string list"
  by (induction p) auto

lemma insort_key_append: "insort_key (\<lambda>y. p @ f y) x xs = insort_key f x xs" for f :: "'a \<Rightarrow> string list"
  by (induction xs) (auto simp: list_le_append)

lemma sort_key_append: "sort_key (\<lambda>y. p @ f y) xs = sort_key f xs" for f :: "'a \<Rightarrow> string list"
  by (induction xs) (simp_all add: insort_key_append)

definition rel_files :: "tree \<Rightarrow> string list" where
  "rel_files c = map (\<lambda>e. tl (fst e)) (filter (\<lambda>e. fst e \<noteq> [] \<and> is_regular (Some (snd e))) c)"

lemma files_below_contents: "dir_path d \<Longrightarrow> files_below t d = map (\<lambda>y. d @ CHR ''/'' # y) (rel_files (contents d t))"
proof (induction t)
  case (Cons e t)
  obtain p n where e: "e = (p, n)" by (cases e)
  have d: "d \<noteq> []" "last d \<noteq> CHR ''/''" using Cons.prems by (auto simp: dir_path_def)
  have step: "files_below (e # t) d = (if below d p \<and> is_regular (Some n) then p # files_below t d else files_below t d)"
    by (simp add: files_below_def entries_below_def e)
  have rest: "contents d (e # t) = (if p = d \<or> below d p then (drop (length d) p, n) # contents d t else contents d t)"
    by (simp add: contents_def copy_entries_def e)
  show ?case
  proof (cases "below d p")
    case True
    then obtain y where "p = d @ CHR ''/'' # y" using d by (auto simp: below_def dir_prefix_path starts_with_iff)
    with True Cons show ?thesis by (simp add: step rest rel_files_def)
  next
    case False
    with Cons show ?thesis by (auto simp: step rest rel_files_def)
  qed
qed (simp add: files_below_def entries_below_def rel_files_def contents_def copy_entries_def)

lemma sorted_files_below:
  "dir_path d \<Longrightarrow> sort_key path_elements (files_below t d) = map (\<lambda>y. d @ CHR ''/'' # y) (sort_key elements_rel (rel_files (contents d t)))"
  unfolding files_below_contents sort_key_map path_elements_below sort_key_append by (rule refl)

lemma rel_files_text: "dir_path d \<Longrightarrow> smap_wf t \<Longrightarrow> y \<in> set (rel_files (contents d t)) \<Longrightarrow> \<exists>x. tree_text t (d @ CHR ''/'' # y) = Some x"
  by (auto simp: rel_files_def tree_text_def dest!: contents_keys simp: is_suffix_def smap_find_in elim!: is_regular.elims split: fs_node.splits)

lemma relative_to_below: "dir_path d \<Longrightarrow> relative_to d (d @ CHR ''/'' # y) = y"
  by (simp add: relative_to_def dir_path_def dir_prefix_path)

lemma rmap_map: "rmap f (map g xs) = rmap (\<lambda>x. f (g x)) xs"
  by (induction xs) auto

lemma rmap_cong: "(\<And>x. x \<in> set xs \<Longrightarrow> f x = g x) \<Longrightarrow> rmap f xs = rmap g xs"
  by (induction xs) auto

text \<open>Two directories with the same contents are listed alike, whatever is made of the files.\<close>

lemma listing_contents:
  assumes "contents e u = contents d t" "dir_path d" "dir_path e"
    and "\<And>y x. tree_text t (d @ CHR ''/'' # y) = Some x \<Longrightarrow> tree_text u (e @ CHR ''/'' # y) = Some x \<Longrightarrow>
           f e u (e @ CHR ''/'' # y) = f d t (d @ CHR ''/'' # y)"
    and "smap_wf t"
  shows "rmap (f e u) (sort_key path_elements (files_below u e)) = rmap (f d t) (sort_key path_elements (files_below t d))"
proof -
  have "f e u (e @ CHR ''/'' # y) = f d t (d @ CHR ''/'' # y)" if y: "y \<in> set (rel_files (contents d t))" for y
  proof -
    obtain x where x: "tree_text t (d @ CHR ''/'' # y) = Some x" using rel_files_text [OF assms(2,5) y] by blast
    from y obtain s n where "(s, n) \<in> set (contents d t)" "s \<noteq> []" "y = tl s" by (auto simp: rel_files_def)
    then have "is_suffix (CHR ''/'' # y)" using contents_keys [OF assms(2)] by (fastforce simp: is_suffix_def)
    then have "tree_text u (e @ CHR ''/'' # y) = tree_text t (d @ CHR ''/'' # y)"
      using contents_eqD [OF assms(1-3)] by (simp add: tree_text_def)
    with x assms(4) show ?thesis by simp
  qed
  then show ?thesis
    unfolding sorted_files_below [OF assms(2)] sorted_files_below [OF assms(3)] assms(1) rmap_map
    by (intro rmap_cong) simp
qed

lemma tree_exists_contents: "contents e u = contents d t \<Longrightarrow> dir_path d \<Longrightarrow> dir_path e \<Longrightarrow> tree_exists u e = tree_exists t d"
  using contents_eqD [of e u d t "[]"] by (simp add: tree_exists_def smap_contains_def is_suffix_def)

lemma sha256_file_moved:
  "tree_text t p = Some x \<Longrightarrow> tree_text u q = Some x \<Longrightarrow> sha256_file (smap_find u) q = sha256_file (smap_find t) p"
  using sha256_file_exists sha256_file_text tree_file_text by metis

lemma DirectoryDigest_contents:
  assumes "contents e u = contents d t" "dir_path d" "dir_path e" "smap_wf t"
  shows "DirectoryDigest L h e u = DirectoryDigest L h d t"
proof -
  have "rmap (digest_entry e u) (sort_key path_elements (files_below u e)) = rmap (digest_entry d t) (sort_key path_elements (files_below t d))"
  proof (rule listing_contents [where f = digest_entry, OF assms(1-3) _ assms(4)])
    fix y x assume "tree_text t (d @ CHR ''/'' # y) = Some x" "tree_text u (e @ CHR ''/'' # y) = Some x"
    from sha256_file_moved [OF this] show "digest_entry e u (e @ CHR ''/'' # y) = digest_entry d t (d @ CHR ''/'' # y)"
      by (simp only: digest_entry_def relative_to_below [OF assms(2)] relative_to_below [OF assms(3)])
  qed
  then show ?thesis using tree_exists_contents [OF assms(1-3)] by (simp add: DirectoryDigest_def)
qed

lemma CountRegularFiles_contents:
  "contents e u = contents d t \<Longrightarrow> dir_path d \<Longrightarrow> dir_path e \<Longrightarrow> CountRegularFiles e u = CountRegularFiles d t"
  using tree_exists_contents [of e u d t] by (simp add: CountRegularFiles_def files_below_contents)

section \<open>Disjoint directories\<close>

definition apart_dirs :: "fs_path \<Rightarrow> fs_path \<Rightarrow> bool" where
  "apart_dirs a b \<longleftrightarrow> a \<noteq> b \<and> \<not> below a b \<and> \<not> below b a"

lemma is_suffix_simps [simp]: "is_suffix []" "is_suffix (CHR ''/'' # y) \<longleftrightarrow> y \<noteq> []"
  by (auto simp: is_suffix_def)

lemma is_suffix_append: "is_suffix x \<Longrightarrow> is_suffix y \<Longrightarrow> is_suffix (x @ y)"
  unfolding is_suffix_def [of x] by (elim disjE exE conjE) simp_all

lemma dir_path_child: "y \<noteq> [] \<Longrightarrow> last y \<noteq> CHR ''/'' \<Longrightarrow> dir_path (d @ CHR ''/'' # y)"
  by (auto simp: dir_path_def)

lemma suffix_split:
  assumes "a @ x = b @ y" "is_suffix x" "dir_path a" "dir_path b" "length a \<le> length b"
  shows "a = b \<or> below a b"
proof -
  from assms(1,5) obtain z where z: "b = a @ z" "x = z @ y" by (auto simp: append_eq_append_conv2)
  have "is_suffix z"
  proof (cases z)
    case (Cons c z')
    with assms(2) z have "c = CHR ''/''" by (auto simp: is_suffix_def)
    with z Cons assms(4) show ?thesis by (auto simp: dir_path_def)
  qed simp
  then show ?thesis using in_subtree_iff [OF assms(3), of b] z by blast
qed

lemma apart_dirs_find:
  assumes "apart_dirs a b" "dir_path a" "dir_path b" "is_suffix x" "is_suffix y"
  shows "a @ x \<noteq> b @ y"
proof
  assume e: "a @ x = b @ y"
  show False
  proof (cases "length a \<le> length b")
    case True
    from suffix_split [OF e assms(4,2,3) True] assms(1) show False by (simp add: apart_dirs_def)
  next
    case False
    from suffix_split [OF e [symmetric] assms(5,3,2)] False assms(1) show False by (auto simp: apart_dirs_def)
  qed
qed

lemma apart_dirs_sub:
  assumes "apart_dirs a b" "dir_path a" "dir_path b" "is_suffix z" "dir_path (b @ z)"
  shows "apart_dirs a (b @ z)"
proof -
  have "a @ x \<noteq> (b @ z) @ y" if "is_suffix x" "is_suffix y" for x y
    using apart_dirs_find [OF assms(1-3) that(1) is_suffix_append [OF assms(4) that(2)]] by simp
  then show ?thesis
    using in_subtree_iff [OF assms(2), of "b @ z"] in_subtree_iff [OF assms(5), of a] unfolding apart_dirs_def
    by (metis append_Nil2 is_suffix_simps(1))
qed

lemma apart_dirs_sym: "apart_dirs a b \<Longrightarrow> apart_dirs b a"
  by (auto simp: apart_dirs_def)

lemma path_parent_child: "dir_path d \<Longrightarrow> n \<noteq> [] \<Longrightarrow> CHR ''/'' \<notin> set n \<Longrightarrow> path_parent (d @ CHR ''/'' # n) = d"
proof -
  assume d: "dir_path d" and n: "n \<noteq> []" "CHR ''/'' \<notin> set n"
  have "dropWhile (\<lambda>c. c \<noteq> CHR ''/'') (rev n @ CHR ''/'' # rev d) = CHR ''/'' # rev d" using n(2) by (subst dropWhile_append2) auto
  moreover have "strip_back (CHR ''/'') (d @ ''/'') = d"
    using d by (cases "rev d") (auto simp: strip_back_def dir_path_def)
  moreover have "last n \<noteq> CHR ''/''" using n last_in_set by metis
  moreover have "path_names (d @ CHR ''/'' # n) \<noteq> []" using path_names_below [OF d] dir_path_names [OF d] by simp
  ultimately show ?thesis using n d by (simp add: path_parent_def Let_def dir_path_def)
qed

text \<open>Creating a directory creates nothing but itself and what is above it.\<close>

lemma ancestors_prefix: "q \<in> set (ancestors d) \<Longrightarrow> \<exists>z. d = q @ CHR ''/'' # z"
proof -
  assume "q \<in> set (ancestors d)"
  then obtain i where "q = take i d" "d ! i = CHR ''/''" "i < length d" by (auto simp: ancestors_def)
  then have "d = q @ CHR ''/'' # drop (Suc i) d" by (metis id_take_nth_drop)
  then show ?thesis by blast
qed

lemma mkdirs_Inr_find:
  "mkdirs d t = (Inr x, u) \<Longrightarrow> smap_find u q = (if q \<in> set (ancestors d @ [d]) \<and> smap_find t q = None then Some Directory else smap_find t q)"
  by (auto simp: mkdirs_def mkdirs_fold_find simp del: foldl_append split: if_splits)

lemma mkdirs_longer: "mkdirs d t = (Inr x, u) \<Longrightarrow> length d < length q \<Longrightarrow> smap_find u q = smap_find t q"
  by (auto simp: mkdirs_Inr_find dest!: ancestors_prefix)

lemma mkdirs_apart:
  assumes "mkdirs d t = (Inr r, u)" "apart_dirs a d" "dir_path a" "dir_path d" "is_suffix x"
  shows "smap_find u (a @ x) = smap_find t (a @ x)"
proof -
  have "a @ x \<notin> set (ancestors d @ [d])"
  proof
    assume "a @ x \<in> set (ancestors d @ [d])"
    then consider "a @ x = d" | z where "d = a @ x @ CHR ''/'' # z" using ancestors_prefix by fastforce
    then show False
    proof cases
      case 1
      with apart_dirs_find [OF assms(2-5), of "[]"] show False by simp
    next
      case 2
      with assms(4) have "z \<noteq> []" by (auto simp: dir_path_def)
      then have "is_suffix (x @ CHR ''/'' # z)" using assms(5) by (intro is_suffix_append) simp_all
      with apart_dirs_find [OF assms(2-4), of "x @ CHR ''/'' # z" "[]"] 2 show False by simp
    qed
  qed
  then show ?thesis by (simp add: mkdirs_Inr_find [OF assms(1)])
qed

lemma remove_all_find: "dir_path d \<Longrightarrow> is_suffix x \<Longrightarrow> smap_find (remove_all d t) (d @ x) = None"
  using subtree_suffix [of d x] by (auto simp: find_remove_all)

lemma remove_all_apart:
  "apart_dirs a d \<Longrightarrow> dir_path a \<Longrightarrow> dir_path d \<Longrightarrow> is_suffix x \<Longrightarrow> smap_find (remove_all d t) (a @ x) = smap_find t (a @ x)"
  using in_subtree_iff [of d "a @ x"] apart_dirs_find [of a d x] by (auto simp: find_remove_all)

end
