(* ===== verification/Recovery_Roundtrip.thy ===== *)
theory Recovery_Roundtrip
  imports Recovery Subtrees Json_Codec
begin

text \<open>
  Restoring a snapshot brings the tree back as it was when the snapshot was taken.
\<close>

section \<open>Copying\<close>

lemma FileManifest_contents:
  assumes "contents e u = contents d t" "dir_path d" "dir_path e" "smap_wf t"
  shows "FileManifest e u = FileManifest d t"
proof -
  have "rmap (manifest_entry e u) (sort_key path_elements (files_below u e)) = rmap (manifest_entry d t) (sort_key path_elements (files_below t d))"
  proof (rule listing_contents [where f = manifest_entry, OF assms(1-3) _ assms(4)])
    fix y x assume content: "tree_text t (d @ CHR ''/'' # y) = Some x" "tree_text u (e @ CHR ''/'' # y) = Some x"
    from sha256_file_moved [OF this] show "manifest_entry e u (e @ CHR ''/'' # y) = manifest_entry d t (d @ CHR ''/'' # y)"
      by (simp add: manifest_entry_def relative_to_below [OF assms(2)] relative_to_below [OF assms(3)] file_size_def content)
  qed
  then show ?thesis using tree_exists_contents [OF assms(1-3)] by (simp add: FileManifest_def)
qed

lemma wf_CopyTree: "framed stays_map (CopyTree s d)"
  unfolding CopyTree_def Let_def
  by (intro wf.framed_intros wf_tree_ops) (auto split: option.splits fs_node.splits intro: wf.framed_intros wf_tree_ops)

lemma wf_WriteJsonFile: "framed stays_map (WriteJsonFile L p j)"
  unfolding WriteJsonFile_def by (intro wf.framed_intros wf_tree_ops)

lemma wf_CreateFilesystemSnapshot: "framed stays_map (CreateFilesystemSnapshot L request)"
  unfolding CreateFilesystemSnapshot_def Let_def by (intro wf.framed_intros wf_tree_ops wf_CopyTree wf_WriteJsonFile)

text \<open>A copy into a place where nothing is has the contents of its source.\<close>

lemma CopyTree_contents:
  assumes run: "CopyTree s d t = (Inr r, u)" and paths: "dir_path s" "dir_path d" "apart_dirs s d"
    and source: "smap_find t s = Some Directory" and free: "\<And>x. is_suffix x \<Longrightarrow> smap_find t (d @ x) = None" and wf: "smap_wf t"
  shows "contents d u = contents s t" "\<And>q. (\<And>x. is_suffix x \<Longrightarrow> q \<noteq> d @ x) \<Longrightarrow> q \<notin> set (ancestors d) \<Longrightarrow> smap_find u q = smap_find t q"
proof -
  from run obtain v where v: "mkdirs d t = (Inr (), v)"
    by (auto simp: CopyTree_def Let_def s_bind_Inr)
  then have copy: "copy_tree (RuntimeError ''failed to copy snapshot tree: '') s d v = (Inr (), u)"
    using run mkdirs_apart [OF v paths(3,1,2), of "[]"] source by (auto simp: CopyTree_def Let_def s_bind_Inr sm_simps)
  have wf_v: "smap_wf v" by (rule wf_after [OF wf_tree_ops(1) v wf])
  note keep = mkdirs_apart [OF v paths(3,1,2)]
  have "smap_find u (d @ x) = smap_find t (s @ x)" if x: "is_suffix x" for x
  proof (cases "smap_find t (s @ x)")
    case None
    then have "x \<noteq> []" using source by auto
    then have "smap_find v (d @ x) = None" using mkdirs_longer [OF v, of "d @ x"] free [OF x] by simp
    then show ?thesis using copy_tree_find(1) [OF copy paths(1) wf_v x] keep [OF x] None by simp
  qed (use copy_tree_find(1) [OF copy paths(1) wf_v x] keep [OF x] in simp)
  then show "contents d u = contents s t"
    using paths wf wf_after [OF wf_CopyTree run] by (intro contents_eqI) auto
  show "smap_find u q = smap_find t q" if "\<And>x. is_suffix x \<Longrightarrow> q \<noteq> d @ x" "q \<notin> set (ancestors d)" for q
    using copy_tree_find(2) [OF copy paths(1) wf_v, of q] that mkdirs_Inr_find [OF v, of q] that(1) [of "[]"] by auto
qed

lemma CopyTree_succeeds:
  assumes paths: "dir_path s" "dir_path d" "apart_dirs s d" and source: "smap_find t s = Some Directory"
    and free: "\<And>x. is_suffix x \<Longrightarrow> smap_find t (d @ x) = None" and wf: "smap_wf t" and way: "\<not> list_ex (\<lambda>a. is_regular (smap_find t a)) (ancestors d)"
  shows "\<exists>u. CopyTree s d t = (Inr (), u)"
proof -
  have "\<not> is_regular (smap_find t d)" using free [of "[]"] by simp
  with way obtain v where v: "mkdirs d t = (Inr (), v)" by (simp add: mkdirs_def)
  note keep = mkdirs_apart [OF v paths(3,1,2)]
  have "same_kind (smap_find v (d @ x)) n" if "(x, n) \<in> set (contents s v)" for x n
  proof -
    from contents_keys [OF paths(1) that] have x: "is_suffix x" and n: "smap_find v (s @ x) = Some n"
      using smap_find_in [OF wf_after [OF wf_tree_ops(1) v wf]] by blast+
    show ?thesis
    proof (cases "x = []")
      case True
      then show ?thesis using n keep [OF x] source free [of "[]"] mkdirs_Inr_find [OF v, of d] by simp
    next
      case False
      then show ?thesis using mkdirs_longer [OF v, of "d @ x"] free [OF x] by simp
    qed
  qed
  then have "\<exists>u. copy_tree (RuntimeError ''failed to copy snapshot tree: '') s d v = (Inr (), u)"
    by (auto simp: copy_tree_def copy_entries_contents list_ex_iff)
  then show ?thesis using v keep [of "[]"] source by (auto simp: CopyTree_def Let_def s_bind_def sm_simps)
qed

section \<open>Taking a snapshot\<close>

definition plain_id :: "string \<Rightarrow> bool" where
  "plain_id i \<longleftrightarrow> i \<noteq> [] \<and> CHR ''/'' \<notin> set i \<and> i \<noteq> ''_tmp''"

lemma snapshot_paths:
  assumes "dir_path S" "plain_id i"
  shows "path_div S i = S @ CHR ''/'' # i" "path_div (S @ CHR ''/'' # i) ''data'' = S @ CHR ''/'' # i @ ''/data''"
    "path_div (S @ CHR ''/'' # i) ''snapshot.json'' = S @ CHR ''/'' # i @ ''/snapshot.json''"
    "path_div (path_div S ''_tmp'') i = S @ ''/_tmp/'' @ i"
    "path_div (S @ ''/_tmp/'' @ i) ''data'' = S @ ''/_tmp/'' @ i @ ''/data''"
    "path_div (S @ ''/_tmp/'' @ i) ''snapshot.json'' = S @ ''/_tmp/'' @ i @ ''/snapshot.json''"
    "dir_path (S @ CHR ''/'' # i)" "dir_path (S @ CHR ''/'' # i @ ''/data'')" "dir_path (S @ ''/_tmp/'' @ i)" "dir_path (S @ ''/_tmp/'' @ i @ ''/data'')"
    "path_parent (S @ CHR ''/'' # i) = S" "path_parent (S @ ''/_tmp/'' @ i @ ''/snapshot.json'') = S @ ''/_tmp/'' @ i"
proof -
  have i: "i \<noteq> []" "last i \<noteq> CHR ''/''" "\<not> path_absolute i" using assms(2) by (auto simp: plain_id_def path_absolute_def) (metis last_in_set hd_in_set)+
  with assms(1) show "path_div S i = S @ CHR ''/'' # i" "path_div (S @ CHR ''/'' # i) ''data'' = S @ CHR ''/'' # i @ ''/data''"
    "path_div (S @ CHR ''/'' # i) ''snapshot.json'' = S @ CHR ''/'' # i @ ''/snapshot.json''"
    "path_div (path_div S ''_tmp'') i = S @ ''/_tmp/'' @ i"
    "path_div (S @ ''/_tmp/'' @ i) ''data'' = S @ ''/_tmp/'' @ i @ ''/data''"
    "path_div (S @ ''/_tmp/'' @ i) ''snapshot.json'' = S @ ''/_tmp/'' @ i @ ''/snapshot.json''"
    "dir_path (S @ CHR ''/'' # i)" "dir_path (S @ CHR ''/'' # i @ ''/data'')" "dir_path (S @ ''/_tmp/'' @ i @ ''/data'')"
    by (auto simp: dir_path_def path_div_def)
  show temp: "dir_path (S @ ''/_tmp/'' @ i)" using i by (auto simp: dir_path_def)
  show "path_parent (S @ CHR ''/'' # i) = S" using path_parent_child [OF assms(1)] assms(2) by (simp add: plain_id_def)
  show "path_parent (S @ ''/_tmp/'' @ i @ ''/snapshot.json'') = S @ ''/_tmp/'' @ i" using path_parent_child [OF temp, of "''snapshot.json''"] by simp
qed

lemma WriteJsonFile_find:
  assumes "WriteJsonFile L p j t = (Inr r, u)" "smap_find t p = None" "length (path_parent p) < length p"
  obtains x where "jl_dump2 L j = Inr x" "smap_find u p = Some (Regular (x @ [CHR 0x0A]))"
    "\<And>q. q \<noteq> p \<Longrightarrow> length (path_parent p) < length q \<Longrightarrow> smap_find u q = smap_find t q"
proof -
  from assms(1) obtain v x where v: "mkdirs (path_parent p) t = (Inr (), v)" and x: "jl_dump2 L j = Inr x"
    and u: "u = put_file p (x @ [CHR 0x0A]) (put_file p [] v)"
    by (auto simp: WriteJsonFile_def s_bind_Inr sm_simps JsonText_def rbind_eq_Inr)
  have "smap_find v p = None" using mkdirs_longer [OF v assms(3)] assms(2) by simp
  then show thesis using that [OF x] mkdirs_longer [OF v] by (simp add: u find_put_file)
qed

definition snapshot_ok :: "json_lib \<Rightarrow> fs_path \<Rightarrow> string \<Rightarrow> tree \<Rightarrow> fs_path \<Rightarrow> tree \<Rightarrow> bool" where
  "snapshot_ok L S i u R t \<longleftrightarrow>
     contents (S @ CHR ''/'' # i @ ''/data'') u = contents R t
     \<and> (\<exists>files manifest x. FileManifest R t = Inr files \<and> json_lookup manifest ''files'' = Some (JArray files) \<and> is_object manifest
          \<and> jl_dump2 L manifest = Inr x \<and> smap_find u (S @ CHR ''/'' # i @ ''/snapshot.json'') = Some (Regular (x @ [CHR 0x0A])))"

lemma CreateFilesystemSnapshot_ok:
  assumes run: "CreateFilesystemSnapshot L request t = (Inr m, u)" and S: "dir_path (rs_snapshots_root request)" and i: "plain_id (rs_snapshot_id request)"
    and R: "dir_path (rs_source_root request)" "apart_dirs (rs_source_root request) (rs_snapshots_root request)"
      "smap_find t (rs_source_root request) = Some Directory" and wf: "smap_wf t"
  shows "snapshot_ok L (rs_snapshots_root request) (rs_snapshot_id request) u (rs_source_root request) t"
proof -
  let ?S = "rs_snapshots_root request" and ?i = "rs_snapshot_id request" and ?R = "rs_source_root request"
  let ?snap = "?S @ CHR ''/'' # ?i" and ?temp = "?S @ ''/_tmp/'' @ ?i" and ?data = "?S @ ''/_tmp/'' @ ?i @ ''/data''"
  let ?json = "?S @ ''/_tmp/'' @ ?i @ ''/snapshot.json''"
  note paths = snapshot_paths [OF S i]
  from run obtain t1 t3 t4 files where t1: "mkdirs ?S t = (Inr (), t1)" and t3: "CopyTree ?R ?data (remove_all ?temp t1) = (Inr (), t3)"
    and files: "FileManifest ?data t3 = Inr files" and t4: "WriteJsonFile L ?json (snapshot_manifest request files) t3 = (Inr (), t4)"
    and u: "rename_tree (RuntimeError ''failed to activate snapshot: '') ?temp ?snap t4 = (Inr (), u)"
    by (auto simp: CreateFilesystemSnapshot_def Let_def sm_Inr sm_simps paths paths(5,6,12) [simplified])
  have R_temp: "apart_dirs ?R ?temp" "apart_dirs ?R ?data"
    using apart_dirs_sub [OF R(2,1) S, of "''/_tmp/'' @ ?i"] apart_dirs_sub [OF R(2,1) S, of "''/_tmp/'' @ ?i @ ''/data''"] paths(9,10)
    by (simp_all add: is_suffix_def)
  have source: "smap_find (remove_all ?temp t1) (?R @ x) = smap_find t (?R @ x)" if "is_suffix x" for x
    using mkdirs_apart [OF t1 R(2,1) S that] remove_all_apart [OF R_temp(1) R(1) paths(9) that] by simp
  have free: "smap_find (remove_all ?temp t1) (?temp @ x) = None" if "is_suffix x" for x by (rule remove_all_find [OF paths(9) that])
  have free_data: "smap_find (remove_all ?temp t1) (?data @ x) = None" if "is_suffix x" for x
    using free [of "''/data'' @ x"] that by (simp add: is_suffix_def)
  have wf2: "smap_wf (remove_all ?temp t1)" using wf_after [OF wf_tree_ops(1) t1 wf] wf_tree_ops(3) by (simp add: stays_map_def)
  have copied: "contents ?data t3 = contents ?R (remove_all ?temp t1)"
    using source [of "[]"] R(3) by (intro CopyTree_contents(1) [OF t3 R(1) paths(10) R_temp(2) _ free_data wf2]) simp
  also have same: "contents ?R (remove_all ?temp t1) = contents ?R t" using R(1) wf wf2 source by (intro contents_eqI) auto
  finally have data: "contents ?data t3 = contents ?R t" .
  have wf3: "smap_wf t3" by (rule wf_after [OF wf_CopyTree t3 wf2])
  have "?json \<notin> set (ancestors ?data)" by (auto dest!: ancestors_prefix)
  moreover have "?json \<noteq> ?data @ x" for x by simp
  ultimately have "smap_find t3 ?json = smap_find (remove_all ?temp t1) ?json"
    using source [of "[]"] R(3) by (intro CopyTree_contents(2) [OF t3 R(1) paths(10) R_temp(2) _ free_data wf2]) simp_all
  then have no_json: "smap_find t3 ?json = None" using free [of "''/snapshot.json''"] by (simp add: is_suffix_def)
  from WriteJsonFile_find [OF t4 no_json] paths(12) obtain x where x: "jl_dump2 L (snapshot_manifest request files) = Inr x"
      "smap_find t4 ?json = Some (Regular (x @ [CHR 0x0A]))" and rest: "\<And>q. q \<noteq> ?json \<Longrightarrow> length ?temp < length q \<Longrightarrow> smap_find t4 q = smap_find t3 q"
    by auto
  have moved: "smap_find u (?snap @ y) = smap_find t4 (?temp @ y)" if "is_suffix y" for y
  proof (rule rename_tree_find(1) [OF u paths(9,7) wf_after [OF wf_WriteJsonFile t4 wf3] _ that])
    show "?temp \<noteq> ?snap" using i by (auto simp: plain_id_def)
  qed
  have "smap_find u ((?S @ CHR ''/'' # ?i @ ''/data'') @ y) = smap_find t (?R @ y)" if y: "is_suffix y" for y
    using moved [of "''/data'' @ y"] y rest [of "?data @ y"] contents_eqD [OF data R(1) paths(10) y] by (simp add: is_suffix_def)
  moreover have "smap_wf u" using wf_after [OF wf_tree_ops(7) u wf_after [OF wf_WriteJsonFile t4 wf3]] .
  ultimately have "contents (?S @ CHR ''/'' # ?i @ ''/data'') u = contents ?R t" using R(1) paths(8) wf by (intro contents_eqI) auto
  moreover have "FileManifest ?R t = Inr files" using FileManifest_contents [OF data R(1) paths(10) wf] files by simp
  moreover have "smap_find u (?S @ CHR ''/'' # ?i @ ''/snapshot.json'') = Some (Regular (x @ [CHR 0x0A]))"
    using moved [of "''/snapshot.json''"] x(2) by (simp add: is_suffix_def)
  ultimately show ?thesis
    unfolding snapshot_ok_def using x(1) by (intro conjI exI [of _ files] exI [of _ "snapshot_manifest request files"] exI [of _ x])
      (simp_all add: snapshot_manifest_def)
qed

section \<open>Restoring it\<close>

lemma RestoreFilesystemSnapshot_ok:
  assumes ok: "snapshot_ok L S i v R t" and laws: "json_laws L" and S: "dir_path S" and i: "plain_id i"
    and R: "dir_path R" "smap_find t R = Some Directory" "smap_wf t"
    and T: "dir_path T" "apart_dirs T S" "\<not> list_ex (\<lambda>a. is_regular (smap_find v a)) (ancestors T)" and wf: "smap_wf v"
  shows "\<exists>r w. RestoreFilesystemSnapshot L S i T now v = (Inr r, w) \<and> contents T w = contents R t
    \<and> (\<forall>q. q \<noteq> T \<and> \<not> below T q \<and> q \<notin> set (ancestors T) \<longrightarrow> smap_find w q = smap_find v q)"
proof -
  let ?data = "S @ CHR ''/'' # i @ ''/data''" and ?v = "remove_all T v"
  note paths = snapshot_paths [OF S i]
  from ok obtain files manifest x where files: "FileManifest R t = Inr files" "json_lookup manifest ''files'' = Some (JArray files)" "is_object manifest"
    and x: "jl_dump2 L manifest = Inr x" "smap_find v (S @ CHR ''/'' # i @ ''/snapshot.json'') = Some (Regular (x @ [CHR 0x0A]))"
    and data: "contents ?data v = contents R t" by (auto simp: snapshot_ok_def)
  have apart: "apart_dirs ?data T" using apart_dirs_sub [OF T(2,1) S, of "CHR ''/'' # i @ ''/data''"] paths(8) by (auto intro: apart_dirs_sym)
  have dir: "smap_find v ?data = Some Directory" using contents_eqD [OF data R(1) paths(8), of "[]"] R(2) by simp
  have manifest: "ReadJsonFile L (S @ CHR ''/'' # i @ ''/snapshot.json'') v = Inr manifest"
    using x laws by (simp add: ReadJsonFile_def json_laws_def json_parse_def)
  have actual: "FileManifest ?data v = Inr files" using FileManifest_contents [OF data R(1) paths(8) R(3)] files(1) by simp
  have kept: "smap_find ?v (?data @ y) = smap_find v (?data @ y)" if "is_suffix y" for y by (rule remove_all_apart [OF apart paths(8) T(1) that])
  have free: "smap_find ?v (T @ y) = None" if "is_suffix y" for y by (rule remove_all_find [OF T(1) that])
  have wf': "smap_wf ?v" using wf_tree_ops(3) wf by (simp add: stays_map_def)
  have way: "\<not> list_ex (\<lambda>a. is_regular (smap_find ?v a)) (ancestors T)"
    using T(3) by (auto simp: list_ex_iff find_remove_all split: if_splits)
  have dir': "smap_find ?v ?data = Some Directory" using kept [of "[]"] dir by simp
  obtain w where w: "CopyTree ?data T ?v = (Inr (), w)" using CopyTree_succeeds [OF paths(8) T(1) apart dir' free wf' way] by blast
  have "contents T w = contents ?data ?v" by (rule CopyTree_contents(1) [OF w paths(8) T(1) apart dir' free wf'])
  also have "\<dots> = contents ?data v" using kept wf wf' paths(8) by (intro contents_eqI) auto
  finally have "contents T w = contents R t" using data by simp
  moreover have "smap_find w q = smap_find v q" if "q \<noteq> T" "\<not> below T q" "q \<notin> set (ancestors T)" for q
  proof -
    have "q \<noteq> T @ y" if "is_suffix y" for y using in_subtree_iff [OF T(1), of q] that \<open>q \<noteq> T\<close> \<open>\<not> below T q\<close> by blast
    from CopyTree_contents(2) [OF w paths(8) T(1) apart dir' free wf' this that(3)] that(1,2) show ?thesis by (simp add: find_remove_all)
  qed
  moreover have "\<exists>r. RestoreFilesystemSnapshot L S i T now v = (Inr r, w)"
    using i x(2) dir manifest actual files(2,3) w
    by (simp add: RestoreFilesystemSnapshot_def Let_def paths s_bind_def sm_simps s_guard_def plain_id_def tree_exists_def smap_contains_def json_value_lookup)
  ultimately show ?thesis by blast
qed

lemma snapshot_ok_later:
  assumes "snapshot_ok L S i u R t" "dir_path S" "plain_id i" "smap_wf u" "smap_wf v"
    and same: "contents (path_div S i) v = contents (path_div S i) u"
  shows "snapshot_ok L S i v R t"
proof -
  note paths = snapshot_paths [OF assms(2,3)]
  have find: "smap_find v ((S @ CHR ''/'' # i) @ x) = smap_find u ((S @ CHR ''/'' # i) @ x)" if "is_suffix x" for x
    using contents_eqD [OF same _ _ that] by (simp add: paths(1,7))
  have "contents (S @ CHR ''/'' # i @ ''/data'') v = contents (S @ CHR ''/'' # i @ ''/data'') u"
  proof (rule contents_eqI [OF paths(8) paths(8) assms(4,5)])
    fix x assume "is_suffix x"
    then have "is_suffix (''/data'' @ x)" by (simp add: is_suffix_def)
    from find [OF this] show "smap_find v ((S @ CHR ''/'' # i @ ''/data'') @ x) = smap_find u ((S @ CHR ''/'' # i @ ''/data'') @ x)" by simp
  qed
  then show ?thesis using assms(1) find [of "''/snapshot.json''"] by (simp add: snapshot_ok_def is_suffix_def)
qed

text \<open>
  \<^bold>\<open>C18.\<close> Recovery works. If a snapshot of the tree below a directory was taken under an id that is a plain name,
  then at any later time at which nothing below the snapshot has changed, restoring it succeeds (verification of the
  manifest's digests included) and leaves the target with exactly the files and directories, contents included, that
  the source had when the snapshot was taken, whatever was in the target before, and touches nothing outside the target.
  Source and target are apart from the snapshot directory, and no file stands where a directory above the target has to be.
\<close>

theorem recovery_roundtrip:
  assumes "CreateFilesystemSnapshot L request t = (Inr m, u)" and "json_laws L" and "smap_wf t"
    and "dir_path (rs_snapshots_root request)" and "plain_id (rs_snapshot_id request)"
    and "dir_path (rs_source_root request)" and "apart_dirs (rs_source_root request) (rs_snapshots_root request)"
    and "smap_find t (rs_source_root request) = Some Directory"
    and "smap_wf v" and "contents (path_div (rs_snapshots_root request) (rs_snapshot_id request)) v
                       = contents (path_div (rs_snapshots_root request) (rs_snapshot_id request)) u"
    and "dir_path T" and "apart_dirs T (rs_snapshots_root request)" and "\<not> list_ex (\<lambda>a. is_regular (smap_find v a)) (ancestors T)"
  shows "\<exists>r w. RestoreFilesystemSnapshot L (rs_snapshots_root request) (rs_snapshot_id request) T now v = (Inr r, w)
    \<and> contents T w = contents (rs_source_root request) t
    \<and> (\<forall>q. q \<noteq> T \<and> \<not> below T q \<and> q \<notin> set (ancestors T) \<longrightarrow> smap_find w q = smap_find v q)"
proof -
  note wf_u = wf_after [OF wf_CreateFilesystemSnapshot assms(1,3)]
  have "snapshot_ok L (rs_snapshots_root request) (rs_snapshot_id request) v (rs_source_root request) t"
    by (rule snapshot_ok_later [OF CreateFilesystemSnapshot_ok [OF assms(1,4,5,6,7,8,3)] assms(4,5) wf_u assms(9,10)])
  from RestoreFilesystemSnapshot_ok [OF this assms(2,4,5,6,8,3,11,12,13,9)] show ?thesis .
qed

definition snapshot_request :: RecoverySnapshotRequest where
  "snapshot_request = \<lparr>rs_source_root = ''/d/registry'', rs_snapshots_root = ''/d/snaps'', rs_snapshot_id = ''one'', rs_label = ''manual'', rs_created_at = ''now''\<rparr>"

definition snapshot_tree :: tree where
  "snapshot_tree = [(''/d'', Directory), (''/d/registry'', Directory), (''/d/registry/a'', Regular ''x'')]"

definition copied_tree :: tree where
  "copied_tree = [(''/d'', Directory), (''/d/registry'', Directory), (''/d/registry/a'', Regular ''x''), (''/d/snaps'', Directory),
     (''/d/snaps/_tmp'', Directory), (''/d/snaps/_tmp/one'', Directory), (''/d/snaps/_tmp/one/data'', Directory),
     (''/d/snaps/_tmp/one/data/a'', Regular ''x'')]"

lemma snapshot_copied:
  "mkdirs ''/d/snaps'' snapshot_tree = (Inr (), snapshot_tree @ [(''/d/snaps'', Directory)])"
  "CopyTree ''/d/registry'' ''/d/snaps/_tmp/one/data'' (remove_all ''/d/snaps/_tmp/one'' (snapshot_tree @ [(''/d/snaps'', Directory)])) = (Inr (), copied_tree)"
  "tree_exists copied_tree ''/d/snaps/_tmp/one/data''" "sort_key path_elements (files_below copied_tree ''/d/snaps/_tmp/one/data'') = [''/d/snaps/_tmp/one/data/a'']"
  "mkdirs ''/d/snaps/_tmp/one'' copied_tree = (Inr (), copied_tree)" "smap_find copied_tree ''/d/snaps/_tmp/one/snapshot.json'' = None"
  "path_parent ''/d/snaps/one'' = ''/d/snaps''" "path_parent ''/d/snaps/_tmp/one/snapshot.json'' = ''/d/snaps/_tmp/one''"
  "tree_exists snapshot_tree ''/d/snaps/one'' = False" "relative_to ''/d/snaps/_tmp/one/data'' ''/d/snaps/_tmp/one/data/a'' = ''a''"
  "file_size ''/d/snaps/_tmp/one/data/a'' copied_tree = Inr 1"
  by code_simp+

lemma occupied_keys: "occupied t p \<longleftrightarrow> (\<exists>q \<in> fst ` set t. q = p \<or> below p q)"
  by (auto simp: occupied_def list_ex_iff)

lemma snapshot_free: "\<not> occupied (smap_put ''/d/snaps/_tmp/one/snapshot.json'' (Regular x) copied_tree) ''/d/snaps/one''"
  by (simp add: occupied_keys smap_keys_put) (simp add: copied_tree_def below_def dir_prefix_def path_div_def)

lemma snapshot_taken:
  obtains m u where "CreateFilesystemSnapshot codec snapshot_request snapshot_tree = (Inr m, u)"
proof -
  have a: "tree_text copied_tree ''/d/snaps/_tmp/one/data/a'' = Some ''x''" by (simp add: copied_tree_def tree_text_def)
  obtain d where d: "sha256_file (smap_find copied_tree) ''/d/snaps/_tmp/one/data/a'' = Inr d" using sha256_file_exists [OF a] by blast
  define files where "files = [json_obj [(''path'', JString ''a''), (''sha256'', JString d), (''size_bytes'', JInt 1)]]"
  have manifest: "FileManifest ''/d/snaps/_tmp/one/data'' copied_tree = Inr files"
    by (simp add: FileManifest_def snapshot_copied manifest_entry_def d files_def)
  obtain x where x: "codec_dump (snapshot_manifest snapshot_request files) = Inr x"
    by (simp add: snapshot_manifest_def files_def codec_dump_def exact_obj)
  let ?t = "smap_put ''/d/snaps/_tmp/one/snapshot.json'' (Regular (x @ [CHR 0x0A])) (smap_put ''/d/snaps/_tmp/one/snapshot.json'' (Regular []) copied_tree)"
  have written: "WriteJsonFile codec ''/d/snaps/_tmp/one/snapshot.json'' (snapshot_manifest snapshot_request files) copied_tree = (Inr (), ?t)"
    by (simp add: WriteJsonFile_def s_bind_def sm_simps snapshot_copied JsonText_def x put_file_def)
  have "\<exists>u. rename_tree (RuntimeError ''failed to activate snapshot: '') ''/d/snaps/_tmp/one'' ''/d/snaps/one'' ?t = (Inr (), u)"
  proof -
    have "occupied (smap_put p n (smap_put p m t)) q = occupied (smap_put p n t) q" for p n m q and t :: tree
      by (simp only: occupied_keys smap_keys_put insert_absorb2)
    then show ?thesis using snapshot_free by (simp add: rename_tree_def tree_exists_def smap_contains_def copied_tree_def)
  qed
  then obtain u where u: "rename_tree (RuntimeError ''failed to activate snapshot: '') ''/d/snaps/_tmp/one'' ''/d/snaps/one'' ?t = (Inr (), u)" by blast
  show thesis
    by (rule that [of _ u], use written u manifest in \<open>simp add: CreateFilesystemSnapshot_def Let_def snapshot_request_def path_div_def path_absolute_def s_bind_def sm_simps s_guard_def snapshot_copied\<close>)
qed

theorem recovery_roundtrip_witness:
  "\<exists>m u r w. CreateFilesystemSnapshot codec snapshot_request snapshot_tree = (Inr m, u)
     \<and> RestoreFilesystemSnapshot codec ''/d/snaps'' ''one'' ''restored'' ''later'' u = (Inr r, w)
     \<and> smap_find w ''restored/a'' = Some (Regular ''x'')"
proof -
  obtain m u where u: "CreateFilesystemSnapshot codec snapshot_request snapshot_tree = (Inr m, u)" by (rule snapshot_taken)
  have tree: "smap_wf snapshot_tree" "smap_find snapshot_tree ''/d/registry'' = Some Directory" "smap_find snapshot_tree ''/d/registry/a'' = Some (Regular ''x'')"
    by (simp_all add: snapshot_tree_def smap_wf_simps)
  have dirs: "dir_path ''/d/snaps''" "dir_path ''/d/registry''" "dir_path ''restored''" "plain_id ''one''" "apart_dirs ''/d/registry'' ''/d/snaps''"
    "apart_dirs ''restored'' ''/d/snaps''" "ancestors ''restored'' = []"
    by (simp_all add: dir_path_def plain_id_def apart_dirs_def below_def dir_prefix_def path_div_def ancestors_def upt_rec)
  have "smap_wf u" by (rule wf_after [OF wf_CreateFilesystemSnapshot u tree(1)])
  then obtain r w where "RestoreFilesystemSnapshot codec ''/d/snaps'' ''one'' ''restored'' ''later'' u = (Inr r, w)"
      "contents ''restored'' w = contents ''/d/registry'' snapshot_tree"
    using recovery_roundtrip [OF u codec_laws tree(1), of u "''restored''" "''later''"] dirs tree by (auto simp: snapshot_request_def)
  moreover from contents_eqD [OF this(2), of "''/a''"] have "smap_find w ''restored/a'' = Some (Regular ''x'')"
    using dirs tree(3) by (simp add: is_suffix_def)
  ultimately show ?thesis using u by blast
qed

end
