(* ===== verification/Read_Plane.thy ===== *)
theory Read_Plane
  imports Subtrees Registry_Repositories
begin

text \<open>
  Copying the read plane of the registry: staging copies it into a publication, promotion and the mirror copy a
  publication over it. Each copies the entries of the plane one after the other; the locale \<open>entry_copier\<close> is
  what the copy of one entry promises, and its lemma what the whole loop does.
\<close>

section \<open>Entries of a directory\<close>

definition child :: "fs_path \<Rightarrow> string \<Rightarrow> fs_path" where
  "child d e = d @ CHR ''/'' # e"

definition entry_name :: "string \<Rightarrow> bool" where
  "entry_name e \<longleftrightarrow> e \<noteq> [] \<and> CHR ''/'' \<notin> set e"

lemma path_div_child: "dir_path d \<Longrightarrow> entry_name e \<Longrightarrow> path_div d e = child d e"
  by (cases e) (auto simp: path_div_def dir_path_def entry_name_def child_def path_absolute_def)

lemma dir_path_of_child: "entry_name e \<Longrightarrow> dir_path (child d e)"
  by (metis child_def dir_path_child last_in_set entry_name_def)

lemma path_parent_of_child: "dir_path d \<Longrightarrow> entry_name e \<Longrightarrow> path_parent (child d e) = d"
  by (simp add: child_def entry_name_def path_parent_child)

lemma suffix_head: "is_suffix x \<Longrightarrow> x = [] \<or> hd x = CHR ''/''"
  by (auto simp: is_suffix_def)

lemma no_slash_prefix: "e @ x = f @ y \<Longrightarrow> CHR ''/'' \<notin> set e \<Longrightarrow> CHR ''/'' \<notin> set f \<Longrightarrow> is_suffix x \<Longrightarrow> is_suffix y \<Longrightarrow> e = f"
  by (induction e arbitrary: f) (case_tac f; fastforce simp: is_suffix_def)+

lemma children_apart:
  assumes "entry_name e" "entry_name f" "e \<noteq> f" "is_suffix x" "is_suffix y"
  shows "child d e @ x \<noteq> child d f @ y"
  using assms no_slash_prefix [of e x f y] by (auto simp: child_def entry_name_def)

definition present_contents :: "fs_path \<Rightarrow> tree \<Rightarrow> tree" where
  "present_contents d t = (if tree_exists t d then contents d t else [])"

lemma present_contents_same:
  assumes "dir_path d" "smap_wf t" "smap_wf u" "\<And>x. is_suffix x \<Longrightarrow> smap_find u (d @ x) = smap_find t (d @ x)"
  shows "present_contents d u = present_contents d t"
  using contents_eqI [OF assms(1,1,2,3)] assms(4) [of "[]"] assms(4) by (simp add: present_contents_def tree_exists_def smap_contains_def)

lemma contents_empty: "dir_path d \<Longrightarrow> smap_wf t \<Longrightarrow> (\<And>x. is_suffix x \<Longrightarrow> smap_find t (d @ x) = None) \<Longrightarrow> contents d t = []"
  by (rule smap_ext) (auto simp: contents_wf contents_find smap_wf_simps)

section \<open>Copying entries\<close>

definition copy_place :: "fs_path \<Rightarrow> fs_path \<Rightarrow> string \<Rightarrow> tree \<Rightarrow> bool" where
  "copy_place P R e t \<longleftrightarrow> dir_path P \<and> dir_path R \<and> entry_name e \<and> smap_wf t \<and> apart_dirs (child P e) (child R e)
     \<and> (\<forall>x. is_suffix x \<longrightarrow> smap_find t (child R e @ x) = None)
     \<and> (\<forall>x. is_suffix x \<longrightarrow> child P e @ x \<notin> set (ancestors R @ [R]))"

locale entry_copier =
  fixes copy :: "fs_path \<Rightarrow> fs_path \<Rightarrow> string \<Rightarrow> (tree, unit) sm"
  assumes copied: "copy P R e t = (Inr r, u) \<Longrightarrow> copy_place P R e t \<Longrightarrow> contents (child R e) u = present_contents (child P e) t"
    and others: "copy P R e t = (Inr r, u) \<Longrightarrow> copy_place P R e t \<Longrightarrow> q \<notin> set (ancestors R @ [R]) \<Longrightarrow>
      (\<And>x. is_suffix x \<Longrightarrow> q \<noteq> child R e @ x) \<Longrightarrow> smap_find u q = smap_find t q"
    and stays: "framed stays_map (copy P R e)"
begin

lemma each_stays: "framed stays_map (s_each (copy P R) es)"
  by (intro wf.framed_intros stays)

lemma each_copied:
  assumes "s_each (copy P R) es t = (Inr r, u)" "distinct es" "\<And>e. e \<in> set es \<Longrightarrow> copy_place P R e t"
    "\<And>e f. e \<in> set es \<Longrightarrow> f \<in> set es \<Longrightarrow> apart_dirs (child P e) (child R f)"
  shows "(\<forall>e \<in> set es. contents (child R e) u = present_contents (child P e) t)
    \<and> (\<forall>q. q \<notin> set (ancestors R @ [R]) \<longrightarrow> (\<forall>e \<in> set es. \<forall>x. is_suffix x \<longrightarrow> q \<noteq> child R e @ x) \<longrightarrow> smap_find u q = smap_find t q)"
  using assms
proof (induction es arbitrary: t)
  case (Cons e es)
  from Cons.prems(1) obtain v where v: "copy P R e t = (Inr (), v)" and u: "s_each (copy P R) es v = (Inr r, u)"
    by (auto simp: s_bind_Inr)
  have e: "copy_place P R e t" using Cons.prems(3) by simp
  have wf: "smap_wf t" "smap_wf v" and d: "dir_path R" using e wf_after [OF stays v] by (auto simp: copy_place_def)
  note rest = others [OF v e]
  have names: "entry_name f" if "f \<in> set (e # es)" for f using Cons.prems(3) [OF that] by (simp add: copy_place_def)
  have source: "smap_find v (child P f @ x) = smap_find t (child P f @ x)" if f: "f \<in> set (e # es)" and x: "is_suffix x" for f x
  proof (rule rest)
    show "child P f @ x \<notin> set (ancestors R @ [R])" using Cons.prems(3) [OF f] x by (simp add: copy_place_def)
    show "child P f @ x \<noteq> child R e @ y" if "is_suffix y" for y
      using apart_dirs_find [OF Cons.prems(4) [OF f] _ _ x that] dir_path_of_child names f by (metis list.set_intros(1))
  qed
  have dest: "smap_find v (child R f @ x) = None" if f: "f \<in> set es" and x: "is_suffix x" for f x
  proof -
    have "child R f @ x \<notin> set (ancestors R @ [R])" by (auto simp: child_def dest!: ancestors_prefix)
    moreover have "child R f @ x \<noteq> child R e @ y" if "is_suffix y" for y
      using children_apart [OF names names _ x that] f Cons.prems(2) by auto
    ultimately show ?thesis using rest Cons.prems(3) [of f] f x by (auto simp: copy_place_def)
  qed
  have place: "copy_place P R f v" if "f \<in> set es" for f
    using Cons.prems(3) [of f] that wf(2) dest by (auto simp: copy_place_def)
  have IH: "(\<forall>f \<in> set es. contents (child R f) u = present_contents (child P f) v)"
    and IH': "\<And>q. q \<notin> set (ancestors R @ [R]) \<Longrightarrow> (\<forall>f \<in> set es. \<forall>x. is_suffix x \<longrightarrow> q \<noteq> child R f @ x) \<Longrightarrow> smap_find u q = smap_find v q"
    using Cons.IH [OF u _ place] Cons.prems(2,4) by auto
  have "contents (child R e) u = contents (child R e) v"
  proof (rule contents_eqI)
    show "dir_path (child R e)" "dir_path (child R e)" using names dir_path_of_child by simp_all
    show "smap_wf v" by (rule wf)
    show "smap_wf u" by (rule wf_after [OF each_stays u wf(2)])
    fix x assume x: "is_suffix x"
    have "child R e @ x \<notin> set (ancestors R @ [R])" by (auto simp: child_def dest!: ancestors_prefix)
    moreover have "child R e @ x \<noteq> child R f @ y" if "f \<in> set es" "is_suffix y" for f y
      using children_apart [OF names names _ x that(2)] that(1) Cons.prems(2) by auto
    ultimately show "smap_find u (child R e @ x) = smap_find v (child R e @ x)" using IH' by blast
  qed
  then have "contents (child R e) u = present_contents (child P e) t" using copied [OF v e] by simp
  moreover have "present_contents (child P f) v = present_contents (child P f) t" if "f \<in> set es" for f
    using source that names dir_path_of_child wf by (intro present_contents_same) auto
  moreover have "smap_find u q = smap_find t q"
    if "q \<notin> set (ancestors R @ [R])" "\<forall>f \<in> set (e # es). \<forall>x. is_suffix x \<longrightarrow> q \<noteq> child R f @ x" for q
    using IH' [of q] rest [of q] that by simp
  ultimately show ?case using IH by auto
qed (simp add: sm_simps)

end

lemma copy_tree_entry:
  assumes "copy_tree err (child P e) (child R e) t = (Inr r, u)" "copy_place P R e t" "tree_exists t (child P e)"
  shows "contents (child R e) u = present_contents (child P e) t"
    "(\<And>x. is_suffix x \<Longrightarrow> q \<noteq> child R e @ x) \<Longrightarrow> smap_find u q = smap_find t q"
proof -
  have d: "dir_path (child P e)" "dir_path (child R e)" and wf: "smap_wf t" and free: "\<And>x. is_suffix x \<Longrightarrow> smap_find t (child R e @ x) = None"
    using assms(2) dir_path_of_child by (auto simp: copy_place_def)
  have "smap_find u (child R e @ x) = smap_find t (child P e @ x)" if "is_suffix x" for x
    using copy_tree_find(1) [OF assms(1) d(1) wf that] free [OF that] by (simp split: option.split)
  then have "contents (child R e) u = contents (child P e) t"
    using d wf wf_after [OF wf_tree_ops(5) assms(1) wf] by (intro contents_eqI) auto
  then show "contents (child R e) u = present_contents (child P e) t" using assms(3) by (simp add: present_contents_def)
  show "smap_find u q = smap_find t q" if "\<And>x. is_suffix x \<Longrightarrow> q \<noteq> child R e @ x"
    by (rule copy_tree_find(2) [OF assms(1) d(1) wf that])
qed

lemma absent_entry: "copy_place P R e t \<Longrightarrow> \<not> tree_exists t (child P e) \<Longrightarrow> contents (child R e) t = present_contents (child P e) t"
  using contents_empty dir_path_of_child by (auto simp: present_contents_def copy_place_def)

text \<open>The loop of \<^verbatim>\<open>CopyRegistryReadPlaneTo\<close>.\<close>

definition plane_entry :: "fs_path \<Rightarrow> fs_path \<Rightarrow> string \<Rightarrow> (tree, unit) sm" where
  "plane_entry P R e =
     s_bind (s_reads (\<lambda>t. tree_exists t (path_div P e))) (\<lambda>present.
     if present then copy_tree (RuntimeError ''failed to copy registry publication tree: '') (path_div P e) (path_div R e) else s_return ())"

lemma CopyRegistryReadPlaneTo_entries:
  "CopyRegistryReadPlaneTo P R =
     s_bind (mkdirs R) (\<lambda>_. s_bind (s_each (plane_entry P R) read_plane) (\<lambda>_.
     copy_file (RuntimeError ''failed to copy registry publication config: '') (path_div P ''config.json'') (path_div R ''config.json'')))"
  by (simp add: CopyRegistryReadPlaneTo_def plane_entry_def [abs_def])

lemma plane_entry_Inr:
  assumes "plane_entry P R e t = (Inr r, u)" "copy_place P R e t"
  shows "if tree_exists t (child P e) then copy_tree (RuntimeError ''failed to copy registry publication tree: '') (child P e) (child R e) t = (Inr r, u) else u = t"
  using assms path_div_child by (auto simp: plane_entry_def copy_place_def s_bind_Inr sm_simps split: if_splits)

interpretation plane_copy: entry_copier plane_entry
proof unfold_locales
  fix P R e t u q and r :: unit
  assume run: "plane_entry P R e t = (Inr r, u)" and place: "copy_place P R e t"
  note step = plane_entry_Inr [OF run place]
  show "contents (child R e) u = present_contents (child P e) t"
    using step copy_tree_entry(1) [OF _ place] absent_entry [OF place] by (auto split: if_splits)
  show "smap_find u q = smap_find t q" if "\<And>x. is_suffix x \<Longrightarrow> q \<noteq> child R e @ x"
    using step copy_tree_entry(2) [OF _ place _ that] by (auto split: if_splits)
next
  show "framed stays_map (plane_entry P R e)" for P R e
    unfolding plane_entry_def by (intro wf.framed_intros wf_tree_ops)
qed

text \<open>The loop of the mirror, which creates the parent directory for each entry.\<close>

lemma CopyIfPresent_Inr:
  assumes "CopyIfPresent P R e t = (Inr r, u)" "copy_place P R e t"
  shows "if tree_exists t (child P e)
    then \<exists>v err. (v = t \<or> mkdirs R t = (Inr (), v)) \<and> copy_tree err (child P e) (child R e) v = (Inr r, u)
    else u = t"
  using assms path_div_child path_parent_of_child
  by (auto simp: CopyIfPresent_def copy_place_def s_bind_Inr sm_simps s_try_def mkdirs_def split: if_splits sum.splits prod.splits)

interpretation mirror_copy: entry_copier CopyIfPresent
proof unfold_locales
  fix P R e t u q and r :: unit
  assume run: "CopyIfPresent P R e t = (Inr r, u)" and place: "copy_place P R e t"
  note step = CopyIfPresent_Inr [OF run place]
  have v: "copy_place P R e v \<and> tree_exists v (child P e) = tree_exists t (child P e) \<and> present_contents (child P e) v = present_contents (child P e) t
      \<and> (\<forall>q. q \<notin> set (ancestors R @ [R]) \<longrightarrow> smap_find v q = smap_find t q)" if "v = t \<or> mkdirs R t = (Inr (), v)" for v
    using that
  proof
    assume m: "mkdirs R t = (Inr (), v)"
    have other: "smap_find v q = smap_find t q" if "q \<notin> set (ancestors R @ [R])" for q using mkdirs_Inr_find [OF m] that by simp
    have wf: "smap_wf v" using place wf_after [OF wf_tree_ops(1) m] by (simp add: copy_place_def)
    have "child R e @ x \<notin> set (ancestors R @ [R])" for x by (auto simp: child_def dest!: ancestors_prefix)
    with place wf other have p: "copy_place P R e v" by (simp add: copy_place_def)
    have src: "smap_find v (child P e @ x) = smap_find t (child P e @ x)" if "is_suffix x" for x using place that other by (simp add: copy_place_def)
    then have "present_contents (child P e) v = present_contents (child P e) t"
      using place wf dir_path_of_child by (intro present_contents_same) (auto simp: copy_place_def)
    with p other src [of "[]"] show ?thesis by (simp add: tree_exists_def smap_contains_def)
  qed (use place in simp)
  show "contents (child R e) u = present_contents (child P e) t"
    using step v copy_tree_entry(1) absent_entry [OF place] by (metis (full_types))
  show "smap_find u q = smap_find t q" if "q \<notin> set (ancestors R @ [R])" "\<And>x. is_suffix x \<Longrightarrow> q \<noteq> child R e @ x"
    using step v copy_tree_entry(2) that by (metis (full_types))
next
  show "framed stays_map (CopyIfPresent P R e)" for P R e
    unfolding CopyIfPresent_def by (intro wf.framed_intros wf_tree_ops)
qed

section \<open>Serving a publication\<close>

lemma apart_dirsI:
  assumes "dir_path a" "dir_path b" "\<And>x y. is_suffix x \<Longrightarrow> is_suffix y \<Longrightarrow> a @ x \<noteq> b @ y"
  shows "apart_dirs a b"
  using in_subtree_iff [OF assms(1), of b] in_subtree_iff [OF assms(2), of a] assms(3) [of "[]"] assms(3) [of _ "[]"] assms(3) [of "[]" "[]"]
  unfolding apart_dirs_def by (metis append_Nil2 is_suffix_simps(1))

lemma nested_apart:
  assumes "entry_name f" "entry_name g" "f \<noteq> g" "is_suffix z" "dir_path (child d f @ z)"
  shows "apart_dirs (child d f @ z) (child d g)"
proof (rule apart_dirsI [OF assms(5) dir_path_of_child [OF assms(2)]])
  fix x y assume "is_suffix x" "is_suffix y"
  then show "(child d f @ z) @ x \<noteq> child d g @ y"
    using children_apart [OF assms(1-3) is_suffix_append [OF assms(4)]] by simp
qed

text \<open>What a publication's entry is below the root.\<close>

definition inside :: "string \<Rightarrow> string \<Rightarrow> string" where
  "inside pid e = CHR ''/'' # pid @ CHR ''/'' # e"

lemma publication_child:
  assumes "dir_path base" "entry_name pid"
  shows "publication_root base pid = child (child base ''_publications'') pid" "dir_path (publication_root base pid)"
    "child (publication_root base pid) e = child base ''_publications'' @ inside pid e"
proof -
  have n: "entry_name ''_publications''" by (simp add: entry_name_def)
  show r: "publication_root base pid = child (child base ''_publications'') pid"
    unfolding publication_root_def by (simp add: path_div_child assms n dir_path_of_child)
  show "dir_path (publication_root base pid)" unfolding r by (rule dir_path_of_child [OF assms(2)])
  show "child (publication_root base pid) e = child base ''_publications'' @ inside pid e" unfolding r by (simp add: child_def inside_def)
qed

lemma plane_names:
  assumes "e \<in> set (''config.json'' # read_plane)"
  shows "entry_name e" "e \<noteq> ''_publications''" "e \<noteq> ''_tmp'' "
  using assms by (auto simp: read_plane_def entry_name_def)

lemma publication_place:
  assumes "dir_path base" "entry_name pid" "e \<in> set (''config.json'' # read_plane)" "f \<in> set (''config.json'' # read_plane)"
  shows "apart_dirs (child (publication_root base pid) e) (child base f)" "child (publication_root base pid) e @ x \<notin> set (ancestors base @ [base])"
proof -
  note pub = publication_child [OF assms(1,2)]
  have "is_suffix (inside pid e)" by (simp add: inside_def)
  moreover have "dir_path (child base ''_publications'' @ inside pid e)"
    using dir_path_of_child [of e] plane_names(1) [OF assms(3)] pub(3) by metis
  ultimately show "apart_dirs (child (publication_root base pid) e) (child base f)"
    unfolding pub(3) using plane_names [OF assms(4)] by (intro nested_apart) (auto simp: entry_name_def)
  show "child (publication_root base pid) e @ x \<notin> set (ancestors base @ [base])"
    unfolding pub(3) by (auto simp: child_def dest!: ancestors_prefix)
qed

context entry_copier
begin

lemma served:
  assumes "s_each (copy (publication_root base pid) base) es t = (Inr r, u)" "distinct es" "set es \<subseteq> set (''config.json'' # read_plane)"
    and "dir_path base" "entry_name pid" "smap_wf t" "\<And>e x. e \<in> set es \<Longrightarrow> is_suffix x \<Longrightarrow> smap_find t (child base e @ x) = None"
  shows "\<And>e. e \<in> set es \<Longrightarrow> contents (child base e) u = present_contents (child (publication_root base pid) e) t"
    "\<And>q. q \<notin> set (ancestors base @ [base]) \<Longrightarrow> (\<And>e x. e \<in> set es \<Longrightarrow> is_suffix x \<Longrightarrow> q \<noteq> child base e @ x) \<Longrightarrow> smap_find u q = smap_find t q"
    "smap_wf u"
proof -
  note place = publication_place [OF assms(4,5)] and pub = publication_child(2) [OF assms(4,5)]
  have "copy_place (publication_root base pid) base e t" if "e \<in> set es" for e
    using that assms(3,4,6,7) place [of e e] pub plane_names(1) [of e] by (auto simp: copy_place_def)
  from each_copied [OF assms(1,2) this] place(1) assms(3)
  show "\<And>e. e \<in> set es \<Longrightarrow> contents (child base e) u = present_contents (child (publication_root base pid) e) t"
    "\<And>q. q \<notin> set (ancestors base @ [base]) \<Longrightarrow> (\<And>e x. e \<in> set es \<Longrightarrow> is_suffix x \<Longrightarrow> q \<noteq> child base e @ x) \<Longrightarrow> smap_find u q = smap_find t q"
    by blast+
  show "smap_wf u" by (rule wf_after [OF each_stays assms(1,6)])
qed

end

lemma child_away: "child base e @ x \<notin> set (ancestors base @ [base])"
  by (auto simp: child_def dest!: ancestors_prefix)

lemma publication_not_plane:
  assumes "dir_path base" "entry_name pid" "e \<in> set (''config.json'' # read_plane)" "f \<in> set (''config.json'' # read_plane)" "is_suffix x" "is_suffix y"
  shows "child (publication_root base pid) e @ x \<noteq> child base f @ y"
  using apart_dirs_find [OF publication_place(1) [OF assms(1-4)] _ _ assms(5,6)] dir_path_of_child plane_names(1) assms(3,4) by metis

lemma foldl_remove_find:
  "dir_path base \<Longrightarrow> (\<And>e. e \<in> set es \<Longrightarrow> entry_name e) \<Longrightarrow>
   smap_find (foldl (\<lambda>t e. remove_all (path_div base e) t) t es) q =
     (if \<exists>e \<in> set es. \<exists>x. is_suffix x \<and> q = child base e @ x then None else smap_find t q)"
proof (induction es arbitrary: t)
  case (Cons e es)
  have "smap_find (remove_all (path_div base e) t) q = (if \<exists>x. is_suffix x \<and> q = child base e @ x then None else smap_find t q)"
    using in_subtree_iff [OF dir_path_of_child, of e q base] Cons.prems by (auto simp add: path_div_child find_remove_all)
  with Cons show ?case by auto
qed simp

lemma foldl_remove_wf: "smap_wf t \<Longrightarrow> smap_wf (foldl (\<lambda>t e. remove_all (f e) t) t es)"
  by (induction es arbitrary: t) (auto simp: remove_all_def smap_wf_filter)

lemma clear_read_plane_find:
  "dir_path base \<Longrightarrow> smap_find (clear_read_plane base t) q =
     (if q = child base ''config.json'' \<or> (\<exists>e \<in> set read_plane. \<exists>x. is_suffix x \<and> q = child base e @ x) then None else smap_find t q)"
  unfolding clear_read_plane_def
  using plane_names(1) by (auto simp add: foldl_remove_find remove_path_def path_div_child)

definition outside_plane :: "fs_path \<Rightarrow> fs_path \<Rightarrow> bool" where
  "outside_plane base q \<longleftrightarrow> q \<notin> set (ancestors base @ [base]) \<and> (\<forall>e \<in> set (''config.json'' # read_plane). q \<noteq> child base e \<and> \<not> below (child base e) q)"

lemma outside_planeD: "outside_plane base q \<Longrightarrow> e \<in> set (''config.json'' # read_plane) \<Longrightarrow> is_suffix x \<Longrightarrow> q \<noteq> child base e @ x"
  using in_subtree_iff [OF dir_path_of_child [OF plane_names(1)], of e q base] unfolding outside_plane_def by blast


definition promotion_tree :: tree where
  "promotion_tree = [(''/r'', Directory), (''/r/_publications'', Directory), (''/r/_publications/p'', Directory),
     (''/r/_publications/p/config.json'', Regular ''c''), (''/r/_publications/p/index'', Directory), (''/r/_publications/p/index/a'', Regular ''new''),
     (''/r/config.json'', Regular ''old''), (''/r/index'', Directory), (''/r/index/a'', Regular ''old''), (''/r/index/b'', Regular ''old'')]"


end
