(* ===== verification/Mirror_Faithful.thy ===== *)
theory Mirror_Faithful
  imports Read_Plane Json_Codec
begin

text \<open>
  The mirror (\<^verbatim>\<open>MirrorSync.cpp\<close>): a synchronisation that succeeds has copied the origin's current publication
  exactly, has verified what it copied, and serves it.
\<close>

section \<open>Verification depends on the contents only\<close>

lemma contents_sub:
  assumes "contents e u = contents d t" "dir_path d" "dir_path e" "smap_wf t" "smap_wf u" "is_suffix z" "dir_path (d @ z)" "dir_path (e @ z)"
  shows "contents (e @ z) u = contents (d @ z) t"
proof (rule contents_eqI [OF assms(7,8,4,5)])
  fix x assume "is_suffix x"
  from contents_eqD [OF assms(1-3) is_suffix_append [OF assms(6) this]] show "smap_find u ((e @ z) @ x) = smap_find t ((d @ z) @ x)" by simp
qed

lemma contents_child:
  assumes "contents e u = contents d t" "dir_path d" "dir_path e" "smap_wf t" "smap_wf u" "entry_name n"
  shows "contents (child e n) u = contents (child d n) t"
  using contents_sub [OF assms(1-5), of "CHR ''/'' # n"] assms(6) dir_path_of_child [OF assms(6)] by (simp add: child_def entry_name_def)

lemma present_contents_moved:
  "contents e u = contents d t \<Longrightarrow> dir_path d \<Longrightarrow> dir_path e \<Longrightarrow> present_contents e u = present_contents d t"
  using tree_exists_contents [of e u d t] by (simp add: present_contents_def)

lemma VerifyPublicationSnapshot_contents:
  assumes same: "contents e u = contents d t" and d: "dir_path d" "dir_path e" and wf: "smap_wf t" "smap_wf u"
  shows "VerifyPublicationSnapshot env e publication u = VerifyPublicationSnapshot env d publication t"
proof -
  have names: "entry_name ''config.json''" "entry_name ''trust''" "entry_name ''root.json''" "entry_name ''publication.json''" "entry_name ''artifacts''"
    "entry_name ''index''" "entry_name ''log''" "entry_name ''leaves''" by (simp_all add: entry_name_def)
  note sub = contents_child [OF same d wf]
  note deep = contents_child [OF sub _ _ wf]
  have ex: "tree_exists u (child e n) = tree_exists t (child d n)" if "entry_name n" for n
    using tree_exists_contents [OF sub [OF that]] dir_path_of_child [OF that] by simp
  have "tree_exists u (child (child e ''trust'') ''root.json'') = tree_exists t (child (child d ''trust'') ''root.json'')"
    using tree_exists_contents [OF deep [of "''trust''" "''root.json''"]] names dir_path_of_child by simp
  moreover have "CountRegularFiles (child (child e ''log'') ''leaves'') u = CountRegularFiles (child (child d ''log'') ''leaves'') t"
    using CountRegularFiles_contents [OF deep [of "''log''" "''leaves''"]] names dir_path_of_child by simp
  moreover have "CountRegularFiles (child e ''artifacts'') u = CountRegularFiles (child d ''artifacts'') t"
    using CountRegularFiles_contents [OF sub [of "''artifacts''"]] names dir_path_of_child by simp
  moreover have "digest_matches env publication key (child e n) u = digest_matches env publication key (child d n) t" if "entry_name n" for key n
    using DirectoryDigest_contents [OF sub [OF that] _ _ wf(1)] dir_path_of_child [OF that] by (simp add: digest_matches_def)
  ultimately show ?thesis
    using ex names d dir_path_of_child by (simp add: VerifyPublicationSnapshot_def CountLogLeaves_def path_div_child)
qed

section \<open>The copy\<close>

text \<open>Removing what is served before the publication is copied. A configuration that is a file has nothing below it.\<close>

definition config_is_file :: "fs_path \<Rightarrow> tree \<Rightarrow> bool" where
  "config_is_file base t \<longleftrightarrow> (\<forall>x. x \<noteq> [] \<longrightarrow> smap_find t (child (child base ''config.json'') x) = None)"

definition cleared :: "fs_path \<Rightarrow> tree \<Rightarrow> tree" where
  "cleared base t = foldl (\<lambda>t e. remove_all (path_div base e) t) (remove_path (path_div base ''config.json'') t) [''trust'', ''artifacts'', ''index'', ''log'']"

lemma cleared_wf: "smap_wf t \<Longrightarrow> smap_wf (cleared base t)"
  unfolding cleared_def remove_path_def by (rule foldl_remove_wf) (rule smap_wf_erase)

lemma cleared_find:
  assumes "dir_path base"
  shows "smap_find (cleared base t) q =
    (if q = child base ''config.json'' \<or> (\<exists>e \<in> set read_plane. \<exists>x. is_suffix x \<and> q = child base e @ x) then None else smap_find t q)"
proof -
  have plane: "set [''trust'', ''artifacts'', ''index'', ''log''] = set read_plane" by (auto simp: read_plane_def)
  have "smap_find (cleared base t) q = (if \<exists>e \<in> set [''trust'', ''artifacts'', ''index'', ''log'']. \<exists>x. is_suffix x \<and> q = child base e @ x then None
      else smap_find (remove_path (path_div base ''config.json'') t) q)"
    unfolding cleared_def by (rule foldl_remove_find [OF assms]) (auto simp: entry_name_def)
  moreover have "path_div base ''config.json'' = child base ''config.json''" by (simp add: path_div_child assms entry_name_def)
  ultimately show ?thesis unfolding plane by (auto simp add: remove_path_def)
qed

lemma cleared_free:
  assumes "dir_path base" "config_is_file base t" "e \<in> set (''config.json'' # read_plane)" "is_suffix x"
  shows "smap_find (cleared base t) (child base e @ x) = None"
proof (cases "e = ''config.json''")
  case True
  have "smap_find t (child base ''config.json'' @ x) = None" if "x \<noteq> []"
    using that assms(2,4) by (auto simp: config_is_file_def is_suffix_def child_def)
  with True show ?thesis by (auto simp: cleared_find [OF assms(1)])
qed (use assms in \<open>auto simp: cleared_find\<close>)

lemma framed_materialize: "framed stays_map (MaterializePublication r base)"
  unfolding MaterializePublication_def cleared_def [symmetric]
  by (intro wf.framed_intros mirror_copy.stays) (simp add: stays_map_def cleared_wf)

lemma materialized:
  assumes "MaterializePublication (publication_root base pid) base t = (Inr r, u)" "smap_wf t" "dir_path base" "entry_name pid" "config_is_file base t"
  shows "\<And>e. e \<in> set (''config.json'' # read_plane) \<Longrightarrow> contents (child base e) u = present_contents (child (publication_root base pid) e) t"
    "\<And>q. outside_plane base q \<Longrightarrow> smap_find u q = smap_find t q"
proof -
  let ?P = "publication_root base pid" and ?es = "[''config.json'', ''trust'', ''artifacts'', ''index'', ''log'']"
  have u: "s_each (CopyIfPresent ?P base) ?es (cleared base t) = (Inr r, u)"
    using assms(1) unfolding MaterializePublication_def cleared_def [symmetric] by (simp add: s_bind_Inr sm_simps)
  have es: "set ?es = set (''config.json'' # read_plane)" "distinct ?es" by (auto simp: read_plane_def)
  note served = mirror_copy.served [OF u es(2) eq_refl [OF es(1)] assms(3,4) cleared_wf [OF assms(2)] cleared_free [OF assms(3,5)], unfolded es(1)]
  have other: "smap_find (cleared base t) q = smap_find t q" if "\<And>e x. e \<in> set (''config.json'' # read_plane) \<Longrightarrow> is_suffix x \<Longrightarrow> q \<noteq> child base e @ x" for q
    using that [of "''config.json''" "[]"] that by (auto simp: cleared_find [OF assms(3)])
  have "present_contents (child ?P e) (cleared base t) = present_contents (child ?P e) t" if "e \<in> set (''config.json'' # read_plane)" for e
    using dir_path_of_child plane_names(1) that assms(2) cleared_wf publication_not_plane [OF assms(3,4) that]
    by (intro present_contents_same other) auto
  with served(1) show "\<And>e. e \<in> set (''config.json'' # read_plane) \<Longrightarrow> contents (child base e) u = present_contents (child ?P e) t" by simp
  show "smap_find u q = smap_find t q" if q: "outside_plane base q" for q
    using served(2) [of q] other [of q] outside_planeD [OF q] q by (simp add: outside_plane_def)
qed

definition mirror_dir :: "fs_path \<Rightarrow> fs_path" where
  "mirror_dir base = child (child base ''_tmp'') ''mirror''"

lemma mirror_dir_below: "mirror_dir base = child base ''_tmp'' @ ''/mirror''" "child (mirror_dir base) pid = child base ''_tmp'' @ ''/mirror/'' @ pid"
  by (simp_all add: mirror_dir_def child_def)

lemma mirror_temp:
  assumes "dir_path base" "entry_name pid"
  shows "path_div (path_div (path_div base ''_tmp'') ''mirror'') pid = child (mirror_dir base) pid"
    "dir_path (child (mirror_dir base) pid)" "path_parent (child (mirror_dir base) pid) = mirror_dir base" "dir_path (mirror_dir base)"
proof -
  have n: "entry_name ''_tmp''" "entry_name ''mirror''" by (simp_all add: entry_name_def)
  show d: "dir_path (mirror_dir base)" unfolding mirror_dir_def by (rule dir_path_of_child [OF n(2)])
  show "path_div (path_div (path_div base ''_tmp'') ''mirror'') pid = child (mirror_dir base) pid"
    unfolding mirror_dir_def by (simp add: path_div_child assms n dir_path_of_child)
  show "dir_path (child (mirror_dir base) pid)" by (rule dir_path_of_child [OF assms(2)])
  show "path_parent (child (mirror_dir base) pid) = mirror_dir base" by (rule path_parent_of_child [OF d assms(2)])
qed

text \<open>Places below the root that start with different names are apart, and all of them are apart from what the root is apart from.\<close>

definition place :: "fs_path \<Rightarrow> string \<Rightarrow> fs_path \<Rightarrow> bool" where
  "place base f p \<longleftrightarrow> entry_name f \<and> dir_path p \<and> (\<exists>z. is_suffix z \<and> p = child base f @ z)"

lemma places_apart: "place base f p \<Longrightarrow> place base g q \<Longrightarrow> f \<noteq> g \<Longrightarrow> apart_dirs p q"
proof (rule apart_dirsI)
  fix x y assume "place base f p" "place base g q" "f \<noteq> g" "is_suffix x" "is_suffix y"
  then obtain z w where "p = child base f @ z" "is_suffix (z @ x)" "q = child base g @ w" "is_suffix (w @ y)" "entry_name f" "entry_name g"
    using is_suffix_append by (auto simp: place_def)
  with children_apart [of f g "z @ x" "w @ y" base] \<open>f \<noteq> g\<close> show "p @ x \<noteq> q @ y" by simp
qed (auto simp: place_def)

lemma place_apart: "place base f p \<Longrightarrow> dir_path base \<Longrightarrow> dir_path a \<Longrightarrow> apart_dirs a base \<Longrightarrow> apart_dirs a p"
proof -
  assume p: "place base f p" and d: "dir_path base" "dir_path a" "apart_dirs a base"
  then obtain z where z: "is_suffix (CHR ''/'' # f @ z)" "p = base @ CHR ''/'' # f @ z" by (auto simp: place_def child_def entry_name_def)
  then show ?thesis using apart_dirs_sub [OF d(3,2,1) z(1)] p by (simp add: place_def)
qed

lemma place_longer: "place base f p \<Longrightarrow> p @ x \<notin> set (ancestors base @ [base])"
  unfolding place_def using child_away by fastforce

lemma mirror_places:
  assumes "entry_name pid" "dir_path base"
  shows "place base ''_tmp'' (child (mirror_dir base) pid)" "place base ''_tmp'' (mirror_dir base)" "place base ''_publications'' (child base ''_publications'')"
    "place base ''_publications'' (publication_root base pid)" "entry_name e \<Longrightarrow> place base e (child base e)"
proof -
  have n: "entry_name ''_tmp''" "entry_name ''_publications''" by (simp_all add: entry_name_def)
  show "place base ''_tmp'' (mirror_dir base)"
    unfolding place_def using n mirror_temp(4) [OF assms(2,1)] mirror_dir_below(1) [of base] by (metis is_suffix_simps(2) list.distinct(1))
  show "place base ''_tmp'' (child (mirror_dir base) pid)"
    unfolding place_def using n mirror_temp(2) [OF assms(2,1)] mirror_dir_below(2) [of base pid] by (metis append_Cons is_suffix_simps(2) list.distinct(1))
  show "place base ''_publications'' (publication_root base pid)"
    unfolding place_def using n publication_child(1,2) [OF assms(2,1)] assms(1) by (metis child_def entry_name_def is_suffix_simps(2))
  show "place base ''_publications'' (child base ''_publications'')" "entry_name e \<Longrightarrow> place base e (child base e)"
    unfolding place_def using n dir_path_of_child by (metis append_Nil2 is_suffix_simps(1))+
qed

lemma place_outside:
  assumes "place base f p" "f \<notin> set (''config.json'' # read_plane)" "is_suffix x"
  shows "outside_plane base (p @ x)"
proof -
  have "p @ x \<noteq> child base e @ y" if "e \<in> set (''config.json'' # read_plane)" "is_suffix y" for e y
  proof -
    obtain z where z: "entry_name f" "is_suffix z" "p = child base f @ z" using assms(1) by (auto simp: place_def)
    have "f \<noteq> e" using assms(2) that(1) by auto
    from children_apart [OF z(1) plane_names(1) [OF that(1)] this is_suffix_append [OF z(2) assms(3)] that(2)] show ?thesis by (simp add: z(3))
  qed
  then show ?thesis
    using place_longer [OF assms(1)] in_subtree_iff [OF dir_path_of_child [OF plane_names(1)]] unfolding outside_plane_def by blast
qed

lemma copy_tree_fresh:
  assumes "copy_tree err s d t = (Inr r, u)" "dir_path s" "dir_path d" "smap_wf t" and free: "\<forall>x. is_suffix x \<longrightarrow> smap_find t (d @ x) = None"
  shows "contents d u = contents s t" "\<And>a x. apart_dirs a d \<Longrightarrow> dir_path a \<Longrightarrow> is_suffix x \<Longrightarrow> smap_find u (a @ x) = smap_find t (a @ x)"
proof -
  have "smap_find u (d @ x) = smap_find t (s @ x)" if "is_suffix x" for x
    using copy_tree_find(1) [OF assms(1,2,4) that] free that by (simp split: option.split)
  then show "contents d u = contents s t" using assms(2-4) wf_after [OF wf_tree_ops(5) assms(1,4)] by (intro contents_eqI) auto
  show "smap_find u (a @ x) = smap_find t (a @ x)" if "apart_dirs a d" "dir_path a" "is_suffix x" for a x
    using copy_tree_find(2) [OF assms(1,2,4)] apart_dirs_find [OF that(1,2) assms(3) that(3)] by simp
qed

lemma rename_tree_moved:
  assumes "rename_tree err s d t = (Inr r, u)" "dir_path s" "dir_path d" "smap_wf t" "apart_dirs s d"
  shows "contents d u = contents s t" "\<And>a x. apart_dirs a s \<Longrightarrow> apart_dirs a d \<Longrightarrow> dir_path a \<Longrightarrow> is_suffix x \<Longrightarrow> smap_find u (a @ x) = smap_find t (a @ x)"
proof -
  have ne: "s \<noteq> d" using assms(5) by (simp add: apart_dirs_def)
  show "contents d u = contents s t"
    using rename_tree_find(1) [OF assms(1-4) ne] assms(2-4) wf_after [OF wf_tree_ops(7) assms(1,4)] by (intro contents_eqI) auto
  show "smap_find u (a @ x) = smap_find t (a @ x)" if "apart_dirs a s" "apart_dirs a d" "dir_path a" "is_suffix x" for a x
    using rename_tree_find(2) [OF assms(1-4) ne] apart_dirs_find [OF that(1,3) assms(2) that(4)] apart_dirs_find [OF that(2,3) assms(3) that(4)] by simp
qed

lemma contents_kept:
  "dir_path a \<Longrightarrow> smap_wf t \<Longrightarrow> smap_wf u \<Longrightarrow> (\<And>x. is_suffix x \<Longrightarrow> smap_find u (a @ x) = smap_find t (a @ x)) \<Longrightarrow> contents a u = contents a t"
  by (rule contents_eqI)

lemma mirror_steps:
  assumes "mirror_publication env config pid publication t = (Inr r, u)" "dir_path (pe_root config)" "entry_name pid"
  obtains t1 t3 t4 t5 t7 where "mkdirs (pe_root config) t = (Inr (), t1)"
    "mkdirs (mirror_dir (pe_root config)) (remove_all (child (mirror_dir (pe_root config)) pid) t1) = (Inr (), t3)"
    "copy_tree (RuntimeError ''mirror publication copy failed: '') (publication_root (rg_mirror_source_root (cfg_registry config)) pid)
       (child (mirror_dir (pe_root config)) pid) t3 = (Inr (), t4)"
    "VerifyPublicationSnapshot env (child (mirror_dir (pe_root config)) pid) publication t4 = Inr ()"
    "mkdirs (child (pe_root config) ''_publications'') t4 = (Inr (), t5)"
    "rename_tree (RuntimeError ''mirror publication activation failed: '') (child (mirror_dir (pe_root config)) pid)
       (publication_root (pe_root config) pid) (remove_all (publication_root (pe_root config) pid) t5) = (Inr (), t7)"
    "MaterializePublication (publication_root (pe_root config) pid) (pe_root config) t7 = (Inr r, u)"
proof -
  have n: "entry_name ''_publications''" by (simp add: entry_name_def)
  have "path_parent (publication_root (pe_root config) pid) = child (pe_root config) ''_publications''"
    unfolding publication_child(1) [OF assms(2,3)] by (rule path_parent_of_child [OF dir_path_of_child [OF n] assms(3)])
  then show thesis
    using assms(1) that by (auto simp: mirror_publication_def Let_def s_bind_Inr sm_simps mirror_temp [OF assms(2,3)])
qed

lemma mirror_copied:
  assumes run: "mirror_publication env config pid publication t = (Inr r, u)" and wf: "smap_wf t"
    and dR: "dir_path (pe_root config)" and dS: "dir_path (rg_mirror_source_root (cfg_registry config))"
    and apart: "apart_dirs (rg_mirror_source_root (cfg_registry config)) (pe_root config)" and pid: "entry_name pid"
  obtains v where "MaterializePublication (publication_root (pe_root config) pid) (pe_root config) v = (Inr r, u)" "smap_wf v"
    "contents (publication_root (pe_root config) pid) v = contents (publication_root (rg_mirror_source_root (cfg_registry config)) pid) t"
    "VerifyPublicationSnapshot env (publication_root (pe_root config) pid) publication v = Inr ()"
    "\<And>e x. e \<noteq> ''_tmp'' \<Longrightarrow> e \<noteq> ''_publications'' \<Longrightarrow> entry_name e \<Longrightarrow> is_suffix x \<Longrightarrow>
       smap_find v (child (pe_root config) e @ x) = smap_find t (child (pe_root config) e @ x)"
proof -
  let ?R = "pe_root config" and ?S = "rg_mirror_source_root (cfg_registry config)"
  let ?o = "publication_root ?S pid" and ?f = "publication_root ?R pid" and ?m = "child (mirror_dir ?R) pid"
  from run dR pid obtain t1 t3 t4 t5 t7 where t1: "mkdirs ?R t = (Inr (), t1)" and t3: "mkdirs (mirror_dir ?R) (remove_all ?m t1) = (Inr (), t3)"
    and t4: "copy_tree (RuntimeError ''mirror publication copy failed: '') ?o ?m t3 = (Inr (), t4)"
    and verified: "VerifyPublicationSnapshot env ?m publication t4 = Inr ()" and t5: "mkdirs (child ?R ''_publications'') t4 = (Inr (), t5)"
    and t7: "rename_tree (RuntimeError ''mirror publication activation failed: '') ?m ?f (remove_all ?f t5) = (Inr (), t7)"
    and u: "MaterializePublication ?f ?R t7 = (Inr r, u)"
    by (rule mirror_steps)
  note at = mirror_places [OF pid dR] and d = publication_child(2) [OF dR pid] publication_child(2) [OF dS pid] mirror_temp(2,4) [OF dR pid]
  have dp: "dir_path (child ?R ''_publications'')" using at(3) by (simp add: place_def)
  have S_o: "apart_dirs ?o ?R" using place_apart [OF mirror_places(4) [OF pid dS] dS dR] apart by (metis apart_dirs_sym)
  have away: "apart_dirs ?o ?m" "apart_dirs ?o (mirror_dir ?R)" "apart_dirs ?m (child ?R ''_publications'')" "apart_dirs ?m ?f"
    using place_apart [OF at(1) dR d(2) S_o] place_apart [OF at(2) dR d(2) S_o] places_apart [OF at(1) at(3)] places_apart [OF at(1) at(4)] by auto
  have wfs: "smap_wf t1" "smap_wf (remove_all ?m t1)" "smap_wf t3" "smap_wf t4" "smap_wf t5" "smap_wf (remove_all ?f t5)" "smap_wf t7"
    using wf wf_after [OF wf_tree_ops(1) t1] wf_after [OF wf_tree_ops(1) t3] wf_after [OF wf_tree_ops(5) t4] wf_after [OF wf_tree_ops(1) t5]
      wf_after [OF wf_tree_ops(7) t7] wf_tree_ops(3) by (auto simp: stays_map_def)
  have o3: "contents ?o t3 = contents ?o t"
    using mkdirs_apart [OF t1 S_o d(2) dR] remove_all_apart [OF away(1) d(2,3)] mkdirs_apart [OF t3 away(2) d(2,4)] d(2) wf wfs(3)
    by (intro contents_kept) simp_all
  have free: "\<forall>x. is_suffix x \<longrightarrow> smap_find t3 (?m @ x) = None"
    using mkdirs_longer [OF t3] remove_all_find [OF d(3)] by (simp add: child_def)
  note copy = copy_tree_fresh [OF t4 d(2,3) wfs(3) free]
  have m5: "contents ?m (remove_all ?f t5) = contents ?m t4"
    using mkdirs_apart [OF t5 away(3) d(3) dp] remove_all_apart [OF away(4) d(3,1)] d(3) wfs by (intro contents_kept) simp_all
  note move = rename_tree_moved [OF t7 d(3,1) wfs(6) away(4)]
  have f7: "contents ?f t7 = contents ?m t4" using move(1) m5 by simp
  have "VerifyPublicationSnapshot env ?f publication t7 = Inr ()"
    using VerifyPublicationSnapshot_contents [OF f7 d(3,1) wfs(4,7)] verified by simp
  moreover have "smap_find t7 (child ?R e @ x) = smap_find t (child ?R e @ x)"
    if e: "e \<noteq> ''_tmp''" "e \<noteq> ''_publications''" "entry_name e" and x: "is_suffix x" for e x
  proof -
    note p = at(5) [OF e(3)] and de = dir_path_of_child [OF e(3), of ?R]
    note off = places_apart [OF p at(1) e(1)] places_apart [OF p at(2) e(1)] places_apart [OF p at(3) e(2)] places_apart [OF p at(4) e(2)]
    have "smap_find t1 (child ?R e @ x) = smap_find t (child ?R e @ x)" using mkdirs_Inr_find [OF t1, of "child ?R e @ x"] child_away [of ?R e x] by simp
    then show ?thesis
      using move(2) [OF off(1,4) de x] remove_all_apart [OF off(4) de d(1) x, of t5] mkdirs_apart [OF t5 off(3) de dp x] copy(2) [OF off(1) de x]
        mkdirs_apart [OF t3 off(2) de d(4) x] remove_all_apart [OF off(1) de d(3) x, of t1] by simp
  qed
  ultimately show thesis using that [OF u wfs(7)] f7 copy(1) o3 by simp
qed

text \<open>
  \<^bold>\<open>C17.\<close> The mirror is faithful. When a synchronisation copies a publication whose id is a plain name from a source apart
  from the target, then afterwards the target's copy of the publication has exactly the contents the source's had, it passes
  the verification against the publication's manifest, and the target serves exactly it: configuration, index,
  artifacts, trust metadata and log.
\<close>

theorem mirror_publication_faithful:
  assumes "mirror_publication env config pid publication t = (Inr r, u)" and "smap_wf t"
    and "dir_path (pe_root config)" and "dir_path (rg_mirror_source_root (cfg_registry config))"
    and "apart_dirs (rg_mirror_source_root (cfg_registry config)) (pe_root config)" and "entry_name pid" and "config_is_file (pe_root config) t"
  shows "contents (publication_root (pe_root config) pid) u = contents (publication_root (rg_mirror_source_root (cfg_registry config)) pid) t
    \<and> VerifyPublicationSnapshot env (publication_root (pe_root config) pid) publication u = Inr ()
    \<and> (\<forall>e \<in> set (''config.json'' # read_plane). contents (child (pe_root config) e) u
         = present_contents (child (publication_root (rg_mirror_source_root (cfg_registry config)) pid) e) t)"
proof -
  let ?R = "pe_root config" and ?S = "rg_mirror_source_root (cfg_registry config)"
  from assms(1-6) obtain v where v: "MaterializePublication (publication_root ?R pid) ?R v = (Inr r, u)" "smap_wf v"
    "contents (publication_root ?R pid) v = contents (publication_root ?S pid) t" "VerifyPublicationSnapshot env (publication_root ?R pid) publication v = Inr ()"
    and other: "\<And>e x. e \<noteq> ''_tmp'' \<Longrightarrow> e \<noteq> ''_publications'' \<Longrightarrow> entry_name e \<Longrightarrow> is_suffix x \<Longrightarrow> smap_find v (child ?R e @ x) = smap_find t (child ?R e @ x)"
    by (rule mirror_copied) blast
  have "config_is_file ?R v"
    using other [of "''config.json''"] assms(7) by (auto simp: config_is_file_def child_def entry_name_def)
  note served = materialized [OF v(1,2) assms(3,6) this]
  note d = publication_child(2) [OF assms(3,6)] publication_child(2) [OF assms(4,6)]
  have wf: "smap_wf u" by (rule wf_after [OF framed_materialize v(1,2)])
  have same: "contents (publication_root ?R pid) u = contents (publication_root ?R pid) v"
    using d(1) v(2) wf served(2) place_outside [OF mirror_places(4) [OF assms(6,3)]] by (intro contents_kept) (auto simp: read_plane_def)
  have "present_contents (child (publication_root ?R pid) e) v = present_contents (child (publication_root ?S pid) e) t" if "e \<in> set (''config.json'' # read_plane)" for e
    by (rule present_contents_moved [OF contents_child [OF v(3) d(2,1) assms(2) v(2)]]) (rule plane_names(1) dir_path_of_child that)+
  then show ?thesis using served(1) same v(3,4) VerifyPublicationSnapshot_contents [OF same d(1,1) v(2) wf] by simp
qed

text \<open>A source below \<^verbatim>\<open>/s\<close> with one publication, mirrored to an empty target below \<^verbatim>\<open>/r\<close>.\<close>

definition mirror_tree :: tree where
  "mirror_tree = [(''/s'', Directory), (''/s/_publications'', Directory), (''/s/_publications/p'', Directory),
     (''/s/_publications/p/config.json'', Regular ''c''), (''/s/_publications/p/publication.json'', Regular ''p''),
     (''/s/_publications/p/trust'', Directory), (''/s/_publications/p/trust/root.json'', Regular ''k'')]"

definition mirror_config :: PlatformConfig where
  "mirror_config = default_config\<lparr>cfg_registry := default_registry\<lparr>rg_root := ''/r'', rg_mirror_source_root := ''/s''\<rparr>\<rparr>"

definition mirrored_json :: "string \<Rightarrow> string \<Rightarrow> json" where
  "mirrored_json index_digest trust_digest =
     json_obj [(''index_digest'', JString index_digest), (''trust_digest'', JString trust_digest), (''verified'', JBool True)]"

definition mirror_staged :: tree where
  "mirror_staged = [(''/r'', Directory), (''/r/_tmp'', Directory), (''/r/_tmp/mirror'', Directory), (''/r/_tmp/mirror/p'', Directory),
     (''/r/_tmp/mirror/p/config.json'', Regular ''c''), (''/r/_tmp/mirror/p/publication.json'', Regular ''p''),
     (''/r/_tmp/mirror/p/trust'', Directory), (''/r/_tmp/mirror/p/trust/root.json'', Regular ''k'')] @ mirror_tree"

lemma mirror_staging:
  "s_bind (mkdirs ''/r'') (\<lambda>_. s_bind (s_change (remove_all ''/r/_tmp/mirror/p'')) (\<lambda>_. s_bind (mkdirs ''/r/_tmp/mirror'')
     (\<lambda>_. copy_tree (RuntimeError ''mirror publication copy failed: '') ''/s/_publications/p'' ''/r/_tmp/mirror/p''))) mirror_tree = (Inr (), mirror_staged)"
  "case s_bind (mkdirs ''/r/_publications'') (\<lambda>_. s_bind (s_change (remove_all ''/r/_publications/p'')) (\<lambda>_.
     s_bind (rename_tree (RuntimeError ''mirror publication activation failed: '') ''/r/_tmp/mirror/p'' ''/r/_publications/p'') (\<lambda>_.
     MaterializePublication ''/r/_publications/p'' ''/r''))) mirror_staged of (Inr _, u) \<Rightarrow> True | _ \<Rightarrow> False"
  "sort_key path_elements (files_below mirror_staged ''/r/_tmp/mirror/p/trust'') = [''/r/_tmp/mirror/p/trust/root.json'']"
  "relative_to ''/r/_tmp/mirror/p/trust'' ''/r/_tmp/mirror/p/trust/root.json'' = ''root.json''"
  "CountRegularFiles ''/r/_tmp/mirror/p/artifacts'' mirror_staged = 0" "CountLogLeaves ''/r/_tmp/mirror/p'' mirror_staged = 0"
  "path_parent ''/r/_tmp/mirror/p'' = ''/r/_tmp/mirror''" "path_parent ''/r/_publications/p'' = ''/r/_publications''"
  by code_simp+

lemma mirror_roots: "rg_root (cfg_registry mirror_config) = ''/r''" "rg_mirror_source_root (cfg_registry mirror_config) = ''/s''"
  by (simp_all add: mirror_config_def)

lemma mirror_verified:
  obtains i k where "VerifyPublicationSnapshot demo_plane ''/r/_tmp/mirror/p'' (mirrored_json i k) mirror_staged = Inr ()"
proof -
  let ?m = "''/r/_tmp/mirror/p''"
  have paths: "path_div ?m ''config.json'' = ''/r/_tmp/mirror/p/config.json''" "path_div ''/r/_tmp/mirror/p/trust'' ''root.json'' = ''/r/_tmp/mirror/p/trust/root.json''"
    "path_div ?m ''publication.json'' = ''/r/_tmp/mirror/p/publication.json''" "path_div ?m ''artifacts'' = ''/r/_tmp/mirror/p/artifacts''"
    "path_div ?m ''index'' = ''/r/_tmp/mirror/p/index''" "path_div ?m ''trust'' = ''/r/_tmp/mirror/p/trust''"
    by (simp_all add: path_div_def)
  have root_json: "tree_text mirror_staged ''/r/_tmp/mirror/p/trust/root.json'' = Some ''k''" by (simp add: mirror_staged_def tree_text_def)
  obtain d where "sha256_file (smap_find mirror_staged) ''/r/_tmp/mirror/p/trust/root.json'' = Inr d" using sha256_file_exists [OF root_json] by blast
  moreover have there: "tree_exists mirror_staged ''/r/_tmp/mirror/p/trust''" "\<not> tree_exists mirror_staged ''/r/_tmp/mirror/p/index''"
    "tree_exists mirror_staged ''/r/_tmp/mirror/p/config.json''" "tree_exists mirror_staged ''/r/_tmp/mirror/p/publication.json''"
    "tree_exists mirror_staged ''/r/_tmp/mirror/p/trust/root.json''" by code_simp+
  ultimately obtain i k where "DirectoryDigest codec (te_sha256 demo_trust) ''/r/_tmp/mirror/p/index'' mirror_staged = Inr i"
      "DirectoryDigest codec (te_sha256 demo_trust) ''/r/_tmp/mirror/p/trust'' mirror_staged = Inr k"
    by (simp add: DirectoryDigest_def digest_entry_def mirror_staging CanonicalJson_def codec_dump_def exact_obj)
  then have "VerifyPublicationSnapshot demo_plane ?m (mirrored_json i k) mirror_staged = Inr ()"
    by (simp add: VerifyPublicationSnapshot_def digest_matches_def paths there mirror_staging mirrored_json_def json_obj_def smap_contains_def to_int32_def guard_err_def)
  then show thesis by (rule that)
qed

theorem mirror_publication_faithful_witness:
  "\<exists>publication u. mirror_publication demo_plane mirror_config ''p'' publication mirror_tree = (Inr (), u)
     \<and> smap_find u ''/r/_publications/p/trust/root.json'' = Some (Regular ''k'') \<and> smap_find u ''/r/trust/root.json'' = Some (Regular ''k'')"
proof -
  obtain i k where ok: "VerifyPublicationSnapshot demo_plane ''/r/_tmp/mirror/p'' (mirrored_json i k) mirror_staged = Inr ()" by (rule mirror_verified)
  obtain v where v: "s_bind (mkdirs ''/r/_publications'') (\<lambda>_. s_bind (s_change (remove_all ''/r/_publications/p'')) (\<lambda>_.
     s_bind (rename_tree (RuntimeError ''mirror publication activation failed: '') ''/r/_tmp/mirror/p'' ''/r/_publications/p'') (\<lambda>_.
     MaterializePublication ''/r/_publications/p'' ''/r''))) mirror_staged = (Inr (), v)"
    using mirror_staging(2) by (auto split: prod.splits sum.splits)
  have run: "mirror_publication demo_plane mirror_config ''p'' (mirrored_json i k) mirror_tree = (Inr (), v)"
    using mirror_staging(1) v ok
    by (simp add: mirror_publication_def mirror_roots publication_root_def path_div_def mirror_staging(7,8) Let_def s_bind_Inr sm_simps) blast
  have side: "smap_wf mirror_tree" "dir_path ''/r''" "dir_path ''/s''" "apart_dirs ''/s'' ''/r''" "entry_name ''p''" "config_is_file ''/r'' mirror_tree"
    by (simp_all add: mirror_tree_def smap_wf_simps dir_path_def entry_name_def apart_dirs_def below_def dir_prefix_def path_div_def config_is_file_def child_def)
  have roots: "publication_root ''/r'' ''p'' = ''/r/_publications/p''" "publication_root ''/s'' ''p'' = ''/s/_publications/p''"
    by (simp_all add: publication_root_def path_div_def)
  have all: "contents ''/r/_publications/p'' v = contents ''/s/_publications/p'' mirror_tree"
      "contents ''/r/trust'' v = present_contents ''/s/_publications/p/trust'' mirror_tree"
    using mirror_publication_faithful [OF run] side by (auto simp: mirror_roots roots read_plane_def child_def)
  have trust: "present_contents ''/s/_publications/p/trust'' mirror_tree = contents ''/s/_publications/p/trust'' mirror_tree"
    by (simp add: present_contents_def tree_exists_def smap_contains_def mirror_tree_def)
  have "smap_find v ''/r/_publications/p/trust/root.json'' = Some (Regular ''k'')" "smap_find v ''/r/trust/root.json'' = Some (Regular ''k'')"
    using contents_eqD [OF all(1), of "''/trust/root.json''"] contents_eqD [OF all(2) [unfolded trust], of "''/root.json''"]
    by (simp_all add: dir_path_def mirror_tree_def)
  with run show ?thesis by blast
qed

end
