(* ===== verification/Registry_Immutable.thy ===== *)
theory Registry_Immutable
  imports Registry_Append Registry_Repositories Memory_Laws
begin

text \<open>
  Which files of the registry its handlers leave alone. Every computation on the tree is shown to
  keep the files that lie apart from what it writes, by the rules of the locale \<open>frame\<close>; the
  publications below \<^verbatim>\<open>_publications\<close> are such files for all handlers.
\<close>

section \<open>Keys and signatures\<close>

lemma role_names: "role \<in> set RegistryRoleNames \<Longrightarrow> role \<noteq> [] \<and> \<not> path_absolute (role @ x)"
  by (auto simp: RegistryRoleNames_def)

lemma keeps_generate_role_key:
  assumes env: "openssl_local env" and P: "apart P (dir_prefix key_dir)" and role: "role \<in> set RegistryRoleNames"
  shows "framed (keeps P) (generate_role_key env key_dir role roles)"
proof -
  have "starts_with (path_div (path_div key_dir d) (role @ ''.pem'')) (dir_prefix key_dir)" if "d = ''private'' \<or> d = ''public''" for d
    using that role_names [OF role] by (auto simp: path_simps)
  then have "\<not> P (path_div (path_div key_dir ''private'') (role @ ''.pem''))" "\<not> P (path_div (path_div key_dir ''public'') (role @ ''.pem''))"
    using P by (auto simp: apart_def)
  then show ?thesis
    unfolding generate_role_key_def Let_def RegistryFileKeyId_def
    by (intro kt.framed_intros keeps_openssl env) (auto split: if_splits)
qed

lemma keeps_generate_role_keys:
  assumes "openssl_local env" "apart P (dir_prefix key_dir)"
  shows "set roles \<subseteq> set RegistryRoleNames \<Longrightarrow> framed (keeps P) (generate_role_keys env key_dir roles j)"
proof (induction roles arbitrary: j)
  case (Cons r roles)
  then show ?case by (auto intro!: kt.framed_intros keeps_generate_role_key assms)
qed (simp add: kt.framed_intros)

lemma key_file_apart: "apart P (dir_prefix key_dir) \<Longrightarrow> \<not> P (path_div key_dir ''keys.json'')"
  by (auto simp: apart_def path_div_rel)

lemma keeps_LoadOrCreate:
  assumes "openssl_local env" "apart P (dir_prefix key_dir)"
  shows "framed (keeps P) (LoadOrCreateRegistryRoleKeys env key_dir)"
  unfolding LoadOrCreateRegistryRoleKeys_def GenerateRegistryKeyDirectory_def Let_def
  by (intro kt.framed_intros keeps_mkdirs keeps_generate_role_keys keeps_write_json key_file_apart assms) auto

text \<open>The keys that are loaded carry the names of the roles.\<close>

definition named_keys :: "(string, RegistryRoleKey) smap \<Rightarrow> bool" where
  "named_keys keys \<longleftrightarrow> (\<forall>k \<in> set (smap_values keys). rr_role k \<in> set RegistryRoleNames)"

lemma smap_values_put: "set (smap_values (smap_put k v m)) \<subseteq> insert v (set (smap_values m))"
  by (induction m) (force simp: smap_values_def split: if_splits)+

lemma LoadOrCreate_named: "LoadOrCreateRegistryRoleKeys env key_dir t = (Inr keys, u) \<Longrightarrow> named_keys keys"
proof -
  assume "LoadOrCreateRegistryRoleKeys env key_dir t = (Inr keys, u)"
  then obtain manifest v loaded where loaded: "rmap (load_role_key key_dir manifest v) RegistryRoleNames = Inr loaded"
    and keys: "keys = foldl (\<lambda>m e. smap_put (fst e) (snd e) m) [] loaded"
    by (auto simp: LoadOrCreateRegistryRoleKeys_def Let_def s_bind_Inr sm_simps result_simps)
  have "rr_role (snd e) \<in> set RegistryRoleNames" if "e \<in> set loaded" for e
    using rmap_in [OF loaded that] by (auto simp: load_role_key_def result_simps)
  moreover have "set (smap_values (foldl (\<lambda>m e. smap_put (fst e) (snd e) m) m es)) \<subseteq> snd ` set es \<union> set (smap_values m)"
    for es and m :: "(string, RegistryRoleKey) smap"
    by (induction es arbitrary: m) (use smap_values_put in \<open>fastforce+\<close>)
  from this [of "[]" loaded] have "set (smap_values keys) \<subseteq> snd ` set loaded" by (simp add: keys smap_values_def)
  ultimately show ?thesis by (auto simp: named_keys_def)
qed

lemma role_key_named: "named_keys keys \<Longrightarrow> role_key keys role = Inr k \<Longrightarrow> rr_role k \<in> set RegistryRoleNames"
  by (auto simp: named_keys_def role_key_def split: option.splits dest: smap_find_value)

lemma keeps_SignedRegistryPayload:
  assumes env: "openssl_local env" and P: "apart P (dir_prefix temp_root)" and role: "rr_role key \<in> set RegistryRoleNames"
  shows "framed (keeps P) (SignedRegistryPayload env j key temp_root)"
proof -
  obtain m s where ms: "signature_files env key temp_root = (m, s)" by (cases "signature_files env key temp_root")
  then have "starts_with m (dir_prefix temp_root)" "starts_with s (dir_prefix temp_root)"
    using role_names [OF role] by (auto simp: signature_files_def path_div_rel)
  then have "\<not> P m" "\<not> P s" using P by (auto simp: apart_def)
  then show ?thesis
    unfolding SignedRegistryPayload_def ms prod.case sign_message_def drop_signature_files_def
    by (intro kt.framed_intros keeps_mkdirs keeps_WriteTextFile keeps_openssl env kt.R_trans [OF keeps_remove_path keeps_remove_path])
       (auto split: if_splits)
qed

lemma keeps_write_signed:
  assumes "openssl_local env" "apart P (dir_prefix temp_root)" "named_keys keys" "\<not> P p"
  shows "framed (keeps P) (write_signed env keys temp_root role p j)"
  unfolding write_signed_def
proof (rule kt.framed_bind_value [OF kt.framed_basic(3)])
  fix key s t assume "s_lift (role_key keys role) s = (Inr key, t)"
  then have "rr_role key \<in> set RegistryRoleNames" using assms(3) role_key_named by (auto simp: sm_simps)
  then show "framed (keeps P) (s_bind (SignedRegistryPayload env j key temp_root) (write_json (te_json env) p))"
    by (intro kt.framed_intros keeps_SignedRegistryPayload keeps_write_json assms)
qed

section \<open>The signed metadata\<close>

text \<open>Files that are in none of the given places of a registry.\<close>

definition outside :: "fs_path \<Rightarrow> string list \<Rightarrow> (fs_path \<Rightarrow> bool) \<Rightarrow> bool" where
  "outside registry_root places P \<longleftrightarrow> (\<forall>d \<in> set places. apart P (dir_prefix registry_root @ d))"

lemma outside_simps [simp]:
  "outside r [] P" "outside r (d # ds) P \<longleftrightarrow> apart P (dir_prefix r @ d) \<and> outside r ds P"
  by (simp_all add: outside_def)

lemma apart_longer: "apart P d \<Longrightarrow> apart P (d @ x)"
  unfolding apart_def by (metis starts_with_append starts_with_trans)

lemma apart_file: "apart P d \<Longrightarrow> \<not> P (d @ x)"
  unfolding apart_def by (metis starts_with_append)

lemma apart_self: "apart P d \<Longrightarrow> \<not> P d"
  unfolding apart_def by (metis starts_with_refl)

lemma tmp_apart: "apart P (dir_prefix r @ ''_tmp'') \<Longrightarrow> apart P (dir_prefix (path_div r ''_tmp''))"
  using apart_longer [of P "dir_prefix r @ ''_tmp''" "''/''"] by (simp add: path_simps)

lemma keeps_refresh_targets:
  assumes "openssl_local env" "named_keys keys" "outside r [''_tmp'', ''trust/targets/''] P"
  shows "list_all (\<lambda>e. \<not> path_absolute (fst e @ ''.json'')) items \<Longrightarrow> framed (keeps P) (refresh_targets env keys r items meta)"
proof (induction items arbitrary: meta)
  case (Cons e items)
  obtain n m where e: "e = (n, m)" by (cases e)
  have "\<not> P (targets_path r n)"
    using assms(3) Cons.prems apart_file [of P "dir_prefix r @ ''trust/targets/''" "n @ ''.json''"]
    by (simp add: targets_path_def path_simps e)
  then show ?case
    unfolding e refresh_targets.simps Let_def
    using Cons assms tmp_apart by (intro kt.framed_intros keeps_write_signed Cons.IH) auto
qed (simp add: kt.framed_intros)

lemma keeps_refresh_checkpoint:
  assumes "openssl_local env" "named_keys keys" "outside r [''_tmp'', ''log/checkpoint.json''] P"
  shows "framed (keeps P) (refresh_checkpoint env keys r now)"
  using assms tmp_apart apart_self [of P "dir_prefix r @ ''log/checkpoint.json''"] unfolding refresh_checkpoint_def
  by (intro kt.framed_intros keeps_write_signed) (simp_all add: checkpoint_path_def path_simps)

lemma keeps_refresh_snapshot:
  assumes "openssl_local env" "named_keys keys" "outside r [''_tmp'', ''trust/snapshot.json''] P"
  shows "framed (keeps P) (refresh_snapshot env keys r version meta)"
  using assms tmp_apart apart_self [of P "dir_prefix r @ ''trust/snapshot.json''"] unfolding refresh_snapshot_def
  by (intro kt.framed_intros keeps_write_signed) (simp_all add: trust_path_def path_simps)

lemma keeps_refresh_timestamp:
  assumes "openssl_local env" "named_keys keys" "outside r [''_tmp'', ''trust/timestamp.json''] P"
  shows "framed (keeps P) (refresh_timestamp env keys r version)"
  using assms tmp_apart apart_self [of P "dir_prefix r @ ''trust/timestamp.json''"] unfolding refresh_timestamp_def
  by (intro kt.framed_intros keeps_write_signed) (simp_all add: trust_path_def path_simps)

lemma sanitized_relative: "\<not> path_absolute (SanitizePathSegment x @ y)"
proof (cases x)
  case (Cons c cs)
  have "segment_char c \<Longrightarrow> c \<noteq> CHR ''/''" by (auto simp: segment_char_def char_class_defs)
  then show ?thesis by (auto simp: Cons SanitizePathSegment_def Let_def)
qed (simp add: SanitizePathSegment_def)

definition plain_namespaces :: "json \<Rightarrow> bool" where
  "plain_namespaces j \<longleftrightarrow> is_object j \<and> list_all (\<lambda>e. \<not> path_absolute (fst e @ ''.json'')) (json_items j)"

lemma plain_namespaces_set:
  assumes "plain_namespaces j" "\<not> path_absolute (k @ ''.json'')"
  shows "plain_namespaces (json_set k v j)"
proof -
  obtain m where m: "j = JObject m" using assms(1) by (cases j) (auto simp: plain_namespaces_def)
  have keys: "list_all (\<lambda>e. \<not> path_absolute (fst e @ ''.json'')) n \<longleftrightarrow> (\<forall>k \<in> fst ` set n. \<not> path_absolute (k @ ''.json''))"
    for n :: "(string \<times> json) list"
    by (auto simp: list_all_iff)
  from assms show ?thesis by (simp add: plain_namespaces_def m keys smap_keys_put)
qed

lemma first_part_relative: "first_part package = Inr n \<Longrightarrow> \<not> path_absolute (n @ x)"
  by (auto simp: first_part_def SplitPackageName_def sanitized_relative split: list.splits)

lemma collect_plain:
  assumes "collect_index_file env r t maps p = Inr maps'" "plain_namespaces (pm_namespace_packages maps)"
  shows "plain_namespaces (pm_namespace_packages maps')"
proof -
  obtain rs where rs: "index_records (te_json env) (tree_text t p) = Inr rs"
    using assms(1) by (auto simp: collect_index_file_def rbind_eq_Inr)
  then obtain first rest where records: "index_records (te_json env) (tree_text t p) = Inr (first # rest)"
    using assms(1) by (cases rs) (auto simp: collect_index_file_def)
  obtain package n j where "first_part package = Inr n" "pm_namespace_packages maps' = json_set n j (pm_namespace_packages maps)"
    using assms(1) by (auto simp: collect_index_file_def records result_simps Let_def)
  with assms(2) show ?thesis by (simp add: plain_namespaces_set first_part_relative)
qed

lemma rfold_invariant:
  assumes "\<And>acc x acc'. I acc \<Longrightarrow> f acc x = Inr acc' \<Longrightarrow> I acc'"
  shows "I acc \<Longrightarrow> rfold f acc xs = Inr y \<Longrightarrow> I y"
  by (induction xs arbitrary: acc) (auto simp: result_simps intro: assms)

lemma CollectPackageMaps_plain: "CollectPackageMaps env r t = Inr maps \<Longrightarrow> plain_namespaces (pm_namespace_packages maps)"
proof -
  have "plain_namespaces (pm_namespace_packages empty_maps)" by (simp add: empty_maps_def plain_namespaces_def json_obj_def)
  then show "CollectPackageMaps env r t = Inr maps \<Longrightarrow> ?thesis"
    using rfold_invariant [of "\<lambda>maps. plain_namespaces (pm_namespace_packages maps)", OF collect_plain]
    by (auto simp: CollectPackageMaps_def Let_def split: if_splits)
qed

lemma keeps_Refresh:
  assumes "openssl_local env" "named_keys keys"
    and "outside (rg_root (cfg_registry config)) [''_tmp'', ''trust/'', ''log/checkpoint.json''] P"
  shows "framed (keeps P) (RefreshSignedRegistryMetadata env config keys now)"
  unfolding RefreshSignedRegistryMetadata_def Let_def
proof (rule kt.framed_bind_value [OF kt.framed_basic(4)], rule kt.framed_bind_value [OF kt.framed_basic(3)])
  let ?r = "rg_root (cfg_registry config)"
  fix maps s t maps' s' t' assume "s_reads (CollectPackageMaps env ?r) s = (Inr maps, t)" "s_lift maps s' = (Inr maps', t')"
  then have "list_all (\<lambda>e. \<not> path_absolute (fst e @ ''.json'')) (json_items (pm_namespace_packages maps'))"
    using CollectPackageMaps_plain by (auto simp: sm_simps plain_namespaces_def)
  moreover have "apart P (dir_prefix ?r @ ''trust/'' @ x)" for x using assms(3) apart_longer [of P "dir_prefix ?r @ ''trust/''" x] by simp
  from this [of "''targets/''"] this [of "''snapshot.json''"] this [of "''timestamp.json''"]
  have "outside ?r [''trust/targets/'', ''trust/snapshot.json'', ''trust/timestamp.json''] P" by simp
  moreover have "keeps P t (remove_all (path_div ?r ''_tmp'') t)" for t
    using assms(3) by (intro keeps_remove_all) (simp add: path_simps)
  ultimately show "framed (keeps P)
       (s_bind (refresh_targets env keys ?r (json_items (pm_namespace_packages maps')) (pm_snapshot_meta maps')) (\<lambda>meta.
        s_bind (refresh_checkpoint env keys ?r now) (\<lambda>checkpoint_version.
        s_bind (refresh_snapshot env keys ?r checkpoint_version meta) (\<lambda>snapshot_version.
        s_bind (refresh_timestamp env keys ?r snapshot_version) (\<lambda>timestamp_version.
        s_bind (s_change (remove_all (path_div ?r ''_tmp''))) (\<lambda>_.
        s_return \<lparr>mv_checkpoint_version = checkpoint_version, mv_snapshot_version = snapshot_version,
          mv_timestamp_version = timestamp_version, mv_namespaces = length (json_items (pm_namespace_packages maps'))\<rparr>))))))"
    using assms
    by (intro kt.framed_intros keeps_refresh_targets keeps_refresh_checkpoint keeps_refresh_snapshot keeps_refresh_timestamp) simp_all
qed

lemma keeps_Ensure:
  assumes "openssl_local env"
    and "outside (rg_root (cfg_registry config)) [''_tmp'', ''trust/'', ''log/checkpoint.json'', ''config.json''] P"
    and "apart P (dir_prefix (rg_key_dir (cfg_registry config)))"
  shows "framed (keeps P) (EnsureRegistryRootInitialized env config)"
proof -
  let ?r = "rg_root (cfg_registry config)"
  have files: "\<not> P (path_div ?r ''config.json'')" "\<not> P (checkpoint_path ?r)"
    using assms(2) by (simp_all add: path_simps checkpoint_path_def apart_self)
  have trust: "\<not> P (trust_path ?r x)" if "\<not> path_absolute x" for x
    using assms(2) that apart_file [of P "dir_prefix ?r @ ''trust/''" x] by (simp add: trust_path_def path_simps)
  have tmp: "keeps P t (remove_all (path_div ?r ''_tmp'') t)" for t
    using assms(2) by (intro keeps_remove_all) (simp add: path_simps)
  have temp: "apart P (dir_prefix (path_div ?r ''_tmp''))" using assms(2) tmp_apart by simp
  show ?thesis
    unfolding EnsureRegistryRootInitialized_def Let_def unless_exists_def
    by (rule kt.framed_bind [OF keeps_mkdirs], rule kt.framed_bind [OF keeps_mkdirs],
        rule kt.framed_bind_value [OF keeps_LoadOrCreate [OF assms(1,3)]])
       (intro kt.framed_intros keeps_write_json keeps_write_signed files trust tmp temp assms(1); (erule LoadOrCreate_named | simp))
qed

section \<open>Adding and publishing\<close>

lemma keeps_Append:
  assumes "outside (rg_root (cfg_registry config)) [''artifacts/'', ''index/'', ''log/leaves/''] P"
  shows "framed (keeps P) (AppendRegistryReleaseToLocal env config draft j (artifact_path_for sha))"
proof -
  let ?r = "rg_root (cfg_registry config)"
  have "\<not> P (path_div ?r (artifact_path_for sha))" "\<not> P (index_file ?r (pd_package draft))" "\<not> P (path_div ?r (leaf_path n))" for n
    using assms artifact_file_eq [of ?r sha] index_file_eq [of ?r "pd_package draft"] leaf_file_eq [of ?r n]
      apart_file [of P "dir_prefix ?r @ ''artifacts/''"] apart_file [of P "dir_prefix ?r @ ''index/''"]
      apart_file [of P "dir_prefix ?r @ ''log/leaves/''"] by auto
  then show ?thesis
    unfolding AppendRegistryReleaseToLocal_def place_artifact_def Let_def
    by (intro kt.framed_intros keeps_mkdirs keeps_copy_file keeps_AppendJsonLine keeps_write_json)
qed

lemma keeps_CopyReadPlane:
  assumes "apart P (dir_prefix dest)"
  shows "framed (keeps P) (CopyRegistryReadPlaneTo source dest)"
proof -
  have "apart P (path_div dest x) \<and> \<not> P (path_div dest x)" if "\<not> path_absolute x" for x
    using that assms apart_longer [of P "dir_prefix dest" x] apart_file [of P "dir_prefix dest" x] by (simp add: path_div_rel)
  then show ?thesis
    unfolding CopyRegistryReadPlaneTo_def read_plane_def
    by (intro kt.framed_intros keeps_mkdirs keeps_copy_tree keeps_copy_file) auto
qed

definition plain_id :: "string \<Rightarrow> bool" where
  "plain_id x \<longleftrightarrow> x \<noteq> [] \<and> \<not> path_absolute x \<and> last x \<noteq> CHR ''/''"

lemma keeps_stage_publication:
  assumes "outside (rg_root (cfg_registry config)) [''_tmp'', ''config.json''] P" and "plain_id publication_id"
  shows "framed (keeps P) (stage_publication env config publication_id version_id now)"
proof -
  let ?r = "rg_root (cfg_registry config)"
  let ?temp = "path_div (path_div (path_div ?r ''_tmp'') ''publications'') publication_id"
  have temp: "?temp = dir_prefix ?r @ ''_tmp/publications/'' @ publication_id" "dir_prefix ?temp = ?temp @ ''/''"
    using assms(2) by (simp_all add: path_simps plain_id_def)
  have ap: "apart P (?temp @ x)" for x
    using assms(1) apart_longer [of P "dir_prefix ?r @ ''_tmp''" "''/publications/'' @ publication_id @ x"] by (simp add: temp(1))
  have files: "\<not> P (path_div ?temp x)" if "\<not> path_absolute x" for x
    using that ap [of "''/'' @ x"] by (simp add: path_div_rel [OF that, of ?temp] temp(2) apart_self)
  have "\<not> P (path_div ?r ''config.json'')" using assms(1) by (simp add: path_div_rel apart_self)
  moreover have "?temp \<noteq> []" "last ?temp \<noteq> CHR ''/''" "publication_root ?r publication_id \<noteq> []" "last (publication_root ?r publication_id) \<noteq> CHR ''/''"
    using assms(2) by (simp_all add: temp publication_root_def path_simps plain_id_def)
  ultimately show ?thesis
    unfolding stage_publication_def Let_def
    using ap [of "[]"] ap [of "''/''"]
    by (intro kt.framed_intros keeps_mkdirs keeps_remove_all keeps_CopyReadPlane keeps_write_json keeps_rename_tree keeps_copy_file files)
       (simp_all add: temp(2))
qed

lemma keeps_update_pointer:
  assumes "outside (rg_root (cfg_registry config)) [''_distributions/''] P"
  shows "framed (keeps P) (update_pointer env config publication_id version_id now)"
  using assms apart_file [of P "dir_prefix (rg_root (cfg_registry config)) @ ''_distributions/''" "''default/current.json''"]
  unfolding update_pointer_def Let_def
  by (intro kt.framed_intros keeps_write_json) (simp add: pointer_path_def path_simps)

section \<open>Routers with a tree\<close>

definition keeps_host :: "(fs_path \<Rightarrow> bool) \<Rightarrow> 'd host router \<Rightarrow> 'd host router \<Rightarrow> bool" where
  "keeps_host P s u \<longleftrightarrow> keeps P (ho_tree (rt_db s)) (ho_tree (rt_db u))"

interpretation kh: frame "keeps_host P" for P
  by unfold_locales (auto simp: keeps_host_def kt.R_refl intro: kt.R_trans)

text \<open>A database call that leaves the directory tree alone.\<close>

definition db_only :: "('d host \<Rightarrow> 'a pg_result \<times> 'd host) \<Rightarrow> bool" where
  "db_only f \<longleftrightarrow> (\<forall>d. ho_tree (snd (f d)) = ho_tree d)"

definition pg_db_only :: "'d host postgres \<Rightarrow> bool" where
  "pg_db_only p \<longleftrightarrow>
     (\<forall>x y. db_only (pg_HasRegistryPackageOwner p x y)) \<and> (\<forall>x. db_only (pg_FindRegistryPublishTokenByHash p x))
     \<and> db_only (pg_NextRegistryAuditEventId p) \<and> (\<forall>x. db_only (pg_RecordRegistryAuditEvent p x))
     \<and> (\<forall>x y. db_only (pg_GetRegistryPackageRelease p x y)) \<and> (\<forall>x. db_only (pg_NextRepositoryVersionSequence p x))
     \<and> (\<forall>x. db_only (pg_UpsertRegistryRepository p x)) \<and> (\<forall>x. db_only (pg_RecordRegistryRepositoryVersion p x))
     \<and> (\<forall>x. db_only (pg_RecordRegistryPublication p x)) \<and> (\<forall>x. db_only (pg_UpsertRegistryDistribution p x))
     \<and> (\<forall>x. db_only (pg_RecordMirrorState p x)) \<and> (\<forall>x. db_only (pg_UpsertRegistryPackage p x))
     \<and> (\<forall>x. db_only (pg_UpsertRegistryPackageRelease p x)) \<and> (\<forall>x. db_only (pg_AddRegistryPackageOwner p x))
     \<and> (\<forall>w x y z. db_only (pg_SetRegistryPackageReleaseYanked p w x y z))"

definition pg_apart :: "'d host postgres option \<Rightarrow> bool" where
  "pg_apart pg \<longleftrightarrow> (case pg of None \<Rightarrow> True | Some p \<Rightarrow> pg_db_only p)"

lemma act_is_sm: "act_bind m f = s_bind m f" "act_return x = s_return x"
  by (rule ext, simp add: act_bind_def s_bind_def act_return_def s_return_def)+

named_theorems host_intros

lemma kh_on_tree [host_intros]: "framed (keeps P) m \<Longrightarrow> framed (keeps_host P) (on_tree m)"
  unfolding framed_def keeps_host_def on_tree_def by (auto split: prod.splits) (metis snd_conv)

lemma kh_from_tree [host_intros]: "framed (keeps_host P) (from_tree f)"
  unfolding from_tree_def by (intro kh_on_tree kt.framed_intros)

lemma kh_memory [host_intros]:
  "framed (keeps_host P) (reading f)" "framed (keeps_host P) (from_memory g)" "framed (keeps_host P) (in_memory h)"
  by (auto simp: framed_def keeps_host_def reading_def from_memory_def in_memory_def kt.R_refl split: prod.splits)

lemma kh_from_pg: "db_only f \<Longrightarrow> framed (keeps_host P) (from_pg f)"
proof -
  assume f: "db_only f"
  have "ho_tree (rt_db (snd (from_pg f s))) = ho_tree (rt_db s)" for s
    using f unfolding db_only_def from_pg_def pg_call_def by (auto split: prod.splits sum.splits) (metis snd_conv)+
  then show ?thesis by (simp add: framed_def keeps_host_def kt.R_refl)
qed

lemma kh_using [host_intros]: "(\<And>x. framed (keeps_host P) (f x)) \<Longrightarrow> framed (keeps_host P) (using_result r f)"
  by (cases r) (auto simp: framed_def using_result_def escape_def keeps_host_def kt.R_refl)

lemma kh_either [host_intros]:
  "(\<And>p. pg = Some p \<Longrightarrow> framed (keeps_host P) (f p)) \<Longrightarrow> framed (keeps_host P) g \<Longrightarrow> framed (keeps_host P) (either_store pg f g)"
  by (auto simp: either_store_def split: option.splits)

lemma kh_in_postgres [host_intros]:
  "(\<And>p. pg = Some p \<Longrightarrow> db_only (f p)) \<Longrightarrow> framed (keeps_host P) (in_postgres pg f)"
  by (auto simp: in_postgres_def split: option.splits intro!: kh.framed_intros kh_from_pg)

lemma kh_success [host_intros]: "framed (keeps_host P) (success message payload)"
  unfolding success_def by (intro kh.framed_intros)

lemma pg_apartD: "pg_apart pg \<Longrightarrow> pg = Some p \<Longrightarrow> pg_db_only p"
  by (simp add: pg_apart_def)

lemma kh_audit [host_intros]: "pg_apart pg \<Longrightarrow> framed (keeps_host P) (RecordRegistryAudit pg env request op target outcome)"
  unfolding RecordRegistryAudit_def act_is_sm Let_def
  by (intro kh.framed_intros host_intros kh_from_pg; drule (1) pg_apartD; simp add: pg_db_only_def)

lemma kh_audited [host_intros]: "pg_apart pg \<Longrightarrow> framed (keeps_host P) (audited_failure pg env request op target outcome response)"
  unfolding audited_failure_def act_is_sm by (intro kh.framed_intros host_intros)

lemma kh_authorized [host_intros]: "pg_apart pg \<Longrightarrow> framed (keeps_host P) (RegistryWriteAuthorized pg env request scope package)"
  unfolding RegistryWriteAuthorized_def identity_grants_def owner_grants_def token_grants_def act_is_sm Let_def
  by (intro kh.framed_intros host_intros kh_from_pg; drule (1) pg_apartD; simp add: pg_db_only_def)

section \<open>Publications\<close>

definition in_publications :: "fs_path \<Rightarrow> fs_path \<Rightarrow> bool" where
  "in_publications registry_root p \<longleftrightarrow> starts_with p (dir_prefix registry_root @ ''_publications/'')"

lemma publications_outside:
  "outside r [''_tmp'', ''trust/'', ''log/checkpoint.json'', ''config.json'', ''artifacts/'', ''index/'', ''log/leaves/'', ''_distributions/'',
     ''_staging/'', ''_release_channels/'', ''index'', ''artifacts'', ''trust'', ''log''] (in_publications r)"
  by (auto simp: apart_def in_publications_def starts_with_iff)

lemma slash_free_plain: "x \<noteq> [] \<Longrightarrow> CHR ''/'' \<notin> set x \<Longrightarrow> plain_id x"
  unfolding plain_id_def path_absolute_def by (metis hd_in_set last_in_set)

lemma publication_id_plain: "plain_id (''pub-'' @ PaddedNumber n w)"
proof -
  have "set (PaddedNumber n w) \<subseteq> digit_char ` {..<10}" using PaddedNumber_decimal by (simp add: decimal_def)
  moreover have "\<forall>d \<in> set [0..<10]. digit_char d \<noteq> CHR ''/''" by code_simp
  ultimately have "CHR ''/'' \<notin> set (PaddedNumber n w)" by (fastforce simp: atLeast_upt)
  then show ?thesis by (intro slash_free_plain) auto
qed

lemma kh_RecordMirror [host_intros]: "pg_apart pg \<Longrightarrow> framed (keeps_host P) (RecordMirror pg config f c i v s n)"
  unfolding RecordMirror_def Let_def
  by (intro kh.framed_intros host_intros; drule (1) pg_apartD; simp add: pg_db_only_def)

lemma kh_record_publication:
  assumes "\<And>x. framed (keeps_host P) (f x)" "\<And>x. framed (keeps_host P) (g x)" "\<And>x. framed (keeps_host P) (h x)" "\<And>x. framed (keeps_host P) (k x)"
  shows "framed (keeps_host P) (record_publication env config final_root n i v kind ref now previous bytes f g h k)"
  unfolding record_publication_def by (intro kh.framed_intros host_intros kt.framed_intros assms)

lemma kh_Create:
  assumes pg: "pg_apart pg"
  shows "framed (keeps_host (in_publications (rg_root (cfg_registry config)))) (CreateRegistryPublication pg env config kind ref now)"
proof -
  let ?r = "rg_root (cfg_registry config)"
  note out = publications_outside [of ?r]
  have stage: "framed (keeps (in_publications ?r)) (stage_publication env config (''pub-'' @ PaddedNumber n w) v now)" for n w v
    using out by (intro keeps_stage_publication publication_id_plain) simp
  have pointer: "framed (keeps (in_publications ?r)) (update_pointer env config i v now)" for i v
    using out by (intro keeps_update_pointer) simp
  show ?thesis
    unfolding CreateRegistryPublication_def Let_def
    by (intro kh.framed_intros host_intros kt.framed_intros keeps_mkdirs stage pointer kh_record_publication kh_from_pg pg;
        drule pg_apartD [OF pg]; simp add: pg_db_only_def)
qed

lemma keeps_draft:
  assumes "outside (rg_root (cfg_registry config)) [''_staging/''] P"
  shows "framed (keeps P) (BuildPublishDraft env body config identity)"
proof -
  have "\<not> P (path_div (path_div (rg_root (cfg_registry config)) ''_staging'') (SanitizePathSegment x @ y))" for x y
    using assms apart_file [of P "dir_prefix (rg_root (cfg_registry config)) @ ''_staging/''" "SanitizePathSegment x @ y"]
    by (simp add: path_simps sanitized_relative)
  then show ?thesis
    unfolding BuildPublishDraft_def staged_archive_def Let_def
    by (intro kt.framed_intros keeps_mkdirs keeps_put_file) simp_all
qed

lemma kh_record_release [host_intros]: "pg_apart pg \<Longrightarrow> framed (keeps_host P) (record_release pg env request draft j sha payload)"
  unfolding record_release_def Let_def
  by (intro kh.framed_intros host_intros; drule (1) pg_apartD; simp add: pg_db_only_def)

text \<open>The conditions under which the registry runs: a local object store, a key directory apart from the
  publications, programs and a database that touch no other files.\<close>

definition plane_ok :: "'d host postgres option \<Rightarrow> plane_env \<Rightarrow> PlatformConfig \<Rightarrow> bool" where
  "plane_ok pg env config \<longleftrightarrow> pg_apart pg \<and> openssl_local (pe_trust env) \<and> \<not> UsesS3ObjectStore config
     \<and> apart (in_publications (rg_root (cfg_registry config))) (dir_prefix (rg_key_dir (cfg_registry config)))"

lemma kh_keys:
  assumes "plane_ok pg env config" and "\<And>keys. named_keys keys \<Longrightarrow> framed (keeps_host (in_publications (rg_root (cfg_registry config)))) (f keys)"
  shows "framed (keeps_host (in_publications (rg_root (cfg_registry config))))
    (s_bind (on_tree (LoadOrCreateRegistryRoleKeys (pe_trust env) (rg_key_dir (cfg_registry config)))) f)"
proof (rule kh.framed_bind_value)
  show "framed (keeps_host (in_publications (rg_root (cfg_registry config)))) (on_tree (LoadOrCreateRegistryRoleKeys (pe_trust env) (rg_key_dir (cfg_registry config))))"
    using assms(1) by (intro kh_on_tree keeps_LoadOrCreate) (simp_all add: plane_ok_def)
  fix keys s t assume "on_tree (LoadOrCreateRegistryRoleKeys (pe_trust env) (rg_key_dir (cfg_registry config))) s = (Inr keys, t)"
  then have "named_keys keys" using LoadOrCreate_named by (auto simp: on_tree_def split: prod.splits)
  then show "framed (keeps_host (in_publications (rg_root (cfg_registry config)))) (f keys)" by (rule assms(2))
qed

lemma keeps_publication_steps:
  assumes "plane_ok pg env config"
  shows "framed (keeps (in_publications (rg_root (cfg_registry config)))) (EnsureRegistryRootInitialized (pe_trust env) config)"
    and "framed (keeps (in_publications (rg_root (cfg_registry config)))) (AppendRegistryReleaseToLocal env config draft j (artifact_path_for sha))"
    and "named_keys keys \<Longrightarrow> framed (keeps (in_publications (rg_root (cfg_registry config)))) (RefreshSignedRegistryMetadata (pe_trust env) config keys now)"
  using assms publications_outside [of "rg_root (cfg_registry config)"]
  by (auto simp: plane_ok_def intro!: keeps_Ensure keeps_Append keeps_Refresh)

lemma kh_publish_new:
  assumes "plane_ok pg env config"
  shows "framed (keeps_host (in_publications (rg_root (cfg_registry config)))) (publish_new_release pg env config request draft)"
proof -
  have pg: "pg_apart pg" and s3: "\<not> UsesS3ObjectStore config" using assms by (simp_all add: plane_ok_def)
  show ?thesis
    unfolding publish_new_release_def Let_def if_not_P [OF s3]
    by (intro kh.framed_bind kh_on_tree kh_from_tree kt.framed_basic kh.framed_basic keeps_publication_steps [OF assms]
        kh_keys [OF assms] kh_Create [OF pg] kh_record_release [OF pg] kh_audit [OF pg] kh_success)
qed

lemma kh_publish:
  assumes "plane_ok pg env config"
  shows "framed (keeps_host (in_publications (rg_root (cfg_registry config)))) (HandlePublishRelease pg env config request)"
proof -
  have pg: "pg_apart pg" and s3: "\<not> UsesS3ObjectStore config" using assms by (simp_all add: plane_ok_def)
  have draft: "framed (keeps (in_publications (rg_root (cfg_registry config)))) (BuildPublishDraft env body config identity)" for body identity
    using publications_outside [of "rg_root (cfg_registry config)"] by (intro keeps_draft) simp
  have sync: "sync_before_publish env config = s_return ()" using s3 by (simp add: sync_before_publish_def)
  have dup: "framed (keeps_host P) (already_published pg env config d)" for P d
    unfolding already_published_def
    by (intro kh.framed_intros host_intros kt.framed_intros kh_from_pg; drule pg_apartD [OF pg]; simp add: pg_db_only_def)
  have built: "framed (keeps_host P) (case x of Inl a \<Rightarrow> s_return a | Inr b \<Rightarrow> f b)"
    if "\<And>b. framed (keeps_host P) (f b)" for P x and f :: "PublishDraft \<Rightarrow> 'a host handler"
    using that by (cases x) (simp_all add: kh.framed_basic)
  show ?thesis
    unfolding HandlePublishRelease_def Let_def sync
    by (intro kh.framed_intros built kh_on_tree draft kt.framed_intros kh_authorized [OF pg] kh_audited [OF pg] dup kh_publish_new [OF assms])
qed

section \<open>The other handlers\<close>

lemma keeps_WriteIndex:
  assumes "outside r [''index/''] P"
  shows "framed (keeps P) (WritePackageIndexRecords L r package records)"
proof -
  have "\<not> P (index_file r package)" using assms index_file_eq [of r package] apart_file [of P "dir_prefix r @ ''index/''"] by auto
  then show ?thesis
    unfolding WritePackageIndexRecords_def Let_def
    by (intro kt.framed_intros keeps_mkdirs keeps_put_file keeps_append_json_line)
qed

lemma kh_yank:
  assumes "plane_ok pg env config"
  shows "framed (keeps_host (in_publications (rg_root (cfg_registry config)))) (HandleSetPackageReleaseYanked pg env config rm request yanked)"
proof -
  have pg: "pg_apart pg" and s3: "\<not> UsesS3ObjectStore config" using assms by (simp_all add: plane_ok_def)
  have index: "framed (keeps (in_publications (rg_root (cfg_registry config)))) (WritePackageIndexRecords L (pe_root config) package records)"
    for L package records
    using publications_outside [of "pe_root config"] by (intro keeps_WriteIndex) simp
  have sql: "framed (keeps_host P) (in_postgres pg (\<lambda>p. pg_SetRegistryPackageReleaseYanked p w x y z))" for P w x y z
    by (intro kh_in_postgres; drule pg_apartD [OF pg]; simp add: pg_db_only_def)
  show ?thesis
    unfolding HandleSetPackageReleaseYanked_def yank_release_def Let_def if_not_P [OF s3]
    by (intro kh_using kh.framed_option kh.framed_if kh.framed_prod kh.framed_try kh.framed_bind kh_on_tree kh_from_tree kt.framed_basic
        kh.framed_basic index keeps_publication_steps [OF assms] kh_keys [OF assms] kh_Create [OF pg] sql kh_memory
        kh_audit [OF pg] kh_audited [OF pg] kh_authorized [OF pg] kh_success)
qed

text \<open>Values of route parameters hold no slash, as they are segments of a path.\<close>

definition plain_parameters :: "RouteMatch \<Rightarrow> bool" where
  "plain_parameters rm \<longleftrightarrow> (\<forall>v \<in> set (smap_values (rm_parameters rm)). v \<noteq> [] \<and> CHR ''/'' \<notin> set v)"

lemma param_plain: "plain_parameters rm \<Longrightarrow> param_at rm k = Inr v \<Longrightarrow> plain_id v"
  using smap_find_value [of "rm_parameters rm" k v]
  by (auto simp: plain_parameters_def param_at_def split: option.splits intro: slash_free_plain)

lemma kh_using_value:
  "(\<And>x. r = Inr x \<Longrightarrow> framed (keeps_host P) (f x)) \<Longrightarrow> framed (keeps_host P) (using_result r f)"
  by (cases r) (auto simp: framed_def using_result_def escape_def keeps_host_def kt.R_refl)

lemma keeps_materialize:
  assumes "outside r [''config.json'', ''index'', ''artifacts'', ''trust'', ''log''] P"
  shows "framed (keeps P) (MaterializePublicationToRoot r source)"
proof -
  have files: "\<not> P (path_div r ''config.json'')" and dirs: "apart P (path_div r d)" if "d \<in> set read_plane" for d
    using assms that by (auto simp: path_div_rel apart_self read_plane_def)
  have "keeps P t (clear_read_plane r t)" for t
    using files dirs unfolding clear_read_plane_def read_plane_def foldl.simps
    by (intro kt.R_trans [OF _ keeps_remove_all] keeps_remove_path) auto
  moreover have "framed (keeps P) (CopyRegistryReadPlaneTo source r)"
    using files dirs unfolding CopyRegistryReadPlaneTo_def
    by (intro kt.framed_intros keeps_mkdirs keeps_copy_tree keeps_copy_file) (auto simp: read_plane_def)
  ultimately show ?thesis unfolding MaterializePublicationToRoot_def by (intro kt.framed_intros)
qed

lemma pointer_apart:
  assumes "outside r [''_distributions/''] P" "plain_id d"
  shows "\<not> P (pointer_path r d)"
  using assms apart_file [of P "dir_prefix r @ ''_distributions/''" "d @ ''/current.json''"]
  by (simp add: pointer_path_def path_simps plain_id_def)

lemma kh_distributions:
  assumes pg: "pg_apart pg" and d: "plain_id d"
  shows "framed (keeps_host (in_publications (rg_root (cfg_registry config)))) (promote_to pg env config request d i)"
    and "framed (keeps_host (in_publications (rg_root (cfg_registry config)))) (rollback_to pg env config request d pointer i)"
proof -
  let ?P = "in_publications (pe_root config)"
  note out = publications_outside [of "pe_root config"]
  have root: "framed (keeps ?P) (materialize_default config d i)"
    unfolding materialize_default_def using out by (intro kt.framed_intros keeps_materialize) simp
  have point: "framed (keeps ?P) (write_json L (pointer_path (pe_root config) d) j)" for L j
    using out by (intro keeps_write_json pointer_apart d) simp
  have rec: "framed (keeps_host ?P) (record_distribution pg env config j d i previous)" for j previous
    unfolding record_distribution_def Let_def
    by (intro kh.framed_intros host_intros; drule pg_apartD [OF pg]; simp add: pg_db_only_def)
  show "framed (keeps_host ?P) (promote_to pg env config request d i)" "framed (keeps_host ?P) (rollback_to pg env config request d pointer i)"
    unfolding promote_to_def rollback_to_def Let_def
    by (intro kh.framed_bind kh_from_tree kh_on_tree root point rec kh.framed_basic kh_audit [OF pg] kh_success)+
qed

lemma kh_promote:
  assumes "plane_ok pg env config" "plain_parameters rm"
  shows "framed (keeps_host (in_publications (rg_root (cfg_registry config)))) (HandlePromoteDistribution pg env config rm request)"
proof -
  have pg: "pg_apart pg" using assms by (simp add: plane_ok_def)
  show ?thesis
    unfolding HandlePromoteDistribution_def Let_def
    by (intro kh_using_value kh.framed_intros kh_on_tree kt.framed_basic kh_authorized [OF pg] kh_audited [OF pg] kh_distributions(1) [OF pg]
        param_plain [OF assms(2)])
qed

lemma kh_rollback:
  assumes "plane_ok pg env config" "plain_parameters rm"
  shows "framed (keeps_host (in_publications (rg_root (cfg_registry config)))) (HandleRollbackDistribution pg env config rm request)"
proof -
  have pg: "pg_apart pg" using assms by (simp add: plane_ok_def)
  show ?thesis
    unfolding HandleRollbackDistribution_def Let_def
    by (intro kh_using_value kh.framed_intros kh_on_tree kh_from_tree kt.framed_basic kh_authorized [OF pg] kh_audited [OF pg]
        kh_distributions(2) [OF pg] param_plain [OF assms(2)])
qed

lemma keeps_WriteReleaseChannel:
  assumes "outside r [''_release_channels/''] P" and "plain_id channel" "json_lookup plan ''channel'' = Some (JString channel)"
  shows "framed (keeps P) (WriteReleaseChannel L r plan)"
proof -
  have "\<not> P (path_div (channels_root r) (channel @ ''.json''))"
    using assms(1,2) apart_file [of P "dir_prefix r @ ''_release_channels/''" "channel @ ''.json''"]
    by (cases channel) (auto simp: channels_root_def path_simps plain_id_def)
  moreover have "json_string_at plan ''channel'' = Inr channel" using assms(3) by simp
  ultimately show ?thesis
    unfolding WriteReleaseChannel_def Let_def
    by (intro kt.framed_bind_value [OF kt.framed_basic(3)] kt.framed_intros keeps_mkdirs keeps_put_file) (simp add: sm_simps)+
qed

lemma kh_rollout:
  assumes "plane_ok pg env config" "plain_parameters rm"
  shows "framed (keeps_host (in_publications (rg_root (cfg_registry config)))) (HandleRolloutReleaseChannel pg env config rm request)"
proof -
  have pg: "pg_apart pg" using assms by (simp add: plane_ok_def)
  have plan: "json_lookup plan ''channel'' = Some (JString channel)" if "s_lift (BuildReleaseRolloutPlan channel i n ring now) s = (Inr plan, t)"
    for channel i n ring now plan and s t :: "'a host router"
    using that by (auto simp: BuildReleaseRolloutPlan_def sm_simps split: if_splits)
  have channel: "framed (keeps_host (in_publications (pe_root config))) (on_tree (WriteReleaseChannel L (pe_root config) plan))"
    if "param_at rm ''channel'' = Inr c" "s_lift (BuildReleaseRolloutPlan c i n ring now) s = (Inr plan, t)"
    for L plan c i n ring now and s t :: "'a host router"
    using publications_outside [of "pe_root config"] plan [OF that(2)] param_plain [OF assms(2) that(1)]
    by (intro kh_on_tree keeps_WriteReleaseChannel [of _ _ c]) simp_all
  have inner: "framed (keeps_host (in_publications (pe_root config)))
      (s_bind (s_lift (BuildReleaseRolloutPlan c i n ring now)) (\<lambda>plan. s_bind (on_tree (WriteReleaseChannel L (pe_root config) plan)) (\<lambda>_. f plan)))"
    if "param_at rm ''channel'' = Inr c" "\<And>plan. framed (keeps_host (in_publications (pe_root config))) (f plan)"
    for L c i n ring now and f :: "json \<Rightarrow> 'a host handler"
    by (rule kh.framed_bind_value [OF kh.framed_basic(3)]) (intro kh.framed_bind channel [OF that(1)] that(2))
  show ?thesis
    unfolding HandleRolloutReleaseChannel_def Let_def
    by (rule kh_using_value kh.framed_if kh.framed_try kh.framed_basic inner kh.framed_bind kh_on_tree [OF kt.framed_basic(4)]
        kh_audited [OF pg] kh_audit [OF pg] kh_success | assumption)+
qed

end
