(* ===== verification/Registry_Runs.thy ===== *)
theory Registry_Runs
  imports Registry_Immutable Transition Http_Routes
begin

text \<open>
  Registry requests as the router delivers them: the parameters of a matched route are single path components, so
  that a publication or distribution named in a path stays below its directory.
\<close>

lemma bind_parts_values: "bind_parts rs as qs = Some ps \<Longrightarrow> set (smap_values ps) \<subseteq> set as \<union> set (smap_values qs)"
proof (induction rs as qs rule: bind_parts.induct)
  case (1 r rs a as qs)
  then show ?case using smap_values_put [of "ParameterName r" a qs] by (auto split: if_splits)
qed auto

lemma MatchRoute_plain: "MatchRoute routes m path = Some rm \<Longrightarrow> plain_parameters rm"
proof -
  assume "MatchRoute routes m path = Some rm"
  then have "set (smap_values (rm_parameters rm)) \<subseteq> set (SplitRoute path)"
    using MatchRoute_params bind_parts_values by (fastforce simp: smap_values_def)
  then show ?thesis by (auto simp: plain_parameters_def SplitRoute_def dest: getlines_no_delim)
qed

lemma kh_verify:
  assumes "plane_ok pg env config"
  shows "framed (keeps_host P) (HandleVerifyRegistry pg env config request)"
proof -
  have pg: "pg_apart pg" and s3: "\<not> UsesS3ObjectStore config" using assms by (simp_all add: plane_ok_def)
  show ?thesis
    unfolding HandleVerifyRegistry_def verify_counts_def Let_def if_not_P [OF s3]
    by (intro kh.framed_intros kh_on_tree kt.framed_basic kh_from_tree kh_RecordMirror [OF pg] kh_success)
qed

lemma demo_openssl_local: "openssl_local demo_trust"
proof -
  have "tree_text (foldl (\<lambda>t p. put_file p x t) t ps) q = tree_text t q" if "q \<notin> set ps" for ps q t and x :: string
    using that by (induction ps arbitrary: t) (auto simp: tree_text_put_file)
  then show ?thesis by (simp add: openssl_local_def demo_trust_def demo_openssl_def)
qed

lemma demo_plane_ok: "plane_ok None demo_plane demo_registry"
  by (auto simp: plane_ok_def pg_apart_def demo_openssl_local UsesS3ObjectStore_def demo_registry_def ParseObjectStoreProvider_def
      apart_def in_publications_def dir_prefix_def path_div_def starts_with_iff)

end
