(* ===== verification/Whole_Platform.thy ===== *)
theory Whole_Platform
  imports Platform_Router Registry_Runs Governance Recovery Workspace_Steps
begin

text \<open>
  The platform as one system: \<^verbatim>\<open>PlatformRouter::Dispatch\<close> with the handlers of all components. The record \<open>operations\<close>
  of the router is filled with the models of the handlers that work on the directory tree, and the index the owner
  handlers read is the index below the registry root at the time of the request.
\<close>

definition platform_operations :: "'d host postgres option \<Rightarrow> plane_env \<Rightarrow> PlatformConfig \<Rightarrow> 'd host operations" where
  "platform_operations pg env config = \<lparr>
     op_HandleListDocumentationGovernance = HandleListDocumentationGovernance,
     op_HandlePlanDocumentationChange = HandlePlanDocumentationChange (pe_what env),
     op_HandleListEcosystemRepositories = HandleListEcosystemRepositories,
     op_HandlePlanEcosystemRelease = HandlePlanEcosystemRelease (pe_what env),
     op_HandleRegistryStatus = HandleRegistryStatus env config,
     op_HandleRegistryDescriptor = HandleRegistryDescriptor env config,
     op_HandlePublishRelease = HandlePublishRelease pg env config,
     op_HandleVerifyRegistry = HandleVerifyRegistry pg env config,
     op_HandleGetPackage = HandleGetPackage pg env config,
     op_HandleListPackageReleases = HandleListPackageReleases pg env config,
     op_HandleGetPackageRelease = HandleGetPackageRelease pg env config,
     op_HandleSetPackageReleaseYanked = HandleSetPackageReleaseYanked pg env config,
     op_HandleListRepositories = HandleListRepositories pg,
     op_HandleListRepositoryVersions = HandleListRepositoryVersions pg,
     op_HandleGetPublication = HandleGetPublication pg env config,
     op_HandleVerifyPublication = HandleVerifyPublication env config,
     op_HandleListDistributions = HandleListDistributions pg env config,
     op_HandlePromoteDistribution = HandlePromoteDistribution pg env config,
     op_HandleRollbackDistribution = HandleRollbackDistribution pg env config,
     op_HandleListReleaseChannels = HandleListReleaseChannels env config,
     op_HandleRolloutReleaseChannel = HandleRolloutReleaseChannel pg env config,
     op_HandleCreateRecoverySnapshot = HandleCreateRecoverySnapshot pg env config,
     op_HandleListRecoverySnapshots = HandleListRecoverySnapshots env config,
     op_HandleRestoreRecoverySnapshot = HandleRestoreRecoverySnapshot pg env config,
     op_HandleStorageStatus = HandleStorageStatus config\<rparr>"

definition platform_router_env :: "plane_env \<Rightarrow> PlatformConfig \<Rightarrow> int \<Rightarrow> bool \<Rightarrow> tree \<Rightarrow> router_env" where
  "platform_router_env env config now_seconds libpq t =
     \<lparr>ev_registry = (reg_of env)\<lparr>re_index := (\<lambda>package. ReadPackageIndexRecords (pe_json env) (rg_root (cfg_registry config)) package t)\<rparr>,
      ev_now_seconds = now_seconds, ev_libpq = libpq, ev_what = pe_what env\<rparr>"

definition Serve :: "'d host postgres option \<Rightarrow> plane_env \<Rightarrow> int \<Rightarrow> bool \<Rightarrow> PlatformConfig \<Rightarrow> HttpRequest \<Rightarrow> 'd host handler" where
  "Serve pg env now_seconds libpq config request s =
     Dispatch pg (platform_router_env env config now_seconds libpq (ho_tree (rt_db s))) (platform_operations pg env config) config request s"

section \<open>Handlers that leave the files alone\<close>

definition same_tree :: "'d host router \<Rightarrow> 'd host router \<Rightarrow> bool" where
  "same_tree s u \<longleftrightarrow> ho_tree (rt_db u) = ho_tree (rt_db s)"

interpretation st: frame same_tree
  by unfold_locales (auto simp: same_tree_def)

lemma same_tree_keeps: "framed same_tree m \<Longrightarrow> framed (keeps_host P) m"
  by (simp add: framed_def same_tree_def keeps_host_def kt.R_refl)

text \<open>The database of the daemon is a server reached over a socket: no method writes a file of the registry.\<close>

definition pg_files_apart :: "'d host postgres \<Rightarrow> bool" where
  "pg_files_apart p \<longleftrightarrow> pg_db_only p
     \<and> db_only (pg_NextJobId p) \<and> (\<forall>x. db_only (pg_SubmitJob p x)) \<and> (\<forall>x. db_only (pg_GetJob p x)) \<and> (\<forall>x. db_only (pg_GetJobEvents p x))
     \<and> (\<forall>x y. db_only (pg_CancelJob p x y)) \<and> (\<forall>x. db_only (pg_RegisterWorker p x)) \<and> (\<forall>x. db_only (pg_RegisterCompileContainer p x))
     \<and> (\<forall>x. db_only (pg_GetCompileContainer p x)) \<and> (\<forall>w x y z. db_only (pg_SwitchCompileContainerWorkspace p w x y z))
     \<and> (\<forall>x y z. db_only (pg_ClaimJob p x y z)) \<and> (\<forall>w x y z. db_only (pg_ClaimJobForCompileContainer p w x y z))
     \<and> (\<forall>x y z. db_only (pg_HeartbeatJob p x y z)) \<and> (\<forall>u v w x y z. db_only (pg_CompleteJob p u v w x y z))
     \<and> (\<forall>x y. db_only (pg_RegisterWorkgroupCluster p x y)) \<and> (\<forall>x. db_only (pg_ListWorkgroupClusters p x))
     \<and> (\<forall>x. db_only (pg_GetMirrorState p x)) \<and> (\<forall>x. db_only (pg_ListRegistryPackageOwners p x))
     \<and> (\<forall>x y. db_only (pg_RemoveRegistryPackageOwner p x y)) \<and> db_only (pg_NextRegistryTokenId p)
     \<and> (\<forall>x. db_only (pg_UpsertRegistryPublishToken p x)) \<and> (\<forall>x. db_only (pg_GetRegistryPublishToken p x))
     \<and> (\<forall>x. db_only (pg_ListRegistryPublishTokens p x)) \<and> (\<forall>x y. db_only (pg_RevokeRegistryPublishToken p x y))
     \<and> db_only (pg_ListRegistryAuditEvents p) \<and> (\<forall>x. db_only (pg_GetRegistryPackage p x)) \<and> (\<forall>x. db_only (pg_ListRegistryPackageReleases p x))
     \<and> db_only (pg_ListRegistryRepositories p) \<and> (\<forall>x. db_only (pg_ListRegistryRepositoryVersions p x))
     \<and> (\<forall>x. db_only (pg_GetRegistryPublication p x)) \<and> db_only (pg_ListRegistryDistributions p)"

definition db_apart :: "'d host postgres option \<Rightarrow> bool" where
  "db_apart pg \<longleftrightarrow> (case pg of None \<Rightarrow> True | Some p \<Rightarrow> pg_files_apart p)"

lemma db_apartD: "db_apart pg \<Longrightarrow> pg = Some p \<Longrightarrow> pg_files_apart p" "db_apart pg \<Longrightarrow> pg_apart pg"
  by (auto simp: db_apart_def pg_apart_def pg_files_apart_def split: option.splits)

lemma pg_call_tree: "pg_call f s = (r, t) \<Longrightarrow> db_only f \<Longrightarrow> ho_tree (rt_db t) = ho_tree (rt_db s)"
  unfolding pg_call_def db_only_def by (auto split: prod.splits) (metis snd_conv)

text \<open>The handlers written on the state.\<close>

lemma framed_same_tree: "(\<And>s. ho_tree (rt_db (snd (m s))) = ho_tree (rt_db s)) \<Longrightarrow> framed same_tree m"
  by (simp add: framed_def same_tree_def)

lemmas same_tree_splits = sum.splits option.splits prod.splits platform_error.splits

lemma workspace_same_tree:
  assumes "db_apart pg"
  shows "framed same_tree (HandleSubmitJob pg config rq)" "framed same_tree (HandleGetJob pg rm)" "framed same_tree (HandleGetJobEvents pg rm)"
    "framed same_tree (HandleCancelJob pg rm rq)" "framed same_tree (HandleRegisterWorker pg rq)"
proof -
  note p = pg_call_tree db_apartD(1) [OF assms]
  show "framed same_tree (HandleSubmitJob pg config rq)"
    by (rule framed_same_tree) (auto simp: HandleSubmitJob_def handler_defs pg_files_apart_def Let_def dest!: p split: same_tree_splits)
  show "framed same_tree (HandleGetJob pg rm)"
    by (rule framed_same_tree) (auto simp: HandleGetJob_def get_job_response_def trying_def handler_defs pg_files_apart_def Let_def dest!: p split: same_tree_splits)
  show "framed same_tree (HandleGetJobEvents pg rm)"
    by (rule framed_same_tree) (auto simp: HandleGetJobEvents_def handler_defs pg_files_apart_def Let_def dest!: p split: same_tree_splits)
  show "framed same_tree (HandleCancelJob pg rm rq)"
    by (rule framed_same_tree) (auto simp: HandleCancelJob_def trying_def handler_defs pg_files_apart_def Let_def dest!: p split: same_tree_splits)
  show "framed same_tree (HandleRegisterWorker pg rq)"
    by (rule framed_same_tree) (auto simp: HandleRegisterWorker_def handler_defs pg_files_apart_def Let_def dest!: p split: same_tree_splits)
qed

lemma st_pg_case:
  assumes "db_only f" "\<And>w. framed same_tree (g w)" "\<And>x. framed same_tree (h x)"
  shows "framed same_tree (\<lambda>s. case pg_call f s of (Inl w, t) \<Rightarrow> g w t | (Inr x, t) \<Rightarrow> h x t)"
  using assms pg_call_tree [OF _ assms(1)] by (fastforce simp: framed_def same_tree_def split: prod.split sum.split)

lemma st_option: "framed same_tree m \<Longrightarrow> (\<And>x. framed same_tree (f x)) \<Longrightarrow> framed same_tree (\<lambda>s. case x of None \<Rightarrow> m s | Some y \<Rightarrow> f y s)"
  by (simp add: framed_def split: option.split)

lemma st_respond: "framed same_tree (respond c b)" "framed same_tree (fail503 m d k op)" "framed same_tree (escape e)"
  by (simp_all add: framed_def same_tree_def handler_defs)

lemma container_same_tree:
  assumes "db_apart pg"
  shows "framed same_tree (HandleRegisterCompileContainer pg rq)" "framed same_tree (HandleGetCompileContainer pg rm)"
    "framed same_tree (HandleSwitchCompileContainerWorkspace pg rm rq)" "framed same_tree (HandleClaimJob pg rq)"
    "framed same_tree (HandleHeartbeatJob pg rm rq)" "framed same_tree (HandleCompleteJob pg rm rq)"
proof -
  note p = pg_call_tree db_apartD(1) [OF assms]
  show "framed same_tree (HandleRegisterCompileContainer pg rq)"
    by (rule framed_same_tree) (auto simp: HandleRegisterCompileContainer_def register_container_pg_failure_def register_container_memory_failure_def
        handler_defs pg_files_apart_def Let_def dest!: p split: same_tree_splits)
  show "framed same_tree (HandleGetCompileContainer pg rm)"
    by (rule framed_same_tree) (auto simp: HandleGetCompileContainer_def handler_defs pg_files_apart_def Let_def dest!: p split: same_tree_splits)
  show "framed same_tree (HandleSwitchCompileContainerWorkspace pg rm rq)"
  proof (cases pg)
    case None
    then show ?thesis
      by (intro framed_same_tree) (simp add: HandleSwitchCompileContainerWorkspace_def switch_outcome_def handler_defs Let_def split: same_tree_splits)
  next
    case (Some q)
    have q: "db_only (pg_GetCompileContainer q x)" "db_only (pg_SwitchCompileContainerWorkspace q x y z w)" for x y z w
      using db_apartD(1) [OF assms Some] by (simp_all add: pg_files_apart_def)
    have tree: "ho_tree (rt_db t) = ho_tree (rt_db s)" if "pg_call (pg_GetCompileContainer q x) s = (r, t)" for s t x r
      by (rule pg_call_tree [OF that q(1)])
    have tree': "ho_tree (rt_db t) = ho_tree (rt_db s)" if "pg_call (pg_SwitchCompileContainerWorkspace q x y z w) s = (r, t)" for s t x y z w r
      by (rule pg_call_tree [OF that q(2)])
    show ?thesis
      unfolding Some by (intro framed_same_tree) (auto simp: HandleSwitchCompileContainerWorkspace_def switch_outcome_def handler_defs Let_def
          dest!: tree tree' split: sum.splits option.splits prod.splits)
  qed
  show "framed same_tree (HandleClaimJob pg rq)"
  proof (rule framed_same_tree)
    fix s :: "'a host router"
    have pgs: "ho_tree (rt_db (snd (claim_via_postgres q w r k c s))) = ho_tree (rt_db s)" if "pg = Some q" for q w r k c s
    proof -
      have q: "db_only (pg_GetCompileContainer q x)" "db_only (pg_ClaimJobForCompileContainer q w r k x)" "db_only (pg_ClaimJob q w r k)" for x
        using db_apartD(1) [OF assms that] by (simp_all add: pg_files_apart_def)
      have "framed same_tree (claim_via_postgres q w r k c)"
        unfolding claim_via_postgres_def [abs_def] claim_pg_failure_def
        by (cases c) (simp_all, (intro st_pg_case q st_option st.framed_if st_respond)+)
      then show ?thesis by (simp add: framed_def same_tree_def)
    qed
    have mem: "ho_tree (rt_db (snd (claim_via_memory w r k c s))) = ho_tree (rt_db s)" for w r k c
      by (auto simp: claim_via_memory_def claim_memory_failure_def handler_defs split: same_tree_splits)
    show "ho_tree (rt_db (snd (HandleClaimJob pg rq s))) = ho_tree (rt_db s)"
      by (simp add: HandleClaimJob_def Let_def handler_defs mem pgs split: option.split)
  qed
  show "framed same_tree (HandleHeartbeatJob pg rm rq)"
    by (rule framed_same_tree) (auto simp: HandleHeartbeatJob_def trying_def handler_defs pg_files_apart_def Let_def dest!: p split: same_tree_splits)
  show "framed same_tree (HandleCompleteJob pg rm rq)"
    by (rule framed_same_tree) (auto simp: HandleCompleteJob_def complete_via_postgres_def complete_via_memory_def complete_with_def trying_def
        handler_defs pg_files_apart_def Let_def dest!: p split: same_tree_splits)
qed

lemma node_same_tree:
  assumes "db_apart pg"
  shows "framed same_tree (HandleHealth libpq config)" "framed same_tree (HandleNodeSelf libpq config)"
    "framed same_tree (HandleRegisterWorkgroupCluster pg config rm rq)" "framed same_tree (HandleListWorkgroupClusters pg config rm)"
    "framed same_tree (HandleMirrorStatus pg rm)" "framed same_tree HandleMetrics" "framed same_tree (HandleExchangeExternalIdentity what rq)"
proof -
  note p = pg_call_tree db_apartD(1) [OF assms]
  show "framed same_tree (HandleHealth libpq config)" "framed same_tree (HandleNodeSelf libpq config)" "framed same_tree HandleMetrics"
      "framed same_tree (HandleExchangeExternalIdentity what rq)"
    by (rule framed_same_tree, simp add: HandleHealth_def HandleNodeSelf_def HandleMetrics_def HandleExchangeExternalIdentity_def act_return_def
        handler_defs Let_def split: sum.split)+
  show "framed same_tree (HandleRegisterWorkgroupCluster pg config rm rq)"
    by (rule framed_same_tree) (auto simp: HandleRegisterWorkgroupCluster_def workgroup_rejection_def handler_defs pg_files_apart_def Let_def
        dest!: p split: same_tree_splits)
  show "framed same_tree (HandleListWorkgroupClusters pg config rm)"
    by (rule framed_same_tree) (auto simp: HandleListWorkgroupClusters_def handler_defs pg_files_apart_def Let_def dest!: p split: same_tree_splits)
  show "framed same_tree (HandleMirrorStatus pg rm)"
    by (rule framed_same_tree) (auto simp: HandleMirrorStatus_def act_return_def handler_defs pg_files_apart_def Let_def dest!: p split: same_tree_splits)
qed

text \<open>The handlers written as actions.\<close>

lemma kh_respond [host_intros]: "framed (keeps_host P) (respond c b)" "framed (keeps_host P) (escape e)"
  by (simp_all add: same_tree_keeps st_respond)

lemma kh_pg:
  "framed (keeps_host P) m \<Longrightarrow> (\<And>p. pg = Some p \<Longrightarrow> framed (keeps_host P) (f p)) \<Longrightarrow> framed (keeps_host P) (case pg of None \<Rightarrow> m | Some p \<Rightarrow> f p)"
  by (cases pg) simp_all

lemma kh_list: "framed (keeps_host P) m \<Longrightarrow> (\<And>y ys. framed (keeps_host P) (f y ys)) \<Longrightarrow> framed (keeps_host P) (case xs of [] \<Rightarrow> m | y # ys \<Rightarrow> f y ys)"
  by (cases xs) simp_all

lemmas kh_actions = kh.framed_intros kh_using kh_either kh_from_pg kh_memory kh_respond kh_list kh_from_tree kh_on_tree kt.framed_basic kh_success

lemma owners_keep:
  assumes "db_apart pg"
  shows "framed (keeps_host P) (HandleListPackageOwners pg env rm)" "framed (keeps_host P) (HandleAddPackageOwner pg env rm request)"
    "framed (keeps_host P) (HandleRemovePackageOwner pg env rm request)"
proof -
  note pg = db_apartD(2) [OF assms]
  show "framed (keeps_host P) (HandleListPackageOwners pg env rm)"
    unfolding HandleListPackageOwners_def act_is_sm Let_def
    by (intro kh_actions;
        drule db_apartD(1) [OF assms]; simp add: pg_files_apart_def)
  show "framed (keeps_host P) (HandleAddPackageOwner pg env rm request)"
    unfolding HandleAddPackageOwner_def act_is_sm Let_def
    by (intro kh_actions kh_authorized [OF pg] kh_audited [OF pg] kh_audit [OF pg];
        drule db_apartD(1) [OF assms]; simp add: pg_files_apart_def pg_db_only_def)
  show "framed (keeps_host P) (HandleRemovePackageOwner pg env rm request)"
    unfolding HandleRemovePackageOwner_def act_is_sm Let_def
    by (intro kh_actions kh_authorized [OF pg] kh_audited [OF pg] kh_audit [OF pg];
        drule db_apartD(1) [OF assms]; simp add: pg_files_apart_def pg_db_only_def)
qed

lemma tokens_keep:
  assumes "db_apart pg"
  shows "framed (keeps_host P) (HandleCreatePublishToken pg env request)" "framed (keeps_host P) (HandleListPublishTokens pg env request)"
    "framed (keeps_host P) (HandleRevokePublishToken pg env rm request)" "framed (keeps_host P) (HandleListAuditEvents pg)"
proof -
  note pg = db_apartD(2) [OF assms]
  show "framed (keeps_host P) (HandleCreatePublishToken pg env request)"
    unfolding HandleCreatePublishToken_def act_is_sm Let_def
    by (intro kh_actions kh_authorized [OF pg] kh_audited [OF pg] kh_audit [OF pg];
        drule db_apartD(1) [OF assms]; simp add: pg_files_apart_def pg_db_only_def)
  show "framed (keeps_host P) (HandleListPublishTokens pg env request)"
    unfolding HandleListPublishTokens_def act_is_sm Let_def
    by (intro kh_actions; drule db_apartD(1) [OF assms]; simp add: pg_files_apart_def)
  show "framed (keeps_host P) (HandleRevokePublishToken pg env rm request)"
    unfolding HandleRevokePublishToken_def act_is_sm Let_def
    by (intro kh_actions kh_authorized [OF pg] kh_audited [OF pg] kh_audit [OF pg];
        drule db_apartD(1) [OF assms]; simp add: pg_files_apart_def pg_db_only_def)
  show "framed (keeps_host P) (HandleListAuditEvents pg)"
    unfolding HandleListAuditEvents_def act_is_sm
    by (intro kh_actions; drule db_apartD(1) [OF assms]; simp add: pg_files_apart_def)
qed

lemma reads_keep:
  assumes "db_apart pg"
  shows "framed (keeps_host P) (HandleRegistryStatus env config)" "framed (keeps_host P) (HandleRegistryDescriptor env config)"
    "framed (keeps_host P) (HandleGetPackage pg env config rm)" "framed (keeps_host P) (HandleListPackageReleases pg env config rm)"
    "framed (keeps_host P) (HandleGetPackageRelease pg env config rm)" "framed (keeps_host P) (HandleListRepositories pg)"
    "framed (keeps_host P) (HandleListRepositoryVersions pg rm)" "framed (keeps_host P) (HandleGetPublication pg env config rm)"
    "framed (keeps_host P) (HandleVerifyPublication env config rm request)" "framed (keeps_host P) (HandleListDistributions pg env config)"
    "framed (keeps_host P) (HandleListReleaseChannels env config)"
proof -
  note pg = db_apartD(2) [OF assms]
  show "framed (keeps_host P) (HandleRegistryStatus env config)" "framed (keeps_host P) (HandleRegistryDescriptor env config)"
      "framed (keeps_host P) (HandleListReleaseChannels env config)" "framed (keeps_host P) (HandleVerifyPublication env config rm request)"
    unfolding HandleRegistryStatus_def HandleRegistryDescriptor_def HandleListReleaseChannels_def HandleVerifyPublication_def Let_def
    by (intro kh_actions)+
  note db = db_apartD(1) [OF assms] and defs = pg_files_apart_def pg_db_only_def
  show "framed (keeps_host P) (HandleGetPackage pg env config rm)"
    unfolding HandleGetPackage_def Let_def by (intro kh_pg [where pg = pg] kh_actions; drule db; simp add: defs)
  show "framed (keeps_host P) (HandleListPackageReleases pg env config rm)"
    unfolding HandleListPackageReleases_def Let_def by (intro kh_pg [where pg = pg] kh_actions; drule db; simp add: defs)
  show "framed (keeps_host P) (HandleGetPackageRelease pg env config rm)"
    unfolding HandleGetPackageRelease_def Let_def by (intro kh_pg [where pg = pg] kh_actions; drule db; simp add: defs)
  show "framed (keeps_host P) (HandleListRepositories pg)"
    unfolding HandleListRepositories_def Let_def by (intro kh_pg [where pg = pg] kh_actions; drule db; simp add: defs)
  show "framed (keeps_host P) (HandleListRepositoryVersions pg rm)"
    unfolding HandleListRepositoryVersions_def Let_def by (intro kh_pg [where pg = pg] kh_actions; drule db; simp add: defs)
  show "framed (keeps_host P) (HandleGetPublication pg env config rm)"
    unfolding HandleGetPublication_def Let_def by (intro kh_pg [where pg = pg] kh_actions; drule db; simp add: defs)
  show "framed (keeps_host P) (HandleListDistributions pg env config)"
    unfolding HandleListDistributions_def Let_def by (intro kh_pg [where pg = pg] kh_actions; drule db; simp add: defs)
qed

section \<open>Every request\<close>

lemma framedD: "framed R m \<Longrightarrow> R s (snd (m s))"
  by (simp add: framed_def)

lemma governance_keeps:
  "framed (keeps_host P) HandleListDocumentationGovernance" "framed (keeps_host P) (HandlePlanDocumentationChange what request)"
  "framed (keeps_host P) HandleListEcosystemRepositories" "framed (keeps_host P) (HandlePlanEcosystemRelease what request)"
  unfolding HandleListDocumentationGovernance_def HandlePlanDocumentationChange_def HandleListEcosystemRepositories_def HandlePlanEcosystemRelease_def
  by (auto simp: kh_respond split: sum.split)

lemma recovery_reads_keep:
  "framed (keeps_host P) (HandleListRecoverySnapshots env config)" "framed (keeps_host P) (HandleStorageStatus config)"
  unfolding HandleListRecoverySnapshots_def HandleStorageStatus_def by (intro kh_actions)+

lemma node_group_keeps:
  "db_apart pg \<Longrightarrow> DispatchPlatformNodeOperation pg renv config rm request s = Some outcome \<Longrightarrow> keeps_host P s (snd outcome)"
  using same_tree_keeps [OF node_same_tree(1), THEN framedD] same_tree_keeps [OF node_same_tree(2), THEN framedD]
    same_tree_keeps [OF node_same_tree(3), THEN framedD] same_tree_keeps [OF node_same_tree(4), THEN framedD]
  by (auto simp: DispatchPlatformNodeOperation_def Let_def split: if_splits)

lemma workspace_group_keeps:
  assumes "db_apart pg" "DispatchWorkspaceOperation pg config rm request s = Some outcome"
  shows "keeps_host P s (snd outcome)"
  using assms(2) workspace_same_tree [OF assms(1), THEN same_tree_keeps, THEN framedD] container_same_tree [OF assms(1), THEN same_tree_keeps, THEN framedD]
  by (auto simp: DispatchWorkspaceOperation_def Let_def split: if_splits)

lemma governance_group_keeps:
  "DispatchGovernanceOperation (platform_operations pg env config) rm request s = Some outcome \<Longrightarrow> keeps_host P s (snd outcome)"
  using governance_keeps [THEN framedD] by (auto simp: DispatchGovernanceOperation_def platform_operations_def Let_def split: if_splits)

definition recovery_operations :: "string list" where
  "recovery_operations = [''createRecoverySnapshot'', ''restoreRecoverySnapshot'']"

lemma operations_group_keeps:
  assumes "db_apart pg" "rs_operation_id (rm_route rm) \<notin> set recovery_operations"
    "DispatchOperationsOperation pg renv (platform_operations pg env config) rm request s = Some outcome"
  shows "keeps_host P s (snd outcome)"
  using assms(2,3) recovery_reads_keep [THEN framedD] tokens_keep(4) [OF assms(1), THEN framedD]
    node_same_tree(6,7) [OF assms(1), THEN same_tree_keeps, THEN framedD]
  by (auto simp: DispatchOperationsOperation_def platform_operations_def recovery_operations_def Let_def split: if_splits)

lemma registry_group_keeps:
  assumes "db_apart pg" "plane_ok pg env config" "plain_parameters rm"
    "DispatchRegistryOperation pg renv (platform_operations pg env config) rm request s = Some outcome"
  shows "keeps_host (in_publications (rg_root (cfg_registry config))) s (snd outcome)"
proof -
  note writes = kh_publish [OF assms(2), THEN framedD] kh_verify [OF assms(2), THEN framedD] kh_yank [OF assms(2), THEN framedD]
    kh_promote [OF assms(2,3), THEN framedD] kh_rollback [OF assms(2,3), THEN framedD] kh_rollout [OF assms(2,3), THEN framedD]
  note rest = owners_keep [OF assms(1), THEN framedD] tokens_keep [OF assms(1), THEN framedD] reads_keep [OF assms(1), THEN framedD]
    node_same_tree(5) [OF assms(1), THEN same_tree_keeps, THEN framedD]
  show ?thesis using assms(4)
    by (simp add: DispatchRegistryOperation_def platform_operations_def Let_def split: if_splits) (auto simp: writes rest)
qed

definition requested_operation :: "HttpRequest \<Rightarrow> string" where
  "requested_operation request =
     (case MatchRoute router_routes (rq_method request) (rq_path request) of None \<Rightarrow> [] | Some rm \<Rightarrow> rs_operation_id (rm_route rm))"

lemma or_else_Some: "or_else a b = Some x \<Longrightarrow> (a = Some x \<Longrightarrow> Q) \<Longrightarrow> (b = Some x \<Longrightarrow> Q) \<Longrightarrow> Q"
  by (auto simp: or_else_def split: option.splits)

lemma matched_keeps:
  assumes "db_apart pg" "plane_ok pg env config" "plain_parameters rm" "rs_operation_id (rm_route rm) \<notin> set recovery_operations"
  shows "keeps_host (in_publications (rg_root (cfg_registry config))) s (snd (DispatchMatchedOperation pg renv (platform_operations pg env config) config rm request s))"
proof (cases "dispatch_groups pg renv (platform_operations pg env config) config rm request s")
  case None
  then show ?thesis by (simp add: DispatchMatchedOperation_def Let_def handler_defs kh.R_refl)
next
  case (Some outcome)
  then have "keeps_host (in_publications (rg_root (cfg_registry config))) s (snd outcome)"
    unfolding dispatch_groups_def
    by (elim or_else_Some) (rule node_group_keeps [OF assms(1)] workspace_group_keeps [OF assms(1)] governance_group_keeps
      registry_group_keeps [OF assms(1-3)] operations_group_keeps [OF assms(1,4)], assumption)+
  with Some show ?thesis by (simp add: DispatchMatchedOperation_def)
qed

lemma Serve_keeps:
  assumes "db_apart pg" "plane_ok pg env config" "requested_operation request \<notin> set recovery_operations"
  shows "keeps_host (in_publications (rg_root (cfg_registry config))) s (snd (Serve pg env now_seconds libpq config request s))"
proof (cases "MatchRoute router_routes (rq_method request) (rq_path request)")
  case None
  then show ?thesis by (simp add: Serve_def Dispatch_def handler_defs kh.R_refl)
next
  case (Some rm)
  let ?renv = "platform_router_env env config now_seconds libpq (ho_tree (rt_db s))" and ?P = "in_publications (rg_root (cfg_registry config))"
  have same: "keeps_host ?P (counted ?renv rm request s c) u = keeps_host ?P s u" for c u by (simp add: keeps_host_def)
  have self: "keeps_host ?P s (counted ?renv rm request s c)" for c by (simp add: keeps_host_def kt.R_refl)
  show ?thesis
    using matched_keeps [OF assms(1,2) MatchRoute_plain [OF Some], of "counted ?renv rm request s 0" ?renv request] assms(3)
    by (simp add: Serve_def Dispatch_cases [OF Some] requested_operation_def Some Let_def kh.R_refl same self)
qed

inductive serve_step :: "'d host postgres option \<Rightarrow> PlatformConfig \<Rightarrow> 'd host router \<Rightarrow> 'd host router \<Rightarrow> bool" for pg config where
  served: "db_apart pg \<Longrightarrow> plane_ok pg env config \<Longrightarrow> requested_operation request \<notin> set recovery_operations
    \<Longrightarrow> serve_step pg config s (snd (Serve pg env now_seconds libpq config request s))"

inductive_cases serve_stepE: "serve_step pg config s u"

lemma serve_step_keeps: "serve_step pg config s u \<Longrightarrow> keeps_host (in_publications (rg_root (cfg_registry config))) s u"
  by (erule serve_stepE) (simp add: Serve_keeps)

interpretation platform: evolving_system "serve_step pg config" "\<lambda>n s. True" bound "keeps_host (in_publications (rg_root (cfg_registry config)))"
  for pg config bound
  by unfold_locales (auto intro: serve_step_keeps kh.R_refl kh.R_trans)


definition published_router :: "unit host router" where
  "published_router = \<lparr>rt_memory = empty_store,
     rt_db = \<lparr>ho_db = (), ho_tree = [(''/r/_publications/pub-000001/publication.json'', Regular ''p'')]\<rparr>,
     rt_rate_limiter = [], rt_metrics = empty_metrics\<rparr>"

definition publish_request :: HttpRequest where
  "publish_request = \<lparr>rq_method = Post, rq_path = ''/api/spio-registry-control/v1/publish'', rq_headers = [],
    rq_body = json_obj [(''package'', JString ''acme/core''), (''version'', JString ''1.0.0'')],
    rq_identity = Some \<lparr>id_role = ''operator'', id_tenant_id = [], id_node_id = ''ops''\<rparr>\<rparr>"


end
