(* ===== verification/Toolchain_State.thy ===== *)
theory Toolchain_State
  imports Manifest Cache_Paths Os_World
begin

text \<open>
  The toolchain a project uses (\<^verbatim>\<open>PlatformCore/Toolchain/Vocabulary.hpp\<close>, \<^verbatim>\<open>State.hpp\<close>, \<^verbatim>\<open>State.cpp\<close>): the words it may be
  described with, and the file \<^verbatim>\<open>spio-toolchain.lock\<close> it is read from and written to. The file is found by the search
  of \<^verbatim>\<open>Cache_Paths\<close>, parsed by the TOML library and written below the directory of the manifest.
\<close>

section \<open>The vocabulary\<close>

definition kSupportedToolchainModes :: "string list" where
  "kSupportedToolchainModes = [''binary'', ''build'']"

definition kSupportedChannels :: "string list" where
  "kSupportedChannels = [''stable'', ''nightly'']"

definition kSupportedBuildModes :: "string list" where
  "kSupportedBuildModes = [''minimal'']"

definition kSupportedCloudRiskClasses :: "string list" where
  "kSupportedCloudRiskClasses = [''trusted-internal'', ''partner-controlled'', ''untrusted-user'']"

definition kSupportedCloudExecutionLanes :: "string list" where
  "kSupportedCloudExecutionLanes = [''isolated'', ''warm-shared'']"

definition kSupportedCloudSecurityProfiles :: "string list" where
  "kSupportedCloudSecurityProfiles = [''sandbox-default'', ''partner-restricted'', ''trusted-warm'']"

fun VocabularyContains :: "string \<Rightarrow> string list \<Rightarrow> bool" where
  "VocabularyContains v [] = False"
| "VocabularyContains v (candidate # cs) = (candidate = v \<or> VocabularyContains v cs)"

definition IsSupportedToolchainMode :: "string \<Rightarrow> bool" where
  "IsSupportedToolchainMode v = VocabularyContains v kSupportedToolchainModes"

definition IsSupportedChannel :: "string \<Rightarrow> bool" where
  "IsSupportedChannel v = VocabularyContains v kSupportedChannels"

definition IsSupportedBuildMode :: "string \<Rightarrow> bool" where
  "IsSupportedBuildMode v = VocabularyContains v kSupportedBuildModes"

definition IsSupportedCloudRiskClass :: "string \<Rightarrow> bool" where
  "IsSupportedCloudRiskClass v = VocabularyContains v kSupportedCloudRiskClasses"

definition IsSupportedCloudExecutionLane :: "string \<Rightarrow> bool" where
  "IsSupportedCloudExecutionLane v = VocabularyContains v kSupportedCloudExecutionLanes"

definition IsSupportedCloudSecurityProfile :: "string \<Rightarrow> bool" where
  "IsSupportedCloudSecurityProfile v = VocabularyContains v kSupportedCloudSecurityProfiles"

lemma VocabularyContains_iff [simp]: "VocabularyContains v cs \<longleftrightarrow> v \<in> set cs"
  by (induction cs) auto

section \<open>The state file\<close>

record ProjectToolchainState =
  ts_manifest_path :: fs_path
  ts_state_path :: fs_path
  ts_state_file_exists :: bool
  ts_mode :: string
  ts_channel :: string
  ts_build_mode :: string
  ts_risk_class :: string
  ts_preferred_execution_lane :: string
  ts_security_profile :: string
  ts_source_revision :: "string option"

record ToolchainStateUpdate =
  tu_manifest_path :: fs_path
  tu_mode :: "string option"
  tu_channel :: "string option"
  tu_build_mode :: "string option"
  tu_risk_class :: "string option"
  tu_preferred_execution_lane :: "string option"
  tu_security_profile :: "string option"
  tu_source_revision :: "string option"

definition default_state :: "fs_path \<Rightarrow> fs_path \<Rightarrow> ProjectToolchainState" where
  "default_state manifest_path state_path =
     \<lparr>ts_manifest_path = manifest_path, ts_state_path = state_path, ts_state_file_exists = False, ts_mode = ''binary'',
      ts_channel = ''stable'', ts_build_mode = ''minimal'', ts_risk_class = ''untrusted-user'',
      ts_preferred_execution_lane = ''isolated'', ts_security_profile = ''sandbox-default'', ts_source_revision = None\<rparr>"

definition RequireAllowedValue :: "string \<Rightarrow> string list \<Rightarrow> string \<Rightarrow> unit result" where
  "RequireAllowedValue v allowed label =
     (if v \<in> set allowed then Inr () else Inl (ToolError (''unsupported '' @ label @ '': '' @ v)))"

definition require_vocabulary :: "ProjectToolchainState \<Rightarrow> unit result" where
  "require_vocabulary s =
     rbind (RequireAllowedValue (ts_mode s) kSupportedToolchainModes ''toolchain mode'') (\<lambda>_.
     rbind (RequireAllowedValue (ts_channel s) kSupportedChannels ''toolchain channel'') (\<lambda>_.
     rbind (RequireAllowedValue (ts_build_mode s) kSupportedBuildModes ''build mode'') (\<lambda>_.
     rbind (RequireAllowedValue (ts_risk_class s) kSupportedCloudRiskClasses ''cloud risk class'') (\<lambda>_.
     rbind (RequireAllowedValue (ts_preferred_execution_lane s) kSupportedCloudExecutionLanes ''cloud execution lane'') (\<lambda>_.
     RequireAllowedValue (ts_security_profile s) kSupportedCloudSecurityProfiles ''cloud security profile'')))))"

definition quoted_line :: "string \<Rightarrow> string \<Rightarrow> string" where
  "quoted_line key v = key @ '' = '' @ [CHR 0x22] @ v @ [CHR 0x22] @ nl"

definition RenderToolchainState :: "ProjectToolchainState \<Rightarrow> string" where
  "RenderToolchainState s =
     ''[toolchain]'' @ nl @ quoted_line ''mode'' (ts_mode s) @ quoted_line ''channel'' (ts_channel s)
     @ quoted_line ''build'' (ts_build_mode s)
     @ nl @ ''[cloud]'' @ nl @ quoted_line ''risk'' (ts_risk_class s) @ quoted_line ''lane'' (ts_preferred_execution_lane s)
     @ quoted_line ''security'' (ts_security_profile s)
     @ (case ts_source_revision s of None \<Rightarrow> [] | Some r \<Rightarrow> nl @ ''[source]'' @ nl @ quoted_line ''revision'' r)"

definition WriteStateFile :: "fs_path \<Rightarrow> string \<Rightarrow> (platform_error, unit) io" where
  "WriteStateFile p content =
     ibind (ichange (create_directories (path_parent p))) (\<lambda>_.
     iwrite (ToolError (''failed to open toolchain state for write: '' @ p)) p content)"

text \<open>\<^verbatim>\<open>get_as<std::string>(key)\<close> replaces a default only when the node is a string and not empty.\<close>

definition read_word :: "toml_table option \<Rightarrow> string \<Rightarrow> string \<Rightarrow> string" where
  "read_word t key d =
     (case Option.bind t (\<lambda>t. node_at value_string t key) of None \<Rightarrow> d | Some v \<Rightarrow> if v = [] then d else v)"

definition read_state :: "toml_table \<Rightarrow> ProjectToolchainState \<Rightarrow> ProjectToolchainState" where
  "read_state doc s =
     (let toolchain = node_at as_table doc ''toolchain''; cloud = node_at as_table doc ''cloud''; source = node_at as_table doc ''source'' in
      s\<lparr>ts_mode := read_word toolchain ''mode'' (ts_mode s), ts_channel := read_word toolchain ''channel'' (ts_channel s),
        ts_build_mode := read_word toolchain ''build'' (ts_build_mode s), ts_risk_class := read_word cloud ''risk'' (ts_risk_class s),
        ts_preferred_execution_lane := read_word cloud ''lane'' (ts_preferred_execution_lane s),
        ts_security_profile := read_word cloud ''security'' (ts_security_profile s),
        ts_source_revision := (let r = read_word source ''revision'' [] in if r = [] then ts_source_revision s else Some r)\<rparr>)"

definition LoadProjectToolchainState :: "toml_lib \<Rightarrow> fs_path \<Rightarrow> file_system \<Rightarrow> fs_path \<Rightarrow> ProjectToolchainState result" where
  "LoadProjectToolchainState L cwd fs manifest_path =
     (let manifest = CanonicalAbsolutePath cwd manifest_path;
          state = default_state manifest (ProjectToolchainStatePathForManifest cwd manifest) in
      case FindProjectToolchainStatePath (fs_exists fs) cwd manifest of
        None \<Rightarrow> Inr state
      | Some discovered \<Rightarrow>
          (case parse_file L fs discovered of
             Inl description \<Rightarrow>
               Inl (ToolError (''failed to parse project toolchain state '' @ [CHR 0x27] @ discovered @ [CHR 0x27] @ '': '' @ description))
           | Inr doc \<Rightarrow>
               (case node_at as_table doc ''toolchain'' of
                  None \<Rightarrow> Inl (ToolError (''project toolchain state is missing [toolchain]: '' @ discovered))
                | Some _ \<Rightarrow>
                    let s = read_state doc (state\<lparr>ts_state_path := discovered, ts_state_file_exists := True\<rparr>) in
                    rbind (require_vocabulary s) (\<lambda>_. Inr s))))"

definition apply_update :: "ToolchainStateUpdate \<Rightarrow> ProjectToolchainState \<Rightarrow> ProjectToolchainState" where
  "apply_update u s =
     (let or_old = (\<lambda>n d. case n of None \<Rightarrow> d | Some v \<Rightarrow> v) in
      s\<lparr>ts_mode := or_old (tu_mode u) (ts_mode s), ts_channel := or_old (tu_channel u) (ts_channel s),
        ts_build_mode := or_old (tu_build_mode u) (ts_build_mode s), ts_risk_class := or_old (tu_risk_class u) (ts_risk_class s),
        ts_preferred_execution_lane := or_old (tu_preferred_execution_lane u) (ts_preferred_execution_lane s),
        ts_security_profile := or_old (tu_security_profile u) (ts_security_profile s),
        ts_source_revision := (case tu_source_revision u of None \<Rightarrow> ts_source_revision s | Some r \<Rightarrow> Some r)\<rparr>)"

definition UpdateProjectToolchainState :: "toml_lib \<Rightarrow> fs_path \<Rightarrow> ToolchainStateUpdate \<Rightarrow> (platform_error, ProjectToolchainState) io" where
  "UpdateProjectToolchainState L cwd u =
     (let manifest_path = CanonicalAbsolutePath cwd (tu_manifest_path u) in
      ibind (ireads (\<lambda>fs. LoadManifest L fs manifest_path)) (\<lambda>manifest.
      ibind (ilift manifest) (\<lambda>_.
      ibind (ireads (\<lambda>fs. LoadProjectToolchainState L cwd fs manifest_path)) (\<lambda>loaded.
      ibind (ilift loaded) (\<lambda>loaded.
      let s = apply_update u (loaded\<lparr>ts_manifest_path := manifest_path, ts_state_path := ProjectToolchainStatePathForManifest cwd manifest_path\<rparr>) in
      ibind (ilift (require_vocabulary s)) (\<lambda>_.
      ibind (WriteStateFile (ts_state_path s) (RenderToolchainState s)) (\<lambda>_.
      ireturn (s\<lparr>ts_state_file_exists := True\<rparr>))))))))"

section \<open>What is read\<close>

definition in_vocabulary :: "ProjectToolchainState \<Rightarrow> bool" where
  "in_vocabulary s \<longleftrightarrow> IsSupportedToolchainMode (ts_mode s) \<and> IsSupportedChannel (ts_channel s) \<and> IsSupportedBuildMode (ts_build_mode s)
     \<and> IsSupportedCloudRiskClass (ts_risk_class s) \<and> IsSupportedCloudExecutionLane (ts_preferred_execution_lane s)
     \<and> IsSupportedCloudSecurityProfile (ts_security_profile s)"

lemmas vocabulary_defs = IsSupportedToolchainMode_def IsSupportedChannel_def IsSupportedBuildMode_def IsSupportedCloudRiskClass_def
  IsSupportedCloudExecutionLane_def IsSupportedCloudSecurityProfile_def

lemma require_vocabulary_iff: "require_vocabulary s = Inr () \<longleftrightarrow> in_vocabulary s"
  by (auto simp: require_vocabulary_def RequireAllowedValue_def in_vocabulary_def vocabulary_defs rbind_eq_Inr)

lemma default_in_vocabulary: "in_vocabulary (default_state m p)"
  by (simp add: in_vocabulary_def vocabulary_defs default_state_def kSupportedToolchainModes_def kSupportedChannels_def kSupportedBuildModes_def
      kSupportedCloudRiskClasses_def kSupportedCloudExecutionLanes_def kSupportedCloudSecurityProfiles_def)

lemma LoadProjectToolchainState_vocabulary: "LoadProjectToolchainState L cwd fs m = Inr s \<Longrightarrow> in_vocabulary s"
  using default_in_vocabulary
  by (auto simp: LoadProjectToolchainState_def Let_def rbind_eq_Inr require_vocabulary_iff split: option.splits sum.splits)

section \<open>Writing and reading back\<close>

definition state_document :: "ProjectToolchainState \<Rightarrow> toml_table" where
  "state_document s =
     tbl ([(''toolchain'', TTable (tbl [(''mode'', TString (ts_mode s)), (''channel'', TString (ts_channel s)), (''build'', TString (ts_build_mode s))])),
           (''cloud'', TTable (tbl [(''risk'', TString (ts_risk_class s)), (''lane'', TString (ts_preferred_execution_lane s)),
              (''security'', TString (ts_security_profile s))]))]
          @ (case ts_source_revision s of None \<Rightarrow> [] | Some r \<Rightarrow> [(''source'', TTable (tbl [(''revision'', TString r)]))]))"

lemma in_vocabulary_nonempty:
  "in_vocabulary s \<Longrightarrow> ts_mode s \<noteq> [] \<and> ts_channel s \<noteq> [] \<and> ts_build_mode s \<noteq> [] \<and> ts_risk_class s \<noteq> []
     \<and> ts_preferred_execution_lane s \<noteq> [] \<and> ts_security_profile s \<noteq> []"
  by (auto simp: in_vocabulary_def vocabulary_defs kSupportedToolchainModes_def kSupportedChannels_def kSupportedBuildModes_def
      kSupportedCloudRiskClasses_def kSupportedCloudExecutionLanes_def kSupportedCloudSecurityProfiles_def)

lemma read_state_document:
  assumes "in_vocabulary s" "ts_source_revision s \<noteq> Some []"
  shows "read_state (state_document s) (default_state m p) = (default_state m p)
    \<lparr>ts_mode := ts_mode s, ts_channel := ts_channel s, ts_build_mode := ts_build_mode s, ts_risk_class := ts_risk_class s,
     ts_preferred_execution_lane := ts_preferred_execution_lane s, ts_security_profile := ts_security_profile s, ts_source_revision := ts_source_revision s\<rparr>"
  using in_vocabulary_nonempty [OF assms(1)] assms(2)
  by (auto simp: read_state_def read_word_def state_document_def node_at_def default_state_def Let_def split: option.split)

lemma FindProjectToolchainStatePath_own:
  "ex (ProjectToolchainStatePathForManifest cwd m) \<Longrightarrow> FindProjectToolchainStatePath ex cwd m = Some (ProjectToolchainStatePathForManifest cwd m)"
  by (simp add: FindProjectToolchainStatePath_def ProjectToolchainStatePathForManifest_def find_upwards.simps Let_def)


text \<open>A workspace at \<^verbatim>\<open>/p\<close> that switches to building the nightly toolchain from source.\<close>

definition nightly_state :: ProjectToolchainState where
  "nightly_state = (default_state ''/p/spio.toml'' ''/p/spio-toolchain.lock'')
     \<lparr>ts_state_file_exists := True, ts_mode := ''build'', ts_channel := ''nightly'', ts_source_revision := Some ''r1''\<rparr>"

definition nightly_update :: ToolchainStateUpdate where
  "nightly_update = \<lparr>tu_manifest_path = ''spio.toml'', tu_mode = Some ''build'', tu_channel = Some ''nightly'', tu_build_mode = None, tu_risk_class = None,
     tu_preferred_execution_lane = None, tu_security_profile = None, tu_source_revision = Some ''r1''\<rparr>"

definition nightly_toml :: toml_lib where
  "nightly_toml = plain_toml\<lparr>tl_parse := (\<lambda>x. Inr (if x = Some ''t''
     then [(''spio'', TTable [(''manifest-version'', TInt 1)]), (''workspace'', TTable [(''members'', TArray [TString ''a'']), (''resolver'', TString ''1'')])]
     else state_document nightly_state))\<rparr>"

definition nightly_world :: os_world where
  "nightly_world = \<lparr>w_fs = [''/p/spio.toml'' \<mapsto> Regular ''t''], w_log = []\<rparr>"


end
