(* ===== verification/Cloud_Jobs.thy ===== *)
theory Cloud_Jobs
  imports Toolchain_State Compile_Plan Job_Queue
begin

text \<open>
  Cloud builds as the client describes them to the platform (\<^verbatim>\<open>SpioPlatformProtocols/Execution.cpp\<close>, \<^verbatim>\<open>Contract.cpp\<close>,
  \<^verbatim>\<open>Job.cpp\<close>): where a job may run, and the request for it. What the preprocessor decides, the platform and the
  architecture the client was compiled for, and the environment variables are the record \<open>cloud_env\<close>.
\<close>

record cloud_env =
  ce_platform :: string
  ce_architecture :: string
  ce_getenv :: "string \<Rightarrow> string option"
  ce_cwd :: fs_path

section \<open>The execution policy\<close>

record SharedCachePolicy =
  sc_shared_toolchain_read_only :: bool
  sc_shared_source_read_only :: bool
  sc_shared_registry_read_only :: bool
  sc_worker_local_reuse :: bool
  sc_shared_cache_promotion_eligible :: bool
  sc_promotion_policy :: string

record WorkerPoolKey =
  wk_platform :: string
  wk_architecture :: string
  wk_execution_lane :: string
  wk_worker_trust_tier :: string
  wk_toolchain_mode :: string
  wk_channel :: string
  wk_build_mode :: string
  wk_compiler_fingerprint :: string
  wk_base_image_revision :: string

record CloudExecutionPolicy =
  ep_risk_class :: string
  ep_requested_execution_lane :: string
  ep_execution_lane :: string
  ep_worker_trust_tier :: string
  ep_requested_security_profile :: string
  ep_security_profile :: string
  ep_fallback_applied :: bool
  ep_platform_protection_priority :: bool
  ep_tenant_isolation_priority :: bool
  ep_network_egress_default_deny :: bool
  ep_requires_container_sandbox :: bool
  ep_routing_reason :: string
  ep_cache_policy :: SharedCachePolicy
  ep_worker_pool_key :: WorkerPoolKey

definition DefaultSecurityProfile :: "string \<Rightarrow> string \<Rightarrow> string" where
  "DefaultSecurityProfile risk_class execution_lane =
     (if execution_lane = ''warm-shared'' then ''trusted-warm''
      else if risk_class = ''partner-controlled'' then ''partner-restricted'' else ''sandbox-default'')"

definition DefaultWorkerTrustTier :: "string \<Rightarrow> string \<Rightarrow> string" where
  "DefaultWorkerTrustTier risk_class execution_lane =
     (if execution_lane = ''warm-shared'' then ''internal-warm''
      else if risk_class = ''trusted-internal'' then ''trusted-isolated''
      else if risk_class = ''partner-controlled'' then ''partner-isolated'' else ''untrusted-isolated'')"

definition CompilerFingerprintForState :: "ProjectToolchainState \<Rightarrow> string" where
  "CompilerFingerprintForState s =
     (if ts_mode s = ''build'' then (case ts_source_revision s of None \<Rightarrow> ''source-revision-unset'' | Some r \<Rightarrow> r)
      else ''published-'' @ ts_channel s @ ''-'' @ ts_build_mode s)"

definition env_or :: "(string \<Rightarrow> string option) \<Rightarrow> string \<Rightarrow> string \<Rightarrow> string" where
  "env_or getenv name d = (case getenv name of None \<Rightarrow> d | Some v \<Rightarrow> if v = [] then d else v)"

definition DetectCloudBaseImageRevision :: "cloud_env \<Rightarrow> string" where
  "DetectCloudBaseImageRevision E = env_or (ce_getenv E) ''SPIO_CLOUD_BASE_IMAGE_REVISION'' ''dev-unset''"

text \<open>Risk class, lane, whether a fallback was applied, and the reason, through the three decisions of the function.\<close>

record routing =
  ro_risk :: string
  ro_lane :: string
  ro_fallback :: bool
  ro_reason :: string

definition known_risk :: "routing \<Rightarrow> routing" where
  "known_risk r =
     (if \<not> IsSupportedCloudRiskClass (ro_risk r)
      then r\<lparr>ro_risk := ''untrusted-user'', ro_fallback := True, ro_reason := ''unknown risk class fell back to untrusted-user''\<rparr> else r)"

definition known_lane :: "routing \<Rightarrow> routing" where
  "known_lane r =
     (if \<not> IsSupportedCloudExecutionLane (ro_lane r)
      then r\<lparr>ro_lane := ''isolated'', ro_fallback := True, ro_reason := ''unknown execution lane fell back to isolated''\<rparr> else r)"

definition isolate :: "routing \<Rightarrow> routing" where
  "isolate r =
     (if ro_risk r = ''untrusted-user'' \<and> ro_lane r \<noteq> ''isolated''
      then r\<lparr>ro_lane := ''isolated'', ro_fallback := True, ro_reason := ''untrusted-user jobs require isolated execution''\<rparr>
      else if ro_risk r = ''partner-controlled'' \<and> ro_lane r = ''warm-shared''
      then r\<lparr>ro_lane := ''isolated'', ro_fallback := True,
             ro_reason := ''partner-controlled jobs require explicit allowlist before warm-shared execution''\<rparr>
      else if ro_reason r = []
      then r\<lparr>ro_reason := if ro_lane r = ''warm-shared'' then ''trusted internal workload is eligible for warm-shared execution''
               else ''default isolated execution protects the platform before enabling warm-shared reuse''\<rparr>
      else r)"

definition ResolveCloudExecutionPolicy :: "cloud_env \<Rightarrow> ProjectToolchainState \<Rightarrow> CloudExecutionPolicy" where
  "ResolveCloudExecutionPolicy E s =
     (let r = isolate (known_lane (known_risk
                \<lparr>ro_risk = ts_risk_class s, ro_lane = ts_preferred_execution_lane s, ro_fallback = False, ro_reason = []\<rparr>));
          expected = DefaultSecurityProfile (ro_risk r) (ro_lane r);
          wrong = (\<not> IsSupportedCloudSecurityProfile (ts_security_profile s) \<or> ts_security_profile s \<noteq> expected);
          tier = DefaultWorkerTrustTier (ro_risk r) (ro_lane r)
      in \<lparr>ep_risk_class = ro_risk r, ep_requested_execution_lane = ts_preferred_execution_lane s, ep_execution_lane = ro_lane r,
          ep_worker_trust_tier = tier, ep_requested_security_profile = ts_security_profile s,
          ep_security_profile = (if wrong then expected else ts_security_profile s),
          ep_fallback_applied = (ro_fallback r \<or> wrong), ep_platform_protection_priority = True, ep_tenant_isolation_priority = True,
          ep_network_egress_default_deny = True, ep_requires_container_sandbox = True, ep_routing_reason = ro_reason r,
          ep_cache_policy = \<lparr>sc_shared_toolchain_read_only = True, sc_shared_source_read_only = True, sc_shared_registry_read_only = True,
            sc_worker_local_reuse = (ro_lane r = ''warm-shared''), sc_shared_cache_promotion_eligible = (ro_risk r = ''trusted-internal''),
            sc_promotion_policy = ''verified-only''\<rparr>,
          ep_worker_pool_key = \<lparr>wk_platform = ce_platform E, wk_architecture = ce_architecture E, wk_execution_lane = ro_lane r,
            wk_worker_trust_tier = tier, wk_toolchain_mode = ts_mode s, wk_channel = ts_channel s, wk_build_mode = ts_build_mode s,
            wk_compiler_fingerprint = CompilerFingerprintForState s, wk_base_image_revision = DetectCloudBaseImageRevision E\<rparr>\<rparr>)"

section \<open>The contract\<close>

definition SerializeSharedCachePolicy :: "SharedCachePolicy \<Rightarrow> json" where
  "SerializeSharedCachePolicy p =
     json_obj [
       (''shared_toolchain_read_only'', JBool (sc_shared_toolchain_read_only p)), (''shared_source_read_only'', JBool (sc_shared_source_read_only p)),
       (''shared_registry_read_only'', JBool (sc_shared_registry_read_only p)), (''worker_local_reuse'', JBool (sc_worker_local_reuse p)),
       (''shared_cache_promotion_eligible'', JBool (sc_shared_cache_promotion_eligible p)), (''promotion_policy'', JString (sc_promotion_policy p))]"

definition SerializeWorkerPoolKey :: "WorkerPoolKey \<Rightarrow> json" where
  "SerializeWorkerPoolKey k =
     json_obj [
       (''platform'', JString (wk_platform k)), (''architecture'', JString (wk_architecture k)), (''execution_lane'', JString (wk_execution_lane k)),
       (''worker_trust_tier'', JString (wk_worker_trust_tier k)), (''toolchain_mode'', JString (wk_toolchain_mode k)),
       (''channel'', JString (wk_channel k)), (''build_mode'', JString (wk_build_mode k)),
       (''compiler_fingerprint'', JString (wk_compiler_fingerprint k)), (''base_image_revision'', JString (wk_base_image_revision k))]"

definition SerializeCloudExecutionPolicy :: "CloudExecutionPolicy \<Rightarrow> json" where
  "SerializeCloudExecutionPolicy p =
     json_obj [
       (''contract_version'', JInt 1), (''risk_class'', JString (ep_risk_class p)),
       (''requested_execution_lane'', JString (ep_requested_execution_lane p)), (''execution_lane'', JString (ep_execution_lane p)),
       (''worker_trust_tier'', JString (ep_worker_trust_tier p)), (''requested_security_profile'', JString (ep_requested_security_profile p)),
       (''security_profile'', JString (ep_security_profile p)), (''fallback_applied'', JBool (ep_fallback_applied p)),
       (''platform_protection_priority'', JBool (ep_platform_protection_priority p)),
       (''tenant_isolation_priority'', JBool (ep_tenant_isolation_priority p)),
       (''network_egress_default_deny'', JBool (ep_network_egress_default_deny p)),
       (''requires_container_sandbox'', JBool (ep_requires_container_sandbox p)), (''routing_reason'', JString (ep_routing_reason p)),
       (''cache_policy'', SerializeSharedCachePolicy (ep_cache_policy p)), (''worker_pool_key'', SerializeWorkerPoolKey (ep_worker_pool_key p))]"

definition SerializeProjectToolchainState :: "ProjectToolchainState \<Rightarrow> json" where
  "SerializeProjectToolchainState s =
     (let payload = json_obj [
            (''path'', JString (ts_state_path s)), (''exists'', JBool (ts_state_file_exists s)), (''mode'', JString (ts_mode s)),
            (''channel'', JString (ts_channel s)), (''build_mode'', JString (ts_build_mode s)), (''risk_class'', JString (ts_risk_class s)),
            (''preferred_execution_lane'', JString (ts_preferred_execution_lane s)), (''security_profile'', JString (ts_security_profile s))]
      in case ts_source_revision s of None \<Rightarrow> payload | Some r \<Rightarrow> json_set ''source_revision'' (JString r) payload)"

definition SerializeSupportedValues :: "string list \<Rightarrow> json" where
  "SerializeSupportedValues vs = JArray (map JString vs)"

definition BuildCloudStatusPayload :: "ProjectToolchainState \<Rightarrow> CloudExecutionPolicy \<Rightarrow> json" where
  "BuildCloudStatusPayload s p =
     json_obj [
       (''command'', JString ''cloud status''), (''message'', JString (''resolved cloud execution policy for '' @ ts_manifest_path s)),
       (''manifest_path'', JString (ts_manifest_path s)), (''toolchain_state_path'', JString (ts_state_path s)),
       (''toolchain_mode'', JString (ts_mode s)), (''channel'', JString (ts_channel s)), (''build_mode'', JString (ts_build_mode s)),
       (''risk_class'', JString (ts_risk_class s)), (''preferred_execution_lane'', JString (ts_preferred_execution_lane s)),
       (''security_profile'', JString (ts_security_profile s)),
       (''supported_execution_lanes'', SerializeSupportedValues kSupportedCloudExecutionLanes),
       (''supported_risk_classes'', SerializeSupportedValues kSupportedCloudRiskClasses),
       (''supported_security_profiles'', SerializeSupportedValues kSupportedCloudSecurityProfiles),
       (''cloud'', SerializeCloudExecutionPolicy p)]"

section \<open>Job requests\<close>

record CloudJobTargetSelection =
  jt_package_name :: "string option"
  jt_bin_name :: "string option"
  jt_test_name :: "string option"
  jt_select_lib :: bool

record CloudJobSourceSelection =
  js_origin :: string
  js_explicit_source_root :: "fs_path option"
  js_requested_revision :: "string option"
  js_resolved_revision :: "string option"
  js_allow_fetch :: bool
  js_assume_yes :: bool
  js_non_interactive :: bool
  js_offline :: bool

record WorkflowInvocationOptions =
  wo_locked :: bool
  wo_offline :: bool
  wo_styio_bin :: "string option"
  wo_allow_fetch :: bool
  wo_assume_yes :: bool
  wo_non_interactive :: bool
  wo_source_root :: "fs_path option"
  wo_source_revision :: "string option"

record CloudBuildJobRequest =
  jr_schema_version :: int
  jr_api_path :: string
  jr_action :: string
  jr_manifest_path :: fs_path
  jr_toolchain_mode :: string
  jr_channel :: string
  jr_build_mode :: string
  jr_profile :: string
  jr_locked :: bool
  jr_offline :: bool
  jr_target :: CloudJobTargetSelection
  jr_source :: CloudJobSourceSelection
  jr_cloud_policy :: CloudExecutionPolicy

definition effective_build_mode :: "BuildPlanRequest \<Rightarrow> ProjectToolchainState \<Rightarrow> string" where
  "effective_build_mode request s = (if br_build_mode request = [] then ts_build_mode s else br_build_mode request)"

definition has_source_options :: "WorkflowInvocationOptions \<Rightarrow> bool" where
  "has_source_options o1 = (wo_assume_yes o1 \<or> \<not> wo_allow_fetch o1 \<or> wo_non_interactive o1 \<or> wo_source_root o1 \<noteq> None \<or> wo_source_revision o1 \<noteq> None)"

definition ValidateWorkflowInvocationImpl ::
  "string \<Rightarrow> BuildPlanRequest \<Rightarrow> ProjectToolchainState \<Rightarrow> WorkflowInvocationOptions \<Rightarrow> string option" where
  "ValidateWorkflowInvocationImpl action request s options =
     (let mode = effective_build_mode request s in
      if action \<noteq> ''build'' \<and> action \<noteq> ''run'' \<and> action \<noteq> ''test'' then Some ''workflow action must be one of: build, run, test''
      else if mode = [] \<or> \<not> IsSupportedBuildMode mode
      then Some (''build currently supports only the '' @ [CHR 0x27] @ ''minimal'' @ [CHR 0x27] @ '' mode'')
      else if ts_mode s = ''binary'' \<and> has_source_options options
      then Some (''source-build options require '' @ [CHR 0x27] @ ''spio use build'' @ [CHR 0x27])
      else if ts_mode s = ''build'' \<and> wo_styio_bin options \<noteq> None
      then Some (''--styio-bin is only valid when the project toolchain mode is '' @ [CHR 0x27] @ ''binary'' @ [CHR 0x27])
      else if action = ''run'' \<and> br_select_lib request then Some ''run does not accept --lib''
      else if action = ''run'' \<and> br_test_name request \<noteq> None then Some ''run does not accept --test''
      else if action = ''test'' \<and> br_select_lib request then Some ''test does not accept --lib''
      else if action = ''test'' \<and> br_bin_name request \<noteq> None then Some ''test does not accept --bin''
      else if action = ''build'' \<and> br_test_name request \<noteq> None then Some ''build does not accept --test''
      else None)"

definition ResolveSourceOriginBaseline :: "(string \<Rightarrow> string option) \<Rightarrow> string" where
  "ResolveSourceOriginBaseline getenv = env_or getenv ''SPIO_STYIO_SOURCE_ORIGIN'' ''https://github.com/eBioRing/Styio.git''"

definition BuildCloudBuildJobRequest ::
  "cloud_env \<Rightarrow> string \<Rightarrow> BuildPlanRequest \<Rightarrow> ProjectToolchainState \<Rightarrow> WorkflowInvocationOptions \<Rightarrow> CloudExecutionPolicy \<Rightarrow> CloudBuildJobRequest result" where
  "BuildCloudBuildJobRequest E action request s options policy =
     (case ValidateWorkflowInvocationImpl action request s options of
        Some error \<Rightarrow> Inl (ValidationError error)
      | None \<Rightarrow>
          let build_mode = effective_build_mode request s in
          Inr \<lparr>jr_schema_version = 1, jr_api_path = ''/api/styio-platform/v1/jobs'', jr_action = action,
               jr_manifest_path = br_manifest_path request, jr_toolchain_mode = ts_mode s, jr_channel = ts_channel s,
               jr_build_mode = (if build_mode = [] then ''minimal'' else build_mode), jr_profile = br_profile request,
               jr_locked = wo_locked options, jr_offline = wo_offline options,
               jr_target = \<lparr>jt_package_name = br_package_name request, jt_bin_name = br_bin_name request,
                 jt_test_name = br_test_name request, jt_select_lib = br_select_lib request\<rparr>,
               jr_source = \<lparr>js_origin = ResolveSourceOriginBaseline (ce_getenv E), js_explicit_source_root = wo_source_root options,
                 js_requested_revision = wo_source_revision options, js_resolved_revision = ts_source_revision s,
                 js_allow_fetch = wo_allow_fetch options, js_assume_yes = wo_assume_yes options,
                 js_non_interactive = wo_non_interactive options, js_offline = wo_offline options\<rparr>,
               jr_cloud_policy = policy\<rparr>)"

text \<open>\<^verbatim>\<open>fs::absolute\<close>, which refuses the empty path.\<close>

definition fs_absolute :: "fs_path \<Rightarrow> fs_path \<Rightarrow> fs_path result" where
  "fs_absolute cwd p = (if p = [] then Inl (RuntimeError ''filesystem error: cannot make absolute path'') else Inr (path_div cwd p))"

definition opt_json :: "string option \<Rightarrow> json" where
  "opt_json v = (case v of None \<Rightarrow> JNull | Some x \<Rightarrow> JString x)"

definition opt_set :: "string \<Rightarrow> string option \<Rightarrow> json \<Rightarrow> json" where
  "opt_set k v j = (case v of None \<Rightarrow> j | Some x \<Rightarrow> json_set k (JString x) j)"

definition source_payload :: "CloudJobSourceSelection \<Rightarrow> fs_path option \<Rightarrow> json" where
  "source_payload src explicit_root =
     opt_set ''resolved_revision'' (js_resolved_revision src) (opt_set ''requested_revision'' (js_requested_revision src)
       (opt_set ''explicit_root'' explicit_root
         (json_obj [
            (''origin'', JString (js_origin src)), (''allow_fetch'', JBool (js_allow_fetch src)), (''assume_yes'', JBool (js_assume_yes src)),
            (''non_interactive'', JBool (js_non_interactive src)), (''offline'', JBool (js_offline src))])))"

definition BuildCloudBuildJobRequestPayload :: "cloud_env \<Rightarrow> CloudBuildJobRequest \<Rightarrow> json result" where
  "BuildCloudBuildJobRequestPayload E r =
     rbind (fs_absolute (ce_cwd E) (jr_manifest_path r)) (\<lambda>manifest_path.
     rbind (case js_explicit_source_root (jr_source r) of
              None \<Rightarrow> Inr None | Some p \<Rightarrow> rbind (fs_absolute (ce_cwd E) p) (\<lambda>a. Inr (Some a))) (\<lambda>explicit_root.
     Inr (json_obj [
       (''schema_version'', JInt (jr_schema_version r)), (''api_path'', JString (jr_api_path r)), (''action'', JString (jr_action r)),
       (''manifest_path'', JString manifest_path),
       (''toolchain'', json_obj [(''mode'', JString (jr_toolchain_mode r)), (''channel'', JString (jr_channel r)), (''build_mode'', JString (jr_build_mode r))]),
       (''profile'', JString (jr_profile r)),
       (''workflow'', json_obj [(''locked'', JBool (jr_locked r)), (''offline'', JBool (jr_offline r))]),
       (''target'', json_obj [
          (''package'', opt_json (jt_package_name (jr_target r))), (''bin'', opt_json (jt_bin_name (jr_target r))),
          (''test'', opt_json (jt_test_name (jr_target r))), (''lib'', JBool (jt_select_lib (jr_target r)))]),
       (''source'', source_payload (jr_source r) explicit_root),
       (''cloud'', SerializeCloudExecutionPolicy (jr_cloud_policy r))])))"

section \<open>Where jobs may run\<close>

lemmas cloud_words = IsSupportedCloudRiskClass_def IsSupportedCloudExecutionLane_def IsSupportedCloudSecurityProfile_def
  kSupportedCloudRiskClasses_def kSupportedCloudExecutionLanes_def kSupportedCloudSecurityProfiles_def

lemmas policy_defs = ResolveCloudExecutionPolicy_def known_risk_def known_lane_def isolate_def DefaultSecurityProfile_def DefaultWorkerTrustTier_def

text \<open>
  \<^bold>\<open>C37.\<close> The execution policy protects the platform whatever a project's state says. The risk class, the lane and the security
  profile are words of the vocabulary; a job runs on shared warm workers, or reuses a worker's local state, only when
  its class is trusted-internal and it asked for that lane; only then is it given the warm profile and tier; every
  job needs a container sandbox and is denied the network; the pool it is sent to is one of its lane and tier; and
  the fallback flag is set exactly when class, lane or profile are not the ones asked for.
\<close>

theorem cloud_policy_protects:
  "let p = ResolveCloudExecutionPolicy E s in
    IsSupportedCloudRiskClass (ep_risk_class p) \<and> IsSupportedCloudExecutionLane (ep_execution_lane p) \<and> IsSupportedCloudSecurityProfile (ep_security_profile p)
    \<and> (ep_execution_lane p = ''warm-shared'' \<longleftrightarrow> ts_risk_class s = ''trusted-internal'' \<and> ts_preferred_execution_lane s = ''warm-shared'')
    \<and> (sc_worker_local_reuse (ep_cache_policy p) \<longleftrightarrow> ep_execution_lane p = ''warm-shared'')
    \<and> (ep_security_profile p = ''trusted-warm'' \<longleftrightarrow> ep_execution_lane p = ''warm-shared'')
    \<and> (ep_worker_trust_tier p = ''internal-warm'' \<longleftrightarrow> ep_execution_lane p = ''warm-shared'')
    \<and> (sc_shared_cache_promotion_eligible (ep_cache_policy p) \<longleftrightarrow> ts_risk_class s = ''trusted-internal'')
    \<and> ep_requires_container_sandbox p \<and> ep_network_egress_default_deny p
    \<and> wk_execution_lane (ep_worker_pool_key p) = ep_execution_lane p \<and> wk_worker_trust_tier (ep_worker_pool_key p) = ep_worker_trust_tier p
    \<and> (ep_fallback_applied p \<longleftrightarrow> \<not> (ep_risk_class p = ts_risk_class s \<and> ep_execution_lane p = ts_preferred_execution_lane s
         \<and> ep_security_profile p = ts_security_profile s))"
proof -
  have "ts_risk_class s = ''trusted-internal'' \<or> ts_risk_class s = ''partner-controlled'' \<or> ts_risk_class s = ''untrusted-user'' \<or> \<not> IsSupportedCloudRiskClass (ts_risk_class s)"
    and "ts_preferred_execution_lane s = ''isolated'' \<or> ts_preferred_execution_lane s = ''warm-shared'' \<or> \<not> IsSupportedCloudExecutionLane (ts_preferred_execution_lane s)"
    by (auto simp: cloud_words)
  then show ?thesis
    by (elim disjE) (auto simp: policy_defs cloud_words Let_def)
qed

section \<open>Client and platform\<close>

lemma obj_not_string: "\<not> is_string (json_obj kvs)"
  by (simp add: json_obj_def)

lemma payload_value: "json_value get (json_obj kvs) k d = (case map_of kvs k of None \<Rightarrow> Inr d | Some v \<Rightarrow> get v)"
  by (simp add: json_obj_def obj_fold_find)

lemma opt_set_object: "is_object j \<Longrightarrow> is_object (opt_set k v j)"
  by (cases j) (auto simp: opt_set_def split: option.split)

lemma opt_set_lookup: "is_object j \<Longrightarrow> json_lookup (opt_set k v j) k' = (case v of Some x \<Rightarrow> if k' = k then Some (JString x) else json_lookup j k' | None \<Rightarrow> json_lookup j k')"
  by (simp add: opt_set_def json_lookup_set split: option.split)

lemma source_payload_lookup:
  "is_object (source_payload src r)"
  "json_lookup (source_payload src r) ''origin'' = Some (JString (js_origin src))"
  "json_lookup (source_payload src r) ''requested_revision'' = map_option JString (js_requested_revision src)"
proof -
  note steps = opt_set_lookup [OF opt_set_object [OF opt_set_object]] opt_set_lookup [OF opt_set_object] opt_set_lookup opt_set_object
  show "is_object (source_payload src r)" by (simp add: source_payload_def steps)
  show "json_lookup (source_payload src r) ''origin'' = Some (JString (js_origin src))"
    "json_lookup (source_payload src r) ''requested_revision'' = map_option JString (js_requested_revision src)"
    by (simp_all add: source_payload_def steps split: option.split)
qed

lemma valid_action: "ValidateWorkflowInvocationImpl action request s options = None \<Longrightarrow> IsAction action"
  by (rule ccontr) (simp add: ValidateWorkflowInvocationImpl_def IsAction_def Let_def)

lemma BuildCloudBuildJobRequest_fields:
  assumes "BuildCloudBuildJobRequest E action request s options policy = Inr r"
  shows "IsAction action" "jr_schema_version r = 1" "js_requested_revision (jr_source r) = wo_source_revision options"
  using assms valid_action by (auto simp: BuildCloudBuildJobRequest_def Let_def split: option.splits)

lemma payload_lookup:
  assumes "BuildCloudBuildJobRequestPayload E r = Inr payload" "path_absolute (ce_cwd E)"
  obtains m x where "is_object payload" "json_lookup payload ''schema_version'' = Some (JInt (jr_schema_version r))"
    "json_lookup payload ''manifest_path'' = Some (JString m)" "m \<noteq> []" "json_lookup payload ''source'' = Some (source_payload (jr_source r) x)"
    "json_lookup payload ''cloud'' = Some (SerializeCloudExecutionPolicy (jr_cloud_policy r))"
    "\<And>f v. f \<in> {''toolchain'', ''workflow'', ''target'', ''cloud''} \<Longrightarrow> json_lookup payload f = Some v \<Longrightarrow> is_object v"
proof -
  from assms(1) obtain m x where m: "fs_absolute (ce_cwd E) (jr_manifest_path r) = Inr m" and p: "payload = json_obj [
       (''schema_version'', JInt (jr_schema_version r)), (''api_path'', JString (jr_api_path r)), (''action'', JString (jr_action r)),
       (''manifest_path'', JString m),
       (''toolchain'', json_obj [(''mode'', JString (jr_toolchain_mode r)), (''channel'', JString (jr_channel r)), (''build_mode'', JString (jr_build_mode r))]),
       (''profile'', JString (jr_profile r)),
       (''workflow'', json_obj [(''locked'', JBool (jr_locked r)), (''offline'', JBool (jr_offline r))]),
       (''target'', json_obj [
          (''package'', opt_json (jt_package_name (jr_target r))), (''bin'', opt_json (jt_bin_name (jr_target r))),
          (''test'', opt_json (jt_test_name (jr_target r))), (''lib'', JBool (jt_select_lib (jr_target r)))]),
       (''source'', source_payload (jr_source r) x),
       (''cloud'', SerializeCloudExecutionPolicy (jr_cloud_policy r))]"
    unfolding BuildCloudBuildJobRequestPayload_def rbind_eq_Inr by blast
  have "m \<noteq> []" using m assms(2) by (auto simp: fs_absolute_def path_div_def path_absolute_def split: if_splits)
  then show thesis by (rule that [rotated 3]) (auto simp: p SerializeCloudExecutionPolicy_def)
qed


definition sample_cloud :: cloud_env where
  "sample_cloud = \<lparr>ce_platform = ''linux'', ce_architecture = ''x86_64'', ce_getenv = (\<lambda>_. None), ce_cwd = ''/w''\<rparr>"

definition warm_state :: ProjectToolchainState where
  "warm_state = (default_state ''/w/spio.toml'' ''/w/spio-toolchain.lock'')
     \<lparr>ts_risk_class := ''trusted-internal'', ts_preferred_execution_lane := ''warm-shared'', ts_security_profile := ''trusted-warm''\<rparr>"

definition plain_options :: WorkflowInvocationOptions where
  "plain_options = \<lparr>wo_locked = False, wo_offline = False, wo_styio_bin = None, wo_allow_fetch = True, wo_assume_yes = False,
     wo_non_interactive = False, wo_source_root = None, wo_source_revision = None\<rparr>"


end
