(* ===== verification/Project_Graph.thy ===== *)
theory Project_Graph
  imports Cloud_Jobs
begin

text \<open>
  The description of a project for tools (\<^verbatim>\<open>SpioPlatformProtocols/ProjectGraphContract.cpp\<close>). The status of the installed
  toolchains comes from the command line tool, which is not part of these sources: its payload and its home
  directory are arguments. The resolver recurses with fuel; \<open>None\<close> is a resolution that needs more.
\<close>

definition ReadLockText :: "file_system \<Rightarrow> fs_path \<Rightarrow> string result" where
  "ReadLockText fs p =
     (case fs p of
        None \<Rightarrow> Inl (RuntimeError (''failed to read file: '' @ p))
      | Some Directory \<Rightarrow> Inr []
      | Some (Regular text) \<Rightarrow> Inr text)"

definition alias_payload :: "ResolvedDependencyAlias \<Rightarrow> json" where
  "alias_payload a = json_obj [(''alias'', JString (ra_alias a)), (''package_id'', JString (ra_package_id a))]"

definition BuildPackagePayload :: "ResolvedPackage \<Rightarrow> json" where
  "BuildPackagePayload p =
     json_set ''dependency_aliases'' (JArray (map alias_payload (rk_dependency_aliases p)))
       (opt_set ''snapshot_root'' (rk_snapshot_root p) (opt_set ''sha256'' (rk_sha256 p) (opt_set ''registry'' (rk_registry p)
         (opt_set ''rev'' (rk_rev p) (opt_set ''git'' (rk_git p)
           (json_obj [
              (''id'', JString (rk_id p)), (''manifest_path'', JString (rk_manifest_path p)), (''root_dir'', JString (rk_root_dir p)),
              (''name'', JString (pc_name (rk_package p))), (''version'', JString (pc_version (rk_package p))),
              (''edition'', JString (pc_edition (rk_package p))), (''publish'', JBool (pc_publish (rk_package p))),
              (''source_kind'', JString (rk_source_kind p)), (''dependencies'', JArray (map JString (rk_dependencies p)))]))))))"

definition target_entry :: "fs_path \<Rightarrow> ResolvedPackage \<Rightarrow> string \<Rightarrow> string \<Rightarrow> json" where
  "target_entry cwd p name relative =
     json_obj [(''name'', JString name), (''path'', JString (CanonicalAbsolutePath cwd (path_div (rk_root_dir p) relative)))]"

definition BuildTargetPayload :: "fs_path \<Rightarrow> ResolvedPackage \<Rightarrow> json" where
  "BuildTargetPayload cwd p =
     json_obj [
       (''package_id'', JString (rk_id p)),
       (''lib'', case pc_lib (rk_package p) of None \<Rightarrow> JNull
                 | Some lib \<Rightarrow> JString (CanonicalAbsolutePath cwd (path_div (rk_root_dir p) (lib_path lib)))),
       (''bins'', JArray (map (\<lambda>b. target_entry cwd p (bin_name b) (bin_path b)) (pc_bins (rk_package p)))),
       (''tests'', JArray (map (\<lambda>t. target_entry cwd p (test_name t) (test_path t)) (pc_tests (rk_package p))))]"

definition dependency_edge :: "ResolvedPackage \<Rightarrow> ResolvedDependencyAlias \<Rightarrow> json" where
  "dependency_edge p a = json_obj [(''from'', JString (rk_id p)), (''to'', JString (ra_package_id a)), (''alias'', JString (ra_alias a))]"

definition BuildDependencyEdgesPayload :: "ResolvedGraphResult \<Rightarrow> json" where
  "BuildDependencyEdgesPayload graph = JArray (concat (map (\<lambda>p. map (dependency_edge p) (rk_dependency_aliases p)) (rg_packages graph)))"

definition kind_count :: "ResolvedGraphResult \<Rightarrow> string \<Rightarrow> int" where
  "kind_count graph kind = int (length (filter (\<lambda>p. rk_source_kind p = kind) (rg_packages graph)))"

definition workspace_like :: "ResolvedGraphResult \<Rightarrow> ResolvedPackage \<Rightarrow> bool" where
  "workspace_like graph p = starts_with (rk_manifest_path p) (path_parent (rg_manifest_path graph))"

definition BuildPackageDistributionPayload :: "ResolvedGraphResult \<Rightarrow> json" where
  "BuildPackageDistributionPayload graph =
     json_obj [
       (''root_package_count'', JInt (to_int32 (int (length (rg_root_ids graph))))), (''total_package_count'', JInt (to_int32 (int (length (rg_packages graph))))),
       (''path_packages'', JInt (kind_count graph ''path'')), (''git_packages'', JInt (kind_count graph ''git'')),
       (''registry_packages'', JInt (kind_count graph ''registry'')),
       (''workspace_local_packages'', JInt (int (length (filter (workspace_like graph) (rg_packages graph)))))]"

definition BuildSourceStatePayload :: "cloud_env \<Rightarrow> fs_path \<Rightarrow> ProjectToolchainState \<Rightarrow> fs_path \<Rightarrow> json" where
  "BuildSourceStatePayload E manifest_path s spio_home =
     json_set ''project_state_root'' (JString (ProjectStateRootForManifest (ce_cwd E) manifest_path))
       (opt_set ''explicit_source_root''
          (case ce_getenv E ''SPIO_STYIO_SOURCE_ROOT'' of
             Some (c # cs) \<Rightarrow> Some (CanonicalAbsolutePath (ce_cwd E) (c # cs)) | _ \<Rightarrow> None)
         (opt_set ''source_revision'' (ts_source_revision s)
           (json_obj [
              (''toolchain_mode'', JString (ts_mode s)), (''source_origin'', JString (ResolveSourceOriginBaseline (ce_getenv E))),
              (''source_state_root'', JString (SourceStateRoot (ce_cwd E) spio_home))])))"

definition lock_path_for :: "fs_path \<Rightarrow> fs_path" where
  "lock_path_for manifest_path = path_div (path_parent manifest_path) ''spio.lock''"

definition lock_fresh :: "resolver_env \<Rightarrow> nat \<Rightarrow> fs_path \<Rightarrow> ResolveOptions \<Rightarrow> os_world \<Rightarrow> (bool result \<times> os_world) option" where
  "lock_fresh V fuel manifest_path options w =
     (case ResolveSingleVersionLockfile V fuel manifest_path options w of
        None \<Rightarrow> None
      | Some (Inl e, w') \<Rightarrow> Some (Inl e, w')
      | Some (Inr generated, w') \<Rightarrow>
          Some (rbind (ReadLockText (w_fs w') (lock_path_for manifest_path)) (\<lambda>text. Inr (text = SerializeLockfileCanonical (lg_lockfile generated))), w'))"

definition graph_payload ::
  "cloud_env \<Rightarrow> fs_path \<Rightarrow> ResolvedGraphResult \<Rightarrow> bool \<Rightarrow> bool \<Rightarrow> ProjectToolchainState \<Rightarrow> CloudExecutionPolicy \<Rightarrow> json \<Rightarrow> fs_path \<Rightarrow> bool \<Rightarrow> bool \<Rightarrow> json result" where
  "graph_payload E manifest_path graph locked offline s policy tool_status spio_home lock_exists fresh =
     rbind (json_at tool_status ''managed_toolchains'') (\<lambda>managed.
     Inr (json_obj [
       (''command'', JString ''project-graph''), (''manifest_path'', JString (CanonicalAbsolutePath (ce_cwd E) manifest_path)),
       (''root_ids'', JArray (map JString (rg_root_ids graph))), (''packages'', JArray (map BuildPackagePayload (rg_packages graph))),
       (''dependencies'', BuildDependencyEdgesPayload graph), (''targets'', JArray (map (BuildTargetPayload (ce_cwd E)) (rg_packages graph))),
       (''toolchain'', json_obj [
          (''mode'', JString (ts_mode s)), (''channel'', JString (ts_channel s)), (''build_mode'', JString (ts_build_mode s)),
          (''risk_class'', JString (ts_risk_class s)), (''preferred_execution_lane'', JString (ts_preferred_execution_lane s)),
          (''security_profile'', JString (ts_security_profile s)), (''cloud'', SerializeCloudExecutionPolicy policy)]),
       (''managed_toolchains'', managed),
       (''lock_state'', json_obj [
          (''path'', JString (lock_path_for manifest_path)), (''exists'', JBool lock_exists), (''fresh'', JBool fresh),
          (''locked'', JBool locked), (''offline'', JBool offline)]),
       (''source_state'', BuildSourceStatePayload E manifest_path s spio_home),
       (''package_distribution'', BuildPackageDistributionPayload graph)]))"

definition BuildProjectGraphPayload ::
  "cloud_env \<Rightarrow> resolver_env \<Rightarrow> nat \<Rightarrow> fs_path \<Rightarrow> ResolvedGraphResult \<Rightarrow> bool \<Rightarrow> bool \<Rightarrow> ProjectToolchainState \<Rightarrow> CloudExecutionPolicy
     \<Rightarrow> json \<Rightarrow> fs_path \<Rightarrow> ResolveOptions \<Rightarrow> os_world \<Rightarrow> (json result \<times> os_world) option" where
  "BuildProjectGraphPayload E V fuel manifest_path graph locked offline s policy tool_status spio_home options w =
     (let lock_exists = fs_exists (w_fs w) (lock_path_for manifest_path);
          payload = graph_payload E manifest_path graph locked offline s policy tool_status spio_home lock_exists in
      if \<not> lock_exists then Some (payload False, w)
      else case lock_fresh V fuel manifest_path options w of
             None \<Rightarrow> None
           | Some (Inl e, w') \<Rightarrow> Some (Inl e, w')
           | Some (Inr fresh, w') \<Rightarrow> Some (payload fresh, w'))"

section \<open>Edges\<close>

text \<open>The edges of the payload are the aliases of the graph's packages, each once, in their order.\<close>

lemma BuildDependencyEdgesPayload_edges:
  "e \<in> set (json_elements (BuildDependencyEdgesPayload graph)) \<longleftrightarrow> (\<exists>p \<in> set (rg_packages graph). \<exists>a \<in> set (rk_dependency_aliases p). e = dependency_edge p a)"
  by (auto simp: BuildDependencyEdgesPayload_def)

text \<open>
  A package in a directory whose name extends the project's counts as local to the workspace: the test compares
  text, not path components.
\<close>

lemma workspace_like_sibling:
  "rg_manifest_path graph = ''/w/app/spio.toml'' \<Longrightarrow> rk_manifest_path p = ''/w/app2/spio.toml'' \<Longrightarrow> workspace_like graph p"
proof -
  assume "rg_manifest_path graph = ''/w/app/spio.toml''" "rk_manifest_path p = ''/w/app2/spio.toml''"
  moreover have "starts_with ''/w/app2/spio.toml'' (path_parent ''/w/app/spio.toml'')" by code_simp
  ultimately show ?thesis by (simp add: workspace_like_def)
qed

end
