(* ===== verification/Source_Build.thy ===== *)
theory Source_Build
  imports Toolchain_State Source_Fetch
begin

text \<open>
  Building the compiler from source (\<^verbatim>\<open>PlatformCore/Toolchain/SourceBuild.cpp\<close>). The terminal is a parameter: whether the
  standard input is one, and the line the user answers with. Programs are run as in \<^verbatim>\<open>Os_World\<close>; \<^verbatim>\<open>cmake\<close>, like
  \<^verbatim>\<open>git\<close>, may do anything to the files.
\<close>

record terminal =
  tt_isatty :: bool
  tt_answer :: "string option"

record SourceBuildRequest =
  sb_manifest_path :: fs_path
  sb_channel :: string
  sb_build_mode :: string
  sb_explicit_source_root :: "fs_path option"
  sb_source_revision :: "string option"
  sb_allow_fetch :: bool
  sb_offline :: bool
  sb_assume_yes :: bool
  sb_non_interactive :: bool

record SourceBuildResult =
  sr_source_root :: fs_path
  sr_compiler_binary :: fs_path
  sr_source_revision :: string
  sr_channel :: string
  sr_build_mode :: string
  sr_fetched :: bool
  sr_built :: bool

definition trimmed_char :: "char \<Rightarrow> bool" where
  "trimmed_char c = (c = CHR 0x0A \<or> c = CHR 0x0D \<or> c = CHR '' '' \<or> c = CHR 0x09)"

definition Trim :: "string \<Rightarrow> string" where
  "Trim text = dropWhile trimmed_char (rev (dropWhile trimmed_char (rev text)))"

definition OfficialSourceOrigin :: "(string \<Rightarrow> string option) \<Rightarrow> string" where
  "OfficialSourceOrigin getenv =
     (case getenv ''SPIO_STYIO_SOURCE_ORIGIN'' of Some (c # cs) \<Rightarrow> c # cs | _ \<Rightarrow> ''https://github.com/eBioRing/Styio.git'')"

definition RequestedSourceRef :: "SourceBuildRequest \<Rightarrow> string" where
  "RequestedSourceRef req = (case sb_source_revision req of Some (c # cs) \<Rightarrow> c # cs | _ \<Rightarrow> sb_channel req)"

definition ShouldFetchSource :: "terminal \<Rightarrow> SourceBuildRequest \<Rightarrow> bool result" where
  "ShouldFetchSource T req =
     (if \<not> sb_allow_fetch req \<or> sb_offline req then Inr False
      else if sb_assume_yes req then Inr True
      else if sb_non_interactive req \<or> \<not> tt_isatty T
      then Inl (ToolError ''styio source tree not found locally; rerun with --yes, configure a local source root, or disable source-build mode'')
      else case tt_answer T of
             None \<Rightarrow> Inr False
           | Some line \<Rightarrow> Inr (Trim line \<in> {[], ''Y'', ''y'', ''yes'', ''YES''}))"

definition EnsureDirectorySourceRoot :: "fs_path \<Rightarrow> (platform_error, unit) io" where
  "EnsureDirectorySourceRoot root_dir =
     ibind (ireads (\<lambda>fs. fs)) (\<lambda>fs.
     ibind (iguard (\<not> fs_exists fs root_dir) (ToolError (''styio source root not found: '' @ root_dir))) (\<lambda>_.
     ibind (iguard (\<not> fs_is_directory fs root_dir) (ToolError (''styio source root must be a directory: '' @ root_dir))) (\<lambda>_.
     iguard (\<not> fs_exists fs (path_div root_dir ''CMakeLists.txt'')) (ToolError (''styio source root is missing CMakeLists.txt: '' @ root_dir)))))"

definition build_process :: "string \<Rightarrow> string list \<Rightarrow> fs_path option \<Rightarrow> nat \<Rightarrow> ProcessRequest" where
  "build_process program args working_directory timeout =
     (process_request program args)\<lparr>pr_working_directory := working_directory, pr_timeout := Some timeout,
        pr_error_context := ''source-toolchain process''\<rparr>"

definition TryResolveGitRevision :: "os_env \<Rightarrow> fs_path \<Rightarrow> (platform_error, string) io" where
  "TryResolveGitRevision E root_dir =
     ibind (ireads (\<lambda>fs. fs_exists fs (path_div root_dir ''.git''))) (\<lambda>git.
     if \<not> git then ireturn []
     else
       ibind (RunProcess E ToolError (build_process ''git'' [''rev-parse'', ''HEAD''] (Some root_dir) kExternalProcessProbeTimeout)) (\<lambda>r.
       ireturn (if ps_exit_code r \<noteq> 0 then [] else Trim (ps_stdout_text r))))"

definition RunChecked :: "os_env \<Rightarrow> string \<Rightarrow> string list \<Rightarrow> fs_path option \<Rightarrow> string \<Rightarrow> nat \<Rightarrow> (platform_error, unit) io" where
  "RunChecked E program args workdir label timeout =
     ibind (RunProcess E ToolError (build_process program args workdir timeout)) (\<lambda>r.
     iguard (ps_exit_code r \<noteq> 0)
       (ToolError (label @ '' failed'' @ (let detail = DescribeProcessFailure r in if detail = [] then [] else '': '' @ detail))))"

definition worktree_request :: "SourceBuildRequest \<Rightarrow> string \<Rightarrow> fs_path \<Rightarrow> GitWorktreeRequest" where
  "worktree_request req origin root_dir =
     \<lparr>gw_origin = origin, gw_checkout_root = root_dir, gw_revision = Some (RequestedSourceRef req), gw_update_existing = True,
      gw_shallow = True, gw_depth = 1, gw_clone_revision_as_branch = (sb_source_revision req = None), gw_policy = TrustedGitSourcePolicy,
      gw_error_context = ''source-toolchain process''\<rparr>"

text \<open>A source tree the user names: it must look like one.\<close>

definition named_source :: "os_env \<Rightarrow> fs_path \<Rightarrow> (platform_error, fs_path \<times> string \<times> bool) io" where
  "named_source E p =
     (let root_dir = CanonicalAbsolutePath (oe_cwd E) p in
      ibind (EnsureDirectorySourceRoot root_dir) (\<lambda>_.
      ibind (TryResolveGitRevision E root_dir) (\<lambda>revision. ireturn (root_dir, revision, False))))"

definition fetched_source :: "os_env \<Rightarrow> terminal \<Rightarrow> SourceBuildRequest \<Rightarrow> fs_path \<Rightarrow> (platform_error, fs_path \<times> string \<times> bool) io" where
  "fetched_source E T req spio_home =
     (let origin = OfficialSourceOrigin (oe_getenv E);
          root_dir = SourceCheckoutRoot (oe_cwd E) spio_home (sb_channel req) (SourceFetchSlug (origin @ ''#'' @ RequestedSourceRef req)) in
      ibind (ireads (\<lambda>fs. fs_exists fs root_dir)) (\<lambda>present.
      ibind (if present then ireturn ()
             else ibind (ilift (ShouldFetchSource T req)) (\<lambda>fetch.
                  iguard (\<not> fetch) (ToolError ''styio source tree not available locally and fetch was declined''))) (\<lambda>_.
      ibind (if present then
               ibind (EnsureDirectorySourceRoot root_dir) (\<lambda>_.
               ibind (ireads (\<lambda>fs. fs_exists fs (path_div root_dir ''.git''))) (\<lambda>git.
               if git \<and> \<not> sb_offline req
               then ibind (EnsureWorktree E (worktree_request req origin root_dir)) (\<lambda>_. ireturn False)
               else ireturn False))
             else
               ibind (EnsureWorktree E (worktree_request req origin root_dir)) (\<lambda>checkout.
               ireturn (gr_cloned checkout \<or> gr_fetched checkout))) (\<lambda>fetched.
      ibind (TryResolveGitRevision E root_dir) (\<lambda>revision. ireturn (root_dir, revision, fetched))))))"

definition build_compiler :: "os_env \<Rightarrow> fs_path \<Rightarrow> fs_path \<Rightarrow> fs_path \<Rightarrow> (platform_error, bool) io" where
  "build_compiler E root_dir build_root compiler_binary =
     ibind (ireads (\<lambda>fs. fs_exists fs compiler_binary)) (\<lambda>present.
     ibind (if present then ireturn False
            else
              ibind (ichange (create_directories build_root)) (\<lambda>_.
              ibind (RunChecked E ''cmake'' [''-S'', root_dir, ''-B'', build_root, ''-G'', ''Ninja'', ''-DCMAKE_BUILD_TYPE=Release''] None
                       ''cmake configure'' kExternalProcessBuildTimeout) (\<lambda>_.
              ibind (RunChecked E ''cmake'' [''--build'', build_root, ''--target'', ''styio''] None ''cmake build'' kExternalProcessBuildTimeout) (\<lambda>_.
              ireturn True)))) (\<lambda>built.
     ibind (ireads (\<lambda>fs. fs_exists fs compiler_binary)) (\<lambda>present.
     ibind (iguard (\<not> present) (ToolError (''source-built styio compiler binary was not produced at '' @ compiler_binary))) (\<lambda>_.
     ireturn built))))"

definition EnsureSourceBuiltStyio :: "os_env \<Rightarrow> terminal \<Rightarrow> SourceBuildRequest \<Rightarrow> (platform_error, SourceBuildResult) io" where
  "EnsureSourceBuiltStyio E T req =
     ibind (iguard (\<not> IsSupportedBuildMode (sb_build_mode req)) (ToolError (''unsupported source build mode: '' @ sb_build_mode req))) (\<lambda>_.
     ibind (ilift (ResolveSpioHome (oe_getenv E) (oe_cwd E))) (\<lambda>spio_home.
     ibind (case sb_explicit_source_root req of
              Some p \<Rightarrow> named_source E p
            | None \<Rightarrow>
                (case oe_getenv E ''SPIO_STYIO_SOURCE_ROOT'' of
                   Some (c # cs) \<Rightarrow> named_source E (c # cs)
                 | _ \<Rightarrow> fetched_source E T req spio_home)) (\<lambda>(root_dir, revision, fetched).
     let source_revision = (if revision \<noteq> [] then revision
                            else case sb_source_revision req of Some r \<Rightarrow> r | None \<Rightarrow> SourceFetchSlug root_dir);
         build_root = SourceToolchainBuildRoot (oe_cwd E) spio_home (sb_channel req) (SourceFetchSlug source_revision) (sb_build_mode req);
         compiler_binary = CanonicalAbsolutePath (oe_cwd E) (path_div (path_div build_root ''bin'') ''styio'') in
     ibind (build_compiler E root_dir build_root compiler_binary) (\<lambda>built.
     ireturn \<lparr>sr_source_root = root_dir, sr_compiler_binary = compiler_binary, sr_source_revision = source_revision,
              sr_channel = sb_channel req, sr_build_mode = sb_build_mode req, sr_fetched = fetched, sr_built = built\<rparr>))))"

section \<open>Offline builds\<close>

lemma runs_build_steps [runs_intros]:
  "runs_only local_request (TryResolveGitRevision E root_dir)" "runs_only local_request (EnsureDirectorySourceRoot root_dir)"
  "runs_only local_request (build_compiler E root_dir build_root compiler_binary)"
  unfolding TryResolveGitRevision_def EnsureDirectorySourceRoot_def build_compiler_def RunChecked_def
  by (intro runs_intros; simp add: network_request_def build_process_def process_request_def)+

lemma runs_named_source [runs_intros]: "runs_only local_request (named_source E p)"
  unfolding named_source_def Let_def by (intro runs_intros)

lemma fetched_source_offline:
  assumes "sb_offline req"
  shows "runs_only local_request (fetched_source E T req home)"
proof -
  have "ibind (ilift (ShouldFetchSource T req)) (\<lambda>fetch. iguard (\<not> fetch) e) = ithrow e" for e :: platform_error
    by (rule ext) (simp add: ShouldFetchSource_def assms ibind_def io_simps iguard_def)
  moreover have "runs_only local_request (ibind (ithrow e) f)" for e :: platform_error and f :: "'x \<Rightarrow> (platform_error, 'y) io"
    by (simp add: runs_only_def ibind_def io_simps)
  ultimately have declined: "runs_only local_request (ibind (if present then ireturn () else ibind (ilift (ShouldFetchSource T req)) (\<lambda>fetch. iguard (\<not> fetch) e)) f)"
    if "present \<Longrightarrow> runs_only local_request (f ())" for present e and f :: "unit \<Rightarrow> (platform_error, fs_path \<times> string \<times> bool) io"
    using that by (auto intro: runs_intros)
  show ?thesis
    unfolding fetched_source_def Let_def
    by (intro runs_only_bind [where m = "ireads f" for f] declined runs_intros) (simp_all add: assms runs_intros)
qed

lemma named_source_result: "named_source E p w = (Inr (root_dir, revision, fetched), w') \<Longrightarrow> \<not> fetched"
  by (auto simp: named_source_def Let_def io_Inr io_simps)

lemma fetched_source_result:
  assumes "sb_offline req" and "fetched_source E T req home w = (Inr (root_dir, revision, fetched), w')"
  shows "\<not> fetched"
  using assms
  by (auto simp: fetched_source_def Let_def io_Inr io_simps ShouldFetchSource_def split: if_splits)

lemma build_compiler_result:
  "build_compiler E root_dir build_root compiler_binary w = (Inr built, w') \<Longrightarrow> fs_exists (w_fs w') compiler_binary"
  by (auto simp: build_compiler_def io_Inr io_simps split: if_splits)

text \<open>The three places a source tree may come from, in the order in which they are tried.\<close>

lemma source_tree_cases:
  assumes "\<And>p. P (named_source E p)" and "P (fetched_source E T req home)"
  shows "P (case sb_explicit_source_root req of
              Some p \<Rightarrow> named_source E p
            | None \<Rightarrow> (case oe_getenv E ''SPIO_STYIO_SOURCE_ROOT'' of
                   Some (c # cs) \<Rightarrow> named_source E (c # cs) | _ \<Rightarrow> fetched_source E T req home))"
  using assms by (auto split: option.splits list.splits)

lemma runs_source_build:
  assumes "sb_offline req"
  shows "runs_only local_request (EnsureSourceBuiltStyio E T req)"
  unfolding EnsureSourceBuiltStyio_def Let_def
  by (intro runs_only_bind runs_only_basic source_tree_cases [where P = "runs_only local_request"] fetched_source_offline [OF assms])
    (auto intro!: runs_intros split: prod.split)

lemma source_build_result:
  assumes "sb_offline req" and "EnsureSourceBuiltStyio E T req w = (Inr r, w')"
  shows "fs_exists (w_fs w') (sr_compiler_binary r) \<and> \<not> sr_fetched r \<and> IsSupportedBuildMode (sr_build_mode r)"
proof -
  let ?tree = "\<lambda>home. case sb_explicit_source_root req of
              Some p \<Rightarrow> named_source E p
            | None \<Rightarrow> (case oe_getenv E ''SPIO_STYIO_SOURCE_ROOT'' of
                   Some (c # cs) \<Rightarrow> named_source E (c # cs) | _ \<Rightarrow> fetched_source E T req home)"
  have unfetched: "\<not> fetched" if "?tree home w1 = (Inr (root_dir, revision, fetched), w2)" for home w1 root_dir revision fetched w2
    using that
    by (auto split: option.splits list.splits dest: named_source_result fetched_source_result [OF assms(1)])
  from assms(2) show ?thesis
    unfolding EnsureSourceBuiltStyio_def
    by (auto simp: Let_def io_Inr io_simps dest: build_compiler_result unfetched)
qed

text \<open>
  \<^bold>\<open>C39.\<close> An offline source build contacts no network: whatever the environment, the files, the terminal and the programs do,
  and however it ends, no \<^verbatim>\<open>clone\<close>, \<^verbatim>\<open>fetch\<close> or download is run. When it returns, the compiler binary it names exists
  at that moment, the build mode is a supported one and the result does not claim that a source tree was fetched.
\<close>

theorem source_build_offline:
  assumes "sb_offline req"
  shows "(\<exists>more. w_log (snd (EnsureSourceBuiltStyio E T req w)) = w_log w @ more \<and> list_all local_request more)
    \<and> (\<forall>r w'. EnsureSourceBuiltStyio E T req w = (Inr r, w') \<longrightarrow>
          fs_exists (w_fs w') (sr_compiler_binary r) \<and> \<not> sr_fetched r \<and> IsSupportedBuildMode (sr_build_mode r))"
  using runs_source_build [OF assms] source_build_result [OF assms] by (auto simp: runs_only_def)

text \<open>A request for a named tree, on a machine where every file of the tree and of an earlier build is in place.\<close>

definition offline_build :: SourceBuildRequest where
  "offline_build = \<lparr>sb_manifest_path = ''/p/spio.toml'', sb_channel = ''stable'', sb_build_mode = ''minimal'',
     sb_explicit_source_root = Some ''/src'', sb_source_revision = None, sb_allow_fetch = True, sb_offline = True,
     sb_assume_yes = True, sb_non_interactive = True\<rparr>"

definition built_world :: os_world where
  "built_world = \<lparr>w_fs = (\<lambda>_. Some Directory), w_log = []\<rparr>"

definition build_machine :: os_env where
  "build_machine = quiet_os\<lparr>oe_getenv := (\<lambda>_. Some ''/h'')\<rparr>"

definition no_terminal :: terminal where
  "no_terminal = \<lparr>tt_isatty = False, tt_answer = None\<rparr>"

theorem source_build_offline_witness:
  "\<exists>r w'. EnsureSourceBuiltStyio build_machine no_terminal offline_build built_world = (Inr r, w')
     \<and> length (w_log w') = 1 \<and> list_all local_request (w_log w') \<and> fs_exists (w_fs w') (sr_compiler_binary r) \<and> \<not> sr_fetched r"
proof -
  have "\<exists>r w'. EnsureSourceBuiltStyio build_machine no_terminal offline_build built_world = (Inr r, w') \<and> length (w_log w') = 1"
    by (simp add: EnsureSourceBuiltStyio_def build_machine_def no_terminal_def offline_build_def built_world_def quiet_os_def
        IsSupportedBuildMode_def kSupportedBuildModes_def ResolveSpioHome_def ResolveOptionalSpioHome_def
        named_source_def EnsureDirectorySourceRoot_def TryResolveGitRevision_def build_compiler_def RunProcess_def irun_def ierror_def
        ibind_def iguard_def io_eqs fs_exists_def fs_is_directory_def Let_def)
  then show ?thesis
    using source_build_offline [of offline_build build_machine no_terminal built_world]
    by (auto simp: offline_build_def built_world_def)
qed

end
