(* ===== verification/Spec2Isabelle.thy ===== *)
theory Spec2Isabelle
  imports Sha256_Constants Sha256_Correct Platform_Router Cache_Paths Resolver_Runs
    Compile_Plan_Correct Registry_Log Registry_Append Governance_Plans Recovery_Roundtrip Mirror_Faithful Whole_Platform
    Project_Graph Source_Build
begin

text \<open>
  \<^bold>\<open>Verification of the styio-platform control plane.\<close>

  \<^bold>\<open>The program.\<close> The platform (C++ under \<^verbatim>\<open>src/src\<close>) is a control plane for cloud builds and a
  package registry. A server hands each HTTP request to \<^verbatim>\<open>PlatformRouter::Dispatch\<close>
  (\<^verbatim>\<open>PlatformService/Router.cpp\<close>), which matches the route, checks the client certificate's
  identity, applies the rate limiter, counts the request and calls one handler. Handlers
  validate the JSON body and call the state store: the in-memory store
  (\<^verbatim>\<open>PlatformPersistence/MemoryStateStore.cpp\<close>) or, when configured, PostgreSQL. Workers claim
  queued jobs, directly or through a compile container bound to one tenant and user, send
  heartbeats and complete them; artifacts go to an object store; registry writes are allowed
  to operators, writers, package owners and holders of publish tokens, and are audited. The
  client side reads project manifests, resolves their path, git and registry dependencies to
  one version each, and writes a lockfile.

  \<^bold>\<open>The theories.\<close>
  \<^item> \<^verbatim>\<open>Platform_Prelude\<close>: exceptions as values (\<^verbatim>\<open>Core/Errors.hpp\<close>), results, text and number functions
    of the C++ library; \<^verbatim>\<open>Std_Map\<close>: \<^verbatim>\<open>std::map\<close> as ascending association lists, with the interface
    locale \<open>ordered_map\<close>; \<^verbatim>\<open>Json_Value\<close>: the JSON values and accessors the sources use;
    \<^verbatim>\<open>Transition\<close>: the locales \<open>invariant_system\<close> and \<open>evolving_system\<close> for runs of a step relation.
  \<^item> \<^verbatim>\<open>Sha256_Core\<close> (\<^verbatim>\<open>Core/Sha256.cpp\<close>): the buffered hash over 8, 32 and 64 bit words;
    \<^verbatim>\<open>Sha256_Correct\<close>: it is the FIPS 180-4 digest of the file, however the reads split it;
    \<^verbatim>\<open>Sha256_Constants\<close>: its tables are the roots of primes the standard prescribes.
  \<^item> \<^verbatim>\<open>State_Records\<close>, \<^verbatim>\<open>Memory_Store\<close> (\<^verbatim>\<open>StateRecords\<close>, \<^verbatim>\<open>MemoryStateStore\<close>): the record \<open>store\<close> with one field
    per member and one definition per method; \<^verbatim>\<open>Memory_Laws\<close>: claiming refines an abstract choice
    of the oldest claimable job and keeps tenants and users apart.
  \<^item> \<^verbatim>\<open>Client_Auth\<close>, \<^verbatim>\<open>Http_Routes\<close>, \<^verbatim>\<open>Platform_Ops\<close>, \<^verbatim>\<open>Platform_Config\<close>, \<^verbatim>\<open>Router_Support\<close>: certificate identities,
    roles and external identities; route matching and the two route catalogs; rate limiter
    and metrics; configuration; request validation and responses.
  \<^item> \<^verbatim>\<open>Source_Policy\<close> (the pure part of \<^verbatim>\<open>SourceFetch.cpp\<close>), \<^verbatim>\<open>Job_Queue\<close> (\<^verbatim>\<open>JobQueue.cpp\<close>) and
    \<^verbatim>\<open>Workspace_Plane\<close> (\<^verbatim>\<open>WorkspaceControlPlane.cpp\<close>): submission rules and every workspace handler as a
    function on the router's state that returns a response or the exception that leaves it.
    \<^verbatim>\<open>Workspace_Steps\<close> shows each handler to be a sequence of store steps, an inductive relation;
    \<^verbatim>\<open>Workspace_Runs\<close> interprets \<open>evolving_system\<close> on the dispatched requests and draws the
    properties of whole runs: consistency of the store, a job claimed at most once, the
    binding of containers, append-only event logs.
  \<^item> \<^verbatim>\<open>Object_Keys\<close> (\<^verbatim>\<open>ObjectStore.cpp\<close>): object keys, URLs, request signing and the client's calls.
  \<^item> \<^verbatim>\<open>Registry_Ids\<close> (\<^verbatim>\<open>RegistryIdentifiers.hpp\<close>), \<^verbatim>\<open>Registry_Tokens\<close> (\<^verbatim>\<open>RegistryOwnerTokenHandlers.cpp\<close>, part of
    \<^verbatim>\<open>RegistryControlPlane.cpp\<close>): package names, patterns and versions; write authorization, owners,
    publish tokens and the audit trail: tokens grant what was asked for until revoked, and
    every mutation attempt is recorded.
  \<^item> \<^verbatim>\<open>Registry_Tree\<close> (\<^verbatim>\<open>RegistryIndexStore.hpp\<close>): a directory tree as an ordered map from paths to files and directories, the
    operations of \<^verbatim>\<open>std::filesystem\<close> on it, and the index, the log and the copies of the read plane as actions on it;
    \<^verbatim>\<open>Registry_Trust\<close> (\<^verbatim>\<open>RegistryTrustMetadata.hpp\<close>): role keys, signatures and the signed metadata; \<^verbatim>\<open>Registry_Publish\<close>
    (\<^verbatim>\<open>RegistryPublishWorkflow.hpp\<close>, \<^verbatim>\<open>RegistryObjectStoreSync.hpp\<close>, \<^verbatim>\<open>CreateRegistryPublication\<close>); \<^verbatim>\<open>Registry_Plane\<close>
    (\<^verbatim>\<open>RegistryPackageHandlers.cpp\<close>) and \<^verbatim>\<open>Registry_Repositories\<close> (\<^verbatim>\<open>RegistryRepositoryHandlers.cpp\<close>, \<^verbatim>\<open>ReleaseManager.cpp\<close>,
    \<^verbatim>\<open>MirrorSync.cpp\<close>, status and descriptor): every handler of the registry on the router's state with a tree.
  \<^item> \<^verbatim>\<open>Tree_Laws\<close>, \<^verbatim>\<open>Subtrees\<close>, \<^verbatim>\<open>Read_Plane\<close>, \<^verbatim>\<open>Json_Codec\<close>: laws of the trees; the contents of a directory, what copies, moves
    and removals do to them, and the locale \<open>entry_copier\<close> of the loops that copy the read plane; a JSON codec that
    satisfies the laws assumed of the library, for concrete runs.
  \<^item> \<^verbatim>\<open>Registry_Append\<close>: adding a release appends to index and log and is read back; \<^verbatim>\<open>Registry_Log\<close>: the root hash of the log
    binds its leaves; \<^verbatim>\<open>Registry_Immutable\<close>, \<^verbatim>\<open>Registry_Runs\<close>: what each operation keeps of the files, by the locale \<open>frame\<close>;
    \<^verbatim>\<open>Mirror_Faithful\<close>: a mirrored publication equals its source, is verified and served.
  \<^item> \<^verbatim>\<open>Governance\<close>, \<^verbatim>\<open>Governance_Plans\<close> (\<^verbatim>\<open>EcosystemManager.cpp\<close>, \<^verbatim>\<open>DocumentationGovernance.cpp\<close> and their routes): the catalogs and
    the plans, which name every repository and every changed path; \<^verbatim>\<open>Recovery\<close>, \<^verbatim>\<open>Recovery_Roundtrip\<close>
    (\<^verbatim>\<open>RecoveryManager.cpp\<close>, \<^verbatim>\<open>OpsRoutes.cpp\<close>): snapshots, and that restoring one brings the tree back.
  \<^item> \<^verbatim>\<open>Platform_Router\<close> (\<^verbatim>\<open>Router.cpp\<close>, part of \<^verbatim>\<open>OpsRoutes.cpp\<close>): admission, limiting and dispatch of every
    operation: guarded, complete, and harmless for anonymous callers. \<^verbatim>\<open>Whole_Platform\<close>: the dispatch with the models of
    all handlers in it, and what holds of whole sequences of requests: publications are immutable.
  \<^item> \<^verbatim>\<open>Posix_Path\<close>: \<^verbatim>\<open>std::filesystem::path\<close> on POSIX; \<^verbatim>\<open>Cache_Paths\<close> (\<^verbatim>\<open>CachePaths.cpp\<close>): where caches lie and the
    search for toolchain files, which ends at the nearest one. \<^verbatim>\<open>Os_Process\<close>
    (\<^verbatim>\<open>OperatingSystemAdapter.cpp\<close>): the loop that collects a child's output, for every sequence of
    kernel answers. \<^verbatim>\<open>Os_World\<close>: files and run commands as the state \<open>os_world\<close>, with a small
    calculus for the commands an operation may run.
  \<^item> \<^verbatim>\<open>Toolchain_State\<close> (\<^verbatim>\<open>Toolchain/Vocabulary.hpp\<close>, \<^verbatim>\<open>Toolchain/State.cpp\<close>): the toolchain of a project: what is written is read back;
    \<^verbatim>\<open>Source_Build\<close> (\<^verbatim>\<open>Toolchain/SourceBuild.cpp\<close>): the compiler built from a source tree, without network when offline.
  \<^item> \<^verbatim>\<open>Cloud_Jobs\<close> (\<^verbatim>\<open>SpioPlatformProtocols/Execution.cpp\<close>, \<^verbatim>\<open>Contract.cpp\<close>, \<^verbatim>\<open>Job.cpp\<close>): where a cloud job may run and the request
    the client makes of it: shared workers are for trusted jobs only; the job queue accepts every request the client makes,
    and puts it into the default pool whatever pool it names. \<^verbatim>\<open>Project_Graph\<close> (\<^verbatim>\<open>ProjectGraphContract.cpp\<close>): the
    description of a resolved project for tools.
  \<^item> \<^verbatim>\<open>Toml_Value\<close>, \<^verbatim>\<open>Manifest\<close>, \<^verbatim>\<open>Manifest_Correct\<close>, \<^verbatim>\<open>Lockfile\<close> (\<^verbatim>\<open>Manifest.cpp\<close>, \<^verbatim>\<open>Lockfile.cpp\<close>): reading, validation and
    canonical text: what loads is well formed, what is written is read back.
  \<^item> \<^verbatim>\<open>Source_Fetch\<close> (\<^verbatim>\<open>SourceFetch.cpp\<close>), \<^verbatim>\<open>Registry_Security\<close>, \<^verbatim>\<open>Registry_Client\<close> (\<^verbatim>\<open>RegistryClient\<close>): snapshots of
    repositories and packages of a registry: digests are checked, offline means no network.
  \<^item> \<^verbatim>\<open>Resolver\<close> (\<^verbatim>\<open>Resolver.cpp\<close>), \<^verbatim>\<open>Resolver_Graph\<close>, \<^verbatim>\<open>Resolver_Correct\<close>, \<^verbatim>\<open>Resolver_Runs\<close>: the depth-first resolution,
    the invariant of its graph, the result, and what holds of every run; the locale
    \<open>resolver_relation\<close> carries a relation between worlds through the whole resolution.
  \<^item> \<^verbatim>\<open>Compile_Plan\<close>, \<^verbatim>\<open>Compile_Plan_Correct\<close> (\<^verbatim>\<open>CompilePlan.cpp\<close>): targets, package order and the plan document; the order is
    topological, every cycle is reported, and a returned plan is the one written.

  \<^bold>\<open>Conventions.\<close> Strings are lists of bytes (\<open>char\<close>); a thrown exception is \<open>Inl\<close>; \<open>const\<close> methods are
  functions of the store, the others return the new store. What lies outside the sources is
  an argument: the methods of the PostgreSQL store (record \<open>postgres\<close>, \<open>None\<close> for the default
  backend), OpenSSL's SHA-256 and HMAC, the TOML and JSON parsers, the effect of running git,
  curl, tar and \<^verbatim>\<open>openssl\<close>, random text and the clock. They come as records: \<open>trust_env\<close> and \<open>plane_env\<close> for the registry, \<open>reg_env\<close>
  and \<open>router_env\<close> for the router. Code on directory trees is written in the monad \<open>sm\<close>, a state and a result, so that what a
  failed operation has done already stays done; the router's outside world is then a \<open>host\<close>, the database beside the tree.
  What is assumed of the JSON library is the predicate \<open>json_laws\<close>, of \<^verbatim>\<open>openssl\<close> \<open>openssl_local\<close>, of the database \<open>db_apart\<close>. Handlers
  on the tree are fields of the record \<open>operations\<close> in \<^verbatim>\<open>Platform_Router\<close>, whose theorems hold for any of them;
  \<open>platform_operations\<close> of \<^verbatim>\<open>Whole_Platform\<close> puts the models there.

  \<^bold>\<open>Bounds.\<close> Counters of the stores are 64 bit words. Runs are bounded by \<open>id_bound\<close>, \<open>2 ^ 64 - 2\<close>
  requests, after which a job id could repeat; ids sort in submission order for the first
  \<open>10 ^ 12\<close>, the width of their zero padding. The rate limiter allows its limit per window and
  at most twice that in any stretch of one window's length. The hash loop is a
  \<open>partial_function\<close>, and its theorems include that it returns. The resolver recurses with fuel,
  and more fuel than there are packages is shown to be enough; the other recursions are total.

  \<^bold>\<open>Not modelled.\<close> The server and the daemon (\<^verbatim>\<open>BeastServer.cpp\<close>, \<^verbatim>\<open>Daemon.cpp\<close>: sockets, TLS, threads, signals), the creation
  of processes and the certificate authority are system calls and libraries. The PostgreSQL store is SQL text sent
  through libpq; its methods are parameters. The worker runs builds as child processes. Symbolic links, permissions,
  concurrent writers and the size of the disk are not part of the directory trees: a tree operation fails only where
  the sources test for it.
\<close>

end
